(* ===== verification/Govibe_Prelude.thy ===== *)
theory Govibe_Prelude
  imports Complex_Main
begin

text \<open>
  Shared vocabulary of the development.

  \<^item> the errors the services raise (\<^verbatim>\<open>src/shared/errors/domain-errors.ts\<close>,
    \<^verbatim>\<open>src/modules/payments/domain/providers/provider-errors.ts\<close>, the Nest exceptions and the
    error classes private to one service);
  \<^item> JSON values as the audit and outbox rows store them;
  \<^item> the runtime a handler reads: its clocks, the UUIDs it draws, the SHA-256 digest, the request
    context;
  \<^item> programs: a handler is a function from the database to a result or an error together with
    the database it leaves; \<open>runInTransaction\<close> undoes the effect of a body that raises;
  \<^item> the queries the repositories are made of (create, update, updateMany, findUnique) over a
    table kept as a list of rows, and the interface \<open>db_table\<close> that says what they promise;
  \<^item> lists of rows: updating the rows that match, sums over a filtered table.
\<close>

named_theorems prog_inv "inversion of a program that ran"
named_theorems prog_run "evaluation of a program step by step"
named_theorems row_lemmas "lists of rows: update, find and sums"

section \<open>JSON values\<close>

text \<open>
  \<open>JDate t\<close> is the ISO rendering of the instant \<open>t\<close> (milliseconds since the epoch).
  \<open>JUndefined\<close> is a property whose value is \<open>undefined\<close>. A number is \<open>JNum n\<close> when it is an integer,
  \<open>JDec r\<close> when it is not.
\<close>

datatype json =
    JNull
  | JUndefined
  | JBool bool
  | JNum int
  | JDec rat
  | JStr string
  | JDate int
  | JArr "json list"
  | JObj "(string \<times> json) list"

section \<open>Errors\<close>

datatype app_error =
    DomainConflictError string
  | NotFoundError string
  | InvalidStateTransitionError string
  | IdempotencyConflictError string
  | PaymentAlreadyProcessedError string
  | InventoryUnavailableError string
  | ReplayDetectedError string
  | LaunchControlDisabledError string
  | LaunchControlViolationError string
  | ProviderAuthError string string
  | ProviderTimeoutError string string
  | ProviderNetworkError string string
  | ProviderResponseError string string int string "json option"
  | WebhookSignatureError string string
  | BadRequestException string
  | UnauthorizedException string
  | ForbiddenException string
  | NotFoundException string
  | ConflictException string
  | InternalServerErrorException string
  | PrismaClientKnownRequestError string
  | TransactionAborted
  | HoldRejectionError int string string string string "string option" "string option" string
  | RefreshReplayError string string
  | OtherError string string

text \<open>
  \<open>error.message\<close>. The text of a client error is the library's and of an aborted transaction the
  server's; the code stands for it, and the program only copies it into audit rows.
\<close>

fun error_message :: "app_error \<Rightarrow> string" where
  "error_message (DomainConflictError m) = m"
| "error_message (NotFoundError m) = m"
| "error_message (InvalidStateTransitionError m) = m"
| "error_message (IdempotencyConflictError m) = m"
| "error_message (PaymentAlreadyProcessedError m) = m"
| "error_message (InventoryUnavailableError m) = m"
| "error_message (ReplayDetectedError m) = m"
| "error_message (LaunchControlDisabledError m) = m"
| "error_message (LaunchControlViolationError m) = m"
| "error_message (ProviderAuthError p m) = m"
| "error_message (ProviderTimeoutError p m) = m"
| "error_message (ProviderNetworkError p m) = m"
| "error_message (ProviderResponseError p c n m d) = m"
| "error_message (WebhookSignatureError p m) = m"
| "error_message (BadRequestException m) = m"
| "error_message (UnauthorizedException m) = m"
| "error_message (ForbiddenException m) = m"
| "error_message (NotFoundException m) = m"
| "error_message (ConflictException m) = m"
| "error_message (InternalServerErrorException m) = m"
| "error_message (PrismaClientKnownRequestError c) = c"
| "error_message TransactionAborted = []"
| "error_message (HoldRejectionError n a b c d e f g) = a"
| "error_message (RefreshReplayError a b) = a"
| "error_message (OtherError n m) = m"

text \<open>\<open>error.name\<close>: the class for the errors that set it and for the Nest exceptions, \<open>Error\<close> else.\<close>

fun error_name :: "app_error \<Rightarrow> string" where
  "error_name (ProviderAuthError p m) = ''ProviderAuthError''"
| "error_name (ProviderTimeoutError p m) = ''ProviderTimeoutError''"
| "error_name (ProviderNetworkError p m) = ''ProviderNetworkError''"
| "error_name (ProviderResponseError p c n m d) = ''ProviderResponseError''"
| "error_name (WebhookSignatureError p m) = ''WebhookSignatureError''"
| "error_name (BadRequestException m) = ''BadRequestException''"
| "error_name (UnauthorizedException m) = ''UnauthorizedException''"
| "error_name (ForbiddenException m) = ''ForbiddenException''"
| "error_name (NotFoundException m) = ''NotFoundException''"
| "error_name (ConflictException m) = ''ConflictException''"
| "error_name (InternalServerErrorException m) = ''InternalServerErrorException''"
| "error_name (PrismaClientKnownRequestError c) = ''PrismaClientKnownRequestError''"
| "error_name (RefreshReplayError a b) = ''RefreshReplayError''"
| "error_name (OtherError n m) = n"
| "error_name e = ''Error''"

section \<open>Request data\<close>

text \<open>A JavaScript number as the guards see it: an integer, or anything else.\<close>

datatype js_number = IntegerNum int | NonIntegerNum

definition truthy :: "string option \<Rightarrow> bool" where
  "truthy v = (case v of None \<Rightarrow> False | Some x \<Rightarrow> x \<noteq> [])"

definition jopt :: "string option \<Rightarrow> json" where
  "jopt v = (case v of None \<Rightarrow> JNull | Some x \<Rightarrow> JStr x)"

lemma truthy_iff: "truthy v \<longleftrightarrow> (\<exists>x. v = Some x \<and> x \<noteq> [])"
  by (simp add: truthy_def split: option.splits)

lemma truthy_simps [simp]: "\<not> truthy None" "truthy (Some x) \<longleftrightarrow> x \<noteq> []"
  by (simp_all add: truthy_def)

text \<open>
  What the runtime supplies to one handler call: the application clock (\<open>new Date()\<close>), the
  clock of the database transaction (\<open>NOW()\<close>), the UUIDs it draws in order, SHA-256, and
  whether the transaction of the database stays usable after one of its statements failed
  (PostgreSQL: it does not, unless the statement ran under a savepoint).
\<close>

record env =
  app_now :: int
  db_now :: int
  uuid :: "nat \<Rightarrow> string"
  sha256 :: "string \<Rightarrow> string"
  tx_usable_after_error :: bool

record request_ctx =
  ctx_correlationId :: string
  ctx_requestId :: string
  ctx_userId :: "string option"
  ctx_deviceId :: "string option"
  ctx_organizerId :: "string option"
  ctx_ipAddress :: "string option"
  ctx_userAgent :: "string option"

section \<open>Programs\<close>

type_synonym ('s, 'a) prog = "'s \<Rightarrow> (app_error + 'a) \<times> 's"

definition ret :: "'a \<Rightarrow> ('s, 'a) prog" where
  "ret x = (\<lambda>s. (Inr x, s))"

definition throw :: "app_error \<Rightarrow> ('s, 'a) prog" where
  "throw e = (\<lambda>s. (Inl e, s))"

definition bindp :: "('s, 'a) prog \<Rightarrow> ('a \<Rightarrow> ('s, 'b) prog) \<Rightarrow> ('s, 'b) prog" where
  "bindp m f = (\<lambda>s. case m s of (Inl e, s') \<Rightarrow> (Inl e, s') | (Inr x, s') \<Rightarrow> f x s')"

definition seqp :: "('s, 'a) prog \<Rightarrow> ('s, 'b) prog \<Rightarrow> ('s, 'b) prog" where
  "seqp m k = bindp m (\<lambda>_. k)"

definition catchp :: "('s, 'a) prog \<Rightarrow> (app_error \<Rightarrow> ('s, 'a) prog) \<Rightarrow> ('s, 'a) prog" where
  "catchp m h = (\<lambda>s. case m s of (Inl e, s') \<Rightarrow> h e s' | (Inr x, s') \<Rightarrow> (Inr x, s'))"

definition runInTransaction :: "('s, 'a) prog \<Rightarrow> ('s, 'a) prog" where
  "runInTransaction m = (\<lambda>s. case m s of (Inl e, s') \<Rightarrow> (Inl e, s) | (Inr x, s') \<Rightarrow> (Inr x, s'))"

text \<open>The statements that follow a failed one inside the same transaction.\<close>

definition after_failed_statement :: "env \<Rightarrow> ('s, 'a) prog \<Rightarrow> ('s, 'a) prog" where
  "after_failed_statement E m = (if tx_usable_after_error E then m else throw TransactionAborted)"

fun for_each :: "('a \<Rightarrow> ('s, unit) prog) \<Rightarrow> 'a list \<Rightarrow> ('s, unit) prog" where
  "for_each f [] = ret ()"
| "for_each f (x # xs) = seqp (f x) (for_each f xs)"

lemma ret_apply [simp]: "ret x s = (Inr x, s)"
  by (simp add: ret_def)

lemma throw_apply [simp]: "throw e s = (Inl e, s)"
  by (simp add: throw_def)

lemma bindp_run [prog_run]:
  "m s = (Inr x, s1) \<Longrightarrow> bindp m f s = f x s1"
  "m s = (Inl e, s1) \<Longrightarrow> bindp m f s = (Inl e, s1)"
  by (simp_all add: bindp_def)

lemma bindp_ret [simp]: "bindp (ret x) f = f x"
  by (simp add: bindp_def fun_eq_iff)

lemma bindp_throw [simp]: "bindp (throw e) f = throw e"
  by (simp add: bindp_def fun_eq_iff)

lemma bindp_Inr [prog_inv]:
  "bindp m f s = (Inr y, s') \<longleftrightarrow> (\<exists>x s1. m s = (Inr x, s1) \<and> f x s1 = (Inr y, s'))"
  by (auto simp: bindp_def split: prod.splits sum.splits)

lemma bindp_Inl [prog_inv]:
  "bindp m f s = (Inl e, s') \<longleftrightarrow>
     m s = (Inl e, s') \<or> (\<exists>x s1. m s = (Inr x, s1) \<and> f x s1 = (Inl e, s'))"
  by (auto simp: bindp_def split: prod.splits sum.splits)

lemma seqp_run [prog_run]:
  "m s = (Inr x, s1) \<Longrightarrow> seqp m k s = k s1"
  "m s = (Inl e, s1) \<Longrightarrow> seqp m k s = (Inl e, s1)"
  by (simp_all add: seqp_def bindp_def)

lemma seqp_ret [simp]: "seqp (ret x) k = k"
  by (simp add: seqp_def)

lemma seqp_Inr [prog_inv]:
  "seqp m k s = (Inr y, s') \<longleftrightarrow> (\<exists>x s1. m s = (Inr x, s1) \<and> k s1 = (Inr y, s'))"
  by (simp add: seqp_def bindp_Inr)

lemma seqp_Inl [prog_inv]:
  "seqp m k s = (Inl e, s') \<longleftrightarrow>
     m s = (Inl e, s') \<or> (\<exists>x s1. m s = (Inr x, s1) \<and> k s1 = (Inl e, s'))"
  by (simp add: seqp_def bindp_Inl)

lemma catchp_run [prog_run]:
  "m s = (Inr x, s1) \<Longrightarrow> catchp m h s = (Inr x, s1)"
  "m s = (Inl e, s1) \<Longrightarrow> catchp m h s = h e s1"
  by (simp_all add: catchp_def)

lemma catchp_Inr [prog_inv]:
  "catchp m h s = (Inr y, s') \<longleftrightarrow>
     m s = (Inr y, s') \<or> (\<exists>e s1. m s = (Inl e, s1) \<and> h e s1 = (Inr y, s'))"
  by (auto simp: catchp_def split: prod.splits sum.splits)

lemma catchp_Inl [prog_inv]:
  "catchp m h s = (Inl e, s') \<longleftrightarrow> (\<exists>e1 s1. m s = (Inl e1, s1) \<and> h e1 s1 = (Inl e, s'))"
  by (auto simp: catchp_def split: prod.splits sum.splits)

lemma tx_run [prog_run]:
  "m s = (Inr x, s1) \<Longrightarrow> runInTransaction m s = (Inr x, s1)"
  "m s = (Inl e, s1) \<Longrightarrow> runInTransaction m s = (Inl e, s)"
  by (simp_all add: runInTransaction_def)

lemma tx_Inr [prog_inv]: "runInTransaction m s = (Inr y, s') \<longleftrightarrow> m s = (Inr y, s')"
  by (auto simp: runInTransaction_def split: prod.splits sum.splits)

lemma tx_Inl [prog_inv]:
  "runInTransaction m s = (Inl e, s') \<longleftrightarrow> s' = s \<and> (\<exists>s1. m s = (Inl e, s1))"
  by (auto simp: runInTransaction_def split: prod.splits sum.splits)

lemma if_apply [prog_inv, prog_run]: "(if c then m else k) s = (if c then m s else k s)"
  by simp

lemma tx_rollback: "fst (runInTransaction m s) = Inl e \<Longrightarrow> snd (runInTransaction m s) = s"
  by (auto simp: runInTransaction_def split: prod.splits sum.splits)

text \<open>
  A property of the database every run keeps, and the rules that carry it through a program. A
  transaction keeps it when every body that commits does.
\<close>

definition keeps :: "('s \<Rightarrow> bool) \<Rightarrow> ('s, 'a) prog \<Rightarrow> bool" where
  "keeps I m \<longleftrightarrow> (\<forall>s. I s \<longrightarrow> I (snd (m s)))"

lemma keepsI: "(\<And>s r s'. I s \<Longrightarrow> m s = (r, s') \<Longrightarrow> I s') \<Longrightarrow> keeps I m"
  unfolding keeps_def by (metis prod.collapse)

lemma keepsD: "keeps I m \<Longrightarrow> I s \<Longrightarrow> m s = (r, s') \<Longrightarrow> I s'"
  unfolding keeps_def by (metis snd_conv)

lemma keeps_ret [intro]: "keeps I (ret x)"
  by (simp add: keeps_def)

lemma keeps_throw [intro]: "keeps I (throw e)"
  by (simp add: keeps_def)

lemma keeps_bindp: "keeps I m \<Longrightarrow> (\<And>x. keeps I (f x)) \<Longrightarrow> keeps I (bindp m f)"
  by (fastforce simp: keeps_def bindp_def split: prod.splits sum.splits)

lemma keeps_seqp: "keeps I m \<Longrightarrow> keeps I k \<Longrightarrow> keeps I (seqp m k)"
  by (simp add: seqp_def keeps_bindp)

lemma keeps_catchp: "keeps I m \<Longrightarrow> (\<And>e. keeps I (h e)) \<Longrightarrow> keeps I (catchp m h)"
  by (fastforce simp: keeps_def catchp_def split: prod.splits sum.splits)

lemma keeps_tx:
  "(\<And>s x s'. I s \<Longrightarrow> m s = (Inr x, s') \<Longrightarrow> I s') \<Longrightarrow> keeps I (runInTransaction m)"
  by (auto simp: keeps_def runInTransaction_def split: prod.splits sum.splits)

lemma keeps_tx_body: "keeps I m \<Longrightarrow> keeps I (runInTransaction m)"
  by (rule keeps_tx) (rule keepsD)

lemma keeps_for_each: "(\<And>x. x \<in> set xs \<Longrightarrow> keeps I (f x)) \<Longrightarrow> keeps I (for_each f xs)"
  by (induction xs) (auto intro: keeps_seqp)

text \<open>Programs that only read.\<close>

definition readonly :: "('s, 'a) prog \<Rightarrow> bool" where
  "readonly m \<longleftrightarrow> (\<forall>s. snd (m s) = s)"

lemma readonlyD: "readonly m \<Longrightarrow> m s = (r, s') \<Longrightarrow> s' = s"
  unfolding readonly_def by (metis snd_conv)

lemma readonly_snd: "readonly m \<Longrightarrow> snd (m s) = s"
  by (simp add: readonly_def)

lemma readonly_ret [intro]: "readonly (ret x)"
  by (simp add: readonly_def)

lemma readonly_throw [intro]: "readonly (throw e)"
  by (simp add: readonly_def)

lemma readonly_bindp [intro]: "readonly m \<Longrightarrow> (\<And>x. readonly (f x)) \<Longrightarrow> readonly (bindp m f)"
proof -
  assume m: "readonly m" and f: "\<And>x. readonly (f x)"
  have "snd (bindp m f s) = s" for s
    using readonly_snd [OF m, of s] readonly_snd [OF f]
    by (cases "m s"; cases "fst (m s)") (auto simp: bindp_def)
  then show "readonly (bindp m f)" by (simp add: readonly_def)
qed

lemma readonly_seqp [intro]: "readonly m \<Longrightarrow> readonly k \<Longrightarrow> readonly (seqp m k)"
  by (simp add: seqp_def readonly_bindp)

lemma readonly_if [intro]: "readonly m \<Longrightarrow> readonly k \<Longrightarrow> readonly (if c then m else k)"
  by simp

lemma readonly_option [intro]:
  "readonly m \<Longrightarrow> (\<And>x. readonly (f x)) \<Longrightarrow> readonly (case v of None \<Rightarrow> m | Some x \<Rightarrow> f x)"
  by (cases v) auto

lemma readonly_tx [intro]: "readonly m \<Longrightarrow> readonly (runInTransaction m)"
  unfolding readonly_def runInTransaction_def
  by (auto split: prod.splits sum.splits) (metis snd_conv)

lemma keeps_if: "keeps I m \<Longrightarrow> keeps I k \<Longrightarrow> keeps I (if c then m else k)"
  by simp

lemma keeps_option: "keeps I m \<Longrightarrow> (\<And>x. keeps I (f x)) \<Longrightarrow> keeps I (case v of None \<Rightarrow> m | Some x \<Rightarrow> f x)"
  by (cases v) auto

lemma keeps_sum: "(\<And>e. keeps I (m e)) \<Longrightarrow> (\<And>x. keeps I (f x)) \<Longrightarrow> keeps I (case v of Inl e \<Rightarrow> m e | Inr x \<Rightarrow> f x)"
  by (cases v) auto

lemma keeps_prod: "(\<And>a b. keeps I (f a b)) \<Longrightarrow> keeps I (case v of (a, b) \<Rightarrow> f a b)"
  by (cases v) auto

lemma keeps_after: "keeps I m \<Longrightarrow> keeps I (after_failed_statement E m)"
  by (simp add: after_failed_statement_def keeps_throw)

lemma keeps_readonly: "readonly m \<Longrightarrow> keeps I m"
  by (simp add: keeps_def readonly_def)

section \<open>Rows\<close>

definition upd_where :: "('r \<Rightarrow> bool) \<Rightarrow> ('r \<Rightarrow> 'r) \<Rightarrow> 'r list \<Rightarrow> 'r list" where
  "upd_where p f rs = map (\<lambda>r. if p r then f r else r) rs"

lemma upd_where_simps [simp]:
  "upd_where p f [] = []"
  "upd_where p f (r # rs) = (if p r then f r else r) # upd_where p f rs"
  by (simp_all add: upd_where_def)

lemma upd_where_append [simp]: "upd_where p f (xs @ ys) = upd_where p f xs @ upd_where p f ys"
  by (simp add: upd_where_def)

lemma length_upd_where [simp]: "length (upd_where p f rs) = length rs"
  by (simp add: upd_where_def)

lemma set_upd_where: "set (upd_where p f rs) = (\<lambda>r. if p r then f r else r) ` set rs"
  by (simp add: upd_where_def)

lemma upd_where_mem: "r \<in> set rs \<Longrightarrow> (if p r then f r else r) \<in> set (upd_where p f rs)"
  by (simp add: set_upd_where)

lemma upd_where_id: "(\<And>r. r \<in> set rs \<Longrightarrow> \<not> p r) \<Longrightarrow> upd_where p f rs = rs"
  by (simp add: upd_where_def map_idI)

lemma upd_where_key_absent: "x \<notin> k ` set rs \<Longrightarrow> upd_where (\<lambda>r. k r = x) f rs = rs"
  by (rule upd_where_id) auto

lemma upd_where_cong:
  "(\<And>r. r \<in> set rs \<Longrightarrow> p r = q r) \<Longrightarrow> (\<And>r. r \<in> set rs \<Longrightarrow> q r \<Longrightarrow> f r = g r) \<Longrightarrow>
     upd_where p f rs = upd_where q g rs"
  by (simp add: upd_where_def)

lemma upd_where_upd_where:
  "(\<And>r. f (f r) = f r) \<Longrightarrow> (\<And>r. p (f r) = p r) \<Longrightarrow>
     upd_where p f (upd_where q f rs) = upd_where (\<lambda>r. p r \<or> q r) f rs"
  by (auto simp: upd_where_def)

lemma upd_where_False [simp]: "upd_where (\<lambda>r. False) f rs = rs"
  by (simp add: upd_where_def)

lemma map_key_upd_where [row_lemmas]:
  "(\<And>r. k (f r) = k r) \<Longrightarrow> map k (upd_where p f rs) = map k rs"
  by (simp add: upd_where_def comp_def if_distrib cong: if_cong)

lemma find_append: "find p (xs @ ys) = (case find p xs of None \<Rightarrow> find p ys | Some x \<Rightarrow> Some x)"
  by (induction xs) auto

lemma find_Some_iff2: "find p xs = Some x \<Longrightarrow> x \<in> set xs \<and> p x"
  by (induction xs) (auto split: if_splits)

lemma list_ex_key: "list_ex (\<lambda>r. k r = x) rs \<longleftrightarrow> x \<in> k ` set rs"
  by (auto simp: list_ex_iff)

lemma list_ex_key2: "list_ex (\<lambda>r. x = k r) rs \<longleftrightarrow> x \<in> k ` set rs"
  by (auto simp: list_ex_iff)

lemma find_None_list_ex: "find p xs = None \<longleftrightarrow> \<not> list_ex p xs"
  by (induction xs) auto

lemma find_key_absent: "x \<notin> k ` set rs \<Longrightarrow> find (\<lambda>r. k r = x) rs = None"
  by (auto simp: find_None_list_ex list_ex_key)

lemma find_key_present: "x \<in> k ` set rs \<Longrightarrow> \<exists>r. find (\<lambda>r. k r = x) rs = Some r \<and> r \<in> set rs \<and> k r = x"
  by (induction rs) auto

lemma find_distinct_key:
  assumes "distinct (map k rs)" and "r \<in> set rs"
  shows "find (\<lambda>x. k x = k r) rs = Some r"
  using assms by (induction rs) (auto simp: rev_image_eqI)

lemma find_upd_where_key:
  "(\<And>r. k (f r) = k r) \<Longrightarrow>
     find (\<lambda>r. k r = i) (upd_where (\<lambda>r. k r = j) f rs) =
       (if i = j then map_option f (find (\<lambda>r. k r = i) rs) else find (\<lambda>r. k r = i) rs)"
  by (induction rs) auto

lemma find_upd_where_same:
  "(\<And>r. p r \<Longrightarrow> q (f r) = q r) \<Longrightarrow>
     find q (upd_where p f rs) = map_option (\<lambda>r. if p r then f r else r) (find q rs)"
  by (induction rs) auto

lemma distinct_key_unique:
  "distinct (map k rs) \<Longrightarrow> x \<in> set rs \<Longrightarrow> y \<in> set rs \<Longrightarrow> k x = k y \<Longrightarrow> x = y"
  by (metis find_distinct_key option.inject)

lemma distinct_key_append:
  "distinct (map k (rs @ [r])) \<longleftrightarrow> distinct (map k rs) \<and> \<not> list_ex (\<lambda>x. k x = k r) rs"
  by (auto simp: list_ex_iff) (metis image_eqI)

lemma filter_upd_where:
  "(\<And>r. p r \<Longrightarrow> q (f r) = q r) \<Longrightarrow> filter q (upd_where p f rs) = upd_where p f (filter q rs)"
  by (induction rs) auto

text \<open>The sum of a column over the rows that match, as \<open>SELECT COALESCE(SUM(c), 0) \<dots> WHERE p\<close>.\<close>

definition sum_where :: "('r \<Rightarrow> bool) \<Rightarrow> ('r \<Rightarrow> int) \<Rightarrow> 'r list \<Rightarrow> int" where
  "sum_where p c rs = sum_list (map c (filter p rs))"

lemma sum_where_simps [simp]:
  "sum_where p c [] = 0"
  "sum_where p c (r # rs) = (if p r then c r else 0) + sum_where p c rs"
  "sum_where p c (xs @ ys) = sum_where p c xs + sum_where p c ys"
  by (simp_all add: sum_where_def)

lemma sum_where_nonneg: "(\<And>r. r \<in> set rs \<Longrightarrow> 0 \<le> c r) \<Longrightarrow> 0 \<le> sum_where p c rs"
  by (induction rs) (auto simp: add_nonneg_nonneg)

lemma sum_where_mono:
  assumes "\<And>r. r \<in> set rs \<Longrightarrow> 0 \<le> c r" and "\<And>r. r \<in> set rs \<Longrightarrow> p r \<Longrightarrow> q r"
  shows "sum_where p c rs \<le> sum_where q c rs"
  using assms by (induction rs) (auto simp: add_nonneg_nonneg add_increasing)

lemma sum_where_cong:
  "(\<And>r. r \<in> set rs \<Longrightarrow> p r = q r) \<Longrightarrow> sum_where p c rs = sum_where q c rs"
  by (induction rs) auto

text \<open>Switching the single row with a given key out of the sum takes its value off.\<close>

lemma sum_where_switch_off:
  assumes "distinct (map k rs)" and "r \<in> set rs" and "k r = i"
    and "\<And>x. k (f x) = k x" and "\<And>x. \<not> p (f x)"
  shows "sum_where p c (upd_where (\<lambda>x. k x = i) f rs) = sum_where p c rs - (if p r then c r else 0)"
  using assms
proof (induction rs)
  case Nil
  then show ?case by simp
next
  case (Cons y ys)
  show ?case
  proof (cases "k y = i")
    case True
    with Cons.prems have "r = y" and "\<And>x. x \<in> set ys \<Longrightarrow> k x \<noteq> i"
      by (auto simp: rev_image_eqI)
    then have "upd_where (\<lambda>x. k x = i) f ys = ys" by (auto intro: upd_where_id)
    with True \<open>r = y\<close> Cons.prems(5) show ?thesis by simp
  next
    case False
    with Cons show ?thesis by auto
  qed
qed

section \<open>Tables and their queries\<close>

text \<open>
  A table is a field of the database that holds a list of rows, \<open>get\<close> reads it and \<open>upd\<close>
  changes it. The queries of the repositories: \<open>create\<close> fails with \<open>P2002\<close> when a row clashes
  on a unique key, \<open>update\<close> fails with \<open>P2025\<close> when there is no row, \<open>updateMany\<close> returns how
  many rows it changed.
\<close>

definition prisma_create ::
  "('s \<Rightarrow> 'r list) \<Rightarrow> (('r list \<Rightarrow> 'r list) \<Rightarrow> 's \<Rightarrow> 's) \<Rightarrow> ('r \<Rightarrow> 'r \<Rightarrow> bool) \<Rightarrow> 'r \<Rightarrow> ('s, 'r) prog" where
  "prisma_create get upd clash row = (\<lambda>s.
     if list_ex (clash row) (get s) then throw (PrismaClientKnownRequestError ''P2002'') s
     else ret row (upd (\<lambda>rs. rs @ [row]) s))"

definition prisma_update ::
  "('s \<Rightarrow> 'r list) \<Rightarrow> (('r list \<Rightarrow> 'r list) \<Rightarrow> 's \<Rightarrow> 's) \<Rightarrow> ('r \<Rightarrow> bool) \<Rightarrow> ('r \<Rightarrow> 'r) \<Rightarrow> ('s, 'r) prog" where
  "prisma_update get upd p f = (\<lambda>s.
     case find p (get s) of
       None \<Rightarrow> throw (PrismaClientKnownRequestError ''P2025'') s
     | Some r \<Rightarrow> ret (f r) (upd (upd_where p f) s))"

text \<open>An update that may violate a unique key: the new row must not clash with another row.\<close>

definition prisma_update_unique ::
  "('s \<Rightarrow> 'r list) \<Rightarrow> (('r list \<Rightarrow> 'r list) \<Rightarrow> 's \<Rightarrow> 's) \<Rightarrow> ('r \<Rightarrow> 'r \<Rightarrow> bool) \<Rightarrow> ('r \<Rightarrow> bool) \<Rightarrow> ('r \<Rightarrow> 'r) \<Rightarrow>
   ('s, 'r) prog" where
  "prisma_update_unique get upd clash p f = (\<lambda>s.
     case find p (get s) of
       None \<Rightarrow> throw (PrismaClientKnownRequestError ''P2025'') s
     | Some r \<Rightarrow>
         if list_ex (\<lambda>x. \<not> p x \<and> clash (f r) x) (get s) then throw (PrismaClientKnownRequestError ''P2002'') s
         else ret (f r) (upd (upd_where p f) s))"

definition prisma_updateMany ::
  "('s \<Rightarrow> 'r list) \<Rightarrow> (('r list \<Rightarrow> 'r list) \<Rightarrow> 's \<Rightarrow> 's) \<Rightarrow> ('r \<Rightarrow> bool) \<Rightarrow> ('r \<Rightarrow> 'r) \<Rightarrow> ('s, nat) prog" where
  "prisma_updateMany get upd p f = (\<lambda>s.
     ret (length (filter p (get s))) (upd (upd_where p f) s))"

definition prisma_find :: "('s \<Rightarrow> 'r list) \<Rightarrow> ('r \<Rightarrow> bool) \<Rightarrow> ('s, 'r option) prog" where
  "prisma_find get p = (\<lambda>s. ret (find p (get s)) s)"

lemma prisma_create_Inr [prog_inv]:
  "prisma_create get upd clash row s = (Inr x, s') \<longleftrightarrow>
     \<not> list_ex (clash row) (get s) \<and> x = row \<and> s' = upd (\<lambda>rs. rs @ [row]) s"
  by (auto simp: prisma_create_def)

lemma prisma_create_Inl [prog_inv]:
  "prisma_create get upd clash row s = (Inl e, s') \<longleftrightarrow>
     list_ex (clash row) (get s) \<and> e = PrismaClientKnownRequestError ''P2002'' \<and> s' = s"
  by (auto simp: prisma_create_def)

lemma prisma_create_run [prog_run]:
  "\<not> list_ex (clash row) (get s) \<Longrightarrow>
     prisma_create get upd clash row s = (Inr row, upd (\<lambda>rs. rs @ [row]) s)"
  "list_ex (clash row) (get s) \<Longrightarrow>
     prisma_create get upd clash row s = (Inl (PrismaClientKnownRequestError ''P2002''), s)"
  by (auto simp: prisma_create_def)

lemma prisma_update_Inr [prog_inv]:
  "prisma_update get upd p f s = (Inr x, s') \<longleftrightarrow>
     (\<exists>r. find p (get s) = Some r \<and> x = f r \<and> s' = upd (upd_where p f) s)"
  by (auto simp: prisma_update_def split: option.splits)

lemma prisma_update_Inl [prog_inv]:
  "prisma_update get upd p f s = (Inl e, s') \<longleftrightarrow>
     find p (get s) = None \<and> e = PrismaClientKnownRequestError ''P2025'' \<and> s' = s"
  by (auto simp: prisma_update_def split: option.splits)

lemma prisma_update_unique_Inr [prog_inv]:
  "prisma_update_unique get upd clash p f s = (Inr x, s') \<longleftrightarrow>
     (\<exists>r. find p (get s) = Some r \<and> \<not> list_ex (\<lambda>y. \<not> p y \<and> clash (f r) y) (get s) \<and> x = f r \<and>
       s' = upd (upd_where p f) s)"
  by (auto simp: prisma_update_unique_def split: option.splits)

lemma prisma_update_unique_Inl:
  "prisma_update_unique get upd clash p f s = (Inl e, s') \<Longrightarrow> s' = s"
  by (auto simp: prisma_update_unique_def split: option.splits if_splits)

lemma prisma_update_run [prog_run]:
  "find p (get s) = Some r \<Longrightarrow> prisma_update get upd p f s = (Inr (f r), upd (upd_where p f) s)"
  "find p (get s) = None \<Longrightarrow>
     prisma_update get upd p f s = (Inl (PrismaClientKnownRequestError ''P2025''), s)"
  by (auto simp: prisma_update_def)

lemma prisma_updateMany_apply [simp]:
  "prisma_updateMany get upd p f s = (Inr (length (filter p (get s))), upd (upd_where p f) s)"
  by (simp add: prisma_updateMany_def)

lemma prisma_find_apply [simp]: "prisma_find get p s = (Inr (find p (get s)), s)"
  by (simp add: prisma_find_def)

lemma readonly_find [intro]: "readonly (prisma_find get p)"
  by (simp add: readonly_def)

lemma keeps_find: "keeps I (prisma_find get p)"
  by (rule keeps_readonly) (rule readonly_find)

lemmas keeps_rules = keeps_ret keeps_throw keeps_bindp keeps_seqp keeps_catchp keeps_tx_body
  keeps_for_each keeps_if keeps_option keeps_sum keeps_prod keeps_after keeps_find

text \<open>
  The interface of a table: reading after a change gives the changed rows. What a client may rely
  on is proved once here and holds for every table of the database.
\<close>

locale db_table =
  fixes get :: "'s \<Rightarrow> 'r list"
    and upd :: "('r list \<Rightarrow> 'r list) \<Rightarrow> 's \<Rightarrow> 's"
  assumes get_upd: "get (upd f s) = f (get s)"
begin

lemma create_then_find:
  assumes "prisma_create get upd clash row s = (Inr x, s')" and "p row"
    and "\<And>r. r \<in> set (get s) \<Longrightarrow> p r \<Longrightarrow> clash row r"
  shows "find p (get s') = Some row"
proof -
  from assms(1) have nc: "\<not> list_ex (clash row) (get s)" and s': "s' = upd (\<lambda>rs. rs @ [row]) s"
    by (auto simp: prog_inv)
  from nc assms(3) have "find p (get s) = None"
    by (auto simp: find_None_list_ex list_ex_iff)
  with assms(2) show ?thesis by (simp add: s' get_upd find_append)
qed

lemma create_keeps_key:
  assumes "prisma_create get upd clash row s = (Inr x, s')"
    and "distinct (map k (get s))" and "\<And>r. k r = k row \<Longrightarrow> clash row r"
  shows "distinct (map k (get s'))"
  using assms by (auto simp: prog_inv get_upd distinct_key_append list_ex_iff)

lemma update_keeps_key:
  assumes "prisma_update get upd p f s = (Inr x, s')"
    and "distinct (map k (get s))" and "\<And>r. k (f r) = k r"
  shows "distinct (map k (get s'))"
  using assms by (auto simp: prog_inv get_upd map_key_upd_where)

lemma update_then_find:
  assumes "prisma_update get upd (\<lambda>r. k r = i) f s = (Inr x, s')" and "\<And>r. k (f r) = k r"
  shows "find (\<lambda>r. k r = i) (get s') = Some x"
  using assms by (auto simp: prog_inv get_upd find_upd_where_key)

end

text \<open>
  Append-only logs (audit rows, outbox events, ledger entries): the interface the services use,
  and that two appends are seen in the order they were made.
\<close>

locale append_log = db_table get upd
  for get :: "'s \<Rightarrow> 'r list" and upd :: "('r list \<Rightarrow> 'r list) \<Rightarrow> 's \<Rightarrow> 's" +
  fixes append :: "'r \<Rightarrow> ('s, unit) prog"
  assumes append_log: "append row s = (Inr x, s') \<Longrightarrow> get s' = get s @ [row]"
    and append_fail: "append row s = (Inl e, s') \<Longrightarrow> s' = s"
begin

lemma append_order:
  assumes "seqp (append a) (append b) s = (Inr x, s')"
  shows "get s' = get s @ [a, b]"
  using assms by (auto simp: prog_inv dest!: append_log)

lemma append_only:
  assumes "append row s = (r, s')"
  shows "\<exists>new. get s' = get s @ new \<and> set new \<subseteq> {row}"
proof (cases r)
  case (Inl e)
  with assms have "s' = s" by (auto dest: append_fail)
  then show ?thesis by (intro exI [of _ "[]"]) simp
next
  case (Inr x)
  with assms have "get s' = get s @ [row]" by (auto dest: append_log)
  then show ?thesis by (intro exI [of _ "[row]"]) simp
qed

end

section \<open>Guarded updates\<close>

text \<open>
  A compare-and-set statement: an \<open>updateMany\<close> whose \<open>where\<close> holds the expected state. Several
  clients race for it; the contract is that a win takes the guard away and that no other step of
  the system gives it back. Then at most one attempt of any run wins.
\<close>

locale guarded_update =
  fixes attempt :: "'i \<Rightarrow> 's \<Rightarrow> bool \<times> 's"
    and other :: "'s \<Rightarrow> 's \<Rightarrow> bool"
    and ok :: "'s \<Rightarrow> bool"
    and open_for :: "'s \<Rightarrow> bool"
  assumes attempt_ok: "ok s \<Longrightarrow> attempt i s = (b, s') \<Longrightarrow> ok s'"
    and other_ok: "ok s \<Longrightarrow> other s s' \<Longrightarrow> ok s'"
    and win_needs_open: "ok s \<Longrightarrow> attempt i s = (True, s') \<Longrightarrow> open_for s"
    and win_closes: "ok s \<Longrightarrow> attempt i s = (True, s') \<Longrightarrow> \<not> open_for s'"
    and lose_keeps: "ok s \<Longrightarrow> attempt i s = (False, s') \<Longrightarrow> \<not> open_for s \<Longrightarrow> \<not> open_for s'"
    and other_keeps: "ok s \<Longrightarrow> other s s' \<Longrightarrow> \<not> open_for s \<Longrightarrow> \<not> open_for s'"
begin

inductive race :: "'s \<Rightarrow> nat \<Rightarrow> 's \<Rightarrow> bool" where
  race_start: "race s 0 s"
| race_win: "race s n t \<Longrightarrow> attempt i t = (True, u) \<Longrightarrow> race s (Suc n) u"
| race_lose: "race s n t \<Longrightarrow> attempt i t = (False, u) \<Longrightarrow> race s n u"
| race_other: "race s n t \<Longrightarrow> other t u \<Longrightarrow> race s n u"

lemma race_ok: "race s n t \<Longrightarrow> ok s \<Longrightarrow> ok t"
  by (induction rule: race.induct) (auto intro: attempt_ok other_ok)

lemma race_wins: "race s n t \<Longrightarrow> ok s \<Longrightarrow> n \<le> 1 \<and> (n = 1 \<longrightarrow> \<not> open_for t)"
proof (induction rule: race.induct)
  case (race_start s)
  then show ?case by simp
next
  case (race_win s n t i u)
  then have "ok t" by (blast intro: race_ok)
  with race_win have "open_for t" and "\<not> open_for u" by (auto dest: win_needs_open win_closes)
  with race_win show ?case by (cases n) auto
next
  case (race_lose s n t i u)
  then have "ok t" by (blast intro: race_ok)
  with race_lose show ?case by (auto dest: lose_keeps)
next
  case (race_other s n t u)
  then have "ok t" by (blast intro: race_ok)
  with race_other show ?case by (auto dest: other_keeps)
qed

lemma at_most_one_win: "ok s \<Longrightarrow> race s n t \<Longrightarrow> n \<le> 1"
  using race_wins by blast

end

section \<open>Transition systems\<close>

text \<open>Reachability and the invariant rule, once for all the state machines of the program.\<close>

locale transition_system =
  fixes start :: "'s \<Rightarrow> bool"
    and step :: "'s \<Rightarrow> 's \<Rightarrow> bool"
    and inv :: "'s \<Rightarrow> bool"
  assumes start_inv: "start s \<Longrightarrow> inv s"
    and step_inv: "step s t \<Longrightarrow> inv s \<Longrightarrow> inv t"
begin

lemma steps_inv: "step\<^sup>*\<^sup>* s t \<Longrightarrow> inv s \<Longrightarrow> inv t"
  by (induction rule: rtranclp_induct) (auto intro: step_inv)

lemma reachable_inv: "start s \<Longrightarrow> step\<^sup>*\<^sup>* s t \<Longrightarrow> inv t"
  by (blast intro: start_inv steps_inv)

end

end
