(* ===== verification/Schema.thy ===== *)
theory Schema
  imports Govibe_Prelude
begin

text \<open>
  The database of \<^verbatim>\<open>prisma/schema.prisma\<close>: its enums, one record per model and the record
  \<open>db\<close> of the tables, each a list of rows. The audit and outbox repositories every
  component writes through are here as well.

  Columns no code of the repository reads back (\<open>updatedAt\<close> everywhere, \<open>createdAt\<close> where
  nothing orders by it) are left out, and so are foreign keys: a row that names a missing parent
  is accepted here, where PostgreSQL refuses it. Instants are milliseconds since the epoch.
\<close>

section \<open>Enums\<close>

datatype AdminActionStatus = SUCCEEDED | REJECTED | FAILED

datatype UserRole = CUSTOMER | ORGANIZER | GATE_STAFF | ADMIN

datatype SessionStatus = ACTIVE | REVOKED | EXPIRED

datatype AuthAuditAction =
    SIGNUP | LOGIN | LOGIN_SUCCESS | LOGIN_FAILED | LOGOUT | REFRESH | REFRESH_SUCCESS
  | REFRESH_FAILED | REFRESH_REPLAY_DETECTED | SESSION_REVOKED | ME_ACCESSED | AUTH_FAILURE
  | EXPIRED_SESSION_DETECTED | PASSWORD_RESET_REQUESTED | PASSWORD_RESET_COMPLETED
  | EMAIL_VERIFICATION_REQUESTED | EMAIL_VERIFIED

datatype OrganizerStatus = DRAFT | PENDING_REVIEW | APPROVED | SUSPENDED | REJECTED

datatype EventStatus = DRAFT | PUBLISHED | CANCELLED | ARCHIVED

datatype EventCategory =
    NIGHTLIFE | CONCERT | FESTIVAL | CAMPUS | CORPORATE | COMMUNITY | SPORTS | ARTS | OTHER

datatype EventVisibility = PRIVATE | UNLISTED | PUBLIC

datatype OrderStatus =
    CREATED | RESERVED | PAYMENT_PENDING | PAID | FULFILLED | COMPLETED | EXPIRED | FAILED | CANCELLED

datatype PaymentStatus = INITIATED | PENDING | SUCCESS | FAILED | REVERSED | REFUNDED

datatype PaymentProvider = PAYSTACK | MTN_MOMO

datatype PaymentIntentStatus = INITIATION_PENDING | INITIATED | INITIATION_FAILED | VERIFIED | FAILED

datatype WebhookProcessingStatus = RECEIVED | VERIFIED | REJECTED | DUPLICATE | PROCESSED | FAILED

datatype TicketStatus =
    ISSUED | ACTIVE | USED | EXITED | INVALIDATED | REFUNDED | BLOCKED | VOIDED | EXPIRED

datatype AdmissionScanStatus = ACCEPTED | REJECTED

datatype AdmissionRejectionReason =
    INVALID_TOKEN | TICKET_NOT_FOUND | TICKET_NOT_ISSUED | TICKET_VOIDED | TICKET_EXPIRED
  | TICKET_ALREADY_USED | EVENT_NOT_ACTIVE | EVENT_MISMATCH | ORGANIZER_MISMATCH
  | TOKEN_REPLAY_DETECTED | STAFF_NOT_AUTHORIZED

datatype ReservationStatus = HELD | EXPIRED | CONSUMED | CANCELLED

datatype VenueTableStatus = ACTIVE | INACTIVE | MAINTENANCE

datatype EventTableStatus = AVAILABLE | HELD | UNAVAILABLE

datatype TableReservationStatus = HELD | EXPIRED | CANCELLED

datatype TableAuditEvent =
    VENUE_TABLE_CREATED | VENUE_TABLE_UPDATED | EVENT_TABLE_CREATED | EVENT_TABLE_UPDATED
  | TABLE_HOLD_CREATED | TABLE_HOLD_EXPIRED | TABLE_HOLD_CANCELLED | TABLE_RESERVATION_REJECTED

datatype AdmissionState = NOT_USED | INSIDE | EXITED | REJECTED | BLOCKED

datatype AdmissionDirection = ENTRY | EXIT

datatype AdmissionEventResult =
    ACCEPTED | REJECTED | CONFLICT_DUPLICATE_OFFLINE_ENTRY | CONFLICT_EXIT_WITHOUT_ENTRY
  | CONFLICT_ALREADY_CONSUMED_ONLINE | BLOCKED

datatype LedgerDirection = DEBIT | CREDIT

section \<open>Models\<close>

record User =
  usr_id :: string
  usr_email :: string
  usr_passwordHash :: string
  usr_role :: UserRole
  usr_isActive :: bool
  usr_emailVerifiedAt :: "int option"

record Organizer =
  org_id :: string
  org_ownerUserId :: string
  org_displayName :: string
  org_slug :: string
  org_description :: "string option"
  org_status :: OrganizerStatus
  org_contactEmail :: "string option"
  org_contactPhone :: "string option"

record Session =
  ses_id :: string
  ses_userId :: string
  ses_refreshTokenHash :: "string option"
  ses_previousRefreshTokenHash :: "string option"
  ses_status :: SessionStatus
  ses_deviceId :: string
  ses_userAgent :: "string option"
  ses_ipAddress :: "string option"
  ses_lastSeenAt :: int
  ses_expiresAt :: int
  ses_revokedAt :: "int option"
  ses_revokedReason :: "string option"
  ses_refreshTokenVersion :: int

record AuthAuditLog =
  aal_userId :: "string option"
  aal_action :: AuthAuditAction
  aal_email :: "string option"
  aal_sessionId :: "string option"
  aal_ipAddress :: "string option"
  aal_userAgent :: "string option"
  aal_success :: bool
  aal_reason :: "string option"
  aal_metadata :: "json option"

record VenueFloorSection =
  vfs_id :: string
  vfs_organizerId :: string
  vfs_name :: string
  vfs_description :: "string option"

record VenueTable =
  vt_id :: string
  vt_organizerId :: string
  vt_floorSectionId :: "string option"
  vt_label :: string
  vt_seatCount :: int
  vt_status :: VenueTableStatus

record Event =
  evt_id :: string
  evt_organizerId :: string
  evt_venueId :: string
  evt_title :: string
  evt_slug :: string
  evt_status :: EventStatus
  evt_visibility :: EventVisibility
  evt_startsAt :: int
  evt_endsAt :: int
  evt_capacityTotal :: "int option"
  evt_paymentEnabled :: bool
  evt_priceMinor :: "int option"
  evt_priceCurrency :: string
  evt_publishedAt :: "int option"
  evt_cancelledAt :: "int option"
  evt_archivedAt :: "int option"
  evt_description :: "string option"
  evt_category :: EventCategory
  evt_timezone :: string
  evt_venueName :: "string option"
  evt_addressLine1 :: "string option"
  evt_addressLine2 :: "string option"
  evt_city :: "string option"
  evt_region :: "string option"
  evt_country :: string
  evt_latitude :: "int option"
  evt_longitude :: "int option"
  evt_capacityHeld :: int

record EventTable =
  et_id :: string
  et_organizerId :: string
  et_eventId :: string
  et_venueTableId :: string
  et_status :: EventTableStatus
  et_priceMinor :: int
  et_currency :: string
  et_holdExpiresAt :: "int option"

record TableReservation =
  tr_id :: string
  tr_actorUserId :: string
  tr_organizerId :: string
  tr_eventId :: string
  tr_eventTableId :: string
  tr_status :: TableReservationStatus
  tr_amountMinor :: int
  tr_currency :: string
  tr_idempotencyUseCase :: string
  tr_idempotencyKeyHash :: string
  tr_requestFingerprintHash :: string
  tr_holdExpiresAt :: int
  tr_cancelledAt :: "int option"
  tr_expiredAt :: "int option"

record TableAuditLog =
  tal_actorUserId :: "string option"
  tal_organizerId :: "string option"
  tal_eventId :: "string option"
  tal_venueTableId :: "string option"
  tal_eventTableId :: "string option"
  tal_reservationId :: "string option"
  tal_event :: TableAuditEvent
  tal_reason :: "string option"
  tal_metadata :: "json option"

record EventTicketInventory =
  inv_id :: string
  inv_eventId :: string
  inv_ticketTypeId :: string
  inv_capacityTotal :: int
  inv_reservedCount :: int
  inv_soldCount :: int

record TicketReservation =
  res_id :: string
  res_ownerUserId :: string
  res_eventId :: string
  res_ticketTypeId :: string
  res_quantity :: int
  res_status :: ReservationStatus
  res_expiresAt :: int

record Order =
  ord_id :: string
  ord_userId :: string
  ord_eventId :: string
  ord_reservationId :: "string option"
  ord_status :: OrderStatus
  ord_totalAmount :: int
  ord_currency :: string

record Payment =
  pay_id :: string
  pay_orderId :: string
  pay_provider :: string
  pay_providerRef :: "string option"
  pay_status :: PaymentStatus
  pay_amount :: int

record PaymentIntent =
  pi_id :: string
  pi_buyerUserId :: string
  pi_organizerId :: string
  pi_eventId :: string
  pi_provider :: PaymentProvider
  pi_status :: PaymentIntentStatus
  pi_amountMinor :: int
  pi_currency :: string
  pi_idempotencyUseCase :: string
  pi_idempotencyKeyHash :: string
  pi_requestFingerprintHash :: string
  pi_providerReference :: string
  pi_providerCheckoutUrl :: "string option"
  pi_providerAccessCode :: "string option"
  pi_providerRawResponse :: "json option"
  pi_failureCode :: "string option"
  pi_failureMessage :: "string option"
  pi_initiatedAt :: "int option"
  pi_verifiedAt :: "int option"
  pi_failedAt :: "int option"
  pi_providerVerifiedStatus :: "string option"
  pi_providerVerifiedAmount :: "int option"
  pi_providerVerifiedCurrency :: "string option"
  pi_providerVerificationRaw :: "json option"

record PaymentIntentAuditLog =
  pal_paymentIntentId :: string
  pal_buyerUserId :: string
  pal_eventType :: string
  pal_data :: json

record ProviderWebhookEvent =
  pwe_id :: string
  pwe_provider :: PaymentProvider
  pwe_providerEventId :: string
  pwe_providerReference :: "string option"
  pwe_payloadHash :: string
  pwe_signatureValid :: "bool option"
  pwe_processingStatus :: WebhookProcessingStatus
  pwe_failureCode :: "string option"
  pwe_failureMessage :: "string option"
  pwe_rawHeaders :: json
  pwe_rawPayload :: string
  pwe_verifiedPayload :: "json option"
  pwe_paymentIntentId :: "string option"
  pwe_processedAt :: "int option"

record LedgerEntry =
  led_id :: string
  led_orderId :: "string option"
  led_paymentId :: "string option"
  led_direction :: LedgerDirection
  led_accountType :: string
  led_amount :: int
  led_currency :: string
  led_correlationId :: "string option"

record Ticket =
  tkt_id :: string
  tkt_ticketNumber :: "string option"
  tkt_eventId :: string
  tkt_organizerId :: "string option"
  tkt_ticketTypeId :: "string option"
  tkt_ownerUserId :: string
  tkt_orderId :: "string option"
  tkt_paymentIntentId :: "string option"
  tkt_status :: TicketStatus
  tkt_admissionTokenHash :: "string option"
  tkt_admissionTokenVersion :: int
  tkt_ticketSerial :: string
  tkt_publicReference :: string
  tkt_issuedAt :: int
  tkt_usedAt :: "int option"
  tkt_voidedAt :: "int option"
  tkt_expiresAt :: "int option"

record TicketIssuanceAuditLog =
  til_paymentIntentId :: string
  til_ticketId :: "string option"
  til_buyerUserId :: string
  til_eventId :: string
  til_organizerId :: string
  til_auditEvent :: string
  til_reason :: "string option"
  til_metadata :: json

record AdmissionScanAudit =
  asa_ticketId :: "string option"
  asa_eventId :: "string option"
  asa_organizerId :: "string option"
  asa_scannedByUserId :: "string option"
  asa_status :: AdmissionScanStatus
  asa_rejectionReason :: "AdmissionRejectionReason option"
  asa_tokenHash :: "string option"
  asa_scanNonceHash :: "string option"
  asa_deviceId :: "string option"
  asa_gateLabel :: "string option"
  asa_metadata :: "json option"
  asa_scannedAt :: int

record TicketAdmissionState =
  tas_ticketId :: string
  tas_currentState :: AdmissionState
  tas_admissionCycleNo :: int
  tas_lastEntryAt :: "int option"
  tas_lastExitAt :: "int option"
  tas_version :: int

record AdmissionEvent =
  ade_id :: string
  ade_scanEventId :: "string option"
  ade_ticketId :: string
  ade_admissionCycleNo :: int
  ade_direction :: AdmissionDirection
  ade_result :: AdmissionEventResult
  ade_scannedAt :: int
  ade_gateId :: "string option"

record Gate =
  gat_id :: string
  gat_venueId :: string

record IdempotencyKey =
  idk_actorUserId :: string
  idk_useCase :: string
  idk_idempotencyKeyHash :: string
  idk_requestHash :: string
  idk_responseCode :: "int option"
  idk_responseBody :: "json option"

record AuditLog =
  aud_id :: string
  aud_actorId :: "string option"
  aud_action :: string
  aud_entityType :: string
  aud_entityId :: string
  aud_correlationId :: "string option"
  aud_metadata :: json

record OutboxEvent =
  obx_id :: string
  obx_aggregateType :: string
  obx_aggregateId :: string
  obx_eventType :: string
  obx_payload :: json
  obx_createdAt :: int
  obx_processed :: bool
  obx_processedAt :: "int option"
  obx_retryCount :: int
  obx_nextAttemptAt :: "int option"
  obx_lastErrorCode :: "string option"
  obx_deadLetteredAt :: "int option"

record AdminSupportAuditLog =
  asl_actorUserId :: string
  asl_action :: string
  asl_status :: AdminActionStatus
  asl_targetType :: "string option"
  asl_targetId :: "string option"
  asl_reasonCode :: string
  asl_reasonNote :: "string option"
  asl_metadata :: "json option"

section \<open>The database\<close>

record db =
  users :: "User list"
  organizers :: "Organizer list"
  sessions :: "Session list"
  auth_audit_logs :: "AuthAuditLog list"
  admin_support_audit_logs :: "AdminSupportAuditLog list"
  venue_floor_sections :: "VenueFloorSection list"
  venue_tables :: "VenueTable list"
  events :: "Event list"
  event_tables :: "EventTable list"
  table_reservations :: "TableReservation list"
  table_audit_logs :: "TableAuditLog list"
  event_ticket_inventory :: "EventTicketInventory list"
  ticket_reservations :: "TicketReservation list"
  orders :: "Order list"
  payments :: "Payment list"
  payment_intents :: "PaymentIntent list"
  payment_intent_audit_logs :: "PaymentIntentAuditLog list"
  provider_webhook_events :: "ProviderWebhookEvent list"
  ledger_entries :: "LedgerEntry list"
  tickets :: "Ticket list"
  ticket_issuance_audit_logs :: "TicketIssuanceAuditLog list"
  admission_scan_audits :: "AdmissionScanAudit list"
  ticket_admission_state :: "TicketAdmissionState list"
  admission_events :: "AdmissionEvent list"
  gates :: "Gate list"
  idempotency_keys :: "IdempotencyKey list"
  audit_logs :: "AuditLog list"
  outbox_events :: "OutboxEvent list"

definition empty_db :: db where
  "empty_db = \<lparr> users = [], organizers = [], sessions = [], auth_audit_logs = [],
     admin_support_audit_logs = [], venue_floor_sections = [], venue_tables = [], events = [],
     event_tables = [], table_reservations = [], table_audit_logs = [],
     event_ticket_inventory = [], ticket_reservations = [], orders = [], payments = [],
     payment_intents = [], payment_intent_audit_logs = [], provider_webhook_events = [],
     ledger_entries = [], tickets = [], ticket_issuance_audit_logs = [],
     admission_scan_audits = [], ticket_admission_state = [], admission_events = [],
     gates = [], idempotency_keys = [], audit_logs = [], outbox_events = [] \<rparr>"

section \<open>Audit log and outbox repositories\<close>

text \<open>
  \<^verbatim>\<open>PrismaAuditLogRepository.append\<close> and \<^verbatim>\<open>PrismaOutboxRepository.append\<close>: one insert each,
  which clashes only on the identifier the caller drew.
\<close>

definition AuditLogRepository_append :: "AuditLog \<Rightarrow> (db, unit) prog" where
  "AuditLogRepository_append row =
     seqp (prisma_create audit_logs audit_logs_update (\<lambda>x y. aud_id x = aud_id y) row) (ret ())"

definition new_outbox_event :: "env \<Rightarrow> string \<Rightarrow> string \<Rightarrow> string \<Rightarrow> string \<Rightarrow> json \<Rightarrow> OutboxEvent" where
  "new_outbox_event E i aggType aggId evType payload =
     \<lparr> obx_id = i, obx_aggregateType = aggType, obx_aggregateId = aggId, obx_eventType = evType,
       obx_payload = payload, obx_createdAt = db_now E, obx_processed = False,
       obx_processedAt = None, obx_retryCount = 0, obx_nextAttemptAt = None,
       obx_lastErrorCode = None, obx_deadLetteredAt = None \<rparr>"

definition OutboxRepository_append :: "OutboxEvent \<Rightarrow> (db, unit) prog" where
  "OutboxRepository_append row =
     seqp (prisma_create outbox_events outbox_events_update (\<lambda>x y. obx_id x = obx_id y) row)
       (ret ())"

lemma audit_append_Inr [prog_inv]:
  "AuditLogRepository_append row s = (Inr u, s') \<longleftrightarrow>
     \<not> list_ex (\<lambda>y. aud_id row = aud_id y) (audit_logs s) \<and>
     s' = audit_logs_update (\<lambda>rs. rs @ [row]) s"
  by (auto simp: AuditLogRepository_append_def prog_inv)

lemma audit_append_Inl [prog_inv]:
  "AuditLogRepository_append row s = (Inl e, s') \<longleftrightarrow>
     list_ex (\<lambda>y. aud_id row = aud_id y) (audit_logs s) \<and>
     e = PrismaClientKnownRequestError ''P2002'' \<and> s' = s"
  by (auto simp: AuditLogRepository_append_def prog_inv)

lemma outbox_append_Inr [prog_inv]:
  "OutboxRepository_append row s = (Inr u, s') \<longleftrightarrow>
     \<not> list_ex (\<lambda>y. obx_id row = obx_id y) (outbox_events s) \<and>
     s' = outbox_events_update (\<lambda>rs. rs @ [row]) s"
  by (auto simp: OutboxRepository_append_def prog_inv)

lemma outbox_append_Inl [prog_inv]:
  "OutboxRepository_append row s = (Inl e, s') \<longleftrightarrow>
     list_ex (\<lambda>y. obx_id row = obx_id y) (outbox_events s) \<and>
     e = PrismaClientKnownRequestError ''P2002'' \<and> s' = s"
  by (auto simp: OutboxRepository_append_def prog_inv)

section \<open>Every table meets the interface\<close>

interpretation inventory_tbl: db_table event_ticket_inventory event_ticket_inventory_update
  by unfold_locales simp

interpretation reservation_tbl: db_table ticket_reservations ticket_reservations_update
  by unfold_locales simp

interpretation order_tbl: db_table orders orders_update
  by unfold_locales simp

interpretation idempotency_tbl: db_table idempotency_keys idempotency_keys_update
  by unfold_locales simp

interpretation ticket_tbl: db_table tickets tickets_update
  by unfold_locales simp

interpretation payment_tbl: db_table payments payments_update
  by unfold_locales simp

interpretation intent_tbl: db_table payment_intents payment_intents_update
  by unfold_locales simp

interpretation webhook_tbl: db_table provider_webhook_events provider_webhook_events_update
  by unfold_locales simp

interpretation audit_log: append_log audit_logs audit_logs_update AuditLogRepository_append
  by unfold_locales (auto simp: prog_inv)

interpretation outbox_log: append_log outbox_events outbox_events_update OutboxRepository_append
  by unfold_locales (auto simp: prog_inv)

end
