(* ===== verification/Inventory.thy ===== *)
theory Inventory
  imports Schema
begin

text \<open>
  Ticket inventory (\<^verbatim>\<open>src/modules/inventory\<close>): the inventory and reservation repositories and
  the four use cases that hold, expire, sweep and reconcile reservations of one bucket (an event
  and a ticket type).

  \<open>inventory_inv n\<close> is the invariant of the component at the database time \<open>n\<close>: the held
  quantity that is still live never exceeds the cached counter, and the cached counter and the
  sold tickets together never exceed the capacity. Every use case keeps it.
\<close>

section \<open>Repositories\<close>

definition lockInventory :: "string \<Rightarrow> string \<Rightarrow> (db, EventTicketInventory option) prog" where
  "lockInventory eventId ticketTypeId =
     prisma_find event_ticket_inventory
       (\<lambda>i. inv_eventId i = eventId \<and> inv_ticketTypeId i = ticketTypeId)"

definition updateReservedCount :: "string \<Rightarrow> int \<Rightarrow> (db, unit) prog" where
  "updateReservedCount inventoryId newReservedCount =
     seqp (prisma_update event_ticket_inventory event_ticket_inventory_update
             (\<lambda>i. inv_id i = inventoryId) (\<lambda>i. i\<lparr>inv_reservedCount := newReservedCount\<rparr>))
       (ret ())"

definition incrementSoldCount :: "string \<Rightarrow> int \<Rightarrow> (db, unit) prog" where
  "incrementSoldCount inventoryId delta =
     seqp (prisma_update event_ticket_inventory event_ticket_inventory_update
             (\<lambda>i. inv_id i = inventoryId) (\<lambda>i. i\<lparr>inv_soldCount := inv_soldCount i + delta\<rparr>))
       (ret ())"

record CreateHeldReservationInput =
  chr_id :: string
  chr_ownerUserId :: string
  chr_eventId :: string
  chr_ticketTypeId :: string
  chr_quantity :: int
  chr_expiresAt :: int

definition createHeldReservation :: "CreateHeldReservationInput \<Rightarrow> (db, unit) prog" where
  "createHeldReservation input =
     seqp (prisma_create ticket_reservations ticket_reservations_update
             (\<lambda>x y. res_id x = res_id y)
             \<lparr> res_id = chr_id input, res_ownerUserId = chr_ownerUserId input,
               res_eventId = chr_eventId input, res_ticketTypeId = chr_ticketTypeId input,
               res_quantity = chr_quantity input, res_status = ReservationStatus.HELD,
               res_expiresAt = chr_expiresAt input \<rparr>)
       (ret ())"

text \<open>\<open>locked\<close> are the rows another transaction holds, which \<open>SKIP LOCKED\<close> passes over.\<close>

definition claimExpiredHeldReservations ::
  "env \<Rightarrow> (string \<Rightarrow> bool) \<Rightarrow> nat \<Rightarrow> (db, TicketReservation list) prog" where
  "claimExpiredHeldReservations E locked limit = (\<lambda>s.
     ret (take limit (sort_key res_expiresAt
           (filter (\<lambda>r. res_status r = ReservationStatus.HELD \<and> res_expiresAt r \<le> db_now E \<and>
                        \<not> locked (res_id r))
             (ticket_reservations s)))) s)"

definition is_live :: "int \<Rightarrow> string \<Rightarrow> string \<Rightarrow> TicketReservation \<Rightarrow> bool" where
  "is_live n eventId ticketTypeId r \<longleftrightarrow>
     res_eventId r = eventId \<and> res_ticketTypeId r = ticketTypeId \<and>
     res_status r = ReservationStatus.HELD \<and> n < res_expiresAt r"

definition live_quantity :: "int \<Rightarrow> string \<Rightarrow> string \<Rightarrow> TicketReservation list \<Rightarrow> int" where
  "live_quantity n eventId ticketTypeId rs = sum_where (is_live n eventId ticketTypeId) res_quantity rs"

definition getActiveReservationQuantity :: "env \<Rightarrow> string \<Rightarrow> string \<Rightarrow> (db, int) prog" where
  "getActiveReservationQuantity E eventId ticketTypeId = (\<lambda>s.
     ret (live_quantity (db_now E) eventId ticketTypeId (ticket_reservations s)) s)"

definition updateReservationStatus :: "string \<Rightarrow> ReservationStatus \<Rightarrow> (db, unit) prog" where
  "updateReservationStatus reservationId status =
     seqp (prisma_update ticket_reservations ticket_reservations_update
             (\<lambda>r. res_id r = reservationId) (\<lambda>r. r\<lparr>res_status := status\<rparr>))
       (ret ())"

definition Reservation_findById :: "string \<Rightarrow> (db, TicketReservation option) prog" where
  "Reservation_findById reservationId =
     prisma_find ticket_reservations (\<lambda>r. res_id r = reservationId)"

section \<open>Use cases\<close>

record ReserveInventoryInput =
  rii_eventId :: string
  rii_ticketTypeId :: string
  rii_quantity :: js_number
  rii_holdTtlSeconds :: js_number

record ReserveInventoryResult =
  rir_reservationId :: string
  rir_expiresAt :: int
  rir_quantity :: int

text \<open>\<open>Math.max(Math.floor(capacityTotal * 0.05), 50)\<close>, with the floor written on integers.\<close>

definition is_tight :: "EventTicketInventory \<Rightarrow> bool" where
  "is_tight i \<longleftrightarrow>
     inv_capacityTotal i - inv_reservedCount i - inv_soldCount i \<le> max (inv_capacityTotal i div 20) 50"

definition ReserveInventory_tx ::
  "env \<Rightarrow> request_ctx \<Rightarrow> string \<Rightarrow> string \<Rightarrow> string \<Rightarrow> int \<Rightarrow> int \<Rightarrow> (db, ReserveInventoryResult) prog" where
  "ReserveInventory_tx E ctx actorUserId eventId ticketTypeId quantity ttl =
     bindp (lockInventory eventId ticketTypeId) (\<lambda>locked.
       case locked of
         None \<Rightarrow> throw (NotFoundError ''Inventory bucket not found.'')
       | Some inventory \<Rightarrow>
           bindp (if is_tight inventory then getActiveReservationQuantity E eventId ticketTypeId
                  else ret (inv_reservedCount inventory)) (\<lambda>authoritativeReserved.
             if quantity > inv_capacityTotal inventory - authoritativeReserved - inv_soldCount inventory
             then throw (InventoryUnavailableError ''Not enough tickets available.'')
             else
               seqp (createHeldReservation
                       \<lparr> chr_id = uuid E 0, chr_ownerUserId = actorUserId, chr_eventId = eventId,
                         chr_ticketTypeId = ticketTypeId, chr_quantity = quantity,
                         chr_expiresAt = app_now E + ttl * 1000 \<rparr>)
              (seqp (updateReservedCount (inv_id inventory) (authoritativeReserved + quantity))
              (seqp (AuditLogRepository_append
                       \<lparr> aud_id = uuid E 1, aud_actorId = ctx_userId ctx,
                         aud_action = ''INVENTORY_RESERVED'', aud_entityType = ''ticket_reservation'',
                         aud_entityId = uuid E 0, aud_correlationId = Some (ctx_correlationId ctx),
                         aud_metadata = JObj [(''eventId'', JStr eventId),
                           (''ticketTypeId'', JStr ticketTypeId), (''quantity'', JNum quantity),
                           (''expiresAt'', JDate (app_now E + ttl * 1000))] \<rparr>)
              (seqp (OutboxRepository_append
                       (new_outbox_event E (uuid E 2) ''ticket_reservation'' (uuid E 0)
                         ''TicketReservationCreated''
                         (JObj [(''reservationId'', JStr (uuid E 0)), (''eventId'', JStr eventId),
                           (''ticketTypeId'', JStr ticketTypeId), (''quantity'', JNum quantity),
                           (''expiresAt'', JDate (app_now E + ttl * 1000))])))
               (ret \<lparr> rir_reservationId = uuid E 0, rir_expiresAt = app_now E + ttl * 1000,
                      rir_quantity = quantity \<rparr>))))))"

definition ReserveInventory_execute ::
  "env \<Rightarrow> request_ctx option \<Rightarrow> ReserveInventoryInput \<Rightarrow> (db, ReserveInventoryResult) prog" where
  "ReserveInventory_execute E ctx input =
     (case rii_quantity input of
        NonIntegerNum \<Rightarrow> throw (DomainConflictError ''Reservation quantity must be a positive integer.'')
      | IntegerNum quantity \<Rightarrow>
          if quantity \<le> 0
          then throw (DomainConflictError ''Reservation quantity must be a positive integer.'')
          else (case rii_holdTtlSeconds input of
              NonIntegerNum \<Rightarrow> throw (DomainConflictError ''Hold TTL must be a positive integer.'')
            | IntegerNum ttl \<Rightarrow>
                if ttl \<le> 0 then throw (DomainConflictError ''Hold TTL must be a positive integer.'')
                else (case ctx of
                    None \<Rightarrow> throw (DomainConflictError ''Authenticated user context is required.'')
                  | Some c \<Rightarrow>
                      if \<not> truthy (ctx_userId c)
                      then throw (DomainConflictError ''Authenticated user context is required.'')
                      else runInTransaction
                             (ReserveInventory_tx E c (the (ctx_userId c)) (rii_eventId input)
                               (rii_ticketTypeId input) quantity ttl))))"

record ReleaseExpiredReservationResult =
  rer_released :: bool
  rer_inventoryId :: "string option"
  rer_reservedCount :: "int option"

text \<open>\<open>now\<close> is the optional argument of the request; the application clock stands in for it.\<close>

definition ReleaseExpiredReservation_execute ::
  "env \<Rightarrow> string \<Rightarrow> int option \<Rightarrow> (db, ReleaseExpiredReservationResult) prog" where
  "ReleaseExpiredReservation_execute E reservationId inputNow =
     (let now = (case inputNow of None \<Rightarrow> app_now E | Some n \<Rightarrow> n) in
      runInTransaction
        (bindp (Reservation_findById reservationId) (\<lambda>found.
           case found of
             None \<Rightarrow> throw (NotFoundException ''Reservation not found'')
           | Some reservation \<Rightarrow>
               if res_status reservation \<noteq> ReservationStatus.HELD \<or> res_expiresAt reservation > now
               then ret \<lparr> rer_released = False, rer_inventoryId = None, rer_reservedCount = None \<rparr>
               else bindp (lockInventory (res_eventId reservation) (res_ticketTypeId reservation)) (\<lambda>locked.
                 case locked of
                   None \<Rightarrow> throw (NotFoundException ''Inventory not found'')
                 | Some inventory \<Rightarrow>
                     bindp (getActiveReservationQuantity E (res_eventId reservation)
                              (res_ticketTypeId reservation)) (\<lambda>liveReserved.
                       seqp (updateReservationStatus (res_id reservation) ReservationStatus.EXPIRED)
                      (seqp (updateReservedCount (inv_id inventory) liveReserved)
                       (ret \<lparr> rer_released = True, rer_inventoryId = Some (inv_id inventory),
                              rer_reservedCount = Some liveReserved \<rparr>)))))))"

fun sweep_loop :: "env \<Rightarrow> nat \<Rightarrow> TicketReservation list \<Rightarrow> string list \<Rightarrow> (db, string list) prog" where
  "sweep_loop E k [] reservationIds = ret reservationIds"
| "sweep_loop E k (reservation # rest) reservationIds =
     bindp (lockInventory (res_eventId reservation) (res_ticketTypeId reservation)) (\<lambda>locked.
       case locked of
         None \<Rightarrow> throw (NotFoundError ''Inventory bucket not found for expired reservation.'')
       | Some inventory \<Rightarrow>
           seqp (updateReservationStatus (res_id reservation) ReservationStatus.EXPIRED)
          (bindp (getActiveReservationQuantity E (res_eventId reservation)
                    (res_ticketTypeId reservation)) (\<lambda>liveReserved.
            seqp (updateReservedCount (inv_id inventory) liveReserved)
           (seqp (AuditLogRepository_append
                    \<lparr> aud_id = uuid E (2 * k), aud_actorId = None, aud_action = ''RESERVATION_EXPIRED'',
                      aud_entityType = ''ticket_reservation'', aud_entityId = res_id reservation,
                      aud_correlationId = None,
                      aud_metadata = JObj [(''eventId'', JStr (res_eventId reservation)),
                        (''ticketTypeId'', JStr (res_ticketTypeId reservation)),
                        (''quantity'', JNum (res_quantity reservation)),
                        (''expiresAt'', JDate (res_expiresAt reservation))] \<rparr>)
           (seqp (OutboxRepository_append
                    (new_outbox_event E (uuid E (2 * k + 1)) ''ticket_reservation''
                      (res_id reservation) ''TicketReservationExpired''
                      (JObj [(''reservationId'', JStr (res_id reservation)),
                        (''eventId'', JStr (res_eventId reservation)),
                        (''ticketTypeId'', JStr (res_ticketTypeId reservation)),
                        (''quantity'', JNum (res_quantity reservation))])))
            (sweep_loop E (Suc k) rest (reservationIds @ [res_id reservation])))))))"

record SweepExpiredReservationsResult =
  ser_swept :: nat
  ser_reservationIds :: "string list"

definition DEFAULT_SWEEP_LIMIT :: nat where
  "DEFAULT_SWEEP_LIMIT = 100"

definition SweepExpiredReservations_execute ::
  "env \<Rightarrow> (string \<Rightarrow> bool) \<Rightarrow> nat option \<Rightarrow> (db, SweepExpiredReservationsResult) prog" where
  "SweepExpiredReservations_execute E locked inputLimit =
     (let limit = (case inputLimit of None \<Rightarrow> DEFAULT_SWEEP_LIMIT | Some l \<Rightarrow> l) in
      runInTransaction
        (bindp (claimExpiredHeldReservations E locked limit) (\<lambda>expired.
         bindp (sweep_loop E 0 expired []) (\<lambda>ids.
           ret \<lparr> ser_swept = length ids, ser_reservationIds = ids \<rparr>))))"

record ReconcileInventoryDriftResult =
  rid_inventoryId :: string
  rid_cachedReservedCount :: int
  rid_liveReservedCount :: int
  rid_corrected :: bool

definition ReconcileInventoryDrift_execute ::
  "env \<Rightarrow> string \<Rightarrow> string \<Rightarrow> (db, ReconcileInventoryDriftResult) prog" where
  "ReconcileInventoryDrift_execute E eventId ticketTypeId =
     runInTransaction
       (bindp (lockInventory eventId ticketTypeId) (\<lambda>locked.
          case locked of
            None \<Rightarrow> throw (NotFoundException ''Inventory not found'')
          | Some inventory \<Rightarrow>
              bindp (getActiveReservationQuantity E eventId ticketTypeId) (\<lambda>liveReserved.
                seqp (if liveReserved \<noteq> inv_reservedCount inventory
                      then updateReservedCount (inv_id inventory) liveReserved else ret ())
                 (ret \<lparr> rid_inventoryId = inv_id inventory,
                        rid_cachedReservedCount = inv_reservedCount inventory,
                        rid_liveReservedCount = liveReserved,
                        rid_corrected = (liveReserved \<noteq> inv_reservedCount inventory) \<rparr>))))"

section \<open>Runs of the repositories\<close>

lemma lockInventory_apply [simp]:
  "lockInventory e t s =
     (Inr (find (\<lambda>i. inv_eventId i = e \<and> inv_ticketTypeId i = t) (event_ticket_inventory s)), s)"
  by (simp add: lockInventory_def)

lemma getActiveReservationQuantity_apply [simp]:
  "getActiveReservationQuantity E e t s =
     (Inr (live_quantity (db_now E) e t (ticket_reservations s)), s)"
  by (simp add: getActiveReservationQuantity_def)

lemma Reservation_findById_apply [simp]:
  "Reservation_findById i s = (Inr (find (\<lambda>r. res_id r = i) (ticket_reservations s)), s)"
  by (simp add: Reservation_findById_def)

lemma claimExpired_apply [simp]:
  "claimExpiredHeldReservations E locked l s =
     (Inr (take l (sort_key res_expiresAt
           (filter (\<lambda>r. res_status r = ReservationStatus.HELD \<and> res_expiresAt r \<le> db_now E \<and>
                        \<not> locked (res_id r)) (ticket_reservations s)))), s)"
  by (simp add: claimExpiredHeldReservations_def)

lemma updateReservedCount_Inr [prog_inv]:
  "updateReservedCount i n s = (Inr u, s') \<longleftrightarrow>
     (\<exists>x. find (\<lambda>i'. inv_id i' = i) (event_ticket_inventory s) = Some x) \<and>
     s' = event_ticket_inventory_update
            (upd_where (\<lambda>x. inv_id x = i) (\<lambda>x. x\<lparr>inv_reservedCount := n\<rparr>)) s"
  by (auto simp: updateReservedCount_def prog_inv)

lemma incrementSoldCount_Inr [prog_inv]:
  "incrementSoldCount i n s = (Inr u, s') \<longleftrightarrow>
     (\<exists>x. find (\<lambda>i'. inv_id i' = i) (event_ticket_inventory s) = Some x) \<and>
     s' = event_ticket_inventory_update
            (upd_where (\<lambda>x. inv_id x = i) (\<lambda>x. x\<lparr>inv_soldCount := inv_soldCount x + n\<rparr>)) s"
  by (auto simp: incrementSoldCount_def prog_inv)

lemma updateReservationStatus_Inr [prog_inv]:
  "updateReservationStatus i st s = (Inr u, s') \<longleftrightarrow>
     (\<exists>x. find (\<lambda>r. res_id r = i) (ticket_reservations s) = Some x) \<and>
     s' = ticket_reservations_update
            (upd_where (\<lambda>r. res_id r = i) (\<lambda>r. r\<lparr>res_status := st\<rparr>)) s"
  by (auto simp: updateReservationStatus_def prog_inv)

lemma createHeldReservation_Inr [prog_inv]:
  "createHeldReservation c s = (Inr u, s') \<longleftrightarrow>
     \<not> list_ex (\<lambda>y. chr_id c = res_id y) (ticket_reservations s) \<and>
     s' = ticket_reservations_update (\<lambda>rs. rs @
            [\<lparr> res_id = chr_id c, res_ownerUserId = chr_ownerUserId c, res_eventId = chr_eventId c,
               res_ticketTypeId = chr_ticketTypeId c, res_quantity = chr_quantity c,
               res_status = ReservationStatus.HELD, res_expiresAt = chr_expiresAt c \<rparr>]) s"
  by (auto simp: createHeldReservation_def prog_inv)

section \<open>The live quantity of a bucket\<close>

definition bucket_ok :: "int \<Rightarrow> TicketReservation list \<Rightarrow> EventTicketInventory \<Rightarrow> bool" where
  "bucket_ok n rs i \<longleftrightarrow>
     live_quantity n (inv_eventId i) (inv_ticketTypeId i) rs \<le> inv_reservedCount i \<and>
     inv_reservedCount i + inv_soldCount i \<le> inv_capacityTotal i"

definition inventory_inv :: "int \<Rightarrow> db \<Rightarrow> bool" where
  "inventory_inv n s \<longleftrightarrow>
     distinct (map inv_id (event_ticket_inventory s)) \<and>
     distinct (map (\<lambda>i. (inv_eventId i, inv_ticketTypeId i)) (event_ticket_inventory s)) \<and>
     distinct (map res_id (ticket_reservations s)) \<and>
     list_all (\<lambda>r. 0 < res_quantity r) (ticket_reservations s) \<and>
     list_all (bucket_ok n (ticket_reservations s)) (event_ticket_inventory s)"

lemma is_live_simps [simp]:
  "is_live n e t (r\<lparr>res_status := st\<rparr>) \<longleftrightarrow>
     res_eventId r = e \<and> res_ticketTypeId r = t \<and> st = ReservationStatus.HELD \<and> n < res_expiresAt r"
  by (simp add: is_live_def)

lemma live_append [simp]:
  "live_quantity n e t (rs @ [r]) =
     live_quantity n e t rs + (if is_live n e t r then res_quantity r else 0)"
  by (simp add: live_quantity_def)

lemma live_switch_off:
  assumes "distinct (map res_id rs)" and "r \<in> set rs" and "st \<noteq> ReservationStatus.HELD"
  shows "live_quantity n e t (upd_where (\<lambda>x. res_id x = res_id r) (\<lambda>x. x\<lparr>res_status := st\<rparr>) rs) =
           live_quantity n e t rs - (if is_live n e t r then res_quantity r else 0)"
  unfolding live_quantity_def
  by (rule sum_where_switch_off [where k = res_id and r = r]) (use assms in auto)

lemma live_antimono:
  assumes "list_all (\<lambda>r. 0 < res_quantity r) rs" and "n \<le> n'"
  shows "live_quantity n' e t rs \<le> live_quantity n e t rs"
  unfolding live_quantity_def
  by (rule sum_where_mono) (use assms in \<open>auto simp: list_all_iff is_live_def order_less_imp_le\<close>)

lemma live_nonneg: "list_all (\<lambda>r. 0 < res_quantity r) rs \<Longrightarrow> 0 \<le> live_quantity n e t rs"
  unfolding live_quantity_def
  by (rule sum_where_nonneg) (auto simp: list_all_iff order_less_imp_le)

lemma quantities_status [simp]:
  "list_all (\<lambda>r. 0 < res_quantity r) (upd_where p (\<lambda>r. r\<lparr>res_status := st\<rparr>) rs) =
     list_all (\<lambda>r. 0 < res_quantity r) rs"
  by (induction rs) auto

lemma res_ids_status [simp]:
  "map res_id (upd_where p (\<lambda>r. r\<lparr>res_status := st\<rparr>) rs) = map res_id rs"
  by (rule map_key_upd_where) simp

lemma inventory_inv_bucket:
  "inventory_inv n s \<Longrightarrow> i \<in> set (event_ticket_inventory s) \<Longrightarrow> bucket_ok n (ticket_reservations s) i"
  by (simp add: inventory_inv_def list_all_iff)

lemma inventory_inv_time: "inventory_inv n s \<Longrightarrow> n \<le> n' \<Longrightarrow> inventory_inv n' s"
  by (auto simp: inventory_inv_def list_all_iff bucket_ok_def
      intro: order_trans [OF live_antimono] simp: list_all_iff)

text \<open>
  The one lemma behind every preservation proof: a change to one bucket and to the reservations is
  fine when the live quantity of the other buckets does not grow and the changed bucket still adds
  up.
\<close>

lemma inventory_inv_change:
  assumes inv: "inventory_inv n s" and i: "i \<in> set (event_ticket_inventory s)"
    and inv': "event_ticket_inventory s' = upd_where (\<lambda>x. inv_id x = inv_id i) f (event_ticket_inventory s)"
    and f: "\<And>x. inv_id (f x) = inv_id x" "\<And>x. inv_eventId (f x) = inv_eventId x"
      "\<And>x. inv_ticketTypeId (f x) = inv_ticketTypeId x"
    and ids: "distinct (map res_id (ticket_reservations s'))"
    and pos: "list_all (\<lambda>r. 0 < res_quantity r) (ticket_reservations s')"
    and other: "\<And>e t. (e, t) \<noteq> (inv_eventId i, inv_ticketTypeId i) \<Longrightarrow>
      live_quantity n e t (ticket_reservations s') \<le> live_quantity n e t (ticket_reservations s)"
    and own: "bucket_ok n (ticket_reservations s') (f i)"
  shows "inventory_inv n s'"
proof -
  have keys: "map inv_id (event_ticket_inventory s') = map inv_id (event_ticket_inventory s)"
    and keys2: "map (\<lambda>i. (inv_eventId i, inv_ticketTypeId i)) (event_ticket_inventory s') =
                map (\<lambda>i. (inv_eventId i, inv_ticketTypeId i)) (event_ticket_inventory s)"
    unfolding inv' by (rule map_key_upd_where; simp add: f)+
  have d1: "distinct (map inv_id (event_ticket_inventory s))"
    and d2: "distinct (map (\<lambda>i. (inv_eventId i, inv_ticketTypeId i)) (event_ticket_inventory s))"
    using inv by (auto simp: inventory_inv_def)
  have "bucket_ok n (ticket_reservations s') y" if y: "y \<in> set (event_ticket_inventory s')" for y
  proof -
    from y obtain x where x: "x \<in> set (event_ticket_inventory s)"
      and y': "y = (if inv_id x = inv_id i then f x else x)"
      by (auto simp: inv' set_upd_where)
    show ?thesis
    proof (cases "inv_id x = inv_id i")
      case True
      with x i d1 have "x = i" by (blast intro: distinct_key_unique)
      with y' own show ?thesis by simp
    next
      case False
      then have "(inv_eventId x, inv_ticketTypeId x) \<noteq> (inv_eventId i, inv_ticketTypeId i)"
        using distinct_key_unique [OF d2 x i] by auto
      from other [OF this] inventory_inv_bucket [OF inv x] False y' show ?thesis
        by (auto simp: bucket_ok_def)
    qed
  qed
  then show ?thesis
    using d1 d2 ids pos by (simp add: inventory_inv_def list_all_iff keys keys2)
qed

lemma bucket_found:
  assumes "find (\<lambda>i. inv_eventId i = e \<and> inv_ticketTypeId i = t) (event_ticket_inventory s) = Some i"
  shows "i \<in> set (event_ticket_inventory s)" "inv_eventId i = e" "inv_ticketTypeId i = t"
  using find_Some_iff2 [OF assms] by auto

section \<open>What each use case leaves behind\<close>

definition authoritative_reserved :: "env \<Rightarrow> EventTicketInventory \<Rightarrow> db \<Rightarrow> int" where
  "authoritative_reserved E i s =
     (if is_tight i
      then live_quantity (db_now E) (inv_eventId i) (inv_ticketTypeId i) (ticket_reservations s)
      else inv_reservedCount i)"

lemma ReserveInventory_Inr:
  assumes "ReserveInventory_execute E ctx input s = (Inr r, s')"
  obtains q ttl c user i where
    "rii_quantity input = IntegerNum q" "rii_holdTtlSeconds input = IntegerNum ttl" "0 < q" "0 < ttl"
    "ctx = Some c" "ctx_userId c = Some user"
    "find (\<lambda>i. inv_eventId i = rii_eventId input \<and> inv_ticketTypeId i = rii_ticketTypeId input)
       (event_ticket_inventory s) = Some i"
    "q \<le> inv_capacityTotal i - authoritative_reserved E i s - inv_soldCount i"
    "uuid E 0 \<notin> res_id ` set (ticket_reservations s)"
    "r = \<lparr> rir_reservationId = uuid E 0, rir_expiresAt = app_now E + ttl * 1000, rir_quantity = q \<rparr>"
    "ticket_reservations s' = ticket_reservations s @
       [\<lparr> res_id = uuid E 0, res_ownerUserId = user, res_eventId = rii_eventId input,
          res_ticketTypeId = rii_ticketTypeId input, res_quantity = q,
          res_status = ReservationStatus.HELD, res_expiresAt = app_now E + ttl * 1000 \<rparr>]"
    "event_ticket_inventory s' = upd_where (\<lambda>x. inv_id x = inv_id i)
       (\<lambda>x. x\<lparr>inv_reservedCount := authoritative_reserved E i s + q\<rparr>) (event_ticket_inventory s)"
    "\<exists>a. audit_logs s' = audit_logs s @ [a]" "\<exists>b. outbox_events s' = outbox_events s @ [b]"
    "orders s' = orders s" "tickets s' = tickets s" "payments s' = payments s"
proof -
  from assms obtain q ttl c where g: "rii_quantity input = IntegerNum q" "0 < q"
      "rii_holdTtlSeconds input = IntegerNum ttl" "0 < ttl" "ctx = Some c" "truthy (ctx_userId c)"
      "ReserveInventory_tx E c (the (ctx_userId c)) (rii_eventId input) (rii_ticketTypeId input) q ttl s
         = (Inr r, s')"
    by (auto simp: ReserveInventory_execute_def prog_inv
        split: js_number.splits option.splits if_splits)
  then obtain user where u: "ctx_userId c = Some user" by (auto simp: truthy_iff)
  from g(7) obtain i where i: "find (\<lambda>i. inv_eventId i = rii_eventId input \<and>
      inv_ticketTypeId i = rii_ticketTypeId input) (event_ticket_inventory s) = Some i"
    by (auto simp: ReserveInventory_tx_def prog_inv split: option.splits)
  note b = bucket_found [OF i]
  show thesis
    by (rule that [OF g(1,3,2,4,5) u i])
       (use g(7) i u b(2,3) in \<open>auto simp: ReserveInventory_tx_def prog_inv authoritative_reserved_def
          list_ex_iff image_iff split: if_splits\<close>)
qed

lemma reserve_keeps_inv:
  assumes "inventory_inv (db_now E) s" and "ReserveInventory_execute E ctx input s = (r, s')"
  shows "inventory_inv (db_now E) s'"
proof (cases r)
  case (Inl e)
  with assms show ?thesis
    by (auto simp: ReserveInventory_execute_def prog_inv split: js_number.splits option.splits if_splits)
next
  case (Inr res)
  with assms(2) have "ReserveInventory_execute E ctx input s = (Inr res, s')" by simp
  then show ?thesis
  proof (rule ReserveInventory_Inr)
    fix q ttl :: int and i user
    assume q: "0 < q" and i: "find (\<lambda>i. inv_eventId i = rii_eventId input \<and>
        inv_ticketTypeId i = rii_ticketTypeId input) (event_ticket_inventory s) = Some i"
      and room: "q \<le> inv_capacityTotal i - authoritative_reserved E i s - inv_soldCount i"
      and fresh: "uuid E 0 \<notin> res_id ` set (ticket_reservations s)"
      and rs: "ticket_reservations s' = ticket_reservations s @
       [\<lparr> res_id = uuid E 0, res_ownerUserId = user, res_eventId = rii_eventId input,
          res_ticketTypeId = rii_ticketTypeId input, res_quantity = q,
          res_status = ReservationStatus.HELD, res_expiresAt = app_now E + ttl * 1000 \<rparr>]"
      and ivs: "event_ticket_inventory s' = upd_where (\<lambda>x. inv_id x = inv_id i)
       (\<lambda>x. x\<lparr>inv_reservedCount := authoritative_reserved E i s + q\<rparr>) (event_ticket_inventory s)"
    note b = bucket_found [OF i]
    from inventory_inv_bucket [OF assms(1) b(1)]
    have live: "live_quantity (db_now E) (inv_eventId i) (inv_ticketTypeId i) (ticket_reservations s)
        \<le> authoritative_reserved E i s"
      by (auto simp: authoritative_reserved_def bucket_ok_def)
    show ?thesis
      by (rule inventory_inv_change [OF assms(1) b(1) ivs])
         (use assms(1) fresh q live room b(2,3) in
            \<open>auto simp: rs inventory_inv_def bucket_ok_def is_live_def\<close>)
  qed
qed

lemma release_Inr:
  assumes "ReleaseExpiredReservation_execute E i now s = (Inr res, s')"
  shows "(\<not> rer_released res \<and> s' = s) \<or>
    (\<exists>r inv. find (\<lambda>r. res_id r = i) (ticket_reservations s) = Some r \<and>
       res_status r = ReservationStatus.HELD \<and>
       res_expiresAt r \<le> (case now of None \<Rightarrow> app_now E | Some n \<Rightarrow> n) \<and>
       find (\<lambda>b. inv_eventId b = res_eventId r \<and> inv_ticketTypeId b = res_ticketTypeId r)
         (event_ticket_inventory s) = Some inv \<and>
       rer_released res \<and>
       rer_reservedCount res =
         Some (live_quantity (db_now E) (res_eventId r) (res_ticketTypeId r) (ticket_reservations s)) \<and>
       s' = event_ticket_inventory_update
              (upd_where (\<lambda>x. inv_id x = inv_id inv) (\<lambda>x. x\<lparr>inv_reservedCount :=
                 live_quantity (db_now E) (res_eventId r) (res_ticketTypeId r) (ticket_reservations s)\<rparr>))
             (ticket_reservations_update
               (upd_where (\<lambda>x. res_id x = res_id r) (\<lambda>x. x\<lparr>res_status := ReservationStatus.EXPIRED\<rparr>)) s))"
  using assms
  by (auto simp: ReleaseExpiredReservation_execute_def prog_inv Let_def not_less
      split: option.splits if_splits dest: find_Some_iff2)

lemma expire_keeps_inv:
  assumes inv: "inventory_inv n s" and r: "r \<in> set (ticket_reservations s)"
    and i: "find (\<lambda>b. inv_eventId b = res_eventId r \<and> inv_ticketTypeId b = res_ticketTypeId r)
         (event_ticket_inventory s) = Some i"
    and st: "st \<noteq> ReservationStatus.HELD"
    and rs: "ticket_reservations s' =
      upd_where (\<lambda>x. res_id x = res_id r) (\<lambda>x. x\<lparr>res_status := st\<rparr>) (ticket_reservations s)"
    and ivs: "event_ticket_inventory s' = upd_where (\<lambda>x. inv_id x = inv_id i)
      (\<lambda>x. x\<lparr>inv_reservedCount := c\<rparr>) (event_ticket_inventory s)"
    and lo: "live_quantity n (res_eventId r) (res_ticketTypeId r) (ticket_reservations s') \<le> c"
    and hi: "c \<le> live_quantity n (res_eventId r) (res_ticketTypeId r) (ticket_reservations s)"
  shows "inventory_inv n s'"
proof -
  note b = bucket_found [OF i]
  have d: "distinct (map res_id (ticket_reservations s))"
    and pos: "list_all (\<lambda>r. 0 < res_quantity r) (ticket_reservations s)"
    using inv by (auto simp: inventory_inv_def)
  from pos r have q: "0 < res_quantity r" by (auto simp: list_all_iff)
  show ?thesis
  proof (rule inventory_inv_change [OF inv b(1) ivs])
    show "live_quantity n e t (ticket_reservations s') \<le> live_quantity n e t (ticket_reservations s)" for e t
      unfolding rs live_switch_off [OF d r st] using q by simp
    show "bucket_ok n (ticket_reservations s') (i\<lparr>inv_reservedCount := c\<rparr>)"
      using inventory_inv_bucket [OF inv b(1)] lo hi b(2,3) by (auto simp: bucket_ok_def)
  qed (use d pos in \<open>auto simp: rs\<close>)
qed

lemma release_keeps_inv:
  assumes inv: "inventory_inv (db_now E) s"
    and run: "ReleaseExpiredReservation_execute E i now s = (r, s')"
  shows "inventory_inv (db_now E) s'"
proof (cases r)
  case (Inl e)
  with run inv show ?thesis by (auto simp: ReleaseExpiredReservation_execute_def prog_inv Let_def)
next
  case (Inr res)
  from release_Inr [OF run [unfolded Inr]] show ?thesis
  proof (elim disjE exE conjE)
    fix x :: TicketReservation and b :: EventTicketInventory
    let ?n = "live_quantity (db_now E) (res_eventId x) (res_ticketTypeId x) (ticket_reservations s)"
    assume x: "find (\<lambda>r. res_id r = i) (ticket_reservations s) = Some x"
      and b: "find (\<lambda>b. inv_eventId b = res_eventId x \<and> inv_ticketTypeId b = res_ticketTypeId x)
        (event_ticket_inventory s) = Some b"
      and s': "s' = event_ticket_inventory_update
          (upd_where (\<lambda>x. inv_id x = inv_id b) (\<lambda>x. x\<lparr>inv_reservedCount := ?n\<rparr>))
         (ticket_reservations_update
           (upd_where (\<lambda>y. res_id y = res_id x) (\<lambda>x. x\<lparr>res_status := ReservationStatus.EXPIRED\<rparr>)) s)"
    have xs: "x \<in> set (ticket_reservations s)" using find_Some_iff2 [OF x] by simp
    have d: "distinct (map res_id (ticket_reservations s))"
      and q: "0 < res_quantity x" using inv xs by (auto simp: inventory_inv_def list_all_iff)
    show ?thesis
      by (rule expire_keeps_inv [OF inv xs b])
         (use q in \<open>auto simp: s' live_switch_off [OF d xs]\<close>)
  qed (use inv in simp)
qed

lemma reconcile_Inr:
  assumes "ReconcileInventoryDrift_execute E e t s = (Inr res, s')"
  obtains i where
    "find (\<lambda>b. inv_eventId b = e \<and> inv_ticketTypeId b = t) (event_ticket_inventory s) = Some i"
    "rid_corrected res \<longleftrightarrow>
       live_quantity (db_now E) e t (ticket_reservations s) \<noteq> inv_reservedCount i"
    "s' = event_ticket_inventory_update (upd_where (\<lambda>x. inv_id x = inv_id i \<and> rid_corrected res)
        (\<lambda>x. x\<lparr>inv_reservedCount := live_quantity (db_now E) e t (ticket_reservations s)\<rparr>)) s"
proof -
  from assms obtain i where i: "find (\<lambda>b. inv_eventId b = e \<and> inv_ticketTypeId b = t)
      (event_ticket_inventory s) = Some i"
    by (auto simp: ReconcileInventoryDrift_execute_def prog_inv split: option.splits)
  with assms i show thesis
    by (intro that [OF i])
       (auto simp: ReconcileInventoryDrift_execute_def prog_inv split: if_splits)
qed

lemma reconcile_keeps_inv:
  assumes inv: "inventory_inv (db_now E) s"
    and run: "ReconcileInventoryDrift_execute E e t s = (r, s')"
  shows "inventory_inv (db_now E) s'"
proof (cases r)
  case (Inl err)
  with run inv show ?thesis by (auto simp: ReconcileInventoryDrift_execute_def prog_inv)
next
  case (Inr res)
  from run [unfolded Inr] show ?thesis
  proof (rule reconcile_Inr)
    fix i :: EventTicketInventory
    let ?n = "live_quantity (db_now E) e t (ticket_reservations s)"
    assume i: "find (\<lambda>b. inv_eventId b = e \<and> inv_ticketTypeId b = t) (event_ticket_inventory s) = Some i"
      and s': "s' = event_ticket_inventory_update
        (upd_where (\<lambda>x. inv_id x = inv_id i \<and> rid_corrected res) (\<lambda>x. x\<lparr>inv_reservedCount := ?n\<rparr>)) s"
    note b = bucket_found [OF i]
    show ?thesis
    proof (cases "rid_corrected res")
      case True
      show ?thesis
        by (rule inventory_inv_change [OF inv b(1), where f = "\<lambda>x. x\<lparr>inv_reservedCount := ?n\<rparr>"])
           (use True inv b inventory_inv_bucket [OF inv b(1)] in
              \<open>auto simp: s' inventory_inv_def bucket_ok_def\<close>)
    next
      case False
      then show ?thesis using inv by (simp add: s' upd_where_def inventory_inv_def)
    qed
  qed
qed

text \<open>One round of the sweep and the whole sweep.\<close>

lemma sweep_loop_Cons_Inr:
  assumes "sweep_loop E k (r # rest) ids s = (Inr out, s')"
  obtains i s1 where
    "find (\<lambda>b. inv_eventId b = res_eventId r \<and> inv_ticketTypeId b = res_ticketTypeId r)
       (event_ticket_inventory s) = Some i"
    "\<exists>x. find (\<lambda>x. res_id x = res_id r) (ticket_reservations s) = Some x"
    "ticket_reservations s1 = upd_where (\<lambda>x. res_id x = res_id r)
       (\<lambda>x. x\<lparr>res_status := ReservationStatus.EXPIRED\<rparr>) (ticket_reservations s)"
    "event_ticket_inventory s1 = upd_where (\<lambda>x. inv_id x = inv_id i)
       (\<lambda>x. x\<lparr>inv_reservedCount := live_quantity (db_now E) (res_eventId r) (res_ticketTypeId r)
          (ticket_reservations s1)\<rparr>) (event_ticket_inventory s)"
    "\<exists>a. audit_logs s1 = audit_logs s @ [a] \<and> aud_action a = ''RESERVATION_EXPIRED'' \<and>
         aud_entityId a = res_id r"
    "\<exists>b. outbox_events s1 = outbox_events s @ [b] \<and> obx_eventType b = ''TicketReservationExpired'' \<and>
         obx_aggregateId b = res_id r"
    "sweep_loop E (Suc k) rest (ids @ [res_id r]) s1 = (Inr out, s')"
  using assms
  by (auto simp: prog_inv new_outbox_event_def split: option.splits intro!: that)

lemma sweep_loop_ids: "sweep_loop E k rs ids s = (Inr out, s') \<Longrightarrow> out = ids @ map res_id rs"
proof (induction rs arbitrary: k ids s)
  case Nil
  then show ?case by simp
next
  case (Cons r rs)
  from Cons.prems obtain s1 where "sweep_loop E (Suc k) rs (ids @ [res_id r]) s1 = (Inr out, s')"
    by (rule sweep_loop_Cons_Inr)
  from Cons.IH [OF this] show ?case by simp
qed

lemma sweep_loop_keeps_inv:
  "sweep_loop E k rs ids s = (Inr out, s') \<Longrightarrow> inventory_inv (db_now E) s \<Longrightarrow>
     set (map res_id rs) \<subseteq> set (map res_id (ticket_reservations s)) \<Longrightarrow>
     \<forall>r\<in>set rs. \<forall>x\<in>set (ticket_reservations s). res_id x = res_id r \<longrightarrow>
        (res_eventId x, res_ticketTypeId x) = (res_eventId r, res_ticketTypeId r) \<Longrightarrow>
     inventory_inv (db_now E) s'"
proof (induction rs arbitrary: k ids s)
  case Nil
  then show ?case by simp
next
  case (Cons r rs)
  from Cons.prems(1) show ?case
  proof (rule sweep_loop_Cons_Inr)
    fix i :: EventTicketInventory and s1
    assume i: "find (\<lambda>b. inv_eventId b = res_eventId r \<and> inv_ticketTypeId b = res_ticketTypeId r)
       (event_ticket_inventory s) = Some i"
      and ex: "\<exists>x. find (\<lambda>x. res_id x = res_id r) (ticket_reservations s) = Some x"
      and rs: "ticket_reservations s1 = upd_where (\<lambda>x. res_id x = res_id r)
       (\<lambda>x. x\<lparr>res_status := ReservationStatus.EXPIRED\<rparr>) (ticket_reservations s)"
      and ivs: "event_ticket_inventory s1 = upd_where (\<lambda>x. inv_id x = inv_id i)
       (\<lambda>x. x\<lparr>inv_reservedCount := live_quantity (db_now E) (res_eventId r) (res_ticketTypeId r)
          (ticket_reservations s1)\<rparr>) (event_ticket_inventory s)"
      and next': "sweep_loop E (Suc k) rs (ids @ [res_id r]) s1 = (Inr out, s')"
    from ex obtain x where x: "x \<in> set (ticket_reservations s)" "res_id x = res_id r"
      using find_Some_iff2 by fastforce
    with Cons.prems(4) have xb: "res_eventId x = res_eventId r" "res_ticketTypeId x = res_ticketTypeId r"
      by auto
    have d: "distinct (map res_id (ticket_reservations s))" and q: "0 < res_quantity x"
      using Cons.prems(2) x(1) by (auto simp: inventory_inv_def list_all_iff)
    have "inventory_inv (db_now E) s1"
      by (rule expire_keeps_inv [OF Cons.prems(2) x(1) i [folded xb], where st = ReservationStatus.EXPIRED])
         (use q ivs rs in \<open>auto simp: xb x(2) [symmetric] live_switch_off [OF d x(1)]\<close>)
    then show ?thesis
      by (rule Cons.IH [OF next'])
         (use Cons.prems(3,4) in \<open>auto simp: rs set_upd_where image_image if_distrib cong: if_cong\<close>)
  qed
qed

lemma live_unchanged:
  assumes "\<And>x. x \<in> set rs \<Longrightarrow> p x \<Longrightarrow> res_expiresAt x \<le> n"
  shows "live_quantity n e t (upd_where p (\<lambda>x. x\<lparr>res_status := st\<rparr>) rs) = live_quantity n e t rs"
  using assms
proof (induction rs)
  case Nil
  then show ?case by simp
next
  case (Cons a rs)
  then have "p a \<Longrightarrow> \<not> n < res_expiresAt a" by force
  with Cons show ?case by (auto simp: live_quantity_def is_live_def)
qed

lemma sweep_loop_effect:
  "sweep_loop E k rs ids s = (Inr out, s') \<Longrightarrow>
     distinct (map inv_id (event_ticket_inventory s)) \<Longrightarrow>
     distinct (map (\<lambda>i. (inv_eventId i, inv_ticketTypeId i)) (event_ticket_inventory s)) \<Longrightarrow>
     (\<And>x. x \<in> set (ticket_reservations s) \<Longrightarrow> res_id x \<in> res_id ` set rs \<Longrightarrow> res_expiresAt x \<le> db_now E) \<Longrightarrow>
     ticket_reservations s' = upd_where (\<lambda>x. res_id x \<in> res_id ` set rs)
       (\<lambda>x. x\<lparr>res_status := ReservationStatus.EXPIRED\<rparr>) (ticket_reservations s) \<and>
     event_ticket_inventory s' =
       upd_where (\<lambda>i. (inv_eventId i, inv_ticketTypeId i) \<in> (\<lambda>r. (res_eventId r, res_ticketTypeId r)) ` set rs)
         (\<lambda>i. i\<lparr>inv_reservedCount := live_quantity (db_now E) (inv_eventId i) (inv_ticketTypeId i)
            (ticket_reservations s)\<rparr>) (event_ticket_inventory s) \<and>
     map aud_entityId (audit_logs s') = map aud_entityId (audit_logs s) @ map res_id rs \<and>
     map obx_aggregateId (outbox_events s') = map obx_aggregateId (outbox_events s) @ map res_id rs"
proof (induction rs arbitrary: k ids s)
  case Nil
  then show ?case by simp
next
  case (Cons r rs)
  from Cons.prems(1) show ?case
  proof (rule sweep_loop_Cons_Inr)
    fix i :: EventTicketInventory and s1
    let ?exp = "\<lambda>x. x\<lparr>res_status := ReservationStatus.EXPIRED\<rparr>"
    let ?L = "\<lambda>i. live_quantity (db_now E) (inv_eventId i) (inv_ticketTypeId i) (ticket_reservations s)"
    assume i: "find (\<lambda>b. inv_eventId b = res_eventId r \<and> inv_ticketTypeId b = res_ticketTypeId r)
       (event_ticket_inventory s) = Some i"
      and rs: "ticket_reservations s1 = upd_where (\<lambda>x. res_id x = res_id r) ?exp (ticket_reservations s)"
      and ivs: "event_ticket_inventory s1 = upd_where (\<lambda>x. inv_id x = inv_id i)
       (\<lambda>x. x\<lparr>inv_reservedCount := live_quantity (db_now E) (res_eventId r) (res_ticketTypeId r)
          (ticket_reservations s1)\<rparr>) (event_ticket_inventory s)"
      and logs: "\<exists>a. audit_logs s1 = audit_logs s @ [a] \<and> aud_action a = ''RESERVATION_EXPIRED'' \<and>
         aud_entityId a = res_id r"
      "\<exists>b. outbox_events s1 = outbox_events s @ [b] \<and> obx_eventType b = ''TicketReservationExpired'' \<and>
         obx_aggregateId b = res_id r"
      and next': "sweep_loop E (Suc k) rs (ids @ [res_id r]) s1 = (Inr out, s')"
    note b = bucket_found [OF i]
    have L: "live_quantity (db_now E) e t (ticket_reservations s1) =
        live_quantity (db_now E) e t (ticket_reservations s)" for e t
      unfolding rs by (rule live_unchanged) (use Cons.prems(4) in auto)
    have same: "inv_id x = inv_id i \<longleftrightarrow>
        (inv_eventId x, inv_ticketTypeId x) = (res_eventId r, res_ticketTypeId r)"
      if "x \<in> set (event_ticket_inventory s)" for x
      using distinct_key_unique [OF Cons.prems(2) that b(1)]
        distinct_key_unique [OF Cons.prems(3) that b(1)] b(2,3) by auto
    have ivs2: "event_ticket_inventory s1 =
        upd_where (\<lambda>x. (inv_eventId x, inv_ticketTypeId x) = (res_eventId r, res_ticketTypeId r))
          (\<lambda>i. i\<lparr>inv_reservedCount := ?L i\<rparr>) (event_ticket_inventory s)"
      unfolding ivs L
      by (rule upd_where_cong [OF same]) auto
    have "ticket_reservations s' = upd_where (\<lambda>x. res_id x \<in> res_id ` set rs) ?exp (ticket_reservations s1) \<and>
       event_ticket_inventory s' =
       upd_where (\<lambda>i. (inv_eventId i, inv_ticketTypeId i) \<in> (\<lambda>r. (res_eventId r, res_ticketTypeId r)) ` set rs)
         (\<lambda>i. i\<lparr>inv_reservedCount := ?L i\<rparr>) (event_ticket_inventory s1) \<and>
       map aud_entityId (audit_logs s') = map aud_entityId (audit_logs s1) @ map res_id rs \<and>
       map obx_aggregateId (outbox_events s') = map obx_aggregateId (outbox_events s1) @ map res_id rs"
      unfolding L [symmetric]
      by (rule Cons.IH [OF next'])
         (use Cons.prems(2-4) in \<open>auto simp: ivs2 rs map_key_upd_where set_upd_where split: if_splits\<close>)
    with logs show ?thesis
      by (auto simp: rs ivs2 upd_where_upd_where intro!: upd_where_cong)
  qed
qed

section \<open>Properties\<close>

lemma bucket_of_id:
  assumes "inventory_inv n s" and "i \<in> set (event_ticket_inventory s)"
  shows "find (\<lambda>b. inv_eventId b = inv_eventId i \<and> inv_ticketTypeId b = inv_ticketTypeId i)
           (event_ticket_inventory s) = Some i"
    and "find (\<lambda>b. inv_id b = inv_id i) (event_ticket_inventory s) = Some i"
  using find_distinct_key [of inv_id, OF _ assms(2)]
    find_distinct_key [of "\<lambda>i. (inv_eventId i, inv_ticketTypeId i)", OF _ assms(2)] assms(1)
  by (auto simp: inventory_inv_def)

text \<open>
  A small database for the witnesses: one bucket of 60 tickets, one live and one expired hold.
\<close>

definition ex_env :: env where
  "ex_env = \<lparr> app_now = 5000, db_now = 5000, uuid = (\<lambda>n. replicate n CHR ''u''),
     sha256 = (\<lambda>x. ''h'' @ x), tx_usable_after_error = False \<rparr>"

definition ex_ctx :: request_ctx where
  "ex_ctx = \<lparr> ctx_correlationId = ''corr'', ctx_requestId = ''req'', ctx_userId = Some ''alice'',
     ctx_deviceId = None, ctx_organizerId = None, ctx_ipAddress = None, ctx_userAgent = None \<rparr>"

definition ex_bucket :: EventTicketInventory where
  "ex_bucket = \<lparr> inv_id = ''i'', inv_eventId = ''e'', inv_ticketTypeId = ''t'',
     inv_capacityTotal = 60, inv_reservedCount = 7, inv_soldCount = 10 \<rparr>"

definition ex_hold :: "string \<Rightarrow> int \<Rightarrow> int \<Rightarrow> TicketReservation" where
  "ex_hold i q t = \<lparr> res_id = i, res_ownerUserId = ''alice'', res_eventId = ''e'',
     res_ticketTypeId = ''t'', res_quantity = q, res_status = ReservationStatus.HELD,
     res_expiresAt = t \<rparr>"

definition ex_db :: db where
  "ex_db = empty_db\<lparr> event_ticket_inventory := [ex_bucket],
     ticket_reservations := [ex_hold ''r1'' 2 9000, ex_hold ''r2'' 5 4000] \<rparr>"

definition ex_input :: ReserveInventoryInput where
  "ex_input = \<lparr> rii_eventId = ''e'', rii_ticketTypeId = ''t'', rii_quantity = IntegerNum 4,
     rii_holdTtlSeconds = IntegerNum 60 \<rparr>"

lemmas ex_inventory_defs = ex_env_def ex_ctx_def ex_bucket_def ex_hold_def ex_db_def ex_input_def
  empty_db_def

lemma ex_db_inv: "inventory_inv 5000 ex_db"
  by code_simp

text \<open>
  C1: A well-formed request on an existing bucket is granted exactly when the quantity fits in the
  capacity left by the sold tickets and the authoritative reserved count (the live count of the
  reservation table when the bucket is tight, the cached counter otherwise); the result carries
  the drawn identifier and the expiry, and otherwise the error is InventoryUnavailableError.
\<close>

theorem reserve_decision:
  assumes "inventory_inv (db_now E) s" and "i \<in> set (event_ticket_inventory s)"
    and "rii_eventId input = inv_eventId i" and "rii_ticketTypeId input = inv_ticketTypeId i"
    and "rii_quantity input = IntegerNum q" and "0 < q"
    and "rii_holdTtlSeconds input = IntegerNum ttl" and "0 < ttl"
    and "ctx_userId c = Some u" and "u \<noteq> []"
    and "uuid E 0 \<notin> res_id ` set (ticket_reservations s)"
    and "uuid E 1 \<notin> aud_id ` set (audit_logs s)" and "uuid E 2 \<notin> obx_id ` set (outbox_events s)"
  shows "fst (ReserveInventory_execute E (Some c) input s) =
    (if q \<le> inv_capacityTotal i - authoritative_reserved E i s - inv_soldCount i
     then Inr \<lparr> rir_reservationId = uuid E 0, rir_expiresAt = app_now E + ttl * 1000, rir_quantity = q \<rparr>
     else Inl (InventoryUnavailableError ''Not enough tickets available.''))"
proof -
  note f = bucket_of_id [OF assms(1,2)]
  have fresh: "\<not> list_ex (\<lambda>y. uuid E 0 = res_id y) (ticket_reservations s)"
    "\<not> list_ex (\<lambda>y. uuid E 1 = aud_id y) (audit_logs s)"
    "\<not> list_ex (\<lambda>y. uuid E 2 = obx_id y) (outbox_events s)"
    using assms(11-13) by (auto simp: list_ex_iff)
  show ?thesis
    using assms(3-10) f fresh
    by (simp add: ReserveInventory_execute_def ReserveInventory_tx_def authoritative_reserved_def
        runInTransaction_def bindp_def seqp_def createHeldReservation_def updateReservedCount_def
        AuditLogRepository_append_def OutboxRepository_append_def prisma_create_def prisma_update_def
        new_outbox_event_def)
qed

theorem reserve_decision_witness:
  "fst (ReserveInventory_execute ex_env (Some ex_ctx) ex_input ex_db) =
     Inr \<lparr> rir_reservationId = [], rir_expiresAt = 65000, rir_quantity = 4 \<rparr>"
  using reserve_decision [of ex_env ex_db ex_bucket ex_input 4 60 ex_ctx "''alice''"] ex_db_inv
  by (simp add: ex_inventory_defs authoritative_reserved_def is_tight_def live_quantity_def is_live_def)

text \<open>
  The abstract inventory of a bucket is its capacity, what is sold and what is live; to reserve is
  to raise the live quantity when it fits. The cached counter is an optimisation the abstract
  inventory does not have.
\<close>

definition spec_reserve :: "int \<times> int \<times> int \<Rightarrow> int \<Rightarrow> (int \<times> int \<times> int) option" where
  "spec_reserve b q = (case b of (capacity, sold, live) \<Rightarrow>
     if sold + live + q \<le> capacity then Some (capacity, sold, live + q) else None)"

definition abs_bucket :: "int \<Rightarrow> string \<Rightarrow> string \<Rightarrow> db \<Rightarrow> (int \<times> int \<times> int) option" where
  "abs_bucket n e t s =
     map_option (\<lambda>i. (inv_capacityTotal i, inv_soldCount i, live_quantity n e t (ticket_reservations s)))
       (find (\<lambda>i. inv_eventId i = e \<and> inv_ticketTypeId i = t) (event_ticket_inventory s))"

text \<open>
  C2: Whatever the cached counter says, a granted reservation is a step the abstract inventory
  allows: it never grants what the live count would refuse, and it raises the live quantity by the
  quantity asked and changes neither capacity nor sold tickets.
\<close>

theorem reserve_refines_spec:
  assumes "inventory_inv (db_now E) s"
    and "ReserveInventory_execute E ctx input s = (Inr r, s')"
    and "db_now E < rir_expiresAt r"
  shows "\<exists>b. abs_bucket (db_now E) (rii_eventId input) (rii_ticketTypeId input) s = Some b \<and>
    spec_reserve b (rir_quantity r) =
      abs_bucket (db_now E) (rii_eventId input) (rii_ticketTypeId input) s'"
  using assms(2)
proof (rule ReserveInventory_Inr)
  fix q ttl :: int and i user
  let ?b = "\<lambda>i. inv_eventId i = rii_eventId input \<and> inv_ticketTypeId i = rii_ticketTypeId input"
  assume i: "find ?b (event_ticket_inventory s) = Some i"
    and room: "q \<le> inv_capacityTotal i - authoritative_reserved E i s - inv_soldCount i"
    and r: "r = \<lparr> rir_reservationId = uuid E 0, rir_expiresAt = app_now E + ttl * 1000, rir_quantity = q \<rparr>"
    and rs: "ticket_reservations s' = ticket_reservations s @
       [\<lparr> res_id = uuid E 0, res_ownerUserId = user, res_eventId = rii_eventId input,
          res_ticketTypeId = rii_ticketTypeId input, res_quantity = q,
          res_status = ReservationStatus.HELD, res_expiresAt = app_now E + ttl * 1000 \<rparr>]"
    and ivs: "event_ticket_inventory s' = upd_where (\<lambda>x. inv_id x = inv_id i)
       (\<lambda>x. x\<lparr>inv_reservedCount := authoritative_reserved E i s + q\<rparr>) (event_ticket_inventory s)"
  note b = bucket_found [OF i]
  from inventory_inv_bucket [OF assms(1) b(1)] b room
  have "inv_soldCount i + live_quantity (db_now E) (rii_eventId input) (rii_ticketTypeId input)
      (ticket_reservations s) + q \<le> inv_capacityTotal i"
    by (auto simp: authoritative_reserved_def bucket_ok_def split: if_splits)
  moreover have "find ?b (event_ticket_inventory s') =
      map_option (\<lambda>x. if inv_id x = inv_id i
        then x\<lparr>inv_reservedCount := authoritative_reserved E i s + q\<rparr> else x)
        (find ?b (event_ticket_inventory s))"
    unfolding ivs by (rule find_upd_where_same) simp
  ultimately show ?thesis
    using assms(3) by (simp add: abs_bucket_def spec_reserve_def i r rs is_live_def)
qed

theorem reserve_refines_spec_witness:
  "abs_bucket 5000 ''e'' ''t'' (snd (ReserveInventory_execute ex_env (Some ex_ctx) ex_input ex_db)) =
     spec_reserve (60, 10, 2) 4"
proof -
  let ?x = "ReserveInventory_execute ex_env (Some ex_ctx) ex_input ex_db"
  have run: "?x = (Inr \<lparr> rir_reservationId = [], rir_expiresAt = 65000, rir_quantity = 4 \<rparr>, snd ?x)"
    by (simp add: prod_eq_iff) code_simp
  have "abs_bucket 5000 ''e'' ''t'' ex_db = Some (60, 10, 2)"
    by code_simp
  with reserve_refines_spec [OF _ run] ex_db_inv show ?thesis
    by (simp add: ex_env_def ex_input_def)
qed

text \<open>
  C3: A sweep that returns has marked exactly the claimed reservations EXPIRED (they are held, past
  their expiry by the database clock, and at most the limit), has set the counter of every bucket
  it touched to that bucket's live quantity and left every other counter alone, and has written one
  audit row and one outbox event per swept reservation, in order.
\<close>

theorem sweep_effect:
  assumes "inventory_inv (db_now E) s"
    and "SweepExpiredReservations_execute E locked limit s = (Inr r, s')"
  shows "ser_reservationIds r = map res_id (take (case limit of None \<Rightarrow> 100 | Some l \<Rightarrow> l)
           (sort_key res_expiresAt (filter (\<lambda>x. res_status x = ReservationStatus.HELD \<and>
              res_expiresAt x \<le> db_now E \<and> \<not> locked (res_id x)) (ticket_reservations s)))) \<and>
    ticket_reservations s' = upd_where (\<lambda>x. res_id x \<in> set (ser_reservationIds r))
      (\<lambda>x. x\<lparr>res_status := ReservationStatus.EXPIRED\<rparr>) (ticket_reservations s) \<and>
    event_ticket_inventory s' = upd_where
      (\<lambda>i. list_ex (\<lambda>x. res_id x \<in> set (ser_reservationIds r) \<and> res_eventId x = inv_eventId i \<and>
             res_ticketTypeId x = inv_ticketTypeId i) (ticket_reservations s))
      (\<lambda>i. i\<lparr>inv_reservedCount := live_quantity (db_now E) (inv_eventId i) (inv_ticketTypeId i)
             (ticket_reservations s')\<rparr>) (event_ticket_inventory s) \<and>
    map aud_entityId (audit_logs s') = map aud_entityId (audit_logs s) @ ser_reservationIds r \<and>
    map obx_aggregateId (outbox_events s') = map obx_aggregateId (outbox_events s) @ ser_reservationIds r"
proof -
  define rs where "rs = take (case limit of None \<Rightarrow> 100 | Some l \<Rightarrow> l)
     (sort_key res_expiresAt (filter (\<lambda>x. res_status x = ReservationStatus.HELD \<and>
        res_expiresAt x \<le> db_now E \<and> \<not> locked (res_id x)) (ticket_reservations s)))"
  from assms(2) obtain out where loop: "sweep_loop E 0 rs [] s = (Inr out, s')"
    and r: "r = \<lparr> ser_swept = length out, ser_reservationIds = out \<rparr>"
    by (auto simp: SweepExpiredReservations_execute_def prog_inv Let_def rs_def DEFAULT_SWEEP_LIMIT_def
        cong: option.case_cong)
  have ids: "out = map res_id rs" using sweep_loop_ids [OF loop] by simp
  have sub: "set rs \<subseteq> {x \<in> set (ticket_reservations s). res_expiresAt x \<le> db_now E}"
    unfolding rs_def by (auto dest: in_set_takeD)
  have keys: "distinct (map inv_id (event_ticket_inventory s))"
    "distinct (map (\<lambda>i. (inv_eventId i, inv_ticketTypeId i)) (event_ticket_inventory s))"
    "distinct (map res_id (ticket_reservations s))"
    using assms(1) by (auto simp: inventory_inv_def)
  have mem: "x \<in> set rs" if "x \<in> set (ticket_reservations s)" "res_id x \<in> res_id ` set rs" for x
    using that sub distinct_key_unique [OF keys(3) that(1)] by auto
  have past: "res_expiresAt x \<le> db_now E"
    if "x \<in> set (ticket_reservations s)" "res_id x \<in> res_id ` set rs" for x
    using mem [OF that] sub by auto
  note eff = sweep_loop_effect [OF loop keys(1,2) past]
  then have trs: "ticket_reservations s' = upd_where (\<lambda>x. res_id x \<in> res_id ` set rs)
       (\<lambda>x. x\<lparr>res_status := ReservationStatus.EXPIRED\<rparr>) (ticket_reservations s)" by blast
  have L: "live_quantity (db_now E) e t (ticket_reservations s') =
      live_quantity (db_now E) e t (ticket_reservations s)" for e t
    unfolding trs by (rule live_unchanged) (use past in auto)
  have "list_ex (\<lambda>x. res_id x \<in> res_id ` set rs \<and> res_eventId x = e \<and> res_ticketTypeId x = t)
        (ticket_reservations s) \<longleftrightarrow> (e, t) \<in> (\<lambda>r. (res_eventId r, res_ticketTypeId r)) ` set rs" for e t
    using mem sub by (fastforce simp: list_ex_iff)
  with eff show ?thesis
    by (simp add: r ids L [unfolded trs] flip: rs_def)
qed

theorem sweep_effect_witness:
  "ticket_reservations (snd (SweepExpiredReservations_execute ex_env (\<lambda>_. False) None ex_db)) =
     [ex_hold ''r1'' 2 9000, (ex_hold ''r2'' 5 4000)\<lparr>res_status := ReservationStatus.EXPIRED\<rparr>]"
proof -
  let ?x = "SweepExpiredReservations_execute ex_env (\<lambda>_. False) None ex_db"
  have run: "?x = (Inr \<lparr> ser_swept = 1, ser_reservationIds = [''r2''] \<rparr>, snd ?x)"
    by (simp add: prod_eq_iff) code_simp
  from sweep_effect [OF _ run] ex_db_inv show ?thesis
    by (simp add: ex_inventory_defs)
qed

text \<open>
  Reconciliation sets the counter of its bucket to the live quantity, reports whether it had
  drifted, touches nothing but the inventory table, and is idempotent: an immediate second run
  corrects nothing and changes nothing.
\<close>

theorem reconcile_idempotent:
  assumes "inventory_inv (db_now E) s" and "ReconcileInventoryDrift_execute E e t s = (Inr r, s')"
  shows "(\<exists>i. find (\<lambda>i. inv_eventId i = e \<and> inv_ticketTypeId i = t) (event_ticket_inventory s') = Some i \<and>
      inv_reservedCount i = live_quantity (db_now E) e t (ticket_reservations s')) \<and>
    ticket_reservations s' = ticket_reservations s \<and>
    (\<exists>r2. ReconcileInventoryDrift_execute E e t s' = (Inr r2, s') \<and> \<not> rid_corrected r2)"
  using assms(2)
proof (rule reconcile_Inr)
  fix i
  let ?n = "live_quantity (db_now E) e t (ticket_reservations s)"
  let ?b = "\<lambda>i. inv_eventId i = e \<and> inv_ticketTypeId i = t"
  assume i: "find ?b (event_ticket_inventory s) = Some i"
    and c: "rid_corrected r \<longleftrightarrow> ?n \<noteq> inv_reservedCount i"
    and s': "s' = event_ticket_inventory_update
      (upd_where (\<lambda>x. inv_id x = inv_id i \<and> rid_corrected r) (\<lambda>x. x\<lparr>inv_reservedCount := ?n\<rparr>)) s"
  have "find ?b (event_ticket_inventory s') = map_option
      (\<lambda>x. if inv_id x = inv_id i \<and> rid_corrected r then x\<lparr>inv_reservedCount := ?n\<rparr> else x)
      (find ?b (event_ticket_inventory s))"
    unfolding s' by (simp, rule find_upd_where_same) simp
  with i c have found: "\<exists>j. find ?b (event_ticket_inventory s') = Some j \<and> inv_reservedCount j = ?n"
    by auto
  then have "\<exists>r2. ReconcileInventoryDrift_execute E e t s' = (Inr r2, s') \<and> \<not> rid_corrected r2"
    by (auto simp: ReconcileInventoryDrift_execute_def prog_run runInTransaction_def bindp_def s')
  with found show ?thesis by (simp add: s')
qed

theorem reconcile_idempotent_witness:
  "\<exists>r2. ReconcileInventoryDrift_execute ex_env ''e'' ''t''
      (snd (ReconcileInventoryDrift_execute ex_env ''e'' ''t'' ex_db)) =
      (Inr r2, snd (ReconcileInventoryDrift_execute ex_env ''e'' ''t'' ex_db)) \<and> \<not> rid_corrected r2"
proof -
  let ?x = "ReconcileInventoryDrift_execute ex_env ''e'' ''t'' ex_db"
  have run: "?x = (Inr \<lparr> rid_inventoryId = ''i'', rid_cachedReservedCount = 7,
      rid_liveReservedCount = 2, rid_corrected = True \<rparr>, snd ?x)"
    by (simp add: prod_eq_iff) code_simp
  have now: "db_now ex_env = 5000" by (simp add: ex_env_def)
  show ?thesis
    using reconcile_idempotent [OF _ run] ex_db_inv by (simp add: now)
qed

text \<open>
  Releasing a reservation marks it EXPIRED and writes the counter as it was computed before
  that: with the database clock past the expiry this is the live quantity, but when only the
  caller's clock is past it the released quantity is still counted.
\<close>

theorem release_counter:
  assumes "inventory_inv (db_now E) s"
    and "ReleaseExpiredReservation_execute E i now s = (Inr res, s')" and "rer_released res"
    and "find (\<lambda>r. res_id r = i) (ticket_reservations s) = Some r"
  shows "find (\<lambda>r. res_id r = i) (ticket_reservations s') =
      Some (r\<lparr>res_status := ReservationStatus.EXPIRED\<rparr>) \<and>
    rer_reservedCount res =
      Some (live_quantity (db_now E) (res_eventId r) (res_ticketTypeId r) (ticket_reservations s') +
        (if db_now E < res_expiresAt r then res_quantity r else 0)) \<and>
    map_option inv_reservedCount (find (\<lambda>b. inv_eventId b = res_eventId r \<and>
        inv_ticketTypeId b = res_ticketTypeId r) (event_ticket_inventory s')) = rer_reservedCount res"
proof -
  let ?n = "live_quantity (db_now E) (res_eventId r) (res_ticketTypeId r) (ticket_reservations s)"
  let ?b = "\<lambda>b. inv_eventId b = res_eventId r \<and> inv_ticketTypeId b = res_ticketTypeId r"
  from release_Inr [OF assms(2)] assms(3,4) obtain inv where
    held: "res_status r = ReservationStatus.HELD"
    and inv: "find ?b (event_ticket_inventory s) = Some inv"
    and cnt: "rer_reservedCount res = Some ?n"
    and s': "s' = event_ticket_inventory_update
          (upd_where (\<lambda>x. inv_id x = inv_id inv) (\<lambda>x. x\<lparr>inv_reservedCount := ?n\<rparr>))
         (ticket_reservations_update
           (upd_where (\<lambda>y. res_id y = res_id r) (\<lambda>x. x\<lparr>res_status := ReservationStatus.EXPIRED\<rparr>)) s)"
    by auto
  have r: "r \<in> set (ticket_reservations s)" "res_id r = i" using find_Some_iff2 [OF assms(4)] by auto
  have d: "distinct (map res_id (ticket_reservations s))" using assms(1) by (simp add: inventory_inv_def)
  have "find ?b (event_ticket_inventory s') = map_option
      (\<lambda>x. if inv_id x = inv_id inv then x\<lparr>inv_reservedCount := ?n\<rparr> else x) (find ?b (event_ticket_inventory s))"
    unfolding s' by (simp, rule find_upd_where_same) simp
  then show ?thesis
    using held inv cnt assms(4) r live_switch_off [OF d r(1)]
    by (simp add: s' find_upd_where_key is_live_def)
qed

theorem release_counter_witness:
  "let x = ReleaseExpiredReservation_execute ex_env ''r1'' (Some 9000) ex_db in
     map_option inv_reservedCount (find (\<lambda>b. inv_id b = ''i'') (event_ticket_inventory (snd x))) = Some 2 \<and>
     live_quantity 5000 ''e'' ''t'' (ticket_reservations (snd x)) = 0"
proof -
  let ?x = "ReleaseExpiredReservation_execute ex_env ''r1'' (Some 9000) ex_db"
  have run: "?x = (Inr \<lparr> rer_released = True, rer_inventoryId = Some ''i'', rer_reservedCount = Some 2 \<rparr>, snd ?x)"
    by (simp add: prod_eq_iff) code_simp
  have now: "db_now ex_env = 5000" by (simp add: ex_env_def)
  have r: "find (\<lambda>r. res_id r = ''r1'') (ticket_reservations ex_db) = Some (ex_hold ''r1'' 2 9000)"
    by code_simp
  have "live_quantity 5000 ''e'' ''t'' (ticket_reservations (snd ?x)) = 0"
    using release_counter [OF _ run _ r] ex_db_inv by (simp add: now ex_hold_def)
  moreover have "map_option inv_reservedCount (find (\<lambda>b. inv_id b = ''i'') (event_ticket_inventory (snd ?x))) = Some 2"
    by code_simp
  ultimately show ?thesis by (simp add: Let_def)
qed

lemma sweep_keeps_inv:
  assumes inv: "inventory_inv (db_now E) s"
    and run: "SweepExpiredReservations_execute E locked limit s = (r, s')"
  shows "inventory_inv (db_now E) s'"
proof (cases r)
  case (Inl e)
  with run inv show ?thesis by (auto simp: SweepExpiredReservations_execute_def prog_inv Let_def)
next
  case (Inr res)
  from run Inr obtain rs out where loop: "sweep_loop E 0 rs [] s = (Inr out, s')"
    and sub: "set rs \<subseteq> set (ticket_reservations s)"
  proof -
    assume that: "\<And>rs out. sweep_loop E 0 rs [] s = (Inr out, s') \<Longrightarrow>
        set rs \<subseteq> set (ticket_reservations s) \<Longrightarrow> thesis"
    from run Inr show thesis
      by (auto simp: SweepExpiredReservations_execute_def prog_inv Let_def
          elim!: that dest: in_set_takeD)
  qed
  have d: "distinct (map res_id (ticket_reservations s))" using inv by (simp add: inventory_inv_def)
  have "x = r" if "r \<in> set rs" "x \<in> set (ticket_reservations s)" "res_id x = res_id r" for r x
    using distinct_key_unique [OF d that(2) _ that(3)] sub that(1) by blast
  then have "\<forall>r\<in>set rs. \<forall>x\<in>set (ticket_reservations s). res_id x = res_id r \<longrightarrow>
      (res_eventId x, res_ticketTypeId x) = (res_eventId r, res_ticketTypeId r)"
    by blast
  then show ?thesis
    by (rule sweep_loop_keeps_inv [OF loop inv, rotated]) (use sub in auto)
qed

lemmas inventory_keeps = reserve_keeps_inv release_keeps_inv sweep_keeps_inv reconcile_keeps_inv

end
