(* ===== verification/Launch_Control.thy ===== *)
theory Launch_Control
  imports Schema
begin

text \<open>
  Pilot launch control (\<^verbatim>\<open>src/shared/launch-control/launch-control.service.ts\<close>): switches and
  allow-lists that decide whether checkout, payment initiation and admission validation may run
  for an event. Its reads go through the service's own client, outside the caller's transaction.
\<close>

record launch_config =
  PILOT_CHECKOUT_ENABLED :: "bool option"
  PILOT_PAYMENTS_ENABLED :: "bool option"
  PILOT_ADMISSIONS_ENABLED :: "bool option"
  PILOT_ALLOWED_PAYMENT_PROVIDERS :: "string list option"
  PILOT_ALLOWED_CURRENCIES :: "string list option"
  PILOT_ALLOWED_ORGANIZER_IDS :: "string list option"
  PILOT_ALLOWED_EVENT_IDS :: "string list option"
  PILOT_ALLOWED_GATE_IDS :: "string list option"

definition toReadonlySet :: "string list option \<Rightarrow> string set option" where
  "toReadonlySet values = (case values of None \<Rightarrow> None | Some vs \<Rightarrow> if vs = [] then None else Some (set vs))"

record LaunchControlService =
  lc_checkoutEnabled :: bool
  lc_paymentsEnabled :: bool
  lc_admissionsEnabled :: bool
  lc_allowedProviders :: "string set option"
  lc_allowedCurrencies :: "string set option"
  lc_allowedOrganizerIds :: "string set option"
  lc_allowedEventIds :: "string set option"
  lc_allowedGateIds :: "string set option"

definition enabled_unless :: "bool option \<Rightarrow> bool" where
  "enabled_unless v = (case v of None \<Rightarrow> True | Some b \<Rightarrow> b)"

definition LaunchControl_constructor :: "launch_config \<Rightarrow> LaunchControlService" where
  "LaunchControl_constructor c =
     \<lparr> lc_checkoutEnabled = enabled_unless (PILOT_CHECKOUT_ENABLED c),
       lc_paymentsEnabled = enabled_unless (PILOT_PAYMENTS_ENABLED c),
       lc_admissionsEnabled = enabled_unless (PILOT_ADMISSIONS_ENABLED c),
       lc_allowedProviders = toReadonlySet (PILOT_ALLOWED_PAYMENT_PROVIDERS c),
       lc_allowedCurrencies = toReadonlySet (PILOT_ALLOWED_CURRENCIES c),
       lc_allowedOrganizerIds = toReadonlySet (PILOT_ALLOWED_ORGANIZER_IDS c),
       lc_allowedEventIds = toReadonlySet (PILOT_ALLOWED_EVENT_IDS c),
       lc_allowedGateIds = toReadonlySet (PILOT_ALLOWED_GATE_IDS c) \<rparr>"

definition not_listed :: "string set option \<Rightarrow> string \<Rightarrow> bool" where
  "not_listed allowed x = (case allowed of None \<Rightarrow> False | Some A \<Rightarrow> x \<notin> A)"

record EventScope =
  es_eventId :: string
  es_organizerId :: string
  es_venueId :: string

definition loadEventScope :: "string \<Rightarrow> (db, EventScope) prog" where
  "loadEventScope eventId =
     bindp (prisma_find events (\<lambda>e. evt_id e = eventId)) (\<lambda>found.
       case found of
         None \<Rightarrow> throw (NotFoundError ''Event not found.'')
       | Some e \<Rightarrow> ret \<lparr> es_eventId = evt_id e, es_organizerId = evt_organizerId e,
                         es_venueId = evt_venueId e \<rparr>)"

definition loadGate :: "string \<Rightarrow> (db, Gate) prog" where
  "loadGate gateId =
     bindp (prisma_find gates (\<lambda>g. gat_id g = gateId)) (\<lambda>found.
       case found of None \<Rightarrow> throw (NotFoundError ''Gate not found.'') | Some g \<Rightarrow> ret g)"

definition assertEventScopeAllowed :: "LaunchControlService \<Rightarrow> EventScope \<Rightarrow> (db, unit) prog" where
  "assertEventScopeAllowed L scope =
     (if not_listed (lc_allowedEventIds L) (es_eventId scope)
      then throw (LaunchControlViolationError (''Event '' @ es_eventId scope @ '' is not enabled for the pilot.''))
      else if not_listed (lc_allowedOrganizerIds L) (es_organizerId scope)
      then throw (LaunchControlViolationError
             (''Organizer '' @ es_organizerId scope @ '' is not enabled for the pilot.''))
      else ret ())"

definition assertProviderAllowed :: "LaunchControlService \<Rightarrow> string \<Rightarrow> (db, unit) prog" where
  "assertProviderAllowed L provider =
     (if not_listed (lc_allowedProviders L) provider
      then throw (LaunchControlViolationError
             (''Payment provider '' @ provider @ '' is not enabled for the pilot.''))
      else ret ())"

definition assertCurrencyAllowed :: "LaunchControlService \<Rightarrow> string \<Rightarrow> (db, unit) prog" where
  "assertCurrencyAllowed L currency =
     (if not_listed (lc_allowedCurrencies L) currency
      then throw (LaunchControlViolationError (''Currency '' @ currency @ '' is not enabled for the pilot.''))
      else ret ())"

definition assertCheckoutAllowed :: "LaunchControlService \<Rightarrow> string \<Rightarrow> string \<Rightarrow> (db, unit) prog" where
  "assertCheckoutAllowed L eventId currency =
     (if \<not> lc_checkoutEnabled L
      then throw (LaunchControlDisabledError ''Checkout is disabled by pilot launch control.'')
      else bindp (loadEventScope eventId) (\<lambda>scope.
             seqp (assertEventScopeAllowed L scope) (assertCurrencyAllowed L currency)))"

definition assertPaymentInitiationAllowed ::
  "LaunchControlService \<Rightarrow> string \<Rightarrow> string \<Rightarrow> string \<Rightarrow> (db, unit) prog" where
  "assertPaymentInitiationAllowed L provider eventId currency =
     (if \<not> lc_paymentsEnabled L
      then throw (LaunchControlDisabledError ''Payment initiation is disabled by pilot launch control.'')
      else bindp (loadEventScope eventId) (\<lambda>scope.
             seqp (assertEventScopeAllowed L scope)
            (seqp (assertProviderAllowed L provider) (assertCurrencyAllowed L currency))))"

text \<open>
  \<open>Promise.all\<close> starts both loads; when both fail the first rejection to arrive wins, which
  \<open>gate_first\<close> decides.
\<close>

definition assertAdmissionValidationAllowed ::
  "LaunchControlService \<Rightarrow> bool \<Rightarrow> string \<Rightarrow> string \<Rightarrow> (db, unit) prog" where
  "assertAdmissionValidationAllowed L gate_first eventId gateId =
     (if \<not> lc_admissionsEnabled L
      then throw (LaunchControlDisabledError ''Admission validation is disabled by pilot launch control.'')
      else bindp (if gate_first
                  then bindp (loadGate gateId) (\<lambda>g. bindp (loadEventScope eventId) (\<lambda>sc. ret (sc, g)))
                  else bindp (loadEventScope eventId) (\<lambda>sc. bindp (loadGate gateId) (\<lambda>g. ret (sc, g))))
        (\<lambda>(scope, gate).
           seqp (assertEventScopeAllowed L scope)
             (if gat_venueId gate \<noteq> es_venueId scope
              then throw (DomainConflictError ''Gate does not belong to the ticket event venue.'')
              else if not_listed (lc_allowedGateIds L) gateId
              then throw (LaunchControlViolationError (''Gate '' @ gateId @ '' is not enabled for the pilot.''))
              else ret ())))"

section \<open>Lemmas\<close>

lemma readonly_launch_checks [intro]:
  "readonly (loadEventScope e)" "readonly (assertEventScopeAllowed L sc)"
  "readonly (assertProviderAllowed L p)" "readonly (assertCurrencyAllowed L c)"
  by (auto simp: loadEventScope_def assertEventScopeAllowed_def assertProviderAllowed_def
      assertCurrencyAllowed_def)

lemma readonly_assertCheckoutAllowed [intro]: "readonly (assertCheckoutAllowed L e c)"
  unfolding assertCheckoutAllowed_def by blast

lemma readonly_assertPaymentInitiationAllowed [intro]: "readonly (assertPaymentInitiationAllowed L p e c)"
  unfolding assertPaymentInitiationAllowed_def by blast

lemmas launch_check_snd [simp] =
  readonly_assertCheckoutAllowed [THEN readonly_snd]
  readonly_assertPaymentInitiationAllowed [THEN readonly_snd]

lemma assertCheckoutAllowed_Inr [prog_inv]:
  "assertCheckoutAllowed L e c s = (Inr u, s') \<longleftrightarrow>
     fst (assertCheckoutAllowed L e c s) = Inr () \<and> s' = s"
  by (auto simp: prod_eq_iff)

lemma assertPaymentInitiationAllowed_Inr [prog_inv]:
  "assertPaymentInitiationAllowed L p e c s = (Inr u, s') \<longleftrightarrow>
     fst (assertPaymentInitiationAllowed L p e c s) = Inr () \<and> s' = s"
  by (auto simp: prod_eq_iff)

text \<open>An allow-list that is absent or empty lets everything through.\<close>

definition listed_or_open :: "string list option \<Rightarrow> string \<Rightarrow> bool" where
  "listed_or_open vs x = (case vs of None \<Rightarrow> True | Some l \<Rightarrow> l = [] \<or> x \<in> set l)"

lemma not_listed_readonly:
  "not_listed (toReadonlySet vs) x \<longleftrightarrow> \<not> listed_or_open vs x"
  by (auto simp: not_listed_def toReadonlySet_def listed_or_open_def split: option.splits)

text \<open>
  Payment initiation is let through exactly when payments are not switched off, the event
  exists, and event, organizer, provider and currency are each on their allow-list or that list is
  absent or empty; the check never changes the database.
\<close>

theorem payment_initiation_gate:
  "assertPaymentInitiationAllowed (LaunchControl_constructor c) provider eventId currency s = (Inr (), s) \<longleftrightarrow>
     PILOT_PAYMENTS_ENABLED c \<noteq> Some False \<and>
     (\<exists>e. find (\<lambda>e. evt_id e = eventId) (events s) = Some e \<and>
        listed_or_open (PILOT_ALLOWED_EVENT_IDS c) eventId \<and>
        listed_or_open (PILOT_ALLOWED_ORGANIZER_IDS c) (evt_organizerId e)) \<and>
     listed_or_open (PILOT_ALLOWED_PAYMENT_PROVIDERS c) provider \<and>
     listed_or_open (PILOT_ALLOWED_CURRENCIES c) currency"
proof -
  have en: "enabled_unless v \<longleftrightarrow> v \<noteq> Some False" for v
    by (auto simp: enabled_unless_def split: option.splits)
  note defs = assertPaymentInitiationAllowed_def loadEventScope_def assertEventScopeAllowed_def
    assertCurrencyAllowed_def assertProviderAllowed_def LaunchControl_constructor_def en
    not_listed_readonly
  show ?thesis
  proof (cases "find (\<lambda>e. evt_id e = eventId) (events s)")
    case None
    then show ?thesis by (simp add: defs bindp_def seqp_def)
  next
    case (Some e)
    then have "evt_id e = eventId" using find_Some_iff2 by fastforce
    with Some show ?thesis by (auto simp: defs bindp_def seqp_def)
  qed
qed

end
