(* ===== verification/Json_Text.thy ===== *)
theory Json_Text
  imports Govibe_Prelude
begin

text \<open>
  What the code uses of JavaScript text: \<open>JSON.stringify\<close> of flat objects of strings (the input
  of every request hash), decimal rendering of integers, \<open>String.prototype.trim\<close>. Characters are
  the 8-bit \<open>char\<close> of HOL, so a text is one over the Latin-1 range.

  A parser for quoted strings is the specification: it reads back what \<open>JSON.stringify\<close> wrote
  and leaves the rest, which makes the rendering injective and lets a sequence of fields be read
  off one at a time.
\<close>

section \<open>Decimal integers\<close>

definition digit_char :: "nat \<Rightarrow> char" where
  "digit_char d = char_of (48 + d)"

fun nat_digits :: "nat \<Rightarrow> string" where
  "nat_digits n = (if n < 10 then [digit_char n] else nat_digits (n div 10) @ [digit_char (n mod 10)])"

declare nat_digits.simps [simp del]

definition int_to_string :: "int \<Rightarrow> string" where
  "int_to_string i = (if i < 0 then CHR ''-'' # nat_digits (nat (- i)) else nat_digits (nat i))"

definition digits_value :: "string \<Rightarrow> nat" where
  "digits_value = foldl (\<lambda>v c. 10 * v + (of_char c - 48)) 0"

lemma of_char_digit: "d < 10 \<Longrightarrow> of_char (digit_char d) = 48 + d"
  by (simp add: digit_char_def of_char_of take_bit_eq_mod)

lemma digits_value_append: "digits_value (xs @ [c]) = 10 * digits_value xs + (of_char c - 48)"
  by (simp add: digits_value_def)

lemma digits_value_digits [simp]: "digits_value (nat_digits n) = n"
proof (induction n rule: nat_digits.induct)
  case (1 n)
  show ?case
  proof (cases "n < 10")
    case True
    then show ?thesis
      by (simp add: nat_digits.simps [of n] digits_value_def of_char_digit)
  next
    case False
    with 1 show ?thesis
      by (subst nat_digits.simps) (simp add: digits_value_append of_char_digit)
  qed
qed

lemma digits_are_digits: "c \<in> set (nat_digits n) \<Longrightarrow> 48 \<le> (of_char c :: nat) \<and> (of_char c :: nat) < 58"
proof (induction n rule: nat_digits.induct)
  case (1 n)
  then show ?case
    by (subst (asm) (2) nat_digits.simps) (auto simp: of_char_digit split: if_splits)
qed

lemma digits_nonempty: "nat_digits n \<noteq> []"
  by (subst nat_digits.simps) simp

lemma digits_not_minus: "nat_digits n \<noteq> CHR ''-'' # xs"
  using digits_are_digits [of "CHR ''-''" n] by auto

lemma int_to_string_inj: "int_to_string i = int_to_string j \<Longrightarrow> i = j"
proof -
  assume eq: "int_to_string i = int_to_string j"
  have nat_eq: "nat_digits a = nat_digits b \<Longrightarrow> a = b" for a b
    by (metis digits_value_digits)
  have "nat_digits (nat i) \<noteq> CHR ''-'' # xs" for i xs by (rule digits_not_minus)
  with eq show "i = j"
    by (auto simp: int_to_string_def dest!: nat_eq split: if_splits) metis
qed

section \<open>JSON strings\<close>

definition hex_char :: "nat \<Rightarrow> char" where
  "hex_char d = (if d < 10 then char_of (48 + d) else char_of (87 + d))"

definition json_escape_char :: "char \<Rightarrow> string" where
  "json_escape_char c =
     (let n = (of_char c :: nat) in
      if n = 34 then [CHR 0x5C, CHR 0x22]
      else if n = 92 then [CHR 0x5C, CHR 0x5C]
      else if n = 8 then [CHR 0x5C, CHR ''b'']
      else if n = 12 then [CHR 0x5C, CHR ''f'']
      else if n = 10 then [CHR 0x5C, CHR ''n'']
      else if n = 13 then [CHR 0x5C, CHR ''r'']
      else if n = 9 then [CHR 0x5C, CHR ''t'']
      else if n < 32 then [CHR 0x5C, CHR ''u'', CHR ''0'', CHR ''0'', hex_char (n div 16), hex_char (n mod 16)]
      else [c])"

definition json_quote :: "string \<Rightarrow> string" where
  "json_quote s = CHR 0x22 # concat (map json_escape_char s) @ [CHR 0x22]"

definition unhex :: "char \<Rightarrow> nat" where
  "unhex c = (let n = of_char c in if n < 58 then n - 48 else n - 87)"

fun json_unescape :: "string \<Rightarrow> (string \<times> string) option" where
  "json_unescape [] = None"
| "json_unescape (c # cs) =
     (if of_char c = (34 :: nat) then Some ([], cs)
      else if of_char c = (92 :: nat) then
        (case cs of
           [] \<Rightarrow> None
         | d # ds \<Rightarrow>
             if d = CHR ''u'' then
               (case ds of
                  x1 # x2 # x3 # x4 # rest \<Rightarrow>
                    map_option (\<lambda>(t, r). (char_of (16 * unhex x3 + unhex x4) # t, r)) (json_unescape rest)
                | _ \<Rightarrow> None)
             else map_option (\<lambda>(t, r).
               ((if d = CHR ''b'' then CHR 0x08 else if d = CHR ''f'' then CHR 0x0C
                 else if d = CHR ''n'' then CHR 0x0A else if d = CHR ''r'' then CHR 0x0D
                 else if d = CHR ''t'' then CHR 0x09 else d) # t, r)) (json_unescape ds))
      else map_option (\<lambda>(t, r). (c # t, r)) (json_unescape cs))"

declare json_unescape.simps [simp del]

lemma char_eqI: "(of_char c :: nat) = of_char d \<Longrightarrow> c = d"
  by (metis char_of_char)

lemma small_control: "n < 32 \<Longrightarrow> 16 * unhex (hex_char (n div 16)) + unhex (hex_char (n mod 16)) = n"
  by (auto simp: unhex_def hex_char_def Let_def of_char_of take_bit_eq_mod)

lemma unescape_special:
  assumes "c \<in> {CHR 0x22, CHR 0x5C, CHR 0x08, CHR 0x0C, CHR 0x0A, CHR 0x0D, CHR 0x09}"
  shows "json_unescape (json_escape_char c @ rest) = map_option (\<lambda>(t, r). (c # t, r)) (json_unescape rest)"
  using assms
  by (auto simp: json_escape_char_def Let_def json_unescape.simps(2) [of "CHR 0x5C"])

lemma unescape_step:
  "json_unescape (json_escape_char c @ rest) = map_option (\<lambda>(t, r). (c # t, r)) (json_unescape rest)"
proof (cases "c \<in> {CHR 0x22, CHR 0x5C, CHR 0x08, CHR 0x0C, CHR 0x0A, CHR 0x0D, CHR 0x09}")
  case True
  then show ?thesis by (rule unescape_special)
next
  case False
  let ?n = "of_char c :: nat"
  have special: "?n \<noteq> 34" "?n \<noteq> 92" "?n \<noteq> 8" "?n \<noteq> 12" "?n \<noteq> 10" "?n \<noteq> 13" "?n \<noteq> 9"
    using False char_eqI [of c "CHR 0x22"] char_eqI [of c "CHR 0x5C"] char_eqI [of c "CHR 0x08"]
      char_eqI [of c "CHR 0x0C"] char_eqI [of c "CHR 0x0A"] char_eqI [of c "CHR 0x0D"]
      char_eqI [of c "CHR 0x09"] by auto
  show ?thesis
  proof (cases "?n < 32")
    case True
    then have "char_of (16 * unhex (hex_char (?n div 16)) + unhex (hex_char (?n mod 16))) = c"
      by (simp add: small_control)
    with True special show ?thesis
      by (simp add: json_escape_char_def Let_def json_unescape.simps(2) [of "CHR 0x5C"])
  next
    case False
    with special show ?thesis
      by (simp add: json_escape_char_def Let_def json_unescape.simps(2) [of c])
  qed
qed

lemma json_unescape_quote:
  "json_unescape (concat (map json_escape_char s) @ CHR 0x22 # rest) = Some (s, rest)"
proof (induction s)
  case Nil
  then show ?case by (simp add: json_unescape.simps)
next
  case (Cons c s)
  then show ?case by (simp add: unescape_step)
qed

lemma json_quote_append_inj:
  assumes "json_quote s @ x = json_quote t @ y"
  shows "s = t \<and> x = y"
proof -
  from assms have eq: "concat (map json_escape_char s) @ CHR 0x22 # x =
      concat (map json_escape_char t) @ CHR 0x22 # y"
    by (simp add: json_quote_def)
  have "Some (s, x) = Some (t, y)"
    unfolding json_unescape_quote [of s x, symmetric] json_unescape_quote [of t y, symmetric] eq ..
  then show ?thesis by simp
qed

text \<open>An object of string fields, as \<open>JSON.stringify\<close> writes it.\<close>

fun json_fields :: "(string \<times> string) list \<Rightarrow> string" where
  "json_fields [] = ''''"
| "json_fields [(k, v)] = json_quote k @ '':'' @ json_quote v"
| "json_fields ((k, v) # fs) = json_quote k @ '':'' @ json_quote v @ '','' @ json_fields fs"

definition json_object :: "(string \<times> string) list \<Rightarrow> string" where
  "json_object fs = ''{'' @ json_fields fs @ ''}''"

lemma json_fields_inj:
  "length fs = length gs \<Longrightarrow> json_fields fs @ x = json_fields gs @ y \<Longrightarrow> fs = gs \<and> x = y"
proof (induction fs arbitrary: gs rule: json_fields.induct)
  case 1
  then show ?case by simp
next
  case (2 k v)
  from 2(1) obtain k' v' where gs: "gs = [(k', v')]"
    by (cases gs) (auto simp: length_Suc_conv)
  with 2(2) show ?case
    by (auto dest!: json_quote_append_inj)
next
  case (3 k v f fs)
  from 3(2) obtain k' v' g gs' where gs: "gs = (k', v') # g # gs'"
    by (cases gs rule: json_fields.cases) auto
  from 3(3) have "k = k'" "v = v'" "json_fields (f # fs) @ x = json_fields (g # gs') @ y"
    by (auto simp: gs dest!: json_quote_append_inj)
  with 3(1) [of "g # gs'"] 3(2) show ?case by (simp add: gs)
qed

lemma json_object_inj: "length fs = length gs \<Longrightarrow> json_object fs = json_object gs \<Longrightarrow> fs = gs"
  by (auto simp: json_object_def dest: json_fields_inj)

section \<open>Trimming\<close>

definition is_js_space :: "char \<Rightarrow> bool" where
  "is_js_space c \<longleftrightarrow> (let n = (of_char c :: nat) in
     n = 9 \<or> n = 10 \<or> n = 11 \<or> n = 12 \<or> n = 13 \<or> n = 32 \<or> n = 160)"

definition js_trim :: "string \<Rightarrow> string" where
  "js_trim s = rev (dropWhile is_js_space (rev (dropWhile is_js_space s)))"

lemma js_trim_idem: "js_trim (js_trim s) = js_trim s"
proof -
  let ?d = "dropWhile is_js_space"
  have first: "?d (rev (?d (rev (?d s)))) = rev (?d (rev (?d s)))"
  proof (cases "rev (?d (rev (?d s)))")
    case Nil
    then show ?thesis by (simp only: dropWhile.simps)
  next
    case (Cons c cs)
    have "?d s = rev (?d (rev (?d s))) @ rev (takeWhile is_js_space (rev (?d s)))"
      by (metis rev_append rev_rev_ident takeWhile_dropWhile_id)
    with Cons obtain zs where "?d s = c # zs" by auto
    then have "\<not> is_js_space c" by (metis dropWhile_eq_Cons_conv)
    with Cons show ?thesis by simp
  qed
  show ?thesis
    unfolding js_trim_def first by simp
qed

section \<open>Lower case\<close>

text \<open>\<open>String.prototype.toLowerCase\<close> over Latin-1: the ASCII letters and the accented capitals.\<close>

definition lower_char :: "char \<Rightarrow> char" where
  "lower_char c = (let n = (of_char c :: nat) in
     if 65 \<le> n \<and> n \<le> 90 \<or> 192 \<le> n \<and> n \<le> 222 \<and> n \<noteq> 215 then char_of (n + 32) else c)"

definition toLowerCase :: "string \<Rightarrow> string" where
  "toLowerCase x = map lower_char x"

lemma lower_char_code:
  "(of_char (lower_char c) :: nat) =
     (let n = of_char c in if 65 \<le> n \<and> n \<le> 90 \<or> 192 \<le> n \<and> n \<le> 222 \<and> n \<noteq> 215 then n + 32 else n)"
  by (auto simp: lower_char_def Let_def of_char_of take_bit_eq_mod)

lemma lower_char_idem [simp]: "lower_char (lower_char c) = lower_char c"
  by (rule char_eqI) (auto simp: lower_char_code Let_def)

lemma toLowerCase_idem [simp]: "toLowerCase (toLowerCase x) = toLowerCase x"
  by (simp add: toLowerCase_def)

lemma space_lower [simp]: "is_js_space (lower_char c) \<longleftrightarrow> is_js_space c"
  by (auto simp: is_js_space_def lower_char_code Let_def)

lemma trim_lower: "js_trim (toLowerCase x) = toLowerCase (js_trim x)"
proof -
  have "is_js_space \<circ> lower_char = is_js_space" by (simp add: fun_eq_iff)
  then show ?thesis by (simp add: js_trim_def toLowerCase_def dropWhile_map rev_map)
qed

section \<open>Hexadecimal digits and UUIDs\<close>

text \<open>A digit of a base, as \<open>Number\<close> and \<open>[0-9a-f]\<close> with the flag \<open>i\<close> read it.\<close>

definition digit_in :: "nat \<Rightarrow> char \<Rightarrow> nat option" where
  "digit_in base c =
     (let n = (of_char (lower_char c) :: nat);
          d = (if 48 \<le> n \<and> n < 58 then n - 48 else if 97 \<le> n \<and> n < 123 then n - 87 else 99)
      in if d < base then Some d else None)"

text \<open>The pattern of a UUID, versions 1 to 5, letters of either case.\<close>

definition is_hex :: "char \<Rightarrow> bool" where
  "is_hex c \<longleftrightarrow> digit_in 16 c \<noteq> None"

definition is_uuid :: "string \<Rightarrow> bool" where
  "is_uuid x \<longleftrightarrow> length x = 36 \<and>
     (\<forall>i\<in>set [0..<36]. if i \<in> {8, 13, 18, 23} then x ! i = CHR ''-'' else is_hex (x ! i)) \<and>
     x ! 14 \<in> set ''12345'' \<and> x ! 19 \<in> set ''89abAB''"

end
