(* ===== verification/Idempotency.thy ===== *)
theory Idempotency
  imports Schema Json_Text
begin

text \<open>
  Idempotency keys (\<^verbatim>\<open>src/modules/idempotency\<close>) and the header check every controller that takes
  an \<^verbatim>\<open>Idempotency-Key\<close> runs. A key is claimed by inserting a pending row; the insert that loses
  reports it by returning \<open>False\<close>.

  The interface the use cases rely on is the locale \<open>claim_once\<close>: a claim succeeds exactly when
  the scope is free, and takes it. It is interpreted on the Prisma repository.
\<close>

definition requireIdempotencyKey :: "string option \<Rightarrow> app_error + string" where
  "requireIdempotencyKey value =
     (case value of
        None \<Rightarrow> Inl (BadRequestException ''Missing or invalid Idempotency-Key header.'')
      | Some v \<Rightarrow>
          let normalized = js_trim v in
          if length normalized = 0 \<or> length normalized > 128
          then Inl (BadRequestException ''Missing or invalid Idempotency-Key header.'')
          else Inr normalized)"

record IdempotencyScope =
  isc_actorUserId :: string
  isc_useCase :: string
  isc_idempotencyKey :: string

definition hashIdempotencyKey :: "env \<Rightarrow> string \<Rightarrow> string" where
  "hashIdempotencyKey E idempotencyKey = sha256 E idempotencyKey"

definition idk_key :: "IdempotencyKey \<Rightarrow> string \<times> string \<times> string" where
  "idk_key k = (idk_actorUserId k, idk_useCase k, idk_idempotencyKeyHash k)"

definition scope_key :: "env \<Rightarrow> IdempotencyScope \<Rightarrow> string \<times> string \<times> string" where
  "scope_key E sc = (isc_actorUserId sc, isc_useCase sc, hashIdempotencyKey E (isc_idempotencyKey sc))"

text \<open>A stored body that is not an object reads back as \<open>null\<close>.\<close>

definition object_or_null :: "json option \<Rightarrow> json option" where
  "object_or_null b = (case b of
     Some (JObj fs) \<Rightarrow> Some (JObj fs) | Some (JArr xs) \<Rightarrow> Some (JArr xs) | _ \<Rightarrow> None)"

definition Idempotency_findByKey :: "env \<Rightarrow> IdempotencyScope \<Rightarrow> (db, IdempotencyKey option) prog" where
  "Idempotency_findByKey E sc =
     bindp (prisma_find idempotency_keys (\<lambda>k. idk_key k = scope_key E sc)) (\<lambda>record.
       ret (map_option (\<lambda>k. k\<lparr>idk_responseBody := object_or_null (idk_responseBody k)\<rparr>) record))"

definition tryCreatePending :: "env \<Rightarrow> IdempotencyScope \<Rightarrow> string \<Rightarrow> (db, bool) prog" where
  "tryCreatePending E sc requestHash =
     catchp
       (seqp (prisma_create idempotency_keys idempotency_keys_update (\<lambda>x y. idk_key x = idk_key y)
                \<lparr> idk_actorUserId = isc_actorUserId sc, idk_useCase = isc_useCase sc,
                  idk_idempotencyKeyHash = hashIdempotencyKey E (isc_idempotencyKey sc),
                  idk_requestHash = requestHash, idk_responseCode = None, idk_responseBody = None \<rparr>)
         (ret True))
       (\<lambda>error. if error = PrismaClientKnownRequestError ''P2002'' then ret False else throw error)"

definition Idempotency_complete :: "env \<Rightarrow> IdempotencyScope \<Rightarrow> int \<Rightarrow> json \<Rightarrow> (db, unit) prog" where
  "Idempotency_complete E sc responseCode responseBody =
     seqp (prisma_update idempotency_keys idempotency_keys_update (\<lambda>k. idk_key k = scope_key E sc)
             (\<lambda>k. k\<lparr>idk_responseCode := Some responseCode, idk_responseBody := Some responseBody\<rparr>))
       (ret ())"

section \<open>Runs\<close>

definition pending_row :: "env \<Rightarrow> IdempotencyScope \<Rightarrow> string \<Rightarrow> IdempotencyKey" where
  "pending_row E sc h =
     \<lparr> idk_actorUserId = isc_actorUserId sc, idk_useCase = isc_useCase sc,
       idk_idempotencyKeyHash = hashIdempotencyKey E (isc_idempotencyKey sc),
       idk_requestHash = h, idk_responseCode = None, idk_responseBody = None \<rparr>"

lemma pending_row_key [simp]: "idk_key (pending_row E sc h) = scope_key E sc"
  by (simp add: pending_row_def idk_key_def scope_key_def)

lemma idk_key_response [simp]:
  "idk_key (k\<lparr>idk_responseCode := c\<rparr>) = idk_key k" "idk_key (k\<lparr>idk_responseBody := b\<rparr>) = idk_key k"
  by (simp_all add: idk_key_def)

lemma tryCreatePending_eq:
  "tryCreatePending E sc h s =
     (if list_ex (\<lambda>k. idk_key k = scope_key E sc) (idempotency_keys s) then (Inr False, s)
      else (Inr True, idempotency_keys_update (\<lambda>ks. ks @ [pending_row E sc h]) s))"
  by (simp add: tryCreatePending_def catchp_def seqp_def bindp_def prisma_create_def
      list_ex_key list_ex_key2 flip: pending_row_def)

lemma findByKey_apply [simp]:
  "Idempotency_findByKey E sc s =
     (Inr (map_option (\<lambda>k. k\<lparr>idk_responseBody := object_or_null (idk_responseBody k)\<rparr>)
        (find (\<lambda>k. idk_key k = scope_key E sc) (idempotency_keys s))), s)"
  by (simp add: Idempotency_findByKey_def bindp_def)

lemma complete_Inr [prog_inv]:
  "Idempotency_complete E sc c b s = (Inr u, s') \<longleftrightarrow>
     (\<exists>k. find (\<lambda>k. idk_key k = scope_key E sc) (idempotency_keys s) = Some k) \<and>
     s' = idempotency_keys_update (upd_where (\<lambda>k. idk_key k = scope_key E sc)
            (\<lambda>k. k\<lparr>idk_responseCode := Some c, idk_responseBody := Some b\<rparr>)) s"
  by (auto simp: Idempotency_complete_def prog_inv)

section \<open>The contract\<close>

locale claim_once =
  fixes claim :: "'c \<Rightarrow> ('s, bool) prog"
    and key :: "'c \<Rightarrow> 'k"
    and taken :: "'s \<Rightarrow> 'k set"
  assumes claim_total: "\<exists>b s'. claim c s = (Inr b, s')"
    and claim_iff: "claim c s = (Inr b, s') \<Longrightarrow> b \<longleftrightarrow> key c \<notin> taken s"
    and claim_takes: "claim c s = (Inr b, s') \<Longrightarrow> taken s' = insert (key c) (taken s)"
begin

lemma second_claim_fails:
  assumes "claim c s = (Inr b, s1)" and "taken s1 \<subseteq> taken s2" and "key d = key c"
    and "claim d s2 = (Inr b2, s3)"
  shows "\<not> b2"
  using assms claim_iff [OF assms(4)] claim_takes [OF assms(1)] by auto

lemma claims_of_a_key:
  assumes "seqp (claim c) (claim d) s = (Inr b, s')"
  shows "b \<longleftrightarrow> key d \<noteq> key c \<and> key d \<notin> taken s"
proof -
  from assms obtain b1 s1 where "claim c s = (Inr b1, s1)" and d: "claim d s1 = (Inr b, s')"
    by (auto simp: prog_inv)
  with claim_takes [of c s b1 s1] claim_iff [OF d] show ?thesis by simp
qed

end

interpretation idem: claim_once
  "\<lambda>(E, sc, h). tryCreatePending E sc h" "\<lambda>(E, sc, h). scope_key E sc"
  "\<lambda>s. idk_key ` set (idempotency_keys s)"
  by unfold_locales
     (auto simp: tryCreatePending_eq list_ex_key split: if_splits)

section \<open>Properties\<close>

text \<open>
  Of two claims on the same scope the second never wins, whatever other keys were added in
  between.
\<close>

theorem second_claim_loses:
  assumes "tryCreatePending E sc h s = (Inr b, s1)"
    and "idk_key ` set (idempotency_keys s1) \<subseteq> idk_key ` set (idempotency_keys s2)"
  shows "tryCreatePending E sc h' s2 = (Inr False, s2)"
proof -
  obtain b2 s3 where run: "tryCreatePending E sc h' s2 = (Inr b2, s3)"
    using idem.claim_total [of "(E, sc, h')" s2] by auto
  have "\<not> b2"
    using idem.second_claim_fails [of "(E, sc, h)" s b s1 s2 "(E, sc, h')" b2 s3] assms run by simp
  with run show ?thesis by (auto simp: tryCreatePending_eq split: if_splits)
qed

theorem second_claim_loses_witness:
  "fst (tryCreatePending \<lparr> app_now = 0, db_now = 0, uuid = (\<lambda>n. []), sha256 = (\<lambda>x. x),
          tx_usable_after_error = False \<rparr>
        \<lparr> isc_actorUserId = ''a'', isc_useCase = ''u'', isc_idempotencyKey = ''k'' \<rparr> ''h2''
      (snd (tryCreatePending \<lparr> app_now = 0, db_now = 0, uuid = (\<lambda>n. []), sha256 = (\<lambda>x. x),
          tx_usable_after_error = False \<rparr>
        \<lparr> isc_actorUserId = ''a'', isc_useCase = ''u'', isc_idempotencyKey = ''k'' \<rparr> ''h1'' empty_db)))
     = Inr False"
proof -
  let ?E = "\<lparr> app_now = 0, db_now = 0, uuid = (\<lambda>n. []), sha256 = (\<lambda>x. x),
      tx_usable_after_error = False \<rparr>"
  let ?sc = "\<lparr> isc_actorUserId = ''a'', isc_useCase = ''u'', isc_idempotencyKey = ''k'' \<rparr>"
  have "tryCreatePending ?E ?sc ''h1'' empty_db = (Inr True, snd (tryCreatePending ?E ?sc ''h1'' empty_db))"
    by (simp add: tryCreatePending_eq empty_db_def)
  from second_claim_loses [OF this order_refl] show ?thesis by simp
qed

text \<open>
  The header check accepts exactly the strings that, trimmed, have between 1 and 128
  characters, returns the trimmed text, and accepts its own output unchanged.
\<close>

theorem idempotency_header:
  "(requireIdempotencyKey v = Inr k \<longleftrightarrow>
      (\<exists>x. v = Some x \<and> k = js_trim x \<and> 1 \<le> length k \<and> length k \<le> 128)) \<and>
   (requireIdempotencyKey v \<noteq> Inr k \<or> requireIdempotencyKey (Some k) = Inr k)"
  by (auto simp: requireIdempotencyKey_def Let_def js_trim_idem Suc_le_eq split: option.splits if_splits)

theorem idempotency_header_witness:
  "requireIdempotencyKey (Some '' key-1  '') = Inr ''key-1''"
  using idempotency_header [of "Some '' key-1  ''" "''key-1''"]
  by (simp add: js_trim_def is_js_space_def)

end
