(* ===== verification/Orders.thy ===== *)
theory Orders
  imports Inventory Idempotency Launch_Control
begin

text \<open>
  Checkout (\<^verbatim>\<open>src/modules/orders\<close>): the order repository, the create-order use case and its
  controller. The use case claims the idempotency key first; a request that lost the claim
  compares the stored request hash, passes the same reservation and launch-control checks and then
  replays the stored body. The statements after a lost claim run in a transaction whose insert
  failed (\<open>after_failed_statement\<close>).
\<close>

section \<open>Repository\<close>

definition Order_create :: "Order \<Rightarrow> (db, unit) prog" where
  "Order_create input =
     seqp (prisma_create orders orders_update (\<lambda>x y. ord_id x = ord_id y) input) (ret ())"

definition Order_findById :: "string \<Rightarrow> (db, Order option) prog" where
  "Order_findById orderId = prisma_find orders (\<lambda>o'. ord_id o' = orderId)"

definition Order_updateStatus :: "string \<Rightarrow> OrderStatus \<Rightarrow> (db, unit) prog" where
  "Order_updateStatus orderId status =
     seqp (prisma_update orders orders_update (\<lambda>o'. ord_id o' = orderId)
             (\<lambda>o'. o'\<lparr>ord_status := status\<rparr>)) (ret ())"

section \<open>Create order\<close>

record CreateOrderInput =
  coi_idempotencyKey :: string
  coi_reservationId :: string
  coi_totalAmount :: int
  coi_currency :: string

definition CHECKOUT_IDEMPOTENCY_USE_CASE :: string where
  "CHECKOUT_IDEMPOTENCY_USE_CASE = ''checkout.create_order''"

text \<open>The text that is hashed: \<open>JSON.stringify\<close> of the input, the amount as a decimal string.\<close>

definition create_order_text :: "CreateOrderInput \<Rightarrow> string" where
  "create_order_text input = json_object
     [(''idempotencyKey'', coi_idempotencyKey input), (''reservationId'', coi_reservationId input),
      (''totalAmount'', int_to_string (coi_totalAmount input)), (''currency'', coi_currency input)]"

definition checkout_scope :: "string \<Rightarrow> string \<Rightarrow> IdempotencyScope" where
  "checkout_scope actorId key =
     \<lparr> isc_actorUserId = actorId, isc_useCase = CHECKOUT_IDEMPOTENCY_USE_CASE, isc_idempotencyKey = key \<rparr>"

text \<open>The result is the object the use case stores as the response body.\<close>

definition create_order_result :: "string \<Rightarrow> json" where
  "create_order_result orderId = JObj [(''orderId'', JStr orderId), (''status'', JStr ''RESERVED'')]"

definition load_existing :: "env \<Rightarrow> IdempotencyScope \<Rightarrow> string \<Rightarrow> (db, IdempotencyKey option) prog" where
  "load_existing E sc requestHash =
     bindp (Idempotency_findByKey E sc) (\<lambda>found.
       case found of
         None \<Rightarrow> throw (IdempotencyConflictError ''Idempotency key collision.'')
       | Some k \<Rightarrow>
           if idk_requestHash k \<noteq> requestHash
           then throw (IdempotencyConflictError ''Idempotency key reused with different payload.'')
           else ret (Some k))"

definition checkout_reservation ::
  "env \<Rightarrow> LaunchControlService \<Rightarrow> string \<Rightarrow> CreateOrderInput \<Rightarrow> (db, TicketReservation) prog" where
  "checkout_reservation E L actorId input =
     bindp (Reservation_findById (coi_reservationId input)) (\<lambda>found.
       case found of
         None \<Rightarrow> throw (NotFoundError ''Reservation not found.'')
       | Some reservation \<Rightarrow>
           if res_ownerUserId reservation \<noteq> actorId then throw (NotFoundError ''Reservation not found.'')
           else if res_status reservation \<noteq> ReservationStatus.HELD
           then throw (InvalidStateTransitionError ''Reservation is not active.'')
           else if res_expiresAt reservation \<le> app_now E
           then throw (InvalidStateTransitionError ''Reservation has expired.'')
           else seqp (assertCheckoutAllowed L (res_eventId reservation) (coi_currency input))
                  (ret reservation))"

definition place_order ::
  "env \<Rightarrow> request_ctx \<Rightarrow> string \<Rightarrow> CreateOrderInput \<Rightarrow> TicketReservation \<Rightarrow> (db, json) prog" where
  "place_order E ctx actorId input reservation =
     seqp (Order_create
             \<lparr> ord_id = uuid E 0, ord_userId = actorId, ord_eventId = res_eventId reservation,
               ord_reservationId = Some (res_id reservation), ord_status = OrderStatus.RESERVED,
               ord_totalAmount = coi_totalAmount input, ord_currency = coi_currency input \<rparr>)
    (seqp (Idempotency_complete E (checkout_scope actorId (coi_idempotencyKey input)) 201
             (create_order_result (uuid E 0)))
    (seqp (AuditLogRepository_append
             \<lparr> aud_id = uuid E 1, aud_actorId = Some actorId, aud_action = ''ORDER_CREATED'',
               aud_entityType = ''order'', aud_entityId = uuid E 0,
               aud_correlationId = Some (ctx_correlationId ctx),
               aud_metadata = JObj [(''reservationId'', JStr (res_id reservation)),
                 (''totalAmount'', JStr (int_to_string (coi_totalAmount input))),
                 (''currency'', JStr (coi_currency input))] \<rparr>)
    (seqp (OutboxRepository_append
             (new_outbox_event E (uuid E 2) ''order'' (uuid E 0) ''OrderCreated''
               (JObj [(''orderId'', JStr (uuid E 0)), (''reservationId'', JStr (res_id reservation)),
                 (''eventId'', JStr (res_eventId reservation))])))
     (ret (create_order_result (uuid E 0))))))"

definition CreateOrder_tx ::
  "env \<Rightarrow> LaunchControlService \<Rightarrow> request_ctx \<Rightarrow> string \<Rightarrow> CreateOrderInput \<Rightarrow> (db, json) prog" where
  "CreateOrder_tx E L ctx actorId input =
     (let requestHash = sha256 E (create_order_text input);
          sc = checkout_scope actorId (coi_idempotencyKey input) in
      bindp (tryCreatePending E sc requestHash) (\<lambda>claimed.
        if claimed
        then bindp (checkout_reservation E L actorId input) (\<lambda>reservation.
               place_order E ctx actorId input reservation)
        else after_failed_statement E
          (bindp (load_existing E sc requestHash) (\<lambda>existing.
           bindp (checkout_reservation E L actorId input) (\<lambda>reservation.
             case existing of
               None \<Rightarrow> place_order E ctx actorId input reservation
             | Some k \<Rightarrow>
                 (case idk_responseBody k of
                    None \<Rightarrow> throw (IdempotencyConflictError ''Idempotent request is already in progress.'')
                  | Some body \<Rightarrow> ret body))))))"

definition CreateOrder_execute ::
  "env \<Rightarrow> LaunchControlService \<Rightarrow> request_ctx option \<Rightarrow> CreateOrderInput \<Rightarrow> (db, json) prog" where
  "CreateOrder_execute E L ctx input =
     (case ctx of
        None \<Rightarrow> throw (DomainConflictError ''Authenticated user context is required.'')
      | Some c \<Rightarrow>
          if \<not> truthy (ctx_userId c)
          then throw (DomainConflictError ''Authenticated user context is required.'')
          else runInTransaction (CreateOrder_tx E L c (the (ctx_userId c)) input))"

text \<open>
  The controller: the header is checked, the amount is parsed from its decimal string (the request
  DTO admits digits only) and the two fields of the result are returned.
\<close>

definition json_field :: "string \<Rightarrow> json \<Rightarrow> json" where
  "json_field k j = (case j of JObj fs \<Rightarrow> (case map_of fs k of None \<Rightarrow> JUndefined | Some v \<Rightarrow> v) | _ \<Rightarrow> JUndefined)"

definition CheckoutController_createOrder ::
  "env \<Rightarrow> LaunchControlService \<Rightarrow> request_ctx option \<Rightarrow> string option \<Rightarrow> string \<Rightarrow> string \<Rightarrow> string \<Rightarrow>
   (db, json) prog" where
  "CheckoutController_createOrder E L ctx header reservationId totalAmountMinor currency =
     (case requireIdempotencyKey header of
        Inl e \<Rightarrow> throw e
      | Inr key \<Rightarrow>
          bindp (CreateOrder_execute E L ctx
                   \<lparr> coi_idempotencyKey = key, coi_reservationId = reservationId,
                     coi_totalAmount = int (digits_value totalAmountMinor), coi_currency = currency \<rparr>)
            (\<lambda>result. ret (JObj [(''orderId'', json_field ''orderId'' result),
                                  (''status'', json_field ''status'' result)])))"

section \<open>Runs\<close>

lemma Order_findById_apply [simp]:
  "Order_findById i s = (Inr (find (\<lambda>o'. ord_id o' = i) (orders s)), s)"
  by (simp add: Order_findById_def)

lemma Order_create_Inr [prog_inv]:
  "Order_create row s = (Inr u, s') \<longleftrightarrow>
     \<not> list_ex (\<lambda>y. ord_id row = ord_id y) (orders s) \<and> s' = orders_update (\<lambda>rs. rs @ [row]) s"
  by (auto simp: Order_create_def prog_inv)

lemma Order_updateStatus_Inr [prog_inv]:
  "Order_updateStatus i st s = (Inr u, s') \<longleftrightarrow>
     (\<exists>x. find (\<lambda>r. ord_id r = i) (orders s) = Some x) \<and>
     s' = orders_update (upd_where (\<lambda>r. ord_id r = i) (\<lambda>r. r\<lparr>ord_status := st\<rparr>)) s"
  by (auto simp: Order_updateStatus_def prog_inv)

definition checkout_ready ::
  "env \<Rightarrow> LaunchControlService \<Rightarrow> string \<Rightarrow> CreateOrderInput \<Rightarrow> TicketReservation \<Rightarrow> db \<Rightarrow> bool" where
  "checkout_ready E L actorId input r s \<longleftrightarrow>
     find (\<lambda>x. res_id x = coi_reservationId input) (ticket_reservations s) = Some r \<and>
     res_ownerUserId r = actorId \<and> res_status r = ReservationStatus.HELD \<and>
     app_now E < res_expiresAt r \<and>
     fst (assertCheckoutAllowed L (res_eventId r) (coi_currency input) s) = Inr ()"

lemma checkout_reservation_Inr [prog_inv]:
  "checkout_reservation E L a input s = (Inr r, s') \<longleftrightarrow> checkout_ready E L a input r s \<and> s' = s"
  by (auto simp: checkout_reservation_def checkout_ready_def prog_inv not_le
      split: option.splits if_splits)

lemma checkout_reservation_run:
  "checkout_ready E L a input r s \<Longrightarrow> checkout_reservation E L a input s = (Inr r, s)"
  by (simp add: prog_inv)

lemma readonly_checkout_reservation [intro]: "readonly (checkout_reservation E L a input)"
  unfolding checkout_reservation_def Reservation_findById_def by blast

text \<open>The launch-control check reads the event table only.\<close>

lemma assertCheckoutAllowed_events:
  "events s = events t \<Longrightarrow> fst (assertCheckoutAllowed L e c s) = fst (assertCheckoutAllowed L e c t)"
  by (simp add: assertCheckoutAllowed_def loadEventScope_def assertEventScopeAllowed_def
      assertCurrencyAllowed_def bindp_def seqp_def split: option.splits)

lemma checkout_ready_cong:
  "ticket_reservations s = ticket_reservations t \<Longrightarrow> events s = events t \<Longrightarrow>
     checkout_ready E L a input r s = checkout_ready E L a input r t"
  using assertCheckoutAllowed_events [of s t] by (simp add: checkout_ready_def)

lemma load_existing_Inr [prog_inv]:
  "load_existing E sc h s = (Inr x, s') \<longleftrightarrow>
     s' = s \<and> (\<exists>k. find (\<lambda>k. idk_key k = scope_key E sc) (idempotency_keys s) = Some k \<and>
       idk_requestHash k = h \<and> x = Some (k\<lparr>idk_responseBody := object_or_null (idk_responseBody k)\<rparr>))"
  by (auto simp: load_existing_def prog_inv split: option.splits if_splits)

lemma after_failed_Inr [prog_inv]:
  "after_failed_statement E m s = (Inr x, s') \<longleftrightarrow> tx_usable_after_error E \<and> m s = (Inr x, s')"
  by (simp add: after_failed_statement_def)

definition new_order :: "env \<Rightarrow> string \<Rightarrow> CreateOrderInput \<Rightarrow> TicketReservation \<Rightarrow> Order" where
  "new_order E actorId input r =
     \<lparr> ord_id = uuid E 0, ord_userId = actorId, ord_eventId = res_eventId r,
       ord_reservationId = Some (res_id r), ord_status = OrderStatus.RESERVED,
       ord_totalAmount = coi_totalAmount input, ord_currency = coi_currency input \<rparr>"

definition checkout_key :: "env \<Rightarrow> string \<Rightarrow> string \<Rightarrow> string \<times> string \<times> string" where
  "checkout_key E actorId key = scope_key E (checkout_scope actorId key)"

definition completed_row :: "env \<Rightarrow> string \<Rightarrow> CreateOrderInput \<Rightarrow> IdempotencyKey" where
  "completed_row E actorId input =
     (pending_row E (checkout_scope actorId (coi_idempotencyKey input)) (sha256 E (create_order_text input)))
       \<lparr> idk_responseCode := Some 201, idk_responseBody := Some (create_order_result (uuid E 0)) \<rparr>"

text \<open>What a run that returns did: it placed an order under a free key, or replayed a stored body.\<close>

definition placed ::
  "env \<Rightarrow> LaunchControlService \<Rightarrow> string \<Rightarrow> CreateOrderInput \<Rightarrow> db \<Rightarrow> json \<Rightarrow> db \<Rightarrow> bool" where
  "placed E L a input s body s' \<longleftrightarrow>
     (\<exists>r. checkout_ready E L a input r s \<and>
        checkout_key E a (coi_idempotencyKey input) \<notin> idk_key ` set (idempotency_keys s) \<and>
        uuid E 0 \<notin> ord_id ` set (orders s) \<and>
        body = create_order_result (uuid E 0) \<and>
        orders s' = orders s @ [new_order E a input r] \<and>
        idempotency_keys s' = idempotency_keys s @ [completed_row E a input] \<and>
        map aud_action (audit_logs s') = map aud_action (audit_logs s) @ [''ORDER_CREATED''] \<and>
        map obx_eventType (outbox_events s') = map obx_eventType (outbox_events s) @ [''OrderCreated''] \<and>
        ticket_reservations s' = ticket_reservations s \<and>
        event_ticket_inventory s' = event_ticket_inventory s \<and> events s' = events s \<and>
        tickets s' = tickets s \<and> payments s' = payments s)"

definition replayed ::
  "env \<Rightarrow> LaunchControlService \<Rightarrow> string \<Rightarrow> CreateOrderInput \<Rightarrow> db \<Rightarrow> json \<Rightarrow> db \<Rightarrow> bool" where
  "replayed E L a input s body s' \<longleftrightarrow>
     s' = s \<and> tx_usable_after_error E \<and> (\<exists>r. checkout_ready E L a input r s) \<and>
     (\<exists>k. find (\<lambda>k. idk_key k = checkout_key E a (coi_idempotencyKey input)) (idempotency_keys s) = Some k \<and>
        idk_requestHash k = sha256 E (create_order_text input) \<and>
        object_or_null (idk_responseBody k) = Some body)"

lemma place_order_placed:
  assumes "place_order E c a input r (idempotency_keys_update (\<lambda>ks. ks @ [pending_row E
             (checkout_scope a (coi_idempotencyKey input)) (sha256 E (create_order_text input))]) s) = (Inr body, s')"
    and "checkout_key E a (coi_idempotencyKey input) \<notin> idk_key ` set (idempotency_keys s)"
    and "checkout_ready E L a input r s"
  shows "placed E L a input s body s'"
proof -
  have upd: "upd_where (\<lambda>k. idk_key k = scope_key E (checkout_scope a (coi_idempotencyKey input))) f
      (idempotency_keys s) = idempotency_keys s" for f
    by (rule upd_where_key_absent) (use assms(2) in \<open>simp add: checkout_key_def\<close>)
  from assms(1) show ?thesis
    unfolding placed_def
    by (intro exI [of _ r] conjI assms(2,3))
       (auto simp: place_order_def prog_inv upd new_order_def completed_row_def list_ex_key2
          new_outbox_event_def)
qed

lemma CreateOrder_Inr:
  assumes "CreateOrder_execute E L (Some c) input s = (Inr body, s')" and "ctx_userId c = Some a"
  shows "placed E L a input s body s' \<or> replayed E L a input s body s'"
proof -
  let ?sc = "checkout_scope a (coi_idempotencyKey input)"
  let ?h = "sha256 E (create_order_text input)"
  from assms have run: "CreateOrder_tx E L c a input s = (Inr body, s')"
    by (auto simp: CreateOrder_execute_def prog_inv split: if_splits)
  show ?thesis
  proof (cases "scope_key E ?sc \<in> idk_key ` set (idempotency_keys s)")
    case True
    with run have "replayed E L a input s body s'"
      by (auto simp: CreateOrder_tx_def Let_def prog_inv tryCreatePending_eq list_ex_key replayed_def
          checkout_key_def split: option.splits)
    then show ?thesis ..
  next
    case False
    with run obtain r where "place_order E c a input r
        (idempotency_keys_update (\<lambda>ks. ks @ [pending_row E ?sc ?h]) s) = (Inr body, s')"
      and "checkout_ready E L a input r (idempotency_keys_update (\<lambda>ks. ks @ [pending_row E ?sc ?h]) s)"
      by (auto simp: CreateOrder_tx_def Let_def prog_inv tryCreatePending_eq list_ex_key)
    moreover from this(2) have "checkout_ready E L a input r s"
      by (rule checkout_ready_cong [THEN iffD1, rotated -1]) simp_all
    ultimately show ?thesis
      using False by (auto simp: checkout_key_def intro: place_order_placed)
  qed
qed

lemma CreateOrder_Inl: "CreateOrder_execute E L c input s = (Inl e, s') \<Longrightarrow> s' = s"
  by (auto simp: CreateOrder_execute_def prog_inv split: option.splits if_splits)

lemma CreateOrder_replay_run:
  assumes "ctx_userId c = Some a" and "a \<noteq> []"
    and "find (\<lambda>k. idk_key k = checkout_key E a (coi_idempotencyKey input)) (idempotency_keys s) = Some k"
  shows "CreateOrder_execute E L (Some c) input s =
    runInTransaction (after_failed_statement E
      (bindp (load_existing E (checkout_scope a (coi_idempotencyKey input)) (sha256 E (create_order_text input)))
        (\<lambda>existing. bindp (checkout_reservation E L a input) (\<lambda>reservation.
             case existing of
               None \<Rightarrow> place_order E c a input reservation
             | Some k \<Rightarrow>
                 (case idk_responseBody k of
                    None \<Rightarrow> throw (IdempotencyConflictError ''Idempotent request is already in progress.'')
                  | Some body \<Rightarrow> ret body))))) s"
proof -
  have "scope_key E (checkout_scope a (coi_idempotencyKey input)) \<in> idk_key ` set (idempotency_keys s)"
    using find_Some_iff2 [OF assms(3)] by (force simp: checkout_key_def)
  with assms(1,2) show ?thesis
    by (simp add: CreateOrder_execute_def CreateOrder_tx_def Let_def runInTransaction_def bindp_def
        tryCreatePending_eq list_ex_key)
qed

section \<open>One order per key\<close>

text \<open>
  Concurrent checkouts of one user under one key, interleaved with any step of the rest of the
  program that does not delete idempotency rows. An attempt wins when it adds an order.
\<close>

definition checkout_attempt ::
  "(string \<Rightarrow> string) \<Rightarrow> string \<Rightarrow> string \<Rightarrow> env \<times> LaunchControlService \<times> request_ctx \<times> CreateOrderInput \<Rightarrow>
   db \<Rightarrow> bool \<times> db" where
  "checkout_attempt sha a key x s = (case x of (E, L, c, input) \<Rightarrow>
     (let s' = snd (CreateOrder_execute (E\<lparr>sha256 := sha\<rparr>) L (Some (c\<lparr>ctx_userId := Some a\<rparr>))
                      (input\<lparr>coi_idempotencyKey := key\<rparr>) s)
      in (length (orders s) < length (orders s'), s')))"

definition keys_kept :: "db \<Rightarrow> db \<Rightarrow> bool" where
  "keys_kept s s' \<longleftrightarrow> idk_key ` set (idempotency_keys s) \<subseteq> idk_key ` set (idempotency_keys s')"

definition key_free :: "(string \<Rightarrow> string) \<Rightarrow> string \<Rightarrow> string \<Rightarrow> db \<Rightarrow> bool" where
  "key_free sha a key s \<longleftrightarrow>
     (a, CHECKOUT_IDEMPOTENCY_USE_CASE, sha key) \<notin> idk_key ` set (idempotency_keys s)"

lemma checkout_key_sha:
  "checkout_key (E\<lparr>sha256 := sha\<rparr>) a key = (a, CHECKOUT_IDEMPOTENCY_USE_CASE, sha key)"
  by (simp add: checkout_key_def scope_key_def checkout_scope_def hashIdempotencyKey_def)

lemma completed_row_key [simp]: "idk_key (completed_row E a input) = checkout_key E a (coi_idempotencyKey input)"
  by (simp add: completed_row_def checkout_key_def)

lemma checkout_attempt_cases:
  assumes "checkout_attempt sha a key x s = (w, s')"
  shows "(w \<and> key_free sha a key s \<and> \<not> key_free sha a key s') \<or> (\<not> w \<and> s' = s)"
proof -
  obtain E L c input where x: "x = (E, L, c, input)" by (cases x)
  let ?E = "E\<lparr>sha256 := sha\<rparr>" and ?c = "c\<lparr>ctx_userId := Some a\<rparr>" and ?i = "input\<lparr>coi_idempotencyKey := key\<rparr>"
  obtain r t where run: "CreateOrder_execute ?E L (Some ?c) ?i s = (r, t)" by fastforce
  with assms have wt: "s' = t" "w \<longleftrightarrow> length (orders s) < length (orders t)"
    by (auto simp: checkout_attempt_def x Let_def)
  show ?thesis
  proof (cases r)
    case (Inl e)
    with run have "t = s" by (auto dest: CreateOrder_Inl)
    with wt show ?thesis by simp
  next
    case (Inr body)
    with run have "placed ?E L a ?i s body t \<or> replayed ?E L a ?i s body t"
      by (intro CreateOrder_Inr) auto
    with wt show ?thesis
      by (auto simp: placed_def replayed_def key_free_def checkout_key_sha)
  qed
qed

interpretation checkout_race: guarded_update "checkout_attempt sha a key" keys_kept "\<lambda>_. True" "key_free sha a key"
  for sha a key
proof
  fix i s s'
  show "checkout_attempt sha a key i s = (True, s') \<Longrightarrow> key_free sha a key s"
    and "checkout_attempt sha a key i s = (True, s') \<Longrightarrow> \<not> key_free sha a key s'"
    using checkout_attempt_cases [of sha a key i s True s'] by auto
  show "checkout_attempt sha a key i s = (False, s') \<Longrightarrow> \<not> key_free sha a key s \<Longrightarrow> \<not> key_free sha a key s'"
    using checkout_attempt_cases [of sha a key i s False s'] by auto
  show "keys_kept s s' \<Longrightarrow> \<not> key_free sha a key s \<Longrightarrow> \<not> key_free sha a key s'"
    by (auto simp: keys_kept_def key_free_def)
qed simp_all

section \<open>Properties\<close>

definition ex_order_input :: CreateOrderInput where
  "ex_order_input = \<lparr> coi_idempotencyKey = ''k'', coi_reservationId = ''r1'', coi_totalAmount = 2500,
     coi_currency = ''GHS'' \<rparr>"

definition ex_launch :: LaunchControlService where
  "ex_launch = \<lparr> lc_checkoutEnabled = True, lc_paymentsEnabled = True, lc_admissionsEnabled = True,
     lc_allowedProviders = None, lc_allowedCurrencies = None, lc_allowedOrganizerIds = None,
     lc_allowedEventIds = None, lc_allowedGateIds = None \<rparr>"

definition ex_event :: Event where
  "ex_event = \<lparr> evt_id = ''e'', evt_organizerId = ''org'', evt_venueId = ''v'', evt_title = ''Show'',
     evt_slug = ''show'', evt_status = EventStatus.PUBLISHED, evt_visibility = EventVisibility.PUBLIC,
     evt_startsAt = 100000, evt_endsAt = 200000, evt_capacityTotal = Some 60, evt_paymentEnabled = True,
     evt_priceMinor = Some 2500, evt_priceCurrency = ''GHS'', evt_publishedAt = Some 1,
     evt_cancelledAt = None, evt_archivedAt = None, evt_description = None,
     evt_category = EventCategory.CONCERT, evt_timezone = ''Africa/Accra'', evt_venueName = Some ''Hall'',
     evt_addressLine1 = None, evt_addressLine2 = None, evt_city = Some ''Accra'', evt_region = None,
     evt_country = ''Ghana'', evt_latitude = None, evt_longitude = None, evt_capacityHeld = 0 \<rparr>"

definition ex_order_db :: db where
  "ex_order_db = ex_db\<lparr> events := [ex_event] \<rparr>"

lemmas ex_order_defs = ex_order_input_def ex_launch_def ex_event_def ex_order_db_def ex_inventory_defs

lemma ex_order_ready: "checkout_ready ex_env ex_launch ''alice'' ex_order_input (ex_hold ''r1'' 2 9000) ex_order_db"
  by (simp add: checkout_ready_def ex_order_defs assertCheckoutAllowed_def loadEventScope_def
      assertEventScopeAllowed_def assertCurrencyAllowed_def not_listed_def bindp_def seqp_def)

lemma ex_order_run:
  "CreateOrder_execute ex_env ex_launch (Some ex_ctx) ex_order_input ex_order_db =
     (Inr (create_order_result []),
      snd (CreateOrder_execute ex_env ex_launch (Some ex_ctx) ex_order_input ex_order_db))"
  by (simp add: prod_eq_iff) code_simp

text \<open>
  C4: Checkout with a free key, a reservation that exists, belongs to the caller, is held and has
  not expired, and launch control allowing it, places exactly one RESERVED order for that
  reservation, stores the response under the key and writes one audit row and one outbox event;
  reservations, inventory, tickets and payments are untouched.
\<close>

theorem create_order_places:
  assumes "ctx_userId c = Some a" and "a \<noteq> []"
    and "checkout_ready E L a input r s"
    and "checkout_key E a (coi_idempotencyKey input) \<notin> idk_key ` set (idempotency_keys s)"
    and "uuid E 0 \<notin> ord_id ` set (orders s)" and "uuid E 1 \<notin> aud_id ` set (audit_logs s)"
    and "uuid E 2 \<notin> obx_id ` set (outbox_events s)"
  shows "\<exists>s'. CreateOrder_execute E L (Some c) input s = (Inr (create_order_result (uuid E 0)), s') \<and>
    placed E L a input s (create_order_result (uuid E 0)) s'"
proof -
  let ?p = "pending_row E (checkout_scope a (coi_idempotencyKey input)) (sha256 E (create_order_text input))"
  let ?s1 = "idempotency_keys_update (\<lambda>ks. ks @ [?p]) s"
  have ready: "checkout_reservation E L a input ?s1 = (Inr r, ?s1)"
    by (rule checkout_reservation_run)
       (use assms(3) in \<open>simp add: checkout_ready_cong [of ?s1 s]\<close>)
  have "find (\<lambda>k. idk_key k = scope_key E (checkout_scope a (coi_idempotencyKey input))) (idempotency_keys s @ [?p]) = Some ?p"
    using assms(4) by (simp add: find_append checkout_key_def find_key_absent)
  then have "\<exists>s'. place_order E c a input r ?s1 = (Inr (create_order_result (uuid E 0)), s')"
    using assms(5-7) by (simp add: place_order_def prog_inv list_ex_key2 new_outbox_event_def)
  then obtain s' where place: "place_order E c a input r ?s1 = (Inr (create_order_result (uuid E 0)), s')" ..
  have "CreateOrder_execute E L (Some c) input s = (Inr (create_order_result (uuid E 0)), s')"
    using assms(1,2,4) ready place
    by (simp add: CreateOrder_execute_def CreateOrder_tx_def Let_def runInTransaction_def bindp_def
        tryCreatePending_eq list_ex_key checkout_key_def)
  with place_order_placed [OF place assms(4,3)] show ?thesis by blast
qed

theorem create_order_places_witness:
  "\<exists>s'. CreateOrder_execute ex_env ex_launch (Some ex_ctx) ex_order_input ex_order_db =
      (Inr (create_order_result []), s') \<and>
    placed ex_env ex_launch ''alice'' ex_order_input ex_order_db (create_order_result []) s'"
  using create_order_places [OF _ _ ex_order_ready, of ex_ctx]
  by (simp add: ex_order_defs)

text \<open>
  Repeating a checkout that placed an order, with the same key and payload, by the same user,
  while the stored row is there and the reservation is still held, unexpired and allowed, changes
  nothing and returns the first response, provided the transaction of the database survives the
  failed insert; on PostgreSQL, where it does not, the repeat fails with the aborted transaction
  instead.
\<close>

theorem create_order_replay:
  assumes "CreateOrder_execute E L (Some c) input s = (Inr body, s1)"
    and "placed E L a input s body s1"
    and "idempotency_keys s2 = idempotency_keys s1"
    and "ctx_userId c2 = Some a" and "a \<noteq> []" and "sha256 E2 = sha256 E"
    and "checkout_ready E2 L2 a input r s2"
  shows "CreateOrder_execute E2 L2 (Some c2) input s2 =
    (if tx_usable_after_error E2 then Inr body else Inl TransactionAborted, s2)"
proof -
  have key: "checkout_key E2 a k = checkout_key E a k" for k
    by (simp add: checkout_key_def scope_key_def hashIdempotencyKey_def assms(6))
  from assms(2,3) have k: "find (\<lambda>k. idk_key k = checkout_key E2 a (coi_idempotencyKey input))
      (idempotency_keys s2) = Some (completed_row E a input)"
    by (auto simp: placed_def find_append find_key_absent key)
  from assms(2) have "body = create_order_result (uuid E 0)" by (auto simp: placed_def)
  then have load: "load_existing E2 (checkout_scope a (coi_idempotencyKey input))
      (sha256 E2 (create_order_text input)) s2 = (Inr (Some (completed_row E a input)), s2)"
    using k by (auto simp: load_existing_Inr checkout_key_def assms(6) completed_row_def pending_row_def
        object_or_null_def create_order_result_def)
  show ?thesis
    unfolding CreateOrder_replay_run [OF assms(4,5) k]
    using load checkout_reservation_run [OF assms(7)] \<open>body = _\<close>
    by (simp add: runInTransaction_def after_failed_statement_def bindp_def completed_row_def)
qed

theorem create_order_replay_witness:
  "let s1 = snd (CreateOrder_execute ex_env ex_launch (Some ex_ctx) ex_order_input ex_order_db) in
     CreateOrder_execute (ex_env\<lparr>tx_usable_after_error := True\<rparr>) ex_launch (Some ex_ctx) ex_order_input s1 =
       (Inr (create_order_result []), s1) \<and>
     CreateOrder_execute ex_env ex_launch (Some ex_ctx) ex_order_input s1 = (Inl TransactionAborted, s1)"
proof -
  let ?s1 = "snd (CreateOrder_execute ex_env ex_launch (Some ex_ctx) ex_order_input ex_order_db)"
  have a: "ctx_userId ex_ctx = Some ''alice''" by (simp add: ex_ctx_def)
  from CreateOrder_Inr [OF ex_order_run a]
  have pl: "placed ex_env ex_launch ''alice'' ex_order_input ex_order_db (create_order_result []) ?s1"
    by (auto simp: replayed_def ex_env_def)
  have ready: "checkout_ready ex_env ex_launch ''alice'' ex_order_input (ex_hold ''r1'' 2 9000) ?s1"
    using ex_order_ready pl checkout_ready_cong [of ?s1 ex_order_db] by (auto simp: placed_def)
  then have ready2: "checkout_ready (ex_env\<lparr>tx_usable_after_error := True\<rparr>) ex_launch ''alice'' ex_order_input
      (ex_hold ''r1'' 2 9000) ?s1"
    by (simp add: checkout_ready_def)
  show ?thesis
    using create_order_replay [OF ex_order_run pl refl a _ _ ready]
      create_order_replay [OF ex_order_run pl refl a _ _ ready2]
    by (simp add: Let_def ex_env_def)
qed

text \<open>
  A key that already belongs to a request with another hash never lets a second request
  through: the call fails with the reuse conflict (or with the aborted transaction) and leaves the
  database as it was.
\<close>

theorem create_order_key_reuse:
  assumes "find (\<lambda>k. idk_key k = checkout_key E a (coi_idempotencyKey input)) (idempotency_keys s) = Some k"
    and "idk_requestHash k \<noteq> sha256 E (create_order_text input)"
    and "ctx_userId c = Some a" and "a \<noteq> []"
  shows "CreateOrder_execute E L (Some c) input s =
    (Inl (if tx_usable_after_error E
          then IdempotencyConflictError ''Idempotency key reused with different payload.''
          else TransactionAborted), s)"
  unfolding CreateOrder_replay_run [OF assms(3,4,1)]
  using assms(1,2)
  by (simp add: runInTransaction_def after_failed_statement_def bindp_def load_existing_def checkout_key_def)

theorem create_order_key_reuse_witness:
  "CreateOrder_execute (ex_env\<lparr>tx_usable_after_error := True\<rparr>) ex_launch (Some ex_ctx)
       (ex_order_input\<lparr>coi_totalAmount := 1\<rparr>)
       (ex_order_db\<lparr>idempotency_keys := [completed_row ex_env ''alice'' ex_order_input]\<rparr>) =
     (Inl (IdempotencyConflictError ''Idempotency key reused with different payload.''),
      ex_order_db\<lparr>idempotency_keys := [completed_row ex_env ''alice'' ex_order_input]\<rparr>)"
proof -
  let ?E = "ex_env\<lparr>tx_usable_after_error := True\<rparr>"
  let ?s = "ex_order_db\<lparr>idempotency_keys := [completed_row ex_env ''alice'' ex_order_input]\<rparr>"
  let ?i = "ex_order_input\<lparr>coi_totalAmount := 1\<rparr>"
  have k: "find (\<lambda>k. idk_key k = checkout_key ?E ''alice'' (coi_idempotencyKey ?i)) (idempotency_keys ?s) =
      Some (completed_row ex_env ''alice'' ex_order_input)"
    by (simp add: checkout_key_def scope_key_def hashIdempotencyKey_def)
  have h: "idk_requestHash (completed_row ex_env ''alice'' ex_order_input) \<noteq> sha256 ?E (create_order_text ?i)"
    by code_simp
  show ?thesis
    using create_order_key_reuse [OF k h, of ex_ctx] by (simp add: ex_ctx_def ex_env_def)
qed

text \<open>
  C5: However the checkouts of one user under one key interleave with each other and with the rest
  of the program, at most one of them adds an order.
\<close>

theorem one_order_per_key:
  assumes "guarded_update.race (checkout_attempt sha a key) keys_kept s n t"
  shows "n \<le> 1"
  by (rule checkout_race.at_most_one_win [OF TrueI assms])

theorem one_order_per_key_witness:
  "guarded_update.race (checkout_attempt (\<lambda>x. ''h'' @ x) ''alice'' ''k'') keys_kept ex_order_db 1
     (snd (checkout_attempt (\<lambda>x. ''h'' @ x) ''alice'' ''k'' (ex_env, ex_launch, ex_ctx, ex_order_input) ex_order_db))
   \<and> (1 :: nat) \<le> 1"
proof -
  let ?a = "checkout_attempt (\<lambda>x. ''h'' @ x) ''alice'' ''k'' (ex_env, ex_launch, ex_ctx, ex_order_input)"
  have "fst (?a ex_order_db)" by code_simp
  then have "?a ex_order_db = (True, snd (?a ex_order_db))" by (simp add: prod_eq_iff)
  from checkout_race.race.race_win [OF checkout_race.race.race_start this]
  have "guarded_update.race (checkout_attempt (\<lambda>x. ''h'' @ x) ''alice'' ''k'') keys_kept ex_order_db 1
      (snd (?a ex_order_db))" by simp
  with one_order_per_key [OF this] show ?thesis by simp
qed

text \<open>
  The text that is hashed determines the request: two checkout inputs with the same text are
  equal, so a request hash that differs only by payload can collide only if SHA-256 does.
\<close>

theorem create_order_text_injective:
  "create_order_text i = create_order_text j \<longleftrightarrow> i = j"
proof
  assume "create_order_text i = create_order_text j"
  then have "[(''idempotencyKey'', coi_idempotencyKey i), (''reservationId'', coi_reservationId i),
      (''totalAmount'', int_to_string (coi_totalAmount i)), (''currency'', coi_currency i)] =
    [(''idempotencyKey'', coi_idempotencyKey j), (''reservationId'', coi_reservationId j),
      (''totalAmount'', int_to_string (coi_totalAmount j)), (''currency'', coi_currency j)]"
    unfolding create_order_text_def by (rule json_object_inj [rotated]) simp
  then show "i = j" by (auto dest: int_to_string_inj)
qed simp

end
