(* ===== verification/Ticket_References.thy ===== *)
theory Ticket_References
  imports Govibe_Prelude "HOL-Library.Word" "HOL-Library.While_Combinator"
begin

unbundle bit_operations_syntax

text \<open>
  Ticket serials and public references
  (\<^verbatim>\<open>src/shared/tickets/ticket-reference-generator.service.ts\<close>). The encoder keeps its bit buffer in
  a JavaScript number that every shift and every OR truncates to 32 bits, so the buffer is a
  \<open>32 word\<close> here. The specification is base 32 without padding as RFC 4648 defines it, on the list
  of the bits of the input.
\<close>

section \<open>The encoder\<close>

definition base32_alphabet :: string where
  "base32_alphabet = ''ABCDEFGHIJKLMNOPQRSTUVWXYZ234567''"

definition symbol32 :: "32 word \<Rightarrow> char" where
  "symbol32 w = base32_alphabet ! unat (w AND 31)"

text \<open>The inner loop \<open>while (bits >= 5)\<close>.\<close>

fun base32_emit :: "32 word \<Rightarrow> nat \<Rightarrow> string \<Rightarrow> nat \<times> string" where
  "base32_emit value bits output =
     (if 5 \<le> bits then base32_emit value (bits - 5) (output @ [symbol32 (drop_bit (bits - 5) value)])
      else (bits, output))"

declare base32_emit.simps [simp del]

fun base32_loop :: "8 word list \<Rightarrow> nat \<Rightarrow> 32 word \<Rightarrow> string \<Rightarrow> nat \<times> 32 word \<times> string" where
  "base32_loop [] bits value output = (bits, value, output)"
| "base32_loop (byte # rest) bits value output =
     (let value' = push_bit 8 value OR ucast byte;
          (bits', output') = base32_emit value' (bits + 8) output
      in base32_loop rest bits' value' output')"

definition base32 :: "8 word list \<Rightarrow> string" where
  "base32 buffer =
     (case base32_loop buffer 0 0 '''' of
        (bits, value, output) \<Rightarrow>
          if 0 < bits then output @ [symbol32 (push_bit (5 - bits) value)] else output)"

text \<open>The random bytes are the argument; the code draws 10 for a serial and 6 for a reference.\<close>

definition generateSerial :: "8 word list \<Rightarrow> string" where
  "generateSerial randomBytes10 = ''GVS-'' @ base32 randomBytes10"

definition generatePublicReference :: "8 word list \<Rightarrow> string" where
  "generatePublicReference randomBytes6 = ''GV-'' @ base32 randomBytes6"

section \<open>RFC 4648\<close>

definition bits_value :: "bool list \<Rightarrow> nat" where
  "bits_value bs = horner_sum of_bool 2 (rev bs)"

definition byte_bits :: "8 word \<Rightarrow> bool list" where
  "byte_bits b = rev (map (bit b) [0..<8])"

fun rfc4648_groups :: "bool list \<Rightarrow> string" where
  "rfc4648_groups bs =
     (if bs = [] then []
      else base32_alphabet ! bits_value (take 5 (bs @ replicate (5 - length bs) False))
             # rfc4648_groups (drop 5 bs))"

declare rfc4648_groups.simps [simp del]

definition rfc4648_base32 :: "8 word list \<Rightarrow> string" where
  "rfc4648_base32 bytes = rfc4648_groups (concat (map byte_bits bytes))"

section \<open>The encoder computes RFC 4648\<close>

definition low_bits :: "nat \<Rightarrow> 32 word \<Rightarrow> bool list" where
  "low_bits n v = rev (map (bit v) [0..<n])"

lemma length_low_bits [simp]: "length (low_bits n v) = n"
  by (simp add: low_bits_def)

lemma length_byte_bits [simp]: "length (byte_bits b) = 8"
  by (simp add: byte_bits_def)

lemma rev_map_upt_split:
  "k \<le> n \<Longrightarrow> rev (map f [0..<n]) = rev (map (\<lambda>i. f (k + i)) [0..<n - k]) @ rev (map f [0..<k])"
proof -
  assume "k \<le> n"
  then have "[0..<n] = [0..<k] @ [k..<n]" using upt_add_eq_append [of 0 k "n - k"] by simp
  moreover have "[k..<n] = map (\<lambda>i. k + i) [0..<n - k]"
    using map_add_upt [of k "n - k"] \<open>k \<le> n\<close> by (simp add: add.commute)
  ultimately show ?thesis by (simp add: comp_def)
qed

lemma low_bits_split: "5 \<le> n \<Longrightarrow> low_bits n v = low_bits 5 (drop_bit (n - 5) v) @ low_bits (n - 5) v"
  unfolding low_bits_def
  using rev_map_upt_split [of "n - 5" n "bit v"] by (simp add: bit_drop_bit_eq comp_def)

lemma low_bits_shift:
  assumes "n + 8 \<le> 32"
  shows "low_bits (n + 8) (push_bit 8 v OR ucast b) = low_bits n v @ byte_bits b"
proof -
  have high: "bit (push_bit 8 v OR ucast b) (8 + i) = bit v i" if "i < n" for i
    using assms that bit_imp_le_length [of b "8 + i"]
    by (auto simp: bit_or_iff bit_push_bit_iff bit_ucast_iff)
  have low: "bit (push_bit 8 v OR ucast b) i = bit b i" if "i < 8" for i
    using that by (simp add: bit_or_iff bit_push_bit_iff bit_ucast_iff)
  have "rev (map (\<lambda>i. bit (push_bit 8 v OR ucast b) (8 + i)) [0..<n]) = low_bits n v"
    unfolding low_bits_def by (rule arg_cong [where f = rev], rule map_cong) (auto simp: high)
  moreover have "rev (map (bit (push_bit 8 v OR ucast b)) [0..<8]) = byte_bits b"
    unfolding byte_bits_def by (rule arg_cong [where f = rev], rule map_cong) (auto simp: low)
  ultimately show ?thesis
    unfolding low_bits_def [of "n + 8"]
    using rev_map_upt_split [of 8 "n + 8" "bit (push_bit 8 v OR ucast b)"] by simp
qed

lemma unat_bits: "bit (unat (w :: 32 word)) = bit w"
  by (rule ext) (simp add: bit_unsigned_iff)

lemma symbol32_low_bits: "symbol32 w = base32_alphabet ! bits_value (low_bits 5 w)"
proof -
  have "w AND 31 = take_bit 5 w"
    using take_bit_eq_mask [of 5 w] by (simp add: mask_numeral)
  also have "unat \<dots> = take_bit 5 (unat w)"
    by (simp add: unsigned_take_bit_eq)
  also have "\<dots> = horner_sum of_bool 2 (map (bit (unat w)) [0..<5])"
    by (simp add: horner_sum_bit_eq_take_bit)
  also have "\<dots> = bits_value (low_bits 5 w)"
    by (simp add: bits_value_def low_bits_def unat_bits)
  finally show ?thesis by (simp add: symbol32_def)
qed

lemma groups_step:
  "length xs = 5 \<Longrightarrow> rfc4648_groups (xs @ ys) = base32_alphabet ! bits_value xs # rfc4648_groups ys"
  by (subst rfc4648_groups.simps) auto

lemma emit_groups:
  "base32_emit v n out = (m, out') \<Longrightarrow>
     m < 5 \<and> (\<exists>new. out' = out @ new \<and>
       (\<forall>rest. rfc4648_groups (low_bits n v @ rest) = new @ rfc4648_groups (low_bits m v @ rest)))"
proof (induction v n out rule: base32_emit.induct)
  case (1 v n out)
  show ?case
  proof (cases "5 \<le> n")
    case True
    with 1(2) have "base32_emit v (n - 5) (out @ [symbol32 (drop_bit (n - 5) v)]) = (m, out')"
      by (simp add: base32_emit.simps [of v n])
    from 1(1) [OF True this] obtain new where m: "m < 5"
      and out': "out' = (out @ [symbol32 (drop_bit (n - 5) v)]) @ new"
      and g: "\<And>rest. rfc4648_groups (low_bits (n - 5) v @ rest) = new @ rfc4648_groups (low_bits m v @ rest)"
      by blast
    have "rfc4648_groups (low_bits n v @ rest) =
        symbol32 (drop_bit (n - 5) v) # new @ rfc4648_groups (low_bits m v @ rest)" for rest
      using g by (simp add: low_bits_split [OF True] groups_step symbol32_low_bits)
    with m out' show ?thesis by auto
  next
    case False
    with 1(2) show ?thesis by (simp add: base32_emit.simps [of v n])
  qed
qed

lemma loop_groups:
  "base32_loop bytes n v out = (m, w, out') \<Longrightarrow> n < 5 \<Longrightarrow>
     m < 5 \<and> (\<exists>new. out' = out @ new \<and>
       rfc4648_groups (low_bits n v @ concat (map byte_bits bytes)) = new @ rfc4648_groups (low_bits m w))"
proof (induction bytes arbitrary: n v out)
  case Nil
  then show ?case by simp
next
  case (Cons b bytes)
  let ?v = "push_bit 8 v OR ucast b"
  obtain k o1 where e: "base32_emit ?v (n + 8) out = (k, o1)" by fastforce
  from emit_groups [OF e] obtain new where k: "k < 5" and o1: "o1 = out @ new"
    and g: "\<And>rest. rfc4648_groups (low_bits (n + 8) ?v @ rest) = new @ rfc4648_groups (low_bits k ?v @ rest)"
    by blast
  from Cons.prems(1) e have "base32_loop bytes k ?v o1 = (m, w, out')" by simp
  from Cons.IH [OF this k] obtain new2 where m: "m < 5" and out': "out' = o1 @ new2"
    and g2: "rfc4648_groups (low_bits k ?v @ concat (map byte_bits bytes)) = new2 @ rfc4648_groups (low_bits m w)"
    by blast
  have "rfc4648_groups (low_bits n v @ concat (map byte_bits (b # bytes))) =
      rfc4648_groups (low_bits (n + 8) ?v @ concat (map byte_bits bytes))"
    using Cons.prems(2) by (simp add: low_bits_shift)
  also have "\<dots> = (new @ new2) @ rfc4648_groups (low_bits m w)"
    by (simp add: g g2)
  finally show ?case using m out' o1 by auto
qed

lemma low_bits_pad:
  assumes "0 < m" and "m < 5"
  shows "low_bits 5 (push_bit (5 - m) w) = low_bits m w @ replicate (5 - m) False"
proof -
  have "rev (map (\<lambda>i. bit (push_bit (5 - m) w) (5 - m + i)) [0..<m]) = low_bits m w"
    unfolding low_bits_def using assms
    by (intro arg_cong [where f = rev] map_cong) (auto simp: bit_push_bit_iff)
  moreover have "map (bit (push_bit (5 - m) w)) [0..<5 - m] = replicate (5 - m) False"
    by (intro nth_equalityI) (auto simp: bit_push_bit_iff)
  ultimately show ?thesis
    unfolding low_bits_def [of 5] using assms rev_map_upt_split [of "5 - m" 5 "bit (push_bit (5 - m) w)"]
    by simp
qed

lemma base32_rfc: "base32 bytes = rfc4648_base32 bytes"
proof -
  obtain m w out where l: "base32_loop bytes 0 0 [] = (m, w, out)"
    by (metis prod_cases3)
  from loop_groups [OF l] have m: "m < 5"
    and g: "rfc4648_base32 bytes = out @ rfc4648_groups (low_bits m w)"
    by (auto simp: rfc4648_base32_def low_bits_def)
  show ?thesis
  proof (cases "0 < m")
    case True
    then have "rfc4648_groups (low_bits m w) = [base32_alphabet ! bits_value (low_bits m w @ replicate (5 - m) False)]"
      using m by (subst rfc4648_groups.simps) (auto simp: rfc4648_groups.simps [of "[]"] low_bits_def)
    with True l g low_bits_pad [OF True m, of w] show ?thesis
      by (simp add: base32_def symbol32_low_bits)
  next
    case False
    with l g show ?thesis
      by (simp add: base32_def low_bits_def rfc4648_groups.simps [of "[]"])
  qed
qed

section \<open>Shape and injectivity\<close>

lemma bits_value_less: "bits_value bs < 2 ^ length bs"
  unfolding bits_value_def by (induction bs rule: rev_induct) (auto simp: of_bool_def)

lemma bits_value_inj:
  assumes "length xs = length ys" and "bits_value xs = bits_value ys"
  shows "xs = ys"
proof -
  have "rev xs ! n = rev ys ! n" if "n < length xs" for n
    using assms that bit_horner_sum_bit_iff [where ?'a = nat, of "rev xs" n]
      bit_horner_sum_bit_iff [where ?'a = nat, of "rev ys" n]
    by (simp add: bits_value_def)
  then have "rev xs = rev ys" using assms(1) by (intro nth_equalityI) auto
  then show ?thesis by simp
qed

lemma alphabet_inj: "i < 32 \<Longrightarrow> j < 32 \<Longrightarrow> base32_alphabet ! i = base32_alphabet ! j \<Longrightarrow> i = j"
  using nth_eq_iff_index_eq [of base32_alphabet i j] by (simp add: base32_alphabet_def)

lemma length_groups: "length (rfc4648_groups bs) = (length bs + 4) div 5"
proof (induction bs rule: rfc4648_groups.induct)
  case (1 bs)
  show ?case
  proof (cases "bs = []")
    case True
    then show ?thesis by (simp add: rfc4648_groups.simps)
  next
    case False
    have "length (rfc4648_groups bs) = Suc ((length bs - 5 + 4) div 5)"
      using 1 [OF False] by (subst rfc4648_groups.simps) (simp add: False)
    moreover have "Suc ((n - 5 + 4) div 5) = (n + 4) div 5" if "0 < n" for n :: nat
    proof (cases "5 \<le> n")
      case True
      then obtain m where "n = m + 5" by (metis add.commute le_add_diff_inverse)
      then show ?thesis by simp
    next
      case False
      with that have "n + 4 = 5 + (n - 1)" "n - 1 < 5" by auto
      then have "(n + 4) div 5 = 1" by (metis div_add_self1 div_less add_0 zero_neq_numeral)
      with False show ?thesis by simp
    qed
    ultimately show ?thesis using False by simp
  qed
qed

lemma group_value_less: "bits_value (take 5 (bs @ replicate (5 - length bs) False)) < 32"
proof -
  let ?g = "take 5 (bs @ replicate (5 - length bs) False)"
  have "bits_value ?g < 2 ^ length ?g" by (rule bits_value_less)
  moreover have "length ?g = 5" by simp
  ultimately have "bits_value ?g < 2 ^ 5" by (simp only:)
  then show ?thesis by simp
qed

lemma set_groups: "set (rfc4648_groups bs) \<subseteq> set base32_alphabet"
proof (induction bs rule: rfc4648_groups.induct)
  case (1 bs)
  have "length base32_alphabet = 32" by (simp add: base32_alphabet_def)
  then have "base32_alphabet ! bits_value (take 5 (bs @ replicate (5 - length bs) False)) \<in> set base32_alphabet"
    using group_value_less [of bs] by (intro nth_mem) simp
  with 1 show ?case by (subst rfc4648_groups.simps) auto
qed

lemma groups_inj:
  "rfc4648_groups xs = rfc4648_groups ys \<Longrightarrow> length xs = length ys \<Longrightarrow> xs = ys"
proof (induction xs arbitrary: ys rule: rfc4648_groups.induct)
  case (1 xs)
  show ?case
  proof (cases "xs = []")
    case True
    with 1(3) show ?thesis by simp
  next
    case False
    with 1(3) have ys: "ys \<noteq> []" by auto
    from 1(2) False ys have
      "base32_alphabet ! bits_value (take 5 (xs @ replicate (5 - length xs) False)) =
       base32_alphabet ! bits_value (take 5 (ys @ replicate (5 - length ys) False))"
      and tl: "rfc4648_groups (drop 5 xs) = rfc4648_groups (drop 5 ys)"
      by (simp_all add: rfc4648_groups.simps [of xs] rfc4648_groups.simps [of ys])
    then have "bits_value (take 5 (xs @ replicate (5 - length xs) False)) =
        bits_value (take 5 (ys @ replicate (5 - length ys) False))"
      by (intro alphabet_inj group_value_less)
    then have "take 5 (xs @ replicate (5 - length xs) False) = take 5 (ys @ replicate (5 - length ys) False)"
      using 1(3) by (intro bits_value_inj) auto
    then have "take 5 xs = take 5 ys" using 1(3) by simp
    moreover have "drop 5 xs = drop 5 ys"
      using 1(1) [OF False tl] 1(3) by simp
    ultimately show ?thesis by (metis append_take_drop_id)
  qed
qed

lemma byte_bits_inj: "byte_bits a = byte_bits b \<Longrightarrow> a = b"
proof (rule bit_eqI)
  fix n
  assume eq: "byte_bits a = byte_bits b" and n: "possible_bit TYPE(8 word) n"
  then show "bit a n = bit b n" by (simp add: byte_bits_def possible_bit_word)
qed

lemma bytes_bits_inj:
  "length xs = length ys \<Longrightarrow> concat (map byte_bits xs) = concat (map byte_bits ys) \<Longrightarrow> xs = ys"
  by (induction xs ys rule: list_induct2) (auto dest: byte_bits_inj)

lemma length_bytes_bits [simp]: "length (concat (map byte_bits bs)) = 8 * length bs"
  by (induction bs) simp_all

lemma base32_inj: "length xs = length ys \<Longrightarrow> base32 xs = base32 ys \<Longrightarrow> xs = ys"
  unfolding base32_rfc rfc4648_base32_def
  by (rule bytes_bits_inj, assumption, rule groups_inj) simp_all

section \<open>Properties\<close>

text \<open>
  C6: The encoder computes the unpadded RFC 4648 base 32 of its input for every byte string, although
  its bit buffer is truncated to 32 bits at every step.
\<close>

theorem base32_is_rfc4648: "base32 bytes = rfc4648_base32 bytes"
  by (rule base32_rfc)

text \<open>
  C7: A serial is the prefix GVS- and 16 symbols, a public reference the prefix GV- and 10 symbols of
  the base 32 alphabet, and distinct random bytes give distinct serials and references.
\<close>

theorem ticket_reference_shape:
  assumes "length xs = 10" and "length xs' = 10" and "length ys = 6" and "length ys' = 6"
  shows "length (generateSerial xs) = 20 \<and> length (generatePublicReference ys) = 13 \<and>
    set (drop 4 (generateSerial xs)) \<subseteq> set base32_alphabet \<and>
    set (drop 3 (generatePublicReference ys)) \<subseteq> set base32_alphabet \<and>
    (generateSerial xs = generateSerial xs' \<longleftrightarrow> xs = xs') \<and>
    (generatePublicReference ys = generatePublicReference ys' \<longleftrightarrow> ys = ys')"
  using assms base32_inj [of xs xs'] base32_inj [of ys ys']
  by (auto simp: generateSerial_def generatePublicReference_def base32_rfc rfc4648_base32_def
      length_groups dest: subsetD [OF set_groups])

theorem ticket_reference_shape_witness:
  "generateSerial (replicate 10 0) \<noteq> generateSerial (replicate 9 0 @ [1]) \<and>
   length (generatePublicReference (replicate 6 255)) = 13"
  using ticket_reference_shape [of "replicate 10 0" "replicate 9 0 @ [1]" "replicate 6 255" "replicate 6 0"]
  by (simp add: numeral_eq_Suc)

section \<open>The loop ends\<close>

text \<open>The inner loop as the program runs it: test, append one symbol, five bits less, again.\<close>

definition base32_inner_loop :: "32 word \<Rightarrow> nat \<times> string \<Rightarrow> (nat \<times> string) option" where
  "base32_inner_loop value =
     while_option (\<lambda>(bits, output). 5 \<le> bits)
       (\<lambda>(bits, output). (bits - 5, output @ [symbol32 (drop_bit (bits - 5) value)]))"

text \<open>
  C39: The inner loop of the encoder returns from every state, after one round for each five bits, with
  fewer than five bits left; what it returns is what \<open>base32_emit\<close> computes.
\<close>

theorem base32_loop_terminates:
  "base32_inner_loop v (bits, out) = Some (base32_emit v bits out) \<and>
   fst (base32_emit v bits out) = bits mod 5 \<and>
   length (snd (base32_emit v bits out)) = length out + bits div 5"
proof (induction v bits out rule: base32_emit.induct)
  case (1 v bits out)
  show ?case
  proof (cases "5 \<le> bits")
    case True
    have "base32_inner_loop v (bits, out) =
        base32_inner_loop v (bits - 5, out @ [symbol32 (drop_bit (bits - 5) v)])"
      unfolding base32_inner_loop_def using True by (subst while_option_unfold) simp
    moreover have "(bits - 5) mod 5 = bits mod 5" "Suc ((bits - 5) div 5) = bits div 5"
      using True by (auto simp: le_mod_geq le_div_geq)
    moreover have "base32_emit v bits out =
        base32_emit v (bits - 5) (out @ [symbol32 (drop_bit (bits - 5) v)])"
      using True by (simp add: base32_emit.simps [of v bits out])
    ultimately show ?thesis using 1 [OF True] by simp
  next
    case False
    then show ?thesis
      by (simp add: base32_inner_loop_def while_option_unfold base32_emit.simps [of v bits out])
  qed
qed

end
