(* ===== verification/Tickets.thy ===== *)
theory Tickets
  imports Orders Ticket_References
begin

text \<open>
  Tickets of paid orders (\<^verbatim>\<open>src/modules/tickets\<close>): the ticket repository, the ticket queries, the
  allocator that retries a write with fresh references, and the use case that turns a paid order
  and its reservation into tickets.

  The random bytes and the environment of each attempt are arguments: attempt \<open>k\<close> of the
  allocator runs with \<open>env k\<close> and draws the references \<open>rnd k\<close>.
\<close>

section \<open>Repository\<close>

text \<open>The unique keys of the table; a key with a null column never clashes.\<close>

definition ticket_clash :: "Ticket \<Rightarrow> Ticket \<Rightarrow> bool" where
  "ticket_clash x y \<longleftrightarrow>
     tkt_id x = tkt_id y \<or> tkt_ticketSerial x = tkt_ticketSerial y \<or>
     tkt_publicReference x = tkt_publicReference y \<or>
     (tkt_ticketNumber x \<noteq> None \<and> tkt_ticketNumber x = tkt_ticketNumber y) \<or>
     (tkt_admissionTokenHash x \<noteq> None \<and> tkt_admissionTokenHash x = tkt_admissionTokenHash y) \<or>
     (tkt_paymentIntentId x \<noteq> None \<and> tkt_paymentIntentId x = tkt_paymentIntentId y \<and>
      tkt_ownerUserId x = tkt_ownerUserId y \<and> tkt_eventId x = tkt_eventId y)"

record CreateTicketInput =
  cti_id :: string
  cti_eventId :: string
  cti_ticketTypeId :: "string option"
  cti_ownerUserId :: string
  cti_orderId :: "string option"
  cti_status :: TicketStatus
  cti_ticketSerial :: string
  cti_publicReference :: string

definition ticket_of_input :: "env \<Rightarrow> CreateTicketInput \<Rightarrow> Ticket" where
  "ticket_of_input E input =
     \<lparr> tkt_id = cti_id input, tkt_ticketNumber = None, tkt_eventId = cti_eventId input,
       tkt_organizerId = None, tkt_ticketTypeId = cti_ticketTypeId input,
       tkt_ownerUserId = cti_ownerUserId input, tkt_orderId = cti_orderId input,
       tkt_paymentIntentId = None, tkt_status = cti_status input, tkt_admissionTokenHash = None,
       tkt_admissionTokenVersion = 1, tkt_ticketSerial = cti_ticketSerial input,
       tkt_publicReference = cti_publicReference input, tkt_issuedAt = db_now E, tkt_usedAt = None,
       tkt_voidedAt = None, tkt_expiresAt = None \<rparr>"

definition Ticket_create :: "env \<Rightarrow> CreateTicketInput \<Rightarrow> (db, unit) prog" where
  "Ticket_create E input =
     seqp (prisma_create tickets tickets_update ticket_clash (ticket_of_input E input)) (ret ())"

definition Ticket_findById :: "string \<Rightarrow> (db, Ticket option) prog" where
  "Ticket_findById ticketId = prisma_find tickets (\<lambda>t. tkt_id t = ticketId)"

definition Ticket_updateStatus :: "string \<Rightarrow> TicketStatus \<Rightarrow> (db, unit) prog" where
  "Ticket_updateStatus ticketId status =
     seqp (prisma_update tickets tickets_update (\<lambda>t. tkt_id t = ticketId)
             (\<lambda>t. t\<lparr>tkt_status := status\<rparr>)) (ret ())"

definition findOwnedByUser :: "string \<Rightarrow> (db, Ticket list) prog" where
  "findOwnedByUser ownerUserId = (\<lambda>s.
     ret (rev (sort_key tkt_issuedAt (rev (filter (\<lambda>t. tkt_ownerUserId t = ownerUserId) (tickets s))))) s)"

definition findOwnedById :: "string \<Rightarrow> string \<Rightarrow> (db, Ticket option) prog" where
  "findOwnedById ticketId ownerUserId =
     prisma_find tickets (\<lambda>t. tkt_id t = ticketId \<and> tkt_ownerUserId t = ownerUserId)"

section \<open>Queries of the ticket owner\<close>

record TicketResponseDto =
  trd_id :: string
  trd_ticketNumber :: string
  trd_ownerUserId :: string
  trd_eventId :: string
  trd_organizerId :: string
  trd_status :: TicketStatus
  trd_issuedAt :: int
  trd_usedAt :: "int option"
  trd_voidedAt :: "int option"
  trd_expiresAt :: "int option"

text \<open>The organizer of the ticket's event, joined by the query.\<close>

definition event_organizer :: "db \<Rightarrow> string \<Rightarrow> string" where
  "event_organizer s eventId =
     (case find (\<lambda>e. evt_id e = eventId) (events s) of None \<Rightarrow> [] | Some e \<Rightarrow> evt_organizerId e)"

definition toTicketResponse :: "db \<Rightarrow> Ticket \<Rightarrow> TicketResponseDto" where
  "toTicketResponse s t =
     \<lparr> trd_id = tkt_id t,
       trd_ticketNumber = (case tkt_ticketNumber t of None \<Rightarrow> tkt_id t | Some n \<Rightarrow> n),
       trd_ownerUserId = tkt_ownerUserId t, trd_eventId = tkt_eventId t,
       trd_organizerId =
         (case tkt_organizerId t of None \<Rightarrow> event_organizer s (tkt_eventId t) | Some o' \<Rightarrow> o'),
       trd_status = tkt_status t, trd_issuedAt = tkt_issuedAt t, trd_usedAt = tkt_usedAt t,
       trd_voidedAt = tkt_voidedAt t, trd_expiresAt = tkt_expiresAt t \<rparr>"

definition listMine :: "string \<Rightarrow> (db, TicketResponseDto list) prog" where
  "listMine ownerUserId =
     bindp (findOwnedByUser ownerUserId) (\<lambda>ts s. ret (map (toTicketResponse s) ts) s)"

definition getOwned :: "string \<Rightarrow> string \<Rightarrow> (db, TicketResponseDto) prog" where
  "getOwned ticketId ownerUserId =
     bindp (findOwnedById ticketId ownerUserId) (\<lambda>found s.
       case found of
         None \<Rightarrow> throw (NotFoundException ''ticket not found'') s
       | Some t \<Rightarrow> ret (toTicketResponse s t) s)"

section \<open>Reference allocation\<close>

definition MAX_ATTEMPTS :: nat where
  "MAX_ATTEMPTS = 5"

text \<open>Every known request error of the client counts, whatever its code.\<close>

definition isUniqueConstraintError :: "app_error \<Rightarrow> bool" where
  "isUniqueConstraintError error = (case error of PrismaClientKnownRequestError code \<Rightarrow> True | _ \<Rightarrow> False)"

text \<open>
  The loop, with the attempts left and the number of the current one. The message of the last
  error, which the code appends, is left off.
\<close>

fun allocate_attempts ::
  "nat \<Rightarrow> nat \<Rightarrow> (nat \<Rightarrow> (string \<times> string) list) \<Rightarrow> (nat \<Rightarrow> (string \<times> string) list \<Rightarrow> (db, 'a) prog) \<Rightarrow>
   (db, 'a) prog" where
  "allocate_attempts 0 k refs writer =
     throw (OtherError ''Error'' ''Ticket reference allocation failed after 5 attempts'')"
| "allocate_attempts (Suc n) k refs writer =
     catchp (writer k (refs k))
       (\<lambda>error. if isUniqueConstraintError error then allocate_attempts n (Suc k) refs writer
                else throw error)"

type_synonym random_refs = "nat \<Rightarrow> nat \<Rightarrow> 8 word list \<times> 8 word list"

definition draw_refs :: "random_refs \<Rightarrow> nat \<Rightarrow> nat \<Rightarrow> (string \<times> string) list" where
  "draw_refs rnd count attempt =
     map (\<lambda>i. (generateSerial (fst (rnd attempt i)), generatePublicReference (snd (rnd attempt i)))) [0..<count]"

definition allocateBatch ::
  "random_refs \<Rightarrow> nat \<Rightarrow> (nat \<Rightarrow> (string \<times> string) list \<Rightarrow> (db, 'a) prog) \<Rightarrow> (db, 'a) prog" where
  "allocateBatch rnd count writer = allocate_attempts MAX_ATTEMPTS 1 (draw_refs rnd count) writer"

section \<open>Issuing the tickets of a paid order\<close>

definition loadValidatedOrderReservation :: "string \<Rightarrow> (db, Order \<times> TicketReservation) prog" where
  "loadValidatedOrderReservation orderId =
     bindp (Order_findById orderId) (\<lambda>found.
       case found of
         None \<Rightarrow> throw (NotFoundError ''Order not found.'')
       | Some order \<Rightarrow>
           if ord_status order \<noteq> OrderStatus.PAID
           then throw (InvalidStateTransitionError ''Only paid orders can issue tickets.'')
           else if \<not> truthy (ord_reservationId order)
           then throw (InvalidStateTransitionError ''Order has no linked reservation.'')
           else bindp (Reservation_findById (the (ord_reservationId order))) (\<lambda>res.
             case res of
               None \<Rightarrow> throw (NotFoundError ''Reservation not found.'')
             | Some reservation \<Rightarrow>
                 if res_status reservation \<noteq> ReservationStatus.HELD
                 then throw (InvalidStateTransitionError ''Reservation is not consumable.'')
                 else ret (order, reservation)))"

definition getReservationQuantity :: "string \<Rightarrow> (db, int) prog" where
  "getReservationQuantity orderId =
     runInTransaction (bindp (loadValidatedOrderReservation orderId) (\<lambda>(order, reservation).
       ret (res_quantity reservation)))"

definition ticket_inputs ::
  "env \<Rightarrow> Order \<Rightarrow> TicketReservation \<Rightarrow> (string \<times> string) list \<Rightarrow> CreateTicketInput list" where
  "ticket_inputs E order reservation refs =
     map (\<lambda>(i, ref). \<lparr> cti_id = uuid E i, cti_eventId = ord_eventId order,
            cti_ticketTypeId = Some (res_ticketTypeId reservation), cti_ownerUserId = ord_userId order,
            cti_orderId = Some (ord_id order), cti_status = TicketStatus.ACTIVE,
            cti_ticketSerial = fst ref, cti_publicReference = snd ref \<rparr>)
       (enumerate 0 refs)"

definition issueWithReferences ::
  "env \<Rightarrow> request_ctx option \<Rightarrow> string \<Rightarrow> (string \<times> string) list \<Rightarrow> (db, string \<times> string list) prog" where
  "issueWithReferences E ctx orderId refs =
     runInTransaction
       (bindp (loadValidatedOrderReservation orderId) (\<lambda>(order, reservation).
          if res_quantity reservation \<noteq> int (length refs)
          then throw (InvalidStateTransitionError
                 ''Allocated ticket reference batch does not match reservation quantity.'')
          else bindp (lockInventory (res_eventId reservation) (res_ticketTypeId reservation)) (\<lambda>locked.
            case locked of
              None \<Rightarrow> throw (NotFoundError ''Inventory bucket not found.'')
            | Some inventory \<Rightarrow>
                let inputs = ticket_inputs E order reservation refs;
                    issuedTicketIds = map cti_id inputs in
                seqp (for_each (Ticket_create E) inputs)
               (seqp (updateReservationStatus (res_id reservation) ReservationStatus.CONSUMED)
               (bindp (getActiveReservationQuantity E (res_eventId reservation)
                         (res_ticketTypeId reservation)) (\<lambda>remainingReserved.
                seqp (updateReservedCount (inv_id inventory) remainingReserved)
               (seqp (incrementSoldCount (inv_id inventory) (res_quantity reservation))
               (seqp (Order_updateStatus (ord_id order) OrderStatus.FULFILLED)
               (seqp (AuditLogRepository_append
                        \<lparr> aud_id = uuid E (length refs), aud_actorId = Option.bind ctx ctx_userId,
                          aud_action = ''TICKETS_ISSUED'', aud_entityType = ''order'',
                          aud_entityId = ord_id order,
                          aud_correlationId = map_option ctx_correlationId ctx,
                          aud_metadata = JObj [(''reservationId'', JStr (res_id reservation)),
                            (''quantity'', JNum (res_quantity reservation)),
                            (''ticketIds'', JArr (map JStr issuedTicketIds))] \<rparr>)
               (seqp (OutboxRepository_append
                        (new_outbox_event E (uuid E (length refs + 1)) ''order'' (ord_id order)
                          ''TicketsIssued''
                          (JObj [(''orderId'', JStr (ord_id order)),
                            (''ticketIds'', JArr (map JStr issuedTicketIds)),
                            (''quantity'', JNum (res_quantity reservation))])))
                (ret (ord_id order, issuedTicketIds)))))))))))) "

definition IssueTickets_execute ::
  "(nat \<Rightarrow> env) \<Rightarrow> random_refs \<Rightarrow> request_ctx option \<Rightarrow> string \<Rightarrow> (db, string \<times> string list) prog" where
  "IssueTickets_execute envs rnd ctx orderId =
     bindp (getReservationQuantity orderId) (\<lambda>reservationQuantity.
       allocateBatch rnd (nat reservationQuantity)
         (\<lambda>attempt refs. issueWithReferences (envs attempt) ctx orderId refs))"

section \<open>Runs\<close>

lemma Ticket_create_Inr [prog_inv]:
  "Ticket_create E input s = (Inr u, s') \<longleftrightarrow>
     \<not> list_ex (ticket_clash (ticket_of_input E input)) (tickets s) \<and>
     s' = tickets_update (\<lambda>ts. ts @ [ticket_of_input E input]) s"
  by (auto simp: Ticket_create_def prog_inv)

lemma create_tickets_Inr:
  "for_each (Ticket_create E) inputs s = (Inr u, s') \<Longrightarrow>
     s' = tickets_update (\<lambda>ts. ts @ map (ticket_of_input E) inputs) s"
proof (induction inputs arbitrary: s)
  case Nil
  then show ?case by simp
next
  case (Cons i inputs)
  from Cons.prems have
    "for_each (Ticket_create E) inputs (tickets_update (\<lambda>ts. ts @ [ticket_of_input E i]) s) = (Inr u, s')"
    by (auto simp: prog_inv)
  from Cons.IH [OF this] show ?case by (simp add: comp_def)
qed

definition issuable :: "string \<Rightarrow> Order \<Rightarrow> TicketReservation \<Rightarrow> db \<Rightarrow> bool" where
  "issuable orderId order r s \<longleftrightarrow>
     find (\<lambda>o'. ord_id o' = orderId) (orders s) = Some order \<and> ord_status order = OrderStatus.PAID \<and>
     truthy (ord_reservationId order) \<and>
     find (\<lambda>x. res_id x = the (ord_reservationId order)) (ticket_reservations s) = Some r \<and>
     res_status r = ReservationStatus.HELD"

lemma load_Inr [prog_inv]:
  "loadValidatedOrderReservation i s = (Inr x, s') \<longleftrightarrow> s' = s \<and> issuable i (fst x) (snd x) s"
  by (cases x)
     (auto simp: loadValidatedOrderReservation_def issuable_def prog_inv split: option.splits if_splits)

lemma readonly_load [intro]: "readonly (loadValidatedOrderReservation i)"
  unfolding loadValidatedOrderReservation_def Order_findById_def Reservation_findById_def by blast

lemma readonly_quantity [intro]: "readonly (getReservationQuantity i)"
  unfolding getReservationQuantity_def split_def by blast

lemma quantity_Inr [prog_inv]:
  "getReservationQuantity i s = (Inr q, s') \<longleftrightarrow>
     s' = s \<and> (\<exists>order r. issuable i order r s \<and> q = res_quantity r)"
  by (auto simp: getReservationQuantity_def prog_inv)

text \<open>Everything a successful issue did.\<close>

definition issued ::
  "env \<Rightarrow> Order \<Rightarrow> TicketReservation \<Rightarrow> (string \<times> string) list \<Rightarrow> db \<Rightarrow> db \<Rightarrow> bool" where
  "issued E order r refs s s' \<longleftrightarrow>
     tickets s' = tickets s @ map (ticket_of_input E) (ticket_inputs E order r refs) \<and>
     ticket_reservations s' = upd_where (\<lambda>x. res_id x = res_id r)
       (\<lambda>x. x\<lparr>res_status := ReservationStatus.CONSUMED\<rparr>) (ticket_reservations s) \<and>
     orders s' = upd_where (\<lambda>x. ord_id x = ord_id order)
       (\<lambda>x. x\<lparr>ord_status := OrderStatus.FULFILLED\<rparr>) (orders s) \<and>
     (\<exists>i. find (\<lambda>b. inv_eventId b = res_eventId r \<and> inv_ticketTypeId b = res_ticketTypeId r)
            (event_ticket_inventory s) = Some i \<and>
        event_ticket_inventory s' = upd_where (\<lambda>x. inv_id x = inv_id i)
          (\<lambda>x. x\<lparr>inv_reservedCount := live_quantity (db_now E) (res_eventId r) (res_ticketTypeId r)
                     (ticket_reservations s'),
                   inv_soldCount := inv_soldCount x + res_quantity r\<rparr>) (event_ticket_inventory s)) \<and>
     map aud_action (audit_logs s') = map aud_action (audit_logs s) @ [''TICKETS_ISSUED''] \<and>
     map obx_eventType (outbox_events s') = map obx_eventType (outbox_events s) @ [''TicketsIssued''] \<and>
     payments s' = payments s \<and> idempotency_keys s' = idempotency_keys s"

lemma upd_where_twice:
  "(\<And>x. p (g x) = p x) \<Longrightarrow> upd_where p f (upd_where p g rs) = upd_where p (\<lambda>x. f (g x)) rs"
  by (induction rs) auto

lemma issueWithReferences_Inr:
  assumes "issueWithReferences E ctx orderId refs s = (Inr out, s')"
  obtains order r where "issuable orderId order r s" "res_quantity r = int (length refs)"
    "out = (ord_id order, map (uuid E) [0..<length refs])" "issued E order r refs s s'"
proof -
  from assms obtain order r where ok: "issuable orderId order r s"
    and q: "res_quantity r = int (length refs)"
    by (auto simp: issueWithReferences_def prog_inv split: if_splits)
  have ids: "map cti_id (ticket_inputs E order r refs) = map (uuid E) [0..<length refs]"
  proof -
    have "map (\<lambda>x. uuid E (fst x)) (enumerate 0 refs) = map (uuid E) (map fst (enumerate 0 refs))"
      by (simp only: map_map comp_def)
    then have "map (\<lambda>x. uuid E (fst x)) (enumerate 0 refs) = map (uuid E) [0..<length refs]"
      by (simp only: map_fst_enumerate add_0)
    then show ?thesis by (simp add: ticket_inputs_def comp_def split_def)
  qed
  from assms ok obtain i where i: "find (\<lambda>b. inv_eventId b = res_eventId r \<and>
      inv_ticketTypeId b = res_ticketTypeId r) (event_ticket_inventory s) = Some i"
    by (auto simp: issueWithReferences_def issuable_def prog_inv split: if_splits option.splits)
  have "issued E order r refs s s' \<and> out = (ord_id order, map (uuid E) [0..<length refs])"
    using assms ok q i ids
    by (auto simp: issueWithReferences_def issuable_def issued_def prog_inv Let_def upd_where_twice
        new_outbox_event_def dest!: create_tickets_Inr)
  with ok q show thesis using that by blast
qed

lemma issueWithReferences_Inl: "issueWithReferences E ctx i refs s = (Inl e, s') \<Longrightarrow> s' = s"
  by (simp add: issueWithReferences_def prog_inv)

text \<open>What any batch allocation shows of its writer: one attempt committed, or nothing did.\<close>

lemma allocate_attempts_Inr:
  assumes "allocate_attempts n k refs writer s = (Inr x, s')"
    and "\<And>k rs e s s'. writer k rs s = (Inl e, s') \<Longrightarrow> s' = s"
  shows "\<exists>j. k \<le> j \<and> j < k + n \<and> writer j (refs j) s = (Inr x, s')"
  using assms(1)
proof (induction n arbitrary: k)
  case 0
  then show ?case by simp
next
  case (Suc n)
  from Suc.prems consider "writer k (refs k) s = (Inr x, s')"
    | e s1 where "writer k (refs k) s = (Inl e, s1)" "allocate_attempts n (Suc k) refs writer s1 = (Inr x, s')"
    by (auto simp: prog_inv split: if_splits)
  then show ?case
  proof cases
    case 1
    then show ?thesis by auto
  next
    case 2
    then have "s1 = s" using assms(2) by blast
    with 2(2) Suc.IH [of "Suc k"] obtain j where "Suc k \<le> j" "j < Suc k + n" "writer j (refs j) s = (Inr x, s')"
      by blast
    then show ?thesis by (intro exI [of _ j]) auto
  qed
qed

lemma allocate_attempts_Inl:
  "allocate_attempts n k refs writer s = (Inl e, s') \<Longrightarrow>
     (\<And>k rs e s s'. writer k rs s = (Inl e, s') \<Longrightarrow> s' = s) \<Longrightarrow> s' = s"
proof (induction n arbitrary: k)
  case 0
  then show ?case by simp
next
  case (Suc n)
  from Suc.prems(1) obtain e1 s1 where w: "writer k (refs k) s = (Inl e1, s1)"
    and r: "(if isUniqueConstraintError e1 then allocate_attempts n (Suc k) refs writer s1 else throw e1 s1) = (Inl e, s')"
    by (auto simp: prog_inv)
  from w Suc.prems(2) have "s1 = s" by blast
  with r Suc.IH [of "Suc k"] Suc.prems(2) show ?case by (auto split: if_splits)
qed

lemma IssueTickets_Inr:
  assumes "IssueTickets_execute envs rnd ctx orderId s = (Inr out, s')"
  obtains order r refs k where "issuable orderId order r s" "res_quantity r = int (length refs)"
    "1 \<le> k" "k \<le> 5" "refs = draw_refs rnd (length refs) k"
    "out = (ord_id order, map (uuid (envs k)) [0..<length refs])" "issued (envs k) order r refs s s'"
proof -
  let ?w = "\<lambda>attempt refs. issueWithReferences (envs attempt) ctx orderId refs"
  from assms obtain q where run: "allocate_attempts 5 1 (draw_refs rnd q) ?w s = (Inr out, s')"
    by (auto simp: IssueTickets_execute_def allocateBatch_def MAX_ATTEMPTS_def prog_inv)
  from allocate_attempts_Inr [OF run] issueWithReferences_Inl obtain k where k: "1 \<le> k" "k < 6"
    and w: "issueWithReferences (envs k) ctx orderId (draw_refs rnd q k) s = (Inr out, s')"
    by auto
  from w show thesis
  proof (rule issueWithReferences_Inr)
    fix order r
    assume "issuable orderId order r s" "res_quantity r = int (length (draw_refs rnd q k))"
      "out = (ord_id order, map (uuid (envs k)) [0..<length (draw_refs rnd q k)])"
      "issued (envs k) order r (draw_refs rnd q k) s s'"
    then show thesis using k by (intro that [of order r "draw_refs rnd q k" k]) (auto simp: draw_refs_def)
  qed
qed

lemma IssueTickets_Inl:
  assumes "IssueTickets_execute envs rnd ctx orderId s = (Inl e, s')"
  shows "s' = s"
proof -
  from assms consider "getReservationQuantity orderId s = (Inl e, s')"
    | q where "allocate_attempts 5 1 (draw_refs rnd q)
        (\<lambda>attempt refs. issueWithReferences (envs attempt) ctx orderId refs) s = (Inl e, s')"
    by (auto simp: IssueTickets_execute_def allocateBatch_def MAX_ATTEMPTS_def prog_inv)
  then show ?thesis
  proof cases
    case 1
    then show ?thesis by (rule readonlyD [OF readonly_quantity])
  next
    case 2
    then show ?thesis by (rule allocate_attempts_Inl) (rule issueWithReferences_Inl)
  qed
qed

section \<open>Inventory after an issue\<close>

lemma issued_bucket:
  assumes "inventory_inv (db_now E) s" and "issuable orderId order r s" and "issued E order r refs s s'"
  obtains i where
    "find (\<lambda>b. inv_eventId b = res_eventId r \<and> inv_ticketTypeId b = res_ticketTypeId r)
       (event_ticket_inventory s) = Some i"
    "r \<in> set (ticket_reservations s)"
    "\<And>e t. live_quantity (db_now E) e t (ticket_reservations s') =
       live_quantity (db_now E) e t (ticket_reservations s) - (if is_live (db_now E) e t r then res_quantity r else 0)"
    "event_ticket_inventory s' = upd_where (\<lambda>x. inv_id x = inv_id i)
       (\<lambda>x. x\<lparr>inv_reservedCount := live_quantity (db_now E) (res_eventId r) (res_ticketTypeId r)
                  (ticket_reservations s'),
                inv_soldCount := inv_soldCount x + res_quantity r\<rparr>) (event_ticket_inventory s)"
    "is_live (db_now E) (res_eventId r) (res_ticketTypeId r) r \<longleftrightarrow> db_now E < res_expiresAt r"
proof -
  from assms(2) have "find (\<lambda>x. res_id x = the (ord_reservationId order)) (ticket_reservations s) = Some r"
    and held: "res_status r = ReservationStatus.HELD" by (auto simp: issuable_def)
  then have r: "r \<in> set (ticket_reservations s)" using find_Some_iff2 by fastforce
  have d: "distinct (map res_id (ticket_reservations s))" using assms(1) by (simp add: inventory_inv_def)
  have "live_quantity (db_now E) e t (ticket_reservations s') = live_quantity (db_now E) e t (ticket_reservations s)
      - (if is_live (db_now E) e t r then res_quantity r else 0)" for e t
    using assms(3) live_switch_off [OF d r, of ReservationStatus.CONSUMED] by (simp add: issued_def)
  moreover have "is_live (db_now E) (res_eventId r) (res_ticketTypeId r) r \<longleftrightarrow> db_now E < res_expiresAt r"
    using held by (simp add: is_live_def)
  ultimately show thesis
    using assms(3) r unfolding issued_def by (auto intro: that)
qed

lemma issued_keeps_inv:
  assumes inv: "inventory_inv (db_now E) s" and ok: "issuable orderId order r s"
    and iss: "issued E order r refs s s'" and live: "db_now E < res_expiresAt r"
  shows "inventory_inv (db_now E) s'"
  using inv ok iss
proof (rule issued_bucket)
  fix i
  let ?L = "live_quantity (db_now E)"
  assume i: "find (\<lambda>b. inv_eventId b = res_eventId r \<and> inv_ticketTypeId b = res_ticketTypeId r)
      (event_ticket_inventory s) = Some i"
    and r: "r \<in> set (ticket_reservations s)"
    and L: "\<And>e t. ?L e t (ticket_reservations s') =
       ?L e t (ticket_reservations s) - (if is_live (db_now E) e t r then res_quantity r else 0)"
    and ivs: "event_ticket_inventory s' = upd_where (\<lambda>x. inv_id x = inv_id i)
       (\<lambda>x. x\<lparr>inv_reservedCount := ?L (res_eventId r) (res_ticketTypeId r) (ticket_reservations s'),
                inv_soldCount := inv_soldCount x + res_quantity r\<rparr>) (event_ticket_inventory s)"
    and lv: "is_live (db_now E) (res_eventId r) (res_ticketTypeId r) r \<longleftrightarrow> db_now E < res_expiresAt r"
  note b = bucket_found [OF i]
  have q: "0 < res_quantity r" and ids: "distinct (map res_id (ticket_reservations s))"
    and pos: "list_all (\<lambda>r. 0 < res_quantity r) (ticket_reservations s)"
    using inv r by (auto simp: inventory_inv_def list_all_iff)
  have trs: "ticket_reservations s' = upd_where (\<lambda>x. res_id x = res_id r)
       (\<lambda>x. x\<lparr>res_status := ReservationStatus.CONSUMED\<rparr>) (ticket_reservations s)"
    using iss by (simp add: issued_def)
  show ?thesis
  proof (rule inventory_inv_change [OF inv b(1) ivs])
    show "?L e t (ticket_reservations s') \<le> ?L e t (ticket_reservations s)" for e t
      using q by (simp add: L)
    show "bucket_ok (db_now E) (ticket_reservations s')
        (i\<lparr>inv_reservedCount := ?L (res_eventId r) (res_ticketTypeId r) (ticket_reservations s'),
           inv_soldCount := inv_soldCount i + res_quantity r\<rparr>)"
      using inventory_inv_bucket [OF inv b(1)] b(2,3) lv live by (simp add: bucket_ok_def L)
  qed (use ids pos in \<open>auto simp: trs\<close>)
qed

section \<open>Properties\<close>

definition ex_paid_order :: Order where
  "ex_paid_order = \<lparr> ord_id = ''o1'', ord_userId = ''alice'', ord_eventId = ''e'',
     ord_reservationId = Some ''r1'', ord_status = OrderStatus.PAID, ord_totalAmount = 2500,
     ord_currency = ''GHS'' \<rparr>"

definition ex_paid_db :: db where
  "ex_paid_db = ex_db\<lparr> orders := [ex_paid_order] \<rparr>"

definition ex_rnd :: random_refs where
  "ex_rnd k i = (replicate 9 0 @ [word_of_nat i], replicate 5 0 @ [word_of_nat i])"

definition ex_issue :: "db \<Rightarrow> (app_error + string \<times> string list) \<times> db" where
  "ex_issue s = IssueTickets_execute (\<lambda>_. ex_env) ex_rnd (Some ex_ctx) ''o1'' s"

lemma ex_issue_run: "ex_issue ex_paid_db = (Inr (''o1'', [[], ''u'']), snd (ex_issue ex_paid_db))"
  by (simp add: prod_eq_iff) code_simp

text \<open>
  C8: Issuing the tickets of a paid order creates exactly as many ACTIVE tickets as the reservation
  holds, owned by the buyer, with the references of one of at most five allocation attempts,
  consumes the reservation, moves its quantity from reserved to sold, fulfils the order and writes
  one audit row and one outbox event; when it fails the database is unchanged.
\<close>

theorem issue_tickets_effect:
  assumes "IssueTickets_execute envs rnd ctx orderId s = (out, s')"
  shows "(\<exists>e. out = Inl e \<and> s' = s) \<or>
    (\<exists>order r refs k. issuable orderId order r s \<and> res_quantity r = int (length refs) \<and>
       1 \<le> k \<and> k \<le> 5 \<and> refs = draw_refs rnd (length refs) k \<and>
       out = Inr (ord_id order, map (uuid (envs k)) [0..<length refs]) \<and> issued (envs k) order r refs s s' \<and>
       length (tickets s') = length (tickets s) + nat (res_quantity r) \<and>
       list_all (\<lambda>t. tkt_ownerUserId t = ord_userId order \<and> tkt_status t = TicketStatus.ACTIVE \<and>
           tkt_orderId t = Some (ord_id order)) (drop (length (tickets s)) (tickets s')))"
proof (cases out)
  case (Inl e)
  from IssueTickets_Inl [OF assms [unfolded Inl]] Inl show ?thesis by simp
next
  case (Inr o')
  from assms [unfolded Inr] obtain order r refs k where *: "issuable orderId order r s"
    "res_quantity r = int (length refs)" "1 \<le> k" "k \<le> 5" "refs = draw_refs rnd (length refs) k"
    "o' = (ord_id order, map (uuid (envs k)) [0..<length refs])" "issued (envs k) order r refs s s'"
    by (rule IssueTickets_Inr)
  then have t: "tickets s' = tickets s @ map (ticket_of_input (envs k)) (ticket_inputs (envs k) order r refs)"
    by (simp add: issued_def)
  have "length (tickets s') = length (tickets s) + nat (res_quantity r)"
    by (simp add: t *(2) ticket_inputs_def)
  moreover have "list_all (\<lambda>t. tkt_ownerUserId t = ord_userId order \<and> tkt_status t = TicketStatus.ACTIVE \<and>
      tkt_orderId t = Some (ord_id order)) (drop (length (tickets s)) (tickets s'))"
    by (auto simp: t list_all_iff ticket_inputs_def ticket_of_input_def)
  ultimately show ?thesis using * Inr by blast
qed

theorem issue_tickets_effect_witness:
  "length (tickets (snd (ex_issue ex_paid_db))) = 2"
proof -
  have r: "issuable ''o1'' order r ex_paid_db \<Longrightarrow> res_quantity r = 2" for order r
    by (auto simp: issuable_def ex_paid_db_def ex_paid_order_def ex_inventory_defs split: if_splits)
  have e: "tickets ex_paid_db = []" by (simp add: ex_paid_db_def ex_inventory_defs)
  from issue_tickets_effect [OF ex_issue_run [unfolded ex_issue_def]] obtain order r where
    "issuable ''o1'' order r ex_paid_db"
    "length (tickets (snd (ex_issue ex_paid_db))) = length (tickets ex_paid_db) + nat (res_quantity r)"
    unfolding ex_issue_def by blast
  with e r show ?thesis by simp
qed

text \<open>
  An order issues its tickets once: after a successful run every further run for that order
  fails with an invalid state transition and leaves the database unchanged.
\<close>

theorem issue_tickets_once:
  assumes "IssueTickets_execute envs rnd ctx orderId s = (Inr out, s')"
  shows "IssueTickets_execute envs2 rnd2 ctx2 orderId s' =
    (Inl (InvalidStateTransitionError ''Only paid orders can issue tickets.''), s')"
  using assms
proof (rule IssueTickets_Inr)
  fix order r refs k
  assume "issuable orderId order r s" and "issued (envs k) order r refs s s'"
  then have o: "find (\<lambda>o'. ord_id o' = orderId) (orders s) = Some order"
    and s': "orders s' = upd_where (\<lambda>x. ord_id x = ord_id order) (\<lambda>x. x\<lparr>ord_status := OrderStatus.FULFILLED\<rparr>) (orders s)"
    by (auto simp: issuable_def issued_def)
  from o have "ord_id order = orderId" using find_Some_iff2 by fastforce
  with o have "find (\<lambda>o'. ord_id o' = orderId) (orders s') = Some (order\<lparr>ord_status := OrderStatus.FULFILLED\<rparr>)"
    by (simp add: s' find_upd_where_key)
  then show ?thesis
    by (simp add: IssueTickets_execute_def getReservationQuantity_def loadValidatedOrderReservation_def
        runInTransaction_def bindp_def)
qed

theorem issue_tickets_once_witness:
  "ex_issue (snd (ex_issue ex_paid_db)) =
     (Inl (InvalidStateTransitionError ''Only paid orders can issue tickets.''), snd (ex_issue ex_paid_db))"
  using issue_tickets_once [OF ex_issue_run [unfolded ex_issue_def]] by (simp add: ex_issue_def)

text \<open>
  C9: The books of the bucket after an issue: reserved and sold together are what was live and sold
  before when the reservation was still live, but grow by its whole quantity when it had expired and
  was not yet swept, because the expiry is not checked; capacity may then be exceeded.
\<close>

theorem issue_tickets_accounting:
  assumes "inventory_inv (db_now E) s" and "issuable orderId order r s"
    and "issueWithReferences E ctx orderId refs s = (Inr out, s')"
    and "find (\<lambda>b. inv_eventId b = res_eventId r \<and> inv_ticketTypeId b = res_ticketTypeId r)
      (event_ticket_inventory s) = Some i"
  shows "\<exists>i'. find (\<lambda>b. inv_eventId b = res_eventId r \<and> inv_ticketTypeId b = res_ticketTypeId r)
      (event_ticket_inventory s') = Some i' \<and>
    inv_capacityTotal i' = inv_capacityTotal i \<and> inv_soldCount i' = inv_soldCount i + res_quantity r \<and>
    inv_reservedCount i' + inv_soldCount i' =
      live_quantity (db_now E) (res_eventId r) (res_ticketTypeId r) (ticket_reservations s) + inv_soldCount i +
      (if db_now E < res_expiresAt r then 0 else res_quantity r)"
  using assms(3)
proof (rule issueWithReferences_Inr)
  fix order' r'
  assume "issuable orderId order' r' s" and iss: "issued E order' r' refs s s'"
  with assms(2) have "r' = r" "order' = order" by (auto simp: issuable_def)
  with iss have "issued E order r refs s s'" by simp
  with assms(1,2) show ?thesis
  proof (rule issued_bucket)
    fix j
    let ?L = "live_quantity (db_now E)"
    let ?b = "\<lambda>b. inv_eventId b = res_eventId r \<and> inv_ticketTypeId b = res_ticketTypeId r"
    let ?f = "\<lambda>x. x\<lparr>inv_reservedCount := ?L (res_eventId r) (res_ticketTypeId r) (ticket_reservations s'),
                inv_soldCount := inv_soldCount x + res_quantity r\<rparr>"
    assume j: "find ?b (event_ticket_inventory s) = Some j"
      and L: "\<And>e t. ?L e t (ticket_reservations s') =
       ?L e t (ticket_reservations s) - (if is_live (db_now E) e t r then res_quantity r else 0)"
      and ivs: "event_ticket_inventory s' = upd_where (\<lambda>x. inv_id x = inv_id j) ?f (event_ticket_inventory s)"
      and lv: "is_live (db_now E) (res_eventId r) (res_ticketTypeId r) r \<longleftrightarrow> db_now E < res_expiresAt r"
    have "find ?b (event_ticket_inventory s') =
        map_option (\<lambda>x. if inv_id x = inv_id j then ?f x else x) (find ?b (event_ticket_inventory s))"
      unfolding ivs by (rule find_upd_where_same) simp
    with j assms(4) L lv show ?thesis by auto
  qed
qed

definition ex_late_db :: db where
  "ex_late_db = ex_db\<lparr> orders := [ex_paid_order\<lparr>ord_reservationId := Some ''r2''\<rparr>],
     event_ticket_inventory := [ex_bucket\<lparr>inv_capacityTotal := 12, inv_reservedCount := 2\<rparr>] \<rparr>"

theorem issue_tickets_accounting_witness:
  "inventory_inv 5000 ex_late_db \<and>
   (let s' = snd (issueWithReferences ex_env None ''o1'' (draw_refs ex_rnd 5 1) ex_late_db) in
      \<exists>i. find (\<lambda>b. inv_eventId b = ''e'' \<and> inv_ticketTypeId b = ''t'') (event_ticket_inventory s') = Some i \<and>
        inv_capacityTotal i < inv_reservedCount i + inv_soldCount i)"
proof -
  let ?x = "issueWithReferences ex_env None ''o1'' (draw_refs ex_rnd 5 1) ex_late_db"
  let ?r = "ex_hold ''r2'' 5 4000"
  have inv: "inventory_inv 5000 ex_late_db" by code_simp
  have ok: "issuable ''o1'' (ex_paid_order\<lparr>ord_reservationId := Some ''r2''\<rparr>) ?r ex_late_db"
    by (simp add: issuable_def ex_late_db_def ex_paid_order_def ex_inventory_defs)
  have run: "?x = (Inr (''o1'', [[], ''u'', ''uu'', ''uuu'', ''uuuu'']), snd ?x)"
    by (simp add: prod_eq_iff) code_simp
  have b: "find (\<lambda>b. inv_eventId b = res_eventId ?r \<and> inv_ticketTypeId b = res_ticketTypeId ?r)
      (event_ticket_inventory ex_late_db) = Some (ex_bucket\<lparr>inv_capacityTotal := 12, inv_reservedCount := 2\<rparr>)"
    by (simp add: ex_late_db_def ex_inventory_defs)
  have live: "live_quantity 5000 ''e'' ''t'' (ticket_reservations ex_late_db) = 2" by code_simp
  have now: "db_now ex_env = 5000" by (simp add: ex_env_def)
  from issue_tickets_accounting [OF _ ok run b] inv live show ?thesis
    by (auto simp: now ex_hold_def ex_bucket_def Let_def)
qed

end
