(* ===== verification/Admissions.thy ===== *)
theory Admissions
  imports Tickets
begin

text \<open>
  Admission scans (\<^verbatim>\<open>src/modules/admissions\<close>): the scan service, its audit trail and the
  repositories of the admission state. A scan reads the ticket first, outside any transaction, and
  commits later, so the model has the two parts apart: \<open>scan_preflight\<close> decides on the snapshot,
  \<open>scan_commit\<close> runs the guarded update on whatever the database is by then; \<open>scanTicket\<close> is one
  after the other.
\<close>

section \<open>Repositories\<close>

definition lockAdmissionState :: "string \<Rightarrow> (db, TicketAdmissionState option) prog" where
  "lockAdmissionState ticketId = prisma_find ticket_admission_state (\<lambda>r. tas_ticketId r = ticketId)"

record AdmissionStateUpdate =
  asu_ticketId :: string
  asu_currentState :: AdmissionState
  asu_admissionCycleNo :: int
  asu_lastEntryAt :: "int option"
  asu_lastExitAt :: "int option"
  asu_expectedVersion :: int

definition updateAdmissionStateWithVersion :: "AdmissionStateUpdate \<Rightarrow> (db, bool) prog" where
  "updateAdmissionStateWithVersion input =
     bindp (prisma_updateMany ticket_admission_state ticket_admission_state_update
              (\<lambda>r. tas_ticketId r = asu_ticketId input \<and> tas_version r = asu_expectedVersion input)
              (\<lambda>r. r\<lparr> tas_currentState := asu_currentState input,
                       tas_admissionCycleNo := asu_admissionCycleNo input,
                       tas_lastEntryAt := asu_lastEntryAt input, tas_lastExitAt := asu_lastExitAt input,
                       tas_version := tas_version r + 1 \<rparr>))
       (\<lambda>result. ret (result = 1))"

definition appendScanAudit :: "AdmissionScanAudit \<Rightarrow> (db, unit) prog" where
  "appendScanAudit input =
     seqp (prisma_create admission_scan_audits admission_scan_audits_update (\<lambda>_ _. False) input) (ret ())"

text \<open>One accepted event per ticket, cycle and direction: the partial unique index.\<close>

definition admission_event_clash :: "AdmissionEvent \<Rightarrow> AdmissionEvent \<Rightarrow> bool" where
  "admission_event_clash x y \<longleftrightarrow> ade_id x = ade_id y \<or>
     (ade_scanEventId x \<noteq> None \<and> ade_scanEventId x = ade_scanEventId y) \<or>
     (ade_result x = AdmissionEventResult.ACCEPTED \<and> ade_result y = AdmissionEventResult.ACCEPTED \<and>
      ade_ticketId x = ade_ticketId y \<and> ade_admissionCycleNo x = ade_admissionCycleNo y \<and>
      ade_direction x = ade_direction y)"

definition AdmissionEvent_append :: "AdmissionEvent \<Rightarrow> (db, unit) prog" where
  "AdmissionEvent_append input =
     seqp (prisma_create admission_events admission_events_update admission_event_clash input) (ret ())"

text \<open>
  The ticket with its event and the owner of the event's organizer; the foreign keys guarantee both
  rows.
\<close>

record scan_view =
  sv_ticket :: Ticket
  sv_event :: Event
  sv_ownerUserId :: string

definition findForAdmissionScan :: "string \<Rightarrow> (db, scan_view option) prog" where
  "findForAdmissionScan ticketId = (\<lambda>s. ret
     (Option.bind (find (\<lambda>t. tkt_id t = ticketId) (tickets s)) (\<lambda>t.
      Option.bind (find (\<lambda>e. evt_id e = tkt_eventId t) (events s)) (\<lambda>e.
      Option.bind (find (\<lambda>o'. org_id o' = evt_organizerId e) (organizers s)) (\<lambda>o'.
        Some \<lparr> sv_ticket = t, sv_event = e, sv_ownerUserId = org_ownerUserId o' \<rparr>)))) s)"

definition markUsedIfIssuable :: "string \<Rightarrow> string \<Rightarrow> int \<Rightarrow> (db, nat) prog" where
  "markUsedIfIssuable ticketId admissionTokenHash usedAt =
     prisma_updateMany tickets tickets_update
       (\<lambda>t. tkt_id t = ticketId \<and> tkt_status t = TicketStatus.ISSUED \<and>
             tkt_admissionTokenHash t = Some admissionTokenHash)
       (\<lambda>t. t\<lparr> tkt_status := TicketStatus.USED, tkt_usedAt := Some usedAt \<rparr>)"

section \<open>The scan\<close>

record ScanTicketInput =
  sti_ticketId :: string
  sti_token :: string
  sti_eventId :: "string option"
  sti_scannedByUserId :: string
  sti_deviceId :: "string option"
  sti_gateLabel :: "string option"

record AdmissionScanResponseDto =
  asr_accepted :: bool
  asr_status :: AdmissionScanStatus
  asr_rejectionReason :: "AdmissionRejectionReason option"
  asr_ticketId :: "string option"
  asr_scannedAt :: int

definition hashToken :: "env \<Rightarrow> string \<Rightarrow> string" where
  "hashToken E token = sha256 E token"

definition classifyTicketState :: "scan_view \<Rightarrow> int \<Rightarrow> AdmissionRejectionReason option" where
  "classifyTicketState v scannedAt =
     (let t = sv_ticket v in
      if tkt_status t = TicketStatus.USED then Some AdmissionRejectionReason.TICKET_ALREADY_USED
      else if tkt_status t = TicketStatus.VOIDED \<or> tkt_status t = TicketStatus.INVALIDATED \<or>
              tkt_status t = TicketStatus.REFUNDED \<or> tkt_status t = TicketStatus.BLOCKED
      then Some AdmissionRejectionReason.TICKET_VOIDED
      else if tkt_status t = TicketStatus.EXPIRED then Some AdmissionRejectionReason.TICKET_EXPIRED
      else if tkt_status t \<noteq> TicketStatus.ISSUED then Some AdmissionRejectionReason.TICKET_NOT_ISSUED
      else if evt_status (sv_event v) \<noteq> EventStatus.PUBLISHED
      then Some AdmissionRejectionReason.EVENT_NOT_ACTIVE
      else if (case tkt_expiresAt t of None \<Rightarrow> False | Some x \<Rightarrow> scannedAt > x)
      then Some AdmissionRejectionReason.TICKET_EXPIRED
      else if scannedAt > evt_endsAt (sv_event v) then Some AdmissionRejectionReason.EVENT_NOT_ACTIVE
      else None)"

definition scan_metadata :: "ScanTicketInput \<Rightarrow> json option" where
  "scan_metadata input =
     (if truthy (sti_eventId input) then Some (JObj [(''providedEventId'', JStr (the (sti_eventId input)))])
      else None)"

definition unknown_ticket_audit ::
  "ScanTicketInput \<Rightarrow> AdmissionRejectionReason \<Rightarrow> string \<Rightarrow> int \<Rightarrow> AdmissionScanAudit" where
  "unknown_ticket_audit input reason tokenHash scannedAt =
     \<lparr> asa_ticketId = None, asa_eventId = None, asa_organizerId = None,
       asa_scannedByUserId = Some (sti_scannedByUserId input), asa_status = AdmissionScanStatus.REJECTED,
       asa_rejectionReason = Some reason, asa_tokenHash = Some tokenHash, asa_scanNonceHash = None,
       asa_deviceId = sti_deviceId input, asa_gateLabel = sti_gateLabel input,
       asa_metadata = scan_metadata input, asa_scannedAt = scannedAt \<rparr>"

definition audit_organizer :: "scan_view \<Rightarrow> string" where
  "audit_organizer v = (case tkt_organizerId (sv_ticket v) of None \<Rightarrow> evt_organizerId (sv_event v) | Some o' \<Rightarrow> o')"

definition buildTicketAuditInput ::
  "scan_view \<Rightarrow> ScanTicketInput \<Rightarrow> AdmissionRejectionReason \<Rightarrow> string \<Rightarrow> int \<Rightarrow> AdmissionScanAudit" where
  "buildTicketAuditInput v input reason tokenHash scannedAt =
     \<lparr> asa_ticketId = Some (tkt_id (sv_ticket v)), asa_eventId = Some (tkt_eventId (sv_ticket v)),
       asa_organizerId = Some (audit_organizer v),
       asa_scannedByUserId = Some (sti_scannedByUserId input), asa_status = AdmissionScanStatus.REJECTED,
       asa_rejectionReason = Some reason, asa_tokenHash = Some tokenHash, asa_scanNonceHash = None,
       asa_deviceId = sti_deviceId input, asa_gateLabel = sti_gateLabel input,
       asa_metadata = scan_metadata input, asa_scannedAt = scannedAt \<rparr>"

definition rejected_response :: "AdmissionRejectionReason \<Rightarrow> int \<Rightarrow> AdmissionScanResponseDto" where
  "rejected_response reason scannedAt =
     \<lparr> asr_accepted = False, asr_status = AdmissionScanStatus.REJECTED,
       asr_rejectionReason = Some reason, asr_ticketId = None, asr_scannedAt = scannedAt \<rparr>"

definition recordRejectedDecision ::
  "AdmissionScanAudit \<Rightarrow> AdmissionRejectionReason \<Rightarrow> int \<Rightarrow> (db, AdmissionScanResponseDto) prog" where
  "recordRejectedDecision audit reason scannedAt =
     seqp (appendScanAudit audit) (ret (rejected_response reason scannedAt))"

text \<open>The checks on the snapshot, in the order of the code: a rejection reason, or none.\<close>

definition scan_preflight :: "ScanTicketInput \<Rightarrow> string \<Rightarrow> int \<Rightarrow> scan_view \<Rightarrow> AdmissionRejectionReason option" where
  "scan_preflight input tokenHash scannedAt v =
     (let t = sv_ticket v in
      if \<not> truthy (tkt_admissionTokenHash t) \<or> tkt_admissionTokenHash t \<noteq> Some tokenHash
      then Some AdmissionRejectionReason.INVALID_TOKEN
      else if truthy (tkt_organizerId t) \<and> tkt_organizerId t \<noteq> Some (evt_organizerId (sv_event v))
      then Some AdmissionRejectionReason.ORGANIZER_MISMATCH
      else if sv_ownerUserId v \<noteq> sti_scannedByUserId input
      then Some AdmissionRejectionReason.STAFF_NOT_AUTHORIZED
      else if truthy (sti_eventId input) \<and> sti_eventId input \<noteq> Some (tkt_eventId t)
      then Some AdmissionRejectionReason.EVENT_MISMATCH
      else classifyTicketState v scannedAt)"

definition accepted_audit :: "scan_view \<Rightarrow> ScanTicketInput \<Rightarrow> string \<Rightarrow> int \<Rightarrow> AdmissionScanAudit" where
  "accepted_audit v input tokenHash scannedAt =
     \<lparr> asa_ticketId = Some (tkt_id (sv_ticket v)), asa_eventId = Some (tkt_eventId (sv_ticket v)),
       asa_organizerId = Some (audit_organizer v),
       asa_scannedByUserId = Some (sti_scannedByUserId input), asa_status = AdmissionScanStatus.ACCEPTED,
       asa_rejectionReason = None, asa_tokenHash = Some tokenHash, asa_scanNonceHash = None,
       asa_deviceId = sti_deviceId input, asa_gateLabel = sti_gateLabel input,
       asa_metadata = scan_metadata input, asa_scannedAt = scannedAt \<rparr>"

definition scan_commit ::
  "ScanTicketInput \<Rightarrow> string \<Rightarrow> int \<Rightarrow> scan_view \<Rightarrow> (db, AdmissionScanResponseDto) prog" where
  "scan_commit input tokenHash scannedAt v =
     runInTransaction
       (bindp (markUsedIfIssuable (tkt_id (sv_ticket v)) tokenHash scannedAt) (\<lambda>updatedCount.
          if updatedCount = 1
          then seqp (appendScanAudit (accepted_audit v input tokenHash scannedAt))
                 (ret \<lparr> asr_accepted = True, asr_status = AdmissionScanStatus.ACCEPTED,
                        asr_rejectionReason = None, asr_ticketId = Some (tkt_id (sv_ticket v)),
                        asr_scannedAt = scannedAt \<rparr>)
          else bindp (findForAdmissionScan (tkt_id (sv_ticket v))) (\<lambda>reloaded.
                 let rejectionReason =
                       (case reloaded of
                          None \<Rightarrow> AdmissionRejectionReason.TICKET_NOT_FOUND
                        | Some w \<Rightarrow>
                            (case classifyTicketState w scannedAt of
                               None \<Rightarrow> AdmissionRejectionReason.TOKEN_REPLAY_DETECTED | Some x \<Rightarrow> x)) in
                 seqp (appendScanAudit
                         (case reloaded of
                            None \<Rightarrow> unknown_ticket_audit input rejectionReason tokenHash scannedAt
                          | Some w \<Rightarrow> buildTicketAuditInput w input rejectionReason tokenHash scannedAt))
                   (ret (rejected_response rejectionReason scannedAt)))))"

definition scanTicket :: "env \<Rightarrow> ScanTicketInput \<Rightarrow> (db, AdmissionScanResponseDto) prog" where
  "scanTicket E input =
     (let scannedAt = app_now E; tokenHash = hashToken E (sti_token input) in
      bindp (findForAdmissionScan (sti_ticketId input)) (\<lambda>found.
        case found of
          None \<Rightarrow>
            recordRejectedDecision
              (unknown_ticket_audit input AdmissionRejectionReason.TICKET_NOT_FOUND tokenHash scannedAt)
              AdmissionRejectionReason.TICKET_NOT_FOUND scannedAt
        | Some v \<Rightarrow>
            (case scan_preflight input tokenHash scannedAt v of
               Some reason \<Rightarrow>
                 recordRejectedDecision (buildTicketAuditInput v input reason tokenHash scannedAt)
                   reason scannedAt
             | None \<Rightarrow> scan_commit input tokenHash scannedAt v)))"

section \<open>Runs\<close>

lemma appendScanAudit_apply [simp]:
  "appendScanAudit a s = (Inr (), admission_scan_audits_update (\<lambda>rs. rs @ [a]) s)"
  by (simp add: appendScanAudit_def seqp_def bindp_def prisma_create_def list_ex_iff)

lemma recordRejected_apply [simp]:
  "recordRejectedDecision a r t s =
     (Inr (rejected_response r t), admission_scan_audits_update (\<lambda>rs. rs @ [a]) s)"
  by (simp add: recordRejectedDecision_def seqp_def bindp_def)

definition scan_lookup :: "db \<Rightarrow> string \<Rightarrow> scan_view option" where
  "scan_lookup s ticketId =
     Option.bind (find (\<lambda>t. tkt_id t = ticketId) (tickets s)) (\<lambda>t.
      Option.bind (find (\<lambda>e. evt_id e = tkt_eventId t) (events s)) (\<lambda>e.
      Option.bind (find (\<lambda>o'. org_id o' = evt_organizerId e) (organizers s)) (\<lambda>o'.
        Some \<lparr> sv_ticket = t, sv_event = e, sv_ownerUserId = org_ownerUserId o' \<rparr>)))"

lemma findForAdmissionScan_apply [simp]: "findForAdmissionScan i s = (Inr (scan_lookup s i), s)"
  by (simp add: findForAdmissionScan_def scan_lookup_def)

lemma scan_lookup_Some:
  "scan_lookup s i = Some v \<Longrightarrow>
     find (\<lambda>t. tkt_id t = i) (tickets s) = Some (sv_ticket v) \<and> tkt_id (sv_ticket v) = i \<and>
     sv_ticket v \<in> set (tickets s)"
  by (auto simp: scan_lookup_def bind_eq_Some_conv dest: find_Some_iff2)

abbreviation can_use :: "string \<Rightarrow> string \<Rightarrow> Ticket \<Rightarrow> bool" where
  "can_use i h t \<equiv> tkt_id t = i \<and> tkt_status t = TicketStatus.ISSUED \<and> tkt_admissionTokenHash t = Some h"

definition mark_used :: "string \<Rightarrow> string \<Rightarrow> int \<Rightarrow> Ticket list \<Rightarrow> Ticket list" where
  "mark_used i h instant ts =
     upd_where (can_use i h) (\<lambda>t. t\<lparr> tkt_status := TicketStatus.USED, tkt_usedAt := Some instant \<rparr>) ts"

lemma markUsedIfIssuable_apply [simp]:
  "markUsedIfIssuable i h instant s =
     (Inr (length (filter (can_use i h) (tickets s))), tickets_update (mark_used i h instant) s)"
proof -
  have "mark_used i h instant = upd_where (can_use i h) (\<lambda>t. t\<lparr> tkt_status := TicketStatus.USED, tkt_usedAt := Some instant \<rparr>)"
    by (rule ext) (simp add: mark_used_def)
  then show ?thesis by (simp add: markUsedIfIssuable_def)
qed

lemma filter_unique_key:
  "distinct (map k xs) \<Longrightarrow> length (filter (\<lambda>x. k x = i \<and> p x) xs) \<le> 1"
proof (induction xs)
  case Nil
  then show ?case by simp
next
  case (Cons x xs)
  show ?case
  proof (cases "k x = i \<and> p x")
    case True
    then have "filter (\<lambda>x. k x = i \<and> p x) xs = []"
      using Cons.prems by (auto simp: filter_empty_conv) (metis image_eqI)
    with True show ?thesis by simp
  next
    case False
    with Cons show ?thesis by auto
  qed
qed

lemma usable_count:
  assumes "distinct (map tkt_id ts)" and "t \<in> set ts"
  shows "length (filter (can_use (tkt_id t) h) ts) = 1 \<longleftrightarrow> can_use (tkt_id t) h t"
proof -
  have "filter (can_use (tkt_id t) h) ts \<noteq> [] \<longleftrightarrow> can_use (tkt_id t) h t"
    using assms(2) distinct_key_unique [OF assms(1) _ assms(2)] by (auto simp: filter_empty_conv)
  moreover have "length (filter (can_use (tkt_id t) h) ts) \<le> 1"
    by (rule filter_unique_key [OF assms(1)])
  ultimately show ?thesis by (cases "filter (can_use (tkt_id t) h) ts") auto
qed

lemma mark_used_ids [simp]: "map tkt_id (mark_used i h instant ts) = map tkt_id ts"
  unfolding mark_used_def by (rule map_key_upd_where) simp

text \<open>The commit, both outcomes.\<close>

lemma scan_commit_eq:
  "scan_commit input h instant v s =
     (let s1 = tickets_update (mark_used (tkt_id (sv_ticket v)) h instant) s in
      if length (filter (can_use (tkt_id (sv_ticket v)) h) (tickets s)) = 1
      then (Inr \<lparr> asr_accepted = True, asr_status = AdmissionScanStatus.ACCEPTED, asr_rejectionReason = None,
                   asr_ticketId = Some (tkt_id (sv_ticket v)), asr_scannedAt = instant \<rparr>,
            admission_scan_audits_update (\<lambda>rs. rs @ [accepted_audit v input h instant]) s1)
      else (let reason = (case scan_lookup s1 (tkt_id (sv_ticket v)) of
                    None \<Rightarrow> AdmissionRejectionReason.TICKET_NOT_FOUND
                  | Some w \<Rightarrow> (case classifyTicketState w instant of
                       None \<Rightarrow> AdmissionRejectionReason.TOKEN_REPLAY_DETECTED | Some x \<Rightarrow> x)) in
            (Inr (rejected_response reason instant),
             admission_scan_audits_update (\<lambda>rs. rs @
               [case scan_lookup s1 (tkt_id (sv_ticket v)) of
                  None \<Rightarrow> unknown_ticket_audit input reason h instant
                | Some w \<Rightarrow> buildTicketAuditInput w input reason h instant]) s1)))"
  by (simp add: scan_commit_def runInTransaction_def bindp_def seqp_def Let_def)

section \<open>One admission per ticket\<close>

text \<open>
  Scans of one ticket that passed their checks on any snapshot, interleaved with steps that keep
  identifiers unique and never make a ticket issuable again. A scan wins when it is accepted.
\<close>

definition scan_attempt :: "string \<Rightarrow> ScanTicketInput \<times> string \<times> int \<times> scan_view \<Rightarrow> db \<Rightarrow> bool \<times> db" where
  "scan_attempt i x s = (case x of (input, h, instant, v) \<Rightarrow>
     (case scan_commit input h instant (v\<lparr>sv_ticket := (sv_ticket v)\<lparr>tkt_id := i\<rparr>\<rparr>) s of
        (Inl e, s') \<Rightarrow> (False, s')
      | (Inr r, s') \<Rightarrow> (asr_accepted r, s')))"

definition unique_tickets :: "db \<Rightarrow> bool" where
  "unique_tickets s \<longleftrightarrow> distinct (map tkt_id (tickets s))"

definition not_spent :: "string \<Rightarrow> db \<Rightarrow> bool" where
  "not_spent i s \<longleftrightarrow> \<not> list_ex (\<lambda>t. tkt_id t = i \<and> tkt_status t \<noteq> TicketStatus.ISSUED) (tickets s)"

definition tickets_kept :: "db \<Rightarrow> db \<Rightarrow> bool" where
  "tickets_kept s s' \<longleftrightarrow> unique_tickets s' \<and>
     list_all (\<lambda>t. tkt_status t \<noteq> TicketStatus.ISSUED \<longrightarrow>
       list_ex (\<lambda>t'. tkt_id t' = tkt_id t \<and> tkt_status t' \<noteq> TicketStatus.ISSUED) (tickets s')) (tickets s)"

lemma scan_attempt_cases:
  assumes "scan_attempt i (input, h, instant, v) s = (w, s')"
  shows "tickets s' = mark_used i h instant (tickets s)"
    and "w \<longleftrightarrow> length (filter (can_use i h) (tickets s)) = 1"
  using assms
  by (auto simp: scan_attempt_def scan_commit_eq Let_def rejected_response_def split: if_splits)

interpretation scan_race: guarded_update "scan_attempt i" tickets_kept unique_tickets "not_spent i" for i
proof
  fix x :: "ScanTicketInput \<times> string \<times> int \<times> scan_view" and s s' :: db and b
  obtain input h instant v where x: "x = (input, h, instant, v)" by (cases x)
  note run = scan_attempt_cases [of i input h instant v s _ s']
  show "unique_tickets s \<Longrightarrow> scan_attempt i x s = (b, s') \<Longrightarrow> unique_tickets s'"
    using run(1) [of b] by (simp add: unique_tickets_def x)
  show "unique_tickets s \<Longrightarrow> tickets_kept s s' \<Longrightarrow> unique_tickets s'"
    by (simp add: tickets_kept_def)
  show "unique_tickets s \<Longrightarrow> scan_attempt i x s = (True, s') \<Longrightarrow> not_spent i s"
    and "unique_tickets s \<Longrightarrow> scan_attempt i x s = (True, s') \<Longrightarrow> \<not> not_spent i s'"
  proof -
    assume u: "unique_tickets s" and r: "scan_attempt i x s = (True, s')"
    from run [OF r [unfolded x]] have "length (filter (can_use i h) (tickets s)) = 1"
      and ts: "tickets s' = mark_used i h instant (tickets s)" by auto
    then have "filter (can_use i h) (tickets s) \<noteq> []" by auto
    then obtain t where t: "t \<in> set (tickets s)" "can_use i h t" by (auto simp: filter_empty_conv)
    with u have "t' = t" if "t' \<in> set (tickets s)" "tkt_id t' = i" for t'
      using that distinct_key_unique [of tkt_id "tickets s" t' t] by (auto simp: unique_tickets_def)
    with t show "not_spent i s" by (auto simp: not_spent_def list_ex_iff)
    have "t\<lparr> tkt_status := TicketStatus.USED, tkt_usedAt := Some instant \<rparr> \<in> set (tickets s')"
      using t by (force simp: ts mark_used_def set_upd_where)
    with t show "\<not> not_spent i s'" by (force simp: not_spent_def list_ex_iff)
  qed
  show "\<not> not_spent i s'" if r: "scan_attempt i x s = (False, s')" and n: "\<not> not_spent i s"
  proof -
    from n obtain t where t: "t \<in> set (tickets s)" "tkt_id t = i" "tkt_status t \<noteq> TicketStatus.ISSUED"
      by (auto simp: not_spent_def list_ex_iff)
    then have "t \<in> set (tickets s')"
      using run(1) [OF r [unfolded x]] by (force simp: mark_used_def set_upd_where)
    with t show ?thesis by (auto simp: not_spent_def list_ex_iff)
  qed
  show "\<not> not_spent i s'" if "tickets_kept s s'" and "\<not> not_spent i s"
    using that by (fastforce simp: tickets_kept_def not_spent_def list_ex_iff list_all_iff)
qed

section \<open>Properties\<close>

text \<open>What makes a scan acceptable at the moment it is made.\<close>

definition admissible :: "env \<Rightarrow> ScanTicketInput \<Rightarrow> scan_view \<Rightarrow> bool" where
  "admissible E input v \<longleftrightarrow>
     (let t = sv_ticket v in
      hashToken E (sti_token input) \<noteq> [] \<and> tkt_admissionTokenHash t = Some (hashToken E (sti_token input)) \<and>
      (tkt_organizerId t \<in> {None, Some [], Some (evt_organizerId (sv_event v))}) \<and>
      sv_ownerUserId v = sti_scannedByUserId input \<and>
      sti_eventId input \<in> {None, Some [], Some (tkt_eventId t)} \<and>
      tkt_status t = TicketStatus.ISSUED \<and> evt_status (sv_event v) = EventStatus.PUBLISHED \<and>
      (case tkt_expiresAt t of None \<Rightarrow> True | Some x \<Rightarrow> app_now E \<le> x) \<and>
      app_now E \<le> evt_endsAt (sv_event v))"

lemma classify_None:
  "classifyTicketState v instant = None \<longleftrightarrow>
     tkt_status (sv_ticket v) = TicketStatus.ISSUED \<and> evt_status (sv_event v) = EventStatus.PUBLISHED \<and>
     (case tkt_expiresAt (sv_ticket v) of None \<Rightarrow> True | Some x \<Rightarrow> instant \<le> x) \<and> instant \<le> evt_endsAt (sv_event v)"
  by (auto simp: classifyTicketState_def Let_def split: option.splits)

lemma preflight_admissible:
  "scan_preflight input (hashToken E (sti_token input)) (app_now E) v = None \<longleftrightarrow> admissible E input v"
  by (auto simp: scan_preflight_def Let_def admissible_def classify_None truthy_iff)

lemma scan_decided:
  assumes "unique_tickets s"
  shows "\<exists>r s' a. scanTicket E input s = (Inr r, s') \<and>
    (asr_accepted r \<longleftrightarrow> (\<exists>v. scan_lookup s (sti_ticketId input) = Some v \<and> admissible E input v)) \<and>
    tickets s' = (if asr_accepted r
      then upd_where (\<lambda>t. tkt_id t = sti_ticketId input)
             (\<lambda>t. t\<lparr>tkt_status := TicketStatus.USED, tkt_usedAt := Some (app_now E)\<rparr>) (tickets s)
      else tickets s) \<and>
    admission_scan_audits s' = admission_scan_audits s @ [a] \<and> asa_status a = asr_status r \<and>
    asa_rejectionReason a = asr_rejectionReason r \<and>
    (asr_accepted r \<longleftrightarrow> asr_status r = AdmissionScanStatus.ACCEPTED)"
proof (cases "scan_lookup s (sti_ticketId input)")
  case None
  then show ?thesis
    by (auto simp: scanTicket_def Let_def bindp_def rejected_response_def unknown_ticket_audit_def)
next
  case (Some v)
  let ?h = "hashToken E (sti_token input)"
  note t = scan_lookup_Some [OF Some]
  show ?thesis
  proof (cases "scan_preflight input ?h (app_now E) v")
    case (Some reason)
    moreover from Some have "\<not> admissible E input v" by (simp flip: preflight_admissible)
    ultimately show ?thesis
      using \<open>scan_lookup s (sti_ticketId input) = Some v\<close>
      by (auto simp: scanTicket_def Let_def bindp_def rejected_response_def buildTicketAuditInput_def)
  next
    case None
    then have adm: "admissible E input v" by (simp add: preflight_admissible)
    then have use: "can_use (tkt_id (sv_ticket v)) ?h (sv_ticket v)" by (auto simp: admissible_def Let_def)
    with t assms have one: "length (filter (can_use (sti_ticketId input) ?h) (tickets s)) = 1"
      using usable_count [of "tickets s" "sv_ticket v" ?h] by (simp add: unique_tickets_def)
    have "mark_used (sti_ticketId input) ?h (app_now E) (tickets s) =
        upd_where (\<lambda>t. tkt_id t = sti_ticketId input)
          (\<lambda>t. t\<lparr>tkt_status := TicketStatus.USED, tkt_usedAt := Some (app_now E)\<rparr>) (tickets s)"
      unfolding mark_used_def
      by (rule upd_where_cong)
         (use use t assms distinct_key_unique [of tkt_id "tickets s" _ "sv_ticket v"] in
            \<open>auto simp: unique_tickets_def\<close>)
    with None adm one t Some show ?thesis
      by (simp add: scanTicket_def Let_def bindp_def scan_commit_eq accepted_audit_def)
  qed
qed

text \<open>
  C10: A scan is accepted exactly when the ticket exists and is admissible: its token matches, its
  organizer matches, the scanner owns the organizer, a given event is the ticket's, the ticket is
  ISSUED and not expired and the event is published and not over. An accepted scan marks that ticket
  USED at the scan time and a rejected one leaves every ticket alone; either way exactly one audit row
  with the decision is appended and the scan always answers.
\<close>

theorem scan_decision:
  assumes "unique_tickets s"
  shows "\<exists>r s' a. scanTicket E input s = (Inr r, s') \<and>
    (asr_accepted r \<longleftrightarrow> (\<exists>v. scan_lookup s (sti_ticketId input) = Some v \<and> admissible E input v)) \<and>
    tickets s' = (if asr_accepted r
      then upd_where (\<lambda>t. tkt_id t = sti_ticketId input)
             (\<lambda>t. t\<lparr>tkt_status := TicketStatus.USED, tkt_usedAt := Some (app_now E)\<rparr>) (tickets s)
      else tickets s) \<and>
    admission_scan_audits s' = admission_scan_audits s @ [a] \<and> asa_status a = asr_status r \<and>
    asa_rejectionReason a = asr_rejectionReason r \<and>
    (asr_accepted r \<longleftrightarrow> asr_status r = AdmissionScanStatus.ACCEPTED)"
  by (rule scan_decided [OF assms])

definition ex_ticket :: Ticket where
  "ex_ticket = \<lparr> tkt_id = ''t1'', tkt_ticketNumber = Some ''GV-1'', tkt_eventId = ''e'',
     tkt_organizerId = Some ''org'', tkt_ticketTypeId = None, tkt_ownerUserId = ''alice'',
     tkt_orderId = None, tkt_paymentIntentId = Some ''p1'', tkt_status = TicketStatus.ISSUED,
     tkt_admissionTokenHash = Some ''htok'', tkt_admissionTokenVersion = 1, tkt_ticketSerial = ''GV-1'',
     tkt_publicReference = ''GV-1'', tkt_issuedAt = 1, tkt_usedAt = None, tkt_voidedAt = None,
     tkt_expiresAt = Some 200000 \<rparr>"

definition ex_organizer :: Organizer where
  "ex_organizer = \<lparr> org_id = ''org'', org_ownerUserId = ''bob'', org_displayName = ''Org'', org_slug = ''org'',
     org_description = None, org_status = OrganizerStatus.APPROVED, org_contactEmail = None,
     org_contactPhone = None \<rparr>"

definition ex_gate_db :: db where
  "ex_gate_db = empty_db\<lparr> tickets := [ex_ticket], events := [ex_event], organizers := [ex_organizer] \<rparr>"

definition ex_scan :: ScanTicketInput where
  "ex_scan = \<lparr> sti_ticketId = ''t1'', sti_token = ''tok'', sti_eventId = Some ''e'',
     sti_scannedByUserId = ''bob'', sti_deviceId = None, sti_gateLabel = Some ''A'' \<rparr>"

lemmas ex_gate_defs = ex_ticket_def ex_organizer_def ex_gate_db_def ex_scan_def ex_event_def ex_env_def
  empty_db_def

theorem scan_decision_witness:
  "\<exists>r s'. scanTicket ex_env ex_scan ex_gate_db = (Inr r, s') \<and> asr_accepted r \<and>
     map tkt_status (tickets s') = [TicketStatus.USED]"
proof -
  have "unique_tickets ex_gate_db" by (simp add: unique_tickets_def ex_gate_defs)
  moreover have "\<exists>v. scan_lookup ex_gate_db (sti_ticketId ex_scan) = Some v \<and> admissible ex_env ex_scan v"
    by (simp add: scan_lookup_def admissible_def hashToken_def ex_gate_defs)
  ultimately show ?thesis
    using scan_decision [of ex_gate_db ex_env ex_scan] by (auto simp: ex_gate_db_def ex_scan_def ex_ticket_def)
qed

text \<open>
  C11: However many scans of one ticket race, each having passed its checks on its own snapshot, and
  whatever runs between them without making a spent ticket issuable again, at most one is accepted.
\<close>

theorem ticket_admitted_once:
  assumes "unique_tickets s" and "guarded_update.race (scan_attempt i) tickets_kept s n t"
  shows "n \<le> 1"
  using assms by (rule scan_race.at_most_one_win)

theorem ticket_admitted_once_witness:
  "guarded_update.race (scan_attempt ''t1'') tickets_kept ex_gate_db 1
     (snd (scan_attempt ''t1'' (ex_scan, ''htok'', 5000, \<lparr> sv_ticket = ex_ticket, sv_event = ex_event,
        sv_ownerUserId = ''bob'' \<rparr>) ex_gate_db)) \<and> (1 :: nat) \<le> 1"
proof -
  let ?a = "scan_attempt ''t1'' (ex_scan, ''htok'', 5000, \<lparr> sv_ticket = ex_ticket, sv_event = ex_event,
      sv_ownerUserId = ''bob'' \<rparr>)"
  have u: "unique_tickets ex_gate_db" by (simp add: unique_tickets_def ex_gate_defs)
  have "fst (?a ex_gate_db)" by code_simp
  then have "?a ex_gate_db = (True, snd (?a ex_gate_db))" by (simp add: prod_eq_iff)
  from scan_race.race.race_win [OF scan_race.race.race_start this]
  have "guarded_update.race (scan_attempt ''t1'') tickets_kept ex_gate_db 1 (snd (?a ex_gate_db))" by simp
  with ticket_admitted_once [OF u this] show ?thesis by simp
qed

section \<open>Versioned admission state\<close>

definition version_attempt :: "string \<Rightarrow> int \<Rightarrow> AdmissionStateUpdate \<Rightarrow> db \<Rightarrow> bool \<times> db" where
  "version_attempt i v u s =
     (case updateAdmissionStateWithVersion (u\<lparr>asu_ticketId := i, asu_expectedVersion := v\<rparr>) s of
        (Inl e, s') \<Rightarrow> (False, s') | (Inr b, s') \<Rightarrow> (b, s'))"

definition version_reached :: "string \<Rightarrow> int \<Rightarrow> db \<Rightarrow> bool" where
  "version_reached i v s \<longleftrightarrow> list_ex (\<lambda>r. tas_ticketId r = i \<and> v < tas_version r) (ticket_admission_state s)"

definition unique_states :: "db \<Rightarrow> bool" where
  "unique_states s \<longleftrightarrow> distinct (map tas_ticketId (ticket_admission_state s))"

text \<open>Steps of the rest of the program: rows stay and their versions only grow.\<close>

definition versions_grow :: "db \<Rightarrow> db \<Rightarrow> bool" where
  "versions_grow s s' \<longleftrightarrow> unique_states s' \<and>
     list_all (\<lambda>r. list_ex (\<lambda>r'. tas_ticketId r' = tas_ticketId r \<and> tas_version r \<le> tas_version r')
       (ticket_admission_state s')) (ticket_admission_state s)"

lemma version_attempt_eq:
  "version_attempt i v u s =
     (length (filter (\<lambda>r. tas_ticketId r = i \<and> tas_version r = v) (ticket_admission_state s)) = 1,
      ticket_admission_state_update (upd_where (\<lambda>r. tas_ticketId r = i \<and> tas_version r = v)
        (\<lambda>r. r\<lparr> tas_currentState := asu_currentState u, tas_admissionCycleNo := asu_admissionCycleNo u,
                 tas_lastEntryAt := asu_lastEntryAt u, tas_lastExitAt := asu_lastExitAt u,
                 tas_version := tas_version r + 1 \<rparr>)) s)"
  by (simp add: version_attempt_def updateAdmissionStateWithVersion_def bindp_def)

lemma version_attempt_grows:
  assumes "unique_states s" and "version_attempt i v u s = (b, s')"
  shows "versions_grow s s'"
proof -
  have "unique_states s'"
    using assms by (auto simp: version_attempt_eq unique_states_def map_key_upd_where)
  moreover have "\<exists>r'\<in>set (ticket_admission_state s'). tas_ticketId r' = tas_ticketId r \<and> tas_version r \<le> tas_version r'"
    if "r \<in> set (ticket_admission_state s)" for r
    using assms(2) by (auto simp: version_attempt_eq intro!: bexI [OF _ upd_where_mem [OF that]])
  ultimately show ?thesis by (simp add: versions_grow_def list_all_iff list_ex_iff)
qed

lemma versions_grow_reached: "versions_grow s s' \<Longrightarrow> version_reached i v s \<Longrightarrow> version_reached i v s'"
  by (fastforce simp: versions_grow_def version_reached_def list_all_iff list_ex_iff)

lemma version_win:
  assumes "unique_states s" and "version_attempt i v u s = (True, s')"
  shows "\<not> version_reached i v s" and "version_reached i v s'"
proof -
  have "filter (\<lambda>r. tas_ticketId r = i \<and> tas_version r = v) (ticket_admission_state s) \<noteq> []"
    using assms(2) by (auto simp: version_attempt_eq)
  then obtain r where r: "r \<in> set (ticket_admission_state s)" "tas_ticketId r = i" "tas_version r = v"
    by (auto simp: filter_empty_conv)
  have "r' = r" if "r' \<in> set (ticket_admission_state s)" "tas_ticketId r' = i" for r'
    using distinct_key_unique [OF assms(1) [unfolded unique_states_def] that(1) r(1)] that(2) r(2) by simp
  with r(3) show "\<not> version_reached i v s" by (force simp: version_reached_def list_ex_iff)
  show "version_reached i v s'"
    using assms(2) r(2,3)
    by (auto simp: version_attempt_eq version_reached_def list_ex_iff intro!: bexI [OF _ upd_where_mem [OF r(1)]])
qed

interpretation version_race: guarded_update "version_attempt i v" versions_grow unique_states
  "\<lambda>s. \<not> version_reached i v s" for i v
proof
  fix u s s' b
  show "unique_states s \<Longrightarrow> version_attempt i v u s = (b, s') \<Longrightarrow> unique_states s'"
    using version_attempt_grows by (auto simp: versions_grow_def)
  show "unique_states s \<Longrightarrow> versions_grow s s' \<Longrightarrow> unique_states s'"
    by (simp add: versions_grow_def)
  show "unique_states s \<Longrightarrow> version_attempt i v u s = (False, s') \<Longrightarrow> \<not> \<not> version_reached i v s \<Longrightarrow>
      \<not> \<not> version_reached i v s'"
    using version_attempt_grows versions_grow_reached by blast
  show "versions_grow s s' \<Longrightarrow> \<not> \<not> version_reached i v s \<Longrightarrow> \<not> \<not> version_reached i v s'"
    using versions_grow_reached by blast
qed (auto dest: version_win)

text \<open>
  Of all updates of one ticket's admission state that carry the same expected version at most one
  succeeds, whatever other updates run in between.
\<close>

theorem admission_state_update_once:
  assumes "unique_states s" and "guarded_update.race (version_attempt i v) versions_grow s n t"
  shows "n \<le> 1"
  using assms by (rule version_race.at_most_one_win)

definition ex_state_db :: db where
  "ex_state_db = empty_db\<lparr> ticket_admission_state := [\<lparr> tas_ticketId = ''t1'',
     tas_currentState = AdmissionState.NOT_USED, tas_admissionCycleNo = 0, tas_lastEntryAt = None,
     tas_lastExitAt = None, tas_version = 3 \<rparr>] \<rparr>"

definition ex_state_update :: AdmissionStateUpdate where
  "ex_state_update = \<lparr> asu_ticketId = ''t1'', asu_currentState = AdmissionState.INSIDE,
     asu_admissionCycleNo = 1, asu_lastEntryAt = Some 5, asu_lastExitAt = None, asu_expectedVersion = 3 \<rparr>"

theorem admission_state_update_once_witness:
  "guarded_update.race (version_attempt ''t1'' 3) versions_grow ex_state_db 1
     (snd (version_attempt ''t1'' 3 ex_state_update ex_state_db)) \<and> (1 :: nat) \<le> 1"
proof -
  let ?a = "version_attempt ''t1'' 3 ex_state_update"
  have u: "unique_states ex_state_db" by (simp add: unique_states_def ex_state_db_def)
  have "fst (?a ex_state_db)" by (simp add: version_attempt_eq ex_state_db_def)
  then have "?a ex_state_db = (True, snd (?a ex_state_db))" by (simp add: prod_eq_iff)
  from version_race.race.race_win [OF version_race.race.race_start this]
  have "guarded_update.race (version_attempt ''t1'' 3) versions_grow ex_state_db 1 (snd (?a ex_state_db))" by simp
  with admission_state_update_once [OF u this] show ?thesis by simp
qed

end
