(* ===== verification/Payments.thy ===== *)
theory Payments
  imports Orders
begin

text \<open>
  Payments of orders (\<^verbatim>\<open>src/modules/payments\<close>): the payment and ledger repositories and the use case
  that settles a payment from the provider's own verification. What a provider answers is a
  parameter: \<open>providers p ref\<close> is the outcome of \<open>verifyPayment\<close>.

  \<open>ledger_inv\<close> is the invariant of the books: a payment has one credit of its amount when it is
  SUCCESS and no entry otherwise. It holds in every state the use case can reach.
\<close>

section \<open>Repositories\<close>

definition payment_clash :: "Payment \<Rightarrow> Payment \<Rightarrow> bool" where
  "payment_clash x y \<longleftrightarrow> pay_id x = pay_id y \<or>
     (pay_providerRef x \<noteq> None \<and> pay_provider x = pay_provider y \<and> pay_providerRef x = pay_providerRef y)"

definition Payment_create :: "Payment \<Rightarrow> (db, unit) prog" where
  "Payment_create input = seqp (prisma_create payments payments_update payment_clash input) (ret ())"

definition findByProviderRef :: "string \<Rightarrow> string \<Rightarrow> (db, Payment option) prog" where
  "findByProviderRef provider providerRef =
     prisma_find payments (\<lambda>p. pay_provider p = provider \<and> pay_providerRef p = Some providerRef)"

text \<open>The newest payment of the order; rows are in the order they were inserted.\<close>

definition findByOrderId :: "string \<Rightarrow> (db, Payment option) prog" where
  "findByOrderId orderId = (\<lambda>s. ret (find (\<lambda>p. pay_orderId p = orderId) (rev (payments s))) s)"

definition Payment_updateStatus :: "string \<Rightarrow> PaymentStatus \<Rightarrow> (db, unit) prog" where
  "Payment_updateStatus paymentId status =
     seqp (prisma_update payments payments_update (\<lambda>p. pay_id p = paymentId)
             (\<lambda>p. p\<lparr>pay_status := status\<rparr>)) (ret ())"

definition Ledger_append :: "LedgerEntry \<Rightarrow> (db, unit) prog" where
  "Ledger_append input =
     seqp (prisma_create ledger_entries ledger_entries_update (\<lambda>x y. led_id x = led_id y) input) (ret ())"

section \<open>Settling a payment\<close>

text \<open>What \<open>verifyPayment\<close> of an adapter answers; the currency is \<open>None\<close> when the provider sent no text.\<close>

datatype provider_status = SUCCESS | FAILED | PENDING | REVERSED | REFUNDED

record ProviderVerification =
  pv_status :: provider_status
  pv_amountMinor :: int
  pv_currency :: "string option"

type_synonym provider_api = "string \<Rightarrow> app_error + ProviderVerification"

record VerifyPaymentInput =
  vpi_provider :: string
  vpi_providerRef :: string
  vpi_verifiedSuccess :: bool
  vpi_verifiedCurrency :: string

record VerifyPaymentResult =
  vpr_paymentId :: string
  vpr_orderId :: string
  vpr_paymentStatus :: PaymentStatus
  vpr_orderStatus :: OrderStatus

definition resolveProvider :: "provider_api \<Rightarrow> provider_api \<Rightarrow> string \<Rightarrow> provider_api" where
  "resolveProvider paystackProvider momoProvider provider =
     (if provider = ''paystack'' then paystackProvider else momoProvider)"

definition mapProviderStatus :: "provider_status \<Rightarrow> PaymentStatus" where
  "mapProviderStatus status =
     (case status of
        provider_status.SUCCESS \<Rightarrow> PaymentStatus.SUCCESS
      | provider_status.FAILED \<Rightarrow> PaymentStatus.FAILED
      | provider_status.REVERSED \<Rightarrow> PaymentStatus.REVERSED
      | provider_status.REFUNDED \<Rightarrow> PaymentStatus.REFUNDED
      | provider_status.PENDING \<Rightarrow> PaymentStatus.PENDING)"

definition mapOrderStatus :: "PaymentStatus \<Rightarrow> OrderStatus" where
  "mapOrderStatus status =
     (if status = PaymentStatus.SUCCESS then OrderStatus.PAID
      else if status = PaymentStatus.PENDING then OrderStatus.PAYMENT_PENDING
      else OrderStatus.FAILED)"

definition provider_status_text :: "provider_status \<Rightarrow> string" where
  "provider_status_text status =
     (case status of
        provider_status.SUCCESS \<Rightarrow> ''SUCCESS'' | provider_status.FAILED \<Rightarrow> ''FAILED''
      | provider_status.PENDING \<Rightarrow> ''PENDING'' | provider_status.REVERSED \<Rightarrow> ''REVERSED''
      | provider_status.REFUNDED \<Rightarrow> ''REFUNDED'')"

definition is_terminal_payment :: "PaymentStatus \<Rightarrow> bool" where
  "is_terminal_payment st \<longleftrightarrow>
     st = PaymentStatus.SUCCESS \<or> st = PaymentStatus.REFUNDED \<or> st = PaymentStatus.REVERSED"

definition VerifyPayment_tx ::
  "env \<Rightarrow> request_ctx option \<Rightarrow> VerifyPaymentInput \<Rightarrow> ProviderVerification \<Rightarrow> (db, VerifyPaymentResult) prog" where
  "VerifyPayment_tx E ctx input verification =
     bindp (findByProviderRef (vpi_provider input) (vpi_providerRef input)) (\<lambda>found.
       case found of
         None \<Rightarrow> throw (NotFoundError ''Payment not found.'')
       | Some payment \<Rightarrow>
           if is_terminal_payment (pay_status payment)
           then throw (PaymentAlreadyProcessedError ''Payment is already in terminal state.'')
           else bindp (Order_findById (pay_orderId payment)) (\<lambda>found'.
             case found' of
               None \<Rightarrow> throw (NotFoundError ''Order not found.'')
             | Some order \<Rightarrow>
                 if pv_amountMinor verification \<noteq> pay_amount payment \<or>
                    pv_currency verification \<noteq> Some (ord_currency order)
                 then throw (InvalidStateTransitionError
                        ''Provider verification does not match expected payment amount or currency.'')
                 else
                   let newPaymentStatus = mapProviderStatus (pv_status verification);
                       newOrderStatus = mapOrderStatus newPaymentStatus;
                       success = (newPaymentStatus = PaymentStatus.SUCCESS);
                       k = (if success then 1 else 0) in
                   seqp (Payment_updateStatus (pay_id payment) newPaymentStatus)
                  (seqp (Order_updateStatus (pay_orderId payment) newOrderStatus)
                  (seqp (if success
                         then Ledger_append
                                \<lparr> led_id = uuid E 0, led_orderId = Some (pay_orderId payment),
                                  led_paymentId = Some (pay_id payment),
                                  led_direction = LedgerDirection.CREDIT,
                                  led_accountType = ''CUSTOMER_CASH_IN'',
                                  led_amount = pv_amountMinor verification,
                                  led_currency = the (pv_currency verification),
                                  led_correlationId = map_option ctx_correlationId ctx \<rparr>
                         else ret ())
                  (seqp (AuditLogRepository_append
                           \<lparr> aud_id = uuid E k, aud_actorId = Option.bind ctx ctx_userId,
                             aud_action = ''PAYMENT_VERIFIED'', aud_entityType = ''payment'',
                             aud_entityId = pay_id payment,
                             aud_correlationId = map_option ctx_correlationId ctx,
                             aud_metadata = JObj [(''provider'', JStr (vpi_provider input)),
                               (''providerRef'', JStr (vpi_providerRef input)),
                               (''providerStatus'', JStr (provider_status_text (pv_status verification))),
                               (''orderId'', JStr (pay_orderId payment))] \<rparr>)
                  (seqp (OutboxRepository_append
                           (new_outbox_event E (uuid E (k + 1)) ''payment'' (pay_id payment)
                             (if success then ''PaymentVerifiedSuccess''
                              else if newPaymentStatus = PaymentStatus.PENDING
                              then ''PaymentVerificationPending'' else ''PaymentVerifiedFailure'')
                             (JObj [(''paymentId'', JStr (pay_id payment)),
                               (''orderId'', JStr (pay_orderId payment)),
                               (''provider'', JStr (vpi_provider input)),
                               (''providerStatus'', JStr (provider_status_text (pv_status verification)))])))
                   (ret \<lparr> vpr_paymentId = pay_id payment, vpr_orderId = pay_orderId payment,
                          vpr_paymentStatus = newPaymentStatus, vpr_orderStatus = newOrderStatus \<rparr>)))))))"

definition VerifyPayment_execute ::
  "env \<Rightarrow> provider_api \<Rightarrow> provider_api \<Rightarrow> request_ctx option \<Rightarrow> VerifyPaymentInput \<Rightarrow>
   (db, VerifyPaymentResult) prog" where
  "VerifyPayment_execute E paystackProvider momoProvider ctx input =
     (case resolveProvider paystackProvider momoProvider (vpi_provider input) (vpi_providerRef input) of
        Inl e \<Rightarrow> throw e
      | Inr verification \<Rightarrow>
          if pv_currency verification \<noteq> Some (vpi_verifiedCurrency input)
          then throw (InvalidStateTransitionError ''Webhook verification currency mismatch.'')
          else if vpi_verifiedSuccess input \<and> pv_status verification \<noteq> provider_status.SUCCESS
          then throw (InvalidStateTransitionError
                 ''Webhook success state does not match provider verification.'')
          else runInTransaction (VerifyPayment_tx E ctx input verification))"

section \<open>Runs\<close>

lemma findByProviderRef_apply [simp]:
  "findByProviderRef p r s =
     (Inr (find (\<lambda>x. pay_provider x = p \<and> pay_providerRef x = Some r) (payments s)), s)"
  by (simp add: findByProviderRef_def)

lemma Payment_updateStatus_Inr [prog_inv]:
  "Payment_updateStatus i st s = (Inr u, s') \<longleftrightarrow>
     (\<exists>x. find (\<lambda>r. pay_id r = i) (payments s) = Some x) \<and>
     s' = payments_update (upd_where (\<lambda>r. pay_id r = i) (\<lambda>r. r\<lparr>pay_status := st\<rparr>)) s"
  by (auto simp: Payment_updateStatus_def prog_inv)

lemma Ledger_append_Inr [prog_inv]:
  "Ledger_append row s = (Inr u, s') \<longleftrightarrow>
     \<not> list_ex (\<lambda>y. led_id row = led_id y) (ledger_entries s) \<and>
     s' = ledger_entries_update (\<lambda>rs. rs @ [row]) s"
  by (auto simp: Ledger_append_def prog_inv)

lemma Ledger_append_Inl [prog_inv]:
  "Ledger_append row s = (Inl e, s') \<longleftrightarrow>
     list_ex (\<lambda>y. led_id row = led_id y) (ledger_entries s) \<and>
     e = PrismaClientKnownRequestError ''P2002'' \<and> s' = s"
  by (auto simp: Ledger_append_def prog_inv)

interpretation ledger_log: append_log ledger_entries ledger_entries_update Ledger_append
  by unfold_locales (auto simp: prog_inv)

definition credit_entry :: "env \<Rightarrow> request_ctx option \<Rightarrow> Payment \<Rightarrow> string \<Rightarrow> LedgerEntry" where
  "credit_entry E ctx p currency =
     \<lparr> led_id = uuid E 0, led_orderId = Some (pay_orderId p), led_paymentId = Some (pay_id p),
       led_direction = LedgerDirection.CREDIT, led_accountType = ''CUSTOMER_CASH_IN'',
       led_amount = pay_amount p, led_currency = currency,
       led_correlationId = map_option ctx_correlationId ctx \<rparr>"

text \<open>Everything a settlement that returned did.\<close>

definition settled ::
  "env \<Rightarrow> request_ctx option \<Rightarrow> VerifyPaymentInput \<Rightarrow> Payment \<Rightarrow> Order \<Rightarrow> PaymentStatus \<Rightarrow> db \<Rightarrow> db \<Rightarrow> bool" where
  "settled E ctx input p order st s s' \<longleftrightarrow>
     find (\<lambda>x. pay_provider x = vpi_provider input \<and> pay_providerRef x = Some (vpi_providerRef input))
       (payments s) = Some p \<and>
     \<not> is_terminal_payment (pay_status p) \<and>
     find (\<lambda>x. ord_id x = pay_orderId p) (orders s) = Some order \<and>
     payments s' = upd_where (\<lambda>x. pay_id x = pay_id p) (\<lambda>x. x\<lparr>pay_status := st\<rparr>) (payments s) \<and>
     orders s' = upd_where (\<lambda>x. ord_id x = pay_orderId p) (\<lambda>x. x\<lparr>ord_status := mapOrderStatus st\<rparr>) (orders s) \<and>
     ledger_entries s' = ledger_entries s @
       (if st = PaymentStatus.SUCCESS then [credit_entry E ctx p (ord_currency order)] else []) \<and>
     map aud_action (audit_logs s') = map aud_action (audit_logs s) @ [''PAYMENT_VERIFIED''] \<and>
     length (outbox_events s') = length (outbox_events s) + 1 \<and>
     tickets s' = tickets s \<and> ticket_reservations s' = ticket_reservations s"

lemma VerifyPayment_tx_Inr:
  assumes "VerifyPayment_tx E ctx input v s = (Inr r, s')"
  shows "\<exists>p order. settled E ctx input p order (mapProviderStatus (pv_status v)) s s' \<and>
    pv_amountMinor v = pay_amount p \<and> pv_currency v = Some (ord_currency order) \<and>
    r = \<lparr> vpr_paymentId = pay_id p, vpr_orderId = pay_orderId p,
          vpr_paymentStatus = mapProviderStatus (pv_status v),
          vpr_orderStatus = mapOrderStatus (mapProviderStatus (pv_status v)) \<rparr>"
proof -
  from assms obtain p where p: "find (\<lambda>x. pay_provider x = vpi_provider input \<and>
      pay_providerRef x = Some (vpi_providerRef input)) (payments s) = Some p"
    and nt: "\<not> is_terminal_payment (pay_status p)"
    by (auto simp: VerifyPayment_tx_def prog_inv split: option.splits if_splits)
  from assms p nt obtain order where o: "find (\<lambda>x. ord_id x = pay_orderId p) (orders s) = Some order"
    and eq: "pv_amountMinor v = pay_amount p" "pv_currency v = Some (ord_currency order)"
    by (auto simp: VerifyPayment_tx_def prog_inv split: option.splits if_splits)
  show ?thesis
    using assms p nt o eq
    by (intro exI [of _ p] exI [of _ order])
       (auto simp: VerifyPayment_tx_def settled_def credit_entry_def prog_inv Let_def split: if_splits)
qed

lemma VerifyPayment_Inr:
  assumes "VerifyPayment_execute E ps mm ctx input s = (Inr r, s')"
  obtains v p order where
    "resolveProvider ps mm (vpi_provider input) (vpi_providerRef input) = Inr v"
    "settled E ctx input p order (mapProviderStatus (pv_status v)) s s'"
    "pv_amountMinor v = pay_amount p" "pv_currency v = Some (ord_currency order)"
    "pv_currency v = Some (vpi_verifiedCurrency input)"
    "vpi_verifiedSuccess input \<Longrightarrow> pv_status v = provider_status.SUCCESS"
    "r = \<lparr> vpr_paymentId = pay_id p, vpr_orderId = pay_orderId p,
          vpr_paymentStatus = mapProviderStatus (pv_status v),
          vpr_orderStatus = mapOrderStatus (mapProviderStatus (pv_status v)) \<rparr>"
  using assms
  by (auto simp: VerifyPayment_execute_def prog_inv split: sum.splits if_splits
      dest!: VerifyPayment_tx_Inr intro: that)

lemma VerifyPayment_Inl: "VerifyPayment_execute E ps mm ctx input s = (Inl e, s') \<Longrightarrow> s' = s"
  by (auto simp: VerifyPayment_execute_def prog_inv split: sum.splits if_splits)

section \<open>The books\<close>

definition entries_of :: "string \<Rightarrow> db \<Rightarrow> LedgerEntry list" where
  "entries_of i s = filter (\<lambda>l. led_paymentId l = Some i) (ledger_entries s)"

definition payment_booked :: "db \<Rightarrow> Payment \<Rightarrow> bool" where
  "payment_booked s p \<longleftrightarrow>
     (if pay_status p = PaymentStatus.SUCCESS
      then map (\<lambda>l. (led_direction l, led_amount l)) (entries_of (pay_id p) s) =
             [(LedgerDirection.CREDIT, pay_amount p)]
      else entries_of (pay_id p) s = [])"

definition ledger_inv :: "db \<Rightarrow> bool" where
  "ledger_inv s \<longleftrightarrow> distinct (map pay_id (payments s)) \<and>
     list_all (\<lambda>l. list_ex (\<lambda>p. led_paymentId l = Some (pay_id p)) (payments s)) (ledger_entries s) \<and>
     list_all (payment_booked s) (payments s)"

lemma payment_booked_cong:
  "ledger_entries s = ledger_entries t \<Longrightarrow> payment_booked s p = payment_booked t p"
  by (simp add: payment_booked_def entries_of_def)

lemma settled_keeps_ledger:
  assumes inv: "ledger_inv s" and st: "settled E ctx input p order st s s'"
  shows "ledger_inv s'"
proof -
  have p: "p \<in> set (payments s)" and nt: "pay_status p \<noteq> PaymentStatus.SUCCESS"
    using st find_Some_iff2 [of _ "payments s" p] by (auto simp: settled_def is_terminal_payment_def)
  have pays: "payments s' = upd_where (\<lambda>x. pay_id x = pay_id p) (\<lambda>x. x\<lparr>pay_status := st\<rparr>) (payments s)"
    and led: "ledger_entries s' = ledger_entries s @
       (if st = PaymentStatus.SUCCESS then [credit_entry E ctx p (ord_currency order)] else [])"
    using st by (auto simp: settled_def)
  have d: "distinct (map pay_id (payments s))" using inv by (simp add: ledger_inv_def)
  have ids: "map pay_id (payments s') = map pay_id (payments s)"
    unfolding pays by (rule map_key_upd_where) simp
  have none: "entries_of (pay_id p) s = []"
    using inv p nt by (auto simp: ledger_inv_def list_all_iff payment_booked_def)
  have entries: "entries_of i s' = entries_of i s @
      (if st = PaymentStatus.SUCCESS \<and> i = pay_id p then [credit_entry E ctx p (ord_currency order)] else [])" for i
    by (auto simp: entries_of_def led credit_entry_def)
  have "payment_booked s' y" if "y \<in> set (payments s')" for y
  proof -
    from that obtain x where x: "x \<in> set (payments s)"
      and y: "y = (if pay_id x = pay_id p then x\<lparr>pay_status := st\<rparr> else x)"
      by (auto simp: pays set_upd_where)
    show ?thesis
    proof (cases "pay_id x = pay_id p")
      case True
      with x p d have "x = p" by (blast intro: distinct_key_unique)
      with y none show ?thesis by (simp add: payment_booked_def entries credit_entry_def)
    next
      case False
      with inv x y show ?thesis by (auto simp: ledger_inv_def list_all_iff payment_booked_def entries)
    qed
  qed
  moreover have "list_ex (\<lambda>q. led_paymentId l = Some (pay_id q)) (payments s')" if "l \<in> set (ledger_entries s')" for l
  proof -
    have "list_ex (\<lambda>q. led_paymentId l = Some (pay_id q)) (payments s)"
      using that inv p by (auto simp: led ledger_inv_def list_all_iff list_ex_iff credit_entry_def split: if_splits)
    then have "\<exists>i \<in> set (map pay_id (payments s')). led_paymentId l = Some i"
      unfolding ids by (auto simp: list_ex_iff)
    then show ?thesis by (auto simp: list_ex_iff)
  qed
  ultimately show ?thesis using d by (simp add: ledger_inv_def list_all_iff ids)
qed

lemma create_keeps_ledger:
  assumes inv: "ledger_inv s" and run: "Payment_create p s = (Inr u, s')"
    and st: "pay_status p \<noteq> PaymentStatus.SUCCESS"
  shows "ledger_inv s'"
proof -
  from run have fresh: "pay_id p \<notin> pay_id ` set (payments s)" and s': "s' = payments_update (\<lambda>rs. rs @ [p]) s"
    by (auto simp: Payment_create_def prog_inv payment_clash_def list_ex_iff)
  have "entries_of (pay_id p) s = []"
    using inv fresh unfolding ledger_inv_def list_all_iff list_ex_iff entries_of_def filter_empty_conv
    by (metis image_eqI option.inject)
  with inv fresh st show ?thesis
    by (auto simp: ledger_inv_def s' list_all_iff list_ex_iff payment_booked_def entries_of_def)
qed

text \<open>
  The steps that reach the payment table and the ledger: a payment is created before it succeeded,
  a payment is verified, or anything else that leaves both alone.
\<close>

inductive payment_step :: "db \<Rightarrow> db \<Rightarrow> bool" where
  step_create: "Payment_create p s = (r, s') \<Longrightarrow> pay_status p \<noteq> PaymentStatus.SUCCESS \<Longrightarrow> payment_step s s'"
| step_verify: "VerifyPayment_execute E ps mm ctx input s = (r, s') \<Longrightarrow> payment_step s s'"
| step_other: "payments s' = payments s \<Longrightarrow> ledger_entries s' = ledger_entries s \<Longrightarrow> payment_step s s'"

inductive_cases payment_stepE: "payment_step s s'"

lemma payment_step_inv: "payment_step s s' \<Longrightarrow> ledger_inv s \<Longrightarrow> ledger_inv s'"
proof (erule payment_stepE)
  fix p r
  assume "ledger_inv s" "Payment_create p s = (r, s')" "pay_status p \<noteq> PaymentStatus.SUCCESS"
  then show "ledger_inv s'"
    by (cases r) (auto simp: Payment_create_def prog_inv intro: create_keeps_ledger)
next
  fix E ps mm ctx input r
  assume inv: "ledger_inv s" and run: "VerifyPayment_execute E ps mm ctx input s = (r, s')"
  show "ledger_inv s'"
  proof (cases r)
    case (Inl e)
    with run inv show ?thesis by (auto dest: VerifyPayment_Inl)
  next
    case (Inr x)
    from run [unfolded Inr] show ?thesis
      by (rule VerifyPayment_Inr) (rule settled_keeps_ledger [OF inv])
  qed
next
  assume "ledger_inv s" "payments s' = payments s" "ledger_entries s' = ledger_entries s"
  then show "ledger_inv s'" using payment_booked_cong [of s' s] by (simp add: ledger_inv_def list_all_iff)
qed

interpretation payment_system: transition_system "\<lambda>s. payments s = [] \<and> ledger_entries s = []" payment_step ledger_inv
proof
  show "payments s = [] \<and> ledger_entries s = [] \<Longrightarrow> ledger_inv s" for s
    by (simp add: ledger_inv_def)
  show "payment_step s t \<Longrightarrow> ledger_inv s \<Longrightarrow> ledger_inv t" for s t
    by (rule payment_step_inv)
qed

section \<open>Properties\<close>

definition ex_payment :: Payment where
  "ex_payment = \<lparr> pay_id = ''p1'', pay_orderId = ''o1'', pay_provider = ''paystack'',
     pay_providerRef = Some ''ref'', pay_status = PaymentStatus.PENDING, pay_amount = 2500 \<rparr>"

definition ex_unpaid_order :: "OrderStatus \<Rightarrow> Order" where
  "ex_unpaid_order st = \<lparr> ord_id = ''o1'', ord_userId = ''alice'', ord_eventId = ''e'',
     ord_reservationId = Some ''r1'', ord_status = st, ord_totalAmount = 2500, ord_currency = ''GHS'' \<rparr>"

definition ex_pay_db :: "OrderStatus \<Rightarrow> db" where
  "ex_pay_db st = empty_db\<lparr> orders := [ex_unpaid_order st], payments := [ex_payment] \<rparr>"

definition ex_provider :: "provider_status \<Rightarrow> provider_api" where
  "ex_provider st ref = Inr \<lparr> pv_status = st, pv_amountMinor = 2500, pv_currency = Some ''GHS'' \<rparr>"

definition ex_verify :: "provider_status \<Rightarrow> db \<Rightarrow> (app_error + VerifyPaymentResult) \<times> db" where
  "ex_verify st s = VerifyPayment_execute ex_env (ex_provider st) (ex_provider st) None
     \<lparr> vpi_provider = ''paystack'', vpi_providerRef = ''ref'', vpi_verifiedSuccess = False,
       vpi_verifiedCurrency = ''GHS'' \<rparr> s"

text \<open>
  C12: In every state reached from empty books, a payment that is SUCCESS has exactly one ledger
  entry, a credit of its amount, and a payment in any other status has none: no delivery order,
  repetition or failure of verifications credits a payment twice or without success.
\<close>

theorem ledger_single_credit:
  assumes "payments s0 = []" and "ledger_entries s0 = []" and "payment_step\<^sup>*\<^sup>* s0 s"
    and "p \<in> set (payments s)"
  shows "map (\<lambda>l. (led_direction l, led_amount l)) (filter (\<lambda>l. led_paymentId l = Some (pay_id p)) (ledger_entries s)) =
    (if pay_status p = PaymentStatus.SUCCESS then [(LedgerDirection.CREDIT, pay_amount p)] else [])"
proof -
  have "ledger_inv s" using payment_system.reachable_inv [OF _ assms(3)] assms(1,2) by simp
  with assms(4) show ?thesis
    by (auto simp: ledger_inv_def list_all_iff payment_booked_def entries_of_def split: if_splits)
qed

theorem ledger_single_credit_witness:
  "map (\<lambda>l. (led_direction l, led_amount l)) (filter (\<lambda>l. led_paymentId l = Some ''p1'')
     (ledger_entries (snd (ex_verify provider_status.SUCCESS (ex_pay_db OrderStatus.PAYMENT_PENDING))))) =
   [(LedgerDirection.CREDIT, 2500)]"
proof -
  let ?s0 = "empty_db\<lparr> orders := [ex_unpaid_order OrderStatus.PAYMENT_PENDING] \<rparr>"
  let ?s1 = "ex_pay_db OrderStatus.PAYMENT_PENDING"
  let ?x = "ex_verify provider_status.SUCCESS ?s1"
  have "Payment_create ex_payment ?s0 = (Inr (), ?s1)"
    by (simp add: Payment_create_def seqp_def bindp_def prisma_create_def ex_pay_db_def empty_db_def)
  then have 1: "payment_step ?s0 ?s1" by (rule step_create) (simp add: ex_payment_def)
  have "?x = (fst ?x, snd ?x)" by simp
  then have 2: "payment_step ?s1 (snd ?x)" unfolding ex_verify_def by (rule step_verify)
  have reach: "payment_step\<^sup>*\<^sup>* ?s0 (snd ?x)" using 1 2 by (blast intro: rtranclp.intros)
  have mem: "ex_payment\<lparr>pay_status := PaymentStatus.SUCCESS\<rparr> \<in> set (payments (snd ?x))" by code_simp
  show ?thesis
    using ledger_single_credit [OF _ _ reach mem] by (simp add: empty_db_def ex_payment_def)
qed

text \<open>
  A verification that returns settled a payment that was not terminal, against its provider
  reference, with the provider's own amount and currency equal to the payment's and the order's: the
  payment takes the provider's status, a success writes one credit, and the order takes the status
  that follows from the payment whatever status it had before. A verification that fails changes
  nothing.
\<close>

theorem verify_payment_effect:
  assumes "VerifyPayment_execute E ps mm ctx input s = (out, s')"
  shows "(\<exists>e. out = Inl e \<and> s' = s) \<or>
    (\<exists>v p order. resolveProvider ps mm (vpi_provider input) (vpi_providerRef input) = Inr v \<and>
       settled E ctx input p order (mapProviderStatus (pv_status v)) s s' \<and>
       pv_amountMinor v = pay_amount p \<and> pv_currency v = Some (ord_currency order) \<and>
       pv_currency v = Some (vpi_verifiedCurrency input) \<and>
       (\<not> vpi_verifiedSuccess input \<or> pv_status v = provider_status.SUCCESS))"
proof (cases out)
  case (Inl e)
  from VerifyPayment_Inl [OF assms [unfolded Inl]] Inl show ?thesis by simp
next
  case (Inr r)
  from assms [unfolded Inr] show ?thesis by (rule VerifyPayment_Inr) blast
qed

theorem verify_payment_effect_witness:
  "map ord_status (orders (snd (ex_verify provider_status.FAILED (ex_pay_db OrderStatus.FULFILLED)))) =
     [OrderStatus.FAILED]"
proof -
  let ?s = "ex_pay_db OrderStatus.FULFILLED"
  let ?x = "ex_verify provider_status.FAILED ?s"
  have "fst ?x = Inr \<lparr> vpr_paymentId = ''p1'', vpr_orderId = ''o1'', vpr_paymentStatus = PaymentStatus.FAILED,
      vpr_orderStatus = OrderStatus.FAILED \<rparr>" by code_simp
  then have run: "?x = (Inr \<lparr> vpr_paymentId = ''p1'', vpr_orderId = ''o1'', vpr_paymentStatus = PaymentStatus.FAILED,
      vpr_orderStatus = OrderStatus.FAILED \<rparr>, snd ?x)" by (simp add: prod_eq_iff)
  from verify_payment_effect [OF run [unfolded ex_verify_def]] show ?thesis
    by (auto simp: settled_def ex_verify_def resolveProvider_def ex_provider_def ex_pay_db_def ex_payment_def
        ex_unpaid_order_def mapProviderStatus_def mapOrderStatus_def)
qed

end
