(* ===== verification/Payment_Intents.thy ===== *)
theory Payment_Intents
  imports Schema Json_Text
begin

text \<open>
  Payment intents and provider webhook events
  (\<^verbatim>\<open>src/modules/payments/infrastructure/repositories\<close>): the queries of both tables and of the intent
  audit log, and what the status guards of the two terminal transitions are worth when deliveries
  race.
\<close>

section \<open>Payment intents\<close>

definition intent_key :: "PaymentIntent \<Rightarrow> string \<times> string \<times> string" where
  "intent_key p = (pi_buyerUserId p, pi_idempotencyUseCase p, pi_idempotencyKeyHash p)"

definition intent_clash :: "PaymentIntent \<Rightarrow> PaymentIntent \<Rightarrow> bool" where
  "intent_clash x y \<longleftrightarrow> pi_id x = pi_id y \<or> pi_providerReference x = pi_providerReference y \<or>
     intent_key x = intent_key y"

definition findByBuyerAndIdempotency ::
  "string \<Rightarrow> string \<Rightarrow> string \<Rightarrow> (db, PaymentIntent option) prog" where
  "findByBuyerAndIdempotency buyerUserId useCase keyHash =
     prisma_find payment_intents (\<lambda>p. intent_key p = (buyerUserId, useCase, keyHash))"

definition findOwnedByBuyer :: "string \<Rightarrow> string \<Rightarrow> (db, PaymentIntent option) prog" where
  "findOwnedByBuyer paymentIntentId buyerUserId =
     prisma_find payment_intents (\<lambda>p. pi_id p = paymentIntentId \<and> pi_buyerUserId p = buyerUserId)"

definition Intent_findById :: "string \<Rightarrow> (db, PaymentIntent option) prog" where
  "Intent_findById paymentIntentId = prisma_find payment_intents (\<lambda>p. pi_id p = paymentIntentId)"

definition findByProviderReference :: "string \<Rightarrow> (db, PaymentIntent option) prog" where
  "findByProviderReference providerReference =
     prisma_find payment_intents (\<lambda>p. pi_providerReference p = providerReference)"

definition Intent_create :: "PaymentIntent \<Rightarrow> (db, PaymentIntent) prog" where
  "Intent_create data = prisma_create payment_intents payment_intents_update intent_clash data"

definition Intent_update :: "string \<Rightarrow> (PaymentIntent \<Rightarrow> PaymentIntent) \<Rightarrow> (db, PaymentIntent) prog" where
  "Intent_update paymentIntentId f =
     prisma_update payment_intents payment_intents_update (\<lambda>p. pi_id p = paymentIntentId) f"

definition markRetryPending :: "string \<Rightarrow> (db, PaymentIntent) prog" where
  "markRetryPending paymentIntentId = Intent_update paymentIntentId (\<lambda>p. p
     \<lparr> pi_status := PaymentIntentStatus.INITIATION_PENDING, pi_providerCheckoutUrl := None,
       pi_providerAccessCode := None, pi_providerRawResponse := None, pi_failureCode := None,
       pi_failureMessage := None, pi_failedAt := None \<rparr>)"

definition markInitiated ::
  "string \<Rightarrow> string option \<Rightarrow> string option \<Rightarrow> json \<Rightarrow> int \<Rightarrow> PaymentIntentStatus option \<Rightarrow>
   (db, PaymentIntent) prog" where
  "markInitiated paymentIntentId checkoutUrl accessCode raw initiatedAt status =
     Intent_update paymentIntentId (\<lambda>p. p
     \<lparr> pi_status := (case status of None \<Rightarrow> PaymentIntentStatus.INITIATED | Some st \<Rightarrow> st),
       pi_providerCheckoutUrl := checkoutUrl, pi_providerAccessCode := accessCode,
       pi_providerRawResponse := Some raw, pi_initiatedAt := Some initiatedAt, pi_verifiedAt := None,
       pi_failureCode := None, pi_failureMessage := None, pi_failedAt := None,
       pi_providerVerifiedStatus := None, pi_providerVerifiedAmount := None,
       pi_providerVerifiedCurrency := None, pi_providerVerificationRaw := None \<rparr>)"

definition markFailed ::
  "string \<Rightarrow> string \<Rightarrow> string \<Rightarrow> json option \<Rightarrow> int \<Rightarrow> (db, PaymentIntent) prog" where
  "markFailed paymentIntentId failureCode failureMessage raw failedAt =
     Intent_update paymentIntentId (\<lambda>p. p
     \<lparr> pi_status := PaymentIntentStatus.INITIATION_FAILED, pi_providerRawResponse := raw,
       pi_failureCode := Some failureCode, pi_failureMessage := Some failureMessage,
       pi_failedAt := Some failedAt \<rparr>)"

definition can_transition :: "PaymentIntent \<Rightarrow> bool" where
  "can_transition p \<longleftrightarrow> pi_status p = PaymentIntentStatus.INITIATED \<or>
     pi_status p = PaymentIntentStatus.INITIATION_PENDING"

record VerifiedFacts =
  vf_status :: string
  vf_amount :: "int option"
  vf_currency :: "string option"
  vf_raw :: json

definition set_verified :: "int \<Rightarrow> VerifiedFacts \<Rightarrow> PaymentIntent \<Rightarrow> PaymentIntent" where
  "set_verified instant v p = p
     \<lparr> pi_status := PaymentIntentStatus.VERIFIED, pi_verifiedAt := Some instant, pi_failedAt := None,
       pi_failureCode := None, pi_failureMessage := None, pi_providerVerifiedStatus := Some (vf_status v),
       pi_providerVerifiedAmount := vf_amount v, pi_providerVerifiedCurrency := vf_currency v,
       pi_providerVerificationRaw := Some (vf_raw v) \<rparr>"

definition set_failed :: "int \<Rightarrow> string \<Rightarrow> string \<Rightarrow> VerifiedFacts \<Rightarrow> PaymentIntent \<Rightarrow> PaymentIntent" where
  "set_failed instant code message v p = p
     \<lparr> pi_status := PaymentIntentStatus.FAILED, pi_failedAt := Some instant, pi_failureCode := Some code,
       pi_failureMessage := Some message, pi_providerVerifiedStatus := Some (vf_status v),
       pi_providerVerifiedAmount := vf_amount v, pi_providerVerifiedCurrency := vf_currency v,
       pi_providerVerificationRaw := Some (vf_raw v) \<rparr>"

definition transitionToVerified :: "string \<Rightarrow> int \<Rightarrow> VerifiedFacts \<Rightarrow> (db, nat) prog" where
  "transitionToVerified paymentIntentId verifiedAt v =
     prisma_updateMany payment_intents payment_intents_update
       (\<lambda>p. pi_id p = paymentIntentId \<and> can_transition p) (set_verified verifiedAt v)"

definition transitionToFailed :: "string \<Rightarrow> int \<Rightarrow> string \<Rightarrow> string \<Rightarrow> VerifiedFacts \<Rightarrow> (db, nat) prog" where
  "transitionToFailed paymentIntentId failedAt code message v =
     prisma_updateMany payment_intents payment_intents_update
       (\<lambda>p. pi_id p = paymentIntentId \<and> can_transition p) (set_failed failedAt code message v)"

definition IntentAudit_append :: "PaymentIntent \<Rightarrow> string \<Rightarrow> json \<Rightarrow> (db, unit) prog" where
  "IntentAudit_append p eventType data =
     seqp (prisma_create payment_intent_audit_logs payment_intent_audit_logs_update (\<lambda>_ _. False)
             \<lparr> pal_paymentIntentId = pi_id p, pal_buyerUserId = pi_buyerUserId p,
               pal_eventType = eventType, pal_data = data \<rparr>) (ret ())"

section \<open>Webhook events\<close>

definition webhook_clash :: "ProviderWebhookEvent \<Rightarrow> ProviderWebhookEvent \<Rightarrow> bool" where
  "webhook_clash x y \<longleftrightarrow> pwe_id x = pwe_id y \<or>
     (pwe_provider x = pwe_provider y \<and>
      (pwe_providerEventId x = pwe_providerEventId y \<or> pwe_payloadHash x = pwe_payloadHash y))"

definition WebhookEvent_create :: "ProviderWebhookEvent \<Rightarrow> (db, ProviderWebhookEvent) prog" where
  "WebhookEvent_create data =
     prisma_create provider_webhook_events provider_webhook_events_update webhook_clash data"

definition findByProviderAndEventId ::
  "PaymentProvider \<Rightarrow> string \<Rightarrow> (db, ProviderWebhookEvent option) prog" where
  "findByProviderAndEventId provider providerEventId =
     prisma_find provider_webhook_events
       (\<lambda>w. pwe_provider w = provider \<and> pwe_providerEventId w = providerEventId)"

definition findByProviderAndPayloadHash ::
  "PaymentProvider \<Rightarrow> string \<Rightarrow> (db, ProviderWebhookEvent option) prog" where
  "findByProviderAndPayloadHash provider payloadHash =
     prisma_find provider_webhook_events
       (\<lambda>w. pwe_provider w = provider \<and> pwe_payloadHash w = payloadHash)"

text \<open>The columns an update may leave out are optional; \<open>None\<close> is \<open>undefined\<close>.\<close>

record ProcessingUpdate =
  pu_processingStatus :: WebhookProcessingStatus
  pu_paymentIntentId :: "string option option"
  pu_providerReference :: "string option option"
  pu_failure :: "(string \<times> string) option"
  pu_processedAt :: "int option"

definition keep_or :: "'a option \<Rightarrow> 'a \<Rightarrow> 'a" where
  "keep_or new old = (case new of None \<Rightarrow> old | Some x \<Rightarrow> x)"

definition processed_row :: "ProcessingUpdate \<Rightarrow> ProviderWebhookEvent \<Rightarrow> ProviderWebhookEvent" where
  "processed_row u w = w
     \<lparr> pwe_processingStatus := pu_processingStatus u,
       pwe_paymentIntentId := keep_or (pu_paymentIntentId u) (pwe_paymentIntentId w),
       pwe_providerReference := keep_or (pu_providerReference u) (pwe_providerReference w),
       pwe_failureCode := keep_or (map_option (Some \<circ> fst) (pu_failure u)) (pwe_failureCode w),
       pwe_failureMessage := keep_or (map_option (Some \<circ> snd) (pu_failure u)) (pwe_failureMessage w),
       pwe_processedAt := keep_or (map_option Some (pu_processedAt u)) (pwe_processedAt w) \<rparr>"

definition updateProcessing :: "string \<Rightarrow> ProcessingUpdate \<Rightarrow> (db, ProviderWebhookEvent) prog" where
  "updateProcessing webhookEventId u =
     prisma_update provider_webhook_events provider_webhook_events_update
       (\<lambda>w. pwe_id w = webhookEventId) (processed_row u)"

section \<open>Runs\<close>

lemma intent_finds_apply [simp]:
  "findByBuyerAndIdempotency b u k s = (Inr (find (\<lambda>p. intent_key p = (b, u, k)) (payment_intents s)), s)"
  "findOwnedByBuyer i b s = (Inr (find (\<lambda>p. pi_id p = i \<and> pi_buyerUserId p = b) (payment_intents s)), s)"
  "Intent_findById i s = (Inr (find (\<lambda>p. pi_id p = i) (payment_intents s)), s)"
  "findByProviderReference r s = (Inr (find (\<lambda>p. pi_providerReference p = r) (payment_intents s)), s)"
  by (simp_all add: findByBuyerAndIdempotency_def findOwnedByBuyer_def Intent_findById_def
      findByProviderReference_def)

lemma webhook_finds_apply [simp]:
  "findByProviderAndEventId p i s =
     (Inr (find (\<lambda>w. pwe_provider w = p \<and> pwe_providerEventId w = i) (provider_webhook_events s)), s)"
  "findByProviderAndPayloadHash p h s =
     (Inr (find (\<lambda>w. pwe_provider w = p \<and> pwe_payloadHash w = h) (provider_webhook_events s)), s)"
  by (simp_all add: findByProviderAndEventId_def findByProviderAndPayloadHash_def)

lemma IntentAudit_append_apply [simp]:
  "IntentAudit_append p e d s = (Inr (), payment_intent_audit_logs_update (\<lambda>rs. rs @
     [\<lparr> pal_paymentIntentId = pi_id p, pal_buyerUserId = pi_buyerUserId p, pal_eventType = e, pal_data = d \<rparr>]) s)"
  by (simp add: IntentAudit_append_def seqp_def bindp_def prisma_create_def list_ex_iff)

lemma transitions_apply [simp]:
  "transitionToVerified i instant v s =
     (Inr (length (filter (\<lambda>p. pi_id p = i \<and> can_transition p) (payment_intents s))),
      payment_intents_update (upd_where (\<lambda>p. pi_id p = i \<and> can_transition p) (set_verified instant v)) s)"
  "transitionToFailed i instant c m v s =
     (Inr (length (filter (\<lambda>p. pi_id p = i \<and> can_transition p) (payment_intents s))),
      payment_intents_update (upd_where (\<lambda>p. pi_id p = i \<and> can_transition p) (set_failed instant c m v)) s)"
  by (simp_all add: transitionToVerified_def transitionToFailed_def)

lemma processed_row_simps [simp]:
  "pwe_id (processed_row u w) = pwe_id w" "pwe_provider (processed_row u w) = pwe_provider w"
  "pwe_providerEventId (processed_row u w) = pwe_providerEventId w"
  "pwe_payloadHash (processed_row u w) = pwe_payloadHash w"
  "pwe_processingStatus (processed_row u w) = pu_processingStatus u"
  by (simp_all add: processed_row_def)

lemma set_terminal [simp]:
  "pi_id (set_verified instant v p) = pi_id p" "pi_id (set_failed instant c m v p) = pi_id p"
  "pi_status (set_verified instant v p) = PaymentIntentStatus.VERIFIED"
  "pi_status (set_failed instant c m v p) = PaymentIntentStatus.FAILED"
  "\<not> can_transition (set_verified instant v p)" "\<not> can_transition (set_failed instant c m v p)"
  by (simp_all add: set_verified_def set_failed_def can_transition_def)

section \<open>Racing terminal transitions\<close>

datatype terminal_attempt =
    ToVerified int VerifiedFacts
  | ToFailed int string string VerifiedFacts

definition terminal_attempt :: "string \<Rightarrow> terminal_attempt \<Rightarrow> db \<Rightarrow> bool \<times> db" where
  "terminal_attempt i a s =
     (case (case a of ToVerified instant v \<Rightarrow> transitionToVerified i instant v s
                    | ToFailed instant c m v \<Rightarrow> transitionToFailed i instant c m v s) of
        (Inl e, s') \<Rightarrow> (False, s') | (Inr n, s') \<Rightarrow> (n = 1, s'))"

definition unique_intents :: "db \<Rightarrow> bool" where
  "unique_intents s \<longleftrightarrow> distinct (map pi_id (payment_intents s))"

definition intent_open :: "string \<Rightarrow> db \<Rightarrow> bool" where
  "intent_open i s \<longleftrightarrow> \<not> list_ex (\<lambda>p. pi_id p = i \<and> \<not> can_transition p) (payment_intents s)"

text \<open>Steps that do not reopen an intent: every settled intent stays settled.\<close>

definition intents_stay :: "db \<Rightarrow> db \<Rightarrow> bool" where
  "intents_stay s s' \<longleftrightarrow> unique_intents s' \<and>
     list_all (\<lambda>p. can_transition p \<or>
       list_ex (\<lambda>p'. pi_id p' = pi_id p \<and> \<not> can_transition p') (payment_intents s')) (payment_intents s)"

lemma terminal_attempt_cases:
  assumes "terminal_attempt i a s = (w, s')"
  obtains f where "payment_intents s' = upd_where (\<lambda>p. pi_id p = i \<and> can_transition p) f (payment_intents s)"
    "\<And>p. pi_id (f p) = pi_id p" "\<And>p. \<not> can_transition (f p)"
    "w \<longleftrightarrow> length (filter (\<lambda>p. pi_id p = i \<and> can_transition p) (payment_intents s)) = 1"
proof (cases a)
  case (ToVerified instant v)
  with assms show thesis by (intro that [of "set_verified instant v"]) (auto simp: terminal_attempt_def)
next
  case (ToFailed instant c m v)
  with assms show thesis by (intro that [of "set_failed instant c m v"]) (auto simp: terminal_attempt_def)
qed

interpretation intent_race: guarded_update "terminal_attempt i" intents_stay unique_intents "intent_open i" for i
proof
  fix a :: terminal_attempt and s s' :: db and b
  show "unique_intents s'" if "unique_intents s" "terminal_attempt i a s = (b, s')"
    using that(2)
  proof (rule terminal_attempt_cases)
    fix f
    assume "payment_intents s' = upd_where (\<lambda>p. pi_id p = i \<and> can_transition p) f (payment_intents s)"
      "\<And>p. pi_id (f p) = pi_id p"
    then show ?thesis using that(1) by (simp add: unique_intents_def map_key_upd_where)
  qed
  show "unique_intents s \<Longrightarrow> intents_stay s s' \<Longrightarrow> unique_intents s'"
    by (simp add: intents_stay_def)
  show "intent_open i s" and "\<not> intent_open i s'"
    if u: "unique_intents s" and r: "terminal_attempt i a s = (True, s')"
  proof -
    from r obtain f where ps: "payment_intents s' = upd_where (\<lambda>p. pi_id p = i \<and> can_transition p) f (payment_intents s)"
      and f: "\<And>p. pi_id (f p) = pi_id p" "\<And>p. \<not> can_transition (f p)"
      and one: "length (filter (\<lambda>p. pi_id p = i \<and> can_transition p) (payment_intents s)) = 1"
      by (rule terminal_attempt_cases) auto
    from one have "filter (\<lambda>p. pi_id p = i \<and> can_transition p) (payment_intents s) \<noteq> []" by auto
    then obtain p where p: "p \<in> set (payment_intents s)" "pi_id p = i" "can_transition p"
      by (auto simp: filter_empty_conv)
    have "q = p" if "q \<in> set (payment_intents s)" "pi_id q = i" for q
      using distinct_key_unique [OF u [unfolded unique_intents_def] that(1) p(1)] that(2) p(2) by simp
    with p(3) show "intent_open i s" by (auto simp: intent_open_def list_ex_iff)
    have "f p \<in> set (payment_intents s')"
      using upd_where_mem [OF p(1), of "\<lambda>p. pi_id p = i \<and> can_transition p" f] p(2,3) by (simp add: ps)
    with f p(2) show "\<not> intent_open i s'" by (auto simp: intent_open_def list_ex_iff)
  qed
  show "\<not> intent_open i s'" if r: "terminal_attempt i a s = (False, s')" and n: "\<not> intent_open i s"
  proof -
    from n obtain p where p: "p \<in> set (payment_intents s)" "pi_id p = i" "\<not> can_transition p"
      by (auto simp: intent_open_def list_ex_iff)
    from r obtain f where ps: "payment_intents s' = upd_where (\<lambda>p. pi_id p = i \<and> can_transition p) f (payment_intents s)"
      by (rule terminal_attempt_cases) auto
    have "p \<in> set (payment_intents s')"
      using upd_where_mem [OF p(1), of "\<lambda>p. pi_id p = i \<and> can_transition p" f] p(3) by (simp add: ps)
    with p show ?thesis by (auto simp: intent_open_def list_ex_iff)
  qed
  show "\<not> intent_open i s'" if st: "intents_stay s s'" and n: "\<not> intent_open i s"
  proof -
    from n obtain p where p: "p \<in> set (payment_intents s)" "pi_id p = i" "\<not> can_transition p"
      by (auto simp: intent_open_def list_ex_iff)
    with st show ?thesis by (fastforce simp: intents_stay_def intent_open_def list_ex_iff list_all_iff)
  qed
qed

text \<open>
  C13: Several deliveries may race to settle one payment intent. Whatever the order of
  \<open>transitionToVerified\<close> and \<open>transitionToFailed\<close> calls for it, and whatever other steps run between
  them that leave settled intents settled, at most one call reports that it changed the row.
\<close>

theorem intent_settles_once:
  assumes "unique_intents s" and "intent_race.race i s n t"
  shows "n \<le> 1"
  using assms by (rule intent_race.at_most_one_win)

definition ex_intent :: PaymentIntent where
  "ex_intent =
     \<lparr> pi_id = ''pi1'', pi_buyerUserId = ''u1'', pi_organizerId = ''org1'', pi_eventId = ''e1'',
       pi_provider = PAYSTACK, pi_status = PaymentIntentStatus.INITIATED, pi_amountMinor = 5000,
       pi_currency = ''GHS'', pi_idempotencyUseCase = ''payment_initiate'',
       pi_idempotencyKeyHash = ''h'', pi_requestFingerprintHash = ''f'',
       pi_providerReference = ''pi_ref'', pi_providerCheckoutUrl = Some ''url'',
       pi_providerAccessCode = Some ''code'', pi_providerRawResponse = Some (JObj []),
       pi_failureCode = None, pi_failureMessage = None, pi_initiatedAt = Some 90,
       pi_verifiedAt = None, pi_failedAt = None, pi_providerVerifiedStatus = None,
       pi_providerVerifiedAmount = None, pi_providerVerifiedCurrency = None,
       pi_providerVerificationRaw = None \<rparr>"

definition ex_intent_db :: db where
  "ex_intent_db = empty_db \<lparr> payment_intents := [ex_intent] \<rparr>"

definition ex_facts :: VerifiedFacts where
  "ex_facts = \<lparr> vf_status = ''success'', vf_amount = Some 5000, vf_currency = Some ''GHS'', vf_raw = JObj [] \<rparr>"

lemma intent_settles_once_witness:
  "(1::nat) \<le> 1 \<and> (\<exists>t. intent_race.race ''pi1'' ex_intent_db 1 t)"
proof -
  let ?a = "ToVerified 100 ex_facts" and ?b = "ToFailed 101 ''c'' ''m'' ex_facts"
  let ?t = "snd (terminal_attempt ''pi1'' ?a ex_intent_db)"
  let ?u = "snd (terminal_attempt ''pi1'' ?b ?t)"
  have w: "terminal_attempt ''pi1'' ?a ex_intent_db = (True, ?t)"
    by (simp add: terminal_attempt_def ex_intent_db_def ex_intent_def can_transition_def)
  have l: "terminal_attempt ''pi1'' ?b ?t = (False, ?u)"
    by (simp add: terminal_attempt_def ex_intent_db_def ex_intent_def can_transition_def set_verified_def)
  have "intent_race.race ''pi1'' ex_intent_db (Suc 0) ?u"
    by (rule intent_race.race_lose [OF intent_race.race_win [OF intent_race.race_start w] l])
  then have r: "intent_race.race ''pi1'' ex_intent_db 1 ?u" by simp
  have "unique_intents ex_intent_db" by (simp add: unique_intents_def ex_intent_db_def)
  from intent_settles_once [OF this r] r show ?thesis by blast
qed

end
