(* ===== verification/Payment_Webhooks.thy ===== *)
theory Payment_Webhooks
  imports Payment_Intents Json_Text
begin

text \<open>
  Provider webhooks (\<^verbatim>\<open>src/modules/payments/application/payment-verification.service.ts\<close> and
  \<^verbatim>\<open>webhooks/webhook-signature.service.ts\<close>): the signature check, the envelope each provider
  sends, the event row that makes a delivery idempotent, the provider's own verification and the
  guarded transition of the payment intent.

  Parameters: HMAC-SHA512 (\<open>hmac secret body\<close>, in hexadecimal) and what the verification adapter
  of a provider answers for a reference (\<open>verify p ref\<close>). A handler runs outside a transaction
  except where the code opens one. An event identifier that is a number is a whole one.
\<close>

section \<open>Signatures and headers\<close>

datatype header_value = One string | Many "string list" | Undefined

type_synonym WebhookHeaders = "(string \<times> header_value) list"

definition computePayloadHash :: "env \<Rightarrow> string \<Rightarrow> string" where
  "computePayloadHash E rawBody = sha256 E rawBody"

definition getHeaderValue :: "WebhookHeaders \<Rightarrow> string \<Rightarrow> string option" where
  "getHeaderValue headers key =
     (case map_of headers key of
        Some (One h) \<Rightarrow> Some h
      | Some (Many (h # _)) \<Rightarrow> Some h
      | _ \<Rightarrow> None)"

fun header_entry :: "string \<times> header_value \<Rightarrow> (string \<times> json) list" where
  "header_entry (key, One v) = [(key, JStr v)]"
| "header_entry (key, Many vs) = [(key, JArr (map JStr vs))]"
| "header_entry (key, Undefined) = []"

definition toJsonHeaders :: "WebhookHeaders \<Rightarrow> json" where
  "toJsonHeaders headers = JObj (concat (map header_entry headers))"

text \<open>\<open>None\<close> is a valid signature, \<open>Some m\<close> an invalid one with its failure message.\<close>

definition validatePaystackSignature ::
  "(string \<Rightarrow> string \<Rightarrow> string) \<Rightarrow> string \<Rightarrow> WebhookHeaders \<Rightarrow> string \<Rightarrow> string option" where
  "validatePaystackSignature hmac rawBody headers secretKey =
     (let signature = getHeaderValue headers ''x-paystack-signature'' in
      case signature of
        None \<Rightarrow> Some ''Missing Paystack webhook signature.''
      | Some actual \<Rightarrow>
          (let expected = hmac secretKey rawBody in
           if actual = [] then Some ''Missing Paystack webhook signature.''
           else if length expected \<noteq> length actual then Some ''Invalid Paystack webhook signature.''
           else if expected \<noteq> actual then Some ''Invalid Paystack webhook signature.''
           else None))"

section \<open>Envelopes\<close>

record ParsedWebhookEnvelope =
  env_provider :: PaymentProvider
  env_payloadHash :: string
  env_rawPayload :: string
  env_rawHeaders :: json
  env_providerEventId :: string
  env_providerReference :: "string option"
  env_eventType :: "string option"
  env_signatureValid :: "bool option"
  env_verifiedPayload :: json
  env_supported :: bool

definition json_prop :: "string \<Rightarrow> json \<Rightarrow> json" where
  "json_prop k j = (case j of JObj fs \<Rightarrow> (case map_of fs k of None \<Rightarrow> JUndefined | Some v \<Rightarrow> v) | _ \<Rightarrow> JUndefined)"

definition json_string :: "json \<Rightarrow> string option" where
  "json_string j = (case j of JStr x \<Rightarrow> Some x | _ \<Rightarrow> None)"

definition json_falsy :: "json \<Rightarrow> bool" where
  "json_falsy j \<longleftrightarrow> j = JNull \<or> j = JUndefined \<or> j = JBool False \<or> j = JNum 0 \<or> j = JStr []"

definition assertRecord :: "json \<Rightarrow> app_error + json" where
  "assertRecord j = (case j of JObj fs \<Rightarrow> Inr j | _ \<Rightarrow> Inl (BadRequestException ''Webhook payload must be a JSON object.''))"

definition assertOptionalRecord :: "json \<Rightarrow> app_error + json option" where
  "assertOptionalRecord j =
     (if json_falsy j then Inr None
      else case j of JObj fs \<Rightarrow> Inr (Some j)
         | _ \<Rightarrow> Inl (BadRequestException ''Webhook payload data must be a JSON object.''))"

definition parsePaystackEnvelope :: "json \<Rightarrow> string \<Rightarrow> string \<Rightarrow> json \<Rightarrow> app_error + ParsedWebhookEnvelope" where
  "parsePaystackEnvelope parsedBody payloadHash rawPayload rawHeaders =
     (case assertRecord parsedBody of
        Inl e \<Rightarrow> Inl e
      | Inr body \<Rightarrow>
          (case assertOptionalRecord (json_prop ''data'' body) of
             Inl e \<Rightarrow> Inl e
           | Inr data \<Rightarrow>
               (let providerEventId =
                      (case data of
                         Some d \<Rightarrow> (case json_prop ''id'' d of JStr x \<Rightarrow> x | JNum n \<Rightarrow> int_to_string n
                                                        | _ \<Rightarrow> ''payload:'' @ payloadHash)
                       | None \<Rightarrow> ''payload:'' @ payloadHash);
                    providerReference =
                      (case data of Some d \<Rightarrow> json_string (json_prop ''reference'' d) | None \<Rightarrow> None);
                    eventType = json_string (json_prop ''event'' body)
                in Inr \<lparr> env_provider = PAYSTACK, env_payloadHash = payloadHash,
                         env_rawPayload = rawPayload, env_rawHeaders = rawHeaders,
                         env_providerEventId = providerEventId,
                         env_providerReference = providerReference, env_eventType = eventType,
                         env_signatureValid = Some True, env_verifiedPayload = body,
                         env_supported = (eventType = Some ''charge.success'' \<or>
                                          eventType = Some ''charge.failed'') \<rparr>)))"

definition parseMomoEnvelope :: "json \<Rightarrow> string \<Rightarrow> string \<Rightarrow> json \<Rightarrow> app_error + ParsedWebhookEnvelope" where
  "parseMomoEnvelope parsedBody payloadHash rawPayload rawHeaders =
     (case assertRecord parsedBody of
        Inl e \<Rightarrow> Inl e
      | Inr body \<Rightarrow>
          Inr \<lparr> env_provider = MTN_MOMO, env_payloadHash = payloadHash,
                env_rawPayload = rawPayload, env_rawHeaders = rawHeaders,
                env_providerEventId = ''payload:'' @ payloadHash,
                env_providerReference = json_string (json_prop ''referenceId'' body),
                env_eventType = json_string (json_prop ''status'' body),
                env_signatureValid = None, env_verifiedPayload = body, env_supported = True \<rparr>)"

section \<open>What the provider answers\<close>

datatype ProviderVerificationStatus = SUCCESS | FAILED | PENDING | UNKNOWN

record ProviderVerificationResult =
  pvr_provider :: PaymentProvider
  pvr_providerReference :: string
  pvr_status :: ProviderVerificationStatus
  pvr_amountMinor :: "rat option"
  pvr_currency :: "string option"
  pvr_providerStatus :: string
  pvr_paidAt :: "int option"
  pvr_rawResponse :: json

type_synonym verifier = "PaymentProvider \<Rightarrow> string \<Rightarrow> app_error + ProviderVerificationResult"

definition mapPaystackStatus :: "string option \<Rightarrow> ProviderVerificationStatus" where
  "mapPaystackStatus status =
     (if status = Some ''success'' then SUCCESS
      else if status \<in> {Some ''failed'', Some ''abandoned'', Some ''reversed'', Some ''refunded''} then FAILED
      else if status \<in> {Some ''pending'', Some ''ongoing''} then PENDING
      else UNKNOWN)"

definition mapMomoStatus :: "string option \<Rightarrow> ProviderVerificationStatus" where
  "mapMomoStatus status =
     (if status = Some ''SUCCESSFUL'' then SUCCESS
      else if status \<in> {Some ''FAILED'', Some ''EXPIRED'', Some ''REJECTED'', Some ''TIMEOUT''} then FAILED
      else if status = Some ''PENDING'' then PENDING
      else UNKNOWN)"

definition resolveVerificationFailureCode :: "app_error \<Rightarrow> string" where
  "resolveVerificationFailureCode error =
     (case error of
        ProviderTimeoutError p m \<Rightarrow> ''PROVIDER_VERIFICATION_TIMEOUT''
      | ProviderResponseError p code n m d \<Rightarrow> code
      | ProviderAuthError p m \<Rightarrow> ''PROVIDER_VERIFICATION_AUTH_ERROR''
      | ProviderNetworkError p m \<Rightarrow> ''PROVIDER_VERIFICATION_NETWORK_ERROR''
      | _ \<Rightarrow> ''PROVIDER_VERIFICATION_FAILED'')"

section \<open>The event row\<close>

record PaymentWebhookResult =
  pwr_acknowledged :: bool
  pwr_paymentIntentId :: "string option"
  pwr_processingStatus :: WebhookProcessingStatus

definition toResult :: "string option \<Rightarrow> WebhookProcessingStatus \<Rightarrow> PaymentWebhookResult" where
  "toResult paymentIntentId processingStatus =
     \<lparr> pwr_acknowledged = True, pwr_paymentIntentId = paymentIntentId,
       pwr_processingStatus = processingStatus \<rparr>"

definition isDuplicateError :: "app_error \<Rightarrow> bool" where
  "isDuplicateError error \<longleftrightarrow> error = PrismaClientKnownRequestError ''P2002''"

definition rejected_event :: "env \<Rightarrow> PaymentProvider \<Rightarrow> string \<Rightarrow> string \<Rightarrow> json \<Rightarrow> string \<Rightarrow> ProviderWebhookEvent" where
  "rejected_event E provider payloadHash rawPayload rawHeaders failureMessage =
     \<lparr> pwe_id = uuid E 0, pwe_provider = provider, pwe_providerEventId = ''payload:'' @ payloadHash,
       pwe_providerReference = None, pwe_payloadHash = payloadHash, pwe_signatureValid = Some False,
       pwe_processingStatus = WebhookProcessingStatus.REJECTED,
       pwe_failureCode = Some ''INVALID_SIGNATURE'', pwe_failureMessage = Some failureMessage,
       pwe_rawHeaders = rawHeaders, pwe_rawPayload = rawPayload, pwe_verifiedPayload = None,
       pwe_paymentIntentId = None, pwe_processedAt = Some (app_now E) \<rparr>"

definition persistRejectedSignatureEvent ::
  "env \<Rightarrow> PaymentProvider \<Rightarrow> string \<Rightarrow> string \<Rightarrow> json \<Rightarrow> string \<Rightarrow> (db, unit) prog" where
  "persistRejectedSignatureEvent E provider payloadHash rawPayload rawHeaders failureMessage =
     catchp (seqp (WebhookEvent_create
               (rejected_event E provider payloadHash rawPayload rawHeaders failureMessage)) (ret ()))
       (\<lambda>error. if \<not> isDuplicateError error then throw error else ret ())"

definition received_event :: "env \<Rightarrow> ParsedWebhookEnvelope \<Rightarrow> PaymentIntent option \<Rightarrow> ProviderWebhookEvent" where
  "received_event E envelope paymentIntent =
     \<lparr> pwe_id = uuid E 0, pwe_provider = env_provider envelope,
       pwe_providerEventId = env_providerEventId envelope,
       pwe_providerReference = env_providerReference envelope,
       pwe_payloadHash = env_payloadHash envelope,
       pwe_signatureValid = env_signatureValid envelope,
       pwe_processingStatus = WebhookProcessingStatus.RECEIVED,
       pwe_failureCode = None, pwe_failureMessage = None, pwe_rawHeaders = env_rawHeaders envelope,
       pwe_rawPayload = env_rawPayload envelope,
       pwe_verifiedPayload = Some (env_verifiedPayload envelope),
       pwe_paymentIntentId = map_option pi_id paymentIntent, pwe_processedAt = None \<rparr>"

text \<open>The flag of the result is \<open>created\<close>.\<close>

definition createWebhookEvent ::
  "env \<Rightarrow> ParsedWebhookEnvelope \<Rightarrow> PaymentIntent option \<Rightarrow> (db, bool \<times> ProviderWebhookEvent) prog" where
  "createWebhookEvent E envelope paymentIntent =
     catchp
       (bindp (WebhookEvent_create (received_event E envelope paymentIntent)) (\<lambda>event. ret (True, event)))
       (\<lambda>error.
          if \<not> isDuplicateError error then throw error
          else
            bindp (findByProviderAndPayloadHash (env_provider envelope) (env_payloadHash envelope))
              (\<lambda>byHash. bindp
                 (case byHash of
                    Some w \<Rightarrow> ret (Some w)
                  | None \<Rightarrow> findByProviderAndEventId (env_provider envelope) (env_providerEventId envelope))
                 (\<lambda>existing. case existing of None \<Rightarrow> throw error | Some w \<Rightarrow> ret (False, w))))"

definition provider_text :: "PaymentProvider \<Rightarrow> string" where
  "provider_text p = (case p of PAYSTACK \<Rightarrow> ''PAYSTACK'' | MTN_MOMO \<Rightarrow> ''MTN_MOMO'')"

definition intent_status_text :: "PaymentIntentStatus \<Rightarrow> string" where
  "intent_status_text st =
     (case st of
        PaymentIntentStatus.INITIATION_PENDING \<Rightarrow> ''INITIATION_PENDING''
      | PaymentIntentStatus.INITIATED \<Rightarrow> ''INITIATED''
      | PaymentIntentStatus.INITIATION_FAILED \<Rightarrow> ''INITIATION_FAILED''
      | PaymentIntentStatus.VERIFIED \<Rightarrow> ''VERIFIED''
      | PaymentIntentStatus.FAILED \<Rightarrow> ''FAILED'')"

definition processing_update ::
  "WebhookProcessingStatus \<Rightarrow> ProviderWebhookEvent \<Rightarrow> PaymentIntent option \<Rightarrow> (string \<times> string) option \<Rightarrow> int \<Rightarrow>
   ProcessingUpdate" where
  "processing_update status webhookEvent paymentIntent failure instant =
     \<lparr> pu_processingStatus = status, pu_paymentIntentId = Some (map_option pi_id paymentIntent),
       pu_providerReference =
         Some (case paymentIntent of Some p \<Rightarrow> Some (pi_providerReference p)
                                   | None \<Rightarrow> pwe_providerReference webhookEvent),
       pu_failure = failure, pu_processedAt = Some instant \<rparr>"

definition audit_if :: "PaymentIntent option \<Rightarrow> (string \<times> json) option \<Rightarrow> (db, unit) prog" where
  "audit_if paymentIntent audit =
     (case (paymentIntent, audit) of
        (Some p, Some (eventType, data)) \<Rightarrow> IntentAudit_append p eventType data
      | _ \<Rightarrow> ret ())"

definition rejectWebhook ::
  "env \<Rightarrow> ProviderWebhookEvent \<Rightarrow> PaymentIntent option \<Rightarrow> string \<Rightarrow> string \<Rightarrow> (string \<times> json) option \<Rightarrow>
   (db, unit) prog" where
  "rejectWebhook E webhookEvent paymentIntent failureCode failureMessage audit =
     runInTransaction
       (seqp (updateProcessing (pwe_id webhookEvent)
                (processing_update WebhookProcessingStatus.REJECTED webhookEvent paymentIntent
                   (Some (failureCode, failureMessage)) (app_now E)))
             (audit_if paymentIntent audit))"

definition markWebhookProcessed ::
  "env \<Rightarrow> ProviderWebhookEvent \<Rightarrow> PaymentIntent option \<Rightarrow> (string \<times> json) option \<Rightarrow> (db, unit) prog" where
  "markWebhookProcessed E webhookEvent paymentIntent audit =
     runInTransaction
       (seqp (updateProcessing (pwe_id webhookEvent)
                (processing_update WebhookProcessingStatus.PROCESSED webhookEvent paymentIntent None (app_now E)))
             (audit_if paymentIntent audit))"

definition handleDuplicateDelivery ::
  "ProviderWebhookEvent \<Rightarrow> PaymentIntent option \<Rightarrow> ParsedWebhookEnvelope \<Rightarrow> (db, PaymentWebhookResult) prog" where
  "handleDuplicateDelivery webhookEvent paymentIntent envelope =
     bindp (case paymentIntent of
              Some p \<Rightarrow> ret (Some p)
            | None \<Rightarrow>
                (case pwe_paymentIntentId webhookEvent of
                   None \<Rightarrow> ret None
                 | Some i \<Rightarrow> (if i = [] then ret None else Intent_findById i)))
       (\<lambda>duplicateIntent.
          seqp (audit_if duplicateIntent (Some (''payment_webhook_duplicate'',
                  JObj [(''provider'', JStr (provider_text (env_provider envelope))),
                        (''providerEventId'', JStr (env_providerEventId envelope)),
                        (''payloadHash'', JStr (env_payloadHash envelope))])))
               (ret (toResult (map_option pi_id duplicateIntent) WebhookProcessingStatus.DUPLICATE)))"

section \<open>The provider's verdict\<close>

definition handleVerificationError ::
  "env \<Rightarrow> ProviderWebhookEvent \<Rightarrow> PaymentIntent \<Rightarrow> app_error \<Rightarrow> (db, PaymentWebhookResult) prog" where
  "handleVerificationError E webhookEvent paymentIntent error =
     (let failureCode = resolveVerificationFailureCode error;
          failureMessage = error_message error
      in seqp (runInTransaction
                (seqp (updateProcessing (pwe_id webhookEvent)
                         (processing_update WebhookProcessingStatus.FAILED webhookEvent (Some paymentIntent)
                            (Some (failureCode, failureMessage)) (app_now E)))
                      (IntentAudit_append paymentIntent ''payment_verification_failed''
                         (JObj [(''provider'', JStr (provider_text (pi_provider paymentIntent))),
                                (''providerReference'', JStr (pi_providerReference paymentIntent)),
                                (''failureCode'', JStr failureCode),
                                (''failureMessage'', JStr failureMessage)]))))
              (ret (toResult (Some (pi_id paymentIntent)) WebhookProcessingStatus.FAILED)))"

text \<open>
  The columns hold whole numbers. The facts are written only once the amount was found equal to the
  one of the intent, which is whole.
\<close>

definition facts_of :: "ProviderVerificationResult \<Rightarrow> VerifiedFacts" where
  "facts_of v = \<lparr> vf_status = pvr_providerStatus v, vf_amount = map_option floor (pvr_amountMinor v),
                  vf_currency = pvr_currency v, vf_raw = pvr_rawResponse v \<rparr>"

datatype TargetStatus = VERIFIED | FAILED

definition target_text :: "TargetStatus \<Rightarrow> string" where
  "target_text t = (case t of VERIFIED \<Rightarrow> ''VERIFIED'' | TargetStatus.FAILED \<Rightarrow> ''FAILED'')"

definition apply_transition ::
  "TargetStatus \<Rightarrow> PaymentIntent \<Rightarrow> ProviderVerificationResult \<Rightarrow> int \<Rightarrow> (db, nat) prog" where
  "apply_transition target paymentIntent verification now =
     (case target of
        VERIFIED \<Rightarrow> transitionToVerified (pi_id paymentIntent) now (facts_of verification)
      | TargetStatus.FAILED \<Rightarrow>
          transitionToFailed (pi_id paymentIntent) now ''PROVIDER_PAYMENT_FAILED''
            (''Provider reported '' @ pvr_providerStatus verification @ ''.'') (facts_of verification))"

definition transition_skipped ::
  "env \<Rightarrow> PaymentIntent \<Rightarrow> ProviderWebhookEvent \<Rightarrow> TargetStatus \<Rightarrow> (db, PaymentWebhookResult) prog" where
  "transition_skipped E paymentIntent webhookEvent target =
     bindp (Intent_findById (pi_id paymentIntent)) (\<lambda>current.
       let currentStatus = map_option pi_status current;
           isAlreadyProcessed = (currentStatus = Some PaymentIntentStatus.VERIFIED \<and> target = VERIFIED)
       in seqp (IntentAudit_append paymentIntent
                  (if isAlreadyProcessed then ''payment_status_transition_skipped_already_processed''
                   else ''payment_status_transition_rejected'')
                  (JObj [(''currentStatus'', jopt (map_option intent_status_text currentStatus)),
                         (''attemptedStatus'', JStr (target_text target)),
                         (''reason'', JStr ''status_guard_prevented_duplicate_transition'')]))
         (seqp (updateProcessing (pwe_id webhookEvent)
                  (processing_update WebhookProcessingStatus.PROCESSED webhookEvent (Some paymentIntent)
                     None (app_now E)))
               (ret (toResult (Some (pi_id paymentIntent)) WebhookProcessingStatus.PROCESSED))))"

definition transition_applied ::
  "env \<Rightarrow> PaymentIntent \<Rightarrow> ProviderWebhookEvent \<Rightarrow> ProviderVerificationResult \<Rightarrow> TargetStatus \<Rightarrow>
   (db, PaymentWebhookResult) prog" where
  "transition_applied E paymentIntent webhookEvent verification target =
     seqp (IntentAudit_append paymentIntent
             (if target = VERIFIED then ''payment_verification_succeeded'' else ''payment_verification_failed'')
             (JObj [(''providerStatus'', JStr (pvr_providerStatus verification)),
                    (''providerReference'', JStr (pi_providerReference paymentIntent))]))
    (seqp (IntentAudit_append paymentIntent
             (if target = VERIFIED then ''payment_status_transition_verified''
              else ''payment_status_transition_failed'')
             (JObj [(''previousStatus'', JStr (intent_status_text (pi_status paymentIntent))),
                    (''newStatus'', JStr (target_text target)),
                    (''reason'',
                      if pi_status paymentIntent = PaymentIntentStatus.INITIATION_PENDING then
                        if target = VERIFIED then JStr ''provider_verified_success_from_pending_local_state''
                        else JStr ''provider_verified_failure_from_pending_local_state''
                      else JNull)]))
    (seqp (updateProcessing (pwe_id webhookEvent)
             (processing_update WebhookProcessingStatus.VERIFIED webhookEvent (Some paymentIntent)
                None (app_now E)))
          (ret (toResult (Some (pi_id paymentIntent)) WebhookProcessingStatus.VERIFIED))))"

definition applyTerminalTransition ::
  "env \<Rightarrow> PaymentIntent \<Rightarrow> ProviderWebhookEvent \<Rightarrow> ProviderVerificationResult \<Rightarrow> TargetStatus \<Rightarrow>
   (db, PaymentWebhookResult) prog" where
  "applyTerminalTransition E paymentIntent webhookEvent verification target =
     runInTransaction
       (bindp (apply_transition target paymentIntent verification (app_now E)) (\<lambda>transitionCount.
          if transitionCount \<noteq> 1 then transition_skipped E paymentIntent webhookEvent target
          else transition_applied E paymentIntent webhookEvent verification target))"

definition json_number :: "rat \<Rightarrow> json" where
  "json_number r = (if of_int (floor r) = r then JNum (floor r) else JDec r)"

definition amount_json :: "rat option \<Rightarrow> json" where
  "amount_json a = (case a of None \<Rightarrow> JNull | Some r \<Rightarrow> json_number r)"

definition handleVerificationResult ::
  "env \<Rightarrow> ProviderWebhookEvent \<Rightarrow> PaymentIntent \<Rightarrow> ProviderVerificationResult \<Rightarrow> (db, PaymentWebhookResult) prog" where
  "handleVerificationResult E webhookEvent paymentIntent verification =
     (let result = (\<lambda>st. ret (toResult (Some (pi_id paymentIntent)) st));
          status = JStr (pvr_providerStatus verification)
      in
      if pvr_providerReference verification \<noteq> pi_providerReference paymentIntent then
        seqp (rejectWebhook E webhookEvent (Some paymentIntent) ''PAYMENT_VERIFICATION_REFERENCE_MISMATCH''
                ''Provider verification reference did not match payment intent reference.''
                (Some (''payment_verification_reference_mismatch'',
                   JObj [(''expectedReference'', JStr (pi_providerReference paymentIntent)),
                         (''actualReference'', JStr (pvr_providerReference verification)),
                         (''providerStatus'', status)])))
          (result WebhookProcessingStatus.REJECTED)
      else if pvr_amountMinor verification \<noteq> Some (of_int (pi_amountMinor paymentIntent)) then
        seqp (rejectWebhook E webhookEvent (Some paymentIntent) ''PAYMENT_VERIFICATION_AMOUNT_MISMATCH''
                ''Provider verification amount did not match payment intent amount.''
                (Some (''payment_verification_amount_mismatch'',
                   JObj [(''expectedAmountMinor'', JNum (pi_amountMinor paymentIntent)),
                         (''actualAmountMinor'', amount_json (pvr_amountMinor verification)),
                         (''providerStatus'', status)])))
          (result WebhookProcessingStatus.REJECTED)
      else if pvr_currency verification \<noteq> Some (pi_currency paymentIntent) then
        seqp (rejectWebhook E webhookEvent (Some paymentIntent) ''PAYMENT_VERIFICATION_CURRENCY_MISMATCH''
                ''Provider verification currency did not match payment intent currency.''
                (Some (''payment_verification_currency_mismatch'',
                   JObj [(''expectedCurrency'', JStr (pi_currency paymentIntent)),
                         (''actualCurrency'', jopt (pvr_currency verification)),
                         (''providerStatus'', status)])))
          (result WebhookProcessingStatus.REJECTED)
      else
        (case pvr_status verification of
           SUCCESS \<Rightarrow> applyTerminalTransition E paymentIntent webhookEvent verification VERIFIED
         | ProviderVerificationStatus.FAILED \<Rightarrow>
             applyTerminalTransition E paymentIntent webhookEvent verification TargetStatus.FAILED
         | _ \<Rightarrow>
             seqp (markWebhookProcessed E webhookEvent (Some paymentIntent)
                     (Some (''payment_verification_pending'',
                        JObj [(''providerStatus'', status),
                              (''providerReference'', JStr (pi_providerReference paymentIntent))])))
               (result WebhookProcessingStatus.PROCESSED)))"

section \<open>The handler\<close>

text \<open>
  \<open>process_delivery\<close> is \<open>processEnvelope\<close> after the lookup of the intent, \<open>process_received\<close> the
  rest once the event row exists.
\<close>

definition process_received ::
  "env \<Rightarrow> verifier \<Rightarrow> ParsedWebhookEnvelope \<Rightarrow> PaymentIntent option \<Rightarrow> ProviderWebhookEvent \<Rightarrow>
   (db, PaymentWebhookResult) prog" where
  "process_received E verify envelope paymentIntent webhookEvent =
     (if \<not> env_supported envelope then
        seqp (markWebhookProcessed E webhookEvent paymentIntent
                (Some (''payment_webhook_unsupported_event_ignored'',
                   JObj [(''eventType'', jopt (env_eventType envelope)),
                         (''providerReference'', jopt (env_providerReference envelope))])))
          (ret (toResult (map_option pi_id paymentIntent) WebhookProcessingStatus.PROCESSED))
      else
        (case env_providerReference envelope of
           None \<Rightarrow>
             seqp (rejectWebhook E webhookEvent paymentIntent ''MISSING_PROVIDER_REFERENCE''
                     ''Webhook payload did not include a provider reference.'' None)
               (ret (toResult None WebhookProcessingStatus.REJECTED))
         | Some reference \<Rightarrow>
             if reference = [] then
               seqp (rejectWebhook E webhookEvent paymentIntent ''MISSING_PROVIDER_REFERENCE''
                       ''Webhook payload did not include a provider reference.'' None)
                 (ret (toResult None WebhookProcessingStatus.REJECTED))
             else
               (case paymentIntent of
                  None \<Rightarrow>
                    seqp (rejectWebhook E webhookEvent paymentIntent ''PAYMENT_INTENT_NOT_FOUND''
                            ''Payment intent could not be found for the provider reference.'' None)
                      (ret (toResult None WebhookProcessingStatus.REJECTED))
                | Some p \<Rightarrow>
                    if pi_provider p \<noteq> env_provider envelope then
                      seqp (rejectWebhook E webhookEvent paymentIntent ''PROVIDER_MISMATCH''
                              ''Webhook provider does not match payment intent provider.''
                              (Some (''payment_verification_provider_mismatch'',
                                 JObj [(''expectedProvider'', JStr (provider_text (pi_provider p))),
                                       (''actualProvider'', JStr (provider_text (env_provider envelope))),
                                       (''providerReference'', JStr (pi_providerReference p))])))
                        (ret (toResult (Some (pi_id p)) WebhookProcessingStatus.REJECTED))
                    else
                      seqp (IntentAudit_append p ''payment_verification_started''
                              (JObj [(''provider'', JStr (provider_text (pi_provider p))),
                                     (''providerReference'', JStr (pi_providerReference p)),
                                     (''webhookEventId'', JStr (pwe_id webhookEvent))]))
                        (case verify (env_provider envelope) reference of
                           Inl error \<Rightarrow> handleVerificationError E webhookEvent p error
                         | Inr verification \<Rightarrow> handleVerificationResult E webhookEvent p verification))))"

definition process_delivery ::
  "env \<Rightarrow> verifier \<Rightarrow> ParsedWebhookEnvelope \<Rightarrow> PaymentIntent option \<Rightarrow> (db, PaymentWebhookResult) prog" where
  "process_delivery E verify envelope paymentIntent =
     bindp (createWebhookEvent E envelope paymentIntent)
       (\<lambda>(created, webhookEvent).
          if \<not> created then handleDuplicateDelivery webhookEvent paymentIntent envelope
          else
            seqp (audit_if paymentIntent (Some (''payment_webhook_received'',
                    JObj [(''provider'', JStr (provider_text (env_provider envelope))),
                          (''providerEventId'', JStr (env_providerEventId envelope)),
                          (''providerReference'', jopt (env_providerReference envelope)),
                          (''processingStatus'', JStr ''RECEIVED'')])))
                 (process_received E verify envelope paymentIntent webhookEvent))"

definition processEnvelope :: "env \<Rightarrow> verifier \<Rightarrow> ParsedWebhookEnvelope \<Rightarrow> (db, PaymentWebhookResult) prog" where
  "processEnvelope E verify envelope =
     bindp (case env_providerReference envelope of
              None \<Rightarrow> ret None
            | Some reference \<Rightarrow> (if reference = [] then ret None else findByProviderReference reference))
       (\<lambda>paymentIntent. process_delivery E verify envelope paymentIntent)"

record PaymentWebhookInput =
  wi_provider :: string
  wi_rawBody :: string
  wi_parsedBody :: json
  wi_headers :: WebhookHeaders

definition resolveWebhookProvider :: "string \<Rightarrow> PaymentProvider" where
  "resolveWebhookProvider provider = (if provider = ''paystack'' then PAYSTACK else MTN_MOMO)"

definition lift_result :: "app_error + 'a \<Rightarrow> ('s, 'a) prog" where
  "lift_result r = (case r of Inl e \<Rightarrow> throw e | Inr x \<Rightarrow> ret x)"

definition handleWebhook ::
  "env \<Rightarrow> (string \<Rightarrow> string \<Rightarrow> string) \<Rightarrow> string \<Rightarrow> verifier \<Rightarrow> PaymentWebhookInput \<Rightarrow>
   (db, PaymentWebhookResult) prog" where
  "handleWebhook E hmac secretKey verify input =
     (let provider = resolveWebhookProvider (wi_provider input);
          payloadHash = computePayloadHash E (wi_rawBody input);
          rawPayload = wi_rawBody input;
          rawHeaders = toJsonHeaders (wi_headers input)
      in
      if provider = PAYSTACK then
        (case validatePaystackSignature hmac (wi_rawBody input) (wi_headers input) secretKey of
           Some failureMessage \<Rightarrow>
             seqp (persistRejectedSignatureEvent E provider payloadHash rawPayload rawHeaders failureMessage)
               (throw (WebhookSignatureError ''paystack'' failureMessage))
         | None \<Rightarrow>
             bindp (lift_result (parsePaystackEnvelope (wi_parsedBody input) payloadHash rawPayload rawHeaders))
               (processEnvelope E verify))
      else
        bindp (lift_result (parseMomoEnvelope (wi_parsedBody input) payloadHash rawPayload rawHeaders))
          (processEnvelope E verify))"

section \<open>Runs\<close>

definition delivered_intent :: "ParsedWebhookEnvelope \<Rightarrow> db \<Rightarrow> PaymentIntent option" where
  "delivered_intent envelope s =
     (case env_providerReference envelope of
        None \<Rightarrow> None
      | Some reference \<Rightarrow>
          if reference = [] then None else find (\<lambda>p. pi_providerReference p = reference) (payment_intents s))"

text \<open>A delivery is known when its provider already sent its payload or its event id.\<close>

definition known_delivery :: "ParsedWebhookEnvelope \<Rightarrow> db \<Rightarrow> bool" where
  "known_delivery envelope s \<longleftrightarrow>
     list_ex (\<lambda>w. pwe_provider w = env_provider envelope \<and>
       (pwe_providerEventId w = env_providerEventId envelope \<or> pwe_payloadHash w = env_payloadHash envelope))
       (provider_webhook_events s)"

definition fresh_event_id :: "env \<Rightarrow> db \<Rightarrow> bool" where
  "fresh_event_id E s \<longleftrightarrow> \<not> list_ex (\<lambda>w. pwe_id w = uuid E 0) (provider_webhook_events s)"

definition verification_matches :: "PaymentIntent \<Rightarrow> ProviderVerificationResult \<Rightarrow> bool" where
  "verification_matches p v \<longleftrightarrow> pvr_providerReference v = pi_providerReference p \<and>
     pvr_amountMinor v = Some (of_int (pi_amountMinor p)) \<and> pvr_currency v = Some (pi_currency p)"

definition target_of :: "ProviderVerificationStatus \<Rightarrow> TargetStatus option" where
  "target_of st = (case st of SUCCESS \<Rightarrow> Some VERIFIED
     | ProviderVerificationStatus.FAILED \<Rightarrow> Some TargetStatus.FAILED | _ \<Rightarrow> None)"

definition settle_row :: "int \<Rightarrow> TargetStatus \<Rightarrow> ProviderVerificationResult \<Rightarrow> PaymentIntent \<Rightarrow> PaymentIntent" where
  "settle_row now target v =
     (case target of
        VERIFIED \<Rightarrow> set_verified now (facts_of v)
      | TargetStatus.FAILED \<Rightarrow> set_failed now ''PROVIDER_PAYMENT_FAILED''
          (''Provider reported '' @ pvr_providerStatus v @ ''.'') (facts_of v))"

text \<open>
  What a delivery is about: which intent it settles and how, if any. It must name an intent of its
  provider, the provider must confirm reference, amount and currency, and the intent must still be
  waiting.
\<close>

definition settles ::
  "verifier \<Rightarrow> ParsedWebhookEnvelope \<Rightarrow> db \<Rightarrow> (PaymentIntent \<times> ProviderVerificationResult \<times> TargetStatus) option" where
  "settles verify envelope s =
     (case delivered_intent envelope s of
        None \<Rightarrow> None
      | Some p \<Rightarrow>
          if env_supported envelope \<and> pi_provider p = env_provider envelope \<and> can_transition p then
            (case verify (pi_provider p) (pi_providerReference p) of
               Inl e \<Rightarrow> None
             | Inr v \<Rightarrow>
                 if verification_matches p v then map_option (\<lambda>t. (p, v, t)) (target_of (pvr_status v)) else None)
          else None)"

definition webhook_verdict :: "verifier \<Rightarrow> ParsedWebhookEnvelope \<Rightarrow> db \<Rightarrow> WebhookProcessingStatus" where
  "webhook_verdict verify envelope s =
     (if known_delivery envelope s then WebhookProcessingStatus.DUPLICATE
      else if \<not> env_supported envelope then WebhookProcessingStatus.PROCESSED
      else case delivered_intent envelope s of
        None \<Rightarrow> WebhookProcessingStatus.REJECTED
      | Some p \<Rightarrow>
          if pi_provider p \<noteq> env_provider envelope then WebhookProcessingStatus.REJECTED
          else (case verify (pi_provider p) (pi_providerReference p) of
                  Inl e \<Rightarrow> WebhookProcessingStatus.FAILED
                | Inr v \<Rightarrow>
                    if \<not> verification_matches p v then WebhookProcessingStatus.REJECTED
                    else if target_of (pvr_status v) = None \<or> \<not> can_transition p
                    then WebhookProcessingStatus.PROCESSED
                    else WebhookProcessingStatus.VERIFIED))"

definition settled_intents :: "env \<Rightarrow> verifier \<Rightarrow> ParsedWebhookEnvelope \<Rightarrow> db \<Rightarrow> PaymentIntent list" where
  "settled_intents E verify envelope s =
     (case settles verify envelope s of
        None \<Rightarrow> payment_intents s
      | Some (p, v, t) \<Rightarrow>
          upd_where (\<lambda>q. pi_id q = pi_id p \<and> can_transition q) (settle_row (app_now E) t v) (payment_intents s))"

lemma received_event_simps [simp]:
  "pwe_id (received_event E envelope p) = uuid E 0"
  "pwe_provider (received_event E envelope p) = env_provider envelope"
  "pwe_providerEventId (received_event E envelope p) = env_providerEventId envelope"
  "pwe_payloadHash (received_event E envelope p) = env_payloadHash envelope"
  "pwe_providerReference (received_event E envelope p) = env_providerReference envelope"
  by (simp_all add: received_event_def)

lemma clash_iff_known:
  assumes "fresh_event_id E s"
  shows "list_ex (webhook_clash (received_event E envelope p)) (provider_webhook_events s) \<longleftrightarrow>
    known_delivery envelope s"
  using assms by (auto simp: known_delivery_def fresh_event_id_def list_ex_iff webhook_clash_def) metis+

lemma createWebhookEvent_fresh:
  assumes "fresh_event_id E s" and "\<not> known_delivery envelope s"
  shows "createWebhookEvent E envelope p s =
    (Inr (True, received_event E envelope p),
     provider_webhook_events_update (\<lambda>ws. ws @ [received_event E envelope p]) s)"
proof -
  let ?w = "received_event E envelope p"
  have "WebhookEvent_create ?w s = (Inr ?w, provider_webhook_events_update (\<lambda>ws. ws @ [?w]) s)"
    using clash_iff_known [OF assms(1)] assms(2)
    by (simp add: WebhookEvent_create_def prisma_create_run)
  then show ?thesis by (simp add: createWebhookEvent_def catchp_run bindp_run)
qed

lemma createWebhookEvent_known:
  assumes "fresh_event_id E s" and "known_delivery envelope s"
  shows "\<exists>w. createWebhookEvent E envelope p s = (Inr (False, w), s)"
proof -
  let ?w = "received_event E envelope p"
  let ?h = "\<lambda>w. pwe_provider w = env_provider envelope \<and> pwe_payloadHash w = env_payloadHash envelope"
  let ?i = "\<lambda>w. pwe_provider w = env_provider envelope \<and> pwe_providerEventId w = env_providerEventId envelope"
  have "WebhookEvent_create ?w s = (Inl (PrismaClientKnownRequestError ''P2002''), s)"
    using clash_iff_known [OF assms(1)] assms(2)
    by (simp add: WebhookEvent_create_def prisma_create_run)
  moreover have "find ?h (provider_webhook_events s) \<noteq> None \<or> find ?i (provider_webhook_events s) \<noteq> None"
    using assms(2) by (auto simp: find_None_list_ex known_delivery_def list_ex_iff)
  ultimately show ?thesis
    by (cases "find ?h (provider_webhook_events s)"; cases "find ?i (provider_webhook_events s)")
      (auto simp: createWebhookEvent_def catchp_def bindp_def isDuplicateError_def)
qed

lemma audit_if_keeps:
  "\<exists>s'. audit_if p a s = (Inr (), s') \<and> payment_intents s' = payment_intents s \<and>
     provider_webhook_events s' = provider_webhook_events s"
  by (auto simp: audit_if_def split: option.splits)

text \<open>
  A branch of the handler that closes the delivery: it returns the status, leaves the intents \<open>ps\<close>
  and writes the status into the event row.
\<close>

definition closes ::
  "ProviderWebhookEvent \<Rightarrow> WebhookProcessingStatus \<Rightarrow> PaymentIntent list \<Rightarrow> db \<Rightarrow>
   (app_error + PaymentWebhookResult) \<times> db \<Rightarrow> bool" where
  "closes w st ps s out \<longleftrightarrow>
     (\<exists>r s' u. out = (Inr r, s') \<and> pwr_processingStatus r = st \<and> payment_intents s' = ps \<and>
        pu_processingStatus u = st \<and>
        provider_webhook_events s' =
          upd_where (\<lambda>e. pwe_id e = pwe_id w) (processed_row u) (provider_webhook_events s))"

definition has_event :: "ProviderWebhookEvent \<Rightarrow> db \<Rightarrow> bool" where
  "has_event w s \<longleftrightarrow> pwe_id w \<in> pwe_id ` set (provider_webhook_events s)"

lemma updateProcessing_run:
  assumes "has_event w s"
  shows "\<exists>x. updateProcessing (pwe_id w) u s =
    (Inr x, provider_webhook_events_update (upd_where (\<lambda>e. pwe_id e = pwe_id w) (processed_row u)) s)"
proof -
  from assms obtain r where "find (\<lambda>e. pwe_id e = pwe_id w) (provider_webhook_events s) = Some r"
    by (metis find_key_present has_event_def)
  then show ?thesis by (simp add: updateProcessing_def prisma_update_run)
qed

lemma update_then_ret:
  assumes "has_event w s"
  shows "seqp (updateProcessing (pwe_id w) u) (ret r) s =
    (Inr r, provider_webhook_events_update (upd_where (\<lambda>e. pwe_id e = pwe_id w) (processed_row u)) s)"
  using updateProcessing_run [OF assms, of u] by (auto simp: seqp_def bindp_def)

lemma audit_then [simp]:
  "seqp (IntentAudit_append p e d) k s = k (payment_intent_audit_logs_update (\<lambda>rs. rs @
     [\<lparr> pal_paymentIntentId = pi_id p, pal_buyerUserId = pi_buyerUserId p, pal_eventType = e, pal_data = d \<rparr>]) s)"
  by (simp add: seqp_def bindp_def)

lemma has_event_frame [simp]:
  "has_event w (payment_intents_update f s) \<longleftrightarrow> has_event w s"
  "has_event w (payment_intent_audit_logs_update g s) \<longleftrightarrow> has_event w s"
  by (simp_all add: has_event_def)

lemma update_then_audit:
  assumes "has_event w s"
  shows "\<exists>s'. runInTransaction (seqp (updateProcessing (pwe_id w) u) (audit_if p a)) s = (Inr (), s') \<and>
    payment_intents s' = payment_intents s \<and>
    provider_webhook_events s' =
      upd_where (\<lambda>e. pwe_id e = pwe_id w) (processed_row u) (provider_webhook_events s)"
proof -
  from updateProcessing_run [OF assms, of u] obtain x where u: "updateProcessing (pwe_id w) u s =
    (Inr x, provider_webhook_events_update (upd_where (\<lambda>e. pwe_id e = pwe_id w) (processed_row u)) s)" ..
  from audit_if_keeps [of p a "provider_webhook_events_update (upd_where (\<lambda>e. pwe_id e = pwe_id w) (processed_row u)) s"]
  show ?thesis by (auto simp: runInTransaction_def seqp_def bindp_def u)
qed

lemma closesI:
  assumes "out = (Inr (toResult i st), s')" and "payment_intents s' = ps"
    and "provider_webhook_events s' =
      upd_where (\<lambda>e. pwe_id e = pwe_id w) (processed_row u) (provider_webhook_events s)"
    and "pu_processingStatus u = st"
  shows "closes w st ps s out"
  using assms by (auto simp: closes_def toResult_def)

lemma tx_closes:
  assumes "has_event w s" and "m = runInTransaction (seqp (updateProcessing (pwe_id w) u) (audit_if p a))"
    and "pu_processingStatus u = st"
  shows "closes w st (payment_intents s) s (seqp m (ret (toResult i st)) s)"
proof -
  from update_then_audit [OF assms(1), of u p a] obtain s' where
    m: "m s = (Inr (), s')" and "payment_intents s' = payment_intents s"
    and "provider_webhook_events s' =
      upd_where (\<lambda>e. pwe_id e = pwe_id w) (processed_row u) (provider_webhook_events s)"
    unfolding assms(2) by blast
  then show ?thesis using assms(3) by (intro closesI) (auto simp: seqp_def bindp_def m)
qed

lemma reject_closes:
  assumes "has_event w s"
  shows "closes w WebhookProcessingStatus.REJECTED (payment_intents s) s
    (seqp (rejectWebhook E w p code msg a) (ret (toResult i WebhookProcessingStatus.REJECTED)) s)"
  by (rule tx_closes [OF assms rejectWebhook_def]) (simp add: processing_update_def)

lemma processed_closes:
  assumes "has_event w s"
  shows "closes w WebhookProcessingStatus.PROCESSED (payment_intents s) s
    (seqp (markWebhookProcessed E w p a) (ret (toResult i WebhookProcessingStatus.PROCESSED)) s)"
  by (rule tx_closes [OF assms markWebhookProcessed_def]) (simp add: processing_update_def)

lemma error_closes:
  assumes "has_event w s"
  shows "closes w WebhookProcessingStatus.FAILED (payment_intents s) s (handleVerificationError E w p err s)"
proof -
  define u where "u = processing_update WebhookProcessingStatus.FAILED w (Some p)
    (Some (resolveVerificationFailureCode err, error_message err)) (app_now E)"
  have "handleVerificationError E w p err =
    seqp (runInTransaction (seqp (updateProcessing (pwe_id w) u)
       (audit_if (Some p) (Some (''payment_verification_failed'',
          JObj [(''provider'', JStr (provider_text (pi_provider p))),
                (''providerReference'', JStr (pi_providerReference p)),
                (''failureCode'', JStr (resolveVerificationFailureCode err)),
                (''failureMessage'', JStr (error_message err))])))))
      (ret (toResult (Some (pi_id p)) WebhookProcessingStatus.FAILED))"
    by (simp add: handleVerificationError_def Let_def audit_if_def u_def)
  then show ?thesis
    using tx_closes [OF assms refl, of u WebhookProcessingStatus.FAILED]
    by (simp add: u_def processing_update_def)
qed

text \<open>The terminal transition, when the intent is waiting and when it is settled already.\<close>

lemma unique_intent_filter:
  assumes "unique_intents s" and "p \<in> set (payment_intents s)"
  shows "length (filter (\<lambda>q. pi_id q = pi_id p \<and> can_transition q) (payment_intents s)) =
    (if can_transition p then 1 else 0)"
proof -
  have "distinct (map pi_id ps) \<Longrightarrow> p \<in> set ps \<Longrightarrow>
    length (filter (\<lambda>q. pi_id q = pi_id p \<and> can_transition q) ps) = (if can_transition p then 1 else 0)" for ps
  proof (induction ps)
    case (Cons q ps)
    then show ?case
      by (cases "q = p") (auto simp: filter_empty_conv rev_image_eqI)
  qed simp
  with assms show ?thesis by (simp add: unique_intents_def)
qed

lemma apply_transition_run:
  "apply_transition target p v now s =
     (Inr (length (filter (\<lambda>q. pi_id q = pi_id p \<and> can_transition q) (payment_intents s))),
      payment_intents_update (upd_where (\<lambda>q. pi_id q = pi_id p \<and> can_transition q) (settle_row now target v)) s)"
  by (cases target) (simp_all add: apply_transition_def settle_row_def)

lemma transition_applied_run:
  assumes "has_event w s"
  shows "\<exists>s' u. transition_applied E p w v target s = (Inr (toResult (Some (pi_id p)) WebhookProcessingStatus.VERIFIED), s') \<and>
    payment_intents s' = payment_intents s \<and> pu_processingStatus u = WebhookProcessingStatus.VERIFIED \<and>
    provider_webhook_events s' = upd_where (\<lambda>e. pwe_id e = pwe_id w) (processed_row u) (provider_webhook_events s)"
  using assms unfolding transition_applied_def
  by (simp add: update_then_ret del: if_split) (rule exI [of _ "processing_update WebhookProcessingStatus.VERIFIED w (Some p) None (app_now E)"],
     simp add: processing_update_def)

lemma transition_skipped_run:
  assumes "has_event w s"
  shows "\<exists>s' u. transition_skipped E p w target s = (Inr (toResult (Some (pi_id p)) WebhookProcessingStatus.PROCESSED), s') \<and>
    payment_intents s' = payment_intents s \<and> pu_processingStatus u = WebhookProcessingStatus.PROCESSED \<and>
    provider_webhook_events s' = upd_where (\<lambda>e. pwe_id e = pwe_id w) (processed_row u) (provider_webhook_events s)"
  using assms unfolding transition_skipped_def
  by (simp add: bindp_def Let_def update_then_ret del: if_split) (rule exI [of _ "processing_update WebhookProcessingStatus.PROCESSED w (Some p) None (app_now E)"],
     simp add: processing_update_def)

lemma transition_closes:
  assumes "unique_intents s" and "p \<in> set (payment_intents s)" and "has_event w s"
  shows "closes w (if can_transition p then WebhookProcessingStatus.VERIFIED else WebhookProcessingStatus.PROCESSED)
    (if can_transition p
     then upd_where (\<lambda>q. pi_id q = pi_id p \<and> can_transition q) (settle_row (app_now E) target v) (payment_intents s)
     else payment_intents s) s
    (applyTerminalTransition E p w v target s)"
proof -
  let ?q = "\<lambda>q. pi_id q = pi_id p \<and> can_transition q"
  let ?s1 = "payment_intents_update (upd_where ?q (settle_row (app_now E) target v)) s"
  define st where "st = (if can_transition p then WebhookProcessingStatus.VERIFIED else WebhookProcessingStatus.PROCESSED)"
  have he: "has_event w ?s1" using assms(3) by simp
  have count: "length (filter ?q (payment_intents s)) = (if can_transition p then 1 else 0)"
    by (rule unique_intent_filter [OF assms(1,2)])
  have "closes w st (payment_intents ?s1) s (applyTerminalTransition E p w v target s)"
  proof (cases "can_transition p")
    case True
    then have "applyTerminalTransition E p w v target s = runInTransaction (\<lambda>_. transition_applied E p w v target ?s1) s"
      by (simp add: applyTerminalTransition_def bindp_def apply_transition_run count runInTransaction_def)
    with transition_applied_run [OF he, of E p v target] True show ?thesis
      by (auto simp: runInTransaction_def st_def intro!: closesI)
  next
    case False
    then have "applyTerminalTransition E p w v target s = runInTransaction (\<lambda>_. transition_skipped E p w target ?s1) s"
      by (simp add: applyTerminalTransition_def bindp_def apply_transition_run count runInTransaction_def)
    with transition_skipped_run [OF he, of E p target] False show ?thesis
      by (auto simp: runInTransaction_def st_def intro!: closesI)
  qed
  moreover have "payment_intents ?s1 = payment_intents s" if "\<not> can_transition p"
    using count that by (auto simp: filter_empty_conv intro!: upd_where_id)
  ultimately show ?thesis by (auto simp: st_def)
qed

text \<open>The provider's verdict as a whole, and the handler once the event row exists.\<close>

lemma result_closes:
  assumes "unique_intents s" and "p \<in> set (payment_intents s)" and "has_event w s"
  shows "closes w
    (if \<not> verification_matches p v then WebhookProcessingStatus.REJECTED
     else if target_of (pvr_status v) = None \<or> \<not> can_transition p then WebhookProcessingStatus.PROCESSED
     else WebhookProcessingStatus.VERIFIED)
    (case target_of (pvr_status v) of
       Some t \<Rightarrow> if verification_matches p v \<and> can_transition p
         then upd_where (\<lambda>q. pi_id q = pi_id p \<and> can_transition q) (settle_row (app_now E) t v) (payment_intents s)
         else payment_intents s
     | None \<Rightarrow> payment_intents s) s
    (handleVerificationResult E w p v s)"
proof (cases "verification_matches p v")
  case False
  then show ?thesis
    using reject_closes [OF assms(3)]
    by (auto simp: handleVerificationResult_def Let_def verification_matches_def split: option.splits)
next
  case True
  then have "handleVerificationResult E w p v s =
    (case target_of (pvr_status v) of
       Some t \<Rightarrow> applyTerminalTransition E p w v t s
     | None \<Rightarrow> seqp (markWebhookProcessed E w (Some p) (Some (''payment_verification_pending'',
                  JObj [(''providerStatus'', JStr (pvr_providerStatus v)),
                        (''providerReference'', JStr (pi_providerReference p))])))
               (ret (toResult (Some (pi_id p)) WebhookProcessingStatus.PROCESSED)) s)"
    by (cases "pvr_status v")
      (simp_all add: handleVerificationResult_def Let_def verification_matches_def target_of_def)
  note run = this
  show ?thesis
  proof (cases "target_of (pvr_status v)")
    case None
    with run True show ?thesis by (simp add: processed_closes [OF assms(3)])
  next
    case (Some t)
    with run True transition_closes [OF assms, of E t v] show ?thesis
      by (cases "can_transition p") simp_all
  qed
qed

lemma closes_frame:
  "closes w st ps s2 out \<Longrightarrow> provider_webhook_events s2 = provider_webhook_events s1 \<Longrightarrow> closes w st ps s1 out"
  by (simp add: closes_def)

lemma received_closes:
  assumes "delivered_intent envelope s = p" and "\<not> known_delivery envelope s"
    and "unique_intents s1" and "payment_intents s1 = payment_intents s" and "has_event w s1"
  shows "closes w (webhook_verdict verify envelope s) (settled_intents E verify envelope s) s1
    (process_received E verify envelope p w s1)"
proof (cases "env_supported envelope")
  case False
  with assms(1,2,4) show ?thesis
    by (auto simp: process_received_def webhook_verdict_def settled_intents_def settles_def
        processed_closes [OF assms(5), unfolded assms(4)] split: option.splits)
next
  case sup: True
  show ?thesis
  proof (cases p)
    case None
    with sup assms(1,2,4) show ?thesis
      by (auto simp: process_received_def webhook_verdict_def settled_intents_def settles_def
          reject_closes [OF assms(5), unfolded assms(4)] split: option.splits)
  next
    case (Some q)
    with assms(1) obtain r where r: "env_providerReference envelope = Some r" "r \<noteq> []"
      and fnd: "find (\<lambda>p. pi_providerReference p = r) (payment_intents s) = Some q"
      by (auto simp: delivered_intent_def split: option.splits if_splits)
    from find_Some_iff2 [OF fnd] have q: "q \<in> set (payment_intents s)" "pi_providerReference q = r" by auto
    show ?thesis
    proof (cases "pi_provider q = env_provider envelope")
      case False
      with sup r Some assms(1,2,4) show ?thesis
        by (simp add: process_received_def webhook_verdict_def settled_intents_def settles_def
            reject_closes [OF assms(5), unfolded assms(4)])
    next
      case prov: True
      define d where "d = JObj [(''provider'', JStr (provider_text (pi_provider q))),
        (''providerReference'', JStr (pi_providerReference q)), (''webhookEventId'', JStr (pwe_id w))]"
      define s2 where "s2 = snd (IntentAudit_append q ''payment_verification_started'' d s1)"
      have s2: "payment_intents s2 = payment_intents s" "unique_intents s2" "has_event w s2"
        "provider_webhook_events s2 = provider_webhook_events s1" "q \<in> set (payment_intents s2)"
        using assms(3-5) q(1) by (simp_all add: s2_def unique_intents_def has_event_def)
      have run: "process_received E verify envelope p w s1 =
          (case verify (pi_provider q) (pi_providerReference q) of
             Inl e \<Rightarrow> handleVerificationError E w q e s2
           | Inr v \<Rightarrow> handleVerificationResult E w q v s2)"
        using sup Some r prov q(2)
        by (auto simp: process_received_def s2_def d_def split: sum.splits)
      note close = error_closes [OF s2(3), of E q] result_closes [OF s2(2) s2(5) s2(3), of _ E]
      show ?thesis
      proof (rule closes_frame [OF _ s2(4)], cases "verify (pi_provider q) (pi_providerReference q)")
        case (Inl e)
        with close(1) [of e] run Some sup prov assms(1,2) s2(1)
        show "closes w (webhook_verdict verify envelope s) (settled_intents E verify envelope s) s2
          (process_received E verify envelope p w s1)"
          by (simp add: webhook_verdict_def settled_intents_def settles_def)
      next
        case (Inr v)
        with close(2) [of v] run Some sup prov assms(1,2) s2(1)
        show "closes w (webhook_verdict verify envelope s) (settled_intents E verify envelope s) s2
          (process_received E verify envelope p w s1)"
          by (cases "target_of (pvr_status v)"; cases "verification_matches q v"; cases "can_transition q")
            (simp_all add: webhook_verdict_def settled_intents_def settles_def)
      qed
    qed
  qed
qed

section \<open>Deliveries\<close>

lemma processEnvelope_run:
  "processEnvelope E verify envelope s = process_delivery E verify envelope (delivered_intent envelope s) s"
  by (auto simp: processEnvelope_def bindp_def delivered_intent_def split: option.splits)

text \<open>A duplicate leaves at most one row in the audit log of the intents, and nothing else.\<close>

definition only_audits_duplicate :: "db \<Rightarrow> db \<Rightarrow> bool" where
  "only_audits_duplicate s s' \<longleftrightarrow>
     (\<exists>rows. s' = payment_intent_audit_logs_update (\<lambda>l. l @ rows) s \<and> length rows \<le> 1 \<and>
        list_all (\<lambda>a. pal_eventType a = ''payment_webhook_duplicate'') rows)"

lemma only_audits_frame:
  "only_audits_duplicate s s' \<Longrightarrow>
     payment_intents s' = payment_intents s \<and> provider_webhook_events s' = provider_webhook_events s"
  by (auto simp: only_audits_duplicate_def)

lemma duplicate_run:
  "\<exists>r s'. handleDuplicateDelivery w p envelope s = (Inr r, s') \<and>
     pwr_processingStatus r = WebhookProcessingStatus.DUPLICATE \<and> only_audits_duplicate s s'"
proof -
  have none: "only_audits_duplicate s s"
    unfolding only_audits_duplicate_def by (rule exI [of _ "[]"]) simp
  have one: "\<exists>s'. IntentAudit_append q ''payment_webhook_duplicate'' d s = (Inr (), s') \<and> only_audits_duplicate s s'" for q d
    by (auto simp: IntentAudit_append_def seqp_def bindp_def prisma_create_def only_audits_duplicate_def list_ex_iff)
  have "\<exists>d. (case p of Some q \<Rightarrow> ret (Some q)
     | None \<Rightarrow> (case pwe_paymentIntentId w of None \<Rightarrow> ret None
                | Some i \<Rightarrow> (if i = [] then ret None else Intent_findById i))) s = (Inr d, s)"
    by (auto split: option.splits)
  then obtain d where d: "(case p of Some q \<Rightarrow> ret (Some q)
     | None \<Rightarrow> (case pwe_paymentIntentId w of None \<Rightarrow> ret None
                | Some i \<Rightarrow> (if i = [] then ret None else Intent_findById i))) s = (Inr d, s)" ..
  show ?thesis
  proof (cases d)
    case None
    with d none show ?thesis by (simp add: handleDuplicateDelivery_def bindp_def seqp_def audit_if_def toResult_def)
  next
    case (Some q)
    from one [of q "JObj [(''provider'', JStr (provider_text (env_provider envelope))),
        (''providerEventId'', JStr (env_providerEventId envelope)), (''payloadHash'', JStr (env_payloadHash envelope))]"]
    obtain s' where s': "IntentAudit_append q ''payment_webhook_duplicate'' (JObj [(''provider'',
        JStr (provider_text (env_provider envelope))), (''providerEventId'', JStr (env_providerEventId envelope)),
        (''payloadHash'', JStr (env_payloadHash envelope))]) s = (Inr (), s')" "only_audits_duplicate s s'" by blast
    with d Some show ?thesis by (simp add: handleDuplicateDelivery_def bindp_def seqp_def audit_if_def toResult_def)
  qed
qed

lemma webhook_decision_run:
  assumes "unique_intents s" and "fresh_event_id E s"
  shows "\<exists>r s'. processEnvelope E verify envelope s = (Inr r, s') \<and>
    pwr_processingStatus r = webhook_verdict verify envelope s \<and>
    (if known_delivery envelope s
     then payment_intents s' = payment_intents s \<and> provider_webhook_events s' = provider_webhook_events s
     else payment_intents s' = settled_intents E verify envelope s \<and>
       (\<exists>w. provider_webhook_events s' = provider_webhook_events s @ [w] \<and>
          pwe_id w = uuid E 0 \<and> pwe_processingStatus w = webhook_verdict verify envelope s \<and>
          pwe_provider w = env_provider envelope \<and> pwe_payloadHash w = env_payloadHash envelope \<and>
          pwe_providerEventId w = env_providerEventId envelope))"
proof (cases "known_delivery envelope s")
  case True
  from createWebhookEvent_known [OF assms(2) True, of "delivered_intent envelope s"] obtain w
    where w: "createWebhookEvent E envelope (delivered_intent envelope s) s = (Inr (False, w), s)" ..
  from duplicate_run [of w "delivered_intent envelope s" envelope s] True show ?thesis
    by (auto simp: processEnvelope_run process_delivery_def webhook_verdict_def bindp_def w dest: only_audits_frame)
next
  case False
  let ?p = "delivered_intent envelope s"
  let ?w = "received_event E envelope ?p"
  let ?s1 = "provider_webhook_events_update (\<lambda>ws. ws @ [?w]) s"
  obtain s2 where s2: "payment_intents s2 = payment_intents s"
      "provider_webhook_events s2 = provider_webhook_events s @ [?w]"
    and run: "processEnvelope E verify envelope s = process_received E verify envelope ?p ?w s2"
  proof -
    let ?a = "Some (''payment_webhook_received'',
      JObj [(''provider'', JStr (provider_text (env_provider envelope))),
            (''providerEventId'', JStr (env_providerEventId envelope)),
            (''providerReference'', jopt (env_providerReference envelope)),
            (''processingStatus'', JStr ''RECEIVED'')])"
    from audit_if_keeps [of ?p ?a ?s1] obtain s2 where a: "audit_if ?p ?a ?s1 = (Inr (), s2)"
      and "payment_intents s2 = payment_intents ?s1" "provider_webhook_events s2 = provider_webhook_events ?s1"
      by blast
    then show thesis
      using createWebhookEvent_fresh [OF assms(2) False, of ?p]
      by (intro that [of s2]) (simp_all add: processEnvelope_run process_delivery_def bindp_def seqp_def a)
  qed
  have "closes ?w (webhook_verdict verify envelope s) (settled_intents E verify envelope s) s2
    (process_received E verify envelope ?p ?w s2)"
    using assms(1) by (intro received_closes [OF refl False]) (simp_all add: s2 unique_intents_def has_event_def)
  then obtain r s' u where out: "process_received E verify envelope ?p ?w s2 = (Inr r, s')"
    "pwr_processingStatus r = webhook_verdict verify envelope s"
    "payment_intents s' = settled_intents E verify envelope s"
    "pu_processingStatus u = webhook_verdict verify envelope s"
    "provider_webhook_events s' =
       upd_where (\<lambda>e. pwe_id e = pwe_id ?w) (processed_row u) (provider_webhook_events s2)"
    by (auto simp: closes_def)
  have "upd_where (\<lambda>e. pwe_id e = uuid E 0) (processed_row u) (provider_webhook_events s) = provider_webhook_events s"
    using assms(2) by (intro upd_where_id) (auto simp: fresh_event_id_def list_ex_iff)
  with out False show ?thesis by (auto simp: run s2)
qed

lemma known_delivery_run:
  assumes "unique_intents s" and "fresh_event_id E s" and "known_delivery envelope s"
  shows "only_audits_duplicate s (snd (processEnvelope E verify envelope s))"
proof -
  from createWebhookEvent_known [OF assms(2,3), of "delivered_intent envelope s"] obtain w
    where w: "createWebhookEvent E envelope (delivered_intent envelope s) s = (Inr (False, w), s)" ..
  from duplicate_run [of w "delivered_intent envelope s" envelope s] show ?thesis
    by (auto simp: processEnvelope_run process_delivery_def bindp_def w)
qed

text \<open>
  C15: What a delivery does, for every envelope and every answer of the provider. It always returns
  (no error), with the status \<open>webhook_verdict\<close>. A known payload or event id is a duplicate: at most a
  duplicate row in the audit log is added, and nothing else in the database changes. Otherwise one
  event row with that status is added, and the intents
  are \<open>settled_intents\<close>: the named intent moves to VERIFIED or FAILED exactly when it was waiting
  and the provider confirmed reference, amount and currency; nothing else moves.
\<close>

theorem webhook_decision:
  assumes "unique_intents s" and "fresh_event_id E s"
  shows "\<exists>r s'. processEnvelope E verify envelope s = (Inr r, s') \<and>
    pwr_processingStatus r = webhook_verdict verify envelope s \<and>
    (if known_delivery envelope s
     then only_audits_duplicate s s'
     else payment_intents s' = settled_intents E verify envelope s \<and>
       (\<exists>w. provider_webhook_events s' = provider_webhook_events s @ [w] \<and>
          pwe_id w = uuid E 0 \<and> pwe_processingStatus w = webhook_verdict verify envelope s \<and>
          pwe_provider w = env_provider envelope \<and> pwe_payloadHash w = env_payloadHash envelope \<and>
          pwe_providerEventId w = env_providerEventId envelope))"
  using webhook_decision_run [OF assms, of verify envelope] known_delivery_run [OF assms, of envelope verify]
  by (auto split: if_splits)

text \<open>A payload the provider already sent, signed or not.\<close>

definition recorded :: "env \<Rightarrow> PaymentProvider \<Rightarrow> string \<Rightarrow> db \<Rightarrow> bool" where
  "recorded E provider rawBody s \<longleftrightarrow>
     list_ex (\<lambda>w. pwe_provider w = provider \<and> pwe_payloadHash w = sha256 E rawBody) (provider_webhook_events s)"

lemma parse_keys:
  "parsePaystackEnvelope body h raw hs = Inr envelope \<Longrightarrow> env_provider envelope = PAYSTACK \<and> env_payloadHash envelope = h"
  "parseMomoEnvelope body h raw hs = Inr envelope \<Longrightarrow> env_provider envelope = MTN_MOMO \<and> env_payloadHash envelope = h"
  by (auto simp: parsePaystackEnvelope_def parseMomoEnvelope_def Let_def split: sum.splits)

lemma parse_error:
  "parsePaystackEnvelope body h raw hs = Inl e \<Longrightarrow> \<exists>m. e = BadRequestException m"
  "parseMomoEnvelope body h raw hs = Inl e \<Longrightarrow> \<exists>m. e = BadRequestException m"
  by (auto simp: parsePaystackEnvelope_def parseMomoEnvelope_def assertRecord_def assertOptionalRecord_def
      Let_def split: sum.splits json.splits if_splits)

lemma rejected_clash:
  "webhook_clash (rejected_event E p h raw hs m) =
     (\<lambda>w. pwe_id w = uuid E 0 \<or>
        pwe_provider w = p \<and> (pwe_providerEventId w = ''payload:'' @ h \<or> pwe_payloadHash w = h))"
  by (auto simp: fun_eq_iff webhook_clash_def rejected_event_def)

lemma persist_run:
  "\<exists>s'. persistRejectedSignatureEvent E p h raw hs m s = (Inr (), s') \<and> payment_intents s' = payment_intents s \<and>
     (if list_ex (webhook_clash (rejected_event E p h raw hs m)) (provider_webhook_events s) then s' = s
      else provider_webhook_events s' = provider_webhook_events s @ [rejected_event E p h raw hs m])"
  by (cases "list_ex (webhook_clash (rejected_event E p h raw hs m)) (provider_webhook_events s)")
    (auto simp: persistRejectedSignatureEvent_def WebhookEvent_create_def prisma_create_run catchp_def seqp_def
      bindp_def isDuplicateError_def)

text \<open>The handler comes down to one of three runs.\<close>

lemma handleWebhook_cases:
  assumes "handleWebhook E hmac key verify input s = (r, s')"
  obtains (bad_signature) m where "r = Inl (WebhookSignatureError ''paystack'' m)"
      "resolveWebhookProvider (wi_provider input) = PAYSTACK"
      "persistRejectedSignatureEvent E PAYSTACK (sha256 E (wi_rawBody input)) (wi_rawBody input)
         (toJsonHeaders (wi_headers input)) m s = (Inr (), s')"
    | (bad_request) m where "r = Inl (BadRequestException m)" "s' = s"
    | (processed) envelope where "processEnvelope E verify envelope s = (r, s')"
      "env_provider envelope = resolveWebhookProvider (wi_provider input)"
      "env_payloadHash envelope = sha256 E (wi_rawBody input)"
proof (cases "resolveWebhookProvider (wi_provider input)")
  case PAYSTACK
  show thesis
  proof (cases "validatePaystackSignature hmac (wi_rawBody input) (wi_headers input) key")
    case None
    let ?parsed = "parsePaystackEnvelope (wi_parsedBody input) (sha256 E (wi_rawBody input)) (wi_rawBody input)
      (toJsonHeaders (wi_headers input))"
    from assms PAYSTACK None have run: "bindp (lift_result ?parsed) (processEnvelope E verify) s = (r, s')"
      by (simp add: handleWebhook_def Let_def computePayloadHash_def)
    show thesis
    proof (cases ?parsed)
      case (Inl e)
      with run parse_error(1) [OF Inl] show thesis by (auto simp: lift_result_def intro: bad_request)
    next
      case (Inr envelope)
      with run parse_keys(1) [OF Inr] PAYSTACK show thesis
        by (intro processed [of envelope]) (simp_all add: lift_result_def)
    qed
  next
    case (Some m)
    from persist_run [of E PAYSTACK "sha256 E (wi_rawBody input)" "wi_rawBody input"
        "toJsonHeaders (wi_headers input)" m s]
    obtain s1 where p: "persistRejectedSignatureEvent E PAYSTACK (sha256 E (wi_rawBody input)) (wi_rawBody input)
         (toJsonHeaders (wi_headers input)) m s = (Inr (), s1)" by blast
    with assms PAYSTACK Some have "r = Inl (WebhookSignatureError ''paystack'' m)" and "s' = s1"
      by (simp_all add: handleWebhook_def Let_def computePayloadHash_def seqp_def bindp_def)
    with p PAYSTACK show thesis by (intro bad_signature) auto
  qed
next
  case MTN_MOMO
  let ?parsed = "parseMomoEnvelope (wi_parsedBody input) (sha256 E (wi_rawBody input)) (wi_rawBody input)
    (toJsonHeaders (wi_headers input))"
  from assms MTN_MOMO have run: "bindp (lift_result ?parsed) (processEnvelope E verify) s = (r, s')"
    by (simp add: handleWebhook_def Let_def computePayloadHash_def)
  show thesis
  proof (cases ?parsed)
    case (Inl e)
    with run parse_error(2) [OF Inl] show thesis by (auto simp: lift_result_def intro: bad_request)
  next
    case (Inr envelope)
    with run parse_keys(2) [OF Inr] MTN_MOMO show thesis
      by (intro processed [of envelope]) (simp_all add: lift_result_def)
  qed
qed

lemma verdict_known: "known_delivery envelope s \<Longrightarrow> webhook_verdict verify envelope s = WebhookProcessingStatus.DUPLICATE"
  by (simp add: webhook_verdict_def)

lemma recorded_known:
  "recorded E (env_provider envelope) body s \<Longrightarrow> env_payloadHash envelope = sha256 E body \<Longrightarrow> known_delivery envelope s"
  by (auto simp: recorded_def known_delivery_def list_ex_iff)

lemma inert_run:
  assumes "unique_intents s" and "fresh_event_id E s"
    and "recorded E (resolveWebhookProvider (wi_provider input)) (wi_rawBody input) s"
    and "handleWebhook E hmac key verify input s = (r, s')"
  shows "payment_intents s' = payment_intents s \<and> provider_webhook_events s' = provider_webhook_events s \<and>
    (case r of
       Inr result \<Rightarrow> pwr_processingStatus result = WebhookProcessingStatus.DUPLICATE
     | Inl e \<Rightarrow> (\<exists>m. e = WebhookSignatureError ''paystack'' m \<or> e = BadRequestException m))"
  using assms(4)
proof (cases rule: handleWebhook_cases)
  case (bad_signature m)
  let ?w = "rejected_event E PAYSTACK (sha256 E (wi_rawBody input)) (wi_rawBody input)
    (toJsonHeaders (wi_headers input)) m"
  have "list_ex (webhook_clash ?w) (provider_webhook_events s)"
    using assms(3) bad_signature(2) by (auto simp: recorded_def list_ex_iff rejected_clash)
  with bad_signature persist_run [of E PAYSTACK "sha256 E (wi_rawBody input)" "wi_rawBody input"
      "toJsonHeaders (wi_headers input)" m s]
  show ?thesis by auto
next
  case (processed envelope)
  then have "known_delivery envelope s" using assms(3) by (intro recorded_known) simp_all
  with webhook_decision_run [OF assms(1,2), of verify envelope] processed(1) show ?thesis
    by (auto simp: webhook_verdict_def)
qed simp

text \<open>
  A payload that is on record is inert. Delivered again, under any signature and whatever the
  provider would now answer, it changes no intent and no event; it is refused or reported as a
  duplicate.
\<close>

theorem recorded_payload_is_inert:
  assumes "unique_intents s" and "fresh_event_id E s"
    and "recorded E (resolveWebhookProvider (wi_provider input)) (wi_rawBody input) s"
    and "handleWebhook E hmac key verify input s = (r, s')"
  shows "payment_intents s' = payment_intents s \<and> provider_webhook_events s' = provider_webhook_events s \<and>
    (case r of
       Inr result \<Rightarrow> pwr_processingStatus result = WebhookProcessingStatus.DUPLICATE
     | Inl e \<Rightarrow> (\<exists>m. e = WebhookSignatureError ''paystack'' m \<or> e = BadRequestException m))"
  by (rule inert_run [OF assms])

text \<open>
  C16: The first word about a payload is final. After a delivery that was refused for its signature,
  or that ended in any status but DUPLICATE (a verification that timed out included), the next
  delivery of the same payload settles nothing, even when it is correctly signed and the provider
  would now confirm the payment.
\<close>

theorem first_delivery_is_final:
  assumes "unique_intents s" and "fresh_event_id E s"
    and id_free: "\<not> list_ex (\<lambda>w. pwe_provider w = resolveWebhookProvider (wi_provider input) \<and>
           pwe_providerEventId w = ''payload:'' @ sha256 E (wi_rawBody input)) (provider_webhook_events s)"
    and first: "handleWebhook E hmac key verify input s = (r, s1)"
      "case r of Inr result \<Rightarrow> pwr_processingStatus result \<noteq> WebhookProcessingStatus.DUPLICATE
                | Inl e \<Rightarrow> e \<noteq> BadRequestException (error_message e)"
    and second: "handleWebhook E2 hmac2 key2 verify2 input2 s1 = (r2, s2)"
      "wi_provider input2 = wi_provider input" "wi_rawBody input2 = wi_rawBody input"
      "sha256 E2 = sha256 E" "unique_intents s1" "fresh_event_id E2 s1"
  shows "payment_intents s2 = payment_intents s1 \<and>
    (\<forall>result. r2 = Inr result \<longrightarrow> pwr_processingStatus result = WebhookProcessingStatus.DUPLICATE)"
proof -
  have "recorded E (resolveWebhookProvider (wi_provider input)) (wi_rawBody input) s1"
    using first(1)
  proof (cases rule: handleWebhook_cases)
    case (bad_signature m)
    let ?w = "rejected_event E PAYSTACK (sha256 E (wi_rawBody input)) (wi_rawBody input)
      (toJsonHeaders (wi_headers input)) m"
    have w: "pwe_provider ?w = PAYSTACK" "pwe_payloadHash ?w = sha256 E (wi_rawBody input)"
      by (simp_all add: rejected_event_def)
    from persist_run [of E PAYSTACK "sha256 E (wi_rawBody input)" "wi_rawBody input"
        "toJsonHeaders (wi_headers input)" m s] bad_signature(3)
    have ev: "if list_ex (webhook_clash ?w) (provider_webhook_events s) then s1 = s
      else provider_webhook_events s1 = provider_webhook_events s @ [?w]" by auto
    show ?thesis
    proof (cases "list_ex (webhook_clash ?w) (provider_webhook_events s)")
      case True
      with ev have "s1 = s" by simp
      with True assms(2) id_free bad_signature(2) show ?thesis
        unfolding rejected_clash by (auto simp: recorded_def list_ex_iff fresh_event_id_def)
    next
      case False
      with ev w bad_signature(2) show ?thesis by (simp add: recorded_def)
    qed
  next
    case (bad_request m)
    with first(2) show ?thesis by simp
  next
    case (processed envelope)
    with webhook_decision_run [OF assms(1,2), of verify envelope] first(2) show ?thesis
      by (auto simp: recorded_def verdict_known split: if_splits)
  qed
  then have "recorded E2 (resolveWebhookProvider (wi_provider input2)) (wi_rawBody input2) s1"
    using second by (simp add: recorded_def)
  from inert_run [OF second(5,6) this second(1)] show ?thesis by auto
qed

section \<open>Examples\<close>

text \<open>A digest, a key and a provider that confirms the payment; a signed delivery and a forged one.\<close>

definition ex_hmac :: "string \<Rightarrow> string \<Rightarrow> string" where
  "ex_hmac key body = key @ body"

definition ex_confirmed :: ProviderVerificationResult where
  "ex_confirmed = \<lparr> pvr_provider = PAYSTACK, pvr_providerReference = ''pi_ref'', pvr_status = SUCCESS,
     pvr_amountMinor = Some 5000, pvr_currency = Some ''GHS'', pvr_providerStatus = ''success'',
     pvr_paidAt = None, pvr_rawResponse = JObj [] \<rparr>"

definition ex_verifier :: verifier where
  "ex_verifier p ref = Inr ex_confirmed"

definition ex_event_env :: "string \<Rightarrow> env" where
  "ex_event_env i = \<lparr> app_now = 100, db_now = 100, uuid = (\<lambda>n. i), sha256 = (\<lambda>x. ''h'' @ x),
     tx_usable_after_error = False \<rparr>"

definition ex_delivery :: "string \<Rightarrow> PaymentWebhookInput" where
  "ex_delivery signature =
     \<lparr> wi_provider = ''paystack'', wi_rawBody = ''b'',
       wi_parsedBody = JObj [(''event'', JStr ''charge.success''),
                             (''data'', JObj [(''id'', JNum 7), (''reference'', JStr ''pi_ref'')])],
       wi_headers = [(''x-paystack-signature'', One signature)] \<rparr>"

definition ex_envelope :: ParsedWebhookEnvelope where
  "ex_envelope = \<lparr> env_provider = PAYSTACK, env_payloadHash = ''hb'', env_rawPayload = ''b'',
     env_rawHeaders = JObj [], env_providerEventId = ''7'', env_providerReference = Some ''pi_ref'',
     env_eventType = Some ''charge.success'', env_signatureValid = Some True,
     env_verifiedPayload = JObj [], env_supported = True \<rparr>"

lemmas ex_webhook_defs = ex_hmac_def ex_confirmed_def ex_verifier_def ex_event_env_def ex_delivery_def
  ex_envelope_def ex_intent_db_def ex_intent_def empty_db_def

lemma webhook_decision_witness:
  "\<exists>r s'. processEnvelope (ex_event_env ''w1'') ex_verifier ex_envelope ex_intent_db = (Inr r, s') \<and>
     pwr_processingStatus r = WebhookProcessingStatus.VERIFIED \<and>
     map pi_status (payment_intents s') = [PaymentIntentStatus.VERIFIED]"
proof -
  have u: "unique_intents ex_intent_db" and f: "fresh_event_id (ex_event_env ''w1'') ex_intent_db"
    by (simp_all add: unique_intents_def fresh_event_id_def ex_webhook_defs)
  have "webhook_verdict ex_verifier ex_envelope ex_intent_db = WebhookProcessingStatus.VERIFIED"
    and "\<not> known_delivery ex_envelope ex_intent_db"
    and "map pi_status (settled_intents (ex_event_env ''w1'') ex_verifier ex_envelope ex_intent_db) =
      [PaymentIntentStatus.VERIFIED]"
    by (simp_all add: webhook_verdict_def known_delivery_def settled_intents_def settles_def delivered_intent_def
        verification_matches_def target_of_def settle_row_def can_transition_def ex_webhook_defs)
  with webhook_decision [OF u f, of ex_verifier ex_envelope] show ?thesis by auto
qed

definition ex_forged_db :: db where
  "ex_forged_db = snd (handleWebhook (ex_event_env ''w1'') ex_hmac ''k'' ex_verifier (ex_delivery ''xx'') ex_intent_db)"

lemma forged_run:
  "handleWebhook (ex_event_env ''w1'') ex_hmac ''k'' ex_verifier (ex_delivery ''xx'') ex_intent_db =
     (Inl (WebhookSignatureError ''paystack'' ''Invalid Paystack webhook signature.''), ex_forged_db)"
  "payment_intents ex_forged_db = [ex_intent]"
  "fresh_event_id (ex_event_env ''w2'') ex_forged_db" "unique_intents ex_forged_db"
  "recorded (ex_event_env ''w2'') PAYSTACK ''b'' ex_forged_db"
  by (simp_all add: ex_forged_db_def handleWebhook_def Let_def resolveWebhookProvider_def computePayloadHash_def
      validatePaystackSignature_def getHeaderValue_def persistRejectedSignatureEvent_def WebhookEvent_create_def
      prisma_create_def catchp_def seqp_def bindp_def rejected_event_def ex_webhook_defs fresh_event_id_def
      unique_intents_def recorded_def)

text \<open>The same payload with its correct signature, after a stranger sent it with a wrong one.\<close>

lemma recorded_payload_is_inert_witness:
  "payment_intents (snd (handleWebhook (ex_event_env ''w2'') ex_hmac ''k'' ex_verifier (ex_delivery ''kb'')
     ex_forged_db)) = [ex_intent]"
  using recorded_payload_is_inert [OF forged_run(4,3), of "ex_delivery ''kb''" ex_hmac "''k''" ex_verifier
      "fst (handleWebhook (ex_event_env ''w2'') ex_hmac ''k'' ex_verifier (ex_delivery ''kb'') ex_forged_db)"
      "snd (handleWebhook (ex_event_env ''w2'') ex_hmac ''k'' ex_verifier (ex_delivery ''kb'') ex_forged_db)"]
    forged_run(2,5)
  by (simp add: resolveWebhookProvider_def ex_delivery_def)

lemma first_delivery_is_final_witness:
  "validatePaystackSignature ex_hmac ''b'' (wi_headers (ex_delivery ''kb'')) ''k'' = None \<and>
   payment_intents (snd (handleWebhook (ex_event_env ''w2'') ex_hmac ''k'' ex_verifier (ex_delivery ''kb'')
     ex_forged_db)) = [ex_intent]"
proof -
  have u: "unique_intents ex_intent_db" and f: "fresh_event_id (ex_event_env ''w1'') ex_intent_db"
    and i: "\<not> list_ex (\<lambda>w. pwe_provider w = resolveWebhookProvider (wi_provider (ex_delivery ''xx'')) \<and>
           pwe_providerEventId w = ''payload:'' @ sha256 (ex_event_env ''w1'') (wi_rawBody (ex_delivery ''xx'')))
           (provider_webhook_events ex_intent_db)"
    and g: "validatePaystackSignature ex_hmac ''b'' (wi_headers (ex_delivery ''kb'')) ''k'' = None"
    by (simp_all add: unique_intents_def fresh_event_id_def ex_webhook_defs validatePaystackSignature_def
        getHeaderValue_def)
  have "payment_intents (snd (handleWebhook (ex_event_env ''w2'') ex_hmac ''k'' ex_verifier (ex_delivery ''kb'')
      ex_forged_db)) = payment_intents ex_forged_db"
    using first_delivery_is_final [where ?input2.0 = "ex_delivery ''kb''" and ?E2.0 = "ex_event_env ''w2''"
        and ?hmac2.0 = ex_hmac and ?key2.0 = "''k''" and ?verify2.0 = ex_verifier
        and ?r2.0 = "fst (handleWebhook (ex_event_env ''w2'') ex_hmac ''k'' ex_verifier (ex_delivery ''kb'') ex_forged_db)"
        and ?s2.0 = "snd (handleWebhook (ex_event_env ''w2'') ex_hmac ''k'' ex_verifier (ex_delivery ''kb'') ex_forged_db)",
        OF u f i forged_run(1)]
      forged_run(3,4)
    by (simp add: ex_delivery_def ex_event_env_def)
  with g forged_run(2) show ?thesis by simp
qed

end
