(* ===== verification/Event_Catalog.thy ===== *)
theory Event_Catalog
  imports Orders Json_Text
begin

text \<open>
  Organizers and their events (\<^verbatim>\<open>src/modules/organizers\<close>, \<^verbatim>\<open>src/modules/events\<close>): the two
  repositories and the two services. A request field the client left out is \<open>None\<close>. The dates of a
  request are what \<open>new Date\<close> made of them, \<open>None\<close> for an invalid date; coordinates are in units of
  10 to the power -7 degrees, the scale of their columns; the venue row an event creates has no
  content but its identifier, which the event keeps.

  The handlers of the events read in one statement and write in another, without a transaction. Each
  is modelled by its two halves; \<open>serial_step\<close> runs the halves together, as when one request follows
  another, and \<open>catalog_step\<close> lets the requests of all owners interleave between them. The first
  keeps more rules than the second: two updates in flight can leave an event ending before it starts,
  and a publication in flight can reopen a cancelled event (\<open>racing_updates_break_dates\<close>,
  \<open>racing_publish_reopens\<close>). A write that finds its event unchanged keeps them all.
\<close>

section \<open>Text\<close>

definition or_keep :: "'a option \<Rightarrow> 'a \<Rightarrow> 'a" where
  "or_keep new old = (case new of None \<Rightarrow> old | Some x \<Rightarrow> x)"

definition trim_opt :: "string option \<Rightarrow> string option" where
  "trim_opt v = map_option js_trim v"

text \<open>A nullable column the request may leave alone.\<close>

definition or_keep_opt :: "'a option \<Rightarrow> 'a option \<Rightarrow> 'a option" where
  "or_keep_opt new old = (case new of None \<Rightarrow> old | Some x \<Rightarrow> Some x)"

section \<open>Organizers\<close>

definition organizer_clash :: "Organizer \<Rightarrow> Organizer \<Rightarrow> bool" where
  "organizer_clash x y \<longleftrightarrow> org_id x = org_id y \<or> org_slug x = org_slug y"

definition Organizer_create :: "Organizer \<Rightarrow> (db, Organizer) prog" where
  "Organizer_create data = prisma_create organizers organizers_update organizer_clash data"

definition Organizer_findOwnedByUser :: "string \<Rightarrow> string \<Rightarrow> (db, Organizer option) prog" where
  "Organizer_findOwnedByUser organizerId ownerUserId =
     prisma_find organizers (\<lambda>o'. org_id o' = organizerId \<and> org_ownerUserId o' = ownerUserId)"

text \<open>The newest first; rows are in the order they were inserted.\<close>

definition listForOwner :: "string \<Rightarrow> (db, Organizer list) prog" where
  "listForOwner ownerUserId = (\<lambda>s. ret (rev (filter (\<lambda>o'. org_ownerUserId o' = ownerUserId) (organizers s))) s)"

definition Organizer_update :: "string \<Rightarrow> (Organizer \<Rightarrow> Organizer) \<Rightarrow> (db, Organizer) prog" where
  "Organizer_update i data =
     prisma_update_unique organizers organizers_update organizer_clash (\<lambda>o'. org_id o' = i) data"

definition Organizer_setStatus :: "string \<Rightarrow> OrganizerStatus \<Rightarrow> (db, Organizer) prog" where
  "Organizer_setStatus i status =
     prisma_update organizers organizers_update (\<lambda>o'. org_id o' = i) (\<lambda>o'. o'\<lparr>org_status := status\<rparr>)"

definition conflict_as :: "string \<Rightarrow> (db, 'a) prog \<Rightarrow> (db, 'a) prog" where
  "conflict_as message m =
     catchp m (\<lambda>error. if error = PrismaClientKnownRequestError ''P2002''
                       then throw (ConflictException message) else throw error)"

record CreateOrganizerDto =
  cod_displayName :: string
  cod_slug :: string
  cod_description :: "string option"
  cod_contactEmail :: "string option"
  cod_contactPhone :: "string option"

definition Organizers_create :: "env \<Rightarrow> string \<Rightarrow> CreateOrganizerDto \<Rightarrow> (db, Organizer) prog" where
  "Organizers_create E ownerUserId dto =
     conflict_as ''organizer slug already exists''
       (Organizer_create
         \<lparr> org_id = uuid E 0, org_ownerUserId = ownerUserId,
           org_displayName = js_trim (cod_displayName dto),
           org_slug = js_trim (toLowerCase (cod_slug dto)),
           org_description = trim_opt (cod_description dto), org_status = OrganizerStatus.DRAFT,
           org_contactEmail = map_option (\<lambda>m. js_trim (toLowerCase m)) (cod_contactEmail dto),
           org_contactPhone = trim_opt (cod_contactPhone dto) \<rparr>)"

definition Organizers_getOwned :: "string \<Rightarrow> string \<Rightarrow> (db, Organizer) prog" where
  "Organizers_getOwned organizerId ownerUserId =
     bindp (Organizer_findOwnedByUser organizerId ownerUserId) (\<lambda>organizer.
       case organizer of
         None \<Rightarrow> throw (NotFoundException ''organizer not found'')
       | Some o' \<Rightarrow> ret o')"

record UpdateOrganizerDto =
  uod_displayName :: "string option"
  uod_slug :: "string option"
  uod_description :: "string option"
  uod_contactEmail :: "string option"
  uod_contactPhone :: "string option"

definition Organizers_updateOwned :: "string \<Rightarrow> string \<Rightarrow> UpdateOrganizerDto \<Rightarrow> (db, Organizer) prog" where
  "Organizers_updateOwned organizerId ownerUserId dto =
     bindp (Organizers_getOwned organizerId ownerUserId) (\<lambda>organizer.
       if org_status organizer = OrganizerStatus.SUSPENDED then
         throw (ForbiddenException ''suspended organizer cannot be updated'')
       else if org_status organizer = OrganizerStatus.REJECTED then
         throw (ForbiddenException ''rejected organizer cannot be updated'')
       else
         conflict_as ''organizer slug already exists''
           (Organizer_update (org_id organizer) (\<lambda>o'. o'
              \<lparr> org_displayName := or_keep (map_option js_trim (uod_displayName dto)) (org_displayName o'),
                org_slug := or_keep (map_option (\<lambda>x. js_trim (toLowerCase x)) (uod_slug dto)) (org_slug o'),
                org_description := or_keep_opt (trim_opt (uod_description dto)) (org_description o'),
                org_contactEmail := or_keep_opt
                  (map_option (\<lambda>m. js_trim (toLowerCase m)) (uod_contactEmail dto)) (org_contactEmail o'),
                org_contactPhone := or_keep_opt (trim_opt (uod_contactPhone dto)) (org_contactPhone o') \<rparr>)))"

definition submitForReview :: "string \<Rightarrow> string \<Rightarrow> (db, Organizer) prog" where
  "submitForReview organizerId ownerUserId =
     bindp (Organizers_getOwned organizerId ownerUserId) (\<lambda>organizer.
       if org_status organizer \<noteq> OrganizerStatus.DRAFT then
         throw (BadRequestException ''only draft organizers can be submitted for review'')
       else Organizer_setStatus (org_id organizer) OrganizerStatus.PENDING_REVIEW)"

definition assertApprovedOwned :: "string \<Rightarrow> string \<Rightarrow> (db, Organizer) prog" where
  "assertApprovedOwned organizerId ownerUserId =
     bindp (Organizers_getOwned organizerId ownerUserId) (\<lambda>organizer.
       if org_status organizer \<noteq> OrganizerStatus.APPROVED then
         throw (ForbiddenException ''organizer is not approved'')
       else ret organizer)"

section \<open>Events: the repository\<close>

definition event_clash :: "Event \<Rightarrow> Event \<Rightarrow> bool" where
  "event_clash x y \<longleftrightarrow> evt_id x = evt_id y \<or>
     (evt_organizerId x = evt_organizerId y \<and> evt_slug x = evt_slug y)"

definition Event_create :: "Event \<Rightarrow> (db, Event) prog" where
  "Event_create data = prisma_create events events_update event_clash data"

text \<open>An event together with its organizer.\<close>

definition with_organizer :: "db \<Rightarrow> Event \<Rightarrow> (Event \<times> Organizer) option" where
  "with_organizer s e = map_option (Pair e) (find (\<lambda>o'. org_id o' = evt_organizerId e) (organizers s))"

definition owned_by :: "db \<Rightarrow> string \<Rightarrow> Event \<Rightarrow> bool" where
  "owned_by s ownerUserId e \<longleftrightarrow>
     (case with_organizer s e of None \<Rightarrow> False | Some (e', o') \<Rightarrow> org_ownerUserId o' = ownerUserId)"

definition Event_findOwnedByUser :: "string \<Rightarrow> string \<Rightarrow> (db, (Event \<times> Organizer) option) prog" where
  "Event_findOwnedByUser eventId ownerUserId = (\<lambda>s.
     ret (Option.bind (find (\<lambda>e. evt_id e = eventId \<and> owned_by s ownerUserId e) (events s)) (with_organizer s)) s)"

definition listForOrganizer :: "string \<Rightarrow> (db, Event list) prog" where
  "listForOrganizer organizerId = (\<lambda>s.
     ret (sort_key evt_startsAt (filter (\<lambda>e. evt_organizerId e = organizerId) (events s))) s)"

definition findByIdForPaymentInitiation :: "string \<Rightarrow> (db, (Event \<times> Organizer) option) prog" where
  "findByIdForPaymentInitiation eventId = (\<lambda>s.
     ret (Option.bind (find (\<lambda>e. evt_id e = eventId) (events s)) (with_organizer s)) s)"

definition Event_update :: "string \<Rightarrow> (Event \<Rightarrow> Event) \<Rightarrow> (db, Event) prog" where
  "Event_update i data = prisma_update_unique events events_update event_clash (\<lambda>e. evt_id e = i) data"

definition Event_setStatus :: "string \<Rightarrow> (Event \<Rightarrow> Event) \<Rightarrow> (db, Event) prog" where
  "Event_setStatus i data = prisma_update events events_update (\<lambda>e. evt_id e = i) data"

section \<open>Events: the service\<close>

record CreateEventDto =
  ced_title :: string
  ced_slug :: string
  ced_description :: "string option"
  ced_visibility :: "EventVisibility option"
  ced_category :: "EventCategory option"
  ced_startsAt :: "int option"
  ced_endsAt :: "int option"
  ced_timezone :: "string option"
  ced_venueName :: "string option"
  ced_addressLine1 :: "string option"
  ced_addressLine2 :: "string option"
  ced_city :: "string option"
  ced_region :: "string option"
  ced_country :: "string option"
  ced_latitude :: "int option"
  ced_longitude :: "int option"
  ced_capacityTotal :: "int option"

definition assertValidDateRange :: "int option \<Rightarrow> int option \<Rightarrow> (db, int \<times> int) prog" where
  "assertValidDateRange startsAt endsAt =
     (case (startsAt, endsAt) of
        (Some a, Some b) \<Rightarrow>
          if b \<le> a then throw (BadRequestException ''event end time must be after start time'')
          else ret (a, b)
      | _ \<Rightarrow> throw (BadRequestException ''invalid event date range''))"

definition new_event :: "env \<Rightarrow> string \<Rightarrow> CreateEventDto \<Rightarrow> int \<Rightarrow> int \<Rightarrow> Event" where
  "new_event E organizerId dto startsAt endsAt =
     \<lparr> evt_id = uuid E 0, evt_organizerId = organizerId, evt_venueId = uuid E 1,
       evt_title = js_trim (ced_title dto), evt_slug = js_trim (toLowerCase (ced_slug dto)),
       evt_status = EventStatus.DRAFT,
       evt_visibility = or_keep (ced_visibility dto) EventVisibility.PRIVATE,
       evt_startsAt = startsAt, evt_endsAt = endsAt, evt_capacityTotal = ced_capacityTotal dto,
       evt_paymentEnabled = False, evt_priceMinor = None, evt_priceCurrency = ''GHS'',
       evt_publishedAt = None, evt_cancelledAt = None, evt_archivedAt = None,
       evt_description = trim_opt (ced_description dto),
       evt_category = or_keep (ced_category dto) EventCategory.OTHER,
       evt_timezone = or_keep (trim_opt (ced_timezone dto)) ''Africa/Accra'',
       evt_venueName = trim_opt (ced_venueName dto), evt_addressLine1 = trim_opt (ced_addressLine1 dto),
       evt_addressLine2 = trim_opt (ced_addressLine2 dto), evt_city = trim_opt (ced_city dto),
       evt_region = trim_opt (ced_region dto), evt_country = or_keep (trim_opt (ced_country dto)) ''Ghana'',
       evt_latitude = ced_latitude dto, evt_longitude = ced_longitude dto, evt_capacityHeld = 0 \<rparr>"

text \<open>
  No handler of this service opens a transaction: each reads and checks in one statement and writes
  in another, and another request may write in between. The two halves are definitions of their own,
  and a handler is the one followed by the other.
\<close>

definition createForOrganizer_read :: "string \<Rightarrow> string \<Rightarrow> CreateEventDto \<Rightarrow> (db, int \<times> int) prog" where
  "createForOrganizer_read organizerId ownerUserId dto =
     seqp (assertApprovedOwned organizerId ownerUserId)
       (assertValidDateRange (ced_startsAt dto) (ced_endsAt dto))"

definition createForOrganizer_write :: "env \<Rightarrow> string \<Rightarrow> CreateEventDto \<Rightarrow> int \<times> int \<Rightarrow> (db, Event) prog" where
  "createForOrganizer_write E organizerId dto = (\<lambda>(a, b).
     conflict_as ''event slug already exists for organizer''
       (Event_create (new_event E organizerId dto a b)))"

definition createForOrganizer :: "env \<Rightarrow> string \<Rightarrow> string \<Rightarrow> CreateEventDto \<Rightarrow> (db, Event) prog" where
  "createForOrganizer E organizerId ownerUserId dto =
     bindp (createForOrganizer_read organizerId ownerUserId dto) (createForOrganizer_write E organizerId dto)"

definition listForOwnedOrganizer :: "string \<Rightarrow> string \<Rightarrow> (db, Event list) prog" where
  "listForOwnedOrganizer organizerId ownerUserId =
     seqp (Organizers_getOwned organizerId ownerUserId) (listForOrganizer organizerId)"

definition Events_getOwned :: "string \<Rightarrow> string \<Rightarrow> (db, Event \<times> Organizer) prog" where
  "Events_getOwned eventId ownerUserId =
     bindp (Event_findOwnedByUser eventId ownerUserId) (\<lambda>event.
       case event of
         None \<Rightarrow> throw (NotFoundException ''event not found'')
       | Some eo \<Rightarrow> ret eo)"

text \<open>\<open>Some None\<close> is an invalid date, and for the capacity an explicit \<open>null\<close>.\<close>

record UpdateEventDto =
  ued_title :: "string option"
  ued_slug :: "string option"
  ued_description :: "string option"
  ued_visibility :: "EventVisibility option"
  ued_category :: "EventCategory option"
  ued_startsAt :: "int option option"
  ued_endsAt :: "int option option"
  ued_timezone :: "string option"
  ued_venueName :: "string option"
  ued_addressLine1 :: "string option"
  ued_addressLine2 :: "string option"
  ued_city :: "string option"
  ued_region :: "string option"
  ued_country :: "string option"
  ued_latitude :: "int option"
  ued_longitude :: "int option"
  ued_capacityTotal :: "int option option"

definition event_patch :: "UpdateEventDto \<Rightarrow> Event \<Rightarrow> Event" where
  "event_patch dto e = e
     \<lparr> evt_title := or_keep (map_option js_trim (ued_title dto)) (evt_title e),
       evt_slug := or_keep (map_option (\<lambda>x. js_trim (toLowerCase x)) (ued_slug dto)) (evt_slug e),
       evt_description := or_keep_opt (trim_opt (ued_description dto)) (evt_description e),
       evt_visibility := or_keep (ued_visibility dto) (evt_visibility e),
       evt_category := or_keep (ued_category dto) (evt_category e),
       evt_startsAt := or_keep (Option.bind (ued_startsAt dto) id) (evt_startsAt e),
       evt_endsAt := or_keep (Option.bind (ued_endsAt dto) id) (evt_endsAt e),
       evt_timezone := or_keep (trim_opt (ued_timezone dto)) (evt_timezone e),
       evt_venueName := or_keep_opt (trim_opt (ued_venueName dto)) (evt_venueName e),
       evt_addressLine1 := or_keep_opt (trim_opt (ued_addressLine1 dto)) (evt_addressLine1 e),
       evt_addressLine2 := or_keep_opt (trim_opt (ued_addressLine2 dto)) (evt_addressLine2 e),
       evt_city := or_keep_opt (trim_opt (ued_city dto)) (evt_city e),
       evt_region := or_keep_opt (trim_opt (ued_region dto)) (evt_region e),
       evt_country := or_keep (trim_opt (ued_country dto)) (evt_country e),
       evt_latitude := or_keep_opt (ued_latitude dto) (evt_latitude e),
       evt_longitude := or_keep_opt (ued_longitude dto) (evt_longitude e),
       evt_capacityTotal := or_keep (ued_capacityTotal dto) (evt_capacityTotal e) \<rparr>"

text \<open>The comparison \<open>capacityTotal < capacityHeld\<close> of the code, where \<open>null\<close> counts as 0.\<close>

definition capacity_below :: "int option option \<Rightarrow> int \<Rightarrow> bool" where
  "capacity_below capacityTotal held =
     (case capacityTotal of None \<Rightarrow> False | Some c \<Rightarrow> (case c of None \<Rightarrow> 0 | Some n \<Rightarrow> n) < held)"

definition updateOwned_read :: "string \<Rightarrow> string \<Rightarrow> UpdateEventDto \<Rightarrow> (db, Event) prog" where
  "updateOwned_read eventId ownerUserId dto =
     bindp (Events_getOwned eventId ownerUserId) (\<lambda>(event, organizer).
       if evt_status event = EventStatus.CANCELLED then
         throw (ForbiddenException ''cancelled event cannot be updated'')
       else if evt_status event = EventStatus.ARCHIVED then
         throw (ForbiddenException ''archived event cannot be updated'')
       else
         let nextStartsAt = or_keep (ued_startsAt dto) (Some (evt_startsAt event));
             nextEndsAt = or_keep (ued_endsAt dto) (Some (evt_endsAt event))
         in seqp (assertValidDateRange nextStartsAt nextEndsAt)
              (if capacity_below (ued_capacityTotal dto) (evt_capacityHeld event) then
                 throw (BadRequestException ''capacityTotal cannot be lower than currently held capacity'')
               else ret event))"

definition updateOwned_write :: "UpdateEventDto \<Rightarrow> Event \<Rightarrow> (db, Event) prog" where
  "updateOwned_write dto event =
     conflict_as ''event slug already exists for organizer''
       (Event_update (evt_id event) (event_patch dto))"

definition updateOwned :: "string \<Rightarrow> string \<Rightarrow> UpdateEventDto \<Rightarrow> (db, Event) prog" where
  "updateOwned eventId ownerUserId dto =
     bindp (updateOwned_read eventId ownerUserId dto) (updateOwned_write dto)"

definition assertPublishable :: "Event \<Rightarrow> (db, unit) prog" where
  "assertPublishable event =
     (if js_trim (evt_title event) = [] then throw (BadRequestException ''event title is required'')
      else if evt_endsAt event \<le> evt_startsAt event then
        throw (BadRequestException ''event end time must be after start time'')
      else if \<not> truthy (evt_venueName event) \<or> \<not> truthy (evt_city event) \<or> evt_country event = [] then
        throw (BadRequestException ''event location is required before publish'')
      else if evt_capacityTotal event \<in> {None, Some 0} \<or> (\<exists>n \<in> set_option (evt_capacityTotal event). n < 1) then
        throw (BadRequestException ''event capacity is required before publish'')
      else ret ())"

definition publishOwned_read :: "string \<Rightarrow> string \<Rightarrow> (db, Event) prog" where
  "publishOwned_read eventId ownerUserId =
     bindp (Events_getOwned eventId ownerUserId) (\<lambda>(event, organizer).
       if org_status organizer \<noteq> OrganizerStatus.APPROVED then
         throw (ForbiddenException ''organizer is not approved'')
       else if evt_status event \<noteq> EventStatus.DRAFT then
         throw (BadRequestException ''only draft events can be published'')
       else seqp (assertPublishable event) (ret event))"

definition publishOwned_write :: "env \<Rightarrow> Event \<Rightarrow> (db, Event) prog" where
  "publishOwned_write E event =
     Event_setStatus (evt_id event)
       (\<lambda>e. e\<lparr> evt_status := EventStatus.PUBLISHED, evt_publishedAt := Some (app_now E) \<rparr>)"

definition publishOwned :: "env \<Rightarrow> string \<Rightarrow> string \<Rightarrow> (db, Event) prog" where
  "publishOwned E eventId ownerUserId =
     bindp (publishOwned_read eventId ownerUserId) (publishOwned_write E)"

definition cancelOwned_read :: "string \<Rightarrow> string \<Rightarrow> (db, Event) prog" where
  "cancelOwned_read eventId ownerUserId =
     bindp (Events_getOwned eventId ownerUserId) (\<lambda>(event, organizer).
       if evt_status event \<noteq> EventStatus.PUBLISHED then
         throw (BadRequestException ''only published events can be cancelled'')
       else ret event)"

definition cancelOwned_write :: "env \<Rightarrow> Event \<Rightarrow> (db, Event) prog" where
  "cancelOwned_write E event =
     Event_setStatus (evt_id event)
       (\<lambda>e. e\<lparr> evt_status := EventStatus.CANCELLED, evt_cancelledAt := Some (app_now E) \<rparr>)"

definition cancelOwned :: "env \<Rightarrow> string \<Rightarrow> string \<Rightarrow> (db, Event) prog" where
  "cancelOwned E eventId ownerUserId =
     bindp (cancelOwned_read eventId ownerUserId) (cancelOwned_write E)"

section \<open>Runs\<close>

lemma conflict_as_Inr [prog_inv]: "conflict_as m p s = (Inr x, s') \<longleftrightarrow> p s = (Inr x, s')"
  by (auto simp: conflict_as_def prog_inv split: if_splits)

lemma conflict_as_Inl: "conflict_as m p s = (Inl e, s') \<Longrightarrow> \<exists>e1. p s = (Inl e1, s')"
  by (auto simp: conflict_as_def prog_inv split: if_splits)

lemma assertValidDateRange_Inr [prog_inv]:
  "assertValidDateRange x y s = (Inr ab, s') \<longleftrightarrow>
     (\<exists>a b. x = Some a \<and> y = Some b \<and> a < b \<and> ab = (a, b) \<and> s' = s)"
  by (auto simp: assertValidDateRange_def split: option.splits if_splits)

lemma assertValidDateRange_Inl: "assertValidDateRange x y s = (Inl e, s') \<Longrightarrow> s' = s"
  by (auto simp: assertValidDateRange_def split: option.splits if_splits)

lemma assertPublishable_state: "assertPublishable e s = (r, s') \<Longrightarrow> s' = s"
  by (auto simp: assertPublishable_def split: if_splits)

lemma Organizers_getOwned_Inr [prog_inv]:
  "Organizers_getOwned i u s = (Inr o', s') \<longleftrightarrow>
     find (\<lambda>x. org_id x = i \<and> org_ownerUserId x = u) (organizers s) = Some o' \<and> s' = s"
  by (auto simp: Organizers_getOwned_def Organizer_findOwnedByUser_def prog_inv split: option.splits)

lemma Organizers_getOwned_Inl: "Organizers_getOwned i u s = (Inl e, s') \<Longrightarrow> s' = s"
  by (auto simp: Organizers_getOwned_def Organizer_findOwnedByUser_def prog_inv split: option.splits)

lemma Events_getOwned_Inr:
  "Events_getOwned i u s = (Inr (e, o'), s') \<Longrightarrow>
     s' = s \<and> e \<in> set (events s) \<and> evt_id e = i \<and> owned_by s u e"
  by (auto simp: Events_getOwned_def Event_findOwnedByUser_def prog_inv with_organizer_def bind_eq_Some_conv
      dest!: find_Some_iff2 split: option.splits)

lemma Events_getOwned_Inl: "Events_getOwned i u s = (Inl e, s') \<Longrightarrow> s' = s"
  by (auto simp: Events_getOwned_def Event_findOwnedByUser_def prog_inv split: option.splits)

lemma createForOrganizer_read_Inr:
  "createForOrganizer_read i u dto s = (Inr (a, b), s') \<Longrightarrow> s' = s \<and> a < b"
  by (auto simp: createForOrganizer_read_def assertApprovedOwned_def prog_inv split: if_splits)

lemma createForOrganizer_read_Inl: "createForOrganizer_read i u dto s = (Inl e, s') \<Longrightarrow> s' = s"
  by (auto simp: createForOrganizer_read_def assertApprovedOwned_def prog_inv
      dest!: Organizers_getOwned_Inl assertValidDateRange_Inl split: if_splits)

text \<open>The dates an update leaves behind when it is applied to the row it was checked against.\<close>

definition dates_checked :: "UpdateEventDto \<Rightarrow> Event \<Rightarrow> bool" where
  "dates_checked dto e \<longleftrightarrow> evt_startsAt (event_patch dto e) < evt_endsAt (event_patch dto e)"

lemma dates_checkedI:
  assumes "or_keep (ued_startsAt dto) (Some (evt_startsAt e)) = Some a"
    and "or_keep (ued_endsAt dto) (Some (evt_endsAt e)) = Some b" and "a < b"
  shows "dates_checked dto e"
  using assms by (auto simp: dates_checked_def event_patch_def or_keep_def split: option.splits)

lemma updateOwned_read_Inr:
  assumes "updateOwned_read i u dto s = (Inr e, s')"
  shows "s' = s" "e \<in> set (events s)" "evt_id e = i" "owned_by s u e" "dates_checked dto e"
  using assms by (auto simp: updateOwned_read_def prog_inv Let_def dest!: Events_getOwned_Inr
      intro: dates_checkedI split: if_splits)

lemma updateOwned_read_Inl: "updateOwned_read i u dto s = (Inl e, s') \<Longrightarrow> s' = s"
  by (auto simp: updateOwned_read_def prog_inv Let_def dest!: Events_getOwned_Inr Events_getOwned_Inl
      assertValidDateRange_Inl split: if_splits)

lemma publishOwned_read_Inr:
  assumes "publishOwned_read i u s = (Inr e, s')"
  shows "s' = s" "e \<in> set (events s)" "evt_id e = i" "owned_by s u e" "evt_status e = EventStatus.DRAFT"
  using assms by (auto simp: publishOwned_read_def prog_inv dest!: Events_getOwned_Inr assertPublishable_state
      split: if_splits)

lemma publishOwned_read_Inl: "publishOwned_read i u s = (Inl e, s') \<Longrightarrow> s' = s"
  by (auto simp: publishOwned_read_def prog_inv dest!: Events_getOwned_Inr Events_getOwned_Inl
      assertPublishable_state split: if_splits)

lemma cancelOwned_read_Inr:
  assumes "cancelOwned_read i u s = (Inr e, s')"
  shows "s' = s" "e \<in> set (events s)" "evt_id e = i" "owned_by s u e" "evt_status e = EventStatus.PUBLISHED"
  using assms by (auto simp: cancelOwned_read_def prog_inv dest!: Events_getOwned_Inr split: if_splits)

lemma cancelOwned_read_Inl: "cancelOwned_read i u s = (Inl e, s') \<Longrightarrow> s' = s"
  by (auto simp: cancelOwned_read_def prog_inv dest!: Events_getOwned_Inr Events_getOwned_Inl split: if_splits)

section \<open>What a write does to the table\<close>

definition unique_events :: "db \<Rightarrow> bool" where
  "unique_events s \<longleftrightarrow> distinct (map evt_id (events s)) \<and>
     distinct (map (\<lambda>e. (evt_organizerId e, evt_slug e)) (events s))"

text \<open>
  A write edits the row \<open>e\<close> by \<open>f\<close>, keeping its identifier and its organizer, or adds a row, or does
  nothing at all; either way no two events share an identifier or one organizer's slug.
\<close>

definition event_change :: "Event \<Rightarrow> (Event \<Rightarrow> Event) \<Rightarrow> db \<Rightarrow> db \<Rightarrow> bool" where
  "event_change e f s s' \<longleftrightarrow> e \<in> set (events s) \<and>
     s' = events_update (upd_where (\<lambda>x. evt_id x = evt_id e) f) s \<and>
     (\<forall>x. evt_id (f x) = evt_id x \<and> evt_organizerId (f x) = evt_organizerId x) \<and>
     (\<forall>y\<in>set (events s). evt_id y \<noteq> evt_id e \<longrightarrow>
        (evt_organizerId e, evt_slug (f e)) \<noteq> (evt_organizerId y, evt_slug y))"

definition event_added :: "Event \<Rightarrow> db \<Rightarrow> db \<Rightarrow> bool" where
  "event_added e s s' \<longleftrightarrow> s' = events_update (\<lambda>es. es @ [e]) s \<and> \<not> list_ex (event_clash e) (events s)"

lemma event_patch_simps [simp]:
  "evt_id (event_patch dto e) = evt_id e" "evt_organizerId (event_patch dto e) = evt_organizerId e"
  "evt_status (event_patch dto e) = evt_status e" "evt_publishedAt (event_patch dto e) = evt_publishedAt e"
  "evt_cancelledAt (event_patch dto e) = evt_cancelledAt e"
  by (simp_all add: event_patch_def)

lemma find_unique_event:
  "unique_events s \<Longrightarrow> e \<in> set (events s) \<Longrightarrow> evt_id e = i \<Longrightarrow> find (\<lambda>x. evt_id x = i) (events s) = Some e"
  using find_distinct_key [of evt_id "events s" e] by (auto simp: unique_events_def)

lemma event_of_id:
  "unique_events s \<Longrightarrow> e \<in> set (events s) \<Longrightarrow> y \<in> set (events s) \<Longrightarrow> evt_id e = evt_id y \<Longrightarrow> e = y"
  using distinct_key_unique [of evt_id "events s" e y] by (simp add: unique_events_def)

lemma update_write_cases:
  assumes "updateOwned_write dto event s = (r, s')"
  shows "s' = s \<or> (\<exists>e. evt_id e = evt_id event \<and> event_change e (event_patch dto) s s')"
proof (cases r)
  case (Inl err)
  with assms show ?thesis
    by (auto simp: updateOwned_write_def Event_update_def dest!: conflict_as_Inl prisma_update_unique_Inl)
next
  case (Inr x)
  with assms obtain e where e: "find (\<lambda>y. evt_id y = evt_id event) (events s) = Some e"
    and nc: "\<not> list_ex (\<lambda>y. evt_id y \<noteq> evt_id event \<and> event_clash (event_patch dto e) y) (events s)"
    and s': "s' = events_update (upd_where (\<lambda>y. evt_id y = evt_id event) (event_patch dto)) s"
    by (auto simp: updateOwned_write_def Event_update_def prog_inv)
  from find_Some_iff2 [OF e] have mem: "e \<in> set (events s)" "evt_id e = evt_id event" by auto
  have "event_change e (event_patch dto) s s'"
    using nc by (auto simp: event_change_def mem s' list_ex_iff event_clash_def)
  with mem(2) show ?thesis by blast
qed

lemma status_write_cases:
  assumes "Event_setStatus i f s = (r, s')" and "unique_events s"
    and f: "\<And>x. evt_id (f x) = evt_id x" "\<And>x. evt_organizerId (f x) = evt_organizerId x"
      "\<And>x. evt_slug (f x) = evt_slug x"
  shows "s' = s \<or> (\<exists>e. evt_id e = i \<and> event_change e f s s')"
proof (cases r)
  case (Inl err)
  with assms(1) show ?thesis by (simp add: Event_setStatus_def prog_inv)
next
  case (Inr x)
  with assms(1) obtain e where e: "find (\<lambda>y. evt_id y = i) (events s) = Some e"
    and s': "s' = events_update (upd_where (\<lambda>y. evt_id y = i) f) s"
    by (auto simp: Event_setStatus_def prog_inv)
  from find_Some_iff2 [OF e] have mem: "e \<in> set (events s)" "evt_id e = i" by auto
  have "\<forall>y\<in>set (events s). evt_id y \<noteq> evt_id e \<longrightarrow>
      (evt_organizerId e, evt_slug (f e)) \<noteq> (evt_organizerId y, evt_slug y)"
    using assms(2) mem(1) distinct_key_unique [of "\<lambda>e. (evt_organizerId e, evt_slug e)" "events s" e]
    by (auto simp: f unique_events_def)
  with mem s' f show ?thesis by (auto simp: event_change_def)
qed

lemma create_write_cases:
  assumes "createForOrganizer_write E i dto (a, b) s = (r, s')"
  shows "s' = s \<or> event_added (new_event E i dto a b) s s'"
  using assms
  by (cases r) (auto simp: createForOrganizer_write_def Event_create_def prog_inv event_added_def dest!: conflict_as_Inl)

lemma distinct_edit_key:
  assumes "distinct (map evt_id es)" and "distinct (map k es)" and "e \<in> set es" and "evt_id e = i"
    and "\<forall>y\<in>set es. evt_id y \<noteq> i \<longrightarrow> k (f e) \<noteq> k y"
  shows "distinct (map k (upd_where (\<lambda>x. evt_id x = i) f es))"
  using assms
proof (induction es)
  case (Cons y ys)
  show ?case
  proof (cases "evt_id y = i")
    case True
    with Cons.prems have "e = y" and rest: "\<And>x. x \<in> set ys \<Longrightarrow> evt_id x \<noteq> i" by (auto simp: rev_image_eqI)
    then have "upd_where (\<lambda>x. evt_id x = i) f ys = ys" by (auto intro: upd_where_id)
    moreover have "k (f y) \<notin> k ` set ys" using Cons.prems(5) rest \<open>e = y\<close> by auto
    ultimately show ?thesis using True Cons.prems(2) by simp
  next
    case False
    with Cons.prems have e: "e \<in> set ys" by auto
    have "k y \<noteq> k (if evt_id x = i then f x else x)" if "x \<in> set ys" for x
    proof (cases "evt_id x = i")
      case True
      have "x = e" using Cons.prems(1,4) True that e distinct_key_unique [of evt_id ys x e] by auto
      with True False Cons.prems(5) show ?thesis by fastforce
    next
      case False
      then show ?thesis using Cons.prems(2) that by auto
    qed
    then have "k y \<notin> k ` set (upd_where (\<lambda>x. evt_id x = i) f ys)" unfolding set_upd_where by blast
    moreover have "distinct (map k (upd_where (\<lambda>x. evt_id x = i) f ys))"
      using Cons.prems e by (intro Cons.IH) auto
    ultimately show ?thesis using False by simp
  qed
qed simp

text \<open>A property of single rows is kept when the new or the edited row has it.\<close>

lemma change_keeps:
  assumes "event_change e f s s'" and u: "unique_events s"
  shows "unique_events s'" and "list_all P (events s) \<Longrightarrow> P (f e) \<Longrightarrow> list_all P (events s')"
proof -
  from assms(1) have e: "e \<in> set (events s)" and s': "s' = events_update (upd_where (\<lambda>x. evt_id x = evt_id e) f) s"
    and f: "\<And>x. evt_id (f x) = evt_id x" "\<And>x. evt_organizerId (f x) = evt_organizerId x"
    and slug: "\<forall>y\<in>set (events s). evt_id y \<noteq> evt_id e \<longrightarrow>
      (evt_organizerId e, evt_slug (f e)) \<noteq> (evt_organizerId y, evt_slug y)"
    by (auto simp: event_change_def)
  from u have d: "distinct (map evt_id (events s))" "distinct (map (\<lambda>e. (evt_organizerId e, evt_slug e)) (events s))"
    by (simp_all add: unique_events_def)
  have "distinct (map evt_id (events s'))" using d(1) f(1) by (simp add: s' map_key_upd_where)
  moreover have "distinct (map (\<lambda>e. (evt_organizerId e, evt_slug e)) (events s'))"
    using distinct_edit_key [OF d e refl, of f] slug by (simp add: s' f(2))
  ultimately show "unique_events s'" by (simp add: unique_events_def)
  show "list_all P (events s')" if all: "list_all P (events s)" "P (f e)"
  proof (unfold list_all_iff, rule ballI)
    fix x
    assume "x \<in> set (events s')"
    then obtain y where y: "y \<in> set (events s)" "x = (if evt_id y = evt_id e then f y else y)"
      by (auto simp: s' set_upd_where)
    with event_of_id [OF u y(1) e] all show "P x" by (auto simp: list_all_iff)
  qed
qed

lemma added_keeps:
  assumes "event_added e s s'" and "unique_events s"
  shows "unique_events s'" and "list_all P (events s) \<Longrightarrow> P e \<Longrightarrow> list_all P (events s')"
  using assms by (auto simp: event_added_def unique_events_def list_ex_iff event_clash_def)

section \<open>One call at a time\<close>

text \<open>
  What an owner's call is when nothing runs between its read and its write: nothing, or one edit of
  the row with that identifier, which the caller owns, that follows the life cycle and keeps the
  dates in order and the times of the life cycle in place.
\<close>

definition life_cycle :: "EventStatus \<Rightarrow> EventStatus \<Rightarrow> bool" where
  "life_cycle a b \<longleftrightarrow> a = b \<or> (a = EventStatus.DRAFT \<and> b = EventStatus.PUBLISHED) \<or>
     (a = EventStatus.PUBLISHED \<and> b = EventStatus.CANCELLED)"

definition stamped :: "Event \<Rightarrow> bool" where
  "stamped e \<longleftrightarrow> evt_startsAt e < evt_endsAt e \<and>
     (case evt_status e of
        EventStatus.DRAFT \<Rightarrow> evt_publishedAt e = None \<and> evt_cancelledAt e = None
      | EventStatus.PUBLISHED \<Rightarrow> evt_publishedAt e \<noteq> None \<and> evt_cancelledAt e = None
      | EventStatus.CANCELLED \<Rightarrow> evt_publishedAt e \<noteq> None \<and> evt_cancelledAt e \<noteq> None
      | EventStatus.ARCHIVED \<Rightarrow> False)"

definition event_edit :: "string \<Rightarrow> string \<Rightarrow> db \<Rightarrow> db \<Rightarrow> bool" where
  "event_edit u i s s' \<longleftrightarrow> s' = s \<or>
     (\<exists>e f. evt_id e = i \<and> owned_by s u e \<and> event_change e f s s' \<and>
        life_cycle (evt_status e) (evt_status (f e)) \<and> (stamped e \<longrightarrow> stamped (f e)))"

lemma edit_by:
  assumes "s' = s \<or> (\<exists>f. event_change e f s s' \<and> evt_status (f e) = st \<and> (stamped e \<longrightarrow> stamped (f e)))"
    and "evt_id e = i" and "owned_by s u e" and "life_cycle (evt_status e) st"
  shows "event_edit u i s s'"
  using assms(1)
proof (elim disjE exE conjE)
  fix f
  assume f: "event_change e f s s'" "evt_status (f e) = st" "stamped e \<longrightarrow> stamped (f e)"
  with assms(2-4) show ?thesis unfolding event_edit_def by (intro disjI2 exI [of _ e] exI [of _ f]) simp
qed (simp add: event_edit_def)

text \<open>Each write, applied to the row its request read.\<close>

lemma update_undisturbed:
  assumes "updateOwned_write dto e s = (r, s')" and u: "unique_events s"
    and "e \<in> set (events s)" and "dates_checked dto e"
  shows "s' = s \<or> (\<exists>f. event_change e f s s' \<and> evt_status (f e) = evt_status e \<and> (stamped e \<longrightarrow> stamped (f e)))"
proof -
  have "stamped e \<longrightarrow> stamped (event_patch dto e)"
    using assms(4) by (auto simp: stamped_def dates_checked_def split: EventStatus.splits)
  moreover have "y = e" if "evt_id y = evt_id e" "event_change y (event_patch dto) s s'" for y
    using that event_of_id [OF u _ assms(3), of y] by (simp add: event_change_def)
  ultimately show ?thesis using update_write_cases [OF assms(1)]
    by (auto intro!: exI [of _ "event_patch dto"])
qed

lemma status_undisturbed:
  assumes "Event_setStatus (evt_id e) f s = (r, s')" and u: "unique_events s" and "e \<in> set (events s)"
    and "\<And>x. evt_id (f x) = evt_id x" "\<And>x. evt_organizerId (f x) = evt_organizerId x"
      "\<And>x. evt_slug (f x) = evt_slug x"
  shows "s' = s \<or> event_change e f s s'"
proof -
  have "y = e" if "evt_id y = evt_id e" "event_change y f s s'" for y
    using that event_of_id [OF u _ assms(3), of y] by (simp add: event_change_def)
  then show ?thesis using status_write_cases [OF assms(1,2,4-6)] by auto
qed

lemma publish_undisturbed:
  assumes "publishOwned_write E e s = (r, s')" and "unique_events s" and "e \<in> set (events s)"
    and "evt_status e = EventStatus.DRAFT"
  shows "s' = s \<or> (\<exists>f. event_change e f s s' \<and> evt_status (f e) = EventStatus.PUBLISHED \<and> (stamped e \<longrightarrow> stamped (f e)))"
  using status_undisturbed [OF assms(1) [unfolded publishOwned_write_def] assms(2,3)] assms(4)
  by (auto simp: stamped_def intro!: exI [of _ "\<lambda>e. e\<lparr> evt_status := EventStatus.PUBLISHED, evt_publishedAt := Some (app_now E) \<rparr>"])

lemma cancel_undisturbed:
  assumes "cancelOwned_write E e s = (r, s')" and "unique_events s" and "e \<in> set (events s)"
    and "evt_status e = EventStatus.PUBLISHED"
  shows "s' = s \<or> (\<exists>f. event_change e f s s' \<and> evt_status (f e) = EventStatus.CANCELLED \<and> (stamped e \<longrightarrow> stamped (f e)))"
  using status_undisturbed [OF assms(1) [unfolded cancelOwned_write_def] assms(2,3)] assms(4)
  by (auto simp: stamped_def intro!: exI [of _ "\<lambda>e. e\<lparr> evt_status := EventStatus.CANCELLED, evt_cancelledAt := Some (app_now E) \<rparr>"])

lemma updateOwned_edit:
  assumes "updateOwned i u dto s = (r, s')" and "unique_events s"
  shows "event_edit u i s s'"
proof (cases "updateOwned_read i u dto s")
  case (Pair q s1)
  show ?thesis
  proof (cases q)
    case (Inl err)
    with Pair assms(1) updateOwned_read_Inl show ?thesis by (fastforce simp: updateOwned_def bindp_def event_edit_def)
  next
    case (Inr e)
    note rd = updateOwned_read_Inr [OF Pair [unfolded Inr]]
    from assms(1) Pair Inr rd(1) have "updateOwned_write dto e s = (r, s')" by (simp add: updateOwned_def bindp_def)
    from edit_by [OF update_undisturbed [OF this assms(2) rd(2,5)] rd(3,4)] rd(5) show ?thesis
      by (simp add: life_cycle_def)
  qed
qed

lemma publishOwned_edit:
  assumes "publishOwned E i u s = (r, s')" and "unique_events s"
  shows "event_edit u i s s'"
proof (cases "publishOwned_read i u s")
  case (Pair q s1)
  show ?thesis
  proof (cases q)
    case (Inl err)
    with Pair assms(1) publishOwned_read_Inl show ?thesis by (fastforce simp: publishOwned_def bindp_def event_edit_def)
  next
    case (Inr e)
    note rd = publishOwned_read_Inr [OF Pair [unfolded Inr]]
    from assms(1) Pair Inr rd(1) have "publishOwned_write E e s = (r, s')" by (simp add: publishOwned_def bindp_def)
    from edit_by [OF publish_undisturbed [OF this assms(2) rd(2,5)] rd(3,4)] rd(5) show ?thesis
      by (simp add: life_cycle_def)
  qed
qed

lemma cancelOwned_edit:
  assumes "cancelOwned E i u s = (r, s')" and "unique_events s"
  shows "event_edit u i s s'"
proof (cases "cancelOwned_read i u s")
  case (Pair q s1)
  show ?thesis
  proof (cases q)
    case (Inl err)
    with Pair assms(1) cancelOwned_read_Inl show ?thesis by (fastforce simp: cancelOwned_def bindp_def event_edit_def)
  next
    case (Inr e)
    note rd = cancelOwned_read_Inr [OF Pair [unfolded Inr]]
    from assms(1) Pair Inr rd(1) have "cancelOwned_write E e s = (r, s')" by (simp add: cancelOwned_def bindp_def)
    from edit_by [OF cancel_undisturbed [OF this assms(2) rd(2,5)] rd(3,4)] rd(5) show ?thesis
      by (simp add: life_cycle_def)
  qed
qed

text \<open>The calls that change an event: \<open>u\<close> is the caller and \<open>i\<close> the event named in the request.\<close>

inductive owner_call :: "string \<Rightarrow> string \<Rightarrow> db \<Rightarrow> db \<Rightarrow> bool" where
  call_update: "updateOwned i u dto s = (r, s') \<Longrightarrow> owner_call u i s s'"
| call_publish: "publishOwned E i u s = (r, s') \<Longrightarrow> owner_call u i s s'"
| call_cancel: "cancelOwned E i u s = (r, s') \<Longrightarrow> owner_call u i s s'"

lemma owner_call_edit: "owner_call u i s s' \<Longrightarrow> unique_events s \<Longrightarrow> event_edit u i s s'"
  by (induction rule: owner_call.induct) (auto intro: updateOwned_edit publishOwned_edit cancelOwned_edit)

inductive serial_step :: "db \<Rightarrow> db \<Rightarrow> bool" where
  serial_owner: "owner_call u i s s' \<Longrightarrow> serial_step s s'"
| serial_create: "createForOrganizer E organizerId u dto s = (r, s') \<Longrightarrow> serial_step s s'"
| serial_organizer: "Organizers_create E u odto s = (ro, s') \<Longrightarrow> serial_step s s'"
| serial_organizer_update: "Organizers_updateOwned j u udto s = (ro, s') \<Longrightarrow> serial_step s s'"
| serial_organizer_submit: "submitForReview j u s = (ro, s') \<Longrightarrow> serial_step s s'"

definition catalog_inv :: "db \<Rightarrow> bool" where
  "catalog_inv s \<longleftrightarrow> unique_events s \<and> list_all stamped (events s)"

lemma change_keeps_inv:
  assumes "event_change e f s s'" and "stamped e \<longrightarrow> stamped (f e)" and "catalog_inv s"
  shows "catalog_inv s'"
proof -
  from assms(3) have u: "unique_events s" and st: "list_all stamped (events s)" by (simp_all add: catalog_inv_def)
  have "stamped (f e)" using assms(1,2) st by (auto simp: event_change_def list_all_iff)
  with change_keeps [OF assms(1) u] st show ?thesis by (simp add: catalog_inv_def)
qed

lemma edit_keeps_inv: "event_edit u i s s' \<Longrightarrow> catalog_inv s \<Longrightarrow> catalog_inv s'"
  by (auto simp: event_edit_def intro: change_keeps_inv)

lemma insert_keeps_inv:
  assumes "createForOrganizer_write E i dto (a, b) s = (r, s')" and "a < b" and "catalog_inv s"
  shows "catalog_inv s'"
proof -
  have "stamped (new_event E i dto a b)" using assms(2) by (simp add: stamped_def new_event_def)
  with create_write_cases [OF assms(1)] assms(3) added_keeps [of "new_event E i dto a b" s s'] show ?thesis
    by (auto simp: catalog_inv_def)
qed

lemma create_keeps_inv:
  assumes "createForOrganizer E organizerId u dto s = (r, s')" and "catalog_inv s"
  shows "catalog_inv s'"
proof (cases "createForOrganizer_read organizerId u dto s")
  case (Pair q s1)
  show ?thesis
  proof (cases q)
    case (Inl err)
    with Pair assms createForOrganizer_read_Inl show ?thesis by (fastforce simp: createForOrganizer_def bindp_def)
  next
    case (Inr ab)
    obtain a b where ab: "ab = (a, b)" by (cases ab)
    note rd = createForOrganizer_read_Inr [OF Pair [unfolded Inr ab]]
    from assms(1) Pair Inr ab rd have "createForOrganizer_write E organizerId dto (a, b) s = (r, s')"
      by (simp add: createForOrganizer_def bindp_def)
    with rd assms(2) show ?thesis by (blast intro: insert_keeps_inv)
  qed
qed

lemma organizer_frame:
  "Organizers_create E u odto s = (ro, s') \<Longrightarrow> events s' = events s"
  "Organizers_updateOwned j u udto s = (ro, s') \<Longrightarrow> events s' = events s"
  "submitForReview j u s = (ro, s') \<Longrightarrow> events s' = events s"
  by (cases ro; auto simp: Organizers_create_def Organizer_create_def prog_inv dest!: conflict_as_Inl)
    (cases ro; auto simp: Organizers_updateOwned_def Organizer_update_def submitForReview_def
        Organizer_setStatus_def prog_inv
        dest!: conflict_as_Inl Organizers_getOwned_Inl prisma_update_unique_Inl split: if_splits)+

lemma serial_step_inv: "serial_step s s' \<Longrightarrow> catalog_inv s \<Longrightarrow> catalog_inv s'"
proof (induction rule: serial_step.induct)
  case (serial_owner u i s s')
  then have "event_edit u i s s'" by (intro owner_call_edit) (simp_all add: catalog_inv_def)
  with serial_owner show ?case by (blast intro: edit_keeps_inv)
next
  case (serial_create E organizerId u dto s r s')
  then show ?case by (blast intro: create_keeps_inv)
qed (auto simp: catalog_inv_def unique_events_def dest!: organizer_frame)

interpretation serial: transition_system "\<lambda>s. events s = []" serial_step catalog_inv
  by unfold_locales (simp add: catalog_inv_def unique_events_def, rule serial_step_inv)

text \<open>
  While calls follow one another, whatever organizers and owners do, event identifiers and the slugs
  of one organizer stay unique, every event ends after it starts, a draft was never published, a
  published event carries its publication time and no cancellation time, a cancelled one both.
\<close>

lemma serial_catalog:
  assumes "events s = []" and "serial_step\<^sup>*\<^sup>* s t"
  shows "unique_events t \<and> list_all stamped (events t)"
  using serial.reachable_inv [OF assms] by (simp add: catalog_inv_def)

section \<open>Requests in flight\<close>

text \<open>
  Between the read of one request and its write anything may happen. A request is what the client
  asks for, a write is what is left of it once it has read and checked: the statement it will send,
  with the event as it was read. The time and the fresh identifiers are taken when the write is sent.
\<close>

datatype owner_request =
  Create_event string CreateEventDto
| Update_event string UpdateEventDto
| Publish_event string
| Cancel_event string

datatype owner_write =
  Insert_event string CreateEventDto int int
| Patch_event UpdateEventDto Event
| Set_published Event
| Set_cancelled Event

definition read_request :: "string \<Rightarrow> owner_request \<Rightarrow> (db, owner_write) prog" where
  "read_request u rq =
     (case rq of
        Create_event organizerId dto \<Rightarrow>
          bindp (createForOrganizer_read organizerId u dto) (\<lambda>(a, b). ret (Insert_event organizerId dto a b))
      | Update_event i dto \<Rightarrow> bindp (updateOwned_read i u dto) (\<lambda>e. ret (Patch_event dto e))
      | Publish_event i \<Rightarrow> bindp (publishOwned_read i u) (\<lambda>e. ret (Set_published e))
      | Cancel_event i \<Rightarrow> bindp (cancelOwned_read i u) (\<lambda>e. ret (Set_cancelled e)))"

definition run_write :: "env \<Rightarrow> owner_write \<Rightarrow> (db, Event) prog" where
  "run_write E w =
     (case w of
        Insert_event organizerId dto a b \<Rightarrow> createForOrganizer_write E organizerId dto (a, b)
      | Patch_event dto e \<Rightarrow> updateOwned_write dto e
      | Set_published e \<Rightarrow> publishOwned_write E e
      | Set_cancelled e \<Rightarrow> cancelOwned_write E e)"

lemma handlers_read_then_write:
  "createForOrganizer E i u dto s = bindp (read_request u (Create_event i dto)) (run_write E) s"
  "updateOwned i u udto s = bindp (read_request u (Update_event i udto)) (run_write E) s"
  "publishOwned E i u s = bindp (read_request u (Publish_event i)) (run_write E) s"
  "cancelOwned E i u s = bindp (read_request u (Cancel_event i)) (run_write E) s"
  by (auto simp: createForOrganizer_def updateOwned_def publishOwned_def cancelOwned_def read_request_def
      run_write_def bindp_def split: prod.splits sum.splits)

text \<open>
  The catalogue and the writes in flight. The services of the organizers read and write in separate
  statements as well; they never touch an event, so their statements come at any moment with any data.
\<close>

inductive catalog_step :: "db \<times> owner_write list \<Rightarrow> db \<times> owner_write list \<Rightarrow> bool" where
  step_read: "read_request u rq s = (Inr w, s') \<Longrightarrow> catalog_step (s, ws) (s', w # ws)"
| step_write: "w \<in> set ws \<Longrightarrow> run_write E w s = (r, s') \<Longrightarrow> catalog_step (s, ws) (s', remove1 w ws)"
| step_organizer_create: "Organizer_create data s = (ro, s') \<Longrightarrow> catalog_step (s, ws) (s', ws)"
| step_organizer_update: "Organizer_update j f s = (ro, s') \<Longrightarrow> catalog_step (s, ws) (s', ws)"
| step_organizer_status: "Organizer_setStatus j st s = (ro, s') \<Longrightarrow> catalog_step (s, ws) (s', ws)"

text \<open>An explicit schedule of such steps, which computes.\<close>

datatype catalog_move = Read_request string owner_request | Run_write env nat

fun move :: "catalog_move \<Rightarrow> db \<times> owner_write list \<Rightarrow> db \<times> owner_write list" where
  "move (Read_request u rq) (s, ws) =
     (case read_request u rq s of (Inl _, _) \<Rightarrow> (s, ws) | (Inr w, s') \<Rightarrow> (s', w # ws))"
| "move (Run_write E n) (s, ws) =
     (if n < length ws then (snd (run_write E (ws ! n) s), remove1 (ws ! n) ws) else (s, ws))"

lemma move_steps: "catalog_step\<^sup>*\<^sup>* c (move m c)"
proof (cases c)
  case (Pair s ws)
  show ?thesis
  proof (cases m)
    case (Read_request u rq)
    then show ?thesis using Pair by (auto intro!: step_read split: prod.splits sum.splits)
  next
    case (Run_write E n)
    then show ?thesis using Pair
      by (auto intro!: r_into_rtranclp step_write [where E = E and r = "fst (run_write E (ws ! n) s)"])
  qed
qed

lemma moves_steps: "catalog_step\<^sup>*\<^sup>* c (fold move ms c)"
proof (induction ms arbitrary: c)
  case (Cons m ms)
  then show ?case using rtranclp_trans [OF move_steps Cons.IH] by simp
qed simp

text \<open>A call that nothing interrupts is one such run.\<close>

lemma undisturbed_run:
  assumes "bindp (read_request u rq) (run_write E) s = (r, s')"
  shows "catalog_step\<^sup>*\<^sup>* (s, ws) (s', ws) \<or> (\<exists>e. read_request u rq s = (Inl e, s'))"
proof (cases "read_request u rq s")
  case (Pair q s1)
  show ?thesis
  proof (cases q)
    case (Inr w)
    with Pair assms have "run_write E w s1 = (r, s')" by (simp add: bindp_def)
    then have "catalog_step (s1, w # ws) (s', remove1 w (w # ws))" by (intro step_write) simp_all
    moreover have "catalog_step (s, ws) (s1, w # ws)" using Pair Inr by (auto intro: step_read)
    ultimately show ?thesis by (simp add: converse_rtranclp_into_rtranclp)
  qed (use Pair assms in \<open>simp add: bindp_def\<close>)
qed

lemma read_request_Inl: "read_request u rq s = (Inl e, s') \<Longrightarrow> s' = s"
  by (cases rq) (auto simp: read_request_def prog_inv dest: createForOrganizer_read_Inl updateOwned_read_Inl
      publishOwned_read_Inl cancelOwned_read_Inl)

lemma calls_are_runs:
  assumes "s' = snd (createForOrganizer E i u dto s) \<or> s' = snd (updateOwned i u udto s) \<or>
    s' = snd (publishOwned E i u s) \<or> s' = snd (cancelOwned E i u s)"
  shows "catalog_step\<^sup>*\<^sup>* (s, ws) (s', ws)"
proof -
  from assms obtain rq r where "bindp (read_request u rq) (run_write E) s = (r, s')"
    unfolding handlers_read_then_write [where E = E] by (metis prod.collapse)
  with undisturbed_run read_request_Inl show ?thesis by blast
qed

section \<open>What survives the races\<close>

text \<open>
  Of the rules that hold for one call at a time, those a write cannot break whatever it read: a draft
  was never published, a published event has been published, a cancelled one has been published and
  cancelled. That a published event was not cancelled, and that an event ends after it starts, is
  lost (below).
\<close>

definition time_stamped :: "Event \<Rightarrow> bool" where
  "time_stamped e \<longleftrightarrow>
     (case evt_status e of
        EventStatus.DRAFT \<Rightarrow> evt_publishedAt e = None \<and> evt_cancelledAt e = None
      | EventStatus.PUBLISHED \<Rightarrow> evt_publishedAt e \<noteq> None
      | EventStatus.CANCELLED \<Rightarrow> evt_publishedAt e \<noteq> None \<and> evt_cancelledAt e \<noteq> None
      | EventStatus.ARCHIVED \<Rightarrow> False)"

text \<open>What an event is later: the same event of the same organizer, a draft only if it was one.\<close>

definition event_later :: "Event \<Rightarrow> Event \<Rightarrow> bool" where
  "event_later e e' \<longleftrightarrow> evt_id e' = evt_id e \<and> evt_organizerId e' = evt_organizerId e \<and>
     (evt_status e' = EventStatus.DRAFT \<longrightarrow> evt_status e = EventStatus.DRAFT)"

definition all_later :: "db \<Rightarrow> db \<Rightarrow> bool" where
  "all_later s s' \<longleftrightarrow> list_all (\<lambda>e. list_ex (event_later e) (events s')) (events s)"

lemma event_later_refl [simp]: "event_later e e"
  by (simp add: event_later_def)

lemma event_later_trans: "event_later a b \<Longrightarrow> event_later b c \<Longrightarrow> event_later a c"
  by (simp add: event_later_def)

lemma all_later_refl: "events s' = events s \<Longrightarrow> all_later s s'"
  by (auto simp: all_later_def list_all_iff list_ex_iff intro: event_later_refl)

lemma all_later_trans: "all_later s t \<Longrightarrow> all_later t v \<Longrightarrow> all_later s v"
  unfolding all_later_def list_all_iff list_ex_iff by (meson event_later_trans)

lemma later_change:
  assumes "event_change e f s s'" and "unique_events s" and "event_later e (f e)"
  shows "all_later s s'"
proof (unfold all_later_def list_all_iff list_ex_iff, rule ballI)
  fix x
  assume x: "x \<in> set (events s)"
  from assms(1) have e: "e \<in> set (events s)" and s': "s' = events_update (upd_where (\<lambda>y. evt_id y = evt_id e) f) s"
    by (auto simp: event_change_def)
  have "(if evt_id x = evt_id e then f x else x) \<in> set (events s')"
    using upd_where_mem [OF x, of "\<lambda>y. evt_id y = evt_id e" f] by (simp add: s')
  moreover have "event_later x (if evt_id x = evt_id e then f x else x)"
    using event_of_id [OF assms(2) x e] assms(3) by auto
  ultimately show "\<exists>y\<in>set (events s'). event_later x y" by blast
qed

lemma later_added: "event_added e s s' \<Longrightarrow> all_later s s'"
  by (auto simp: event_added_def all_later_def list_all_iff list_ex_iff intro: event_later_refl)

text \<open>A cancellation in flight is of an event that has been published.\<close>

definition in_flight_ok :: "db \<Rightarrow> owner_write \<Rightarrow> bool" where
  "in_flight_ok s w =
     (case w of
        Set_cancelled e \<Rightarrow> list_ex (\<lambda>x. evt_id x = evt_id e \<and> evt_status x \<noteq> EventStatus.DRAFT) (events s)
      | _ \<Rightarrow> True)"

definition race_inv :: "db \<times> owner_write list \<Rightarrow> bool" where
  "race_inv = (\<lambda>(s, ws). unique_events s \<and> list_all time_stamped (events s) \<and> list_all (in_flight_ok s) ws)"

lemma patch_in_race [simp]:
  "time_stamped (event_patch dto e) \<longleftrightarrow> time_stamped e" "event_later e (event_patch dto e)"
  by (simp_all add: time_stamped_def event_later_def split: EventStatus.split)

lemma in_flight_later: "all_later s s' \<Longrightarrow> in_flight_ok s w \<Longrightarrow> in_flight_ok s' w"
  by (auto simp: in_flight_ok_def all_later_def list_all_iff list_ex_iff event_later_def split: owner_write.splits)
    metis

lemma change_in_race:
  assumes "event_change e f s s'" and "unique_events s" and "list_all time_stamped (events s)"
    and "time_stamped e \<Longrightarrow> time_stamped (f e)" and "event_later e (f e)"
  shows "unique_events s' \<and> list_all time_stamped (events s') \<and> all_later s s'"
proof -
  have "time_stamped e" using assms(1,3) by (auto simp: event_change_def list_all_iff)
  with change_keeps [OF assms(1,2)] later_change [OF assms(1,2,5)] assms(3,4) show ?thesis by simp
qed

lemma write_in_race:
  assumes "run_write E w s = (r, s')" and u: "unique_events s" and st: "list_all time_stamped (events s)"
    and ok: "in_flight_ok s w"
  shows "unique_events s' \<and> list_all time_stamped (events s') \<and> all_later s s'"
proof -
  have same: ?thesis if "s' = s" using that u st by (simp add: all_later_refl)
  note edit = change_in_race [OF _ u st]
  show ?thesis
  proof (cases w)
    case (Insert_event i dto a b)
    with assms(1) create_write_cases [of E i dto a b s r s'] same
      added_keeps(1) [OF _ u] added_keeps(2) [OF _ u st] later_added
    show ?thesis by (fastforce simp: run_write_def time_stamped_def new_event_def)
  next
    case (Patch_event dto e)
    with assms(1) update_write_cases [of dto e s r s'] same edit [of _ "event_patch dto" s']
    show ?thesis by (auto simp: run_write_def)
  next
    case (Set_published e)
    let ?f = "\<lambda>e. e\<lparr> evt_status := EventStatus.PUBLISHED, evt_publishedAt := Some (app_now E) \<rparr>"
    from assms(1) Set_published have "s' = s \<or> (\<exists>y. evt_id y = evt_id e \<and> event_change y ?f s s')"
      by (intro status_write_cases [OF _ u]) (simp_all add: run_write_def publishOwned_write_def)
    then show ?thesis using same edit [of _ ?f s'] by (auto simp: time_stamped_def event_later_def)
  next
    case (Set_cancelled e)
    let ?f = "\<lambda>e. e\<lparr> evt_status := EventStatus.CANCELLED, evt_cancelledAt := Some (app_now E) \<rparr>"
    have "time_stamped (?f y)" if y: "evt_id y = evt_id e" "event_change y ?f s s'" for y
    proof -
      from ok Set_cancelled obtain x where x: "x \<in> set (events s)" "evt_id x = evt_id e" "evt_status x \<noteq> EventStatus.DRAFT"
        by (auto simp: in_flight_ok_def list_ex_iff)
      with y event_of_id [OF u x(1), of y] have "y = x" by (simp add: event_change_def)
      with x st show ?thesis by (cases "evt_status x") (auto simp: time_stamped_def list_all_iff)
    qed
    moreover from assms(1) Set_cancelled have "s' = s \<or> (\<exists>y. evt_id y = evt_id e \<and> event_change y ?f s s')"
      by (intro status_write_cases [OF _ u]) (simp_all add: run_write_def cancelOwned_write_def)
    ultimately show ?thesis using same edit [of _ ?f s'] by (auto simp: event_later_def)
  qed
qed

lemma read_in_race:
  assumes "read_request u rq s = (Inr w, s')" and "list_all time_stamped (events s)"
  shows "s' = s \<and> in_flight_ok s w"
proof (cases rq)
  case (Cancel_event i)
  with assms(1) obtain e where "cancelOwned_read i u s = (Inr e, s')" "w = Set_cancelled e"
    by (auto simp: read_request_def prog_inv)
  with cancelOwned_read_Inr [of i u s e s'] show ?thesis by (auto simp: in_flight_ok_def list_ex_iff intro: bexI [of _ e])
qed (use assms in \<open>auto simp: read_request_def prog_inv in_flight_ok_def
  dest!: createForOrganizer_read_Inr updateOwned_read_Inr(1) publishOwned_read_Inr(1)\<close>)

lemma organizer_statements:
  "Organizer_create data s = (ro, s') \<Longrightarrow> events s' = events s"
  "Organizer_update j f s = (ro, s') \<Longrightarrow> events s' = events s"
  "Organizer_setStatus j st s = (ro, s') \<Longrightarrow> events s' = events s"
  by (cases ro; auto simp: Organizer_create_def Organizer_update_def Organizer_setStatus_def prog_inv
      dest!: prisma_update_unique_Inl)+

lemma race_frame: "events s' = events s \<Longrightarrow> race_inv (s, ws) \<Longrightarrow> race_inv (s', ws)"
  by (auto simp: race_inv_def unique_events_def in_flight_ok_def list_all_iff split: owner_write.splits)

lemma catalog_step_inv:
  "catalog_step c c' \<Longrightarrow> race_inv c \<Longrightarrow> race_inv c' \<and> all_later (fst c) (fst c')"
proof (induction rule: catalog_step.induct)
  case (step_read u rq s w s' ws)
  then show ?case using read_in_race [OF step_read(1)] by (auto simp: race_inv_def all_later_refl)
next
  case (step_write w ws E s r s')
  then have "unique_events s' \<and> list_all time_stamped (events s') \<and> all_later s s'"
    by (intro write_in_race [OF step_write(2)]) (auto simp: race_inv_def list_all_iff)
  moreover have "list_all (in_flight_ok s) (remove1 w ws)"
    using step_write.prems notin_set_remove1 [of _ ws w] by (auto simp: race_inv_def list_all_iff)
  ultimately show ?case by (auto simp: race_inv_def list_all_iff intro: in_flight_later)
qed (auto dest!: organizer_statements intro: race_frame all_later_refl)

interpretation catalog: transition_system "\<lambda>(s, ws). events s = [] \<and> ws = []" catalog_step race_inv
  by unfold_locales (auto simp: race_inv_def unique_events_def dest: catalog_step_inv)

lemma race_later: "catalog_step\<^sup>*\<^sup>* c c' \<Longrightarrow> race_inv c \<Longrightarrow> all_later (fst c) (fst c')"
proof (induction rule: rtranclp_induct)
  case (step c1 c2)
  with catalog.steps_inv [of c c1] catalog_step_inv [of c1 c2] show ?case by (blast intro: all_later_trans)
qed (simp add: all_later_refl)

text \<open>
  A write that finds the row as its request read it keeps every rule, whatever happened to other
  events in between.
\<close>

definition undisturbed :: "db \<Rightarrow> owner_write \<Rightarrow> bool" where
  "undisturbed s w =
     (case w of
        Insert_event organizerId dto a b \<Rightarrow> True
      | Patch_event dto e \<Rightarrow> e \<in> set (events s)
      | Set_published e \<Rightarrow> e \<in> set (events s)
      | Set_cancelled e \<Rightarrow> e \<in> set (events s))"

lemma undisturbed_keeps:
  assumes "read_request u rq s0 = (Inr w, s1)" and "undisturbed s w" and inv: "catalog_inv s"
    and "run_write E w s = (r, s')"
  shows "catalog_inv s'"
proof -
  from inv have un: "unique_events s" by (simp add: catalog_inv_def)
  show ?thesis
  proof (cases rq)
    case (Create_event i dto)
    with assms(1) obtain a b where "createForOrganizer_read i u dto s0 = (Inr (a, b), s1)" "w = Insert_event i dto a b"
      by (auto simp: read_request_def prog_inv)
    with assms(4) inv createForOrganizer_read_Inr show ?thesis
      by (fastforce simp: run_write_def intro: insert_keeps_inv)
  next
    case (Update_event i dto)
    with assms(1) obtain e where rd: "updateOwned_read i u dto s0 = (Inr e, s1)" and w: "w = Patch_event dto e"
      by (auto simp: read_request_def prog_inv)
    from assms(2,4) w have wr: "updateOwned_write dto e s = (r, s')" "e \<in> set (events s)"
      by (simp_all add: run_write_def undisturbed_def)
    show ?thesis
      using update_undisturbed [OF wr(1) un wr(2) updateOwned_read_Inr(5) [OF rd]] inv by (auto intro: change_keeps_inv)
  next
    case (Publish_event i)
    with assms(1) obtain e where rd: "publishOwned_read i u s0 = (Inr e, s1)" and w: "w = Set_published e"
      by (auto simp: read_request_def prog_inv)
    from assms(2,4) w have wr: "publishOwned_write E e s = (r, s')" "e \<in> set (events s)"
      by (simp_all add: run_write_def undisturbed_def)
    show ?thesis
      using publish_undisturbed [OF wr(1) un wr(2) publishOwned_read_Inr(5) [OF rd]] inv by (auto intro: change_keeps_inv)
  next
    case (Cancel_event i)
    with assms(1) obtain e where rd: "cancelOwned_read i u s0 = (Inr e, s1)" and w: "w = Set_cancelled e"
      by (auto simp: read_request_def prog_inv)
    from assms(2,4) w have wr: "cancelOwned_write E e s = (r, s')" "e \<in> set (events s)"
      by (simp_all add: run_write_def undisturbed_def)
    show ?thesis
      using cancel_undisturbed [OF wr(1) un wr(2) cancelOwned_read_Inr(5) [OF rd]] inv by (auto intro: change_keeps_inv)
  qed
qed

section \<open>Properties\<close>

text \<open>
  C20: From an empty catalogue, however the reads and the writes of the owners' requests interleave,
  no two events share an identifier and no two events of one organizer share a slug, every event
  carries the times its status demands (a draft was never published nor cancelled, a published event
  carries its publication time, a cancelled one both), and every event stays, with its identifier and
  its organizer, and is never a draft again once it was published.
\<close>

theorem catalog_reachable:
  assumes "events s = []" and "catalog_step\<^sup>*\<^sup>* (s, []) (t, ws)" and "catalog_step\<^sup>*\<^sup>* (t, ws) (t', ws')"
  shows "unique_events t' \<and> list_all time_stamped (events t') \<and> all_later t t'"
proof -
  have "race_inv (t, ws)" using catalog.reachable_inv [OF _ assms(2)] assms(1) by simp
  with catalog.steps_inv [OF assms(3)] race_later [OF assms(3)] show ?thesis by (simp add: race_inv_def)
qed

text \<open>
  C21: A write that finds the event as its request read it, whatever other requests did meanwhile,
  keeps identifiers and the slugs of each organizer unique, every event ending after it starts, and
  the times of publication and cancellation exactly those of the status.
\<close>

theorem undisturbed_write_keeps_catalog:
  assumes "read_request u rq s0 = (Inr w, s1)" and "undisturbed s w"
    and "unique_events s" and "list_all stamped (events s)"
  shows "unique_events (snd (run_write E w s)) \<and> list_all stamped (events (snd (run_write E w s)))"
  using undisturbed_keeps [OF assms(1,2), of E "fst (run_write E w s)" "snd (run_write E w s)"] assms(3,4)
  by (simp add: catalog_inv_def)

text \<open>
  A call of user \<open>u\<close> for event \<open>i\<close> leaves every event with its identifier and its organizer,
  moves its status only along DRAFT, PUBLISHED, CANCELLED, and changes nothing at all of an event
  that is not \<open>i\<close> or whose organizer \<open>u\<close> does not own.
\<close>

lemma event_changes_are_owned:
  assumes "owner_call u i s s'" and "unique_events s" and "e \<in> set (events s)"
  shows "\<exists>e'\<in>set (events s'). evt_id e' = evt_id e \<and> evt_organizerId e' = evt_organizerId e \<and>
    life_cycle (evt_status e) (evt_status e') \<and> (e' = e \<or> evt_id e = i \<and> owned_by s u e)"
proof (cases "s' = s")
  case True
  with assms(3) show ?thesis by (auto simp: life_cycle_def)
next
  case False
  with owner_call_edit [OF assms(1,2)] obtain y f where y: "y \<in> set (events s)" "evt_id y = i" "owned_by s u y"
    and s': "s' = events_update (upd_where (\<lambda>x. evt_id x = i) f) s"
    and f: "\<And>x. evt_id (f x) = evt_id x" "\<And>x. evt_organizerId (f x) = evt_organizerId x"
    and lc: "life_cycle (evt_status y) (evt_status (f y))"
    by (auto simp: event_edit_def event_change_def)
  have mem: "(if evt_id e = i then f e else e) \<in> set (events s')"
    using upd_where_mem [OF assms(3), of "\<lambda>x. evt_id x = i" f] by (simp add: s')
  show ?thesis
  proof (cases "evt_id e = i")
    case True
    with assms(2,3) y have "e = y"
      using distinct_key_unique [of evt_id "events s" e y] by (simp add: unique_events_def)
    with mem True f lc y show ?thesis by auto
  next
    case False
    with mem show ?thesis by (auto simp: life_cycle_def)
  qed
qed

definition blank_venue :: UpdateEventDto where
  "blank_venue = \<lparr> ued_title = None, ued_slug = None, ued_description = None, ued_visibility = None,
     ued_category = None, ued_startsAt = None, ued_endsAt = None, ued_timezone = None,
     ued_venueName = Some [], ued_addressLine1 = None, ued_addressLine2 = None, ued_city = None,
     ued_region = None, ued_country = None, ued_latitude = None, ued_longitude = None,
     ued_capacityTotal = None \<rparr>"

text \<open>
  What publishing demands is not kept afterwards: the owner of any published event can blank its
  venue name; the update is accepted, the event stays published, and it could no longer be
  published as it is.
\<close>

lemma published_event_can_lose_its_venue:
  assumes "unique_events s" and "Events_getOwned i u s = (Inr (e, o'), s)"
    and "evt_status e = EventStatus.PUBLISHED" and "stamped e" and "0 \<le> evt_capacityHeld e"
  shows "\<exists>x s'. updateOwned i u blank_venue s = (Inr x, s') \<and> x \<in> set (events s') \<and>
    evt_status x = EventStatus.PUBLISHED \<and> (\<exists>m. assertPublishable x s' = (Inl (BadRequestException m), s'))"
proof -
  let ?x = "event_patch blank_venue e" and ?s = "events_update (upd_where (\<lambda>x. evt_id x = i) (event_patch blank_venue)) s"
  from Events_getOwned_Inr [OF assms(2)] have e: "e \<in> set (events s)" "evt_id e = i" by auto
  have key: "(evt_organizerId ?x, evt_slug ?x) = (evt_organizerId e, evt_slug e)" "evt_venueName ?x = Some []"
    by (simp_all add: event_patch_def blank_venue_def or_keep_def or_keep_opt_def trim_opt_def js_trim_def)
  have "\<not> list_ex (\<lambda>y. evt_id y \<noteq> i \<and> event_clash ?x y) (events s)"
    using assms(1) e key distinct_key_unique [of "\<lambda>e. (evt_organizerId e, evt_slug e)" "events s" e]
    by (auto simp: list_ex_iff event_clash_def unique_events_def)
  then have "Event_update i (event_patch blank_venue) s = (Inr ?x, ?s)"
    using find_unique_event [OF assms(1) e] by (simp add: Event_update_def prisma_update_unique_def)
  then have "updateOwned i u blank_venue s = (Inr ?x, ?s)"
    using assms e by (simp add: updateOwned_def updateOwned_read_def updateOwned_write_def bindp_def seqp_def Let_def blank_venue_def or_keep_def
        assertValidDateRange_def capacity_below_def conflict_as_def catchp_def stamped_def)
  moreover have "?x \<in> set (events ?s)"
    using upd_where_mem [OF e(1), of "\<lambda>x. evt_id x = i" "event_patch blank_venue"] e(2) by simp
  moreover have "\<exists>m. assertPublishable ?x ?s = (Inl (BadRequestException m), ?s)"
    using key(2) by (simp add: assertPublishable_def)
  ultimately show ?thesis using assms(3) by auto
qed

section \<open>Examples\<close>

definition ex_host :: Organizer where
  "ex_host = \<lparr> org_id = ''org'', org_ownerUserId = ''bob'', org_displayName = ''Org'', org_slug = ''org'',
     org_description = None, org_status = OrganizerStatus.APPROVED, org_contactEmail = None,
     org_contactPhone = None \<rparr>"

definition ex_catalog :: db where
  "ex_catalog = empty_db\<lparr> organizers := [ex_host], events := [ex_event] \<rparr>"

lemmas ex_catalog_defs = ex_catalog_def ex_host_def ex_event_def empty_db_def

lemma ex_catalog_owned: "Events_getOwned ''e'' ''bob'' ex_catalog = (Inr (ex_event, ex_host), ex_catalog)"
  by (simp add: Events_getOwned_def Event_findOwnedByUser_def owned_by_def with_organizer_def bindp_def
      ex_catalog_defs)

lemma ex_catalog_unique: "unique_events ex_catalog" "stamped ex_event"
  by (simp_all add: unique_events_def stamped_def ex_catalog_defs)

lemma published_event_can_lose_its_venue_witness:
  "\<exists>x s'. updateOwned ''e'' ''bob'' blank_venue ex_catalog = (Inr x, s') \<and>
    evt_status x = EventStatus.PUBLISHED \<and> (\<exists>m. assertPublishable x s' = (Inl (BadRequestException m), s'))"
  using published_event_can_lose_its_venue [OF ex_catalog_unique(1) ex_catalog_owned _ ex_catalog_unique(2)]
  by (auto simp: ex_event_def)

lemma event_changes_are_owned_witness:
  "events (snd (cancelOwned ex_env ''e'' ''eve'' ex_catalog)) = [ex_event]"
proof -
  let ?s = "snd (cancelOwned ex_env ''e'' ''eve'' ex_catalog)"
  have "owner_call ''eve'' ''e'' ex_catalog ?s"
    by (rule call_cancel [of ex_env _ _ _ "fst (cancelOwned ex_env ''e'' ''eve'' ex_catalog)"]) simp
  from event_changes_are_owned [OF this ex_catalog_unique(1), of ex_event]
  have "ex_event \<in> set (events ?s)" by (auto simp: ex_catalog_defs owned_by_def with_organizer_def)
  then show ?thesis
    by (simp add: cancelOwned_def cancelOwned_read_def Events_getOwned_def Event_findOwnedByUser_def bindp_def owned_by_def
        with_organizer_def ex_catalog_defs)
qed

text \<open>An approved organizer's first event, created and published.\<close>

definition ex_event_dto :: CreateEventDto where
  "ex_event_dto = \<lparr> ced_title = ''Show'', ced_slug = ''Show'', ced_description = None, ced_visibility = None,
     ced_category = None, ced_startsAt = Some 10, ced_endsAt = Some 20, ced_timezone = None,
     ced_venueName = Some ''Hall'', ced_addressLine1 = None, ced_addressLine2 = None, ced_city = Some ''Accra'',
     ced_region = None, ced_country = None, ced_latitude = None, ced_longitude = None,
     ced_capacityTotal = Some 60 \<rparr>"

definition ex_hosts :: db where
  "ex_hosts = empty_db\<lparr> organizers := [ex_host] \<rparr>"

definition ex_dates :: "int option option \<Rightarrow> int option option \<Rightarrow> UpdateEventDto" where
  "ex_dates a b = blank_venue\<lparr> ued_venueName := None, ued_startsAt := a, ued_endsAt := b \<rparr>"

text \<open>
  Two updates read the event that lasts from 10 to 20; one moves the start to 18, the other the end to
  15. Each is right for the event it read; the event is left ending before it starts.
\<close>

definition ex_created :: "catalog_move list" where
  "ex_created = [Read_request ''bob'' (Create_event ''org'' ex_event_dto), Run_write ex_env 0]"

definition ex_race_dates :: "catalog_move list" where
  "ex_race_dates = ex_created @
     [Read_request ''bob'' (Update_event (uuid ex_env 0) (ex_dates (Some (Some 18)) None)),
      Read_request ''bob'' (Update_event (uuid ex_env 0) (ex_dates None (Some (Some 15)))),
      Run_write ex_env 0, Run_write ex_env 0]"

text \<open>
  Two publications read the draft; the first is written, then the event is read and cancelled, then the
  second is written: the cancelled event is published again, its cancellation time still there.
\<close>

definition ex_race_publish :: "catalog_move list" where
  "ex_race_publish = ex_created @
     [Read_request ''bob'' (Publish_event (uuid ex_env 0)), Read_request ''bob'' (Publish_event (uuid ex_env 0)),
      Run_write ex_env 0, Read_request ''bob'' (Cancel_event (uuid ex_env 0)), Run_write ex_env 0,
      Run_write ex_env 0]"

lemma racing_updates_break_dates:
  "catalog_step\<^sup>*\<^sup>* (ex_hosts, []) (fold move ex_race_dates (ex_hosts, [])) \<and>
   map (\<lambda>e. (evt_startsAt e, evt_endsAt e)) (events (fst (fold move ex_race_dates (ex_hosts, [])))) = [(18, 15)]"
  by (rule conjI, rule moves_steps) code_simp

lemma racing_publish_reopens:
  "catalog_step\<^sup>*\<^sup>* (ex_hosts, []) (fold move ex_race_publish (ex_hosts, [])) \<and>
   map (\<lambda>e. (evt_status e, evt_cancelledAt e \<noteq> None)) (events (fst (fold move ex_race_publish (ex_hosts, [])))) =
     [(EventStatus.PUBLISHED, True)]"
  by (rule conjI, rule moves_steps) code_simp

lemma catalog_reachable_witness:
  "map evt_status (events (fst (fold move ex_created (ex_hosts, [])))) = [EventStatus.DRAFT] \<and>
   map evt_status (events (fst (fold move ex_race_publish (ex_hosts, [])))) = [EventStatus.PUBLISHED] \<and>
   list_all time_stamped (events (fst (fold move ex_race_publish (ex_hosts, [])))) \<and>
   all_later (fst (fold move ex_created (ex_hosts, []))) (fst (fold move ex_race_publish (ex_hosts, [])))"
proof -
  obtain t ws where t: "fold move ex_created (ex_hosts, []) = (t, ws)" by (cases "fold move ex_created (ex_hosts, [])")
  obtain t' ws' where t': "fold move ex_race_publish (ex_hosts, []) = (t', ws')"
    by (cases "fold move ex_race_publish (ex_hosts, [])")
  have "events ex_hosts = []" by (simp add: ex_hosts_def empty_db_def)
  moreover have "catalog_step\<^sup>*\<^sup>* (ex_hosts, []) (t, ws)"
    using moves_steps [of "(ex_hosts, [])" ex_created] t by simp
  moreover have "catalog_step\<^sup>*\<^sup>* (t, ws) (t', ws')"
    using moves_steps [of "(t, ws)" "drop 2 ex_race_publish"] t t' by (simp add: ex_race_publish_def ex_created_def)
  ultimately have "list_all time_stamped (events t') \<and> all_later t t'" using catalog_reachable by blast
  moreover have "map evt_status (events (fst (fold move ex_created (ex_hosts, [])))) = [EventStatus.DRAFT]"
    by code_simp
  moreover have "map evt_status (events (fst (fold move ex_race_publish (ex_hosts, [])))) = [EventStatus.PUBLISHED]"
    by code_simp
  ultimately show ?thesis using t t' by simp
qed

text \<open>A publication that is overtaken by the creation of another event only.\<close>

definition ex_created_again :: "catalog_move list" where
  "ex_created_again = ex_created @ [Read_request ''bob'' (Create_event ''org'' (ex_event_dto\<lparr> ced_slug := ''gala'' \<rparr>)),
     Run_write (ex_env\<lparr> uuid := (\<lambda>n. replicate (n + 2) CHR ''u'') \<rparr>) 0]"

abbreviation ex_first :: db where
  "ex_first \<equiv> fst (fold move ex_created (ex_hosts, []))"

abbreviation ex_second :: db where
  "ex_second \<equiv> fst (fold move ex_created_again (ex_hosts, []))"

lemma undisturbed_write_keeps_catalog_witness:
  "map evt_status (events (snd (run_write ex_env (Set_published (hd (events ex_first))) ex_second))) =
     [EventStatus.PUBLISHED, EventStatus.DRAFT] \<and>
   list_all stamped (events (snd (run_write ex_env (Set_published (hd (events ex_first))) ex_second)))"
proof -
  have "\<exists>s1. read_request ''bob'' (Publish_event []) ex_first = (Inr (Set_published (hd (events ex_first))), s1)"
  proof (rule exI [of _ "snd (read_request ''bob'' (Publish_event []) ex_first)"], rule prod_eqI)
    show "fst (read_request ''bob'' (Publish_event []) ex_first) =
      fst (Inr (Set_published (hd (events ex_first))), snd (read_request ''bob'' (Publish_event []) ex_first))"
      by code_simp
  qed simp
  then obtain s1 where rd: "read_request ''bob'' (Publish_event []) ex_first = (Inr (Set_published (hd (events ex_first))), s1)" ..
  have "undisturbed ex_second (Set_published (hd (events ex_first)))" by code_simp
  moreover have "unique_events ex_second" unfolding unique_events_def by code_simp
  moreover have "list_all stamped (events ex_second)" by code_simp
  moreover have "map evt_status (events (snd (run_write ex_env (Set_published (hd (events ex_first))) ex_second))) =
     [EventStatus.PUBLISHED, EventStatus.DRAFT]" by code_simp
  ultimately show ?thesis using undisturbed_write_keeps_catalog [OF rd, of ex_second ex_env] by simp
qed

end
