(* ===== verification/Ticket_Issuance.thy ===== *)
theory Ticket_Issuance
  imports Admissions Payment_Intents Event_Catalog "HOL-Library.Word"
begin

text \<open>
  The ticket of a verified payment (\<^verbatim>\<open>src/modules/tickets/application/ticket-issuance.service.ts\<close> and
  \<^verbatim>\<open>ticket-token.service.ts\<close>): one ticket with an admission token per payment intent, its owner and
  its event, and the audit row of every outcome. The bytes \<open>randomBytes\<close> draws are arguments, 10 for
  the ticket number and 32 for the token.
\<close>

section \<open>Ticket numbers and admission tokens\<close>

definition hex_upper :: "8 word \<Rightarrow> string" where
  "hex_upper b = [''0123456789ABCDEF'' ! (unat b div 16), ''0123456789ABCDEF'' ! (unat b mod 16)]"

definition generateTicketNumber :: "8 word list \<Rightarrow> string" where
  "generateTicketNumber randomBytes10 = ''GV-'' @ concat (map hex_upper randomBytes10)"

text \<open>\<open>Buffer.toString('base64url')\<close>: six bits a symbol, the last group filled with zeros, no padding.\<close>

definition base64url_alphabet :: string where
  "base64url_alphabet = ''ABCDEFGHIJKLMNOPQRSTUVWXYZabcdefghijklmnopqrstuvwxyz0123456789-_''"

fun base64_groups :: "bool list \<Rightarrow> string" where
  "base64_groups (a # b # c # d # e # f # rest) =
     base64url_alphabet ! bits_value [a, b, c, d, e, f] # base64_groups rest"
| "base64_groups [] = []"
| "base64_groups bs = [base64url_alphabet ! bits_value (take 6 (bs @ replicate 5 False))]"

definition base64url :: "8 word list \<Rightarrow> string" where
  "base64url buffer = base64_groups (concat (map byte_bits buffer))"

record AdmissionToken =
  at_token :: string
  at_hash :: string
  at_version :: int

definition generateAdmissionToken :: "env \<Rightarrow> 8 word list \<Rightarrow> AdmissionToken" where
  "generateAdmissionToken E randomBytes32 =
     (let token = base64url randomBytes32
      in \<lparr> at_token = token, at_hash = hashToken E token, at_version = 1 \<rparr>)"

section \<open>Repositories\<close>

definition findByPaymentIntentOwnerAndEvent ::
  "string \<Rightarrow> string \<Rightarrow> string \<Rightarrow> (db, Ticket option) prog" where
  "findByPaymentIntentOwnerAndEvent paymentIntentId ownerUserId eventId =
     prisma_find tickets (\<lambda>t. tkt_paymentIntentId t = Some paymentIntentId \<and>
       tkt_ownerUserId t = ownerUserId \<and> tkt_eventId t = eventId)"

definition createIssuedTicket ::
  "string \<Rightarrow> string \<Rightarrow> PaymentIntent \<Rightarrow> AdmissionToken \<Rightarrow> int \<Rightarrow> int option \<Rightarrow> (db, Ticket) prog" where
  "createIssuedTicket i ticketNumber p admissionToken issuedAt expiresAt =
     prisma_create tickets tickets_update ticket_clash
       \<lparr> tkt_id = i, tkt_ticketNumber = Some ticketNumber, tkt_eventId = pi_eventId p,
         tkt_organizerId = Some (pi_organizerId p), tkt_ticketTypeId = None,
         tkt_ownerUserId = pi_buyerUserId p, tkt_orderId = None, tkt_paymentIntentId = Some (pi_id p),
         tkt_status = TicketStatus.ISSUED, tkt_admissionTokenHash = Some (at_hash admissionToken),
         tkt_admissionTokenVersion = at_version admissionToken, tkt_ticketSerial = ticketNumber,
         tkt_publicReference = ticketNumber, tkt_issuedAt = issuedAt, tkt_usedAt = None,
         tkt_voidedAt = None, tkt_expiresAt = expiresAt \<rparr>"

definition issuance_row :: "PaymentIntent \<Rightarrow> string option \<Rightarrow> string \<Rightarrow> string option \<Rightarrow> TicketIssuanceAuditLog" where
  "issuance_row p ticketId auditEvent reason =
     \<lparr> til_paymentIntentId = pi_id p, til_ticketId = ticketId, til_buyerUserId = pi_buyerUserId p,
       til_eventId = pi_eventId p, til_organizerId = pi_organizerId p, til_auditEvent = auditEvent,
       til_reason = reason, til_metadata = JNull \<rparr>"

definition appendIssuanceAudit ::
  "PaymentIntent \<Rightarrow> string option \<Rightarrow> string \<Rightarrow> string option \<Rightarrow> (db, unit) prog" where
  "appendIssuanceAudit p ticketId auditEvent reason =
     seqp (prisma_create ticket_issuance_audit_logs ticket_issuance_audit_logs_update (\<lambda>_ _. False)
             (issuance_row p ticketId auditEvent reason)) (ret ())"

text \<open>
  \<open>findByIdForTicketIssuance\<close> joins buyer, organizer, event and the event's organizer;
  \<open>hasIssuanceSnapshot\<close> asks whether all four rows are there.
\<close>

definition findByIdForTicketIssuance :: "string \<Rightarrow> (db, (PaymentIntent \<times> bool) option) prog" where
  "findByIdForTicketIssuance paymentIntentId = (\<lambda>s.
     ret (map_option (\<lambda>p. (p,
            list_ex (\<lambda>u. usr_id u = pi_buyerUserId p) (users s) \<and>
            list_ex (\<lambda>o'. org_id o' = pi_organizerId p) (organizers s) \<and>
            (case find (\<lambda>e. evt_id e = pi_eventId p) (events s) of
               None \<Rightarrow> False | Some e \<Rightarrow> with_organizer s e \<noteq> None)))
          (find (\<lambda>p. pi_id p = paymentIntentId) (payment_intents s))) s)"

section \<open>Issuing\<close>

datatype IssuanceOutcome =
    Created Ticket string
  | Existing Ticket
  | Rejected string
  | Failed string

definition intent_status_name :: "PaymentIntentStatus \<Rightarrow> string" where
  "intent_status_name st =
     (case st of
        PaymentIntentStatus.INITIATION_PENDING \<Rightarrow> ''INITIATION_PENDING''
      | PaymentIntentStatus.INITIATED \<Rightarrow> ''INITIATED''
      | PaymentIntentStatus.INITIATION_FAILED \<Rightarrow> ''INITIATION_FAILED''
      | PaymentIntentStatus.VERIFIED \<Rightarrow> ''VERIFIED''
      | PaymentIntentStatus.FAILED \<Rightarrow> ''FAILED'')"

definition isPrismaUniqueViolation :: "app_error \<Rightarrow> bool" where
  "isPrismaUniqueViolation error \<longleftrightarrow> error = PrismaClientKnownRequestError ''P2002''"

text \<open>The \<open>try\<close> block and its \<open>catch\<close>: every statement of the \<open>catch\<close> follows a failed one.\<close>

definition create_ticket ::
  "env \<Rightarrow> PaymentIntent \<Rightarrow> Event \<Rightarrow> string \<Rightarrow> AdmissionToken \<Rightarrow> (db, IssuanceOutcome) prog" where
  "create_ticket E p event ticketNumber admissionToken =
     bindp (createIssuedTicket (uuid E 0) ticketNumber p admissionToken (app_now E) (Some (evt_endsAt event)))
       (\<lambda>ticket.
          seqp (appendIssuanceAudit p (Some (tkt_id ticket)) ''ticket_issued'' None)
               (ret (Created ticket (at_token admissionToken))))"

definition recover_ticket :: "PaymentIntent \<Rightarrow> app_error \<Rightarrow> (db, IssuanceOutcome) prog" where
  "recover_ticket p error =
     (let failed = seqp (appendIssuanceAudit p None ''ticket_issuance_failed'' (Some (error_message error)))
                     (throw error)
      in if isPrismaUniqueViolation error then
           bindp (findByPaymentIntentOwnerAndEvent (pi_id p) (pi_buyerUserId p) (pi_eventId p)) (\<lambda>recovered.
             case recovered of
               Some t \<Rightarrow>
                 seqp (appendIssuanceAudit p (Some (tkt_id t)) ''ticket_issuance_idempotent_replay''
                         (Some ''p2002_recovered_existing_ticket''))
                      (ret (Existing t))
             | None \<Rightarrow> failed)
         else failed)"

definition issue_verified ::
  "env \<Rightarrow> 8 word list \<Rightarrow> 8 word list \<Rightarrow> PaymentIntent \<Rightarrow> Event \<Rightarrow> (db, IssuanceOutcome) prog" where
  "issue_verified E randomBytes10 randomBytes32 p event =
     seqp (appendIssuanceAudit p None ''ticket_issuance_requested'' None)
       (bindp (findByPaymentIntentOwnerAndEvent (pi_id p) (pi_buyerUserId p) (pi_eventId p)) (\<lambda>existing.
          case existing of
            Some t \<Rightarrow>
              seqp (appendIssuanceAudit p (Some (tkt_id t)) ''ticket_issuance_idempotent_replay'' None)
                   (ret (Existing t))
          | None \<Rightarrow>
              let ticketNumber = generateTicketNumber randomBytes10;
                  admissionToken = generateAdmissionToken E randomBytes32
              in catchp (create_ticket E p event ticketNumber admissionToken)
                   (\<lambda>error. after_failed_statement E (recover_ticket p error))))"

definition issuance_tx ::
  "env \<Rightarrow> 8 word list \<Rightarrow> 8 word list \<Rightarrow> string \<Rightarrow> (db, IssuanceOutcome) prog" where
  "issuance_tx E randomBytes10 randomBytes32 paymentIntentId =
     bindp (findByIdForTicketIssuance paymentIntentId) (\<lambda>found.
       case found of
         None \<Rightarrow> throw (NotFoundError ''payment intent not found'')
       | Some (p, snapshot) \<Rightarrow>
           if pi_status p \<noteq> PaymentIntentStatus.VERIFIED then
             seqp (appendIssuanceAudit p None ''ticket_issuance_rejected_payment_not_verified''
                     (Some (intent_status_name (pi_status p))))
                  (ret (Rejected ''Only verified payment intents can issue tickets.''))
           else if \<not> snapshot then
             seqp (appendIssuanceAudit p None ''ticket_issuance_failed'' (Some ''missing_issuance_snapshot''))
                  (ret (Failed ''Verified payment intent is missing ticket issuance context.''))
           else
             bindp (findByIdForPaymentInitiation (pi_eventId p)) (\<lambda>event.
               case event of
                 Some (e, o') \<Rightarrow>
                   if evt_organizerId e \<noteq> pi_organizerId p then
                     seqp (appendIssuanceAudit p None ''ticket_issuance_failed'' (Some ''missing_event_snapshot''))
                          (ret (Failed ''Verified payment intent is missing ticket issuance context.''))
                   else issue_verified E randomBytes10 randomBytes32 p e
               | None \<Rightarrow>
                   seqp (appendIssuanceAudit p None ''ticket_issuance_failed'' (Some ''missing_event_snapshot''))
                        (ret (Failed ''Verified payment intent is missing ticket issuance context.''))))"

record IssuedTicketResponseDto =
  itr_ticket :: TicketResponseDto
  itr_qrPayload :: "(string \<times> string) option"

definition issueTicketFromVerifiedPayment ::
  "env \<Rightarrow> 8 word list \<Rightarrow> 8 word list \<Rightarrow> string \<Rightarrow> (db, IssuedTicketResponseDto) prog" where
  "issueTicketFromVerifiedPayment E randomBytes10 randomBytes32 paymentIntentId =
     bindp (runInTransaction (issuance_tx E randomBytes10 randomBytes32 paymentIntentId)) (\<lambda>outcome s.
       case outcome of
         Rejected message \<Rightarrow> throw (InvalidStateTransitionError message) s
       | Failed message \<Rightarrow> throw (InvalidStateTransitionError message) s
       | Created t token \<Rightarrow>
           ret \<lparr> itr_ticket = toTicketResponse s t, itr_qrPayload = Some (tkt_id t, token) \<rparr> s
       | Existing t \<Rightarrow> ret \<lparr> itr_ticket = toTicketResponse s t, itr_qrPayload = None \<rparr> s)"

section \<open>Runs\<close>

abbreviation add_til :: "TicketIssuanceAuditLog list \<Rightarrow> db \<Rightarrow> db" where
  "add_til rows s \<equiv> ticket_issuance_audit_logs_update (\<lambda>rs. rs @ rows) s"

lemma til_compose [simp]: "add_til bs (add_til as s) = add_til (as @ bs) s"
  by (simp add: comp_def)

lemma appendIssuanceAudit_apply [simp]:
  "appendIssuanceAudit p i e r s = (Inr (), add_til [issuance_row p i e r] s)"
  by (simp add: appendIssuanceAudit_def seqp_def bindp_def prisma_create_def list_ex_iff)

lemma audit_first [simp]: "seqp (appendIssuanceAudit p i e r) k s = k (add_til [issuance_row p i e r] s)"
  by (simp add: seqp_def bindp_def)

lemma findByPaymentIntentOwnerAndEvent_apply [simp]:
  "findByPaymentIntentOwnerAndEvent i u e s =
     (Inr (find (\<lambda>t. tkt_paymentIntentId t = Some i \<and> tkt_ownerUserId t = u \<and> tkt_eventId t = e) (tickets s)), s)"
  by (simp add: findByPaymentIntentOwnerAndEvent_def)

definition payment_ticket :: "PaymentIntent \<Rightarrow> db \<Rightarrow> Ticket option" where
  "payment_ticket p s = find (\<lambda>t. tkt_paymentIntentId t = Some (pi_id p) \<and> tkt_ownerUserId t = pi_buyerUserId p \<and>
     tkt_eventId t = pi_eventId p) (tickets s)"

text \<open>The event whose end bounds the ticket, when the rows around the intent are complete.\<close>

definition issuing_event :: "PaymentIntent \<Rightarrow> db \<Rightarrow> Event option" where
  "issuing_event p s =
     (if list_ex (\<lambda>u. usr_id u = pi_buyerUserId p) (users s) \<and>
         list_ex (\<lambda>o'. org_id o' = pi_organizerId p) (organizers s)
      then (case find (\<lambda>e. evt_id e = pi_eventId p) (events s) of
              None \<Rightarrow> None
            | Some e \<Rightarrow> if with_organizer s e \<noteq> None \<and> evt_organizerId e = pi_organizerId p then Some e else None)
      else None)"

definition issued_row :: "env \<Rightarrow> 8 word list \<Rightarrow> 8 word list \<Rightarrow> PaymentIntent \<Rightarrow> Event \<Rightarrow> Ticket" where
  "issued_row E r10 r32 p e =
     \<lparr> tkt_id = uuid E 0, tkt_ticketNumber = Some (generateTicketNumber r10), tkt_eventId = pi_eventId p,
       tkt_organizerId = Some (pi_organizerId p), tkt_ticketTypeId = None, tkt_ownerUserId = pi_buyerUserId p,
       tkt_orderId = None, tkt_paymentIntentId = Some (pi_id p), tkt_status = TicketStatus.ISSUED,
       tkt_admissionTokenHash = Some (sha256 E (base64url r32)), tkt_admissionTokenVersion = 1,
       tkt_ticketSerial = generateTicketNumber r10, tkt_publicReference = generateTicketNumber r10,
       tkt_issuedAt = app_now E, tkt_usedAt = None, tkt_voidedAt = None,
       tkt_expiresAt = Some (evt_endsAt e) \<rparr>"

lemma create_ticket_run:
  "create_ticket E p e (generateTicketNumber r10) (generateAdmissionToken E r32) s =
     (if list_ex (ticket_clash (issued_row E r10 r32 p e)) (tickets s)
      then (Inl (PrismaClientKnownRequestError ''P2002''), s)
      else (Inr (Created (issued_row E r10 r32 p e) (base64url r32)),
            add_til [issuance_row p (Some (uuid E 0)) ''ticket_issued'' None]
              (tickets_update (\<lambda>ts. ts @ [issued_row E r10 r32 p e]) s)))"
  by (simp add: create_ticket_def createIssuedTicket_def issued_row_def generateAdmissionToken_def Let_def
      hashToken_def prisma_create_def bindp_def)

lemma issue_verified_run:
  "issue_verified E r10 r32 p e s =
     (let s1 = add_til [issuance_row p None ''ticket_issuance_requested'' None] s in
      case payment_ticket p s of
        Some t \<Rightarrow>
          (Inr (Existing t),
           add_til [issuance_row p (Some (tkt_id t)) ''ticket_issuance_idempotent_replay'' None] s1)
      | None \<Rightarrow>
          if list_ex (ticket_clash (issued_row E r10 r32 p e)) (tickets s)
          then after_failed_statement E (recover_ticket p (PrismaClientKnownRequestError ''P2002'')) s1
          else (Inr (Created (issued_row E r10 r32 p e) (base64url r32)),
                add_til [issuance_row p (Some (uuid E 0)) ''ticket_issued'' None]
                  (tickets_update (\<lambda>ts. ts @ [issued_row E r10 r32 p e]) s1)))"
proof -
  let ?s1 = "add_til [issuance_row p None ''ticket_issuance_requested'' None] s"
  have c: "create_ticket E p e (generateTicketNumber r10) (generateAdmissionToken E r32) ?s1 =
     (if list_ex (ticket_clash (issued_row E r10 r32 p e)) (tickets s)
      then (Inl (PrismaClientKnownRequestError ''P2002''), ?s1)
      else (Inr (Created (issued_row E r10 r32 p e) (base64url r32)),
            add_til [issuance_row p (Some (uuid E 0)) ''ticket_issued'' None]
              (tickets_update (\<lambda>ts. ts @ [issued_row E r10 r32 p e]) ?s1)))"
    by (simp only: create_ticket_run) simp
  show ?thesis
    by (simp add: issue_verified_def bindp_def payment_ticket_def Let_def catchp_def c split: option.splits)
qed

text \<open>A recovery finds nothing: the lookup before the insert already came back empty.\<close>

lemma recover_none:
  "payment_ticket p s = None \<Longrightarrow>
     fst (after_failed_statement E (recover_ticket p (PrismaClientKnownRequestError ''P2002'')) (add_til rows s)) =
       Inl (if tx_usable_after_error E then PrismaClientKnownRequestError ''P2002'' else TransactionAborted)"
  by (simp add: after_failed_statement_def recover_ticket_def Let_def isPrismaUniqueViolation_def bindp_def
      payment_ticket_def)

lemma issuance_tx_run:
  "issuance_tx E r10 r32 i s =
     (case find (\<lambda>p. pi_id p = i) (payment_intents s) of
        None \<Rightarrow> (Inl (NotFoundError ''payment intent not found''), s)
      | Some p \<Rightarrow>
          if pi_status p \<noteq> PaymentIntentStatus.VERIFIED then
            (Inr (Rejected ''Only verified payment intents can issue tickets.''),
             add_til [issuance_row p None ''ticket_issuance_rejected_payment_not_verified''
                        (Some (intent_status_name (pi_status p)))] s)
          else
            (case issuing_event p s of
               Some e \<Rightarrow> issue_verified E r10 r32 p e s
             | None \<Rightarrow>
                 (Inr (Failed ''Verified payment intent is missing ticket issuance context.''),
                  add_til [issuance_row p None ''ticket_issuance_failed''
                    (Some (if list_ex (\<lambda>u. usr_id u = pi_buyerUserId p) (users s) \<and>
                              list_ex (\<lambda>o'. org_id o' = pi_organizerId p) (organizers s) \<and>
                              (case find (\<lambda>e. evt_id e = pi_eventId p) (events s) of
                                 None \<Rightarrow> False | Some e \<Rightarrow> with_organizer s e \<noteq> None)
                           then ''missing_event_snapshot'' else ''missing_issuance_snapshot''))] s)))"
proof (cases "find (\<lambda>p. pi_id p = i) (payment_intents s)")
  case None
  then show ?thesis by (simp add: issuance_tx_def bindp_def findByIdForTicketIssuance_def)
next
  case (Some p)
  let ?u = "list_ex (\<lambda>u. usr_id u = pi_buyerUserId p) (users s)"
  let ?o = "list_ex (\<lambda>o'. org_id o' = pi_organizerId p) (organizers s)"
  show ?thesis
  proof (cases "pi_status p = PaymentIntentStatus.VERIFIED \<and> ?u \<and> ?o")
    case False
    with Some show ?thesis
      by (cases "pi_status p = PaymentIntentStatus.VERIFIED"; cases ?u)
        (simp_all add: issuance_tx_def bindp_def findByIdForTicketIssuance_def issuing_event_def)
  next
    case True
    show ?thesis
    proof (cases "find (\<lambda>e. evt_id e = pi_eventId p) (events s)")
      case None
      with Some True show ?thesis
        by (simp add: issuance_tx_def bindp_def findByIdForTicketIssuance_def issuing_event_def)
    next
      case ev: (Some e)
      show ?thesis
      proof (cases "find (\<lambda>o'. org_id o' = evt_organizerId e) (organizers s)")
        case None
        with Some True ev show ?thesis
          by (simp add: issuance_tx_def bindp_def findByIdForTicketIssuance_def issuing_event_def with_organizer_def)
      next
        case (Some o')
        with \<open>find (\<lambda>p. pi_id p = i) (payment_intents s) = Some p\<close> True ev show ?thesis
          by (simp add: issuance_tx_def bindp_def findByIdForTicketIssuance_def issuing_event_def with_organizer_def
              findByIdForPaymentInitiation_def)
      qed
    qed
  qed
qed

lemma issue_run:
  "issueTicketFromVerifiedPayment E r10 r32 i s =
     (case runInTransaction (issuance_tx E r10 r32 i) s of
        (Inl e, s') \<Rightarrow> (Inl e, s')
      | (Inr (Rejected m), s') \<Rightarrow> (Inl (InvalidStateTransitionError m), s')
      | (Inr (Failed m), s') \<Rightarrow> (Inl (InvalidStateTransitionError m), s')
      | (Inr (Created t token), s') \<Rightarrow>
          (Inr \<lparr> itr_ticket = toTicketResponse s' t, itr_qrPayload = Some (tkt_id t, token) \<rparr>, s')
      | (Inr (Existing t), s') \<Rightarrow> (Inr \<lparr> itr_ticket = toTicketResponse s' t, itr_qrPayload = None \<rparr>, s'))"
  by (auto simp: issueTicketFromVerifiedPayment_def bindp_def split: prod.splits sum.splits IssuanceOutcome.splits)

section \<open>Properties\<close>

text \<open>
  C23: A call adds at most one ticket, and only for an intent that is VERIFIED, whose buyer, event and
  organizer exist, and that has no ticket yet. The ticket is ISSUED, carries the intent's owner,
  event and organizer, the SHA-256 of its token and the end of the event as its expiry; nothing
  else about tickets or intents changes.
\<close>

theorem only_verified_payments_issue:
  "case issueTicketFromVerifiedPayment E r10 r32 i s of (r, s') \<Rightarrow>
     payment_intents s' = payment_intents s \<and>
     (tickets s' = tickets s \<or>
      (\<exists>p e. find (\<lambda>p. pi_id p = i) (payment_intents s) = Some p \<and> pi_status p = PaymentIntentStatus.VERIFIED \<and>
         issuing_event p s = Some e \<and> payment_ticket p s = None \<and>
         \<not> list_ex (ticket_clash (issued_row E r10 r32 p e)) (tickets s) \<and>
         tickets s' = tickets s @ [issued_row E r10 r32 p e] \<and>
         r = Inr \<lparr> itr_ticket = toTicketResponse s' (issued_row E r10 r32 p e),
                   itr_qrPayload = Some (uuid E 0, base64url r32) \<rparr>))"
proof -
  have rec: "\<exists>e. after_failed_statement E (recover_ticket p (PrismaClientKnownRequestError ''P2002'')) s1 = (Inl e, s2)"
    if "payment_ticket p s = None" "s1 = add_til rows s"
      "after_failed_statement E (recover_ticket p (PrismaClientKnownRequestError ''P2002'')) s1 = (r, s2)" for p rows s1 r s2
    using recover_none [OF that(1), of E rows] that(2,3) by auto
  show ?thesis
  proof (cases "find (\<lambda>p. pi_id p = i) (payment_intents s)")
    case None
    then show ?thesis by (simp add: issue_run issuance_tx_run runInTransaction_def)
  next
    case (Some p)
    show ?thesis
    proof (cases "pi_status p = PaymentIntentStatus.VERIFIED \<and> issuing_event p s \<noteq> None")
      case False
      with Some show ?thesis
        by (auto simp: issue_run issuance_tx_run runInTransaction_def split: option.splits)
    next
      case True
      then obtain e where e: "pi_status p = PaymentIntentStatus.VERIFIED" "issuing_event p s = Some e" by auto
      have run: "issuance_tx E r10 r32 i s = issue_verified E r10 r32 p e s"
        using Some e by (simp add: issuance_tx_run)
      show ?thesis
      proof (cases "payment_ticket p s = None \<and> list_ex (ticket_clash (issued_row E r10 r32 p e)) (tickets s)")
        case True
        then obtain err s2 where "issue_verified E r10 r32 p e s = (Inl err, s2)"
          using rec [of p] by (simp add: issue_verified_run Let_def) (metis surj_pair)
        with run show ?thesis by (simp add: issue_run runInTransaction_def)
      next
        case False
        then show ?thesis
          using Some e by (auto simp: issue_run run issue_verified_run Let_def runInTransaction_def issued_row_def
              split: option.splits)
      qed
    qed
  qed
qed

lemma issuing_event_frame:
  "users s' = users s \<Longrightarrow> organizers s' = organizers s \<Longrightarrow> events s' = events s \<Longrightarrow>
     issuing_event p s' = issuing_event p s"
  by (simp add: issuing_event_def with_organizer_def cong: option.case_cong if_cong)

lemma toTicketResponse_frame: "events s' = events s \<Longrightarrow> toTicketResponse s' t = toTicketResponse s t"
  by (simp add: toTicketResponse_def event_organizer_def cong: option.case_cong)

text \<open>What a successful call leaves: the intent's ticket is on record, and only tickets and audit changed.\<close>

lemma issue_success:
  assumes "issueTicketFromVerifiedPayment E r10 r32 i s = (Inr a, s1)"
  obtains p e t where "find (\<lambda>p. pi_id p = i) (payment_intents s) = Some p"
    "pi_status p = PaymentIntentStatus.VERIFIED" "issuing_event p s = Some e" "payment_ticket p s1 = Some t"
    "itr_ticket a = toTicketResponse s t" "payment_intents s1 = payment_intents s" "events s1 = events s"
    "users s1 = users s" "organizers s1 = organizers s"
proof -
  from assms obtain out where tx: "issuance_tx E r10 r32 i s = (Inr out, s1)"
    and out: "(\<exists>t token. out = Created t token \<and> a = \<lparr> itr_ticket = toTicketResponse s1 t,
                 itr_qrPayload = Some (tkt_id t, token) \<rparr>) \<or>
              (\<exists>t. out = Existing t \<and> a = \<lparr> itr_ticket = toTicketResponse s1 t, itr_qrPayload = None \<rparr>)"
    by (auto simp: issue_run runInTransaction_def split: prod.splits sum.splits IssuanceOutcome.splits)
  from tx out obtain p where p: "find (\<lambda>p. pi_id p = i) (payment_intents s) = Some p"
    by (auto simp: issuance_tx_run split: option.splits)
  with tx out obtain e where e: "pi_status p = PaymentIntentStatus.VERIFIED" "issuing_event p s = Some e"
    by (auto simp: issuance_tx_run split: option.splits if_splits)
  with tx p have v: "issue_verified E r10 r32 p e s = (Inr out, s1)" by (simp add: issuance_tx_run)
  show thesis
  proof (cases "payment_ticket p s")
    case (Some t)
    with v have "out = Existing t" and s1: "s1 = add_til [issuance_row p None ''ticket_issuance_requested'' None,
        issuance_row p (Some (tkt_id t)) ''ticket_issuance_idempotent_replay'' None] s"
      by (simp_all add: issue_verified_run Let_def)
    with Some out p e show thesis
      by (intro that [of p e t]) (auto simp: payment_ticket_def intro: toTicketResponse_frame)
  next
    case None
    let ?t = "issued_row E r10 r32 p e"
    have "\<not> list_ex (ticket_clash ?t) (tickets s)"
    proof
      assume "list_ex (ticket_clash ?t) (tickets s)"
      with v None recover_none [OF None, of E "[issuance_row p None ''ticket_issuance_requested'' None]"]
      show False by (simp add: issue_verified_run Let_def)
    qed
    with v None have "out = Created ?t (base64url r32)" and s1: "s1 = add_til
        [issuance_row p None ''ticket_issuance_requested'' None, issuance_row p (Some (uuid E 0)) ''ticket_issued'' None]
        (tickets_update (\<lambda>ts. ts @ [?t]) s)"
      by (auto simp: issue_verified_run Let_def comp_def)
    moreover have "payment_ticket p s1 = Some ?t"
      using None by (simp add: payment_ticket_def s1 find_append issued_row_def)
    ultimately show thesis using out p e
      by (intro that [of p e ?t]) (auto intro: toTicketResponse_frame)
  qed
qed

text \<open>
  Issuing is idempotent and the token is shown once. When a call succeeded, a second call for the
  same intent also succeeds, returns the same ticket and no QR payload, and adds no ticket.
\<close>

theorem issue_ticket_idempotent:
  assumes "issueTicketFromVerifiedPayment E r10 r32 i s = (Inr a, s1)"
  shows "\<exists>b s2. issueTicketFromVerifiedPayment E' q10 q32 i s1 = (Inr b, s2) \<and>
    itr_ticket b = itr_ticket a \<and> itr_qrPayload b = None \<and> tickets s2 = tickets s1"
  using assms
proof (rule issue_success)
  fix p e t
  assume h: "find (\<lambda>p. pi_id p = i) (payment_intents s) = Some p" "pi_status p = PaymentIntentStatus.VERIFIED"
    "issuing_event p s = Some e" "payment_ticket p s1 = Some t" "itr_ticket a = toTicketResponse s t"
    "payment_intents s1 = payment_intents s" "events s1 = events s" "users s1 = users s" "organizers s1 = organizers s"
  have "issuing_event p s1 = Some e" using h issuing_event_frame [of s1 s p] by simp
  with h have "issuance_tx E' q10 q32 i s1 = (Inr (Existing t), add_til
      [issuance_row p None ''ticket_issuance_requested'' None,
       issuance_row p (Some (tkt_id t)) ''ticket_issuance_idempotent_replay'' None] s1)"
    by (simp add: issuance_tx_run issue_verified_run Let_def)
  with h(5,7) show ?thesis
    by (auto simp: issue_run runInTransaction_def intro: toTicketResponse_frame)
qed

text \<open>
  An insert that violates a unique key leaves no trace at all. The \<open>ticket_issuance_failed\<close> row the
  handler writes before it rethrows is rolled back with the transaction, or refused in it; the
  recovery that would return the existing ticket is never reached, because the ticket it looks
  for was looked up before the insert.
\<close>

theorem issuance_clash_leaves_no_trace:
  assumes "find (\<lambda>p. pi_id p = i) (payment_intents s) = Some p" and "pi_status p = PaymentIntentStatus.VERIFIED"
    and "issuing_event p s = Some e" and "payment_ticket p s = None"
    and "list_ex (ticket_clash (issued_row E r10 r32 p e)) (tickets s)"
  shows "issueTicketFromVerifiedPayment E r10 r32 i s =
    (Inl (if tx_usable_after_error E then PrismaClientKnownRequestError ''P2002'' else TransactionAborted), s)"
proof -
  let ?err = "if tx_usable_after_error E then PrismaClientKnownRequestError ''P2002'' else TransactionAborted"
  let ?s1 = "add_til [issuance_row p None ''ticket_issuance_requested'' None] s"
  obtain s2 where "after_failed_statement E (recover_ticket p (PrismaClientKnownRequestError ''P2002'')) ?s1 = (Inl ?err, s2)"
    using recover_none [OF assms(4), of E "[issuance_row p None ''ticket_issuance_requested'' None]"]
    by (metis prod.collapse)
  with assms have "issuance_tx E r10 r32 i s = (Inl ?err, s2)"
    by (simp add: issuance_tx_run issue_verified_run Let_def)
  then show ?thesis by (simp add: issue_run runInTransaction_def)
qed

section \<open>Examples\<close>

definition ex_buyer :: User where
  "ex_buyer = \<lparr> usr_id = ''u1'', usr_email = ''a@b'', usr_passwordHash = ''x'', usr_role = UserRole.CUSTOMER,
     usr_isActive = True, usr_emailVerifiedAt = Some 1 \<rparr>"

definition ex_paid_intent :: PaymentIntent where
  "ex_paid_intent = ex_intent\<lparr> pi_status := PaymentIntentStatus.VERIFIED, pi_organizerId := ''org'',
     pi_eventId := ''e'' \<rparr>"

definition ex_issue_db :: "Ticket list \<Rightarrow> db" where
  "ex_issue_db ts = empty_db\<lparr> users := [ex_buyer], organizers := [ex_host], events := [ex_event],
     payment_intents := [ex_paid_intent], tickets := ts \<rparr>"

lemmas ex_issue_defs = ex_issue_db_def ex_buyer_def ex_host_def ex_event_def ex_paid_intent_def ex_intent_def
  empty_db_def ex_env_def

lemma ex_issue_ready:
  "find (\<lambda>p. pi_id p = ''pi1'') (payment_intents (ex_issue_db ts)) = Some ex_paid_intent"
  "pi_status ex_paid_intent = PaymentIntentStatus.VERIFIED"
  "issuing_event ex_paid_intent (ex_issue_db ts) = Some ex_event"
  by (simp_all add: ex_issue_defs issuing_event_def with_organizer_def)

lemma ex_issuance_run:
  "issueTicketFromVerifiedPayment ex_env [1] [2] ''pi1'' (ex_issue_db []) =
     (Inr \<lparr> itr_ticket = toTicketResponse (ex_issue_db []) (issued_row ex_env [1] [2] ex_paid_intent ex_event),
            itr_qrPayload = Some (uuid ex_env 0, base64url [2]) \<rparr>,
      add_til [issuance_row ex_paid_intent None ''ticket_issuance_requested'' None,
               issuance_row ex_paid_intent (Some (uuid ex_env 0)) ''ticket_issued'' None]
        (ex_issue_db [issued_row ex_env [1] [2] ex_paid_intent ex_event]))"
proof -
  have "payment_ticket ex_paid_intent (ex_issue_db []) = None" by (simp add: payment_ticket_def ex_issue_db_def)
  then have "issuance_tx ex_env [1] [2] ''pi1'' (ex_issue_db []) =
     (Inr (Created (issued_row ex_env [1] [2] ex_paid_intent ex_event) (base64url [2])),
      add_til [issuance_row ex_paid_intent None ''ticket_issuance_requested'' None,
               issuance_row ex_paid_intent (Some (uuid ex_env 0)) ''ticket_issued'' None]
        (ex_issue_db [issued_row ex_env [1] [2] ex_paid_intent ex_event]))"
    by (simp add: issuance_tx_run ex_issue_ready issue_verified_run Let_def) (simp add: ex_issue_db_def comp_def)
  then show ?thesis
    by (simp add: issue_run runInTransaction_def issued_row_def)
      (rule toTicketResponse_frame, simp add: ex_issue_db_def)
qed

lemma issue_ticket_idempotent_witness:
  "\<exists>b s2. issueTicketFromVerifiedPayment ex_env [3] [4] ''pi1''
      (snd (issueTicketFromVerifiedPayment ex_env [1] [2] ''pi1'' (ex_issue_db []))) = (Inr b, s2) \<and>
    itr_qrPayload b = None \<and> length (tickets s2) = 1"
  using issue_ticket_idempotent [OF ex_issuance_run, of ex_env "[3]" "[4]"]
  by (auto simp: ex_issuance_run) (auto simp: ex_issue_db_def)

text \<open>Another ticket already has the number the bytes give.\<close>

lemma issuance_clash_leaves_no_trace_witness:
  "issueTicketFromVerifiedPayment ex_env [1] [2] ''pi1''
     (ex_issue_db [(issued_row ex_env [1] [9] ex_paid_intent ex_event)\<lparr> tkt_paymentIntentId := Some ''other'' \<rparr>]) =
   (Inl TransactionAborted,
    ex_issue_db [(issued_row ex_env [1] [9] ex_paid_intent ex_event)\<lparr> tkt_paymentIntentId := Some ''other'' \<rparr>])"
proof -
  let ?s = "ex_issue_db [(issued_row ex_env [1] [9] ex_paid_intent ex_event)\<lparr> tkt_paymentIntentId := Some ''other'' \<rparr>]"
  have "payment_ticket ex_paid_intent ?s = None"
    and "list_ex (ticket_clash (issued_row ex_env [1] [2] ex_paid_intent ex_event)) (tickets ?s)"
    by (simp_all add: payment_ticket_def ticket_clash_def issued_row_def ex_issue_defs)
  from issuance_clash_leaves_no_trace [OF ex_issue_ready this] show ?thesis by (simp add: ex_env_def)
qed

end
