(* ===== verification/Payment_Initiation.thy ===== *)
theory Payment_Initiation
  imports Launch_Control Payment_Webhooks Event_Catalog Ticket_Issuance
begin

text \<open>
  Starting a payment (\<^verbatim>\<open>src/modules/payments/application/payments.service.ts\<close>): the intent is created or
  found under its idempotency key in a first transaction, the provider is called outside any
  transaction, and a second transaction records what it answered.

  Parameters: the adapter of a provider (\<open>adapter p request\<close>), and whether the second transaction
  reaches the database (\<open>lost\<close>; \<open>Some e\<close> is the error of a connection that broke before its
  commit). Between the two transactions other handlers run: \<open>begin_initiation\<close> and
  \<open>finish_initiation\<close> are the two halves.
\<close>

section \<open>Helpers of the service\<close>

record InitiatePaymentInput =
  ipi_idempotencyKey :: string
  ipi_eventId :: string
  ipi_provider :: PaymentProvider
  ipi_customerPhone :: "string option"

definition PAYMENT_INITIATION_IDEMPOTENCY_USE_CASE :: string where
  "PAYMENT_INITIATION_IDEMPOTENCY_USE_CASE = ''payments.initiate''"

definition assertEventEligible :: "(Event \<times> Organizer) option \<Rightarrow> string \<Rightarrow> (db, Event) prog" where
  "assertEventEligible event eventId =
     (case event of
        None \<Rightarrow> throw (NotFoundError ''Event not found.'')
      | Some (e, o') \<Rightarrow>
          if evt_status e \<noteq> EventStatus.PUBLISHED then throw (DomainConflictError ''Event is not published.'')
          else if org_status o' \<noteq> OrganizerStatus.APPROVED then
            throw (DomainConflictError ''Organizer is not approved for payments.'')
          else if \<not> evt_paymentEnabled e then
            throw (DomainConflictError ''Event is not enabled for payments.'')
          else if (case evt_priceMinor e of None \<Rightarrow> True | Some n \<Rightarrow> n \<le> 0) then
            throw (DomainConflictError (''Event '' @ eventId @ '' does not have a valid payment amount configured.''))
          else if js_trim (evt_priceCurrency e) = [] then
            throw (DomainConflictError (''Event '' @ eventId @ '' does not have a valid payment currency configured.''))
          else ret e)"

definition toSupportedProvider :: "PaymentProvider \<Rightarrow> string" where
  "toSupportedProvider provider = (if provider = PAYSTACK then ''paystack'' else ''momo'')"

definition normalizePhone :: "string option \<Rightarrow> string option" where
  "normalizePhone v =
     (case v of None \<Rightarrow> None | Some x \<Rightarrow> (let n = js_trim x in if n = [] then None else Some n))"

definition buildProviderReference :: "string \<Rightarrow> string" where
  "buildProviderReference idempotencyKeyHash = ''pi_'' @ take 24 idempotencyKeyHash"

definition hashValue :: "env \<Rightarrow> string \<Rightarrow> string" where
  "hashValue E v = sha256 E v"

text \<open>\<open>JSON.stringify\<close> of the fingerprint; the phone is a string or \<open>null\<close>.\<close>

definition fingerprint_text :: "InitiatePaymentInput \<Rightarrow> string" where
  "fingerprint_text input =
     ''{'' @ json_quote ''eventId'' @ '':'' @ json_quote (ipi_eventId input) @ '','' @
     json_quote ''provider'' @ '':'' @ json_quote (provider_text (ipi_provider input)) @ '','' @
     json_quote ''customerPhone'' @ '':'' @
     (case normalizePhone (ipi_customerPhone input) of None \<Rightarrow> ''null'' | Some x \<Rightarrow> json_quote x) @ ''}''"

definition resolveFailureCode :: "app_error \<Rightarrow> string" where
  "resolveFailureCode error =
     (case error of
        ProviderTimeoutError p m \<Rightarrow> ''PAYMENT_PROVIDER_TIMEOUT''
      | ProviderAuthError p m \<Rightarrow> ''PAYMENT_PROVIDER_AUTH_ERROR''
      | ProviderNetworkError p m \<Rightarrow> ''PAYMENT_PROVIDER_NETWORK_ERROR''
      | ProviderResponseError p code n m d \<Rightarrow> code
      | _ \<Rightarrow> ''PAYMENT_INITIATION_FAILED'')"

definition resolveFailurePayload :: "app_error \<Rightarrow> json option" where
  "resolveFailurePayload error =
     (let plain = Some (JObj [(''name'', JStr (error_name error)), (''message'', JStr (error_message error))]) in
      case error of
        ProviderResponseError p code n m (Some metadata) \<Rightarrow> Some metadata
      | _ \<Rightarrow> plain)"

text \<open>The view leaves out \<open>createdAt\<close> and \<open>updatedAt\<close>, which the rows here do not have.\<close>

record PaymentIntentView =
  piv_paymentIntentId :: string
  piv_eventId :: string
  piv_organizerId :: string
  piv_buyerUserId :: string
  piv_provider :: PaymentProvider
  piv_status :: PaymentIntentStatus
  piv_amountMinor :: int
  piv_currency :: string
  piv_providerReference :: string
  piv_providerCheckoutUrl :: "string option"
  piv_providerAccessCode :: "string option"
  piv_failureCode :: "string option"
  piv_failureMessage :: "string option"
  piv_initiatedAt :: "int option"
  piv_verifiedAt :: "int option"
  piv_failedAt :: "int option"
  piv_providerVerifiedStatus :: "string option"
  piv_providerVerifiedAmount :: "int option"
  piv_providerVerifiedCurrency :: "string option"

definition toView :: "PaymentIntent \<Rightarrow> PaymentIntentView" where
  "toView p =
     \<lparr> piv_paymentIntentId = pi_id p, piv_eventId = pi_eventId p, piv_organizerId = pi_organizerId p,
       piv_buyerUserId = pi_buyerUserId p, piv_provider = pi_provider p, piv_status = pi_status p,
       piv_amountMinor = pi_amountMinor p, piv_currency = pi_currency p,
       piv_providerReference = pi_providerReference p, piv_providerCheckoutUrl = pi_providerCheckoutUrl p,
       piv_providerAccessCode = pi_providerAccessCode p, piv_failureCode = pi_failureCode p,
       piv_failureMessage = pi_failureMessage p, piv_initiatedAt = pi_initiatedAt p,
       piv_verifiedAt = pi_verifiedAt p, piv_failedAt = pi_failedAt p,
       piv_providerVerifiedStatus = pi_providerVerifiedStatus p,
       piv_providerVerifiedAmount = pi_providerVerifiedAmount p,
       piv_providerVerifiedCurrency = pi_providerVerifiedCurrency p \<rparr>"

section \<open>The first transaction\<close>

datatype InitiationAction = CallProvider PaymentIntent | ReturnExisting PaymentIntent

definition new_intent :: "env \<Rightarrow> string \<Rightarrow> Event \<Rightarrow> InitiatePaymentInput \<Rightarrow> PaymentIntent" where
  "new_intent E buyerId event input =
     (let idempotencyKeyHash = hashValue E (ipi_idempotencyKey input) in
      \<lparr> pi_id = uuid E 0, pi_buyerUserId = buyerId, pi_organizerId = evt_organizerId event,
        pi_eventId = evt_id event, pi_provider = ipi_provider input,
        pi_status = PaymentIntentStatus.INITIATION_PENDING,
        pi_amountMinor = (case evt_priceMinor event of None \<Rightarrow> 0 | Some n \<Rightarrow> n),
        pi_currency = evt_priceCurrency event,
        pi_idempotencyUseCase = PAYMENT_INITIATION_IDEMPOTENCY_USE_CASE,
        pi_idempotencyKeyHash = idempotencyKeyHash,
        pi_requestFingerprintHash = hashValue E (fingerprint_text input),
        pi_providerReference = buildProviderReference idempotencyKeyHash,
        pi_providerCheckoutUrl = None, pi_providerAccessCode = None, pi_providerRawResponse = None,
        pi_failureCode = None, pi_failureMessage = None, pi_initiatedAt = None, pi_verifiedAt = None,
        pi_failedAt = None, pi_providerVerifiedStatus = None, pi_providerVerifiedAmount = None,
        pi_providerVerifiedCurrency = None, pi_providerVerificationRaw = None \<rparr>)"

definition requested_data :: "bool \<Rightarrow> Event \<Rightarrow> InitiatePaymentInput \<Rightarrow> json" where
  "requested_data retry event input = JObj
     ((if retry then [(''retry'', JBool True)] else []) @
      [(''eventId'', JStr (evt_id event)), (''organizerId'', JStr (evt_organizerId event)),
       (''provider'', JStr (provider_text (ipi_provider input)))])"

definition initiation_tx ::
  "env \<Rightarrow> string \<Rightarrow> Event \<Rightarrow> InitiatePaymentInput \<Rightarrow> (db, InitiationAction) prog" where
  "initiation_tx E buyerId event input =
     (let idempotencyKeyHash = hashValue E (ipi_idempotencyKey input);
          requestFingerprintHash = hashValue E (fingerprint_text input)
      in bindp (findByBuyerAndIdempotency buyerId PAYMENT_INITIATION_IDEMPOTENCY_USE_CASE idempotencyKeyHash)
        (\<lambda>existing.
           case existing of
             Some p \<Rightarrow>
               if pi_requestFingerprintHash p \<noteq> requestFingerprintHash then
                 throw (IdempotencyConflictError ''Idempotency key reused with different payload.'')
               else if pi_status p = PaymentIntentStatus.INITIATION_FAILED then
                 bindp (markRetryPending (pi_id p)) (\<lambda>retried.
                   seqp (IntentAudit_append (retried\<lparr>pi_buyerUserId := buyerId\<rparr>) ''payment_initiation_requested''
                           (requested_data True event input))
                        (ret (CallProvider retried)))
               else
                 seqp (IntentAudit_append (p\<lparr>pi_buyerUserId := buyerId\<rparr>) ''payment_initiation_idempotent_replay''
                         (JObj [(''eventId'', JStr (pi_eventId p)),
                                (''provider'', JStr (provider_text (pi_provider p))),
                                (''status'', JStr (intent_status_text (pi_status p)))]))
                      (ret (ReturnExisting p))
           | None \<Rightarrow>
               bindp (Intent_create (new_intent E buyerId event input)) (\<lambda>created.
                 seqp (IntentAudit_append (created\<lparr>pi_buyerUserId := buyerId\<rparr>) ''payment_initiation_requested''
                         (requested_data False event input))
                      (ret (CallProvider created)))))"

definition User_findById :: "string \<Rightarrow> (db, User option) prog" where
  "User_findById i = prisma_find users (\<lambda>u. usr_id u = i)"

definition begin_initiation ::
  "env \<Rightarrow> LaunchControlService \<Rightarrow> request_ctx option \<Rightarrow> InitiatePaymentInput \<Rightarrow>
   (db, User \<times> InitiationAction) prog" where
  "begin_initiation E L ctx input =
     (case Option.bind ctx ctx_userId of
        None \<Rightarrow> throw (DomainConflictError ''Authenticated user context is required.'')
      | Some userId \<Rightarrow>
          if userId = [] then throw (DomainConflictError ''Authenticated user context is required.'')
          else bindp (User_findById userId) (\<lambda>found.
            case found of
              None \<Rightarrow> throw (NotFoundError ''Buyer not found.'')
            | Some buyer \<Rightarrow>
                if \<not> usr_isActive buyer then
                  throw (DomainConflictError ''Inactive users cannot initiate payments.'')
                else if usr_emailVerifiedAt buyer = None then
                  throw (DomainConflictError ''Email verification is required before initiating payments.'')
                else
                  bindp (findByIdForPaymentInitiation (ipi_eventId input)) (\<lambda>found.
                  bindp (assertEventEligible found (ipi_eventId input)) (\<lambda>event.
                  seqp (assertPaymentInitiationAllowed L (toSupportedProvider (ipi_provider input))
                          (evt_id event) (evt_priceCurrency event))
                    (bindp (runInTransaction (initiation_tx E (usr_id buyer) event input))
                       (\<lambda>action. ret (buyer, action)))))))"

section \<open>The provider and the second transaction\<close>

record InitiateRequest =
  irq_paymentIntentId :: string
  irq_providerReference :: string
  irq_amountMinor :: int
  irq_currency :: string
  irq_customerEmail :: string
  irq_customerPhone :: "string option"
  irq_metadata :: "(string \<times> string) list"

text \<open>What an adapter answers; the reference is \<open>None\<close> when the provider sent one that is not a text.\<close>

record InitiateResult =
  irs_providerReference :: "string option"
  irs_checkoutUrl :: "string option"
  irs_accessCode :: "string option"
  irs_rawResponse :: json

type_synonym payment_adapter = "PaymentProvider \<Rightarrow> InitiateRequest \<Rightarrow> app_error + InitiateResult"

definition initiate_request :: "PaymentIntent \<Rightarrow> User \<Rightarrow> InitiatePaymentInput \<Rightarrow> InitiateRequest" where
  "initiate_request p buyer input =
     \<lparr> irq_paymentIntentId = pi_id p, irq_providerReference = pi_providerReference p,
       irq_amountMinor = pi_amountMinor p, irq_currency = pi_currency p, irq_customerEmail = usr_email buyer,
       irq_customerPhone = normalizePhone (ipi_customerPhone input),
       irq_metadata = [(''paymentIntentId'', pi_id p), (''eventId'', pi_eventId p),
         (''organizerId'', pi_organizerId p), (''buyerUserId'', pi_buyerUserId p)] \<rparr>"

definition recordInitiationFailure ::
  "env \<Rightarrow> PaymentIntent \<Rightarrow> string \<Rightarrow> PaymentProvider \<Rightarrow> app_error \<Rightarrow> (db, unit) prog" where
  "recordInitiationFailure E p buyerUserId provider error =
     (let failureCode = resolveFailureCode error; failureMessage = error_message error in
      runInTransaction
        (seqp (markFailed (pi_id p) failureCode failureMessage (resolveFailurePayload error) (app_now E))
              (IntentAudit_append (p\<lparr>pi_buyerUserId := buyerUserId\<rparr>) ''payment_initiation_failed''
                 (JObj [(''provider'', JStr (provider_text provider)),
                        (''providerReference'', JStr (pi_providerReference p)),
                        (''failureCode'', JStr failureCode), (''failureMessage'', JStr failureMessage)]))))"

definition tryAppendAuditLog :: "PaymentIntent \<Rightarrow> string \<Rightarrow> json \<Rightarrow> (db, unit) prog" where
  "tryAppendAuditLog p eventType data = catchp (IntentAudit_append p eventType data) (\<lambda>_. ret ())"

definition recordProviderSuccessPersistenceFailure ::
  "env \<Rightarrow> PaymentIntent \<Rightarrow> string \<Rightarrow> json \<Rightarrow> app_error \<Rightarrow> (db, unit) prog" where
  "recordProviderSuccessPersistenceFailure E p buyerUserId rawResponse error =
     (let row = p\<lparr>pi_buyerUserId := buyerUserId\<rparr>;
          data = [(''providerReference'', JStr (pi_providerReference p)), (''error'', JStr (error_message error))]
      in catchp
        (runInTransaction
          (seqp (markFailed (pi_id p) ''LOCAL_PERSISTENCE_FAILURE_AFTER_PROVIDER_SUCCESS''
                   ''Provider initiation succeeded but the local state could not be finalized.''
                   (Some rawResponse) (app_now E))
                (IntentAudit_append row ''payment_initiation_provider_created_db_update_failed'' (JObj data))))
        (\<lambda>_. tryAppendAuditLog row ''payment_initiation_provider_created_db_update_failed''
               (JObj (data @ [(''auditFallback'', JBool True)]))))"

definition persist_initiated ::
  "env \<Rightarrow> app_error option \<Rightarrow> PaymentIntent \<Rightarrow> string \<Rightarrow> InitiateResult \<Rightarrow> (db, PaymentIntent) prog" where
  "persist_initiated E lost p buyerUserId initiated =
     runInTransaction
       (bindp (markInitiated (pi_id p) (irs_checkoutUrl initiated) (irs_accessCode initiated)
                 (irs_rawResponse initiated) (app_now E) None) (\<lambda>updated.
          seqp (IntentAudit_append (updated\<lparr>pi_buyerUserId := buyerUserId\<rparr>) ''payment_initiation_initiated''
                  (JObj [(''provider'', JStr (provider_text (pi_provider updated))),
                         (''providerReference'', JStr (pi_providerReference updated)),
                         (''providerCheckoutUrl'', jopt (pi_providerCheckoutUrl updated)),
                         (''providerAccessCode'', jopt (pi_providerAccessCode updated))]))
               (case lost of None \<Rightarrow> ret updated | Some e \<Rightarrow> throw e)))"

definition finish_initiation ::
  "env \<Rightarrow> payment_adapter \<Rightarrow> app_error option \<Rightarrow> User \<Rightarrow> PaymentIntent \<Rightarrow> InitiatePaymentInput \<Rightarrow>
   (db, PaymentIntentView) prog" where
  "finish_initiation E adapter lost buyer p input =
     catchp
       (bindp (lift_result (adapter (ipi_provider input) (initiate_request p buyer input))) (\<lambda>initiated.
          if irs_providerReference initiated \<noteq> Some (pi_providerReference p) then
            throw (ProviderResponseError (toSupportedProvider (ipi_provider input))
                     ''PAYMENT_PROVIDER_REFERENCE_MISMATCH'' 500
                     ''Provider returned an unexpected payment reference.'' None)
          else
            catchp
              (bindp (persist_initiated E lost p (usr_id buyer) initiated) (\<lambda>persisted. ret (toView persisted)))
              (\<lambda>error.
                 seqp (recordProviderSuccessPersistenceFailure E p (usr_id buyer) (irs_rawResponse initiated) error)
                   (throw (InternalServerErrorException
                      ''Payment provider initiation succeeded but local persistence failed.'')))))
       (\<lambda>error. seqp (recordInitiationFailure E p (usr_id buyer) (ipi_provider input) error) (throw error))"

definition initiatePayment ::
  "env \<Rightarrow> LaunchControlService \<Rightarrow> request_ctx option \<Rightarrow> payment_adapter \<Rightarrow> app_error option \<Rightarrow>
   InitiatePaymentInput \<Rightarrow> (db, PaymentIntentView) prog" where
  "initiatePayment E L ctx adapter lost input =
     bindp (begin_initiation E L ctx input) (\<lambda>(buyer, action).
       case action of
         ReturnExisting p \<Rightarrow> ret (toView p)
       | CallProvider p \<Rightarrow> finish_initiation E adapter lost buyer p input)"

definition getPaymentIntentForBuyer :: "string \<Rightarrow> string \<Rightarrow> (db, PaymentIntentView) prog" where
  "getPaymentIntentForBuyer paymentIntentId buyerUserId =
     bindp (findOwnedByBuyer paymentIntentId buyerUserId) (\<lambda>found.
       case found of
         None \<Rightarrow> throw (NotFoundError ''Payment intent not found.'')
       | Some p \<Rightarrow> ret (toView p))"

section \<open>The intents of a reachable state\<close>

text \<open>What the provider confirmed is the intent's own amount and currency.\<close>

definition confirmed :: "PaymentIntent \<Rightarrow> bool" where
  "confirmed p \<longleftrightarrow> pi_providerVerifiedAmount p = Some (pi_amountMinor p) \<and>
     pi_providerVerifiedCurrency p = Some (pi_currency p)"

definition intents_ok :: "PaymentIntent list \<Rightarrow> bool" where
  "intents_ok ps \<longleftrightarrow> distinct (map pi_id ps) \<and> distinct (map pi_providerReference ps) \<and>
     distinct (map intent_key ps) \<and>
     (\<forall>p\<in>set ps. pi_status p = PaymentIntentStatus.VERIFIED \<longrightarrow> confirmed p)"

definition same_terms :: "PaymentIntent \<Rightarrow> PaymentIntent \<Rightarrow> bool" where
  "same_terms p q \<longleftrightarrow> pi_amountMinor q = pi_amountMinor p \<and> pi_currency q = pi_currency p"

definition agrees :: "PaymentIntent \<Rightarrow> PaymentIntent list \<Rightarrow> bool" where
  "agrees p ps \<longleftrightarrow> (\<forall>q\<in>set ps. pi_id q = pi_id p \<longrightarrow> same_terms p q)"

lemma intents_ok_upd:
  assumes "intents_ok ps"
    and f: "\<And>p. pi_id (f p) = pi_id p" "\<And>p. pi_providerReference (f p) = pi_providerReference p"
      "\<And>p. intent_key (f p) = intent_key p"
    and v: "\<And>p. p \<in> set ps \<Longrightarrow> c p \<Longrightarrow> pi_status (f p) = PaymentIntentStatus.VERIFIED \<Longrightarrow> confirmed (f p)"
  shows "intents_ok (upd_where c f ps)"
  using assms(1) v by (auto simp: intents_ok_def map_key_upd_where f set_upd_where)

lemma agrees_upd:
  "agrees p ps \<Longrightarrow> (\<And>q. pi_id (f q) = pi_id q) \<Longrightarrow> (\<And>q. same_terms q (f q)) \<Longrightarrow> agrees p (upd_where c f ps)"
  by (auto simp: agrees_def set_upd_where same_terms_def)

text \<open>Programs that leave the intents alone keep any property of them.\<close>

abbreviation on_intents :: "(PaymentIntent list \<Rightarrow> bool) \<Rightarrow> db \<Rightarrow> bool" where
  "on_intents Q s \<equiv> Q (payment_intents s)"

lemma keeps_audit: "keeps (on_intents Q) (IntentAudit_append p e d)"
  by (rule keepsI) simp

lemma keeps_updateProcessing: "keeps (on_intents Q) (updateProcessing i u)"
  by (rule keepsI) (auto simp: updateProcessing_def prisma_update_def split: option.splits)

lemma keeps_WebhookEvent_create: "keeps (on_intents Q) (WebhookEvent_create w)"
  by (rule keepsI) (auto simp: WebhookEvent_create_def prisma_create_def split: if_splits)

lemma keeps_audit_if: "keeps (on_intents Q) (audit_if p a)"
  by (auto simp: audit_if_def split: option.splits prod.splits intro: keeps_audit keeps_ret)

lemma keeps_lift_result: "keeps I (lift_result r)"
  by (auto simp: lift_result_def split: sum.splits)

lemma keeps_intent_lookups:
  "keeps I (findByProviderReference r)" "keeps I (Intent_findById i)" "keeps I (findByBuyerAndIdempotency b u k)"
  "keeps I (findByProviderAndEventId pr ei)" "keeps I (findByProviderAndPayloadHash pr h)"
  by (simp_all add: keeps_def)

lemmas intent_frame = keeps_audit keeps_updateProcessing keeps_WebhookEvent_create keeps_audit_if
  keeps_lift_result keeps_intent_lookups

lemma keeps_reject: "keeps (on_intents Q) (rejectWebhook E w p c m a)"
  unfolding rejectWebhook_def by (intro keeps_rules intent_frame)

lemma keeps_processed: "keeps (on_intents Q) (markWebhookProcessed E w p a)"
  unfolding markWebhookProcessed_def by (intro keeps_rules intent_frame)

lemma keeps_verification_error: "keeps (on_intents Q) (handleVerificationError E w p e)"
  unfolding handleVerificationError_def Let_def by (intro keeps_rules intent_frame)

lemma keeps_duplicate: "keeps (on_intents Q) (handleDuplicateDelivery w p envelope)"
  unfolding handleDuplicateDelivery_def by (intro keeps_rules intent_frame)

lemma keeps_createWebhookEvent: "keeps (on_intents Q) (createWebhookEvent E envelope p)"
  unfolding createWebhookEvent_def by (intro keeps_rules intent_frame)

lemma keeps_persist: "keeps (on_intents Q) (persistRejectedSignatureEvent E pr h raw hs m)"
  unfolding persistRejectedSignatureEvent_def by (intro keeps_rules intent_frame)

text \<open>The terminal transition, for an intent whose terms the provider confirmed.\<close>

definition settled_ok :: "PaymentIntent \<Rightarrow> PaymentIntent list \<Rightarrow> bool" where
  "settled_ok p ps \<longleftrightarrow> intents_ok ps \<and> agrees p ps"

lemma settle_row_simps:
  "pi_id (settle_row t x v q) = pi_id q" "pi_providerReference (settle_row t x v q) = pi_providerReference q"
  "intent_key (settle_row t x v q) = intent_key q" "same_terms q (settle_row t x v q)"
  by (cases x; simp add: settle_row_def set_verified_def set_failed_def intent_key_def same_terms_def)+

lemma keeps_transition:
  assumes "verification_matches p v"
  shows "keeps (on_intents (settled_ok p)) (apply_transition target p v t)"
proof (rule keepsI)
  fix s r s'
  assume ok: "settled_ok p (payment_intents s)" and run: "apply_transition target p v t s = (r, s')"
  let ?c = "\<lambda>q. pi_id q = pi_id p \<and> can_transition q"
  from run have s': "payment_intents s' = upd_where ?c (settle_row t target v) (payment_intents s)"
    by (auto simp: apply_transition_run)
  have "intents_ok (upd_where ?c (settle_row t target v) (payment_intents s))"
  proof (rule intents_ok_upd)
    fix q
    assume "q \<in> set (payment_intents s)" "?c q"
      and st: "pi_status (settle_row t target v q) = PaymentIntentStatus.VERIFIED"
    with ok have "same_terms p q" by (auto simp: settled_ok_def agrees_def)
    with assms st show "confirmed (settle_row t target v q)"
      by (cases target) (simp_all add: settle_row_def set_verified_def set_failed_def confirmed_def
          verification_matches_def same_terms_def facts_of_def)
  qed (use ok in \<open>simp_all add: settled_ok_def settle_row_simps\<close>)
  moreover have "agrees p (upd_where ?c (settle_row t target v) (payment_intents s))"
    using ok by (intro agrees_upd) (simp_all add: settled_ok_def settle_row_simps)
  ultimately show "settled_ok p (payment_intents s')" by (simp add: s' settled_ok_def)
qed

lemma keeps_result: "keeps (on_intents (settled_ok p)) (handleVerificationResult E w p v)"
proof (cases "verification_matches p v")
  case True
  have terminal: "keeps (on_intents (settled_ok p)) (applyTerminalTransition E p w v target)" for target
    unfolding applyTerminalTransition_def transition_skipped_def transition_applied_def Let_def
    by (intro keeps_rules intent_frame keeps_transition [OF True])
  from True show ?thesis
    by (cases "pvr_status v") (auto simp: handleVerificationResult_def verification_matches_def Let_def
        intro!: terminal keeps_seqp keeps_processed keeps_ret)
next
  case False
  then show ?thesis
    by (auto simp: handleVerificationResult_def verification_matches_def Let_def
        intro!: keeps_seqp keeps_reject keeps_ret)
qed

lemma keeps_received:
  "keeps (on_intents (settled_ok q)) (process_received E verify envelope (Some q) w)"
  unfolding process_received_def option.case
  by (intro keeps_rules intent_frame keeps_processed keeps_reject keeps_verification_error keeps_result)

lemma keeps_received_none: "keeps (on_intents Q) (process_received E verify envelope None w)"
  unfolding process_received_def option.case
  by (intro keeps_rules intent_frame keeps_processed keeps_reject)

lemma keeps_delivery: "keeps (on_intents (settled_ok q)) (process_delivery E verify envelope (Some q))"
  unfolding process_delivery_def
  by (intro keeps_rules intent_frame keeps_createWebhookEvent keeps_duplicate keeps_received)

lemma keeps_delivery_none: "keeps (on_intents Q) (process_delivery E verify envelope None)"
  unfolding process_delivery_def
  by (intro keeps_rules intent_frame keeps_createWebhookEvent keeps_duplicate keeps_received_none)

lemma agrees_self: "intents_ok ps \<Longrightarrow> p \<in> set ps \<Longrightarrow> agrees p ps"
  by (simp add: intents_ok_def agrees_def same_terms_def) (metis distinct_key_unique)

lemma keeps_processEnvelope: "keeps (on_intents intents_ok) (processEnvelope E verify envelope)"
proof (rule keepsI)
  fix s r s'
  assume ok: "intents_ok (payment_intents s)" and run: "processEnvelope E verify envelope s = (r, s')"
  show "intents_ok (payment_intents s')"
  proof (cases "delivered_intent envelope s")
    case None
    with run ok show ?thesis using keepsD [OF keeps_delivery_none, of intents_ok] by (simp add: processEnvelope_run)
  next
    case (Some q)
    then have "q \<in> set (payment_intents s)"
      by (auto simp: delivered_intent_def split: option.splits if_splits dest: find_Some_iff2)
    with ok have "settled_ok q (payment_intents s)" by (simp add: settled_ok_def agrees_self)
    with run Some have "settled_ok q (payment_intents s')"
      using keepsD [OF keeps_delivery] by (simp add: processEnvelope_run)
    then show ?thesis by (simp add: settled_ok_def)
  qed
qed

lemma keeps_handleWebhook: "keeps (on_intents intents_ok) (handleWebhook E hmac key verify input)"
  unfolding handleWebhook_def Let_def
  by (intro keeps_rules intent_frame keeps_persist keeps_processEnvelope)

text \<open>The two halves of an initiation; the second with any snapshot of the intent.\<close>

lemma keeps_Intent_update:
  assumes "\<And>p. pi_id (f p) = pi_id p" "\<And>p. pi_providerReference (f p) = pi_providerReference p"
    "\<And>p. intent_key (f p) = intent_key p" "\<And>p. pi_status (f p) \<noteq> PaymentIntentStatus.VERIFIED"
  shows "keeps (on_intents intents_ok) (Intent_update i f)"
  by (rule keepsI)
    (auto simp: Intent_update_def prisma_update_def assms intro!: intents_ok_upd split: option.splits)

lemma keeps_marks:
  "keeps (on_intents intents_ok) (markRetryPending i)"
  "keeps (on_intents intents_ok) (markInitiated i url ac raw instant None)"
  "keeps (on_intents intents_ok) (markFailed i c m raw' instant)"
  unfolding markRetryPending_def markInitiated_def markFailed_def
  by (rule keeps_Intent_update; simp add: intent_key_def)+

lemma keeps_create: "keeps (on_intents intents_ok) (Intent_create (new_intent E b e input))"
proof (rule keepsI)
  fix s r s'
  assume "intents_ok (payment_intents s)" and "Intent_create (new_intent E b e input) s = (r, s')"
  moreover have "pi_status (new_intent E b e input) = PaymentIntentStatus.INITIATION_PENDING"
    by (simp add: new_intent_def Let_def)
  ultimately show "intents_ok (payment_intents s')"
    by (auto simp: Intent_create_def prisma_create_def intents_ok_def intent_clash_def list_ex_iff
        split: if_splits)
qed

lemma keeps_begin: "keeps (on_intents intents_ok) (begin_initiation E L ctx input)"
proof -
  have e: "keeps I (assertEventEligible v i)" for I v i
    unfolding assertEventEligible_def by (intro keeps_rules)
  have f: "keeps I (findByIdForPaymentInitiation i)" for I i
    by (rule keepsI) (simp add: findByIdForPaymentInitiation_def)
  have a: "keeps I (assertPaymentInitiationAllowed L p i c)" for I p i c
    by (rule keeps_readonly) (auto simp: assertPaymentInitiationAllowed_def)
  show ?thesis
    unfolding begin_initiation_def initiation_tx_def User_findById_def Let_def
    by (intro keeps_rules intent_frame keeps_marks keeps_create e f a)
qed

lemma keeps_finish: "keeps (on_intents intents_ok) (finish_initiation E adapter lost buyer p input)"
  unfolding finish_initiation_def persist_initiated_def recordInitiationFailure_def
    recordProviderSuccessPersistenceFailure_def tryAppendAuditLog_def Let_def
  by (intro keeps_rules intent_frame keeps_marks)

text \<open>
  The steps: an initiation begins, an initiation finishes (with whatever snapshot of its intent it
  holds by then), a webhook is delivered, a verification that was asked for earlier comes back to an
  intent with the terms of the snapshot.
\<close>

inductive intent_step :: "db \<Rightarrow> db \<Rightarrow> bool" where
  step_begin: "begin_initiation E L ctx input s = (rb, s') \<Longrightarrow> intent_step s s'"
| step_finish: "finish_initiation E adapter lost buyer p input s = (rf, s') \<Longrightarrow> intent_step s s'"
| step_webhook: "handleWebhook E hmac key verify winput s = (rw, s') \<Longrightarrow> intent_step s s'"
| step_result: "handleVerificationResult E w p v s = (rw, s') \<Longrightarrow> agrees p (payment_intents s) \<Longrightarrow> intent_step s s'"

lemma intent_step_ok: "intent_step s s' \<Longrightarrow> intents_ok (payment_intents s) \<Longrightarrow> intents_ok (payment_intents s')"
proof (induction rule: intent_step.induct)
  case (step_begin E L ctx input s rb s')
  then show ?case using keepsD [OF keeps_begin] by blast
next
  case (step_finish E adapter lost buyer p input s rf s')
  then show ?case using keepsD [OF keeps_finish] by blast
next
  case (step_webhook E hmac key verify winput s rw s')
  then show ?case using keepsD [OF keeps_handleWebhook] by blast
next
  case (step_result E w p v s rw s')
  then have "settled_ok p (payment_intents s')"
    using keepsD [OF keeps_result, of p s E w v rw s'] by (simp add: settled_ok_def)
  then show ?case by (simp add: settled_ok_def)
qed

interpretation intent_system: transition_system "\<lambda>s. payment_intents s = []" intent_step
  "\<lambda>s. intents_ok (payment_intents s)"
  by unfold_locales (simp add: intents_ok_def, rule intent_step_ok)

section \<open>Properties\<close>

text \<open>
  C24: Whatever initiations, webhooks and late verification results interleave, payment intents keep
  unique identifiers, provider references and idempotency keys, and an intent is VERIFIED only with
  its own amount and its own currency on record as confirmed by the provider.
\<close>

theorem verified_intents_are_confirmed:
  assumes "payment_intents s = []" and "intent_step\<^sup>*\<^sup>* s t"
  shows "distinct (map pi_id (payment_intents t)) \<and> distinct (map pi_providerReference (payment_intents t)) \<and>
    distinct (map intent_key (payment_intents t)) \<and>
    list_all (\<lambda>p. pi_status p \<noteq> PaymentIntentStatus.VERIFIED \<or>
      pi_providerVerifiedAmount p = Some (pi_amountMinor p) \<and>
      pi_providerVerifiedCurrency p = Some (pi_currency p)) (payment_intents t)"
  using intent_system.reachable_inv [OF assms] by (auto simp: intents_ok_def confirmed_def list_all_iff)

lemma Intent_update_run:
  "find (\<lambda>q. pi_id q = i) (payment_intents s) = Some q \<Longrightarrow>
     Intent_update i f s = (Inr (f q), payment_intents_update (upd_where (\<lambda>q. pi_id q = i) f) s)"
  by (simp add: Intent_update_def prisma_update_run)

definition initiated_row :: "int \<Rightarrow> InitiateResult \<Rightarrow> PaymentIntent \<Rightarrow> PaymentIntent" where
  "initiated_row instant res p = p
     \<lparr> pi_status := PaymentIntentStatus.INITIATED, pi_providerCheckoutUrl := irs_checkoutUrl res,
       pi_providerAccessCode := irs_accessCode res, pi_providerRawResponse := Some (irs_rawResponse res),
       pi_initiatedAt := Some instant, pi_verifiedAt := None, pi_failureCode := None, pi_failureMessage := None,
       pi_failedAt := None, pi_providerVerifiedStatus := None, pi_providerVerifiedAmount := None,
       pi_providerVerifiedCurrency := None, pi_providerVerificationRaw := None \<rparr>"

lemma persist_initiated_run:
  assumes "find (\<lambda>q. pi_id q = pi_id p) (payment_intents s) = Some q"
  shows "\<exists>s'. persist_initiated E None p b res s = (Inr (initiated_row (app_now E) res q), s') \<and>
      payment_intents s' = upd_where (\<lambda>x. pi_id x = pi_id p) (initiated_row (app_now E) res) (payment_intents s)"
    and "persist_initiated E (Some e) p b res s = (Inl e, s)"
proof -
  have f: "markInitiated (pi_id p) (irs_checkoutUrl res) (irs_accessCode res) (irs_rawResponse res) (app_now E) None =
      Intent_update (pi_id p) (initiated_row (app_now E) res)"
    unfolding markInitiated_def
    by (rule arg_cong [where f = "Intent_update _"]) (simp add: initiated_row_def fun_eq_iff)
  show "\<exists>s'. persist_initiated E None p b res s = (Inr (initiated_row (app_now E) res q), s') \<and>
      payment_intents s' = upd_where (\<lambda>x. pi_id x = pi_id p) (initiated_row (app_now E) res) (payment_intents s)"
    and "persist_initiated E (Some e) p b res s = (Inl e, s)"
    by (auto simp: persist_initiated_def runInTransaction_def f bindp_def seqp_def
        Intent_update_run [OF assms])
qed

text \<open>
  The answer of the provider is written over whatever happened meanwhile. When a webhook verified
  the intent before the call that started it returns, the second transaction of the initiation
  puts the intent back to INITIATED and clears the confirmation.
\<close>

theorem late_initiation_erases_verification:
  assumes "find (\<lambda>q. pi_id q = pi_id p) (payment_intents s) = Some q"
    and "pi_status q = PaymentIntentStatus.VERIFIED"
    and "adapter (ipi_provider input) (initiate_request p buyer input) = Inr res"
    and "irs_providerReference res = Some (pi_providerReference p)"
  shows "\<exists>view s' q'. finish_initiation E adapter None buyer p input s = (Inr view, s') \<and>
    find (\<lambda>q. pi_id q = pi_id p) (payment_intents s') = Some q' \<and>
    pi_status q' = PaymentIntentStatus.INITIATED \<and> pi_verifiedAt q' = None \<and>
    pi_providerVerifiedAmount q' = None \<and> view = toView q'"
proof -
  from persist_initiated_run(1) [OF assms(1), of E "usr_id buyer" res] obtain s' where
    run: "persist_initiated E None p (usr_id buyer) res s = (Inr (initiated_row (app_now E) res q), s')"
    and s': "payment_intents s' = upd_where (\<lambda>x. pi_id x = pi_id p) (initiated_row (app_now E) res) (payment_intents s)"
    by auto
  have "finish_initiation E adapter None buyer p input s = (Inr (toView (initiated_row (app_now E) res q)), s')"
    using assms(3,4) by (simp add: finish_initiation_def lift_result_def catchp_def bindp_def run)
  moreover have "find (\<lambda>q. pi_id q = pi_id p) (payment_intents s') = Some (initiated_row (app_now E) res q)"
    using assms(1) by (simp add: s' find_upd_where_key initiated_row_def)
  ultimately show ?thesis by (auto simp: initiated_row_def)
qed

text \<open>
  When the provider accepted but the second transaction is lost, the intent ends as
  INITIATION_FAILED with the code PAYMENT_INITIATION_FAILED: the more precise code
  LOCAL_PERSISTENCE_FAILURE_AFTER_PROVIDER_SUCCESS and the provider's raw response, written first,
  are overwritten by the outer handler that catches the rethrown error.
\<close>

theorem persistence_failure_is_overwritten:
  assumes "find (\<lambda>q. pi_id q = pi_id p) (payment_intents s) = Some q"
    and "adapter (ipi_provider input) (initiate_request p buyer input) = Inr res"
    and "irs_providerReference res = Some (pi_providerReference p)"
  shows "\<exists>s' q'. finish_initiation E adapter (Some e) buyer p input s =
      (Inl (InternalServerErrorException ''Payment provider initiation succeeded but local persistence failed.''), s') \<and>
    find (\<lambda>q. pi_id q = pi_id p) (payment_intents s') = Some q' \<and>
    pi_status q' = PaymentIntentStatus.INITIATION_FAILED \<and>
    pi_failureCode q' = Some ''PAYMENT_INITIATION_FAILED'' \<and>
    pi_providerRawResponse q' = Some (JObj [(''name'', JStr ''InternalServerErrorException''),
      (''message'', JStr ''Payment provider initiation succeeded but local persistence failed.'')])"
proof -
  have pers: "persist_initiated E (Some e) p (usr_id buyer) res s = (Inl e, s)"
    by (rule persist_initiated_run(2) [OF assms(1)])
  define f1 :: "PaymentIntent \<Rightarrow> PaymentIntent" where "f1 = (\<lambda>x. x
    \<lparr> pi_status := PaymentIntentStatus.INITIATION_FAILED, pi_providerRawResponse := Some (irs_rawResponse res),
      pi_failureCode := Some ''LOCAL_PERSISTENCE_FAILURE_AFTER_PROVIDER_SUCCESS'',
      pi_failureMessage := Some ''Provider initiation succeeded but the local state could not be finalized.'',
      pi_failedAt := Some (app_now E) \<rparr>)"
  obtain s1 where r1: "recordProviderSuccessPersistenceFailure E p (usr_id buyer) (irs_rawResponse res) e s = (Inr (), s1)"
    and s1: "payment_intents s1 = upd_where (\<lambda>x. pi_id x = pi_id p) f1 (payment_intents s)"
    by (simp add: recordProviderSuccessPersistenceFailure_def markFailed_def Let_def runInTransaction_def catchp_def
        seqp_def bindp_def Intent_update_run [OF assms(1)] f1_def)
  have fnd1: "find (\<lambda>q. pi_id q = pi_id p) (payment_intents s1) = Some (f1 q)"
    using assms(1) by (simp add: s1 find_upd_where_key f1_def)
  let ?err = "InternalServerErrorException ''Payment provider initiation succeeded but local persistence failed.''"
  define f2 :: "PaymentIntent \<Rightarrow> PaymentIntent" where "f2 = (\<lambda>x. x
    \<lparr> pi_status := PaymentIntentStatus.INITIATION_FAILED, pi_providerRawResponse := resolveFailurePayload ?err,
      pi_failureCode := Some ''PAYMENT_INITIATION_FAILED'', pi_failureMessage := Some (error_message ?err),
      pi_failedAt := Some (app_now E) \<rparr>)"
  obtain s2 where r2: "recordInitiationFailure E p (usr_id buyer) (ipi_provider input) ?err s1 = (Inr (), s2)"
    and s2: "payment_intents s2 = upd_where (\<lambda>x. pi_id x = pi_id p) f2 (payment_intents s1)"
    by (simp add: recordInitiationFailure_def resolveFailureCode_def markFailed_def Let_def runInTransaction_def
        seqp_def bindp_def Intent_update_run [OF fnd1] f2_def)
  have "finish_initiation E adapter (Some e) buyer p input s = (Inl ?err, s2)"
    using assms(2,3) by (simp add: finish_initiation_def lift_result_def catchp_def bindp_def seqp_def pers r1 r2)
  moreover have "find (\<lambda>q. pi_id q = pi_id p) (payment_intents s2) = Some (f2 (f1 q))"
    using fnd1 by (simp add: s2 find_upd_where_key f2_def)
  ultimately show ?thesis by (auto simp: f2_def resolveFailurePayload_def Let_def)
qed

text \<open>
  What the first transaction hands on: an intent of the buyer with this key and this request that is not
  to be started again, or the row the provider is to be asked about, as it now is in the table.
\<close>

lemma initiation_tx_existing:
  assumes "runInTransaction (initiation_tx E b event input) s = (Inr (ReturnExisting p), s1)"
  shows "p \<in> set (payment_intents s) \<and> pi_status p \<noteq> PaymentIntentStatus.INITIATION_FAILED \<and>
    intent_key p = (b, PAYMENT_INITIATION_IDEMPOTENCY_USE_CASE, hashValue E (ipi_idempotencyKey input)) \<and>
    pi_requestFingerprintHash p = hashValue E (fingerprint_text input) \<and> payment_intents s1 = payment_intents s"
  using assms by (auto simp: initiation_tx_def Let_def prog_inv findByBuyerAndIdempotency_def IntentAudit_append_def
      dest!: find_Some_iff2 split: option.splits if_splits)

lemma initiation_tx_calls:
  assumes "runInTransaction (initiation_tx E b event input) s = (Inr (CallProvider p), s1)"
  shows "find (\<lambda>q. pi_id q = pi_id p) (payment_intents s1) = Some p"
proof -
  have create: "find (\<lambda>q. pi_id q = pi_id x) (payment_intents s @ [x]) = Some x"
    if "\<not> list_ex (intent_clash x) (payment_intents s)" for x
    using that by (auto simp: find_append list_ex_iff intent_clash_def dest!: find_Some_iff2 split: option.split)
  have retry: "find (\<lambda>q. pi_id q = pi_id r) (payment_intents t) = Some r"
    if "markRetryPending i s = (Inr r, t)" for i r t
  proof -
    from that [unfolded markRetryPending_def Intent_update_def prog_inv] obtain x where x: "find (\<lambda>q. pi_id q = i) (payment_intents s) = Some x"
      and r: "pi_id r = pi_id x" "t = payment_intents_update (upd_where (\<lambda>q. pi_id q = i) (\<lambda>p. p
        \<lparr> pi_status := PaymentIntentStatus.INITIATION_PENDING, pi_providerCheckoutUrl := None, pi_providerAccessCode := None,
          pi_providerRawResponse := None, pi_failureCode := None, pi_failureMessage := None, pi_failedAt := None \<rparr>)) s"
        "r = x\<lparr> pi_status := PaymentIntentStatus.INITIATION_PENDING, pi_providerCheckoutUrl := None, pi_providerAccessCode := None,
          pi_providerRawResponse := None, pi_failureCode := None, pi_failureMessage := None, pi_failedAt := None \<rparr>"
      by auto
    from x have "pi_id x = i" by (auto dest: find_Some_iff2)
    with x r show ?thesis by (simp add: find_upd_where_key)
  qed
  from assms show ?thesis
    by (auto simp: initiation_tx_def Let_def prog_inv findByBuyerAndIdempotency_def IntentAudit_append_def
        Intent_create_def intro: create retry split: option.splits if_splits)
qed

lemma begin_initiation_Inr:
  assumes "begin_initiation E L ctx input s = (Inr (buyer, action), s1)"
  obtains event where "runInTransaction (initiation_tx E (usr_id buyer) event input) s = (Inr action, s1)"
proof -
  have e: "assertEventEligible v i s = (Inr x, s') \<Longrightarrow> s' = s" "assertEventEligible v i s = (Inl y, s') \<Longrightarrow> s' = s" for v i x y s s'
    by (auto simp: assertEventEligible_def split: option.splits if_splits)
  have a: "s' = s" if run: "assertPaymentInitiationAllowed L q i c s = (Inr x, s')" for q i c x s s'
  proof -
    have "keeps (\<lambda>t. t = s) (assertPaymentInitiationAllowed L q i c)"
      by (rule keeps_readonly) (auto simp: assertPaymentInitiationAllowed_def)
    from keepsD [OF this _ run] show ?thesis by simp
  qed
  from assms show ?thesis
    by (auto simp: begin_initiation_def prog_inv User_findById_def findByIdForPaymentInitiation_def dest!: e a
        split: option.splits if_splits intro: that)
qed

text \<open>
  The reference sent to the provider depends on the idempotency key alone. Once one buyer's key
  has created an intent, another buyer who sends the same key is refused with the raw unique-key
  error of the database, and nothing is created.
\<close>

theorem shared_idempotency_key_collides:
  assumes "find (\<lambda>p. intent_key p = (b, PAYMENT_INITIATION_IDEMPOTENCY_USE_CASE,
      sha256 E (ipi_idempotencyKey input))) (payment_intents s) = None"
    and "runInTransaction (initiation_tx E b e input) s = (Inr action, s1)"
    and "find (\<lambda>p. intent_key p = (b', PAYMENT_INITIATION_IDEMPOTENCY_USE_CASE,
      sha256 E (ipi_idempotencyKey input))) (payment_intents s1) = None"
    and "ipi_idempotencyKey input' = ipi_idempotencyKey input" and "sha256 E' = sha256 E"
  shows "runInTransaction (initiation_tx E' b' e' input') s1 = (Inl (PrismaClientKnownRequestError ''P2002''), s1)"
proof -
  have ref: "pi_providerReference (new_intent E' b' e' input') = pi_providerReference (new_intent E b e input)"
    using assms(4,5) by (simp add: new_intent_def Let_def hashValue_def)
  from assms(1,2) have "new_intent E b e input \<in> set (payment_intents s1)"
    by (auto simp: runInTransaction_def initiation_tx_def Let_def hashValue_def bindp_def seqp_def
        Intent_create_def prisma_create_def split: prod.splits sum.splits if_splits)
  with ref have "list_ex (intent_clash (new_intent E' b' e' input')) (payment_intents s1)"
    by (auto simp: list_ex_iff intent_clash_def)
  then have "Intent_create (new_intent E' b' e' input') s1 = (Inl (PrismaClientKnownRequestError ''P2002''), s1)"
    by (simp add: Intent_create_def prisma_create_run)
  then show ?thesis
    using assms(3-5) by (simp add: runInTransaction_def initiation_tx_def Let_def hashValue_def bindp_def)
qed

section \<open>Examples\<close>

definition ex_initiate :: InitiatePaymentInput where
  "ex_initiate = \<lparr> ipi_idempotencyKey = ''k'', ipi_eventId = ''e'', ipi_provider = PAYSTACK, ipi_customerPhone = None \<rparr>"

definition ex_accepted :: InitiateResult where
  "ex_accepted = \<lparr> irs_providerReference = Some ''pi_ref'', irs_checkoutUrl = Some ''url'', irs_accessCode = None,
     irs_rawResponse = JObj [] \<rparr>"

definition ex_adapter :: payment_adapter where
  "ex_adapter p rq = Inr ex_accepted"

lemmas ex_initiation_defs = ex_initiate_def ex_accepted_def ex_adapter_def ex_issue_defs

lemma ex_accepts:
  "ex_adapter (ipi_provider ex_initiate) (initiate_request ex_paid_intent ex_buyer ex_initiate) = Inr ex_accepted"
  "irs_providerReference ex_accepted = Some (pi_providerReference ex_paid_intent)"
  by (simp_all add: ex_initiation_defs)

lemma ex_stored: "find (\<lambda>q. pi_id q = pi_id ex_paid_intent) (payment_intents (ex_issue_db ts)) = Some ex_paid_intent"
  by (simp add: ex_issue_defs)

lemma late_initiation_erases_verification_witness:
  "\<exists>view s'. finish_initiation ex_env ex_adapter None ex_buyer ex_paid_intent ex_initiate (ex_issue_db []) = (Inr view, s') \<and>
     piv_status view = PaymentIntentStatus.INITIATED \<and> piv_verifiedAt view = None"
proof -
  have "\<exists>view s' q'. finish_initiation ex_env ex_adapter None ex_buyer ex_paid_intent ex_initiate (ex_issue_db []) =
      (Inr view, s') \<and> find (\<lambda>q. pi_id q = pi_id ex_paid_intent) (payment_intents s') = Some q' \<and>
      pi_status q' = PaymentIntentStatus.INITIATED \<and> pi_verifiedAt q' = None \<and>
      pi_providerVerifiedAmount q' = None \<and> view = toView q'"
    by (rule late_initiation_erases_verification [where res = ex_accepted and q = ex_paid_intent])
      (rule ex_stored ex_issue_ready(2) ex_accepts)+
  then show ?thesis by (auto simp: toView_def)
qed

lemma persistence_failure_is_overwritten_witness:
  "\<exists>s'. finish_initiation ex_env ex_adapter (Some (OtherError ''Error'' ''lost'')) ex_buyer ex_paid_intent ex_initiate
      (ex_issue_db []) =
     (Inl (InternalServerErrorException ''Payment provider initiation succeeded but local persistence failed.''), s') \<and>
   map_option pi_failureCode (find (\<lambda>q. pi_id q = pi_id ex_paid_intent) (payment_intents s')) =
     Some (Some ''PAYMENT_INITIATION_FAILED'')"
proof -
  show ?thesis
    using persistence_failure_is_overwritten [where p = ex_paid_intent and q = ex_paid_intent
        and s = "ex_issue_db []" and adapter = ex_adapter and input = ex_initiate and buyer = ex_buyer
        and res = ex_accepted and E = ex_env and e = "OtherError ''Error'' ''lost''"] ex_stored ex_accepts
    by auto
qed

lemma ex_initiation_run:
  "runInTransaction (initiation_tx ex_env ''u1'' ex_event ex_initiate) empty_db =
     (Inr (CallProvider (new_intent ex_env ''u1'' ex_event ex_initiate)),
      snd (runInTransaction (initiation_tx ex_env ''u1'' ex_event ex_initiate) empty_db))"
  "payment_intents (snd (runInTransaction (initiation_tx ex_env ''u1'' ex_event ex_initiate) empty_db)) =
     [new_intent ex_env ''u1'' ex_event ex_initiate]"
  by (simp_all add: runInTransaction_def initiation_tx_def Let_def bindp_def seqp_def Intent_create_def
      prisma_create_run empty_db_def)

lemma shared_idempotency_key_collides_witness:
  "fst (runInTransaction (initiation_tx ex_env ''u2'' ex_event ex_initiate)
     (snd (runInTransaction (initiation_tx ex_env ''u1'' ex_event ex_initiate) empty_db))) =
   Inl (PrismaClientKnownRequestError ''P2002'')"
proof -
  have "find (\<lambda>p. intent_key p = (''u1'', PAYMENT_INITIATION_IDEMPOTENCY_USE_CASE,
      sha256 ex_env (ipi_idempotencyKey ex_initiate))) (payment_intents empty_db) = None"
    by (simp add: empty_db_def)
  moreover have "find (\<lambda>p. intent_key p = (''u2'', PAYMENT_INITIATION_IDEMPOTENCY_USE_CASE,
      sha256 ex_env (ipi_idempotencyKey ex_initiate)))
      (payment_intents (snd (runInTransaction (initiation_tx ex_env ''u1'' ex_event ex_initiate) empty_db))) = None"
    by (simp add: ex_initiation_run(2) intent_key_def new_intent_def Let_def)
  ultimately show ?thesis
    using shared_idempotency_key_collides [OF _ ex_initiation_run(1) _ refl refl, of "''u2''" ex_event] by simp
qed

text \<open>
  A buyer starts a payment, the provider takes the request, and a signed webhook whose payment the
  provider confirms settles it: the state reached holds one intent and it is VERIFIED.
\<close>

definition ex_sale :: db where
  "ex_sale = (ex_issue_db [])\<lparr> payment_intents := [] \<rparr>"

definition ex_begun :: db where
  "ex_begun = snd (begin_initiation ex_env ex_launch (Some (ex_ctx\<lparr> ctx_userId := Some ''u1'' \<rparr>)) ex_initiate ex_sale)"

definition ex_echo :: payment_adapter where
  "ex_echo p rq = Inr (ex_accepted\<lparr> irs_providerReference := Some (irq_providerReference rq) \<rparr>)"

definition ex_sent :: db where
  "ex_sent = snd (finish_initiation ex_env ex_echo None ex_buyer (hd (payment_intents ex_begun)) ex_initiate ex_begun)"

definition ex_confirms :: verifier where
  "ex_confirms p ref = Inr (ex_confirmed\<lparr> pvr_providerReference := ref, pvr_amountMinor := Some 2500 \<rparr>)"

definition ex_payment :: PaymentWebhookInput where
  "ex_payment = (ex_delivery ''0123456789abcdefb'')\<lparr> wi_parsedBody := JObj [(''event'', JStr ''charge.success''),
     (''data'', JObj [(''id'', JNum 7), (''reference'', JStr ''pi_hk'')])] \<rparr>"

definition ex_paid :: db where
  "ex_paid = snd (handleWebhook (ex_event_env ''w1'') ex_hmac ''0123456789abcdef'' ex_confirms ex_payment ex_sent)"

lemma ex_sale_runs: "intent_step\<^sup>*\<^sup>* ex_sale ex_paid"
proof -
  have "intent_step ex_sale ex_begun" unfolding ex_begun_def by (rule step_begin [OF prod.collapse [symmetric]])
  moreover have "intent_step ex_begun ex_sent" unfolding ex_sent_def by (rule step_finish [OF prod.collapse [symmetric]])
  moreover have "intent_step ex_sent ex_paid" unfolding ex_paid_def by (rule step_webhook [OF prod.collapse [symmetric]])
  ultimately show ?thesis by (meson rtranclp.rtrancl_refl rtranclp.rtrancl_into_rtrancl)
qed

lemma ex_sale_statuses:
  "map pi_status (payment_intents ex_begun) = [PaymentIntentStatus.INITIATION_PENDING] \<and>
   map pi_status (payment_intents ex_sent) = [PaymentIntentStatus.INITIATED] \<and>
   map pi_status (payment_intents ex_paid) = [PaymentIntentStatus.VERIFIED]"
  by code_simp

lemma verified_intents_are_confirmed_witness:
  "map (\<lambda>p. (pi_status p, pi_amountMinor p)) (payment_intents ex_paid) = [(PaymentIntentStatus.VERIFIED, 2500)] \<and>
   map pi_providerVerifiedAmount (payment_intents ex_paid) = [Some 2500]"
proof -
  have paid: "map (\<lambda>p. (pi_status p, pi_amountMinor p)) (payment_intents ex_paid) = [(PaymentIntentStatus.VERIFIED, 2500)]"
    by code_simp
  have "payment_intents ex_sale = []" by (simp add: ex_sale_def)
  from verified_intents_are_confirmed [OF this ex_sale_runs] paid show ?thesis by (auto simp: map_eq_Cons_conv)
qed

end
