(* ===== verification/Outbox.thy ===== *)
theory Outbox
  imports Schema
begin

text \<open>
  The outbox worker (\<^verbatim>\<open>src/shared/outbox\<close>): claiming a batch under a lease, dispatching it, and
  recording success or failure with a backoff.

  Parameters: the dispatcher (the module binds one that resolves at once, a deployment its own), and
  the rows other transactions have locked when a batch is claimed (\<open>SKIP LOCKED\<close>). A batch takes
  time: \<open>E 0\<close> is the runtime of the claim, \<open>E (k + 1)\<close> the one of its \<open>k\<close>-th event. Telemetry and
  logging are left out.
\<close>

section \<open>Claiming\<close>

record ClaimedOutboxEvent =
  ceo_id :: string
  ceo_aggregateType :: string
  ceo_aggregateId :: string
  ceo_eventType :: string
  ceo_payload :: json
  ceo_retryCount :: int

type_synonym dispatcher = "ClaimedOutboxEvent \<Rightarrow> (db, unit) prog"

definition claimable :: "int \<Rightarrow> OutboxEvent \<Rightarrow> bool" where
  "claimable now r \<longleftrightarrow> \<not> obx_processed r \<and> obx_deadLetteredAt r = None \<and>
     (case obx_nextAttemptAt r of None \<Rightarrow> True | Some t \<Rightarrow> t \<le> now)"

definition claimed_row :: "OutboxEvent \<Rightarrow> ClaimedOutboxEvent" where
  "claimed_row r = \<lparr> ceo_id = obx_id r, ceo_aggregateType = obx_aggregateType r,
     ceo_aggregateId = obx_aggregateId r, ceo_eventType = obx_eventType r,
     ceo_payload = (case obx_payload r of JObj fs \<Rightarrow> JObj fs | JArr xs \<Rightarrow> JArr xs | _ \<Rightarrow> JObj []),
     ceo_retryCount = obx_retryCount r \<rparr>"

definition claim_rows :: "env \<Rightarrow> (string \<Rightarrow> bool) \<Rightarrow> nat \<Rightarrow> OutboxEvent list \<Rightarrow> OutboxEvent list" where
  "claim_rows E locked limit rs =
     take limit (sort_key obx_createdAt (filter (\<lambda>r. claimable (db_now E) r \<and> \<not> locked (obx_id r)) rs))"

definition lease :: "env \<Rightarrow> OutboxEvent \<Rightarrow> OutboxEvent" where
  "lease E r = r\<lparr> obx_nextAttemptAt := Some (app_now E + 30000) \<rparr>"

definition claimBatch ::
  "env \<Rightarrow> (string \<Rightarrow> bool) \<Rightarrow> nat \<Rightarrow> (db, ClaimedOutboxEvent list) prog" where
  "claimBatch E locked limit = runInTransaction (\<lambda>s.
     let rows = claim_rows E locked limit (outbox_events s) in
     if rows = [] then ret [] s
     else seqp (prisma_updateMany outbox_events outbox_events_update
                  (\<lambda>r. obx_id r \<in> set (map obx_id rows)) (lease E))
            (ret (map claimed_row rows)) s)"

section \<open>Recording the outcome\<close>

definition processed_event :: "env \<Rightarrow> OutboxEvent \<Rightarrow> OutboxEvent" where
  "processed_event E r = r\<lparr> obx_processed := True, obx_processedAt := Some (app_now E),
     obx_nextAttemptAt := None, obx_lastErrorCode := None, obx_deadLetteredAt := None \<rparr>"

definition markProcessed :: "env \<Rightarrow> string \<Rightarrow> (db, unit) prog" where
  "markProcessed E eventId =
     seqp (prisma_update outbox_events outbox_events_update (\<lambda>r. obx_id r = eventId) (processed_event E)) (ret ())"

text \<open>\<open>Math.min(300, 2 ** Math.min(retryCount, 8))\<close>; the count is one more than a stored one.\<close>

definition delaySeconds :: "int \<Rightarrow> int" where
  "delaySeconds retryCount = min 300 (2 ^ nat (min retryCount 8))"

definition deadLetter :: "int \<Rightarrow> bool \<Rightarrow> bool" where
  "deadLetter retryCount retryable \<longleftrightarrow> \<not> retryable \<or> retryCount \<ge> 10"

definition failed_event :: "env \<Rightarrow> int \<Rightarrow> string \<Rightarrow> bool \<Rightarrow> OutboxEvent \<Rightarrow> OutboxEvent" where
  "failed_event E retryCount errorCode retryable r = r
     \<lparr> obx_retryCount := retryCount, obx_lastErrorCode := Some errorCode,
       obx_nextAttemptAt := (if deadLetter retryCount retryable then None
                             else Some (app_now E + delaySeconds retryCount * 1000)),
       obx_deadLetteredAt := (if deadLetter retryCount retryable then Some (app_now E) else None) \<rparr>"

definition markFailure :: "env \<Rightarrow> string \<Rightarrow> int \<Rightarrow> string \<Rightarrow> bool \<Rightarrow> (db, unit) prog" where
  "markFailure E eventId retryCount errorCode retryable =
     seqp (prisma_update outbox_events outbox_events_update (\<lambda>r. obx_id r = eventId)
             (failed_event E retryCount errorCode retryable)) (ret ())"

section \<open>The processor and the service\<close>

definition isRetryableError :: "app_error \<Rightarrow> bool" where
  "isRetryableError error =
     (case error of
        ProviderTimeoutError p m \<Rightarrow> True
      | ProviderNetworkError p m \<Rightarrow> True
      | ProviderAuthError p m \<Rightarrow> False
      | WebhookSignatureError p m \<Rightarrow> False
      | ProviderResponseError p c statusCode m d \<Rightarrow>
          statusCode = 0 \<or> statusCode \<ge> 500 \<or> statusCode = 408 \<or> statusCode = 429
      | _ \<Rightarrow> error_name error \<notin> {''ValidationError'', ''SyntaxError'', ''TypeError''})"

text \<open>Every error of the model has a name, so the last default of the source is not needed.\<close>

definition getErrorCode :: "app_error \<Rightarrow> string" where
  "getErrorCode error = (case error of ProviderResponseError p c n m d \<Rightarrow> c | _ \<Rightarrow> error_name error)"

definition process_row :: "env \<Rightarrow> dispatcher \<Rightarrow> ClaimedOutboxEvent \<Rightarrow> (db, unit) prog" where
  "process_row E dispatch row =
     catchp (seqp (dispatch row) (markProcessed E (ceo_id row)))
       (\<lambda>error. markFailure E (ceo_id row) (ceo_retryCount row + 1) (getErrorCode error) (isRetryableError error))"

definition BATCH_SIZE :: nat where "BATCH_SIZE = 100"

fun process_rows :: "(nat \<Rightarrow> env) \<Rightarrow> dispatcher \<Rightarrow> ClaimedOutboxEvent list \<Rightarrow> (db, unit) prog" where
  "process_rows E dispatch [] = ret ()"
| "process_rows E dispatch (row # rows) =
     seqp (process_row (E 0) dispatch row) (process_rows (\<lambda>k. E (Suc k)) dispatch rows)"

definition processBatch :: "(nat \<Rightarrow> env) \<Rightarrow> (string \<Rightarrow> bool) \<Rightarrow> dispatcher \<Rightarrow> (db, nat) prog" where
  "processBatch E locked dispatch =
     bindp (claimBatch (E 0) locked BATCH_SIZE) (\<lambda>rows.
       seqp (process_rows (\<lambda>k. E (Suc k)) dispatch rows) (ret (length rows)))"

definition enqueue :: "env \<Rightarrow> string \<Rightarrow> string \<Rightarrow> json \<Rightarrow> string \<Rightarrow> (db, unit) prog" where
  "enqueue E eventType aggregateId payload aggregateType =
     runInTransaction
       (OutboxRepository_append (new_outbox_event E (uuid E 0) aggregateType aggregateId eventType payload))"

definition dispatchPendingBatch ::
  "(nat \<Rightarrow> env) \<Rightarrow> (string \<Rightarrow> bool) \<Rightarrow> dispatcher \<Rightarrow> int \<Rightarrow> (db, nat) prog" where
  "dispatchPendingBatch E locked dispatch limit = processBatch E locked dispatch"

section \<open>What a claim takes\<close>

lemma claim_rows_set:
  "r \<in> set (claim_rows E locked limit rs) \<Longrightarrow> r \<in> set rs \<and> claimable (db_now E) r \<and> \<not> locked (obx_id r)"
  by (auto simp: claim_rows_def dest: in_set_takeD)

lemma claim_rows_distinct:
  assumes "distinct (map obx_id rs)"
  shows "distinct (map obx_id (claim_rows E locked limit rs))"
proof -
  have "distinct (map obx_id (sort_key obx_createdAt (filter P rs)))" for P
    using assms by (auto simp: distinct_map inj_on_def)
  then show ?thesis by (simp add: claim_rows_def take_map [symmetric] distinct_take)
qed

lemma claimBatch_run:
  "claimBatch E locked limit s =
     (let rows = claim_rows E locked limit (outbox_events s) in
      (Inr (map claimed_row rows), outbox_events_update (upd_where (\<lambda>r. obx_id r \<in> obx_id ` set rows) (lease E)) s))"
  by (simp add: claimBatch_def runInTransaction_def Let_def seqp_def bindp_def upd_where_def)

lemma markProcessed_run:
  "find (\<lambda>r. obx_id r = i) (outbox_events s) = Some r \<Longrightarrow>
     markProcessed E i s = (Inr (), outbox_events_update (upd_where (\<lambda>r. obx_id r = i) (processed_event E)) s)"
  by (simp add: markProcessed_def seqp_def bindp_def prisma_update_run)

lemma markFailure_run:
  "find (\<lambda>r. obx_id r = i) (outbox_events s) = Some r \<Longrightarrow>
     markFailure E i n c b s =
       (Inr (), outbox_events_update (upd_where (\<lambda>r. obx_id r = i) (failed_event E n c b)) s)"
  by (simp add: markFailure_def seqp_def bindp_def prisma_update_run)

lemma row_ids [simp]:
  "obx_id (lease E r) = obx_id r" "obx_id (processed_event E r) = obx_id r"
  "obx_id (failed_event E n c b r) = obx_id r" "ceo_id (claimed_row r) = obx_id r"
  "ceo_retryCount (claimed_row r) = obx_retryCount r"
  by (simp_all add: lease_def processed_event_def failed_event_def claimed_row_def)

lemma delaySeconds_bounds: "1 \<le> n \<Longrightarrow> 2 \<le> delaySeconds n \<and> delaySeconds n \<le> 256"
proof -
  assume n: "1 \<le> n"
  define m where "m = nat (min n 8)"
  have "m = 1 \<or> m = 2 \<or> m = 3 \<or> m = 4 \<or> m = 5 \<or> m = 6 \<or> m = 7 \<or> m = 8"
    using n unfolding m_def by linarith
  then show ?thesis unfolding delaySeconds_def m_def [symmetric] by auto
qed

section \<open>A claimed event stays with its worker\<close>

text \<open>
  Claims race for the event \<open>i\<close> in a window that starts at \<open>t0\<close> and is shorter than the lease; the
  other steps are new events and the reports of workers on other events.
\<close>

definition claim_attempt ::
  "string \<Rightarrow> int \<Rightarrow> env \<times> (string \<Rightarrow> bool) \<times> nat \<Rightarrow> db \<Rightarrow> bool \<times> db" where
  "claim_attempt i t0 c s =
     (case c of (E, locked, limit) \<Rightarrow>
        if t0 \<le> app_now E \<and> db_now E < t0 + 30000 then
          (case claimBatch E locked limit s of
             (Inl e, s') \<Rightarrow> (False, s')
           | (Inr rows, s') \<Rightarrow> (i \<in> ceo_id ` set rows, s'))
        else (False, s))"

inductive outbox_other :: "string \<Rightarrow> db \<Rightarrow> db \<Rightarrow> bool" for i where
  other_enqueue: "enqueue E evType aggId payload aggType s = (r, s') \<Longrightarrow> outbox_other i s s'"
| other_processed: "j \<noteq> i \<Longrightarrow> markProcessed E j s = (r, s') \<Longrightarrow> outbox_other i s s'"
| other_failed: "j \<noteq> i \<Longrightarrow> markFailure E j n c b s = (r, s') \<Longrightarrow> outbox_other i s s'"

definition stored :: "string \<Rightarrow> db \<Rightarrow> bool" where
  "stored i s \<longleftrightarrow> i \<in> obx_id ` set (outbox_events s)"

definition open_in_window :: "string \<Rightarrow> int \<Rightarrow> db \<Rightarrow> bool" where
  "open_in_window i t0 s \<longleftrightarrow> (\<exists>r\<in>set (outbox_events s). obx_id r = i \<and> claimable (t0 + 29999) r)"

lemma stored_ids: "stored i s \<longleftrightarrow> i \<in> set (map obx_id (outbox_events s))"
  by (simp add: stored_def)

lemma claimable_mono: "claimable now r \<Longrightarrow> now \<le> now' \<Longrightarrow> claimable now' r"
  by (auto simp: claimable_def split: option.splits)

lemma lease_not_claimable: "now < app_now E + 30000 \<Longrightarrow> \<not> claimable now (lease E r)"
  by (simp add: claimable_def lease_def)

lemma claim_attempt_cases:
  assumes "claim_attempt i t0 c s = (b, s')"
  obtains "\<not> b" and "s' = s"
  | E rows where "t0 \<le> app_now E" "db_now E < t0 + 30000" "\<And>r. r \<in> set rows \<Longrightarrow> r \<in> set (outbox_events s)"
      "\<And>r. r \<in> set rows \<Longrightarrow> claimable (db_now E) r" "b \<longleftrightarrow> i \<in> obx_id ` set rows"
      "outbox_events s' = upd_where (\<lambda>r. obx_id r \<in> obx_id ` set rows) (lease E) (outbox_events s)"
proof (cases c)
  case (fields E locked limit)
  show thesis
  proof (cases "t0 \<le> app_now E \<and> db_now E < t0 + 30000")
    case False
    then show thesis using assms that(1) fields by (auto simp: claim_attempt_def split: if_splits)
  next
    case True
    then show thesis
      using assms fields
      by (intro that(2) [of E "claim_rows E locked limit (outbox_events s)"])
        (auto simp: claim_attempt_def claimBatch_run Let_def image_image dest: claim_rows_set)
  qed
qed

lemma other_rows:
  assumes "outbox_other i s s'"
  shows "stored i s \<Longrightarrow> stored i s'" and "stored i s \<Longrightarrow> \<not> open_in_window i t0 s \<Longrightarrow> \<not> open_in_window i t0 s'"
  using assms
  by (cases rule: outbox_other.cases;
      auto simp: enqueue_def markProcessed_def markFailure_def runInTransaction_def seqp_def bindp_def
        OutboxRepository_append_def prisma_create_def prisma_update_def stored_def open_in_window_def list_ex_iff
        set_upd_where image_iff new_outbox_event_def split: if_splits option.splits; force)+

interpretation outbox_lease: guarded_update "claim_attempt i t0" "outbox_other i" "stored i" "open_in_window i t0"
  for i t0
proof (unfold_locales, goal_cases)
  case (1 s c b s')
  from 1(2) show ?case
    by (cases rule: claim_attempt_cases) (use 1(1) in \<open>simp_all add: stored_ids map_key_upd_where\<close>)
next
  case (2 s s')
  then show ?case by (blast intro: other_rows)
next
  case (3 s c s')
  from 3(2) show ?case
  proof (cases rule: claim_attempt_cases)
    case (2 E rows)
    then obtain r where "r \<in> set rows" and i: "i = obx_id r" by blast
    with 2(2-4) have "r \<in> set (outbox_events s)" "claimable (t0 + 29999) r"
      by (auto intro: claimable_mono [of "db_now E"])
    with i show ?thesis by (auto simp: open_in_window_def)
  qed simp
next
  case (4 s c s')
  from 4(2) show ?case
  proof (cases rule: claim_attempt_cases)
    case (2 E rows)
    then have "t0 + 29999 < app_now E + 30000" "i \<in> obx_id ` set rows" by simp_all
    then show ?thesis unfolding open_in_window_def 2(6) by (auto simp: set_upd_where lease_not_claimable)
  qed simp
next
  case (5 s c s')
  from 5(2,3) show ?case
  proof (cases rule: claim_attempt_cases)
    case (2 E rows)
    then have "i \<notin> obx_id ` set rows" by simp
    then show ?thesis using 5(3) unfolding open_in_window_def 2(6) by (auto simp: set_upd_where split: if_splits)
  qed simp
next
  case (6 s s')
  then show ?case by (blast dest: other_rows)
qed

section \<open>What a batch leaves behind\<close>

definition pending :: "OutboxEvent \<Rightarrow> bool" where
  "pending r \<longleftrightarrow> \<not> obx_processed r \<and> obx_deadLetteredAt r = None"

text \<open>The dispatcher may do anything but touch the outbox.\<close>

definition leaves_outbox :: "dispatcher \<Rightarrow> bool" where
  "leaves_outbox dispatch \<longleftrightarrow> (\<forall>c s. outbox_events (snd (dispatch c s)) = outbox_events s)"

text \<open>An event that was worked on is done, or has one more failed attempt and a retry within 256 seconds.\<close>

definition worked :: "int \<Rightarrow> int \<Rightarrow> OutboxEvent \<Rightarrow> bool" where
  "worked T n r \<longleftrightarrow> (pending r \<longrightarrow> obx_retryCount r = n + 1 \<and> n + 1 < 10 \<and>
     (\<exists>t. obx_nextAttemptAt r = Some t \<and> t \<le> T + 256000))"

definition settled_event :: "env \<Rightarrow> app_error + unit \<Rightarrow> ClaimedOutboxEvent \<Rightarrow> OutboxEvent \<Rightarrow> OutboxEvent" where
  "settled_event E res c r =
     (case res of
        Inr u \<Rightarrow> processed_event E r
      | Inl e \<Rightarrow> failed_event E (ceo_retryCount c + 1) (getErrorCode e) (isRetryableError e) r)"

lemma settled_event_id [simp]: "obx_id (settled_event E res c r) = obx_id r"
  by (cases res) (simp_all add: settled_event_def)

lemma settled_worked:
  assumes "0 \<le> ceo_retryCount c" and "app_now E \<le> T"
  shows "worked T (ceo_retryCount c) (settled_event E res c r)"
proof (cases res)
  case (Inl e)
  have "delaySeconds (ceo_retryCount c + 1) \<le> 256"
    using assms(1) by (simp add: delaySeconds_bounds)
  with assms Inl show ?thesis
    by (auto simp: worked_def settled_event_def failed_event_def pending_def deadLetter_def)
qed (simp add: worked_def settled_event_def processed_event_def pending_def)

lemma process_row_run:
  assumes "leaves_outbox D" and "ceo_id c \<in> obx_id ` set (outbox_events s)"
  shows "\<exists>s'. process_row E D c s = (Inr (), s') \<and> outbox_events s' =
    upd_where (\<lambda>r. obx_id r = ceo_id c) (settled_event E (fst (D c s)) c) (outbox_events s)"
proof -
  obtain res s1 where d: "D c s = (res, s1)" by (cases "D c s")
  with assms(1) have s1: "outbox_events s1 = outbox_events s"
    unfolding leaves_outbox_def by (metis snd_conv)
  from assms(2) obtain r where "find (\<lambda>r. obx_id r = ceo_id c) (outbox_events s1) = Some r"
    unfolding s1 using find_key_present [of "ceo_id c" obx_id] by blast
  then show ?thesis
    by (cases res) (simp_all add: process_row_def catchp_def seqp_def bindp_def d markProcessed_run markFailure_run
        settled_event_def [abs_def] s1)
qed

definition round_row :: "int \<Rightarrow> ClaimedOutboxEvent list \<Rightarrow> OutboxEvent \<Rightarrow> OutboxEvent \<Rightarrow> bool" where
  "round_row T cs r r' \<longleftrightarrow> obx_id r' = obx_id r \<and>
     (if obx_id r \<in> ceo_id ` set cs then \<exists>c\<in>set cs. ceo_id c = obx_id r \<and> worked T (ceo_retryCount c) r'
      else r' = r)"

lemma round_row_step:
  assumes "round_row T cs (if obx_id r = ceo_id c then settled_event E res c r else r) r'"
    and "ceo_id c \<notin> ceo_id ` set cs" and "0 \<le> ceo_retryCount c" and "app_now E \<le> T"
  shows "round_row T (c # cs) r r'"
proof (cases "obx_id r = ceo_id c")
  case True
  with assms(1,2) have "r' = settled_event E res c r" by (simp add: round_row_def)
  with True assms(3,4) show ?thesis by (simp add: round_row_def settled_worked)
next
  case False
  with assms(1) show ?thesis by (auto simp: round_row_def)
qed

lemma process_rows_run:
  assumes "leaves_outbox D" and "distinct (map ceo_id cs)"
    and "ceo_id ` set cs \<subseteq> obx_id ` set (outbox_events s)"
    and "\<And>c. c \<in> set cs \<Longrightarrow> 0 \<le> ceo_retryCount c" and "\<And>k. app_now (E k) \<le> T"
  shows "\<exists>s'. process_rows E D cs s = (Inr (), s') \<and>
    list_all2 (round_row T cs) (outbox_events s) (outbox_events s')"
  using assms(2-5)
proof (induction cs arbitrary: E s)
  case Nil
  then show ?case by (simp add: round_row_def list_all2_same)
next
  case (Cons c cs)
  from process_row_run [OF assms(1), of c s "E 0"] Cons.prems(2) obtain s1 where
    p: "process_row (E 0) D c s = (Inr (), s1)" and
    s1: "outbox_events s1 = upd_where (\<lambda>r. obx_id r = ceo_id c) (settled_event (E 0) (fst (D c s)) c) (outbox_events s)"
    by auto
  have "obx_id ` set (outbox_events s1) = obx_id ` set (outbox_events s)"
    unfolding s1 by (simp add: set_map [symmetric] map_key_upd_where del: set_map)
  with Cons.prems have "ceo_id ` set cs \<subseteq> obx_id ` set (outbox_events s1)" "distinct (map ceo_id cs)" by simp_all
  with Cons.prems(3,4) obtain s' where p': "process_rows (\<lambda>k. E (Suc k)) D cs s1 = (Inr (), s')"
    and r: "list_all2 (round_row T cs) (outbox_events s1) (outbox_events s')"
    using Cons.IH [of s1 "\<lambda>k. E (Suc k)"] by auto
  have "list_all2 (round_row T (c # cs)) (outbox_events s) (outbox_events s')"
    using r unfolding s1 upd_where_def list_all2_map1
  proof (rule list_all2_mono)
    fix r r'
    assume "round_row T cs (if obx_id r = ceo_id c then settled_event (E 0) (fst (D c s)) c r else r) r'"
    then show "round_row T (c # cs) r r'"
      by (rule round_row_step) (use Cons.prems in auto)
  qed
  moreover have "process_rows E D (c # cs) s = (Inr (), s')"
    by (simp add: seqp_def bindp_def p p')
  ultimately show ?case by blast
qed

section \<open>Repeated batches\<close>

text \<open>A schedule that runs one batch after another, with no other worker.\<close>

fun batches :: "(nat \<Rightarrow> nat \<Rightarrow> env) \<Rightarrow> dispatcher \<Rightarrow> nat \<Rightarrow> (db, unit) prog" where
  "batches E dispatch 0 = ret ()"
| "batches E dispatch (Suc n) =
     seqp (batches E dispatch n) (seqp (dispatchPendingBatch (E n) (\<lambda>_. False) dispatch 100) (ret ()))"

text \<open>After \<open>n\<close> batches every pending event has failed \<open>n\<close> times and is due by \<open>now\<close>.\<close>

definition due :: "int \<Rightarrow> int \<Rightarrow> OutboxEvent \<Rightarrow> bool" where
  "due now n r \<longleftrightarrow> (pending r \<longrightarrow> n \<le> obx_retryCount r \<and> (n = 0 \<or> obx_retryCount r < 10) \<and> claimable now r)"

definition outbox_ready :: "int \<Rightarrow> int \<Rightarrow> db \<Rightarrow> bool" where
  "outbox_ready now n s \<longleftrightarrow> distinct (map obx_id (outbox_events s)) \<and>
     length (filter pending (outbox_events s)) \<le> BATCH_SIZE \<and> list_all (due now n) (outbox_events s)"

lemma claimable_pending: "claimable now r \<Longrightarrow> pending r"
  by (simp add: claimable_def pending_def)

lemma lease_fields [simp]: "pending (lease E r) = pending r" "obx_retryCount (lease E r) = obx_retryCount r"
  by (simp_all add: lease_def pending_def)

lemma pending_filter_le:
  "list_all2 (\<lambda>r r'. pending r' \<longrightarrow> pending r) rs rs' \<Longrightarrow> length (filter pending rs') \<le> length (filter pending rs)"
  by (induction rule: list_all2_induct) auto

text \<open>One batch: the events it picked have been worked on once, the others are as they were.\<close>

definition picked_rows :: "env \<Rightarrow> db \<Rightarrow> OutboxEvent list" where
  "picked_rows E s = claim_rows E (\<lambda>_. False) BATCH_SIZE (outbox_events s)"

lemma picked_pending: "set (picked_rows E s) \<subseteq> {r. pending r}"
  unfolding picked_rows_def by (auto dest!: claim_rows_set intro: claimable_pending)

definition batch_row :: "int \<Rightarrow> OutboxEvent list \<Rightarrow> OutboxEvent \<Rightarrow> OutboxEvent \<Rightarrow> bool" where
  "batch_row T picked r r' \<longleftrightarrow> obx_id r' = obx_id r \<and>
     (if r \<in> set picked then worked T (obx_retryCount r) r' else r' = r)"

lemma batch_step:
  assumes D: "leaves_outbox D" and dist: "distinct (map obx_id (outbox_events s))"
    and nonneg: "\<And>r. r \<in> set (outbox_events s) \<Longrightarrow> pending r \<Longrightarrow> 0 \<le> obx_retryCount r"
    and T: "\<And>k. app_now (E k) \<le> T"
  shows "\<exists>c s'. processBatch E (\<lambda>_. False) D s = (Inr c, s') \<and>
    list_all2 (batch_row T (picked_rows (E 0) s)) (outbox_events s) (outbox_events s')"
proof -
  define rs where "rs = outbox_events s"
  define picked where "picked = picked_rows (E 0) s"
  define s1 where "s1 = outbox_events_update (upd_where (\<lambda>r. obx_id r \<in> obx_id ` set picked) (lease (E 0))) s"
  define cs where "cs = map claimed_row picked"
  have claim: "claimBatch (E 0) (\<lambda>_. False) BATCH_SIZE s = (Inr cs, s1)"
    by (simp add: claimBatch_run Let_def cs_def s1_def picked_def picked_rows_def)
  have sub: "set picked \<subseteq> {r \<in> set rs. pending r}"
    using picked_pending claim_rows_set by (fastforce simp: picked_def picked_rows_def rs_def)
  have ids: "map ceo_id cs = map obx_id picked" by (simp add: cs_def comp_def)
  then have "distinct (map ceo_id cs)" by (simp add: picked_def picked_rows_def claim_rows_distinct dist)
  moreover have "ceo_id ` set cs \<subseteq> obx_id ` set (outbox_events s1)"
  proof -
    have "obx_id ` set (outbox_events s1) = obx_id ` set rs"
      by (simp add: s1_def rs_def set_map [symmetric] map_key_upd_where del: set_map)
    with sub show ?thesis by (auto simp: cs_def)
  qed
  moreover have "\<And>c. c \<in> set cs \<Longrightarrow> 0 \<le> ceo_retryCount c" using sub nonneg by (auto simp: cs_def rs_def)
  ultimately obtain s2 where p: "process_rows (\<lambda>k. E (Suc k)) D cs s1 = (Inr (), s2)"
    and round: "list_all2 (round_row T cs) (outbox_events s1) (outbox_events s2)"
    using process_rows_run [OF D, of cs s1 "\<lambda>k. E (Suc k)" T] T by auto
  have mem: "obx_id r \<in> obx_id ` set picked \<longleftrightarrow> r \<in> set picked" if "r \<in> set rs" for r
    using that sub dist distinct_key_unique [of obx_id rs] unfolding rs_def by blast
  have row: "batch_row T picked r r'"
    if r: "r \<in> set rs" and rr: "round_row T cs (if obx_id r \<in> obx_id ` set picked then lease (E 0) r else r) r'" for r r'
  proof (cases "r \<in> set picked")
    case True
    with r have "obx_id r \<in> obx_id ` set picked" "obx_id r \<in> ceo_id ` set cs" by (auto simp: cs_def image_image)
    with rr obtain c where c: "c \<in> set cs" "ceo_id c = obx_id r" "worked T (ceo_retryCount c) r'" "obx_id r' = obx_id r"
      by (auto simp: round_row_def)
    then obtain q where "q \<in> set rs" "obx_id q = obx_id r" "ceo_retryCount c = obx_retryCount q"
      using sub by (auto simp: cs_def)
    with r dist have "ceo_retryCount c = obx_retryCount r" unfolding rs_def by (metis distinct_key_unique)
    with c True show ?thesis by (simp add: batch_row_def)
  next
    case False
    with mem [OF r] have "obx_id r \<notin> obx_id ` set picked" by simp
    moreover from this have "obx_id r \<notin> ceo_id ` set cs" by (auto simp: cs_def image_image)
    ultimately show ?thesis using rr False by (auto simp: round_row_def batch_row_def)
  qed
  have "list_all2 (batch_row T picked) rs (outbox_events s2)"
  proof (rule list_all2_all_nthI)
    show "length rs = length (outbox_events s2)"
      using list_all2_lengthD [OF round] by (simp add: s1_def rs_def)
    fix k
    assume k: "k < length rs"
    with list_all2_nthD [OF round, of k] show "batch_row T picked (rs ! k) (outbox_events s2 ! k)"
      by (intro row) (simp_all add: s1_def rs_def upd_where_def split: if_splits)
  qed
  moreover have "processBatch E (\<lambda>_. False) D s = (Inr (length cs), s2)"
    by (simp add: processBatch_def bindp_def claim seqp_def p)
  ultimately show ?thesis by (auto simp: picked_def rs_def)
qed

lemma batch_row_mono:
  assumes "list_all2 (batch_row T picked) rs rs'" and "set picked \<subseteq> {r. pending r}"
  shows "map obx_id rs' = map obx_id rs" and "length (filter pending rs') \<le> length (filter pending rs)"
proof -
  show "map obx_id rs' = map obx_id rs"
    using assms(1) by (auto simp: list_all2_conv_all_nth batch_row_def intro!: nth_equalityI)
  show "length (filter pending rs') \<le> length (filter pending rs)"
    using assms(1,2) by (intro pending_filter_le) (auto simp: batch_row_def elim!: list_all2_mono split: if_splits)
qed

lemma batch_row_all:
  assumes "list_all2 (batch_row T picked) rs rs'" and "\<And>r r'. r \<in> set rs \<Longrightarrow> batch_row T picked r r' \<Longrightarrow> P r'"
  shows "list_all P rs'"
  unfolding list_all_length
proof (intro allI impI)
  fix k
  assume "k < length rs'"
  with assms(1) have "k < length rs" "batch_row T picked (rs ! k) (rs' ! k)" by (simp_all add: list_all2_conv_all_nth)
  then show "P (rs' ! k)" by (intro assms(2) [of "rs ! k"]) simp_all
qed

text \<open>What is pending is claimable, so that a batch picks all of it, or a hundred.\<close>

lemma picked_count:
  assumes "list_all (due (db_now E) n) (outbox_events s)"
  shows "length (picked_rows E s) = min BATCH_SIZE (length (filter pending (outbox_events s)))"
    and "length (filter pending (outbox_events s)) \<le> BATCH_SIZE \<Longrightarrow>
      set (picked_rows E s) = {r \<in> set (outbox_events s). pending r}"
proof -
  have "filter (claimable (db_now E)) (outbox_events s) = filter pending (outbox_events s)"
    using assms claimable_pending by (auto simp: due_def list_all_iff intro!: filter_cong)
  then show "length (picked_rows E s) = min BATCH_SIZE (length (filter pending (outbox_events s)))"
    and "length (filter pending (outbox_events s)) \<le> BATCH_SIZE \<Longrightarrow>
      set (picked_rows E s) = {r \<in> set (outbox_events s). pending r}"
    by (simp_all add: picked_rows_def claim_rows_def min.commute)
qed

lemma batch_round:
  assumes D: "leaves_outbox D" and ready: "outbox_ready (db_now (E 0)) n s" and n: "0 \<le> n"
    and T: "\<And>k. app_now (E k) \<le> T" and later: "T + 256000 \<le> now'"
  shows "\<exists>c s'. processBatch E (\<lambda>_. False) D s = (Inr c, s') \<and> outbox_ready now' (n + 1) s'"
proof -
  from ready have dist: "distinct (map obx_id (outbox_events s))" and du: "list_all (due (db_now (E 0)) n) (outbox_events s)"
    and small: "length (filter pending (outbox_events s)) \<le> BATCH_SIZE" by (simp_all add: outbox_ready_def)
  from du n have "0 \<le> obx_retryCount r" if "r \<in> set (outbox_events s)" "pending r" for r
    using that by (auto simp: due_def list_all_iff)
  from batch_step [where E = E, OF D dist this T] obtain c s' where run: "processBatch E (\<lambda>_. False) D s = (Inr c, s')"
    and rows: "list_all2 (batch_row T (picked_rows (E 0) s)) (outbox_events s) (outbox_events s')" by blast
  have "due now' (n + 1) r'" if "r \<in> set (outbox_events s)" "batch_row T (picked_rows (E 0) s) r r'" for r r'
    using that du later n picked_count(2) [OF du small]
    by (auto simp: batch_row_def worked_def due_def claimable_def pending_def list_all_iff split: if_splits)
  then have "list_all (due now' (n + 1)) (outbox_events s')" by (rule batch_row_all [OF rows])
  with batch_row_mono [OF rows picked_pending] dist small run show ?thesis by (auto simp: outbox_ready_def)
qed

lemma batches_run:
  assumes D: "leaves_outbox D" and ready: "outbox_ready (db_now (E 0 0)) 0 s"
    and gap: "\<And>m k. app_now (E m k) + 256000 \<le> db_now (E (Suc m) 0)"
  shows "\<exists>s'. batches E D m s = (Inr (), s') \<and> outbox_ready (db_now (E m 0)) (int m) s'"
proof (induction m)
  case 0
  then show ?case using ready by simp
next
  case (Suc m)
  then obtain s1 where s1: "batches E D m s = (Inr (), s1)" "outbox_ready (db_now (E m 0)) (int m) s1" by blast
  have "app_now (E m k) \<le> db_now (E (Suc m) 0) - 256000" for k using gap [of m k] by simp
  then obtain c s' where "processBatch (E m) (\<lambda>_. False) D s1 = (Inr c, s')"
    "outbox_ready (db_now (E (Suc m) 0)) (int m + 1) s'"
    using batch_round [where E = "E m" and s = s1 and n = "int m" and D = D and T = "db_now (E (Suc m) 0) - 256000"
        and now' = "db_now (E (Suc m) 0)"] D s1(2) by auto
  with s1 show ?case by (simp add: seqp_def bindp_def dispatchPendingBatch_def add.commute)
qed

section \<open>A backlog longer than a batch\<close>

text \<open>
  The attempts an event has left. Every batch uses up one for each event it picks, and it picks a
  hundred as long as there are that many.
\<close>

definition attempts_left :: "OutboxEvent \<Rightarrow> nat" where
  "attempts_left r = (if pending r then nat (max 1 (10 - obx_retryCount r)) else 0)"

definition backlog :: "db \<Rightarrow> nat" where
  "backlog s = (\<Sum>r\<leftarrow>outbox_events s. attempts_left r)"

lemma attempts_used:
  assumes "list_all2 (batch_row T picked) rs rs'" and "\<And>r. r \<in> set rs \<Longrightarrow> pending r \<Longrightarrow> 0 \<le> obx_retryCount r"
    and "set picked \<subseteq> {r. pending r}"
  shows "(\<Sum>r\<leftarrow>rs'. attempts_left r) + length (filter (\<lambda>r. r \<in> set picked) rs) \<le> (\<Sum>r\<leftarrow>rs. attempts_left r)"
  using assms(1,2)
proof (induction rule: list_all2_induct)
  case (Cons r rs r' rs')
  have "attempts_left r' + (if r \<in> set picked then 1 else 0) \<le> attempts_left r"
    using Cons(1) Cons.prems [of r] assms(3) by (auto simp: batch_row_def attempts_left_def worked_def)
  with Cons.IH Cons.prems show ?case by fastforce
qed simp

lemma pending_le_backlog: "length (filter pending (outbox_events s)) \<le> backlog s"
proof -
  have "length (filter pending rs) \<le> (\<Sum>r\<leftarrow>rs. attempts_left r)" for rs
    by (induction rs) (auto simp: attempts_left_def)
  then show ?thesis by (simp add: backlog_def)
qed

lemma backlog_le:
  assumes "list_all (due now 0) (outbox_events s)"
  shows "backlog s \<le> 10 * length (filter pending (outbox_events s))"
proof -
  have "(\<Sum>r\<leftarrow>rs. attempts_left r) \<le> 10 * length (filter pending rs)" if "list_all (due now 0) rs" for rs
    using that by (induction rs) (auto simp: attempts_left_def due_def)
  with assms show ?thesis by (simp add: backlog_def)
qed

definition outbox_open :: "int \<Rightarrow> db \<Rightarrow> bool" where
  "outbox_open now s \<longleftrightarrow> distinct (map obx_id (outbox_events s)) \<and> list_all (due now 0) (outbox_events s)"

lemma batch_backlog:
  assumes D: "leaves_outbox D" and open': "outbox_open (db_now (E 0)) s"
    and T: "\<And>k. app_now (E k) \<le> T" and later: "T + 256000 \<le> now'" "db_now (E 0) \<le> now'"
  shows "\<exists>c s'. processBatch E (\<lambda>_. False) D s = (Inr c, s') \<and> outbox_open now' s' \<and>
    length (filter pending (outbox_events s')) \<le> length (filter pending (outbox_events s)) \<and>
    backlog s' + min BATCH_SIZE (length (filter pending (outbox_events s))) \<le> backlog s"
proof -
  from open' have dist: "distinct (map obx_id (outbox_events s))" and du: "list_all (due (db_now (E 0)) 0) (outbox_events s)"
    by (simp_all add: outbox_open_def)
  from du have nonneg: "0 \<le> obx_retryCount r" if "r \<in> set (outbox_events s)" "pending r" for r
    using that by (auto simp: due_def list_all_iff)
  let ?picked = "picked_rows (E 0) s"
  from batch_step [where E = E, OF D dist nonneg T] obtain c s' where run: "processBatch E (\<lambda>_. False) D s = (Inr c, s')"
    and rows: "list_all2 (batch_row T ?picked) (outbox_events s) (outbox_events s')" by blast
  have "due now' 0 r'" if "r \<in> set (outbox_events s)" "batch_row T ?picked r r'" for r r'
    using that du later nonneg [of r] picked_pending [of "E 0" s] claimable_mono [of "db_now (E 0)" r now']
    by (auto simp: batch_row_def worked_def due_def claimable_def pending_def list_all_iff split: if_splits)
  then have "list_all (due now' 0) (outbox_events s')" by (rule batch_row_all [OF rows])
  note kept = this batch_row_mono [OF rows picked_pending]
  have "length (filter (\<lambda>r. r \<in> set ?picked) (outbox_events s)) = length ?picked"
  proof -
    have d: "distinct ?picked" "distinct (filter (\<lambda>r. r \<in> set ?picked) (outbox_events s))"
      using claim_rows_distinct [OF dist, of "E 0"] dist by (auto simp: picked_rows_def distinct_map)
    have "set ?picked \<subseteq> set (outbox_events s)" by (auto simp: picked_rows_def dest: claim_rows_set)
    then have "set (filter (\<lambda>r. r \<in> set ?picked) (outbox_events s)) = set ?picked" by auto
    with d show ?thesis by (metis distinct_card)
  qed
  with attempts_used [OF rows nonneg picked_pending] picked_count(1) [OF du]
  have "backlog s' + min BATCH_SIZE (length (filter pending (outbox_events s))) \<le> backlog s" by (simp add: backlog_def)
  with run kept dist show ?thesis by (auto simp: outbox_open_def)
qed

lemma backlog_run:
  assumes D: "leaves_outbox D" and open': "outbox_open (db_now (E 0 0)) s"
    and gap: "\<And>m k. app_now (E m k) + 256000 \<le> db_now (E (Suc m) 0)" "\<And>m. db_now (E m 0) \<le> db_now (E (Suc m) 0)"
  shows "\<exists>s'. batches E D m s = (Inr (), s') \<and> outbox_open (db_now (E m 0)) s' \<and>
    (length (filter pending (outbox_events s')) \<le> BATCH_SIZE \<or> backlog s' + BATCH_SIZE * m \<le> backlog s)"
proof (induction m)
  case 0
  then show ?case using open' by simp
next
  case (Suc m)
  then obtain s1 where s1: "batches E D m s = (Inr (), s1)" "outbox_open (db_now (E m 0)) s1"
    "length (filter pending (outbox_events s1)) \<le> BATCH_SIZE \<or> backlog s1 + BATCH_SIZE * m \<le> backlog s" by blast
  have "app_now (E m k) \<le> db_now (E (Suc m) 0) - 256000" for k using gap(1) [of m k] by simp
  from batch_backlog [where E = "E m", OF D s1(2) this _ gap(2)] obtain c s' where "processBatch (E m) (\<lambda>_. False) D s1 = (Inr c, s')"
    "outbox_open (db_now (E (Suc m) 0)) s'"
    "length (filter pending (outbox_events s')) \<le> length (filter pending (outbox_events s1))"
    "backlog s' + min BATCH_SIZE (length (filter pending (outbox_events s1))) \<le> backlog s1" by auto
  with s1 show ?case by (auto simp: seqp_def bindp_def dispatchPendingBatch_def min_def split: if_splits)
qed

lemma batches_add:
  assumes "batches E D m s = (Inr (), s1)"
  shows "batches E D (m + k) s = batches (\<lambda>j. E (m + j)) D k s1"
  using assms by (induction k) (simp_all add: seqp_def bindp_def ret_def)

section \<open>Properties\<close>

text \<open>
  C26: No event waits forever, whatever the backlog. Take a state whose pending events are all due, a
  dispatcher that leaves the outbox alone, one worker whose batches are more than the longest backoff
  (256 seconds) apart on a database clock that never goes back, and nothing enqueued meanwhile. Then ten
  batches are enough for up to a hundred pending events, and ten and a tenth of their number for more:
  they run without an error and leave no event pending. Each was dispatched or is dead-lettered, however
  the dispatcher behaves.
\<close>

theorem outbox_drains:
  assumes "leaves_outbox dispatch" and "distinct (map obx_id (outbox_events s))"
    and "\<forall>r\<in>set (outbox_events s). pending r \<longrightarrow> 0 \<le> obx_retryCount r \<and> claimable (db_now (E 0 0)) r"
    and "\<And>m k. app_now (E m k) + 256000 \<le> db_now (E (Suc m) 0)" and "\<And>m. db_now (E m 0) \<le> db_now (E (Suc m) 0)"
    and "waiting = length (filter pending (outbox_events s))"
  shows "\<exists>s'. batches E dispatch (if waiting \<le> 100 then 10 else waiting div 10 + 10) s = (Inr (), s') \<and>
    (\<forall>r\<in>set (outbox_events s'). obx_processed r \<or> obx_deadLetteredAt r \<noteq> None)"
proof -
  define m where "m = (if waiting \<le> 100 then 0 else waiting div 10)"
  have start: "outbox_open (db_now (E 0 0)) s" using assms(2,3) by (auto simp: outbox_open_def due_def list_all_iff)
  from backlog_run [where E = E and m = m, OF assms(1) this assms(4,5)] obtain s1 where
    s1: "batches E dispatch m s = (Inr (), s1)" "outbox_open (db_now (E m 0)) s1"
    and left: "length (filter pending (outbox_events s1)) \<le> BATCH_SIZE \<or> backlog s1 + BATCH_SIZE * m \<le> backlog s" by blast
  have "length (filter pending (outbox_events s1)) \<le> BATCH_SIZE"
  proof (cases "waiting \<le> 100")
    case True
    with s1(1) assms(6) show ?thesis by (simp add: m_def ret_def BATCH_SIZE_def)
  next
    case False
    have "backlog s \<le> 10 * waiting" using start backlog_le assms(6) by (auto simp: outbox_open_def)
    with left False pending_le_backlog [of s1] show ?thesis by (auto simp: m_def BATCH_SIZE_def)
  qed
  with s1(2) have "outbox_ready (db_now (E (m + 0) 0)) 0 s1" by (simp add: outbox_open_def outbox_ready_def)
  from batches_run [where E = "\<lambda>j. E (m + j)" and m = 10, OF assms(1) this] assms(4) obtain s' where
    "batches (\<lambda>j. E (m + j)) dispatch 10 s1 = (Inr (), s')" "list_all (due (db_now (E (m + 10) 0)) 10) (outbox_events s')"
    by (auto simp: outbox_ready_def)
  moreover have "(if waiting \<le> 100 then 10 else waiting div 10 + 10) = m + 10" by (simp add: m_def)
  ultimately show ?thesis
    using batches_add [OF s1(1), of 10] by (auto simp: due_def list_all_iff pending_def)
qed

text \<open>
  A claimed event stays with its worker. Among all the batches claimed in a window shorter than
  the lease of 30 seconds, whichever rows each transaction finds locked and whatever new events and
  reports on other events come between, at most one contains a given event.
\<close>

theorem outbox_event_claimed_once:
  assumes "stored i s" and "guarded_update.race (claim_attempt i t0) (outbox_other i) s n t"
  shows "n \<le> 1"
  using outbox_lease.at_most_one_win [OF assms] .

text \<open>
  C27: The outcome of one event. A dispatch that succeeds marks it processed; one that fails counts the
  attempt, keeps the code of the error, and either dead-letters the event (an error not worth a retry,
  or the tenth attempt) or plans the next attempt between 2 and 256 seconds ahead.
\<close>

theorem outbox_row_outcome:
  assumes "leaves_outbox dispatch" and "ceo_id c \<in> obx_id ` set (outbox_events s)" and "0 \<le> ceo_retryCount c"
  shows "\<exists>s'. process_row E dispatch c s = (Inr (), s') \<and>
    list_all2 (\<lambda>r r'. if obx_id r \<noteq> ceo_id c then r' = r
        else case fst (dispatch c s) of
          Inr u \<Rightarrow> obx_processed r' \<and> obx_processedAt r' = Some (app_now E) \<and> obx_deadLetteredAt r' = None
        | Inl e \<Rightarrow> obx_processed r' = obx_processed r \<and> obx_retryCount r' = ceo_retryCount c + 1 \<and>
            obx_lastErrorCode r' = Some (getErrorCode e) \<and>
            (if isRetryableError e \<and> ceo_retryCount c < 9
             then obx_deadLetteredAt r' = None \<and> (\<exists>d. obx_nextAttemptAt r' = Some (app_now E + d) \<and> 2000 \<le> d \<and> d \<le> 256000)
             else obx_deadLetteredAt r' = Some (app_now E) \<and> obx_nextAttemptAt r' = None))
      (outbox_events s) (outbox_events s')"
proof -
  note d = delaySeconds_bounds [of "ceo_retryCount c + 1"]
  from process_row_run [OF assms(1,2), of E] obtain s' where
    "process_row E dispatch c s = (Inr (), s')" "outbox_events s' =
      upd_where (\<lambda>r. obx_id r = ceo_id c) (settled_event E (fst (dispatch c s)) c) (outbox_events s)" by blast
  then show ?thesis
    using assms(3) d by (auto simp: upd_where_def list_all2_map2 list_all2_same settled_event_def processed_event_def
        failed_event_def deadLetter_def split: sum.splits)
qed

section \<open>Examples\<close>

definition ex_tick :: "int \<Rightarrow> env" where
  "ex_tick t = \<lparr> app_now = t, db_now = t, uuid = (\<lambda>n. replicate n CHR ''u''), sha256 = (\<lambda>x. ''h'' @ x),
     tx_usable_after_error = False \<rparr>"

definition ex_refusing :: dispatcher where
  "ex_refusing c = throw (ProviderTimeoutError ''p'' ''late'')"

definition ex_outbox :: db where
  "ex_outbox = empty_db\<lparr> outbox_events := [new_outbox_event (ex_tick 5) ''o1'' ''order'' ''x'' ''OrderCreated'' (JObj [])] \<rparr>"

lemma ex_refusing_leaves: "leaves_outbox ex_refusing"
  by (simp add: leaves_outbox_def ex_refusing_def)

text \<open>A backlog of a hundred and fifty events that all time out.\<close>

definition ex_backlog :: db where
  "ex_backlog = empty_db\<lparr> outbox_events := map (\<lambda>n.
     new_outbox_event (ex_tick 5) (replicate n CHR ''o'') ''order'' ''x'' ''OrderCreated'' (JObj [])) [0..<150] \<rparr>"

lemma outbox_drains_witness:
  "length (filter pending (outbox_events ex_backlog)) = 150 \<and>
   (\<exists>s'. batches (\<lambda>m k. ex_tick (10 + 300000 * int m)) ex_refusing 25 ex_backlog = (Inr (), s') \<and>
    (\<forall>r\<in>set (outbox_events s'). obx_processed r \<or> obx_deadLetteredAt r \<noteq> None))"
proof -
  have p: "pending (new_outbox_event (ex_tick 5) i ''order'' ''x'' ''OrderCreated'' (JObj []))" for i
    by (simp add: pending_def new_outbox_event_def)
  then have n: "length (filter pending (outbox_events ex_backlog)) = 150" by (simp add: ex_backlog_def)
  have "distinct (map obx_id (outbox_events ex_backlog))"
    by (auto simp: ex_backlog_def new_outbox_event_def distinct_map inj_on_def dest: arg_cong [where f = length])
  moreover have "\<forall>r\<in>set (outbox_events ex_backlog). pending r \<longrightarrow> 0 \<le> obx_retryCount r \<and>
      claimable (db_now (ex_tick (10 + 300000 * int 0))) r"
    by (simp add: ex_backlog_def new_outbox_event_def claimable_def)
  ultimately have "\<exists>s'. batches (\<lambda>m k. ex_tick (10 + 300000 * int m)) ex_refusing
      (if (150::nat) \<le> 100 then 10 else 150 div 10 + 10) ex_backlog = (Inr (), s') \<and>
      (\<forall>r\<in>set (outbox_events s'). obx_processed r \<or> obx_deadLetteredAt r \<noteq> None)"
    by (intro outbox_drains) (simp_all add: ex_refusing_leaves n, simp_all add: ex_tick_def)
  with n show ?thesis by simp
qed

lemma outbox_row_outcome_witness:
  "\<exists>s'. process_row (ex_tick 10) ex_refusing (claimed_row (new_outbox_event (ex_tick 5) ''o1'' ''order'' ''x'' ''OrderCreated'' (JObj [])))
      ex_outbox = (Inr (), s') \<and> map obx_retryCount (outbox_events s') = [1]"
  using outbox_row_outcome [OF ex_refusing_leaves,
      of "claimed_row (new_outbox_event (ex_tick 5) ''o1'' ''order'' ''x'' ''OrderCreated'' (JObj []))" ex_outbox "ex_tick 10"]
  by (auto simp: ex_outbox_def claimed_row_def new_outbox_event_def ex_refusing_def list_all2_Cons1)

lemma outbox_event_claimed_once_witness:
  "(1::nat) \<le> 1 \<and> guarded_update.race (claim_attempt ''o1'' 10) (outbox_other ''o1'') ex_outbox 1
     (snd (claim_attempt ''o1'' 10 (ex_tick 10, \<lambda>_. False, 100) ex_outbox))"
proof -
  let ?a = "claim_attempt ''o1'' 10 (ex_tick 10, \<lambda>_. False, 100) ex_outbox"
  have "fst ?a"
    by (simp add: claim_attempt_def ex_tick_def claimBatch_run Let_def claim_rows_def ex_outbox_def
        new_outbox_event_def claimable_def claimed_row_def)
  then have "?a = (True, snd ?a)" by (simp add: prod_eq_iff)
  from outbox_lease.race.race_win [OF outbox_lease.race.race_start this]
  have "guarded_update.race (claim_attempt ''o1'' 10) (outbox_other ''o1'') ex_outbox 1 (snd ?a)" by simp
  moreover have "stored ''o1'' ex_outbox" by (simp add: stored_def ex_outbox_def new_outbox_event_def)
  ultimately show ?thesis using outbox_event_claimed_once by blast
qed

end
