(* ===== verification/Table_Store.thy ===== *)
theory Table_Store
  imports Event_Catalog "HOL-Library.List_Lexorder" "HOL-Library.Char_ord"
begin

text \<open>
  The rows behind table bookings: floor sections, venue tables, event tables, holds and their audit
  trail (\<^verbatim>\<open>src/modules/tables/infrastructure\<close>, \<^verbatim>\<open>application/table-audit.service.ts\<close>).

  A row read with its parents is a record of the rows together. The foreign keys make the parents
  exist; a row without them, which cannot be, is not returned. Rows are kept in the order they were
  inserted, which stands for \<open>createdAt\<close>, and texts are ordered by their characters.
\<close>

section \<open>Views\<close>

definition floor_name :: "db \<Rightarrow> VenueTable \<Rightarrow> string option" where
  "floor_name s vt = Option.bind (vt_floorSectionId vt)
     (\<lambda>i. map_option vfs_name (find (\<lambda>f. vfs_id f = i) (venue_floor_sections s)))"

type_synonym VenueTableView = "VenueTable \<times> string option"

record EventTableView =
  etv_table :: EventTable
  etv_organizer :: Organizer
  etv_event :: Event
  etv_venueTable :: VenueTable
  etv_floorSectionName :: "string option"

definition event_table_view :: "db \<Rightarrow> EventTable \<Rightarrow> EventTableView option" where
  "event_table_view s et =
     (case (find (\<lambda>o'. org_id o' = et_organizerId et) (organizers s),
            find (\<lambda>e. evt_id e = et_eventId et) (events s),
            find (\<lambda>v. vt_id v = et_venueTableId et) (venue_tables s)) of
        (Some o', Some e, Some v) \<Rightarrow>
          Some \<lparr> etv_table = et, etv_organizer = o', etv_event = e, etv_venueTable = v,
                 etv_floorSectionName = floor_name s v \<rparr>
      | _ \<Rightarrow> None)"

record TableReservationView =
  trv_reservation :: TableReservation
  trv_venueTable :: VenueTable
  trv_floorSectionName :: "string option"

definition reservation_view :: "db \<Rightarrow> TableReservation \<Rightarrow> TableReservationView option" where
  "reservation_view s r =
     Option.bind (find (\<lambda>et. et_id et = tr_eventTableId r) (event_tables s)) (\<lambda>et.
     Option.bind (find (\<lambda>v. vt_id v = et_venueTableId et) (venue_tables s)) (\<lambda>v.
       Some \<lparr> trv_reservation = r, trv_venueTable = v, trv_floorSectionName = floor_name s v \<rparr>))"

section \<open>Floor sections and venue tables\<close>

definition floor_clash :: "VenueFloorSection \<Rightarrow> VenueFloorSection \<Rightarrow> bool" where
  "floor_clash x y \<longleftrightarrow> vfs_id x = vfs_id y \<or>
     vfs_organizerId x = vfs_organizerId y \<and> vfs_name x = vfs_name y"

definition FloorSection_create :: "VenueFloorSection \<Rightarrow> (db, VenueFloorSection) prog" where
  "FloorSection_create data = prisma_create venue_floor_sections venue_floor_sections_update floor_clash data"

definition listFloorSectionsByOrganizer :: "string \<Rightarrow> (db, VenueFloorSection list) prog" where
  "listFloorSectionsByOrganizer organizerId = (\<lambda>s.
     ret (sort_key vfs_name (filter (\<lambda>f. vfs_organizerId f = organizerId) (venue_floor_sections s))) s)"

definition findFloorSectionByOrganizer :: "string \<Rightarrow> string \<Rightarrow> (db, VenueFloorSection option) prog" where
  "findFloorSectionByOrganizer organizerId floorSectionId =
     prisma_find venue_floor_sections (\<lambda>f. vfs_id f = floorSectionId \<and> vfs_organizerId f = organizerId)"

definition venue_table_clash :: "VenueTable \<Rightarrow> VenueTable \<Rightarrow> bool" where
  "venue_table_clash x y \<longleftrightarrow> vt_id x = vt_id y \<or>
     vt_organizerId x = vt_organizerId y \<and> vt_label x = vt_label y"

definition VenueTable_create :: "VenueTable \<Rightarrow> (db, VenueTable) prog" where
  "VenueTable_create data = prisma_create venue_tables venue_tables_update venue_table_clash data"

definition listVenueTablesByOrganizer :: "string \<Rightarrow> (db, VenueTableView list) prog" where
  "listVenueTablesByOrganizer organizerId = (\<lambda>s.
     ret (map (\<lambda>v. (v, floor_name s v))
       (sort_key vt_label (filter (\<lambda>v. vt_organizerId v = organizerId) (venue_tables s)))) s)"

definition findVenueTableById :: "string \<Rightarrow> (db, VenueTableView option) prog" where
  "findVenueTableById i = (\<lambda>s.
     ret (map_option (\<lambda>v. (v, floor_name s v)) (find (\<lambda>v. vt_id v = i) (venue_tables s))) s)"

definition findVenueTableByOrganizer :: "string \<Rightarrow> string \<Rightarrow> (db, VenueTableView option) prog" where
  "findVenueTableByOrganizer organizerId i = (\<lambda>s.
     ret (map_option (\<lambda>v. (v, floor_name s v))
       (find (\<lambda>v. vt_id v = i \<and> vt_organizerId v = organizerId) (venue_tables s))) s)"

section \<open>Event tables\<close>

definition event_table_clash :: "EventTable \<Rightarrow> EventTable \<Rightarrow> bool" where
  "event_table_clash x y \<longleftrightarrow> et_id x = et_id y \<or>
     et_eventId x = et_eventId y \<and> et_venueTableId x = et_venueTableId y"

definition EventTable_create :: "EventTable \<Rightarrow> (db, EventTable) prog" where
  "EventTable_create data = prisma_create event_tables event_tables_update event_table_clash data"

text \<open>The order of the enum in the database.\<close>

definition status_rank :: "EventTableStatus \<Rightarrow> nat" where
  "status_rank st = (case st of AVAILABLE \<Rightarrow> 0 | EventTableStatus.HELD \<Rightarrow> 1 | UNAVAILABLE \<Rightarrow> 2)"

definition listEventTablesByEvent :: "string \<Rightarrow> (db, EventTableView list) prog" where
  "listEventTablesByEvent eventId = (\<lambda>s.
     ret (List.map_filter (event_table_view s)
       (sort_key (\<lambda>et. status_rank (et_status et)) (filter (\<lambda>et. et_eventId et = eventId) (event_tables s)))) s)"

definition findOwnedEventTable :: "string \<Rightarrow> string \<Rightarrow> (db, EventTableView option) prog" where
  "findOwnedEventTable eventTableId ownerUserId = (\<lambda>s.
     ret (Option.bind
       (find (\<lambda>et. et_id et = eventTableId \<and>
          list_ex (\<lambda>o'. org_id o' = et_organizerId et \<and> org_ownerUserId o' = ownerUserId) (organizers s))
          (event_tables s))
       (event_table_view s)) s)"

definition findCustomerEventScope :: "string \<Rightarrow> (db, (Event \<times> Organizer) option) prog" where
  "findCustomerEventScope eventId = (\<lambda>s.
     ret (Option.bind (find (\<lambda>e. evt_id e = eventId) (events s)) (with_organizer s)) s)"

definition listEventTablesForAvailability :: "string \<Rightarrow> (db, EventTableView list) prog" where
  "listEventTablesForAvailability eventId = (\<lambda>s.
     ret (List.map_filter (event_table_view s)
       (sort_key et_priceMinor (filter (\<lambda>et. et_eventId et = eventId) (event_tables s)))) s)"

text \<open>Transactions run one after another here, so a row lock only tells whether the row is there.\<close>

definition lockEventTableForUpdate :: "string \<Rightarrow> (db, string option) prog" where
  "lockEventTableForUpdate eventTableId = (\<lambda>s.
     ret (map_option et_id (find (\<lambda>et. et_id et = eventTableId) (event_tables s))) s)"

definition lockEventTablesForEventForUpdate :: "string \<Rightarrow> (db, string list) prog" where
  "lockEventTablesForEventForUpdate eventId = (\<lambda>s.
     ret (sort (map et_id (filter (\<lambda>et. et_eventId et = eventId) (event_tables s)))) s)"

definition findLockedEventTableDetails :: "string \<Rightarrow> (db, EventTableView option) prog" where
  "findLockedEventTableDetails eventTableId = (\<lambda>s.
     ret (Option.bind (find (\<lambda>et. et_id et = eventTableId) (event_tables s)) (event_table_view s)) s)"

definition findEventTableState :: "string \<Rightarrow> (db, EventTable option) prog" where
  "findEventTableState eventTableId = prisma_find event_tables (\<lambda>et. et_id et = eventTableId)"

definition set_state :: "EventTableStatus \<Rightarrow> int option \<Rightarrow> EventTable \<Rightarrow> EventTable" where
  "set_state st instant et = et\<lparr> et_status := st, et_holdExpiresAt := instant \<rparr>"

definition updateEventTableState ::
  "string \<Rightarrow> EventTableStatus \<Rightarrow> int option \<Rightarrow> (db, EventTable) prog" where
  "updateEventTableState eventTableId status holdExpiresAt =
     prisma_update event_tables event_tables_update (\<lambda>et. et_id et = eventTableId) (set_state status holdExpiresAt)"

section \<open>Holds\<close>

definition reservation_key :: "TableReservation \<Rightarrow> string \<times> string \<times> string" where
  "reservation_key r = (tr_actorUserId r, tr_idempotencyUseCase r, tr_idempotencyKeyHash r)"

definition table_reservation_clash :: "TableReservation \<Rightarrow> TableReservation \<Rightarrow> bool" where
  "table_reservation_clash x y \<longleftrightarrow> tr_id x = tr_id y \<or> reservation_key x = reservation_key y"

definition findByActorAndIdempotency ::
  "string \<Rightarrow> string \<Rightarrow> string \<Rightarrow> (db, TableReservation option) prog" where
  "findByActorAndIdempotency actorUserId useCase keyHash =
     prisma_find table_reservations (\<lambda>r. reservation_key r = (actorUserId, useCase, keyHash))"

definition TableReservation_create :: "TableReservation \<Rightarrow> (db, TableReservation) prog" where
  "TableReservation_create data =
     prisma_create table_reservations table_reservations_update table_reservation_clash data"

definition findOwnedReservation :: "string \<Rightarrow> string \<Rightarrow> (db, TableReservationView option) prog" where
  "findOwnedReservation reservationId actorUserId = (\<lambda>s.
     ret (Option.bind (find (\<lambda>r. tr_id r = reservationId \<and> tr_actorUserId r = actorUserId) (table_reservations s))
       (reservation_view s)) s)"

definition findReservationById :: "string \<Rightarrow> (db, TableReservation option) prog" where
  "findReservationById reservationId = prisma_find table_reservations (\<lambda>r. tr_id r = reservationId)"

definition held_on :: "string \<Rightarrow> TableReservation \<Rightarrow> bool" where
  "held_on i r \<longleftrightarrow> tr_eventTableId r = i \<and> tr_status r = TableReservationStatus.HELD"

definition stale_on :: "string \<Rightarrow> int \<Rightarrow> TableReservation \<Rightarrow> bool" where
  "stale_on i now r \<longleftrightarrow> held_on i r \<and> tr_holdExpiresAt r \<le> now"

definition active_on :: "string \<Rightarrow> int \<Rightarrow> TableReservation \<Rightarrow> bool" where
  "active_on i now r \<longleftrightarrow> held_on i r \<and> tr_holdExpiresAt r > now"

definition findExpiredHeldByEventTable :: "string \<Rightarrow> int \<Rightarrow> (db, TableReservation list) prog" where
  "findExpiredHeldByEventTable i now = (\<lambda>s.
     ret (sort_key tr_holdExpiresAt (filter (stale_on i now) (table_reservations s))) s)"

definition latest_active :: "string \<Rightarrow> int \<Rightarrow> TableReservation list \<Rightarrow> TableReservation option" where
  "latest_active i now rs =
     (case sort_key (\<lambda>r. - tr_holdExpiresAt r) (filter (active_on i now) rs) of [] \<Rightarrow> None | r # _ \<Rightarrow> Some r)"

definition findLatestActiveHeldReservationForEventTable ::
  "string \<Rightarrow> int \<Rightarrow> (db, TableReservation option) prog" where
  "findLatestActiveHeldReservationForEventTable i now = (\<lambda>s. ret (latest_active i now (table_reservations s)) s)"

definition countActiveHeldReservationsForEventTable :: "string \<Rightarrow> int \<Rightarrow> (db, nat) prog" where
  "countActiveHeldReservationsForEventTable i now = (\<lambda>s.
     ret (length (filter (active_on i now) (table_reservations s))) s)"

definition expired_row :: "int \<Rightarrow> TableReservation \<Rightarrow> TableReservation" where
  "expired_row instant r = r\<lparr> tr_status := TableReservationStatus.EXPIRED, tr_expiredAt := Some instant \<rparr>"

definition markExpired :: "string \<Rightarrow> int \<Rightarrow> (db, TableReservation) prog" where
  "markExpired reservationId expiredAt =
     prisma_update table_reservations table_reservations_update (\<lambda>r. tr_id r = reservationId) (expired_row expiredAt)"

section \<open>The audit trail\<close>

definition TableAudit_append :: "TableAuditLog \<Rightarrow> (db, unit) prog" where
  "TableAudit_append row = (\<lambda>s. ret () (table_audit_logs_update (\<lambda>rs. rs @ [row]) s))"

definition venue_status_text :: "VenueTableStatus \<Rightarrow> string" where
  "venue_status_text st = (case st of VenueTableStatus.ACTIVE \<Rightarrow> ''ACTIVE'' | INACTIVE \<Rightarrow> ''INACTIVE'' | MAINTENANCE \<Rightarrow> ''MAINTENANCE'')"

definition table_status_text :: "EventTableStatus \<Rightarrow> string" where
  "table_status_text st = (case st of AVAILABLE \<Rightarrow> ''AVAILABLE'' | EventTableStatus.HELD \<Rightarrow> ''HELD'' | UNAVAILABLE \<Rightarrow> ''UNAVAILABLE'')"

definition logVenueTableCreated :: "string \<Rightarrow> VenueTable \<Rightarrow> (db, unit) prog" where
  "logVenueTableCreated actorUserId v = TableAudit_append
     \<lparr> tal_actorUserId = Some actorUserId, tal_organizerId = Some (vt_organizerId v), tal_eventId = None,
       tal_venueTableId = Some (vt_id v), tal_eventTableId = None, tal_reservationId = None,
       tal_event = VENUE_TABLE_CREATED, tal_reason = None,
       tal_metadata = Some (JObj [(''venueTableId'', JStr (vt_id v)), (''organizerId'', JStr (vt_organizerId v)),
         (''floorSectionId'', jopt (vt_floorSectionId v)), (''label'', JStr (vt_label v)),
         (''seatCount'', JNum (vt_seatCount v)), (''status'', JStr (venue_status_text (vt_status v)))]) \<rparr>"

definition logEventTableCreated :: "string \<Rightarrow> EventTable \<Rightarrow> (db, unit) prog" where
  "logEventTableCreated actorUserId et = TableAudit_append
     \<lparr> tal_actorUserId = Some actorUserId, tal_organizerId = Some (et_organizerId et),
       tal_eventId = Some (et_eventId et), tal_venueTableId = Some (et_venueTableId et),
       tal_eventTableId = Some (et_id et), tal_reservationId = None, tal_event = EVENT_TABLE_CREATED,
       tal_reason = None,
       tal_metadata = Some (JObj [(''organizerId'', JStr (et_organizerId et)), (''eventId'', JStr (et_eventId et)),
         (''eventTableId'', JStr (et_id et)), (''venueTableId'', JStr (et_venueTableId et)),
         (''priceMinor'', JNum (et_priceMinor et)), (''currency'', JStr (et_currency et)),
         (''status'', JStr (table_status_text (et_status et)))]) \<rparr>"

definition logEventTableUpdated ::
  "string \<Rightarrow> EventTable \<Rightarrow> EventTableStatus \<Rightarrow> (db, unit) prog" where
  "logEventTableUpdated actorUserId existing newStatus = TableAudit_append
     \<lparr> tal_actorUserId = Some actorUserId, tal_organizerId = Some (et_organizerId existing),
       tal_eventId = Some (et_eventId existing), tal_venueTableId = Some (et_venueTableId existing),
       tal_eventTableId = Some (et_id existing), tal_reservationId = None, tal_event = EVENT_TABLE_UPDATED,
       tal_reason = None,
       tal_metadata = Some (JObj [(''organizerId'', JStr (et_organizerId existing)),
         (''eventId'', JStr (et_eventId existing)), (''eventTableId'', JStr (et_id existing)),
         (''venueTableId'', JStr (et_venueTableId existing)),
         (''previousStatus'', JStr (table_status_text (et_status existing))),
         (''newStatus'', JStr (table_status_text newStatus))]) \<rparr>"

definition logHoldCreated :: "string \<Rightarrow> TableReservation \<Rightarrow> (db, unit) prog" where
  "logHoldCreated venueTableId r = TableAudit_append
     \<lparr> tal_actorUserId = Some (tr_actorUserId r), tal_organizerId = Some (tr_organizerId r),
       tal_eventId = Some (tr_eventId r), tal_venueTableId = Some venueTableId,
       tal_eventTableId = Some (tr_eventTableId r), tal_reservationId = Some (tr_id r),
       tal_event = TABLE_HOLD_CREATED, tal_reason = None,
       tal_metadata = Some (JObj [(''reservationId'', JStr (tr_id r)), (''eventTableId'', JStr (tr_eventTableId r)),
         (''eventId'', JStr (tr_eventId r)), (''organizerId'', JStr (tr_organizerId r)),
         (''amountMinor'', JNum (tr_amountMinor r)), (''currency'', JStr (tr_currency r)),
         (''holdExpiresAt'', JDate (tr_holdExpiresAt r))]) \<rparr>"

definition logHoldExpired ::
  "TableReservation \<Rightarrow> int \<Rightarrow> EventTableStatus \<Rightarrow> EventTableStatus \<Rightarrow> (db, unit) prog" where
  "logHoldExpired r expiredAt previous new = TableAudit_append
     \<lparr> tal_actorUserId = Some (tr_actorUserId r), tal_organizerId = Some (tr_organizerId r),
       tal_eventId = Some (tr_eventId r), tal_venueTableId = None, tal_eventTableId = Some (tr_eventTableId r),
       tal_reservationId = Some (tr_id r), tal_event = TABLE_HOLD_EXPIRED, tal_reason = Some ''hold_expired'',
       tal_metadata = Some (JObj [(''reservationId'', JStr (tr_id r)), (''eventTableId'', JStr (tr_eventTableId r)),
         (''eventId'', JStr (tr_eventId r)), (''organizerId'', JStr (tr_organizerId r)),
         (''reason'', JStr ''hold_expired''), (''previousReservationStatus'', JStr ''HELD''),
         (''newReservationStatus'', JStr ''EXPIRED''),
         (''previousEventTableStatus'', JStr (table_status_text previous)),
         (''newEventTableStatus'', JStr (table_status_text new)), (''expiredAt'', JDate expiredAt),
         (''holdExpiresAt'', JDate (tr_holdExpiresAt r))]) \<rparr>"

definition rejection_row ::
  "string \<Rightarrow> string option \<Rightarrow> string \<Rightarrow> string option \<Rightarrow> string \<Rightarrow> string \<Rightarrow> TableAuditLog" where
  "rejection_row actorUserId organizerId eventId venueTableId eventTableId reason =
     \<lparr> tal_actorUserId = Some actorUserId, tal_organizerId = organizerId, tal_eventId = Some eventId,
       tal_venueTableId = venueTableId, tal_eventTableId = Some eventTableId, tal_reservationId = None,
       tal_event = TABLE_RESERVATION_REJECTED, tal_reason = Some reason,
       tal_metadata = Some (JObj [(''organizerId'', jopt organizerId), (''eventId'', JStr eventId),
         (''venueTableId'', jopt venueTableId), (''eventTableId'', JStr eventTableId),
         (''reason'', JStr reason)]) \<rparr>"

definition logReservationRejected ::
  "string \<Rightarrow> string option \<Rightarrow> string \<Rightarrow> string option \<Rightarrow> string \<Rightarrow> string \<Rightarrow> (db, unit) prog" where
  "logReservationRejected actorUserId organizerId eventId venueTableId eventTableId reason =
     TableAudit_append (rejection_row actorUserId organizerId eventId venueTableId eventTableId reason)"

lemma TableAudit_append_run [simp]:
  "TableAudit_append row s = (Inr (), table_audit_logs_update (\<lambda>rs. rs @ [row]) s)"
  by (simp add: TableAudit_append_def)

interpretation table_audit: append_log table_audit_logs table_audit_logs_update TableAudit_append
  by unfold_locales auto

lemma table_reads [simp]:
  "lockEventTableForUpdate i s = (Inr (map_option et_id (find (\<lambda>et. et_id et = i) (event_tables s))), s)"
  "findLockedEventTableDetails i s =
     (Inr (Option.bind (find (\<lambda>et. et_id et = i) (event_tables s)) (event_table_view s)), s)"
  "findEventTableState i s = (Inr (find (\<lambda>et. et_id et = i) (event_tables s)), s)"
  "findByActorAndIdempotency a u k s =
     (Inr (find (\<lambda>r. reservation_key r = (a, u, k)) (table_reservations s)), s)"
  "findExpiredHeldByEventTable i now s =
     (Inr (sort_key tr_holdExpiresAt (filter (stale_on i now) (table_reservations s))), s)"
  "findLatestActiveHeldReservationForEventTable i now s = (Inr (latest_active i now (table_reservations s)), s)"
  "countActiveHeldReservationsForEventTable i now s =
     (Inr (length (filter (active_on i now) (table_reservations s))), s)"
  by (simp_all add: lockEventTableForUpdate_def findLockedEventTableDetails_def findEventTableState_def
      findByActorAndIdempotency_def findExpiredHeldByEventTable_def
      findLatestActiveHeldReservationForEventTable_def countActiveHeldReservationsForEventTable_def)

lemma table_fields [simp]:
  "et_id (set_state st instant et) = et_id et" "tr_id (expired_row now r) = tr_id r"
  "reservation_key (expired_row now r) = reservation_key r"
  "tr_eventTableId (expired_row now r) = tr_eventTableId r"
  "et_eventId (set_state st instant et) = et_eventId et" "et_venueTableId (set_state st instant et) = et_venueTableId et"
  "et_status (set_state st instant et) = st" "et_holdExpiresAt (set_state st instant et) = instant"
  "tr_status (expired_row now r) = TableReservationStatus.EXPIRED"
  by (simp_all add: set_state_def expired_row_def reservation_key_def)

text \<open>The latest active hold is one, and there is one when a row is active.\<close>

lemma latest_active_Some:
  "latest_active i now rs = Some r \<Longrightarrow> r \<in> set rs \<and> active_on i now r"
proof -
  assume "latest_active i now rs = Some r"
  then obtain rest where e: "sort_key (\<lambda>r. - tr_holdExpiresAt r) (filter (active_on i now) rs) = r # rest"
    by (auto simp: latest_active_def split: list.splits)
  have "r \<in> set (sort_key (\<lambda>r. - tr_holdExpiresAt r) (filter (active_on i now) rs))" unfolding e by simp
  then show ?thesis by simp
qed

lemma latest_active_None: "latest_active i now rs = None \<longleftrightarrow> (\<forall>r\<in>set rs. \<not> active_on i now r)"
proof -
  have "latest_active i now rs = None \<longleftrightarrow> set (sort_key (\<lambda>r. - tr_holdExpiresAt r) (filter (active_on i now) rs)) = {}"
    by (auto simp: latest_active_def split: list.splits simp del: set_sort)
  then show ?thesis by auto
qed

end
