(* ===== verification/Table_Holds.thy ===== *)
theory Table_Holds
  imports Table_Store
begin

text \<open>
  Holding a table (\<^verbatim>\<open>src/modules/tables/application/table-reservations.service.ts\<close>,
  \<^verbatim>\<open>table-idempotency.service.ts\<close>): \<open>createHold\<close>, \<open>getOwnedReservation\<close>, the expiry of stale
  holds and the reconciliation of the state of an event table with its holds.

  The configured duration arrives as the runtime's \<open>Number\<close> read it. A serializable transaction is
  one that runs alone; that the database may refuse to serialize it is left out. \<open>createHold\<close> asks for
  that isolation; \<open>getOwnedReservation\<close> does not: its transaction runs at the default level and locks no
  row, so that another transaction can change the reservation or its table between the statements. Here
  it too runs alone, which leaves such interleavings out.
\<close>

section \<open>Helpers\<close>

definition TABLE_HOLD_IDEMPOTENCY_USE_CASE :: string where
  "TABLE_HOLD_IDEMPOTENCY_USE_CASE = ''tables.hold''"

definition hashIdempotencyKey :: "env \<Rightarrow> string \<Rightarrow> string" where
  "hashIdempotencyKey E v = sha256 E (js_trim v)"

definition buildHoldRequestFingerprintHash :: "env \<Rightarrow> string \<Rightarrow> string \<Rightarrow> string" where
  "buildHoldRequestFingerprintHash E eventId eventTableId =
     sha256 E (json_object [(''eventId'', eventId), (''eventTableId'', eventTableId)])"

definition resolveHoldDurationSeconds :: "js_number option \<Rightarrow> int" where
  "resolveHoldDurationSeconds rawValue =
     (case rawValue of
        None \<Rightarrow> 600
      | Some NonIntegerNum \<Rightarrow> 600
      | Some (IntegerNum parsed) \<Rightarrow> if parsed < 60 \<or> parsed > 1800 then 600 else parsed)"

record HoldTableInput =
  hti_actorUserId :: string
  hti_eventId :: string
  hti_eventTableId :: string
  hti_idempotencyKey :: string

definition rejectHold :: "int \<Rightarrow> string \<Rightarrow> HoldTableInput \<Rightarrow> EventTableView option \<Rightarrow> string \<Rightarrow> (db, 'a) prog" where
  "rejectHold statusCode message input et reason =
     throw (HoldRejectionError statusCode message (hti_actorUserId input) (hti_eventId input) (hti_eventTableId input)
       (map_option (\<lambda>v. et_organizerId (etv_table v)) et) (map_option (\<lambda>v. et_venueTableId (etv_table v)) et) reason)"

text \<open>The event and the table of a rejection are the row's own.\<close>

definition own_scope :: "EventTableView \<Rightarrow> HoldTableInput \<Rightarrow> HoldTableInput" where
  "own_scope et input = input\<lparr> hti_eventId := et_eventId (etv_table et), hti_eventTableId := et_id (etv_table et) \<rparr>"

definition assertHoldEligible :: "EventTableView \<Rightarrow> HoldTableInput \<Rightarrow> int \<Rightarrow> (db, unit) prog" where
  "assertHoldEligible et input serverNow =
     (let reject = (\<lambda>n m. rejectHold n m (own_scope et input) (Some et)) in
      if evt_status (etv_event et) \<noteq> EventStatus.PUBLISHED then
        reject 403 ''event is not available for table holds'' ''event_not_published''
      else if evt_endsAt (etv_event et) \<le> serverNow then reject 403 ''event has ended'' ''event_ended''
      else if evt_visibility (etv_event et) \<noteq> EventVisibility.PUBLIC then
        reject 403 ''event is not customer facing'' ''event_not_customer_facing''
      else if org_status (etv_organizer et) \<noteq> OrganizerStatus.APPROVED then
        reject 403 ''organizer is not approved'' ''organizer_not_approved''
      else if vt_organizerId (etv_venueTable et) \<noteq> et_organizerId (etv_table et) then
        reject 409 ''venue table organizer mismatch'' ''venue_table_organizer_mismatch''
      else if evt_organizerId (etv_event et) \<noteq> et_organizerId (etv_table et) then
        reject 409 ''event organizer mismatch'' ''event_organizer_mismatch''
      else if vt_status (etv_venueTable et) \<noteq> VenueTableStatus.ACTIVE then
        reject 409 ''venue table is unavailable'' ''venue_table_unavailable''
      else if et_status (etv_table et) = UNAVAILABLE then
        reject 409 ''event table is unavailable'' ''event_table_unavailable''
      else ret ())"

record TableReservationResponseDto =
  trd_id :: string
  trd_eventId :: string
  trd_eventTableId :: string
  trd_venueTableId :: string
  trd_label :: string
  trd_floorSectionName :: "string option"
  trd_seatCount :: int
  trd_amountMinor :: int
  trd_currency :: string
  trd_status :: TableReservationStatus
  trd_holdExpiresAt :: int
  trd_cancelledAt :: "int option"
  trd_expiredAt :: "int option"

definition toReservationResponse :: "TableReservationView \<Rightarrow> TableReservationResponseDto" where
  "toReservationResponse v =
     (let r = trv_reservation v in
      \<lparr> trd_id = tr_id r, trd_eventId = tr_eventId r, trd_eventTableId = tr_eventTableId r,
        trd_venueTableId = vt_id (trv_venueTable v), trd_label = vt_label (trv_venueTable v),
        trd_floorSectionName = trv_floorSectionName v, trd_seatCount = vt_seatCount (trv_venueTable v),
        trd_amountMinor = tr_amountMinor r, trd_currency = tr_currency r, trd_status = tr_status r,
        trd_holdExpiresAt = tr_holdExpiresAt r, trd_cancelledAt = tr_cancelledAt r,
        trd_expiredAt = tr_expiredAt r \<rparr>)"

definition toHttpException :: "int \<Rightarrow> string \<Rightarrow> app_error" where
  "toHttpException statusCode message =
     (if statusCode = 403 then ForbiddenException message
      else if statusCode = 404 then NotFoundException message
      else ConflictException message)"

section \<open>Expiry and reconciliation\<close>

definition next_state :: "TableReservation option \<Rightarrow> EventTable \<Rightarrow> EventTableStatus \<times> int option" where
  "next_state activeHold state =
     (case activeHold of
        Some r \<Rightarrow> (EventTableStatus.HELD, Some (tr_holdExpiresAt r))
      | None \<Rightarrow>
          if et_status state = EventTableStatus.HELD then (AVAILABLE, None)
          else if et_holdExpiresAt state \<noteq> None then (et_status state, None)
          else (et_status state, et_holdExpiresAt state))"

definition reconcileEventTableStateWithinTx ::
  "string \<Rightarrow> int \<Rightarrow> EventTable option \<Rightarrow> (db, EventTableStatus \<times> int option) prog" where
  "reconcileEventTableStateWithinTx eventTableId serverNow currentState =
     bindp (case currentState of Some st \<Rightarrow> ret (Some st) | None \<Rightarrow> findEventTableState eventTableId) (\<lambda>found.
       case found of
         None \<Rightarrow> throw (NotFoundException ''event table not found'')
       | Some state \<Rightarrow>
           bindp (findLatestActiveHeldReservationForEventTable eventTableId serverNow) (\<lambda>activeHold.
             let (nextStatus, nextHoldExpiresAt) = next_state activeHold state in
             if nextStatus \<noteq> et_status state \<or> nextHoldExpiresAt \<noteq> et_holdExpiresAt state then
               seqp (updateEventTableState eventTableId nextStatus nextHoldExpiresAt)
                    (ret (nextStatus, nextHoldExpiresAt))
             else ret (nextStatus, nextHoldExpiresAt)))"

definition expireStaleHoldForEventTableWithinTx :: "string \<Rightarrow> int \<Rightarrow> (db, unit) prog" where
  "expireStaleHoldForEventTableWithinTx eventTableId serverNow =
     bindp (findEventTableState eventTableId) (\<lambda>found.
       case found of
         None \<Rightarrow> ret ()
       | Some state \<Rightarrow>
           bindp (findExpiredHeldByEventTable eventTableId serverNow) (\<lambda>expired.
           seqp (for_each (\<lambda>r. seqp (markExpired (tr_id r) serverNow) (ret ())) expired)
             (bindp (reconcileEventTableStateWithinTx eventTableId serverNow (Some state)) (\<lambda>nextState.
                for_each (\<lambda>r. logHoldExpired r serverNow (et_status state) (fst nextState)) expired))))"

section \<open>Taking a hold\<close>

definition new_hold :: "env \<Rightarrow> int \<Rightarrow> HoldTableInput \<Rightarrow> EventTable \<Rightarrow> TableReservation" where
  "new_hold E holdDurationSeconds input et =
     \<lparr> tr_id = uuid E 0, tr_actorUserId = hti_actorUserId input, tr_organizerId = et_organizerId et,
       tr_eventId = et_eventId et, tr_eventTableId = et_id et, tr_status = TableReservationStatus.HELD,
       tr_amountMinor = et_priceMinor et, tr_currency = et_currency et,
       tr_idempotencyUseCase = TABLE_HOLD_IDEMPOTENCY_USE_CASE,
       tr_idempotencyKeyHash = hashIdempotencyKey E (js_trim (hti_idempotencyKey input)),
       tr_requestFingerprintHash = buildHoldRequestFingerprintHash E (hti_eventId input) (hti_eventTableId input),
       tr_holdExpiresAt = app_now E + holdDurationSeconds * 1000, tr_cancelledAt = None, tr_expiredAt = None \<rparr>"

definition owned_or_missing :: "string \<Rightarrow> string \<Rightarrow> (db, TableReservationView) prog" where
  "owned_or_missing reservationId actorUserId =
     bindp (findOwnedReservation reservationId actorUserId) (\<lambda>found.
       case found of
         None \<Rightarrow> throw (NotFoundException ''table reservation not found'')
       | Some v \<Rightarrow> ret v)"

text \<open>The handler of a failed insert: it looks for the row of a concurrent request.\<close>

definition hold_clash ::
  "env \<Rightarrow> HoldTableInput \<Rightarrow> EventTableView \<Rightarrow> app_error \<Rightarrow> (db, TableReservationView) prog" where
  "hold_clash E input et error =
     (let keyHash = hashIdempotencyKey E (js_trim (hti_idempotencyKey input));
          conflict = rejectHold 409 ''idempotency key reused with different payload'' input (Some et) ''idempotency_conflict''
      in if error = PrismaClientKnownRequestError ''P2002'' then
           after_failed_statement E
             (bindp (findByActorAndIdempotency (hti_actorUserId input) TABLE_HOLD_IDEMPOTENCY_USE_CASE keyHash) (\<lambda>replay.
                case replay of
                  Some r \<Rightarrow>
                    if tr_requestFingerprintHash r = buildHoldRequestFingerprintHash E (hti_eventId input) (hti_eventTableId input)
                    then bindp (findOwnedReservation (tr_id r) (hti_actorUserId input)) (\<lambda>existing.
                           case existing of Some v \<Rightarrow> ret v | None \<Rightarrow> conflict)
                    else conflict
                | None \<Rightarrow> conflict))
         else throw error)"

definition hold_created :: "env \<Rightarrow> EventTableView \<Rightarrow> TableReservation \<Rightarrow> (db, TableReservationView) prog" where
  "hold_created E et created =
     seqp (updateEventTableState (et_id (etv_table et)) EventTableStatus.HELD (Some (tr_holdExpiresAt created)))
     (seqp (logHoldCreated (et_venueTableId (etv_table et)) created)
       (owned_or_missing (tr_id created) (tr_actorUserId created)))"

definition hold_fresh :: "env \<Rightarrow> int \<Rightarrow> HoldTableInput \<Rightarrow> EventTableView \<Rightarrow> (db, TableReservationView) prog" where
  "hold_fresh E holdDurationSeconds input et =
     seqp (expireStaleHoldForEventTableWithinTx (et_id (etv_table et)) (app_now E))
     (bindp (countActiveHeldReservationsForEventTable (et_id (etv_table et)) (app_now E)) (\<lambda>activeCount.
        if activeCount > 0 then
          rejectHold 409 ''table is already held'' input (Some et) ''table_already_held''
        else (\<lambda>s.
          case TableReservation_create (new_hold E holdDurationSeconds input (etv_table et)) s of
            (Inl error, s') \<Rightarrow> hold_clash E input et error s'
          | (Inr created, s') \<Rightarrow> hold_created E et created s')))"

definition hold_replay :: "env \<Rightarrow> HoldTableInput \<Rightarrow> EventTableView \<Rightarrow> TableReservation \<Rightarrow> (db, TableReservationView) prog" where
  "hold_replay E input et existing =
     (if tr_requestFingerprintHash existing \<noteq> buildHoldRequestFingerprintHash E (hti_eventId input) (hti_eventTableId input)
      then rejectHold 409 ''idempotency key reused with different payload'' input (Some et) ''idempotency_fingerprint_mismatch''
      else seqp (expireStaleHoldForEventTableWithinTx (et_id (etv_table et)) (app_now E))
             (owned_or_missing (tr_id existing) (hti_actorUserId input)))"

definition hold_tx :: "env \<Rightarrow> int \<Rightarrow> HoldTableInput \<Rightarrow> (db, TableReservationView) prog" where
  "hold_tx E holdDurationSeconds input =
     bindp (lockEventTableForUpdate (hti_eventTableId input)) (\<lambda>locked.
       case locked of
         None \<Rightarrow> rejectHold 404 ''event table not found'' input None ''event_table_not_found''
       | Some i \<Rightarrow>
           bindp (findLockedEventTableDetails (hti_eventTableId input)) (\<lambda>details.
             case details of
               None \<Rightarrow> rejectHold 404 ''event table not found'' input None ''event_table_not_found''
             | Some et \<Rightarrow>
                 if et_eventId (etv_table et) \<noteq> hti_eventId input then
                   rejectHold 404 ''event table not found'' input (Some et) ''event_table_not_found''
                 else
                   seqp (assertHoldEligible et input (app_now E))
                   (bindp (findByActorAndIdempotency (hti_actorUserId input) TABLE_HOLD_IDEMPOTENCY_USE_CASE
                             (hashIdempotencyKey E (js_trim (hti_idempotencyKey input)))) (\<lambda>existing.
                      case existing of
                        Some r \<Rightarrow> hold_replay E input et r
                      | None \<Rightarrow> hold_fresh E holdDurationSeconds input et))))"

text \<open>The handler around the transaction.\<close>

definition hold_failed :: "app_error \<Rightarrow> (db, 'a) prog" where
  "hold_failed error =
     (case error of
        HoldRejectionError n message actor ev et organizer venueTable reason \<Rightarrow>
          seqp (logReservationRejected actor organizer ev venueTable et reason)
               (throw (toHttpException n message))
      | _ \<Rightarrow> throw error)"

definition createHold ::
  "env \<Rightarrow> js_number option \<Rightarrow> HoldTableInput \<Rightarrow> (db, TableReservationResponseDto) prog" where
  "createHold E rawDuration input =
     (if js_trim (hti_idempotencyKey input) = [] then throw (BadRequestException ''idempotencyKey is required'')
      else catchp
        (bindp (runInTransaction (hold_tx E (resolveHoldDurationSeconds rawDuration) input))
           (\<lambda>v. ret (toReservationResponse v)))
        hold_failed)"

definition getOwnedReservation :: "env \<Rightarrow> string \<Rightarrow> string \<Rightarrow> (db, TableReservationResponseDto) prog" where
  "getOwnedReservation E reservationId actorUserId =
     bindp (runInTransaction
       (bindp (owned_or_missing reservationId actorUserId) (\<lambda>existing.
          let r = trv_reservation existing in
          seqp (if tr_status r = TableReservationStatus.HELD \<and> tr_holdExpiresAt r \<le> app_now E
                then expireStaleHoldForEventTableWithinTx (tr_eventTableId r) (app_now E)
                else seqp (reconcileEventTableStateWithinTx (tr_eventTableId r) (app_now E) None) (ret ()))
            (owned_or_missing reservationId actorUserId))))
       (\<lambda>v. ret (toReservationResponse v))"

section \<open>What the rows of tables and holds satisfy\<close>

text \<open>
  Everywhere: keys are unique, a hold is on an existing table, a table has at most one hold in status
  HELD, and a table in status HELD has one, with the table's expiry. At the instant \<open>t\<close>: a hold that
  has not expired shows in the state of its table. The tables in \<open>X\<close> are excepted while their holds
  have changed and their state is not reconciled yet.
\<close>

definition rows_ok_but :: "string set \<Rightarrow> int \<Rightarrow> TableReservation list \<Rightarrow> EventTable list \<Rightarrow> bool" where
  "rows_ok_but X t rs ets \<longleftrightarrow> distinct (map tr_id rs) \<and> distinct (map reservation_key rs) \<and>
     distinct (map et_id ets) \<and> (\<forall>r\<in>set rs. tr_eventTableId r \<in> et_id ` set ets) \<and>
     (\<forall>r\<in>set rs. \<forall>r'\<in>set rs. held_on (tr_eventTableId r') r \<and> held_on (tr_eventTableId r) r' \<longrightarrow> r = r') \<and>
     (\<forall>et\<in>set ets. et_id et \<notin> X \<and> et_status et = EventTableStatus.HELD \<longrightarrow>
        (\<exists>r\<in>set rs. held_on (et_id et) r \<and> et_holdExpiresAt et = Some (tr_holdExpiresAt r))) \<and>
     (\<forall>r\<in>set rs. \<forall>et\<in>set ets. et_id et \<notin> X \<and> active_on (et_id et) t r \<longrightarrow>
        et_status et = EventTableStatus.HELD \<and> et_holdExpiresAt et = Some (tr_holdExpiresAt r))"

abbreviation rows_ok :: "int \<Rightarrow> TableReservation list \<Rightarrow> EventTable list \<Rightarrow> bool" where
  "rows_ok \<equiv> rows_ok_but {}"

definition tables_ok :: "int \<Rightarrow> db \<Rightarrow> bool" where
  "tables_ok t s \<longleftrightarrow> rows_ok t (table_reservations s) (event_tables s)"

lemma active_mono: "active_on i now r \<Longrightarrow> t \<le> now \<Longrightarrow> active_on i t r"
  by (simp add: active_on_def)

lemma tables_ok_mono: "tables_ok t s \<Longrightarrow> t \<le> now \<Longrightarrow> tables_ok now s"
  by (auto simp: tables_ok_def rows_ok_but_def dest: active_mono)

lemma active_held: "active_on i t r \<Longrightarrow> held_on i r"
  by (simp add: active_on_def)

lemma held_same: "held_on i r \<Longrightarrow> held_on i r' \<Longrightarrow> held_on (tr_eventTableId r') r \<and> held_on (tr_eventTableId r) r'"
  by (simp add: held_on_def)

lemma rows_unique:
  "rows_ok_but X t rs ets \<Longrightarrow> r \<in> set rs \<Longrightarrow> r' \<in> set rs \<Longrightarrow> held_on i r \<Longrightarrow> held_on i r' \<Longrightarrow> r = r'"
  using held_same by (fastforce simp: rows_ok_but_def)

lemma et_ids_upd: "et_id ` set (upd_where p (set_state st instant) ets) = et_id ` set ets"
  by (simp add: set_map [symmetric] map_key_upd_where del: set_map)

text \<open>A change of the state of one table keeps the rows right when it is right for that table.\<close>

lemma rows_ok_set_state:
  assumes ok: "rows_ok_but X t rs ets" and X: "X \<subseteq> {i}"
    and held: "st = EventTableStatus.HELD \<Longrightarrow> \<exists>r\<in>set rs. held_on i r \<and> instant = Some (tr_holdExpiresAt r)"
    and active: "\<And>r. r \<in> set rs \<Longrightarrow> active_on i t r \<Longrightarrow> st = EventTableStatus.HELD \<and> instant = Some (tr_holdExpiresAt r)"
  shows "rows_ok t rs (upd_where (\<lambda>et. et_id et = i) (set_state st instant) ets)"
proof -
  have "distinct (map et_id (upd_where (\<lambda>et. et_id et = i) (set_state st instant) ets))"
    using ok by (simp add: map_key_upd_where rows_ok_but_def)
  moreover have "j \<notin> X" if "j \<noteq> i" for j using X that by blast
  ultimately show ?thesis
    using ok held active unfolding rows_ok_but_def et_ids_upd by (auto simp: set_upd_where)
qed

lemma next_state_ok:
  assumes ok: "rows_ok_but {i} t rs ets" and st: "st \<in> set ets" "et_id st = i" and now: "t \<le> now"
  shows "rows_ok now rs (upd_where (\<lambda>et. et_id et = i)
    (set_state (fst (next_state (latest_active i now rs) st)) (snd (next_state (latest_active i now rs) st))) ets)"
proof -
  have ok': "rows_ok_but {i} now rs ets"
    using ok now by (auto simp: rows_ok_but_def dest: active_mono)
  show ?thesis
  proof (cases "latest_active i now rs")
    case None
    then have "\<forall>r\<in>set rs. \<not> active_on i now r" by (simp add: latest_active_None)
    then show ?thesis
      unfolding None by (intro rows_ok_set_state [OF ok']) (auto simp: next_state_def split: if_splits)
  next
    case (Some r)
    note r = latest_active_Some [OF Some]
    show ?thesis
    proof (rule rows_ok_set_state [OF ok'])
      show "\<exists>r\<in>set rs. held_on i r \<and> snd (next_state (latest_active i now rs) st) = Some (tr_holdExpiresAt r)"
        using r by (intro bexI [of _ r]) (simp_all add: Some next_state_def active_on_def)
      fix r'
      assume "r' \<in> set rs" "active_on i now r'"
      then have "r' = r" using r rows_unique [OF ok', of r' r i] by (auto dest: active_held)
      then show "fst (next_state (latest_active i now rs) st) = EventTableStatus.HELD \<and>
          snd (next_state (latest_active i now rs) st) = Some (tr_holdExpiresAt r')"
        by (simp add: Some next_state_def)
    qed simp
  qed
qed

text \<open>Expiring the stale holds of a table leaves it excepted.\<close>

lemma tr_ids_upd: "map tr_id (upd_where p (expired_row now) rs) = map tr_id rs"
  "map reservation_key (upd_where p (expired_row now) rs) = map reservation_key rs"
  by (simp_all add: map_key_upd_where)

lemma held_expired [simp]: "\<not> held_on i (expired_row now r)" "\<not> active_on i t (expired_row now r)"
  by (simp_all add: held_on_def active_on_def)

lemma expire_rows_ok:
  assumes "rows_ok t rs ets"
  shows "rows_ok_but {i} t (upd_where (stale_on i now) (expired_row now) rs) ets"
proof -
  have keep: "r \<in> set (upd_where (stale_on i now) (expired_row now) rs)" if "r \<in> set rs" "held_on j r" "j \<noteq> i" for r j
    using that upd_where_mem [of r rs "stale_on i now" "expired_row now"]
    by (auto simp: stale_on_def held_on_def)
  have old: "r \<in> set rs" if "r \<in> set (upd_where (stale_on i now) (expired_row now) rs)" "held_on j r" for r j
    using that by (auto simp: set_upd_where split: if_splits)
  have "tr_eventTableId r \<in> et_id ` set ets" if "r \<in> set (upd_where (stale_on i now) (expired_row now) rs)" for r
    using that assms by (auto simp: set_upd_where rows_ok_but_def split: if_splits)
  moreover have "r = r'" if "r \<in> set (upd_where (stale_on i now) (expired_row now) rs)"
      "r' \<in> set (upd_where (stale_on i now) (expired_row now) rs)"
      "held_on (tr_eventTableId r') r" "held_on (tr_eventTableId r) r'" for r r'
    using that old [of r] old [of r'] assms by (auto simp: rows_ok_but_def)
  moreover have "\<exists>r\<in>set (upd_where (stale_on i now) (expired_row now) rs).
      held_on (et_id et) r \<and> et_holdExpiresAt et = Some (tr_holdExpiresAt r)"
    if "et \<in> set ets" "et_id et \<noteq> i" "et_status et = EventTableStatus.HELD" for et
    using assms that keep by (fastforce simp: rows_ok_but_def)
  moreover have "et_status et = EventTableStatus.HELD \<and> et_holdExpiresAt et = Some (tr_holdExpiresAt r)"
    if "et \<in> set ets" "r \<in> set (upd_where (stale_on i now) (expired_row now) rs)" "active_on (et_id et) t r" for et r
    using that old [OF that(2) active_held [OF that(3)]] assms by (auto simp: rows_ok_but_def)
  ultimately show ?thesis using assms unfolding rows_ok_but_def tr_ids_upd by auto
qed

section \<open>Running the expiry\<close>

lemma for_each_audit:
  "for_each (\<lambda>r. TableAudit_append (g r)) xs s = (Inr (), table_audit_logs_update (\<lambda>l. l @ map g xs) s)"
  by (induction xs arbitrary: s) (simp_all add: seqp_def bindp_def comp_def)

lemma for_each_markExpired:
  assumes "tr_id ` set xs \<subseteq> tr_id ` set (table_reservations s)"
  shows "for_each (\<lambda>r. seqp (markExpired (tr_id r) now) (ret ())) xs s =
    (Inr (), table_reservations_update (upd_where (\<lambda>r. tr_id r \<in> tr_id ` set xs) (expired_row now)) s)"
  using assms
proof (induction xs arbitrary: s)
  case Nil
  then show ?case by simp
next
  case (Cons x xs)
  let ?s1 = "table_reservations_update (upd_where (\<lambda>r. tr_id r = tr_id x) (expired_row now)) s"
  from Cons.prems have "tr_id x \<in> tr_id ` set (table_reservations s)" by auto
  then obtain r where "find (\<lambda>r. tr_id r = tr_id x) (table_reservations s) = Some r"
    using find_key_present [of "tr_id x" tr_id "table_reservations s"] by blast
  then have "markExpired (tr_id x) now s = (Inr (expired_row now r), ?s1)"
    by (simp add: markExpired_def prisma_update_run)
  moreover have "tr_id ` set xs \<subseteq> tr_id ` set (table_reservations ?s1)"
    using Cons.prems by (simp add: set_map [symmetric] tr_ids_upd del: set_map)
  note Cons.IH [OF this]
  moreover have "upd_where (\<lambda>r. tr_id r \<in> tr_id ` set xs) (expired_row now)
      (upd_where (\<lambda>r. tr_id r = tr_id x) (expired_row now) rs) =
      upd_where (\<lambda>r. tr_id r \<in> tr_id ` set (x # xs)) (expired_row now) rs" for rs
    by (subst upd_where_upd_where) (auto simp: expired_row_def intro: upd_where_cong)
  ultimately show ?case by (simp add: seqp_def bindp_def comp_def)
qed

lemma event_tables_update_id: "f (event_tables s) = event_tables s \<Longrightarrow> event_tables_update f s = s"
  by (cases s) simp

lemma reconcile_run:
  fixes now :: int
  assumes "find (\<lambda>et. et_id et = i) (event_tables s) = Some st" and "distinct (map et_id (event_tables s))"
    and "v = None \<or> v = Some st"
  defines "n \<equiv> next_state (latest_active i now (table_reservations s)) st"
  shows "reconcileEventTableStateWithinTx i now v s =
    (Inr n, event_tables_update (upd_where (\<lambda>et. et_id et = i) (set_state (fst n) (snd n))) s)"
proof -
  note st = find_Some_iff2 [OF assms(1)]
  have eq: "et = st" if "et \<in> set (event_tables s)" "et_id et = i" for et
    using that st assms(2) by (auto dest: distinct_key_unique)
  have id: "event_tables_update (upd_where (\<lambda>et. et_id et = i) (set_state (et_status st) (et_holdExpiresAt st))) s = s"
  proof -
    have "upd_where (\<lambda>et. et_id et = i) (set_state (et_status st) (et_holdExpiresAt st)) (event_tables s) = event_tables s"
      unfolding upd_where_def
    proof (rule map_idI)
      fix et
      assume "et \<in> set (event_tables s)"
      with eq [of et] show "(if et_id et = i then set_state (et_status st) (et_holdExpiresAt st) et else et) = et"
        by (cases "et_id et = i") (simp_all add: set_state_def)
    qed
    then show ?thesis by (rule event_tables_update_id)
  qed
  have upd: "updateEventTableState i a b s =
      (Inr (set_state a b st), event_tables_update (upd_where (\<lambda>et. et_id et = i) (set_state a b)) s)" for a b
    using assms(1) by (simp add: updateEventTableState_def prisma_update_run)
  have "reconcileEventTableStateWithinTx i now v s =
      (if fst n \<noteq> et_status st \<or> snd n \<noteq> et_holdExpiresAt st
       then seqp (updateEventTableState i (fst n) (snd n)) (ret n) s else (Inr n, s))"
    using assms(1,3) by (elim disjE) (simp_all add: reconcileEventTableStateWithinTx_def bindp_def n_def split_beta Let_def prod_eq_iff)
  then show ?thesis
    using id by (cases "fst n \<noteq> et_status st \<or> snd n \<noteq> et_holdExpiresAt st") (simp_all add: seqp_def bindp_def upd)
qed

lemma expire_run:
  fixes now :: int
  assumes st: "find (\<lambda>et. et_id et = i) (event_tables s) = Some st"
    and d: "distinct (map et_id (event_tables s))" "distinct (map tr_id (table_reservations s))"
  defines "rs \<equiv> upd_where (stale_on i now) (expired_row now) (table_reservations s)"
  defines "n \<equiv> next_state (latest_active i now rs) st"
  shows "\<exists>new. expireStaleHoldForEventTableWithinTx i now s = (Inr (), table_audit_logs_update (\<lambda>l. l @ new)
    (event_tables_update (upd_where (\<lambda>et. et_id et = i) (set_state (fst n) (snd n)))
      (table_reservations_update (\<lambda>_. rs) s)))"
proof -
  define xs where "xs = sort_key tr_holdExpiresAt (filter (stale_on i now) (table_reservations s))"
  have xs: "set xs = {r \<in> set (table_reservations s). stale_on i now r}" by (simp add: xs_def)
  have rs: "upd_where (\<lambda>r. tr_id r \<in> tr_id ` set xs) (expired_row now) (table_reservations s) = rs"
    unfolding rs_def by (rule upd_where_cong) (use d(2) in \<open>auto simp: xs dest: distinct_key_unique\<close>)
  have tx: "table_reservations_update (upd_where (\<lambda>r. tr_id r \<in> tr_id ` set xs) (expired_row now)) s =
      table_reservations_update (\<lambda>_. rs) s"
    using rs by (cases s) simp
  have mark: "for_each (\<lambda>r. seqp (markExpired (tr_id r) now) (ret ())) xs s = (Inr (), table_reservations_update (\<lambda>_. rs) s)"
    using for_each_markExpired [of xs s now, unfolded tx] xs by (simp add: image_mono)
  have rec: "reconcileEventTableStateWithinTx i now (Some st) (table_reservations_update (\<lambda>_. rs) s) = (Inr n,
      event_tables_update (upd_where (\<lambda>et. et_id et = i) (set_state (fst n) (snd n))) (table_reservations_update (\<lambda>_. rs) s))"
    using reconcile_run [where s = "table_reservations_update (\<lambda>_. rs) s" and i = i and st = st and v = "Some st" and now = now] st d(1)
    by (simp add: n_def)
  show ?thesis
    unfolding expireStaleHoldForEventTableWithinTx_def logHoldExpired_def
    by (simp add: bindp_def seqp_def st xs_def [symmetric] mark [unfolded seqp_def bindp_def] rec for_each_audit) blast
qed

lemma expire_missing:
  "find (\<lambda>et. et_id et = i) (event_tables s) = None \<Longrightarrow> expireStaleHoldForEventTableWithinTx i now s = (Inr (), s)"
  by (simp add: expireStaleHoldForEventTableWithinTx_def bindp_def)

lemma tables_ok_parts:
  "tables_ok t s \<Longrightarrow> distinct (map et_id (event_tables s))" "tables_ok t s \<Longrightarrow> distinct (map tr_id (table_reservations s))"
  by (simp_all add: tables_ok_def rows_ok_but_def)

lemma expire_tables_ok:
  assumes "tables_ok now s" and "expireStaleHoldForEventTableWithinTx i now s = (r, s')"
  shows "tables_ok now s' \<and> r = Inr () \<and> map et_id (event_tables s') = map et_id (event_tables s) \<and> (\<forall>r\<in>set (table_reservations s'). held_on i r \<longrightarrow> active_on i now r \<or>
    i \<notin> et_id ` set (event_tables s))"
proof (cases "find (\<lambda>et. et_id et = i) (event_tables s)")
  case None
  then show ?thesis using assms by (auto simp: expire_missing find_None_list_ex list_ex_iff)
next
  case (Some st)
  note st = find_Some_iff2 [OF Some]
  let ?rs = "upd_where (stale_on i now) (expired_row now) (table_reservations s)"
  from expire_run [OF Some tables_ok_parts [OF assms(1)], of now] assms(2)
  have "table_reservations s' = ?rs" and "r = Inr ()" and
    "event_tables s' = upd_where (\<lambda>et. et_id et = i) (set_state (fst (next_state (latest_active i now ?rs) st))
       (snd (next_state (latest_active i now ?rs) st))) (event_tables s)"
    by auto
  moreover have "rows_ok_but {i} now ?rs (event_tables s)"
    using assms(1) by (auto simp: tables_ok_def intro: expire_rows_ok)
  note next_state_ok [OF this, of st now]
  moreover have "\<forall>r\<in>set ?rs. held_on i r \<longrightarrow> active_on i now r"
    by (auto simp: set_upd_where stale_on_def active_on_def)
  ultimately show ?thesis using st by (auto simp: tables_ok_def map_key_upd_where)
qed

lemma keeps_expire: "keeps (tables_ok now) (expireStaleHoldForEventTableWithinTx i now)"
  by (rule keepsI) (blast dest: expire_tables_ok)

lemma keeps_reconcile: "keeps (tables_ok now) (reconcileEventTableStateWithinTx i now None)"
proof (rule keepsI)
  fix s r s'
  assume ok: "tables_ok now s" and run: "reconcileEventTableStateWithinTx i now None s = (r, s')"
  show "tables_ok now s'"
  proof (cases "find (\<lambda>et. et_id et = i) (event_tables s)")
    case None
    with ok run show ?thesis by (simp add: reconcileEventTableStateWithinTx_def bindp_def)
  next
    case (Some st)
    have "rows_ok_but {i} now (table_reservations s) (event_tables s)"
      using ok by (auto simp: tables_ok_def rows_ok_but_def)
    from next_state_ok [OF this, of st now] find_Some_iff2 [OF Some] run
      reconcile_run [OF Some tables_ok_parts(1) [OF ok], of None now]
    show ?thesis by (auto simp: tables_ok_def)
  qed
qed

text \<open>The audit trail is no part of what the rows satisfy.\<close>

lemma keeps_table_audit: "keeps (tables_ok t) (TableAudit_append row)"
  by (rule keepsI) (auto simp: tables_ok_def)

lemma keeps_table_reads:
  "keeps I (lockEventTableForUpdate i)" "keeps I (findLockedEventTableDetails i)" "keeps I (findOwnedReservation i a)"
  "keeps I (findByActorAndIdempotency a u k)" "keeps I (countActiveHeldReservationsForEventTable i now)"
  "keeps I (findOwnedEventTable i a)" "keeps I (findCustomerEventScope i)" "keeps I (listEventTablesForAvailability i)"
  "keeps I (lockEventTablesForEventForUpdate i)" "keeps I (findVenueTableByOrganizer i a)" "keeps I (findVenueTableById i)"
  "keeps I (findFloorSectionByOrganizer i a)"
  by (simp_all add: keeps_def findOwnedReservation_def findOwnedEventTable_def findCustomerEventScope_def
      listEventTablesForAvailability_def lockEventTablesForEventForUpdate_def findVenueTableByOrganizer_def
      findVenueTableById_def findFloorSectionByOrganizer_def)

lemma keeps_rejectHold: "keeps I (rejectHold n m input et reason)"
  by (simp add: rejectHold_def keeps_throw)

lemma keeps_eligible: "keeps I (assertHoldEligible et input now)"
  unfolding assertHoldEligible_def Let_def by (intro keeps_rules keeps_rejectHold)

lemma keeps_owned: "keeps I (owned_or_missing i a)"
  unfolding owned_or_missing_def by (intro keeps_rules keeps_table_reads)

lemmas table_keeps = keeps_expire keeps_reconcile keeps_table_audit keeps_table_reads keeps_rejectHold keeps_eligible keeps_owned

section \<open>The handlers keep it\<close>

lemma add_hold_ok:
  assumes ok: "rows_ok t rs ets" and free: "\<forall>r\<in>set rs. \<not> held_on i r" and h: "held_on i h" "i \<in> et_id ` set ets"
    and new: "tr_id h \<notin> tr_id ` set rs" "reservation_key h \<notin> reservation_key ` set rs"
  shows "rows_ok t (rs @ [h])
    (upd_where (\<lambda>et. et_id et = i) (set_state EventTableStatus.HELD (Some (tr_holdExpiresAt h))) ets)"
proof (rule rows_ok_set_state)
  have eq: "r = h" if "r \<in> set (rs @ [h])" "held_on (tr_eventTableId h) r" for r
    using that free h(1) by (auto simp: held_on_def)
  have "r = r'" if rr: "r \<in> set (rs @ [h])" "r' \<in> set (rs @ [h])" "held_on (tr_eventTableId r') r" "held_on (tr_eventTableId r) r'" for r r'
  proof (cases "r = h \<or> r' = h")
    case True
    then show ?thesis using rr eq [of r] eq [of r'] by auto
  next
    case False
    then show ?thesis using rr ok by (auto simp: rows_ok_but_def)
  qed
  moreover have "tr_eventTableId r \<in> et_id ` set ets" if "r \<in> set (rs @ [h])" for r
    using that ok h by (auto simp: rows_ok_but_def held_on_def)
  moreover have "\<exists>r\<in>set (rs @ [h]). held_on (et_id et) r \<and> et_holdExpiresAt et = Some (tr_holdExpiresAt r)"
    if "et \<in> set ets" "et_status et = EventTableStatus.HELD" for et
    using that ok by (auto simp: rows_ok_but_def)
  moreover have "et_status et = EventTableStatus.HELD \<and> et_holdExpiresAt et = Some (tr_holdExpiresAt r)"
    if "et \<in> set ets" "r \<in> set (rs @ [h])" "et_id et \<noteq> i" "active_on (et_id et) t r" for et r
    using that ok h(1) by (auto simp: rows_ok_but_def active_on_def held_on_def)
  moreover have "distinct (map tr_id (rs @ [h]))" "distinct (map reservation_key (rs @ [h]))" "distinct (map et_id ets)"
    using ok new by (simp_all add: rows_ok_but_def)
  ultimately show "rows_ok_but {i} t (rs @ [h]) ets"
    unfolding rows_ok_but_def by blast
  show "\<exists>r\<in>set (rs @ [h]). held_on i r \<and> Some (tr_holdExpiresAt h) = Some (tr_holdExpiresAt r)"
    using h by auto
  show "EventTableStatus.HELD = EventTableStatus.HELD \<and> Some (tr_holdExpiresAt h) = Some (tr_holdExpiresAt r)"
    if "r \<in> set (rs @ [h])" "active_on i t r" for r
    using that free by (auto dest: active_held)
qed simp

lemma new_hold_fields [simp]:
  "tr_id (new_hold E d input et) = uuid E 0" "tr_eventTableId (new_hold E d input et) = et_id et"
  "tr_actorUserId (new_hold E d input et) = hti_actorUserId input"
  "held_on i (new_hold E d input et) \<longleftrightarrow> et_id et = i"
  "tr_holdExpiresAt (new_hold E d input et) = app_now E + d * 1000"
  by (auto simp: new_hold_def held_on_def)

lemma owned_or_missing_state: "owned_or_missing i a s = (r, s') \<Longrightarrow> s' = s"
  by (auto simp: owned_or_missing_def findOwnedReservation_def bindp_def split: option.splits)

lemma hold_clash_state: "hold_clash E input et error s = (r, s') \<Longrightarrow> s' = s"
  by (auto simp: hold_clash_def Let_def after_failed_statement_def rejectHold_def findOwnedReservation_def bindp_def
      split: if_splits option.splits)

text \<open>What the statements after a successful insert do.\<close>

lemma hold_created_state:
  assumes "hold_created E et h s = (r, s')" and "et_id (etv_table et) \<in> et_id ` set (event_tables s)"
  shows "\<exists>row. s' = table_audit_logs_update (\<lambda>l. l @ [row]) (event_tables_update
    (upd_where (\<lambda>x. et_id x = et_id (etv_table et)) (set_state EventTableStatus.HELD (Some (tr_holdExpiresAt h)))) s)"
proof -
  from assms(2) obtain x where "find (\<lambda>x. et_id x = et_id (etv_table et)) (event_tables s) = Some x"
    using find_key_present [of "et_id (etv_table et)" et_id "event_tables s"] by blast
  with assms(1) show ?thesis
    by (auto simp: hold_created_def logHoldCreated_def seqp_def bindp_def updateEventTableState_def prisma_update_run
        dest!: owned_or_missing_state)
qed

lemma hold_fresh_ok:
  assumes ok: "tables_ok (app_now E) s" and i: "et_id (etv_table et) \<in> et_id ` set (event_tables s)"
    and run: "hold_fresh E d input et s = (r, s')"
  shows "tables_ok (app_now E) s'"
proof -
  define i where "i = et_id (etv_table et)"
  define h where "h = new_hold E d input (etv_table et)"
  obtain r1 s1 where e: "expireStaleHoldForEventTableWithinTx i (app_now E) s = (r1, s1)" by fastforce
  note x = expire_tables_ok [OF ok e]
  from x have "set (map et_id (event_tables s1)) = set (map et_id (event_tables s))" by simp
  with i have i1: "i \<in> et_id ` set (event_tables s1)" by (simp add: i_def)
  have run: "(if length (filter (active_on i (app_now E)) (table_reservations s1)) > 0
      then rejectHold 409 ''table is already held'' input (Some et) ''table_already_held'' s1
      else case TableReservation_create h s1 of
            (Inl error, s2) \<Rightarrow> hold_clash E input et error s2
          | (Inr created, s2) \<Rightarrow> hold_created E et created s2) = (r, s')"
    using run x by (auto simp: hold_fresh_def seqp_def bindp_def e [unfolded i_def] i_def h_def split: if_splits)
  show ?thesis
  proof (cases "filter (active_on i (app_now E)) (table_reservations s1) = []")
    case False
    with run x show ?thesis by (auto simp: rejectHold_def)
  next
    case True
    then have free: "\<forall>r\<in>set (table_reservations s1). \<not> held_on i r"
      using x i by (auto simp: filter_empty_conv i_def)
    show ?thesis
    proof (cases "list_ex (table_reservation_clash h) (table_reservations s1)")
      case True
      with run x \<open>filter _ _ = []\<close> show ?thesis
        by (auto simp: TableReservation_create_def prisma_create_def dest!: hold_clash_state)
    next
      case False
      then have new: "tr_id h \<notin> tr_id ` set (table_reservations s1)"
        "reservation_key h \<notin> reservation_key ` set (table_reservations s1)"
        by (auto simp: list_ex_iff table_reservation_clash_def)
      from run True False have "hold_created E et h (table_reservations_update (\<lambda>rs. rs @ [h]) s1) = (r, s')"
        by (simp add: TableReservation_create_def prisma_create_run)
      then obtain row where s': "s' = table_audit_logs_update (\<lambda>l. l @ [row]) (event_tables_update
          (upd_where (\<lambda>x. et_id x = i) (set_state EventTableStatus.HELD (Some (tr_holdExpiresAt h))))
          (table_reservations_update (\<lambda>rs. rs @ [h]) s1))"
        using hold_created_state [of E et h "table_reservations_update (\<lambda>rs. rs @ [h]) s1"] i1 by (auto simp: i_def)
      have "held_on i h" by (simp add: h_def i_def)
      from add_hold_ok [OF _ free this i1 new, of "app_now E"] x show ?thesis
        by (simp add: s' tables_ok_def)
    qed
  qed
qed

lemma event_table_view_row: "event_table_view s et = Some v \<Longrightarrow> etv_table v = et"
  by (auto simp: event_table_view_def split: option.splits)

lemma keeps_hold_tx: "keeps (tables_ok (app_now E)) (hold_tx E d input)"
proof (rule keepsI)
  fix s r s'
  assume ok: "tables_ok (app_now E) s" and run: "hold_tx E d input s = (r, s')"
  show "tables_ok (app_now E) s'"
  proof (cases "Option.bind (find (\<lambda>et. et_id et = hti_eventTableId input) (event_tables s)) (event_table_view s)")
    case None
    with ok run show ?thesis
      by (cases "find (\<lambda>et. et_id et = hti_eventTableId input) (event_tables s)")
        (simp_all add: hold_tx_def bindp_def rejectHold_def)
  next
    case (Some et)
    then obtain row where row: "find (\<lambda>et. et_id et = hti_eventTableId input) (event_tables s) = Some row"
      "event_table_view s row = Some et" by (auto simp: bind_eq_Some_conv)
    then have i: "et_id (etv_table et) \<in> et_id ` set (event_tables s)"
      by (auto dest!: find_Some_iff2 simp: event_table_view_row)
    have replay: "keeps (tables_ok (app_now E)) (hold_replay E input et x)" for x
      unfolding hold_replay_def by (intro keeps_rules table_keeps)
    have elig: "\<exists>v. assertHoldEligible et input (app_now E) s = (v, s)"
      by (simp add: assertHoldEligible_def Let_def rejectHold_def)
    from run row ok i elig show ?thesis
      by (auto simp: hold_tx_def bindp_def seqp_def rejectHold_def split: if_splits sum.splits option.splits
          dest: hold_fresh_ok keepsD [OF replay])
  qed
qed

lemma keeps_hold_failed: "keeps (tables_ok t) (hold_failed error)"
  by (cases error) (auto simp: hold_failed_def logReservationRejected_def intro!: keeps_seqp keeps_throw keeps_table_audit)

lemma keeps_createHold: "keeps (tables_ok (app_now E)) (createHold E raw input)"
  unfolding createHold_def by (intro keeps_rules keeps_hold_tx keeps_hold_failed)

lemma keeps_getOwnedReservation: "keeps (tables_ok (app_now E)) (getOwnedReservation E i a)"
  unfolding getOwnedReservation_def Let_def by (intro keeps_rules table_keeps)

section \<open>The outcome of a request\<close>

definition hold_allowed :: "EventTableView \<Rightarrow> int \<Rightarrow> bool" where
  "hold_allowed et now \<longleftrightarrow> evt_status (etv_event et) = EventStatus.PUBLISHED \<and> now < evt_endsAt (etv_event et) \<and>
     evt_visibility (etv_event et) = EventVisibility.PUBLIC \<and> org_status (etv_organizer et) = OrganizerStatus.APPROVED \<and>
     vt_organizerId (etv_venueTable et) = et_organizerId (etv_table et) \<and>
     evt_organizerId (etv_event et) = et_organizerId (etv_table et) \<and>
     vt_status (etv_venueTable et) = VenueTableStatus.ACTIVE \<and> et_status (etv_table et) \<noteq> UNAVAILABLE"

lemma eligible_run: "hold_allowed et now \<Longrightarrow> assertHoldEligible et input now = ret ()"
  by (simp add: assertHoldEligible_def hold_allowed_def Let_def not_le)

lemma resolveHoldDuration_bounds: "60 \<le> resolveHoldDurationSeconds raw" "resolveHoldDurationSeconds raw \<le> 1800"
  by (auto simp: resolveHoldDurationSeconds_def split: option.splits js_number.splits)

lemma active_after_expiry:
  "filter (active_on i now) (upd_where (stale_on i now) (expired_row now) rs) = filter (active_on i now) rs"
  by (induction rs) (auto simp: stale_on_def active_on_def)

definition requested_table :: "HoldTableInput \<Rightarrow> db \<Rightarrow> EventTableView option" where
  "requested_table input s =
     Option.bind (find (\<lambda>et. et_id et = hti_eventTableId input) (event_tables s)) (event_table_view s)"

definition hold_key :: "env \<Rightarrow> HoldTableInput \<Rightarrow> string \<times> string \<times> string" where
  "hold_key E input = (hti_actorUserId input, TABLE_HOLD_IDEMPOTENCY_USE_CASE,
     hashIdempotencyKey E (js_trim (hti_idempotencyKey input)))"

text \<open>A request that is new, for a table that can be held.\<close>

definition fresh_request :: "env \<Rightarrow> HoldTableInput \<Rightarrow> EventTableView \<Rightarrow> db \<Rightarrow> bool" where
  "fresh_request E input et s \<longleftrightarrow> js_trim (hti_idempotencyKey input) \<noteq> [] \<and> requested_table input s = Some et \<and>
     et_eventId (etv_table et) = hti_eventId input \<and> hold_allowed et (app_now E) \<and>
     hold_key E input \<notin> reservation_key ` set (table_reservations s) \<and> uuid E 0 \<notin> tr_id ` set (table_reservations s)"

lemma requested_row:
  assumes "requested_table input s = Some et"
  shows "find (\<lambda>x. et_id x = hti_eventTableId input) (event_tables s) = Some (etv_table et)"
    "event_table_view s (etv_table et) = Some et" "et_id (etv_table et) = hti_eventTableId input"
  using assms by (auto simp: requested_table_def bind_eq_Some_conv event_table_view_row dest: find_Some_iff2)

lemma fresh_tx:
  assumes "fresh_request E input et s"
  shows "hold_tx E d input s = hold_fresh E d input et s"
proof -
  note et = requested_row [of input s et]
  have "find (\<lambda>r. reservation_key r = hold_key E input) (table_reservations s) = None"
    using assms by (intro find_key_absent) (simp add: fresh_request_def)
  with assms et show ?thesis
    by (simp add: hold_tx_def fresh_request_def bindp_def seqp_def eligible_run hold_key_def)
qed

lemma hold_view:
  assumes "event_table_view s et = Some v" and "find (\<lambda>x. et_id x = et_id et) (event_tables s') = Some (set_state st instant et)"
    and "venue_tables s' = venue_tables s" and "tr_eventTableId h = et_id et"
  shows "\<exists>f. reservation_view s' h = Some \<lparr> trv_reservation = h, trv_venueTable = etv_venueTable v, trv_floorSectionName = f \<rparr>"
  using assms by (auto simp: event_table_view_def reservation_view_def split: option.splits)

lemma hold_fresh_held:
  assumes ok: "tables_ok (app_now E) s" and row: "find (\<lambda>x. et_id x = et_id (etv_table et)) (event_tables s) = Some (etv_table et)"
    and active: "filter (active_on (et_id (etv_table et)) (app_now E)) (table_reservations s) \<noteq> []"
  shows "\<exists>s'. hold_fresh E d input et s = rejectHold 409 ''table is already held'' input (Some et) ''table_already_held'' s'"
proof -
  from expire_run [OF row tables_ok_parts [OF ok], of "app_now E"] active show ?thesis
    by (auto simp: hold_fresh_def seqp_def bindp_def active_after_expiry)
qed

lemma hold_fresh_free:
  fixes d :: int
  assumes ok: "tables_ok (app_now E) s" and fr: "fresh_request E input et s"
    and free: "filter (active_on (hti_eventTableId input) (app_now E)) (table_reservations s) = []"
  defines "h \<equiv> new_hold E d input (etv_table et)"
  shows "\<exists>s' f. hold_fresh E d input et s = (Inr \<lparr> trv_reservation = h, trv_venueTable = etv_venueTable et,
      trv_floorSectionName = f \<rparr>, s') \<and>
    filter (held_on (hti_eventTableId input)) (table_reservations s') = [h] \<and>
    find (\<lambda>x. et_id x = hti_eventTableId input) (event_tables s') =
      Some (set_state EventTableStatus.HELD (Some (tr_holdExpiresAt h)) (etv_table et))"
proof -
  define i where "i = hti_eventTableId input"
  define rs where "rs = upd_where (stale_on i (app_now E)) (expired_row (app_now E)) (table_reservations s)"
  have req: "requested_table input s = Some et" using fr by (simp add: fresh_request_def)
  note row = requested_row [OF req, folded i_def]
  from expire_run [OF row(1) tables_ok_parts [OF ok], of "app_now E", folded rs_def] obtain s1 st instant where
    e: "expireStaleHoldForEventTableWithinTx i (app_now E) s = (Inr (), s1)" and rs1: "table_reservations s1 = rs" and
    et1: "event_tables s1 = upd_where (\<lambda>et. et_id et = i) (set_state st instant) (event_tables s)" and
    vt1: "venue_tables s1 = venue_tables s"
    by auto
  have act: "filter (active_on i (app_now E)) rs = []"
    using free by (simp add: rs_def active_after_expiry i_def)
  have nh: "filter (held_on i) rs = []"
    using act by (auto simp: filter_empty_conv rs_def set_upd_where stale_on_def active_on_def split: if_splits)
  have "\<not> list_ex (table_reservation_clash h) rs"
  proof -
    have "tr_id h \<notin> set (map tr_id rs)" "reservation_key h \<notin> set (map reservation_key rs)"
      unfolding rs_def tr_ids_upd using fr
      by (simp_all add: fresh_request_def h_def hold_key_def reservation_key_def new_hold_def)
    then show ?thesis by (auto simp: list_ex_iff table_reservation_clash_def)
  qed
  then have c: "TableReservation_create h s1 = (Inr h, table_reservations_update (\<lambda>rs. rs @ [h]) s1)"
    by (simp add: TableReservation_create_def prisma_create_run rs1)
  define s2 where "s2 = event_tables_update (upd_where (\<lambda>et. et_id et = i) (set_state EventTableStatus.HELD
    (Some (tr_holdExpiresAt h)))) (table_reservations_update (\<lambda>rs. rs @ [h]) s1)"
  have f1: "find (\<lambda>x. et_id x = i) (event_tables s1) = Some (set_state st instant (etv_table et))"
    using row(1) by (simp add: et1 find_upd_where_key)
  have u: "updateEventTableState i EventTableStatus.HELD (Some (tr_holdExpiresAt h))
      (table_reservations_update (\<lambda>rs. rs @ [h]) s1) =
      (Inr (set_state EventTableStatus.HELD (Some (tr_holdExpiresAt h)) (etv_table et)), s2)"
    using f1 by (simp add: updateEventTableState_def prisma_update_run s2_def) (simp add: set_state_def)
  have f2: "find (\<lambda>x. et_id x = i) (event_tables s2) =
      Some (set_state EventTableStatus.HELD (Some (tr_holdExpiresAt h)) (etv_table et))"
    using f1 by (simp add: s2_def find_upd_where_key) (simp add: set_state_def)
  have rs2: "table_reservations s2 = rs @ [h]" by (simp add: s2_def rs1)
  define s3 where "s3 = snd (logHoldCreated (et_venueTableId (etv_table et)) h s2)"
  have l: "logHoldCreated (et_venueTableId (etv_table et)) h s2 = (Inr (), s3)"
    and s3: "table_reservations s3 = rs @ [h]" "event_tables s3 = event_tables s2" "venue_tables s3 = venue_tables s"
    by (simp_all add: s3_def logHoldCreated_def rs2) (simp add: s2_def vt1)
  have "find (\<lambda>r. tr_id r = tr_id h \<and> tr_actorUserId r = tr_actorUserId h) (rs @ [h]) = Some h"
  proof -
    have "tr_id h \<notin> set (map tr_id rs)" unfolding rs_def tr_ids_upd using fr by (simp add: fresh_request_def h_def)
    then have "find (\<lambda>r. tr_id r = tr_id h \<and> tr_actorUserId r = tr_actorUserId h) rs = None"
      unfolding find_None_list_ex list_ex_iff set_map by (metis imageI)
    then show ?thesis by (simp add: find_append)
  qed
  moreover obtain f where "reservation_view s3 h =
      Some \<lparr> trv_reservation = h, trv_venueTable = etv_venueTable et, trv_floorSectionName = f \<rparr>"
    using hold_view [OF row(2), of s3 EventTableStatus.HELD "Some (tr_holdExpiresAt h)" h] f2 s3 row(3)
    by (auto simp: h_def)
  ultimately have o': "owned_or_missing (tr_id h) (tr_actorUserId h) s3 =
      (Inr \<lparr> trv_reservation = h, trv_venueTable = etv_venueTable et, trv_floorSectionName = f \<rparr>, s3)"
    by (simp add: owned_or_missing_def findOwnedReservation_def bindp_def s3)
  have "hold_created E et h (table_reservations_update (\<lambda>rs. rs @ [h]) s1) =
      (Inr \<lparr> trv_reservation = h, trv_venueTable = etv_venueTable et, trv_floorSectionName = f \<rparr>, s3)"
    by (simp add: hold_created_def seqp_def bindp_def row(3) u l o')
  then have "hold_fresh E d input et s =
      (Inr \<lparr> trv_reservation = h, trv_venueTable = etv_venueTable et, trv_floorSectionName = f \<rparr>, s3)"
    by (simp add: hold_fresh_def seqp_def bindp_def row(3) e rs1 act c h_def [symmetric])
  then show ?thesis using nh s3 f2 row(3) by (auto simp: i_def [symmetric] h_def)
qed

section \<open>Properties\<close>

text \<open>
  C28: A new request for a table that can be held is granted exactly when no hold on it is running. A
  grant is the only hold left in status HELD on the table, is priced as the table, expires between
  one and thirty minutes from now, and the table shows it; a refusal is a conflict that leaves one
  audit row and nothing else.
\<close>

theorem hold_decision:
  assumes "tables_ok t s" and "t \<le> app_now E" and "fresh_request E input et s"
  shows "if list_ex (active_on (hti_eventTableId input) (app_now E)) (table_reservations s)
    then createHold E raw input s = (Inl (ConflictException ''table is already held''),
      table_audit_logs_update (\<lambda>l. l @ [rejection_row (hti_actorUserId input) (Some (et_organizerId (etv_table et)))
        (hti_eventId input) (Some (et_venueTableId (etv_table et))) (hti_eventTableId input) ''table_already_held'']) s)
    else \<exists>r s' h. createHold E raw input s = (Inr r, s') \<and>
      filter (held_on (hti_eventTableId input)) (table_reservations s') = [h] \<and> tr_id h = trd_id r \<and>
      tr_actorUserId h = hti_actorUserId input \<and> trd_amountMinor r = et_priceMinor (etv_table et) \<and>
      trd_currency r = et_currency (etv_table et) \<and> trd_holdExpiresAt r = tr_holdExpiresAt h \<and>
      app_now E + 60000 \<le> trd_holdExpiresAt r \<and> trd_holdExpiresAt r \<le> app_now E + 1800000 \<and>
      map_option et_holdExpiresAt (find (\<lambda>x. et_id x = hti_eventTableId input) (event_tables s')) =
        Some (Some (trd_holdExpiresAt r))"
proof -
  let ?d = "resolveHoldDurationSeconds raw"
  have ok: "tables_ok (app_now E) s" using assms(1,2) by (rule tables_ok_mono)
  have key: "js_trim (hti_idempotencyKey input) \<noteq> []" and req: "requested_table input s = Some et"
    using assms(3) by (simp_all add: fresh_request_def)
  note row = requested_row [OF req] and tx = fresh_tx [OF assms(3)]
  show ?thesis
  proof (cases "filter (active_on (hti_eventTableId input) (app_now E)) (table_reservations s) = []")
    case True
    from hold_fresh_free [OF ok assms(3) True, of ?d] resolveHoldDuration_bounds [of raw] True show ?thesis
      by (auto simp: createHold_def key catchp_def bindp_def runInTransaction_def tx toReservationResponse_def
          new_hold_def list_ex_iff filter_empty_conv)
  next
    case False
    then have "list_ex (active_on (hti_eventTableId input) (app_now E)) (table_reservations s)"
      by (auto simp: list_ex_iff filter_empty_conv)
    moreover from hold_fresh_held [OF ok, of et ?d input] row False obtain s' where
      "hold_fresh E ?d input et s = rejectHold 409 ''table is already held'' input (Some et) ''table_already_held'' s'"
      by auto
    ultimately show ?thesis
      by (simp add: createHold_def key catchp_def bindp_def seqp_def runInTransaction_def tx rejectHold_def
          hold_failed_def logReservationRejected_def toHttpException_def)
  qed
qed

lemma hold_failed_effect:
  "snd (hold_failed error s) = s \<or> (\<exists>row. snd (hold_failed error s) = table_audit_logs_update (\<lambda>l. l @ [row]) s \<and>
    tal_event row = TABLE_RESERVATION_REJECTED \<and> tal_reservationId row = None)"
proof (cases "\<exists>n m a ev et o' v reason. error = HoldRejectionError n m a ev et o' v reason")
  case True
  then obtain n m a ev et o' v reason where "error = HoldRejectionError n m a ev et o' v reason" by blast
  then have "snd (hold_failed error s) = table_audit_logs_update (\<lambda>l. l @ [rejection_row a o' ev v et reason]) s"
    by (simp add: hold_failed_def logReservationRejected_def seqp_def bindp_def)
  moreover have "tal_event (rejection_row a o' ev v et reason) = TABLE_RESERVATION_REJECTED"
    "tal_reservationId (rejection_row a o' ev v et reason) = None" by (simp_all add: rejection_row_def)
  ultimately show ?thesis by blast
next
  case False
  then show ?thesis by (cases error) (simp_all add: hold_failed_def)
qed

text \<open>
  A request that fails changes nothing but the audit trail: the database is as it was, or has one
  more row that says the reservation of this user was rejected.
\<close>

theorem failed_hold_leaves_audit_only:
  assumes "createHold E raw input s = (Inl e, s')"
  shows "s' = s \<or> (\<exists>row. s' = table_audit_logs_update (\<lambda>l. l @ [row]) s \<and>
    tal_event row = TABLE_RESERVATION_REJECTED \<and> tal_reservationId row = None)"
proof (cases "js_trim (hti_idempotencyKey input) = []")
  case True
  with assms show ?thesis by (simp add: createHold_def)
next
  case False
  with assms obtain error where "hold_failed error s = (Inl e :: app_error + TableReservationResponseDto, s')"
    by (auto simp: createHold_def prog_inv)
  then show ?thesis
    using hold_failed_effect [where error = error and s = s and ?'a = TableReservationResponseDto]
    by (metis snd_conv)
qed

section \<open>Examples\<close>

definition ex_venue_table :: VenueTable where
  "ex_venue_table = \<lparr> vt_id = ''v1'', vt_organizerId = ''org'', vt_floorSectionId = None, vt_label = ''T1'',
     vt_seatCount = 6, vt_status = VenueTableStatus.ACTIVE \<rparr>"

definition ex_event_table :: EventTable where
  "ex_event_table = \<lparr> et_id = ''et1'', et_organizerId = ''org'', et_eventId = ''e'', et_venueTableId = ''v1'',
     et_status = AVAILABLE, et_priceMinor = 9000, et_currency = ''GHS'', et_holdExpiresAt = None \<rparr>"

definition ex_tables :: db where
  "ex_tables = ex_catalog\<lparr> venue_tables := [ex_venue_table], event_tables := [ex_event_table] \<rparr>"

definition ex_hold_input :: HoldTableInput where
  "ex_hold_input = \<lparr> hti_actorUserId = ''alice'', hti_eventId = ''e'', hti_eventTableId = ''et1'',
     hti_idempotencyKey = ''k'' \<rparr>"

definition ex_table_view :: EventTableView where
  "ex_table_view = \<lparr> etv_table = ex_event_table, etv_organizer = ex_host, etv_event = ex_event,
     etv_venueTable = ex_venue_table, etv_floorSectionName = None \<rparr>"

lemmas ex_table_defs = ex_venue_table_def ex_event_table_def ex_tables_def ex_hold_input_def ex_table_view_def
  ex_catalog_defs ex_env_def

lemma ex_tables_ok: "tables_ok 0 ex_tables"
  by (simp add: tables_ok_def rows_ok_but_def ex_table_defs)

lemma ex_fresh: "fresh_request ex_env ex_hold_input ex_table_view ex_tables"
  by (simp add: fresh_request_def requested_table_def event_table_view_def floor_name_def hold_allowed_def
      js_trim_def is_js_space_def ex_table_defs)

lemma hold_decision_witness:
  "\<exists>r s'. createHold ex_env None ex_hold_input ex_tables = (Inr r, s') \<and> trd_amountMinor r = 9000 \<and>
     65000 \<le> trd_holdExpiresAt r"
proof -
  have now: "(0::int) \<le> app_now ex_env" "app_now ex_env = 5000" by (simp_all add: ex_env_def)
  have "table_reservations ex_tables = []" by (simp add: ex_table_defs)
  then show ?thesis
    using hold_decision [OF ex_tables_ok now(1) ex_fresh, of None] now(2)
    by (auto simp: ex_table_view_def ex_event_table_def)
qed

lemma failed_hold_leaves_audit_only_witness:
  "snd (createHold ex_env None (ex_hold_input\<lparr> hti_idempotencyKey := [] \<rparr>) ex_tables) = ex_tables \<or>
   (\<exists>row. snd (createHold ex_env None (ex_hold_input\<lparr> hti_idempotencyKey := [] \<rparr>) ex_tables) =
     table_audit_logs_update (\<lambda>l. l @ [row]) ex_tables)"
proof -
  have "createHold ex_env None (ex_hold_input\<lparr> hti_idempotencyKey := [] \<rparr>) ex_tables =
      (Inl (BadRequestException ''idempotencyKey is required''), ex_tables)"
    by (simp add: createHold_def js_trim_def)
  from failed_hold_leaves_audit_only [OF this] show ?thesis by (simp add: createHold_def js_trim_def)
qed

end
