(* ===== verification/Tables.thy ===== *)
theory Tables
  imports Table_Holds
begin

text \<open>
  The tables of a venue and of an event (\<^verbatim>\<open>src/modules/tables/application/tables.service.ts\<close>), and
  what holds of them in every reachable state, with the steps of \<^verbatim>\<open>table-reservations.service.ts\<close>.

  A handler reads before and after its transaction; the reads are steps of their own in the code,
  here the handler runs as one.
\<close>

section \<open>Checks and responses\<close>

definition assertSeatCount :: "js_number \<Rightarrow> (db, int) prog" where
  "assertSeatCount seatCount =
     (case seatCount of
        IntegerNum n \<Rightarrow> if n \<le> 0 then throw (BadRequestException ''seatCount must be greater than 0'') else ret n
      | NonIntegerNum \<Rightarrow> throw (BadRequestException ''seatCount must be greater than 0''))"

definition assertPriceMinor :: "js_number \<Rightarrow> (db, int) prog" where
  "assertPriceMinor priceMinor =
     (case priceMinor of
        IntegerNum n \<Rightarrow>
          if n < 0 then throw (BadRequestException ''priceMinor must be greater than or equal to 0'') else ret n
      | NonIntegerNum \<Rightarrow> throw (BadRequestException ''priceMinor must be greater than or equal to 0''))"

definition upper_letter :: "char \<Rightarrow> bool" where
  "upper_letter c \<longleftrightarrow> 65 \<le> (of_char c :: nat) \<and> (of_char c :: nat) \<le> 90"

definition assertCurrency :: "string \<Rightarrow> (db, unit) prog" where
  "assertCurrency currency =
     (let c = js_trim currency in
      if length c = 3 \<and> list_all upper_letter c then ret ()
      else throw (BadRequestException ''currency must be a 3-letter uppercase code''))"

record TableResponseDto =
  tbd_id :: string
  tbd_organizerId :: string
  tbd_floorSectionId :: "string option"
  tbd_floorSectionName :: "string option"
  tbd_label :: string
  tbd_seatCount :: int
  tbd_status :: VenueTableStatus

definition toTableResponse :: "VenueTableView \<Rightarrow> TableResponseDto" where
  "toTableResponse v =
     \<lparr> tbd_id = vt_id (fst v), tbd_organizerId = vt_organizerId (fst v),
       tbd_floorSectionId = vt_floorSectionId (fst v), tbd_floorSectionName = snd v,
       tbd_label = vt_label (fst v), tbd_seatCount = vt_seatCount (fst v), tbd_status = vt_status (fst v) \<rparr>"

record EventTableResponseDto =
  etd_id :: string
  etd_organizerId :: string
  etd_eventId :: string
  etd_venueTableId :: string
  etd_label :: string
  etd_floorSectionName :: "string option"
  etd_seatCount :: int
  etd_priceMinor :: int
  etd_currency :: string
  etd_status :: EventTableStatus
  etd_holdExpiresAt :: "int option"

definition shown_status :: "EventTableView \<Rightarrow> EventTableStatus" where
  "shown_status v = (if vt_status (etv_venueTable v) \<noteq> VenueTableStatus.ACTIVE then UNAVAILABLE
                     else et_status (etv_table v))"

definition toEventTableResponse :: "EventTableView \<Rightarrow> EventTableResponseDto" where
  "toEventTableResponse v =
     (let et = etv_table v; vt = etv_venueTable v in
      \<lparr> etd_id = et_id et, etd_organizerId = et_organizerId et, etd_eventId = et_eventId et,
        etd_venueTableId = et_venueTableId et, etd_label = vt_label vt,
        etd_floorSectionName = etv_floorSectionName v, etd_seatCount = vt_seatCount vt,
        etd_priceMinor = et_priceMinor et, etd_currency = et_currency et, etd_status = shown_status v,
        etd_holdExpiresAt = et_holdExpiresAt et \<rparr>)"

section \<open>Venue tables\<close>

record CreateFloorSectionDto =
  cfd_organizerId :: string
  cfd_name :: string
  cfd_description :: "string option"

definition createFloorSection ::
  "env \<Rightarrow> string \<Rightarrow> CreateFloorSectionDto \<Rightarrow> (db, VenueFloorSection) prog" where
  "createFloorSection E actorUserId dto =
     seqp (Organizers_getOwned (cfd_organizerId dto) actorUserId)
       (conflict_as ''floor section already exists for organizer''
          (FloorSection_create \<lparr> vfs_id = uuid E 0, vfs_organizerId = cfd_organizerId dto,
             vfs_name = js_trim (cfd_name dto), vfs_description = trim_opt (cfd_description dto) \<rparr>))"

definition listFloorSections :: "string \<Rightarrow> string \<Rightarrow> (db, VenueFloorSection list) prog" where
  "listFloorSections organizerId actorUserId =
     seqp (Organizers_getOwned organizerId actorUserId) (listFloorSectionsByOrganizer organizerId)"

record CreateVenueTableDto =
  cvd_organizerId :: string
  cvd_floorSectionId :: "string option"
  cvd_label :: string
  cvd_seatCount :: js_number
  cvd_status :: "VenueTableStatus option"

definition createVenueTable :: "env \<Rightarrow> string \<Rightarrow> CreateVenueTableDto \<Rightarrow> (db, TableResponseDto) prog" where
  "createVenueTable E actorUserId dto =
     seqp (Organizers_getOwned (cvd_organizerId dto) actorUserId)
     (bindp (assertSeatCount (cvd_seatCount dto)) (\<lambda>seatCount.
      seqp (if truthy (cvd_floorSectionId dto) then
              bindp (findFloorSectionByOrganizer (cvd_organizerId dto) (the (cvd_floorSectionId dto))) (\<lambda>found.
                case found of None \<Rightarrow> throw (NotFoundException ''floor section not found'') | Some f \<Rightarrow> ret ())
            else ret ())
      (conflict_as ''venue table label already exists for organizer''
        (bindp (runInTransaction
           (bindp (VenueTable_create \<lparr> vt_id = uuid E 0, vt_organizerId = cvd_organizerId dto,
                vt_floorSectionId = cvd_floorSectionId dto, vt_label = js_trim (cvd_label dto),
                vt_seatCount = seatCount, vt_status = or_keep (cvd_status dto) VenueTableStatus.ACTIVE \<rparr>) (\<lambda>created.
              seqp (logVenueTableCreated actorUserId created) (ret created)))) (\<lambda>venueTable.
         bindp (findVenueTableById (vt_id venueTable)) (\<lambda>found.
           case found of None \<Rightarrow> throw (NotFoundException ''venue table not found'')
                       | Some v \<Rightarrow> ret (toTableResponse v)))))))"

definition listVenueTables :: "string \<Rightarrow> string \<Rightarrow> (db, TableResponseDto list) prog" where
  "listVenueTables organizerId actorUserId =
     seqp (Organizers_getOwned organizerId actorUserId)
       (bindp (listVenueTablesByOrganizer organizerId) (\<lambda>vs. ret (map toTableResponse vs)))"

definition getVenueTable :: "string \<Rightarrow> string \<Rightarrow> (db, TableResponseDto) prog" where
  "getVenueTable venueTableId actorUserId =
     bindp (findVenueTableById venueTableId) (\<lambda>found.
       case found of
         None \<Rightarrow> throw (NotFoundException ''venue table not found'')
       | Some v \<Rightarrow> seqp (Organizers_getOwned (vt_organizerId (fst v)) actorUserId) (ret (toTableResponse v)))"

section \<open>Event tables\<close>

record CreateEventTableDto =
  ctd_organizerId :: string
  ctd_eventId :: string
  ctd_venueTableId :: string
  ctd_priceMinor :: js_number
  ctd_currency :: string
  ctd_status :: "EventTableStatus option"

definition initial_status :: "VenueTable \<Rightarrow> EventTableStatus option \<Rightarrow> EventTableStatus" where
  "initial_status vt status =
     (if vt_status vt = VenueTableStatus.ACTIVE
      then or_keep status (if vt_status vt = VenueTableStatus.ACTIVE then AVAILABLE else UNAVAILABLE)
      else UNAVAILABLE)"

definition createEventTable_tx ::
  "env \<Rightarrow> string \<Rightarrow> CreateEventTableDto \<Rightarrow> int \<Rightarrow> VenueTable \<Rightarrow> (db, EventTable) prog" where
  "createEventTable_tx E actorUserId dto priceMinor vt =
     runInTransaction
       (bindp (EventTable_create \<lparr> et_id = uuid E 0, et_organizerId = ctd_organizerId dto,
            et_eventId = ctd_eventId dto, et_venueTableId = ctd_venueTableId dto,
            et_status = initial_status vt (ctd_status dto), et_priceMinor = priceMinor,
            et_currency = js_trim (ctd_currency dto), et_holdExpiresAt = None \<rparr>) (\<lambda>created.
          seqp (logEventTableCreated actorUserId created) (ret created)))"

definition createEventTable :: "env \<Rightarrow> string \<Rightarrow> CreateEventTableDto \<Rightarrow> (db, EventTableResponseDto) prog" where
  "createEventTable E actorUserId dto =
     seqp (Organizers_getOwned (ctd_organizerId dto) actorUserId)
     (bindp (assertPriceMinor (ctd_priceMinor dto)) (\<lambda>priceMinor.
      seqp (assertCurrency (ctd_currency dto))
      (if ctd_status dto = Some EventTableStatus.HELD then
         throw (BadRequestException ''event table cannot be created in HELD status'')
       else bindp (Events_getOwned (ctd_eventId dto) actorUserId) (\<lambda>(event, o').
         if evt_organizerId event \<noteq> ctd_organizerId dto then
           throw (ConflictException ''event does not belong to organizer'')
         else bindp (findVenueTableByOrganizer (ctd_organizerId dto) (ctd_venueTableId dto)) (\<lambda>found.
           case found of
             None \<Rightarrow> throw (ConflictException ''venue table does not belong to organizer'')
           | Some (vt, f) \<Rightarrow>
               conflict_as ''event table already exists for this event and venue table''
                 (bindp (createEventTable_tx E actorUserId dto priceMinor vt) (\<lambda>eventTable.
                  bindp (findOwnedEventTable (et_id eventTable) actorUserId) (\<lambda>created.
                    case created of
                      None \<Rightarrow> throw (NotFoundException ''event table not found'')
                    | Some v \<Rightarrow> ret (toEventTableResponse v))))))))) "

definition listEventTablesForOwnedEvent :: "string \<Rightarrow> string \<Rightarrow> (db, EventTableResponseDto list) prog" where
  "listEventTablesForOwnedEvent eventId actorUserId =
     seqp (Events_getOwned eventId actorUserId)
       (bindp (listEventTablesByEvent eventId) (\<lambda>vs. ret (map toEventTableResponse vs)))"

definition updateEventTableStatus_tx ::
  "env \<Rightarrow> string \<Rightarrow> EventTableStatus \<Rightarrow> string \<Rightarrow> EventTable \<Rightarrow> (db, EventTable) prog" where
  "updateEventTableStatus_tx E eventTableId status actorUserId existing =
     runInTransaction
       (bindp (lockEventTableForUpdate eventTableId) (\<lambda>locked.
          case locked of
            None \<Rightarrow> throw (NotFoundException ''event table not found'')
          | Some i \<Rightarrow>
              seqp (expireStaleHoldForEventTableWithinTx eventTableId (app_now E))
              (bindp (countActiveHeldReservationsForEventTable eventTableId (app_now E)) (\<lambda>activeCount.
                 if activeCount > 0 then throw (ConflictException ''active table hold prevents status change'')
                 else bindp (updateEventTableState eventTableId status None) (\<lambda>changed.
                   seqp (logEventTableUpdated actorUserId existing (et_status changed)) (ret changed))))))"

definition updateEventTableStatus ::
  "env \<Rightarrow> string \<Rightarrow> EventTableStatus \<Rightarrow> string \<Rightarrow> (db, EventTableResponseDto) prog" where
  "updateEventTableStatus E eventTableId status actorUserId =
     (if status = EventTableStatus.HELD then
        throw (BadRequestException ''HELD status is derived from active table holds'')
      else bindp (findOwnedEventTable eventTableId actorUserId) (\<lambda>found.
        case found of
          None \<Rightarrow> throw (NotFoundException ''event table not found'')
        | Some existing \<Rightarrow>
            if status = AVAILABLE \<and> vt_status (etv_venueTable existing) \<noteq> VenueTableStatus.ACTIVE then
              throw (BadRequestException ''inactive venue table cannot be made available'')
            else bindp (updateEventTableStatus_tx E eventTableId status actorUserId (etv_table existing)) (\<lambda>updated.
              bindp (findOwnedEventTable (et_id updated) actorUserId) (\<lambda>refreshed.
                case refreshed of
                  None \<Rightarrow> throw (NotFoundException ''event table not found'')
                | Some v \<Rightarrow> ret (toEventTableResponse v)))))"

record AvailabilityRow =
  avr_eventTableId :: string
  avr_venueTableId :: string
  avr_label :: string
  avr_floorSectionName :: "string option"
  avr_seatCount :: int
  avr_priceMinor :: int
  avr_currency :: string
  avr_availabilityStatus :: EventTableStatus

definition availability_row :: "EventTableView \<Rightarrow> AvailabilityRow" where
  "availability_row v =
     (let et = etv_table v; vt = etv_venueTable v in
      \<lparr> avr_eventTableId = et_id et, avr_venueTableId = et_venueTableId et, avr_label = vt_label vt,
        avr_floorSectionName = etv_floorSectionName v, avr_seatCount = vt_seatCount vt,
        avr_priceMinor = et_priceMinor et, avr_currency = et_currency et,
        avr_availabilityStatus = shown_status v \<rparr>)"

definition getAvailability :: "env \<Rightarrow> string \<Rightarrow> (db, AvailabilityRow list) prog" where
  "getAvailability E eventId =
     runInTransaction
       (bindp (findCustomerEventScope eventId) (\<lambda>found.
          case found of
            None \<Rightarrow> throw (NotFoundException ''event not found'')
          | Some (event, organizer) \<Rightarrow>
              if evt_status event \<noteq> EventStatus.PUBLISHED then throw (ForbiddenException ''event is not available'')
              else if evt_visibility event \<noteq> EventVisibility.PUBLIC then
                throw (ForbiddenException ''event is not customer facing'')
              else if evt_endsAt event \<le> app_now E then throw (ForbiddenException ''event has ended'')
              else if org_status organizer \<noteq> OrganizerStatus.APPROVED then
                throw (ForbiddenException ''organizer is not approved'')
              else bindp (lockEventTablesForEventForUpdate eventId) (\<lambda>locked.
                seqp (for_each (\<lambda>i. expireStaleHoldForEventTableWithinTx i (app_now E)) locked)
                  (bindp (listEventTablesForAvailability eventId) (\<lambda>records. ret (map availability_row records))))))"

section \<open>Every handler keeps the rows right\<close>

lemma keeps_not_tables:
  assumes "readonly m"
  shows "keeps I m"
  using assms by (rule keeps_readonly)

lemma getOwned_reads: "keeps I (Organizers_getOwned i u)" "keeps I (Events_getOwned e u)"
  unfolding Organizers_getOwned_def Events_getOwned_def Organizer_findOwnedByUser_def Event_findOwnedByUser_def
  by (rule keepsI, auto simp: bindp_def split: option.splits)+

lemma keeps_conflict_as: "keeps I m \<Longrightarrow> keeps I (conflict_as message m)"
  unfolding conflict_as_def by (intro keeps_rules)

lemma keeps_assert: "keeps I (assertSeatCount n)" "keeps I (assertPriceMinor n)" "keeps I (assertCurrency c)"
  by (auto simp: assertSeatCount_def assertPriceMinor_def assertCurrency_def Let_def keeps_ret keeps_throw
      split: js_number.splits)

text \<open>Rows of other tables do not matter.\<close>

lemma keeps_FloorSection_create: "keeps (tables_ok t) (FloorSection_create data)"
  by (rule keepsI) (auto simp: FloorSection_create_def prisma_create_def tables_ok_def split: if_splits)

lemma keeps_VenueTable_create: "keeps (tables_ok t) (VenueTable_create data)"
  by (rule keepsI) (auto simp: VenueTable_create_def prisma_create_def tables_ok_def split: if_splits)

lemma add_table_ok:
  assumes ok: "rows_ok t rs ets" and new: "et_id et \<notin> et_id ` set ets" and st: "et_status et \<noteq> EventTableStatus.HELD"
  shows "rows_ok t rs (ets @ [et])"
proof -
  have fk: "tr_eventTableId r \<in> et_id ` set ets" if "r \<in> set rs" for r
    using that ok by (simp add: rows_ok_but_def)
  have "et_status x = EventTableStatus.HELD \<and> et_holdExpiresAt x = Some (tr_holdExpiresAt r)"
    if r: "r \<in> set rs" "x \<in> set (ets @ [et])" "active_on (et_id x) t r" for r x
  proof -
    from r(3) have "tr_eventTableId r = et_id x" by (simp add: active_on_def held_on_def)
    with fk [OF r(1)] new have "x \<noteq> et" by auto
    with r have "x \<in> set ets" by simp
    with r ok show ?thesis by (simp add: rows_ok_but_def)
  qed
  moreover have "\<exists>r\<in>set rs. held_on (et_id x) r \<and> et_holdExpiresAt x = Some (tr_holdExpiresAt r)"
    if "x \<in> set (ets @ [et])" "et_status x = EventTableStatus.HELD" for x
    using that ok st by (auto simp: rows_ok_but_def)
  moreover have "distinct (map et_id (ets @ [et]))" "distinct (map tr_id rs)" "distinct (map reservation_key rs)"
    using ok new by (simp_all add: rows_ok_but_def)
  moreover have "r = r'" if "r \<in> set rs" "r' \<in> set rs" "held_on (tr_eventTableId r') r" "held_on (tr_eventTableId r) r'" for r r'
    using that ok by (simp add: rows_ok_but_def)
  ultimately show ?thesis using fk unfolding rows_ok_but_def by (simp add: image_Un)
qed

lemma keeps_createEventTable_tx:
  assumes "ctd_status dto \<noteq> Some EventTableStatus.HELD"
  shows "keeps (tables_ok t) (createEventTable_tx E a dto p vt)"
proof -
  have "initial_status vt (ctd_status dto) \<noteq> EventTableStatus.HELD"
    using assms by (auto simp: initial_status_def or_keep_def split: option.splits)
  then have "keeps (tables_ok t) (EventTable_create \<lparr> et_id = uuid E 0, et_organizerId = ctd_organizerId dto,
      et_eventId = ctd_eventId dto, et_venueTableId = ctd_venueTableId dto,
      et_status = initial_status vt (ctd_status dto), et_priceMinor = p,
      et_currency = js_trim (ctd_currency dto), et_holdExpiresAt = None \<rparr>)"
    by (intro keepsI) (auto simp: EventTable_create_def prisma_create_def tables_ok_def event_table_clash_def
        list_ex_iff split: if_splits intro!: add_table_ok)
  then show ?thesis
    unfolding createEventTable_tx_def logEventTableCreated_def by (intro keeps_rules keeps_table_audit)
qed

lemma keeps_updateEventTableStatus_tx:
  assumes st: "status \<noteq> EventTableStatus.HELD"
  shows "keeps (tables_ok (app_now E)) (updateEventTableStatus_tx E i status a existing)"
proof -
  let ?body = "seqp (expireStaleHoldForEventTableWithinTx i (app_now E))
     (bindp (countActiveHeldReservationsForEventTable i (app_now E)) (\<lambda>activeCount.
        if activeCount > 0 then throw (ConflictException ''active table hold prevents status change'')
        else bindp (updateEventTableState i status None) (\<lambda>changed.
          seqp (logEventTableUpdated a existing (et_status changed)) (ret changed))))"
  have body: "keeps (tables_ok (app_now E)) ?body"
  proof (rule keepsI)
    fix s r s'
    assume ok: "tables_ok (app_now E) s" and run: "?body s = (r, s')"
    obtain r1 s1 where e: "expireStaleHoldForEventTableWithinTx i (app_now E) s = (r1, s1)" by fastforce
    note x = expire_tables_ok [OF ok e]
    show "tables_ok (app_now E) s'"
    proof (cases "filter (active_on i (app_now E)) (table_reservations s1) = []")
      case False
      with run x e show ?thesis by (auto simp: seqp_def bindp_def)
    next
      case True
      then have "rows_ok (app_now E) (table_reservations s1) (upd_where (\<lambda>et. et_id et = i) (set_state status None) (event_tables s1))"
        using x st by (intro rows_ok_set_state [of "{}"]) (auto simp: tables_ok_def filter_empty_conv)
      with True run x e show ?thesis
        by (auto simp: seqp_def bindp_def updateEventTableState_def prisma_update_def logEventTableUpdated_def
            tables_ok_def split: option.splits)
    qed
  qed
  show ?thesis
    unfolding updateEventTableStatus_tx_def
    by (intro keeps_tx_body keeps_bindp keeps_option keeps_throw keeps_table_reads body)
qed

lemma keeps_createEventTable: "keeps (tables_ok t) (createEventTable E a dto)"
proof (cases "ctd_status dto = Some EventTableStatus.HELD")
  case True
  then show ?thesis
    unfolding createEventTable_def by (simp, intro keeps_rules getOwned_reads keeps_assert)
next
  case False
  then show ?thesis
    unfolding createEventTable_def
    by (intro keeps_rules getOwned_reads keeps_assert table_keeps keeps_conflict_as keeps_createEventTable_tx)
qed

lemma keeps_updateEventTableStatus: "keeps (tables_ok (app_now E)) (updateEventTableStatus E i status a)"
  unfolding updateEventTableStatus_def
  by (cases "status = EventTableStatus.HELD")
    (simp_all add: keeps_throw, intro keeps_rules table_keeps keeps_updateEventTableStatus_tx)

lemma keeps_getAvailability: "keeps (tables_ok (app_now E)) (getAvailability E i)"
  unfolding getAvailability_def by (intro keeps_rules table_keeps)

lemma keeps_createVenueTable: "keeps (tables_ok t) (createVenueTable E a dto)"
  unfolding createVenueTable_def logVenueTableCreated_def
  by (intro keeps_rules getOwned_reads keeps_assert table_keeps keeps_conflict_as keeps_VenueTable_create)

lemma keeps_createFloorSection: "keeps (tables_ok t) (createFloorSection E a dto)"
  unfolding createFloorSection_def
  by (intro keeps_rules getOwned_reads keeps_conflict_as keeps_FloorSection_create)

section \<open>Reachable states\<close>

text \<open>A state is the clock and the database; the clock does not run backwards.\<close>

inductive table_step :: "int \<times> db \<Rightarrow> int \<times> db \<Rightarrow> bool" where
  step_hold: "createHold E raw input s = (r, s') \<Longrightarrow> t \<le> app_now E \<Longrightarrow> table_step (t, s) (app_now E, s')"
| step_view: "getOwnedReservation E i a s = (r, s') \<Longrightarrow> t \<le> app_now E \<Longrightarrow> table_step (t, s) (app_now E, s')"
| step_floor: "createFloorSection E a fdto s = (rf, s') \<Longrightarrow> t \<le> app_now E \<Longrightarrow> table_step (t, s) (app_now E, s')"
| step_venue: "createVenueTable E a vdto s = (rv, s') \<Longrightarrow> t \<le> app_now E \<Longrightarrow> table_step (t, s) (app_now E, s')"
| step_table: "createEventTable E a tdto s = (re, s') \<Longrightarrow> t \<le> app_now E \<Longrightarrow> table_step (t, s) (app_now E, s')"
| step_status: "updateEventTableStatus E i st a s = (re, s') \<Longrightarrow> t \<le> app_now E \<Longrightarrow> table_step (t, s) (app_now E, s')"
| step_available: "getAvailability E i s = (ra, s') \<Longrightarrow> t \<le> app_now E \<Longrightarrow> table_step (t, s) (app_now E, s')"

lemma table_step_ok:
  assumes "table_step x y" and "tables_ok (fst x) (snd x)"
  shows "tables_ok (fst y) (snd y)"
  using assms
proof (cases rule: table_step.cases)
  case (step_hold E raw input s r s' t)
  with assms(2) show ?thesis using keepsD [OF keeps_createHold, of E s raw input] tables_ok_mono by fastforce
next
  case (step_view E i a s r s' t)
  with assms(2) show ?thesis using keepsD [OF keeps_getOwnedReservation, of E s i a] tables_ok_mono by fastforce
next
  case (step_floor E a fdto s rf s' t)
  with assms(2) show ?thesis using keepsD [OF keeps_createFloorSection, of "app_now E" s E a fdto] tables_ok_mono by fastforce
next
  case (step_venue E a vdto s rv s' t)
  with assms(2) show ?thesis using keepsD [OF keeps_createVenueTable, of "app_now E" s E a vdto] tables_ok_mono by fastforce
next
  case (step_table E a tdto s re s' t)
  with assms(2) show ?thesis using keepsD [OF keeps_createEventTable, of "app_now E" s E a tdto] tables_ok_mono by fastforce
next
  case (step_status E i st a s re s' t)
  with assms(2) show ?thesis using keepsD [OF keeps_updateEventTableStatus, of E s i st a] tables_ok_mono by fastforce
next
  case (step_available E i s ra s' t)
  with assms(2) show ?thesis using keepsD [OF keeps_getAvailability, of E s i] tables_ok_mono by fastforce
qed

interpretation table_system: transition_system
  "\<lambda>x. table_reservations (snd x) = [] \<and> event_tables (snd x) = []" table_step "\<lambda>x. tables_ok (fst x) (snd x)"
  by unfold_locales (simp add: tables_ok_def rows_ok_but_def, rule table_step_ok)

section \<open>Properties\<close>


section \<open>Example\<close>

text \<open>The owner puts a table of the venue on sale for the event.\<close>

definition ex_no_tables :: db where
  "ex_no_tables = ex_tables\<lparr> event_tables := [] \<rparr>"

definition ex_table_dto :: CreateEventTableDto where
  "ex_table_dto = \<lparr> ctd_organizerId = ''org'', ctd_eventId = ''e'', ctd_venueTableId = ''v1'',
     ctd_priceMinor = IntegerNum 9000, ctd_currency = ''GHS'', ctd_status = None \<rparr>"

definition ex_table_on_sale :: db where
  "ex_table_on_sale = snd (createEventTable ex_env ''bob'' ex_table_dto ex_no_tables)"

text \<open>A customer holds it.\<close>

definition ex_table_held :: db where
  "ex_table_held = snd (createHold ex_env None
     (ex_hold_input\<lparr> hti_eventTableId := et_id (hd (event_tables ex_table_on_sale)) \<rparr>) ex_table_on_sale)"

lemma ex_held_runs: "table_step\<^sup>*\<^sup>* (0, ex_no_tables) (5000, ex_table_held)"
proof -
  let ?i = "ex_hold_input\<lparr> hti_eventTableId := et_id (hd (event_tables ex_table_on_sale)) \<rparr>"
  have "table_step (0, ex_no_tables) (app_now ex_env, ex_table_on_sale)"
    unfolding ex_table_on_sale_def by (rule step_table [OF prod.collapse [symmetric]]) (simp add: ex_env_def)
  moreover have "table_step (app_now ex_env, ex_table_on_sale) (app_now ex_env, ex_table_held)"
    unfolding ex_table_held_def by (rule step_hold [OF prod.collapse [symmetric]]) simp
  ultimately have "table_step\<^sup>*\<^sup>* (0, ex_no_tables) (app_now ex_env, ex_table_held)"
    by (rule converse_rtranclp_into_rtranclp [OF _ r_into_rtranclp])
  then show ?thesis by (simp add: ex_env_def)
qed

lemma ex_held_rows:
  "map tr_status (table_reservations ex_table_held) = [TableReservationStatus.HELD] \<and>
   map et_status (event_tables ex_table_held) = [EventTableStatus.HELD] \<and>
   list_all (\<lambda>r. 5000 < tr_holdExpiresAt r) (table_reservations ex_table_held)"
  by code_simp


end
