(* ===== verification/Access_Control.thy ===== *)
theory Access_Control
  imports Schema
begin

text \<open>
  Who may call what (\<^verbatim>\<open>src/common/constants/permissions.ts\<close>, \<^verbatim>\<open>src/auth/auth.types.ts\<close>,
  \<^verbatim>\<open>src/auth/guards\<close>): the permissions, the table of roles and the three guards. What the reflector
  finds on a handler or its class is a parameter: \<open>None\<close> when there is no decorator.
\<close>

section \<open>Permissions\<close>

datatype AppPermission =
    AUTHENTICATED | CUSTOMER_ACCESS | ORGANIZER_ACCESS | GATE_STAFF_ACCESS | ADMIN_ACCESS
  | ADMIN_SUPPORT_READ_USERS | ADMIN_SUPPORT_READ_ORGANIZERS | ADMIN_SUPPORT_READ_EVENTS
  | ADMIN_SUPPORT_READ_PAYMENTS | ADMIN_SUPPORT_READ_TICKETS | ADMIN_SUPPORT_READ_ADMISSIONS
  | ADMIN_SUPPORT_READ_AUDIT_LOGS | SESSION_REVOKE_OWN | SESSION_REVOKE_ANY | USER_READ_SELF
  | ORGANIZER_CREATE | ORGANIZER_READ_OWN | ORGANIZER_UPDATE_OWN | ORGANIZER_SUBMIT_OWN
  | EVENT_CREATE_OWN | EVENT_READ_OWN | EVENT_UPDATE_OWN | EVENT_PUBLISH_OWN | EVENT_CANCEL_OWN
  | TABLE_MANAGE_ORGANIZER | TABLE_READ_ORGANIZER | TABLE_READ_PUBLIC | TABLE_HOLD_OWN
  | TABLE_READ_OWN_RESERVATION | PAYMENT_INITIATE_OWN | PAYMENT_READ_OWN | TICKET_READ_OWN
  | ADMISSION_SCAN_EVENT

definition ROLE_PERMISSIONS :: "UserRole \<Rightarrow> AppPermission list" where
  "ROLE_PERMISSIONS role =
     (case role of
        CUSTOMER \<Rightarrow>
          [AUTHENTICATED, CUSTOMER_ACCESS, SESSION_REVOKE_OWN, USER_READ_SELF, ORGANIZER_CREATE,
           ORGANIZER_READ_OWN, ORGANIZER_UPDATE_OWN, ORGANIZER_SUBMIT_OWN, EVENT_CREATE_OWN, EVENT_READ_OWN,
           EVENT_UPDATE_OWN, EVENT_PUBLISH_OWN, EVENT_CANCEL_OWN, TABLE_READ_PUBLIC, TABLE_HOLD_OWN,
           TABLE_READ_OWN_RESERVATION, PAYMENT_INITIATE_OWN, PAYMENT_READ_OWN, TICKET_READ_OWN]
      | ORGANIZER \<Rightarrow>
          [AUTHENTICATED, ORGANIZER_ACCESS, SESSION_REVOKE_OWN, USER_READ_SELF, ORGANIZER_CREATE,
           ORGANIZER_READ_OWN, ORGANIZER_UPDATE_OWN, ORGANIZER_SUBMIT_OWN, EVENT_CREATE_OWN, EVENT_READ_OWN,
           EVENT_UPDATE_OWN, EVENT_PUBLISH_OWN, EVENT_CANCEL_OWN, TABLE_MANAGE_ORGANIZER,
           TABLE_READ_ORGANIZER, PAYMENT_INITIATE_OWN, PAYMENT_READ_OWN, TICKET_READ_OWN,
           ADMISSION_SCAN_EVENT]
      | GATE_STAFF \<Rightarrow> [AUTHENTICATED, GATE_STAFF_ACCESS]
      | ADMIN \<Rightarrow>
          [AUTHENTICATED, ADMIN_ACCESS, ADMIN_SUPPORT_READ_USERS, ADMIN_SUPPORT_READ_ORGANIZERS,
           ADMIN_SUPPORT_READ_EVENTS, ADMIN_SUPPORT_READ_PAYMENTS, ADMIN_SUPPORT_READ_TICKETS,
           ADMIN_SUPPORT_READ_ADMISSIONS, ADMIN_SUPPORT_READ_AUDIT_LOGS, SESSION_REVOKE_OWN,
           SESSION_REVOKE_ANY, USER_READ_SELF, ORGANIZER_CREATE, ORGANIZER_READ_OWN, ORGANIZER_UPDATE_OWN,
           ORGANIZER_SUBMIT_OWN, EVENT_CREATE_OWN, EVENT_READ_OWN, EVENT_UPDATE_OWN, EVENT_PUBLISH_OWN,
           EVENT_CANCEL_OWN, TABLE_MANAGE_ORGANIZER, TABLE_READ_ORGANIZER, TABLE_READ_PUBLIC, TABLE_HOLD_OWN,
           TABLE_READ_OWN_RESERVATION, PAYMENT_INITIATE_OWN, PAYMENT_READ_OWN, TICKET_READ_OWN])"

record AuthUser =
  atu_id :: string
  atu_email :: string
  atu_role :: UserRole
  atu_sessionId :: string
  atu_permissions :: "AppPermission list"
  atu_emailVerifiedAt :: "int option"
  atu_isActive :: bool

section \<open>Guards\<close>

definition PermissionsGuard_canActivate ::
  "AppPermission list option \<Rightarrow> AuthUser option \<Rightarrow> app_error + bool" where
  "PermissionsGuard_canActivate requiredPermissions user =
     (case requiredPermissions of
        None \<Rightarrow> Inr True
      | Some ps \<Rightarrow>
          if ps = [] then Inr True
          else (case user of
                  None \<Rightarrow> Inl (ForbiddenException ''missing user'')
                | Some u \<Rightarrow>
                    if list_all (\<lambda>p. p \<in> set (ROLE_PERMISSIONS (atu_role u))) ps then Inr True
                    else Inl (ForbiddenException ''insufficient permissions'')))"

definition RolesGuard_canActivate :: "UserRole list option \<Rightarrow> AuthUser option \<Rightarrow> app_error + bool" where
  "RolesGuard_canActivate roles user =
     (case roles of
        None \<Rightarrow> Inr True
      | Some rs \<Rightarrow>
          if rs = [] then Inr True
          else (case user of
                  None \<Rightarrow> Inl (ForbiddenException ''insufficient role'')
                | Some u \<Rightarrow> if atu_role u \<in> set rs then Inr True
                            else Inl (ForbiddenException ''insufficient role'')))"

text \<open>
  The JWT guard: a public handler passes; otherwise what the strategy answered (an error, no user, or
  a user) decides, and the user goes into the request and its context.
\<close>

definition JwtAuthGuard_canActivate :: "bool \<Rightarrow> app_error + AuthUser option \<Rightarrow> app_error + AuthUser option" where
  "JwtAuthGuard_canActivate isPublic result =
     (if isPublic then Inr None
      else case result of
             Inl err \<Rightarrow>
               (case err of UnauthorizedException m \<Rightarrow> Inl err | _ \<Rightarrow> Inl (UnauthorizedException ''Unauthorized''))
           | Inr None \<Rightarrow> Inl (UnauthorizedException ''Unauthorized'')
           | Inr (Some user) \<Rightarrow> Inr (Some user))"

definition with_user :: "AuthUser \<Rightarrow> request_ctx \<Rightarrow> request_ctx" where
  "with_user user ctx = ctx\<lparr> ctx_userId := Some (atu_id user),
     ctx_organizerId := (if atu_role user = ORGANIZER then Some (atu_id user) else None) \<rparr>"

text \<open>The guards of a controller, in the order it names them.\<close>

definition guarded ::
  "bool \<Rightarrow> UserRole list option \<Rightarrow> AppPermission list option \<Rightarrow> app_error + AuthUser option \<Rightarrow>
   app_error + AuthUser option" where
  "guarded isPublic roles perms result =
     (case JwtAuthGuard_canActivate isPublic result of
        Inl e \<Rightarrow> Inl e
      | Inr user \<Rightarrow>
          (case RolesGuard_canActivate roles user of
             Inl e \<Rightarrow> Inl e
           | Inr ok \<Rightarrow>
               (case PermissionsGuard_canActivate perms user of Inl e \<Rightarrow> Inl e | Inr ok \<Rightarrow> Inr user)))"

section \<open>Properties\<close>

text \<open>
  A protected handler that asks for a permission runs for exactly the authenticated users whose
  role has every permission it asks for and is among the roles it names; nobody else gets past the
  guards.
\<close>

theorem guards_admit_exactly:
  assumes "perms \<noteq> []" and "roles \<noteq> []"
  shows "guarded False (Some roles) (Some perms) result = Inr user \<longleftrightarrow>
    (\<exists>u. result = Inr (Some u) \<and> user = Some u \<and> atu_role u \<in> set roles \<and>
      set perms \<subseteq> set (ROLE_PERMISSIONS (atu_role u)))"
  using assms
  by (auto simp: guarded_def JwtAuthGuard_canActivate_def RolesGuard_canActivate_def
      PermissionsGuard_canActivate_def list_all_iff subset_iff split: sum.splits option.splits app_error.splits)

text \<open>
  Scanning at the gate is open to organizers only: gate staff, whose job it is, and administrators
  are refused by the permission the admission controller asks for.
\<close>

theorem gate_staff_cannot_scan:
  "PermissionsGuard_canActivate (Some [ADMISSION_SCAN_EVENT]) (Some u) =
     (if atu_role u = ORGANIZER then Inr True else Inl (ForbiddenException ''insufficient permissions''))"
  by (cases "atu_role u") (simp_all add: PermissionsGuard_canActivate_def ROLE_PERMISSIONS_def)

section \<open>Example\<close>

definition ex_organizer_user :: AuthUser where
  "ex_organizer_user = \<lparr> atu_id = ''bob'', atu_email = ''b@c'', atu_role = ORGANIZER, atu_sessionId = ''s1'',
     atu_permissions = ROLE_PERMISSIONS ORGANIZER, atu_emailVerifiedAt = Some 1, atu_isActive = True \<rparr>"

lemma guards_admit_exactly_witness:
  "guarded False (Some [ORGANIZER]) (Some [ORGANIZER_ACCESS]) (Inr (Some ex_organizer_user)) = Inr (Some ex_organizer_user)"
  by (subst guards_admit_exactly) (simp_all add: ex_organizer_user_def ROLE_PERMISSIONS_def)

end
