(* ===== verification/Sessions.thy ===== *)
theory Sessions
  imports Access_Control Json_Text
begin

text \<open>
  Sessions and their refresh tokens (\<^verbatim>\<open>src/auth/session.service.ts\<close>,
  \<^verbatim>\<open>src/auth/auth-audit.service.ts\<close>): creation, the checks before use, rotation of the refresh
  token, revocation and expiry.

  The handlers use no transaction. A rotation reads the session, checks it and then updates it with
  the expected state in the \<open>where\<close> of the statement; others may run in between, so it is modelled as
  two steps, \<open>rotate_lookup\<close> and \<open>rotate_commit\<close>, and \<open>rotateRefreshToken\<close> is one after the other. A
  session read with its user is the pair of the rows (the foreign key makes the user exist).
\<close>

section \<open>Audit\<close>

definition AuthAudit_log :: "AuthAuditLog \<Rightarrow> (db, unit) prog" where
  "AuthAudit_log row = (\<lambda>s. ret () (auth_audit_logs_update (\<lambda>rs. rs @ [row]) s))"

lemma AuthAudit_log_run [simp]: "AuthAudit_log row s = (Inr (), auth_audit_logs_update (\<lambda>rs. rs @ [row]) s)"
  by (simp add: AuthAudit_log_def)

interpretation auth_audit: append_log auth_audit_logs auth_audit_logs_update AuthAudit_log
  by unfold_locales auto

section \<open>Creation and lookup\<close>

definition REFRESH_TOKEN_TTL_SECONDS :: int where
  "REFRESH_TOKEN_TTL_SECONDS = 30 * 24 * 60 * 60"

definition hashRefreshToken :: "env \<Rightarrow> string \<Rightarrow> string" where
  "hashRefreshToken E refreshToken = sha256 E refreshToken"

record CreateSessionParams =
  csp_sessionId :: string
  csp_userId :: string
  csp_deviceId :: string
  csp_refreshToken :: string
  csp_userAgent :: "string option"
  csp_ipAddress :: "string option"

definition createSession :: "env \<Rightarrow> CreateSessionParams \<Rightarrow> (db, Session) prog" where
  "createSession E params =
     prisma_create sessions sessions_update (\<lambda>x y. ses_id x = ses_id y)
       \<lparr> ses_id = csp_sessionId params, ses_userId = csp_userId params,
         ses_refreshTokenHash = Some (hashRefreshToken E (csp_refreshToken params)),
         ses_previousRefreshTokenHash = None, ses_status = SessionStatus.ACTIVE,
         ses_deviceId = csp_deviceId params, ses_userAgent = csp_userAgent params,
         ses_ipAddress = csp_ipAddress params, ses_lastSeenAt = app_now E,
         ses_expiresAt = app_now E + REFRESH_TOKEN_TTL_SECONDS * 1000, ses_revokedAt = None,
         ses_revokedReason = None, ses_refreshTokenVersion = 0 \<rparr>"

definition with_owner :: "db \<Rightarrow> Session \<Rightarrow> (Session \<times> User) option" where
  "with_owner s x = map_option (Pair x) (find (\<lambda>u. usr_id u = ses_userId x) (users s))"

definition getSessionById :: "string \<Rightarrow> (db, (Session \<times> User) option) prog" where
  "getSessionById sessionId = (\<lambda>s.
     ret (Option.bind (find (\<lambda>x. ses_id x = sessionId) (sessions s)) (with_owner s)) s)"

section \<open>Revocation and expiry\<close>

definition closed_row :: "SessionStatus \<Rightarrow> int \<Rightarrow> string \<Rightarrow> Session \<Rightarrow> Session" where
  "closed_row status instant reason x = x
     \<lparr> ses_status := status, ses_revokedAt := Some instant, ses_revokedReason := Some reason,
       ses_refreshTokenHash := None, ses_previousRefreshTokenHash := None \<rparr>"

definition markExpired :: "env \<Rightarrow> string \<Rightarrow> (db, unit) prog" where
  "markExpired E sessionId =
     bindp (getSessionById sessionId) (\<lambda>found.
       case found of
         None \<Rightarrow> ret ()
       | Some (session, user) \<Rightarrow>
           bindp (prisma_updateMany sessions sessions_update
                    (\<lambda>x. ses_id x = sessionId \<and> ses_status x = SessionStatus.ACTIVE)
                    (closed_row SessionStatus.EXPIRED (app_now E) ''expired_session_detected'')) (\<lambda>count.
             if count > 0 then
               AuthAudit_log \<lparr> aal_userId = Some (ses_userId session), aal_action = EXPIRED_SESSION_DETECTED,
                 aal_email = Some (usr_email user), aal_sessionId = Some (ses_id session), aal_ipAddress = None,
                 aal_userAgent = None, aal_success = False, aal_reason = Some ''expired_session_detected'',
                 aal_metadata = None \<rparr>
             else ret ()))"

definition revokeForReplay :: "env \<Rightarrow> string \<Rightarrow> string \<Rightarrow> (db, unit) prog" where
  "revokeForReplay E sessionId reason =
     bindp (prisma_updateMany sessions sessions_update
              (\<lambda>x. ses_id x = sessionId \<and> ses_status x \<noteq> SessionStatus.REVOKED)
              (closed_row SessionStatus.REVOKED (app_now E) reason)) (\<lambda>count. ret ())"

definition revokeSession ::
  "env \<Rightarrow> string \<Rightarrow> string \<Rightarrow> string \<Rightarrow> bool \<Rightarrow> (db, Session) prog" where
  "revokeSession E requesterUserId sessionId reason allowAny =
     bindp (getSessionById sessionId) (\<lambda>found.
       case found of
         None \<Rightarrow> throw (UnauthorizedException ''session not found'')
       | Some (session, user) \<Rightarrow>
           if ses_userId session \<noteq> requesterUserId \<and> \<not> allowAny then
             throw (ForbiddenException ''cannot revoke another user session'')
           else if ses_status session = SessionStatus.REVOKED then ret session
           else seqp (prisma_update sessions sessions_update (\<lambda>x. ses_id x = sessionId)
                        (closed_row SessionStatus.REVOKED (app_now E) reason))
                     (ret session))"

section \<open>Use\<close>

definition assertSessionUsable :: "env \<Rightarrow> string \<Rightarrow> (db, Session \<times> User) prog" where
  "assertSessionUsable E sessionId =
     bindp (getSessionById sessionId) (\<lambda>found.
       case found of
         None \<Rightarrow> throw (UnauthorizedException ''session not found'')
       | Some (session, user) \<Rightarrow>
           if ses_status session = SessionStatus.REVOKED then throw (UnauthorizedException ''session revoked'')
           else if ses_expiresAt session < app_now E then
             seqp (markExpired E (ses_id session)) (throw (UnauthorizedException ''session expired''))
           else if ses_status session \<noteq> SessionStatus.ACTIVE then
             throw (UnauthorizedException ''session not active'')
           else if \<not> usr_isActive user then throw (UnauthorizedException ''user inactive'')
           else ret (session, user))"

section \<open>Rotation\<close>

record RotateParams =
  rtp_refreshToken :: string
  rtp_deviceId :: string
  rtp_nextRefreshToken :: string
  rtp_ipAddress :: "string option"
  rtp_userAgent :: "string option"

definition has_token :: "string \<Rightarrow> Session \<Rightarrow> bool" where
  "has_token h x \<longleftrightarrow> ses_refreshTokenHash x = Some h \<or> ses_previousRefreshTokenHash x = Some h"

definition findByToken :: "string \<Rightarrow> (db, (Session \<times> User) option) prog" where
  "findByToken h = (\<lambda>s. ret (Option.bind (find (has_token h) (sessions s)) (with_owner s)) s)"

definition revoke_replayed :: "env \<Rightarrow> string \<Rightarrow> string \<Rightarrow> (db, 'a) prog" where
  "revoke_replayed E sessionId reason =
     seqp (revokeForReplay E sessionId reason) (throw (RefreshReplayError sessionId reason))"

definition rotate_lookup :: "env \<Rightarrow> RotateParams \<Rightarrow> (db, Session \<times> User) prog" where
  "rotate_lookup E params =
     (let incoming = hashRefreshToken E (rtp_refreshToken params) in
      bindp (findByToken incoming) (\<lambda>found.
        case found of
          None \<Rightarrow> throw (UnauthorizedException ''invalid refresh token'')
        | Some (session, user) \<Rightarrow>
            if ses_deviceId session \<noteq> rtp_deviceId params then
              revoke_replayed E (ses_id session) ''device_mismatch''
            else if ses_status session = SessionStatus.REVOKED then
              throw (UnauthorizedException ''session revoked'')
            else if ses_expiresAt session < app_now E then
              seqp (markExpired E (ses_id session)) (throw (UnauthorizedException ''session expired''))
            else if ses_status session \<noteq> SessionStatus.ACTIVE then
              throw (UnauthorizedException ''session not active'')
            else if \<not> usr_isActive user then throw (UnauthorizedException ''user inactive'')
            else if ses_previousRefreshTokenHash session = Some incoming then
              revoke_replayed E (ses_id session) ''rotated_refresh_token_reused''
            else if ses_refreshTokenHash session \<noteq> Some incoming then
              throw (UnauthorizedException ''invalid refresh token'')
            else ret (session, user)))"

definition rotated_row :: "env \<Rightarrow> RotateParams \<Rightarrow> Session \<Rightarrow> Session" where
  "rotated_row E params x = x
     \<lparr> ses_previousRefreshTokenHash := Some (hashRefreshToken E (rtp_refreshToken params)),
       ses_refreshTokenHash := Some (hashRefreshToken E (rtp_nextRefreshToken params)),
       ses_refreshTokenVersion := ses_refreshTokenVersion x + 1, ses_lastSeenAt := app_now E,
       ses_ipAddress := (case rtp_ipAddress params of None \<Rightarrow> ses_ipAddress x | Some a \<Rightarrow> Some a),
       ses_userAgent := (case rtp_userAgent params of None \<Rightarrow> ses_userAgent x | Some a \<Rightarrow> Some a),
       ses_expiresAt := app_now E + REFRESH_TOKEN_TTL_SECONDS * 1000 \<rparr>"

definition rotatable :: "string \<Rightarrow> string \<Rightarrow> Session \<Rightarrow> bool" where
  "rotatable i h x \<longleftrightarrow> ses_id x = i \<and> ses_refreshTokenHash x = Some h \<and> ses_revokedAt x = None \<and>
     ses_status x = SessionStatus.ACTIVE"

definition rotate_commit :: "env \<Rightarrow> RotateParams \<Rightarrow> Session \<Rightarrow> (db, Session \<times> User) prog" where
  "rotate_commit E params session =
     bindp (prisma_updateMany sessions sessions_update
              (rotatable (ses_id session) (hashRefreshToken E (rtp_refreshToken params)))
              (rotated_row E params)) (\<lambda>count.
       if count \<noteq> 1 then revoke_replayed E (ses_id session) ''concurrent_rotation''
       else bindp (getSessionById (ses_id session)) (\<lambda>found.
         case found of None \<Rightarrow> throw (PrismaClientKnownRequestError ''P2025'') | Some x \<Rightarrow> ret x))"

definition rotateRefreshToken :: "env \<Rightarrow> RotateParams \<Rightarrow> (db, Session \<times> User) prog" where
  "rotateRefreshToken E params =
     bindp (rotate_lookup E params) (\<lambda>(session, user). rotate_commit E params session)"

section \<open>What the rows satisfy\<close>

text \<open>A session that is not active has no token left; an active one was never revoked.\<close>

definition session_ok :: "Session \<Rightarrow> bool" where
  "session_ok x \<longleftrightarrow>
     (if ses_status x = SessionStatus.ACTIVE then ses_revokedAt x = None
      else ses_refreshTokenHash x = None \<and> ses_previousRefreshTokenHash x = None \<and> ses_revokedAt x \<noteq> None)"

definition sessions_ok :: "db \<Rightarrow> bool" where
  "sessions_ok s \<longleftrightarrow> distinct (map ses_id (sessions s)) \<and> list_all session_ok (sessions s)"

lemma closed_fields [simp]:
  "ses_id (closed_row st instant reason x) = ses_id x" "ses_userId (closed_row st instant reason x) = ses_userId x"
  "ses_status (closed_row st instant reason x) = st" "ses_id (rotated_row E p x) = ses_id x"
  "ses_status (rotated_row E p x) = ses_status x" "ses_revokedAt (rotated_row E p x) = ses_revokedAt x"
  "ses_refreshTokenHash (rotated_row E p x) = Some (hashRefreshToken E (rtp_nextRefreshToken p))"
  "ses_refreshTokenHash (closed_row st instant reason x) = None"
  "ses_previousRefreshTokenHash (closed_row st instant reason x) = None"
  "ses_previousRefreshTokenHash (rotated_row E p x) = Some (hashRefreshToken E (rtp_refreshToken p))"
  "ses_userId (rotated_row E p x) = ses_userId x" "ses_deviceId (rotated_row E p x) = ses_deviceId x"
  "ses_deviceId (closed_row st instant reason x) = ses_deviceId x"
  "ses_expiresAt (rotated_row E p x) = app_now E + REFRESH_TOKEN_TTL_SECONDS * 1000"
  by (simp_all add: closed_row_def rotated_row_def)

lemma session_ok_closed: "st \<noteq> SessionStatus.ACTIVE \<Longrightarrow> session_ok (closed_row st instant reason x)"
  by (simp add: session_ok_def closed_row_def)

lemma session_ok_rotated: "ses_status x = SessionStatus.ACTIVE \<Longrightarrow> session_ok x \<Longrightarrow> session_ok (rotated_row E p x)"
  by (simp add: session_ok_def)

lemma sessions_ok_upd:
  assumes "sessions_ok s" and "\<And>x. ses_id (f x) = ses_id x" and "\<And>x. p x \<Longrightarrow> session_ok x \<Longrightarrow> session_ok (f x)"
  shows "sessions_ok (sessions_update (upd_where p f) s)"
  using assms by (auto simp: sessions_ok_def map_key_upd_where list_all_iff set_upd_where)

text \<open>
  A property of the sessions that every statement of the service keeps holds after every operation:
  the statements are the interface, the operations the client. It may hold only for the rotations that
  are \<open>allowed\<close>.
\<close>

locale session_law =
  fixes I :: "db \<Rightarrow> bool" and allowed :: "env \<Rightarrow> RotateParams \<Rightarrow> bool"
  assumes law_audit: "I s \<Longrightarrow> I (auth_audit_logs_update f s)"
    and law_close: "I s \<Longrightarrow> st \<noteq> SessionStatus.ACTIVE \<Longrightarrow> I (sessions_update (upd_where p (closed_row st instant reason)) s)"
    and law_rotate: "I s \<Longrightarrow> allowed E params \<Longrightarrow> I (sessions_update (upd_where (rotatable i h) (rotated_row E params)) s)"
    and law_create: "I s \<Longrightarrow> ses_id x \<notin> ses_id ` set (sessions s) \<Longrightarrow> session_ok x \<Longrightarrow> I (sessions_update (\<lambda>xs. xs @ [x]) s)"
begin

lemma keeps_session_audit: "keeps I (AuthAudit_log row)"
  by (rule keepsI) (auto intro: law_audit)

lemma keeps_session_reads: "keeps I (getSessionById i)" "keeps I (findByToken h)"
  by (simp_all add: keeps_def getSessionById_def findByToken_def)

lemma keeps_close:
  "st \<noteq> SessionStatus.ACTIVE \<Longrightarrow> keeps I (prisma_updateMany sessions sessions_update p (closed_row st instant reason))"
  "st \<noteq> SessionStatus.ACTIVE \<Longrightarrow> keeps I (prisma_update sessions sessions_update p (closed_row st instant reason))"
  by (rule keepsI, auto simp: prisma_updateMany_def prisma_update_def intro: law_close split: option.splits)+

lemma keeps_markExpired: "keeps I (markExpired E i)"
  unfolding markExpired_def by (intro keeps_rules keeps_session_audit keeps_session_reads keeps_close) simp

lemma keeps_revokeForReplay: "keeps I (revokeForReplay E i reason)"
  unfolding revokeForReplay_def by (intro keeps_rules keeps_close) simp

lemma keeps_revokeSession: "keeps I (revokeSession E u i reason allowAny)"
  unfolding revokeSession_def by (intro keeps_rules keeps_session_reads keeps_close) simp

lemma keeps_assertSessionUsable: "keeps I (assertSessionUsable E i)"
  unfolding assertSessionUsable_def by (intro keeps_rules keeps_session_reads keeps_markExpired)

lemma keeps_rotate_lookup: "keeps I (rotate_lookup E p)"
  unfolding rotate_lookup_def revoke_replayed_def Let_def
  by (intro keeps_rules keeps_session_reads keeps_markExpired keeps_revokeForReplay)

lemma keeps_rotate_commit:
  assumes "allowed E p"
  shows "keeps I (rotate_commit E p x)"
proof -
  have "keeps I (prisma_updateMany sessions sessions_update (rotatable i h) (rotated_row E p))" for i h
    using assms by (intro keepsI) (auto intro: law_rotate)
  then show ?thesis
    unfolding rotate_commit_def revoke_replayed_def
    by (intro keeps_rules keeps_session_reads keeps_revokeForReplay)
qed

lemma keeps_createSession: "keeps I (createSession E p)"
  by (rule keepsI) (auto simp: createSession_def prisma_create_def session_ok_def list_ex_iff split: if_splits
      intro!: law_create)

lemmas session_keeps = keeps_session_reads keeps_session_audit keeps_markExpired keeps_revokeForReplay
  keeps_revokeSession keeps_assertSessionUsable keeps_rotate_lookup keeps_rotate_commit keeps_createSession

end

lemma sessions_ok_rotate: "sessions_ok s \<Longrightarrow> sessions_ok (sessions_update (upd_where (rotatable i h) (rotated_row E p)) s)"
  by (rule sessions_ok_upd) (auto simp: rotatable_def intro: session_ok_rotated)

interpretation any_session: session_law sessions_ok allowed for allowed
proof unfold_locales
  show "sessions_ok s \<Longrightarrow> sessions_ok (auth_audit_logs_update f s)" for s f
    by (simp add: sessions_ok_def)
  show "sessions_ok s \<Longrightarrow> st \<noteq> SessionStatus.ACTIVE \<Longrightarrow> sessions_ok (sessions_update (upd_where p (closed_row st instant reason)) s)"
    for s st p instant reason by (rule sessions_ok_upd) (auto intro: session_ok_closed)
  show "sessions_ok s \<Longrightarrow> sessions_ok (sessions_update (upd_where (rotatable i h) (rotated_row E p)) s)" for s i h E p
    by (rule sessions_ok_rotate)
  show "sessions_ok s \<Longrightarrow> ses_id x \<notin> ses_id ` set (sessions s) \<Longrightarrow> session_ok x \<Longrightarrow>
      sessions_ok (sessions_update (\<lambda>xs. xs @ [x]) s)" for s x
    by (simp add: sessions_ok_def)
qed

text \<open>A session that was closed stays closed.\<close>

definition closed_session :: "string \<Rightarrow> db \<Rightarrow> bool" where
  "closed_session i s \<longleftrightarrow> sessions_ok s \<and> list_ex (\<lambda>x. ses_id x = i \<and> ses_status x \<noteq> SessionStatus.ACTIVE) (sessions s)"

lemma list_ex_upd_where: "list_ex P rs \<Longrightarrow> (\<And>x. P x \<Longrightarrow> p x \<Longrightarrow> P (f x)) \<Longrightarrow> list_ex P (upd_where p f rs)"
  by (induction rs) auto

interpretation one_session: session_law "closed_session i" allowed for i allowed
proof unfold_locales
  show "closed_session i s \<Longrightarrow> closed_session i (auth_audit_logs_update f s)" for s f
    by (simp add: closed_session_def sessions_ok_def)
  show "closed_session i s \<Longrightarrow> st \<noteq> SessionStatus.ACTIVE \<Longrightarrow> closed_session i (sessions_update (upd_where p (closed_row st instant reason)) s)"
    for s st p instant reason
    using any_session.law_close [of s st p instant reason] by (auto simp: closed_session_def intro!: list_ex_upd_where)
  show "closed_session i s \<Longrightarrow> closed_session i (sessions_update (upd_where (rotatable j h) (rotated_row E p)) s)" for s j h E p
    using sessions_ok_rotate [of s j h E p]
    by (auto simp: closed_session_def rotatable_def intro!: list_ex_upd_where)
  show "closed_session i s \<Longrightarrow> ses_id x \<notin> ses_id ` set (sessions s) \<Longrightarrow> session_ok x \<Longrightarrow>
      closed_session i (sessions_update (\<lambda>xs. xs @ [x]) s)" for s x
    using any_session.law_create [of s x] by (simp add: closed_session_def)
qed

section \<open>Runs\<close>

text \<open>
  Every operation of the service, the two halves of a rotation apart, by anyone at any time; the
  rotations are the allowed ones.
\<close>

inductive session_step :: "(env \<Rightarrow> RotateParams \<Rightarrow> bool) \<Rightarrow> db \<Rightarrow> db \<Rightarrow> bool" for allowed where
  step_create: "createSession E cp s = (rc, s') \<Longrightarrow> session_step allowed s s'"
| step_use: "assertSessionUsable E i s = (ru, s') \<Longrightarrow> session_step allowed s s'"
| step_lookup: "rotate_lookup E p s = (ru, s') \<Longrightarrow> session_step allowed s s'"
| step_commit: "rotate_commit E p x s = (ru, s') \<Longrightarrow> allowed E p \<Longrightarrow> session_step allowed s s'"
| step_revoke: "revokeSession E u i reason allowAny s = (rr, s') \<Longrightarrow> session_step allowed s s'"
| step_expire: "markExpired E i s = (rm, s') \<Longrightarrow> session_step allowed s s'"

abbreviation any_step :: "db \<Rightarrow> db \<Rightarrow> bool" where
  "any_step \<equiv> session_step (\<lambda>E p. True)"

context session_law begin

lemma session_step_keeps:
  assumes "session_step allowed s s'" and "I s"
  shows "I s'"
  using assms
proof (cases rule: session_step.cases)
  case (step_create E cp rc)
  then show ?thesis using assms(2) keepsD [OF keeps_createSession] by blast
next
  case (step_use E i ru)
  then show ?thesis using assms(2) keepsD [OF keeps_assertSessionUsable] by blast
next
  case (step_lookup E p ru)
  then show ?thesis using assms(2) keepsD [OF keeps_rotate_lookup] by blast
next
  case (step_commit E p x ru)
  then show ?thesis using assms(2) keepsD [OF keeps_rotate_commit] by blast
next
  case (step_revoke E u i reason allowAny rr)
  then show ?thesis using assms(2) keepsD [OF keeps_revokeSession] by blast
next
  case (step_expire E i rm)
  then show ?thesis using assms(2) keepsD [OF keeps_markExpired] by blast
qed

lemma session_steps_keep: "(session_step allowed)\<^sup>*\<^sup>* s s' \<Longrightarrow> I s \<Longrightarrow> I s'"
  by (induction rule: rtranclp_induct) (auto intro: session_step_keeps)

end

interpretation session_system: transition_system "\<lambda>s. sessions s = []" any_step sessions_ok
  by unfold_locales (simp add: sessions_ok_def, rule any_session.session_step_keeps)

section \<open>One token, one rotation\<close>

definition token_open :: "string \<Rightarrow> string \<Rightarrow> db \<Rightarrow> bool" where
  "token_open i h s \<longleftrightarrow> (\<exists>x\<in>set (sessions s). rotatable i h x)"

lemma rotate_commit_run:
  assumes "sessions_ok s"
  shows "rotate_commit E p x s =
    (if token_open (ses_id x) (hashRefreshToken E (rtp_refreshToken p)) s
     then bindp (getSessionById (ses_id x)) (\<lambda>found. case found of None \<Rightarrow> throw (PrismaClientKnownRequestError ''P2025'') | Some y \<Rightarrow> ret y)
       (sessions_update (upd_where (rotatable (ses_id x) (hashRefreshToken E (rtp_refreshToken p))) (rotated_row E p)) s)
     else (Inl (RefreshReplayError (ses_id x) ''concurrent_rotation''),
       sessions_update (upd_where (\<lambda>y. ses_id y = ses_id x \<and> ses_status y \<noteq> SessionStatus.REVOKED)
         (closed_row SessionStatus.REVOKED (app_now E) ''concurrent_rotation''))
         (sessions_update (upd_where (rotatable (ses_id x) (hashRefreshToken E (rtp_refreshToken p))) (rotated_row E p)) s)))"
proof -
  let ?r = "rotatable (ses_id x) (hashRefreshToken E (rtp_refreshToken p))"
  have d: "distinct (map ses_id (sessions s))" using assms by (simp add: sessions_ok_def)
  have "length (filter ?r (sessions s)) = (if token_open (ses_id x) (hashRefreshToken E (rtp_refreshToken p)) s then 1 else 0)"
  proof (cases "filter ?r (sessions s)")
    case Nil
    then show ?thesis by (auto simp: token_open_def filter_empty_conv)
  next
    case (Cons y ys)
    have m: "y \<in> set (filter ?r (sessions s))" by (simp add: Cons)
    have "distinct (filter ?r (sessions s))" using d by (simp add: distinct_map)
    moreover have "z = y" if "z \<in> set (filter ?r (sessions s))" for z
      using that m distinct_key_unique [OF d, of z y] by (auto simp: rotatable_def)
    ultimately have "ys = []" unfolding Cons by (cases ys) auto
    moreover from m have "token_open (ses_id x) (hashRefreshToken E (rtp_refreshToken p)) s"
      by (auto simp: token_open_def)
    ultimately show ?thesis by (simp add: Cons)
  qed
  then show ?thesis
    by (simp add: rotate_commit_def bindp_def revoke_replayed_def revokeForReplay_def seqp_def)
qed

definition known_session :: "string \<Rightarrow> db \<Rightarrow> bool" where
  "known_session i s \<longleftrightarrow> sessions_ok s \<and> i \<in> set (map ses_id (sessions s))"

interpretation known: session_law "known_session i" allowed for i allowed
proof unfold_locales
  show "known_session i s \<Longrightarrow> known_session i (auth_audit_logs_update f s)" for s f
    by (simp add: known_session_def sessions_ok_def)
  show "known_session i s \<Longrightarrow> st \<noteq> SessionStatus.ACTIVE \<Longrightarrow> known_session i (sessions_update (upd_where p (closed_row st instant reason)) s)"
    for s st p instant reason
    using any_session.law_close [of s st p instant reason] by (simp add: known_session_def map_key_upd_where)
  show "known_session i s \<Longrightarrow> known_session i (sessions_update (upd_where (rotatable j h) (rotated_row E p)) s)" for s j h E p
    using sessions_ok_rotate [of s j h E p] by (simp add: known_session_def map_key_upd_where)
  show "known_session i s \<Longrightarrow> ses_id x \<notin> ses_id ` set (sessions s) \<Longrightarrow> session_ok x \<Longrightarrow>
      known_session i (sessions_update (\<lambda>xs. xs @ [x]) s)" for s x
    using any_session.law_create [of s x] by (simp add: known_session_def)
qed

text \<open>A token that cannot be rotated stays so while no rotation draws it anew.\<close>

definition draws_other :: "string \<Rightarrow> env \<Rightarrow> RotateParams \<Rightarrow> bool" where
  "draws_other h E p \<longleftrightarrow> hashRefreshToken E (rtp_nextRefreshToken p) \<noteq> h"

definition spent_token :: "string \<Rightarrow> string \<Rightarrow> db \<Rightarrow> bool" where
  "spent_token i h s \<longleftrightarrow> known_session i s \<and> \<not> token_open i h s"

lemma rotated_not_open: "draws_other h E p \<Longrightarrow> \<not> rotatable i h (rotated_row E p x)"
  by (simp add: rotatable_def draws_other_def)

lemma spent_upd:
  assumes "spent_token i h s" and "known_session i (sessions_update (upd_where p f) s)" and "\<And>x. p x \<Longrightarrow> \<not> rotatable i h (f x)"
  shows "spent_token i h (sessions_update (upd_where p f) s)"
  using assms by (auto simp: spent_token_def token_open_def set_upd_where)

interpretation spent: session_law "spent_token i h" "draws_other h" for i h
proof unfold_locales
  show "spent_token i h s \<Longrightarrow> spent_token i h (auth_audit_logs_update f s)" for s f
    by (simp add: spent_token_def known.law_audit token_open_def)
  show "spent_token i h s \<Longrightarrow> st \<noteq> SessionStatus.ACTIVE \<Longrightarrow> spent_token i h (sessions_update (upd_where p (closed_row st instant reason)) s)"
    for s st p instant reason
    by (rule spent_upd) (auto simp: spent_token_def rotatable_def intro: known.law_close)
  show "spent_token i h s \<Longrightarrow> draws_other h E p \<Longrightarrow>
      spent_token i h (sessions_update (upd_where (rotatable j g) (rotated_row E p)) s)" for s j g E p
    by (rule spent_upd) (auto simp: spent_token_def rotated_not_open intro: known.law_rotate)
  show "spent_token i h s \<Longrightarrow> ses_id x \<notin> ses_id ` set (sessions s) \<Longrightarrow> session_ok x \<Longrightarrow>
      spent_token i h (sessions_update (\<lambda>xs. xs @ [x]) s)" for s x
    using known.law_create [of i s x] by (auto simp: spent_token_def token_open_def rotatable_def known_session_def)
qed

text \<open>Rotations of the token with hash \<open>h\<close> of session \<open>i\<close>, each towards a token of its own.\<close>

definition rotation_attempt :: "string \<Rightarrow> string \<Rightarrow> env \<times> RotateParams \<times> Session \<Rightarrow> db \<Rightarrow> bool \<times> db" where
  "rotation_attempt i h c s =
     (case c of (E, p, x) \<Rightarrow>
        if ses_id x = i \<and> hashRefreshToken E (rtp_refreshToken p) = h \<and> draws_other h E p
        then (case rotate_commit E p x s of (Inl e, s') \<Rightarrow> (False, s') | (Inr y, s') \<Rightarrow> (True, s'))
        else (False, s))"

lemma rotation_attempt_step:
  assumes "rotation_attempt i h c s = (b, s')"
  shows "s' = s \<or> session_step (draws_other h) s s'"
  using assms by (auto simp: rotation_attempt_def split: prod.splits if_splits sum.splits intro: step_commit)

lemma rotation_win:
  assumes ok: "sessions_ok s" and win: "rotation_attempt i h c s = (True, s')"
  shows "token_open i h s \<and> \<not> token_open i h s'"
proof -
  obtain E p x where c: "c = (E, p, x)" by (cases c)
  with win have x: "ses_id x = i" "hashRefreshToken E (rtp_refreshToken p) = h" "draws_other h E p"
    and "\<exists>y. rotate_commit E p x s = (Inr y, s')"
    by (auto simp: rotation_attempt_def split: if_splits prod.splits sum.splits)
  then have o': "token_open i h s" and s': "s' = sessions_update (upd_where (rotatable i h) (rotated_row E p)) s"
    by (auto simp: rotate_commit_run [OF ok] bindp_def getSessionById_def split: if_splits option.splits)
  moreover have "\<not> token_open i h s'"
    using x(3) by (auto simp: s' token_open_def set_upd_where rotated_not_open split: if_splits)
  ultimately show ?thesis by simp
qed

interpretation rotation_race: guarded_update "rotation_attempt i h" "session_step (draws_other h)" "known_session i" "token_open i h"
  for i h
proof unfold_locales
  show "known_session i s \<Longrightarrow> rotation_attempt i h c s = (b, s') \<Longrightarrow> known_session i s'" for s c b s'
    using rotation_attempt_step [of i h c s b s'] known.session_step_keeps by blast
  show "known_session i s \<Longrightarrow> session_step (draws_other h) s s' \<Longrightarrow> known_session i s'" for s s'
    by (rule known.session_step_keeps)
  show "known_session i s \<Longrightarrow> rotation_attempt i h c s = (True, s') \<Longrightarrow> token_open i h s" for s c s'
    using rotation_win [of s i h c s'] by (simp add: known_session_def)
  show "known_session i s \<Longrightarrow> rotation_attempt i h c s = (True, s') \<Longrightarrow> \<not> token_open i h s'" for s c s'
    using rotation_win [of s i h c s'] by (simp add: known_session_def)
  show "known_session i s \<Longrightarrow> rotation_attempt i h c s = (False, s') \<Longrightarrow> \<not> token_open i h s \<Longrightarrow> \<not> token_open i h s'" for s c s'
    using rotation_attempt_step [of i h c s False s'] spent.session_step_keeps [of h s s' i] by (auto simp: spent_token_def)
  show "known_session i s \<Longrightarrow> session_step (draws_other h) s s' \<Longrightarrow> \<not> token_open i h s \<Longrightarrow> \<not> token_open i h s'" for s s'
    using spent.session_step_keeps [of h s s' i] by (simp add: spent_token_def)
qed

section \<open>Replay\<close>

lemma with_owner_Some: "with_owner s x = Some (y, u) \<Longrightarrow> y = x \<and> find (\<lambda>u. usr_id u = ses_userId x) (users s) = Some u"
  by (auto simp: with_owner_def)

lemma revoke_replayed_run:
  "revoke_replayed E i reason s = (Inl (RefreshReplayError i reason), sessions_update
     (upd_where (\<lambda>x. ses_id x = i \<and> ses_status x \<noteq> SessionStatus.REVOKED)
       (closed_row SessionStatus.REVOKED (app_now E) reason)) s)"
  by (simp add: revoke_replayed_def revokeForReplay_def seqp_def bindp_def)

text \<open>A rotation that succeeds, and what it leaves.\<close>

lemma rotate_Inr:
  assumes "rotateRefreshToken E p s = (Inr (y, u), s')" and "sessions_ok s"
  obtains x where "x \<in> set (sessions s)" "has_token (hashRefreshToken E (rtp_refreshToken p)) x"
    "rotatable (ses_id x) (hashRefreshToken E (rtp_refreshToken p)) x" "y = rotated_row E p x"
    "ses_deviceId x = rtp_deviceId p" "usr_isActive u" "app_now E \<le> ses_expiresAt x"
    "find (\<lambda>u. usr_id u = ses_userId x) (users s) = Some u"
    "s' = sessions_update (upd_where (rotatable (ses_id x) (hashRefreshToken E (rtp_refreshToken p))) (rotated_row E p)) s"
proof -
  let ?h = "hashRefreshToken E (rtp_refreshToken p)"
  from assms(1) obtain x v s1 where l: "rotate_lookup E p s = (Inr (x, v), s1)" and c: "rotate_commit E p x s1 = (Inr (y, u), s')"
    by (auto simp: rotateRefreshToken_def prog_inv split: prod.splits)
  from l have f: "find (has_token ?h) (sessions s) = Some x" and ow: "with_owner s x = Some (x, v)" and "s1 = s"
    and x: "ses_deviceId x = rtp_deviceId p" "app_now E \<le> ses_expiresAt x" "usr_isActive v"
    by (auto simp: rotate_lookup_def Let_def findByToken_def bindp_def revoke_replayed_run seqp_def markExpired_def
        bind_eq_Some_conv dest: with_owner_Some split: option.splits if_splits prod.splits sum.splits)
  note xs = find_Some_iff2 [OF f]
  from c \<open>s1 = s\<close> have o': "token_open (ses_id x) ?h s" and
    s': "s' = sessions_update (upd_where (rotatable (ses_id x) ?h) (rotated_row E p)) s" and
    g: "Option.bind (find (\<lambda>z. ses_id z = ses_id x) (sessions s')) (with_owner s') = Some (y, u)"
    by (auto simp: rotate_commit_run [OF assms(2)] bindp_def getSessionById_def split: if_splits option.splits)
  have d: "distinct (map ses_id (sessions s))" using assms(2) by (simp add: sessions_ok_def)
  from o' xs d have r: "rotatable (ses_id x) ?h x"
    by (auto simp: token_open_def rotatable_def dest: distinct_key_unique)
  have "find (\<lambda>z. ses_id z = ses_id x) (sessions s') = Some (rotated_row E p x)"
    using find_distinct_key [OF d, of x] xs r
    by (simp add: s' find_upd_where_same rotatable_def)
  with g have y: "y = rotated_row E p x" and u: "find (\<lambda>u. usr_id u = ses_userId x) (users s) = Some u"
    by (auto simp: with_owner_def s')
  moreover from ow u have "v = u" by (simp add: with_owner_def)
  ultimately show thesis using that xs r x s' by blast
qed

lemma closed_session_unusable:
  assumes "closed_session i t"
  shows "\<exists>e t'. assertSessionUsable E i t = (Inl e, t')"
    and "rotateRefreshToken E p t = (Inr (y, u), t') \<Longrightarrow> ses_id y \<noteq> i"
proof -
  have d: "distinct (map ses_id (sessions t))" and ok: "sessions_ok t"
    using assms by (auto simp: closed_session_def sessions_ok_def)
  from assms obtain x where x: "x \<in> set (sessions t)" "ses_id x = i" "ses_status x \<noteq> SessionStatus.ACTIVE"
    by (auto simp: closed_session_def list_ex_iff)
  have "find (\<lambda>z. ses_id z = i) (sessions t) = Some x"
    using find_distinct_key [OF d x(1)] x(2) by simp
  then show "\<exists>e t'. assertSessionUsable E i t = (Inl e, t')"
    using x(3) by (auto simp: assertSessionUsable_def getSessionById_def with_owner_def bindp_def seqp_def markExpired_def
        split: option.splits)
  assume "rotateRefreshToken E p t = (Inr (y, u), t')"
  then obtain z where "z \<in> set (sessions t)" "ses_status z = SessionStatus.ACTIVE" "y = rotated_row E p z"
    using ok by (elim rotate_Inr) (auto simp: rotatable_def)
  with x d show "ses_id y \<noteq> i" by (auto dest: distinct_key_unique)
qed

section \<open>Properties\<close>

text \<open>
  Logging out is final. Once a session is revoked or expired, whatever sequence of operations
  follows, it is refused wherever a session is required, and no refresh token, its own latest
  included, rotates it again.
\<close>

theorem closed_session_is_dead:
  assumes "sessions_ok s" and "x \<in> set (sessions s)" and "ses_status x \<noteq> SessionStatus.ACTIVE" and "any_step\<^sup>*\<^sup>* s t"
  shows "(\<exists>e t'. assertSessionUsable E (ses_id x) t = (Inl e, t')) \<and>
    (\<forall>p y u t'. rotateRefreshToken E p t = (Inr (y, u), t') \<longrightarrow> ses_id y \<noteq> ses_id x)"
proof -
  have "closed_session (ses_id x) s" using assms by (auto simp: closed_session_def list_ex_iff)
  with assms(4) have "closed_session (ses_id x) t" by (rule one_session.session_steps_keep)
  then show ?thesis using closed_session_unusable by blast
qed

text \<open>
  C33: A refresh token rotates its session at most once, however many clients present it at the same
  time and whatever else happens, as long as no later rotation draws the same token again.
\<close>

theorem refresh_token_used_once:
  assumes "sessions_ok s" and "i \<in> set (map ses_id (sessions s))"
    and "guarded_update.race (rotation_attempt i h) (session_step (draws_other h)) s n t"
  shows "n \<le> 1"
  using rotation_race.at_most_one_win [OF _ assms(3)] assms(1,2) by (simp add: known_session_def)

text \<open>
  C34: A token that was just rotated gives itself away. When the next thing that happens to the sessions
  is that the same token is presented again, before its session expires, the request fails as a replay
  and the session is revoked, the token that replaced it included; from another device the reason is the
  device, otherwise the reuse. Only the last rotation leaves a marker: see the lemma after this one for an
  older token.
\<close>

theorem reused_token_revokes_session:
  assumes "sessions_ok s" and "rotateRefreshToken E p s = (Inr (y, u), s1)" and "draws_other (hashRefreshToken E (rtp_refreshToken p)) E p"
    and "\<forall>z\<in>set (sessions s). has_token (hashRefreshToken E (rtp_refreshToken p)) z \<longrightarrow> ses_id z = ses_id y"
    and "rtp_refreshToken q = rtp_refreshToken p" and "sha256 E' = sha256 E" and "app_now E' \<le> ses_expiresAt y"
  shows "\<exists>s2. rotateRefreshToken E' q s1 = (Inl (RefreshReplayError (ses_id y)
      (if rtp_deviceId q = rtp_deviceId p then ''rotated_refresh_token_reused'' else ''device_mismatch'')), s2) \<and>
    closed_session (ses_id y) s2"
proof -
  let ?r = "if rtp_deviceId q = rtp_deviceId p then ''rotated_refresh_token_reused'' else ''device_mismatch''"
  let ?h = "hashRefreshToken E (rtp_refreshToken p)"
  from assms(2,1) obtain x where x: "x \<in> set (sessions s)" "rotatable (ses_id x) ?h x" "y = rotated_row E p x"
      "ses_deviceId x = rtp_deviceId p" "usr_isActive u" "find (\<lambda>u. usr_id u = ses_userId x) (users s) = Some u"
    and s1: "s1 = sessions_update (upd_where (rotatable (ses_id x) ?h) (rotated_row E p)) s"
    by (rule rotate_Inr)
  have ok1: "sessions_ok s1" unfolding s1 by (rule sessions_ok_rotate [OF assms(1)])
  have d1: "distinct (map ses_id (sessions s1))" using ok1 by (simp add: sessions_ok_def)
  have y1: "y \<in> set (sessions s1)" using upd_where_mem [OF x(1), of "rotatable (ses_id x) ?h" "rotated_row E p"] x(2,3)
    by (simp add: s1)
  have id: "ses_id z = ses_id y" if "z \<in> set (sessions s1)" "has_token ?h z" for z
    using that assms(4) x by (auto simp: s1 set_upd_where rotatable_def split: if_splits)
  have "has_token ?h y" using x(3) by (simp add: has_token_def rotatable_def)
  with y1 have "list_ex (has_token ?h) (sessions s1)" by (auto simp: list_ex_iff)
  then obtain z where z: "find (has_token ?h) (sessions s1) = Some z"
    by (cases "find (has_token ?h) (sessions s1)") (auto simp: find_None_list_ex)
  then have "z = y" using id find_Some_iff2 [OF z] y1 d1 by (auto dest: distinct_key_unique)
  have st: "ses_status y = SessionStatus.ACTIVE" using x(2,3) by (simp add: rotatable_def)
  have ow: "with_owner s1 y = Some (y, u)" using x(3,6) by (simp add: with_owner_def s1)
  have h: "hashRefreshToken E' (rtp_refreshToken q) = ?h" using assms(5,6) by (simp add: hashRefreshToken_def)
  have ne: "ses_refreshTokenHash y \<noteq> Some ?h" "ses_previousRefreshTokenHash y = Some ?h" "ses_deviceId y = rtp_deviceId p"
    using assms(3) x(3,4) by (auto simp: draws_other_def)
  have "rotateRefreshToken E' q s1 = revoke_replayed E' (ses_id y) ?r s1"
    using z \<open>z = y\<close> ow ne st assms(7) x(5)
    by (simp add: rotateRefreshToken_def rotate_lookup_def Let_def h findByToken_def bindp_def revoke_replayed_run)
  moreover have "closed_session (ses_id y) (snd (revoke_replayed E' (ses_id y) ?r s1))"
  proof -
    let ?p = "\<lambda>x. ses_id x = ses_id y \<and> ses_status x \<noteq> SessionStatus.REVOKED"
    let ?f = "closed_row SessionStatus.REVOKED (app_now E') ?r"
    have "?f y \<in> set (upd_where ?p ?f (sessions s1))" using upd_where_mem [OF y1, of ?p ?f] st by simp
    moreover have "sessions_ok (sessions_update (upd_where ?p ?f) s1)"
      using any_session.law_close [OF ok1, of SessionStatus.REVOKED] by simp
    ultimately show ?thesis
      by (auto simp: revoke_replayed_run closed_session_def list_ex_iff intro!: bexI [of _ "?f y"])
  qed
  ultimately show ?thesis by (simp add: revoke_replayed_run)
qed

text \<open>
  The marker is a single token deep. Once the owner has rotated again, with the token that replaced it,
  the first token is merely unknown: it is refused and nothing is revoked.
\<close>

lemma twice_rotated_token_is_only_refused:
  assumes "sessions_ok s" and r1: "rotateRefreshToken E1 p1 s = (Inr (y1, u1), s1)"
    and r2: "rotateRefreshToken E2 p2 s1 = (Inr (y2, u2), s2)" and same: "ses_id y2 = ses_id y1"
    and only: "\<forall>z\<in>set (sessions s). has_token h z \<longrightarrow> ses_id z = ses_id y1"
    and h: "h = hashRefreshToken E (rtp_refreshToken q)" "h \<noteq> hashRefreshToken E2 (rtp_refreshToken p2)"
    and "draws_other h E1 p1" and "draws_other h E2 p2"
  shows "rotateRefreshToken E q s2 = (Inl (UnauthorizedException ''invalid refresh token''), s2)"
proof -
  from r1 assms(1) obtain x where x: "y1 = rotated_row E1 p1 x" "x \<in> set (sessions s)"
    and s1: "s1 = sessions_update (upd_where (rotatable (ses_id x) (hashRefreshToken E1 (rtp_refreshToken p1))) (rotated_row E1 p1)) s"
    by (rule rotate_Inr)
  have ok1: "sessions_ok s1" unfolding s1 by (rule sessions_ok_rotate [OF assms(1)])
  from r2 ok1 obtain z where z: "z \<in> set (sessions s1)" "rotatable (ses_id z) (hashRefreshToken E2 (rtp_refreshToken p2)) z"
      "y2 = rotated_row E2 p2 z"
    and s2: "s2 = sessions_update (upd_where (rotatable (ses_id z) (hashRefreshToken E2 (rtp_refreshToken p2))) (rotated_row E2 p2)) s1"
    by (rule rotate_Inr)
  have id: "ses_id v = ses_id z" if "v \<in> set (sessions s1)" "has_token h v" for v
    using that only x(1) z(3) same by (auto simp: s1 set_upd_where rotatable_def split: if_splits)
  have "\<not> has_token h v" if v: "v \<in> set (sessions s2)" for v
  proof
    assume hv: "has_token h v"
    from v obtain w where w: "w \<in> set (sessions s1)"
      "v = (if rotatable (ses_id z) (hashRefreshToken E2 (rtp_refreshToken p2)) w then rotated_row E2 p2 w else w)"
      by (auto simp: s2 set_upd_where)
    show False
    proof (cases "w = z")
      case True
      with w z(2) hv h(2) assms(9) show False by (auto simp: has_token_def draws_other_def)
    next
      case False
      with w(1) z(1) ok1 have "ses_id w \<noteq> ses_id z" by (auto simp: sessions_ok_def dest: distinct_key_unique)
      with w hv id [OF w(1)] show False by (auto simp: rotatable_def)
    qed
  qed
  then have "find (has_token h) (sessions s2) = None" by (auto simp: find_None_iff)
  then show ?thesis
    by (simp add: rotateRefreshToken_def rotate_lookup_def Let_def h(1) [symmetric] findByToken_def bindp_def)
qed

section \<open>Examples\<close>

definition ex_session_env :: env where
  "ex_session_env = \<lparr> app_now = 5000, db_now = 5000, uuid = (\<lambda>n. replicate n CHR ''u''),
     sha256 = (\<lambda>x. ''h'' @ x), tx_usable_after_error = False \<rparr>"

definition ex_login :: CreateSessionParams where
  "ex_login = \<lparr> csp_sessionId = ''s1'', csp_userId = ''u1'', csp_deviceId = ''d'', csp_refreshToken = ''t1'',
     csp_userAgent = None, csp_ipAddress = None \<rparr>"

definition ex_rotate :: RotateParams where
  "ex_rotate = \<lparr> rtp_refreshToken = ''t1'', rtp_deviceId = ''d'', rtp_nextRefreshToken = ''t2'',
     rtp_ipAddress = None, rtp_userAgent = None \<rparr>"

definition ex_session_user :: User where
  "ex_session_user = \<lparr> usr_id = ''u1'', usr_email = ''a@b'', usr_passwordHash = ''x'', usr_role = UserRole.CUSTOMER,
     usr_isActive = True, usr_emailVerifiedAt = Some 1 \<rparr>"

definition ex_sessions :: db where
  "ex_sessions = snd (createSession ex_session_env ex_login (empty_db\<lparr> users := [ex_session_user] \<rparr>))"

lemmas ex_session_defs = ex_sessions_def ex_session_user_def ex_rotate_def ex_login_def ex_session_env_def
  createSession_def empty_db_def hashRefreshToken_def

lemma ex_sessions_ok: "sessions_ok ex_sessions"
  by (simp add: sessions_ok_def session_ok_def ex_session_defs prisma_create_def)

lemma ex_rotates:
  "\<exists>y u s1. rotateRefreshToken ex_session_env ex_rotate ex_sessions = (Inr (y, u), s1) \<and> ses_id y = ''s1'' \<and>
     5000 \<le> ses_expiresAt y"
  by (simp add: rotateRefreshToken_def rotate_lookup_def rotate_commit_def Let_def
      findByToken_def with_owner_def getSessionById_def bindp_def rotatable_def has_token_def rotated_row_def
      REFRESH_TOKEN_TTL_SECONDS_def ex_session_defs prisma_create_def)

lemma reused_token_revokes_session_witness:
  "\<exists>s1 s2 s3. rotateRefreshToken ex_session_env ex_rotate s1 =
     (Inl (RefreshReplayError ''s1'' ''rotated_refresh_token_reused''), s2) \<and> closed_session ''s1'' s2 \<and>
   rotateRefreshToken ex_session_env (ex_rotate\<lparr> rtp_deviceId := ''other'' \<rparr>) s1 =
     (Inl (RefreshReplayError ''s1'' ''device_mismatch''), s3) \<and> closed_session ''s1'' s3"
proof -
  from ex_rotates obtain y u s1 where r: "rotateRefreshToken ex_session_env ex_rotate ex_sessions = (Inr (y, u), s1)"
    "ses_id y = ''s1''" "5000 \<le> ses_expiresAt y" by blast
  have u: "\<forall>z\<in>set (sessions ex_sessions). ses_id z = ''s1''"
    by (simp add: ex_session_defs prisma_create_def)
  have d: "draws_other (hashRefreshToken ex_session_env (rtp_refreshToken ex_rotate)) ex_session_env ex_rotate"
    by (simp add: draws_other_def ex_session_defs)
  have "\<exists>s2. rotateRefreshToken ex_session_env q s1 = (Inl (RefreshReplayError (ses_id y)
      (if rtp_deviceId q = rtp_deviceId ex_rotate then ''rotated_refresh_token_reused'' else ''device_mismatch'')), s2) \<and>
     closed_session (ses_id y) s2" if "rtp_refreshToken q = rtp_refreshToken ex_rotate" for q
    using r u by (intro reused_token_revokes_session [OF ex_sessions_ok r(1) d _ that]) (simp_all add: ex_session_env_def)
  from this [of ex_rotate] this [of "ex_rotate\<lparr> rtp_deviceId := ''other'' \<rparr>"] r(2) obtain s2 s3 where
    "rotateRefreshToken ex_session_env ex_rotate s1 = (Inl (RefreshReplayError ''s1'' ''rotated_refresh_token_reused''), s2) \<and>
       closed_session ''s1'' s2"
    "rotateRefreshToken ex_session_env (ex_rotate\<lparr> rtp_deviceId := ''other'' \<rparr>) s1 =
       (Inl (RefreshReplayError ''s1'' ''device_mismatch''), s3) \<and> closed_session ''s1'' s3"
    by (auto simp: ex_rotate_def)
  then show ?thesis by blast
qed

lemma refresh_token_used_once_witness:
  "(1::nat) \<le> 1 \<and> (\<exists>t. guarded_update.race (rotation_attempt ''s1'' ''ht1'') (session_step (draws_other ''ht1'')) ex_sessions 1 t)"
proof -
  from ex_sessions_ok have i: "''s1'' \<in> set (map ses_id (sessions ex_sessions))"
    by (simp add: ex_session_defs prisma_create_def)
  define x where "x = hd (sessions ex_sessions)"
  have "fst (rotation_attempt ''s1'' ''ht1'' (ex_session_env, ex_rotate, x) ex_sessions)"
    by (simp add: x_def rotation_attempt_def draws_other_def rotate_commit_def
      getSessionById_def with_owner_def bindp_def rotatable_def rotated_row_def ex_session_defs prisma_create_def)
  then have "rotation_attempt ''s1'' ''ht1'' (ex_session_env, ex_rotate, x) ex_sessions =
      (True, snd (rotation_attempt ''s1'' ''ht1'' (ex_session_env, ex_rotate, x) ex_sessions))" by (simp add: prod_eq_iff)
  from rotation_race.race.race_win [OF rotation_race.race.race_start this]
  have r: "guarded_update.race (rotation_attempt ''s1'' ''ht1'') (session_step (draws_other ''ht1'')) ex_sessions 1
      (snd (rotation_attempt ''s1'' ''ht1'' (ex_session_env, ex_rotate, x) ex_sessions))" by simp
  with refresh_token_used_once [OF ex_sessions_ok i r] show ?thesis by blast
qed

lemma closed_session_is_dead_witness:
  "\<exists>e t'. assertSessionUsable ex_session_env ''s1''
     (sessions_update (map (closed_row SessionStatus.REVOKED 5000 ''logout'')) ex_sessions) = (Inl e, t')"
proof -
  define x where "x = hd (sessions ex_sessions)"
  let ?s = "sessions_update (map (closed_row SessionStatus.REVOKED 5000 ''logout'')) ex_sessions"
  have x: "sessions ex_sessions = [x]" "ses_id x = ''s1''" by (simp_all add: x_def ex_session_defs prisma_create_def)
  then have "sessions_ok ?s" by (simp add: sessions_ok_def session_ok_closed)
  moreover have "closed_row SessionStatus.REVOKED 5000 ''logout'' x \<in> set (sessions ?s)" by (simp add: x)
  ultimately show ?thesis
    using closed_session_is_dead [of ?s "closed_row SessionStatus.REVOKED 5000 ''logout'' x" ?s ex_session_env] x(2) by simp
qed

end
