(* ===== verification/Auth.thy ===== *)
theory Auth
  imports Sessions
begin

text \<open>
  Sign-up, login, refresh, logout and the access-token strategy (\<^verbatim>\<open>src/auth/auth.service.ts\<close>,
  \<^verbatim>\<open>src/auth/token.service.ts\<close>, \<^verbatim>\<open>src/auth/strategies/access-token.strategy.ts\<close>,
  \<^verbatim>\<open>src/users/users.service.ts\<close>).

  bcrypt, the JWT library and the random bytes of a refresh token are the fields of \<open>auth_lib\<close>, an
  argument of every definition that uses them. A handler draws its identifiers in order: number 0 is
  the row identifier of a new user, 1 the session, 2 the \<open>jti\<close> of the access token.
\<close>

section \<open>Parameters\<close>

record JwtPayload =
  jwt_sub :: string
  jwt_email :: string
  jwt_role :: UserRole
  jwt_sessionId :: string
  jwt_jti :: string
  jwt_type :: string

record auth_lib =
  bcrypt_hash :: "string \<Rightarrow> string"
  bcrypt_compare :: "string \<Rightarrow> string \<Rightarrow> bool"
  jwt_sign :: "JwtPayload \<Rightarrow> int \<Rightarrow> int \<Rightarrow> string"
  jwt_verify :: "string \<Rightarrow> int \<Rightarrow> JwtPayload option"
  refresh_bytes :: string

text \<open>
  What the JWT library promises of a token signed at \<open>t\<close> to live \<open>ttl\<close> seconds: it verifies to its
  payload while it lives and is refused afterwards. Instants are milliseconds; the library counts in
  whole seconds, the issue and the moment of the check both rounded down, so that a token lives up to
  a second less than its \<open>ttl\<close>.
\<close>

definition jwt_lives :: "int \<Rightarrow> int \<Rightarrow> int \<Rightarrow> bool" where
  "jwt_lives t ttl t' \<longleftrightarrow> t' div 1000 < t div 1000 + ttl"

definition jwt_reads_back :: "auth_lib \<Rightarrow> bool" where
  "jwt_reads_back L \<longleftrightarrow>
     (\<forall>p t ttl t'. 0 \<le> t \<and> t \<le> t' \<and> 0 < ttl \<longrightarrow>
        jwt_verify L (jwt_sign L p t ttl) t' = (if jwt_lives t ttl t' then Some p else None))"

section \<open>Users\<close>

definition normalizeEmail :: "string \<Rightarrow> string" where
  "normalizeEmail email = toLowerCase (js_trim email)"

definition findByEmail :: "string \<Rightarrow> (db, User option) prog" where
  "findByEmail email = prisma_find users (\<lambda>u. usr_email u = normalizeEmail email)"

definition createUser :: "env \<Rightarrow> string \<Rightarrow> string \<Rightarrow> UserRole \<Rightarrow> (db, User) prog" where
  "createUser E email passwordHash role =
     catchp (prisma_create users users_update (\<lambda>x y. usr_id x = usr_id y \<or> usr_email x = usr_email y)
               \<lparr> usr_id = uuid E 0, usr_email = normalizeEmail email, usr_passwordHash = passwordHash,
                 usr_role = role, usr_isActive = True, usr_emailVerifiedAt = None \<rparr>)
       (\<lambda>error. if error = PrismaClientKnownRequestError ''P2002''
                then throw (ConflictException ''email already registered'') else throw error)"

definition setActive :: "string \<Rightarrow> bool \<Rightarrow> (db, User) prog" where
  "setActive userId isActive =
     prisma_update users users_update (\<lambda>u. usr_id u = userId) (\<lambda>u. u\<lparr> usr_isActive := isActive \<rparr>)"

section \<open>Requests\<close>

datatype header_value = HeaderText string | HeaderList "string list"

record http_request =
  req_forwardedFor :: "header_value option"
  req_userAgent :: "header_value option"
  req_ip :: "string option"

definition before_comma :: "string \<Rightarrow> string" where
  "before_comma x = js_trim (takeWhile (\<lambda>c. c \<noteq> CHR '','') x)"

definition ip :: "http_request \<Rightarrow> string option" where
  "ip req =
     (case req_forwardedFor req of
        None \<Rightarrow> req_ip req
      | Some (HeaderList []) \<Rightarrow> None
      | Some (HeaderList (x # xs)) \<Rightarrow> Some (before_comma x)
      | Some (HeaderText x) \<Rightarrow> Some (before_comma x))"

definition userAgent :: "http_request \<Rightarrow> string option" where
  "userAgent req =
     (case req_userAgent req of
        None \<Rightarrow> None
      | Some (HeaderList []) \<Rightarrow> None
      | Some (HeaderList (x # xs)) \<Rightarrow> Some x
      | Some (HeaderText x) \<Rightarrow> Some x)"

section \<open>Tokens\<close>

definition ACCESS_TOKEN_TTL_SECONDS :: int where
  "ACCESS_TOKEN_TTL_SECONDS = 15 * 60"

record issued_token =
  itk_token :: string
  itk_expiresIn :: int

definition issueAccessToken :: "auth_lib \<Rightarrow> env \<Rightarrow> User \<Rightarrow> string \<Rightarrow> issued_token" where
  "issueAccessToken L E user sessionId =
     \<lparr> itk_token = jwt_sign L
         \<lparr> jwt_sub = usr_id user, jwt_email = usr_email user, jwt_role = usr_role user,
           jwt_sessionId = sessionId, jwt_jti = uuid E 2, jwt_type = ''access'' \<rparr>
         (app_now E) ACCESS_TOKEN_TTL_SECONDS,
       itk_expiresIn = ACCESS_TOKEN_TTL_SECONDS \<rparr>"

definition issueRefreshToken :: "auth_lib \<Rightarrow> issued_token" where
  "issueRefreshToken L = \<lparr> itk_token = refresh_bytes L, itk_expiresIn = REFRESH_TOKEN_TTL_SECONDS \<rparr>"

section \<open>Sign-up and login\<close>

record AuthResponse =
  are_id :: string
  are_email :: string
  are_role :: UserRole
  are_emailVerifiedAt :: "int option"
  are_sessionId :: string
  are_accessToken :: string
  are_accessTokenExpiresIn :: int
  are_refreshToken :: string
  are_refreshTokenExpiresIn :: int

definition authResponse :: "User \<Rightarrow> string \<Rightarrow> issued_token \<Rightarrow> issued_token \<Rightarrow> AuthResponse" where
  "authResponse user sessionId access refresh =
     \<lparr> are_id = usr_id user, are_email = usr_email user, are_role = usr_role user,
       are_emailVerifiedAt = usr_emailVerifiedAt user, are_sessionId = sessionId,
       are_accessToken = itk_token access, are_accessTokenExpiresIn = itk_expiresIn access,
       are_refreshToken = itk_token refresh, are_refreshTokenExpiresIn = itk_expiresIn refresh \<rparr>"

text \<open>An audit row of a request; the fields an operation leaves out are filled by its caller.\<close>

definition request_audit :: "AuthAuditAction \<Rightarrow> bool \<Rightarrow> http_request \<Rightarrow> AuthAuditLog" where
  "request_audit action success req =
     \<lparr> aal_userId = None, aal_action = action, aal_email = None, aal_sessionId = None,
       aal_ipAddress = ip req, aal_userAgent = userAgent req, aal_success = success,
       aal_reason = None, aal_metadata = None \<rparr>"

definition issueSession ::
  "auth_lib \<Rightarrow> env \<Rightarrow> User \<Rightarrow> string \<Rightarrow> http_request \<Rightarrow> AuthAuditAction \<Rightarrow> (db, AuthResponse) prog" where
  "issueSession L E user deviceId req action =
     (let sessionId = uuid E 1; refresh = issueRefreshToken L; access = issueAccessToken L E user sessionId in
      bindp (createSession E \<lparr> csp_sessionId = sessionId, csp_userId = usr_id user, csp_deviceId = deviceId,
               csp_refreshToken = itk_token refresh, csp_userAgent = userAgent req, csp_ipAddress = ip req \<rparr>)
        (\<lambda>session.
      seqp (AuthAudit_log ((request_audit action True req)
              \<lparr> aal_userId := Some (usr_id user), aal_email := Some (usr_email user),
                aal_sessionId := Some sessionId \<rparr>))
        (ret (authResponse user sessionId access refresh))))"

record SignupDto =
  sgn_email :: string
  sgn_password :: string
  sgn_deviceId :: string

definition signup :: "auth_lib \<Rightarrow> env \<Rightarrow> SignupDto \<Rightarrow> http_request \<Rightarrow> (db, AuthResponse) prog" where
  "signup L E dto req =
     bindp (findByEmail (sgn_email dto)) (\<lambda>existing.
       if existing \<noteq> None then throw (ConflictException ''email already registered'')
       else bindp (createUser E (sgn_email dto) (bcrypt_hash L (sgn_password dto)) CUSTOMER) (\<lambda>user.
         issueSession L E user (sgn_deviceId dto) req SIGNUP))"

record LoginDto =
  lgn_email :: string
  lgn_password :: string
  lgn_deviceId :: string

definition refuse_login ::
  "http_request \<Rightarrow> string option \<Rightarrow> string \<Rightarrow> string \<Rightarrow> string \<Rightarrow> (db, 'a) prog" where
  "refuse_login req userId email reason message =
     seqp (AuthAudit_log ((request_audit AUTH_FAILURE False req)
             \<lparr> aal_userId := userId, aal_email := Some email, aal_reason := Some reason \<rparr>))
       (throw (UnauthorizedException message))"

definition login :: "auth_lib \<Rightarrow> env \<Rightarrow> LoginDto \<Rightarrow> http_request \<Rightarrow> (db, AuthResponse) prog" where
  "login L E dto req =
     bindp (findByEmail (lgn_email dto)) (\<lambda>found.
       case found of
         None \<Rightarrow> refuse_login req None (toLowerCase (js_trim (lgn_email dto))) ''user_not_found'' ''invalid credentials''
       | Some user \<Rightarrow>
           if \<not> bcrypt_compare L (lgn_password dto) (usr_passwordHash user) then
             refuse_login req (Some (usr_id user)) (usr_email user) ''invalid_password'' ''invalid credentials''
           else if \<not> usr_isActive user then
             refuse_login req (Some (usr_id user)) (usr_email user) ''inactive_user'' ''inactive user''
           else issueSession L E user (lgn_deviceId dto) req LOGIN)"

section \<open>Refresh\<close>

definition refresh_failed ::
  "http_request \<Rightarrow> app_error \<Rightarrow> (db, Session \<times> User) prog" where
  "refresh_failed req error =
     (case error of
        RefreshReplayError sessionId reason \<Rightarrow>
          bindp (getSessionById sessionId) (\<lambda>replayed.
          seqp (AuthAudit_log ((request_audit REFRESH_REPLAY_DETECTED False req)
                  \<lparr> aal_userId := map_option (\<lambda>(x, u). ses_userId x) replayed,
                    aal_email := map_option (\<lambda>(x, u). usr_email u) replayed,
                    aal_sessionId := Some sessionId, aal_reason := Some reason,
                    aal_metadata := Some (JObj [(''reason'', JStr reason)]) \<rparr>))
            (throw (UnauthorizedException ''invalid refresh token'')))
      | _ \<Rightarrow>
          seqp (AuthAudit_log ((request_audit AUTH_FAILURE False req)\<lparr> aal_reason := Some (error_message error) \<rparr>))
            (throw error))"

definition refresh ::
  "auth_lib \<Rightarrow> env \<Rightarrow> string \<Rightarrow> string \<Rightarrow> http_request \<Rightarrow> (db, AuthResponse) prog" where
  "refresh L E refreshToken deviceId req =
     (let nextRefresh = issueRefreshToken L in
      bindp (catchp (rotateRefreshToken E \<lparr> rtp_refreshToken = refreshToken, rtp_deviceId = deviceId,
               rtp_nextRefreshToken = itk_token nextRefresh, rtp_ipAddress = ip req, rtp_userAgent = userAgent req \<rparr>)
               (refresh_failed req)) (\<lambda>(session, user).
        let access = issueAccessToken L E user (ses_id session) in
        seqp (AuthAudit_log ((request_audit REFRESH True req)
                \<lparr> aal_userId := Some (usr_id user), aal_email := Some (usr_email user),
                  aal_sessionId := Some (ses_id session) \<rparr>))
          (ret (authResponse user (ses_id session) access nextRefresh))))"

section \<open>Logout, revocation, and who I am\<close>

definition logout ::
  "env \<Rightarrow> AuthUser \<Rightarrow> string \<Rightarrow> string option \<Rightarrow> http_request \<Rightarrow> (db, unit) prog" where
  "logout E currentUser sessionId reason req =
     (let why = (case reason of None \<Rightarrow> ''logout'' | Some r \<Rightarrow> r) in
      bindp (Sessions.revokeSession E (atu_id currentUser) sessionId why False) (\<lambda>session.
        AuthAudit_log ((request_audit LOGOUT True req)
          \<lparr> aal_userId := Some (atu_id currentUser), aal_email := Some (atu_email currentUser),
            aal_sessionId := Some sessionId, aal_reason := Some why \<rparr>)))"

definition Auth_revokeSession ::
  "env \<Rightarrow> AuthUser \<Rightarrow> string \<Rightarrow> string option \<Rightarrow> http_request \<Rightarrow> (db, string) prog" where
  "Auth_revokeSession E currentUser sessionId reason req =
     (let why = (case reason of None \<Rightarrow> ''manual_revoke'' | Some r \<Rightarrow> r) in
      bindp (Sessions.revokeSession E (atu_id currentUser) sessionId why (atu_role currentUser = ADMIN)) (\<lambda>revoked.
        seqp (AuthAudit_log ((request_audit SESSION_REVOKED True req)
                \<lparr> aal_userId := Some (atu_id currentUser), aal_email := Some (atu_email currentUser),
                  aal_sessionId := Some (ses_id revoked), aal_reason := Some why,
                  aal_metadata := Some (JObj [(''revokedUserId'', JStr (ses_userId revoked))]) \<rparr>))
          (ret (ses_id revoked))))"

record MeResponse =
  mer_id :: string
  mer_email :: string
  mer_role :: UserRole
  mer_emailVerifiedAt :: "int option"
  mer_sessionId :: string

definition me :: "env \<Rightarrow> AuthUser \<Rightarrow> string \<Rightarrow> (db, MeResponse) prog" where
  "me E currentUser sessionId =
     bindp (assertSessionUsable E sessionId) (\<lambda>(session, user).
       if ses_userId session \<noteq> atu_id currentUser then
         throw (UnauthorizedException ''session does not belong to current user'')
       else seqp (AuthAudit_log
                    \<lparr> aal_userId = Some (atu_id currentUser), aal_action = ME_ACCESSED,
                      aal_email = Some (atu_email currentUser), aal_sessionId = Some (ses_id session),
                      aal_ipAddress = None, aal_userAgent = None, aal_success = True,
                      aal_reason = None, aal_metadata = None \<rparr>)
              (ret \<lparr> mer_id = atu_id currentUser, mer_email = atu_email currentUser, mer_role = atu_role currentUser,
                 mer_emailVerifiedAt = atu_emailVerifiedAt currentUser, mer_sessionId = ses_id session \<rparr>))"

section \<open>The access-token strategy\<close>

definition validate :: "env \<Rightarrow> JwtPayload \<Rightarrow> (db, AuthUser) prog" where
  "validate E payload =
     (if jwt_type payload \<noteq> ''access'' then throw (UnauthorizedException ''invalid access token'')
      else bindp (assertSessionUsable E (jwt_sessionId payload)) (\<lambda>(session, user).
        ret \<lparr> atu_id = usr_id user, atu_email = usr_email user, atu_role = jwt_role payload,
              atu_sessionId = ses_id session, atu_permissions = ROLE_PERMISSIONS (jwt_role payload),
              atu_emailVerifiedAt = usr_emailVerifiedAt user, atu_isActive = usr_isActive user \<rparr>))"

text \<open>
  Passport reads the bearer token, verifies it and hands the payload to \<open>validate\<close>; a token that does
  not verify, or none, is no user. The guard decides on the outcome.
\<close>

definition authenticate :: "auth_lib \<Rightarrow> env \<Rightarrow> string option \<Rightarrow> (db, AuthUser option) prog" where
  "authenticate L E bearer =
     (case Option.bind bearer (\<lambda>token. jwt_verify L token (app_now E)) of
        None \<Rightarrow> ret None
      | Some payload \<Rightarrow> bindp (validate E payload) (\<lambda>user. ret (Some user)))"

definition authorized :: "auth_lib \<Rightarrow> env \<Rightarrow> string option \<Rightarrow> db \<Rightarrow> (app_error + AuthUser option) \<times> db" where
  "authorized L E bearer s =
     (case authenticate L E bearer s of (result, s') \<Rightarrow> (JwtAuthGuard_canActivate False result, s'))"

section \<open>Runs\<close>

text \<open>
  What every statement of the session service keeps, every request of the authentication service
  keeps, if a new or changed user row does not matter.
\<close>

locale auth_law = session_law I "\<lambda>E p. True" for I +
  assumes law_users: "I s \<Longrightarrow> I (users_update f s)"
begin

lemma keeps_createUser: "keeps I (createUser E email h role)"
proof -
  have "keeps I (prisma_create users users_update c u)" for c u
    by (rule keepsI) (auto simp: prisma_create_def intro: law_users split: if_splits)
  then show ?thesis unfolding createUser_def by (intro keeps_rules)
qed

lemma keeps_setActive: "keeps I (setActive i b)"
  unfolding setActive_def prisma_update_def
  by (rule keepsI) (auto intro: law_users split: option.splits)

lemma keeps_findByEmail: "keeps I (findByEmail email)"
  by (simp add: findByEmail_def keeps_find)

lemma keeps_issueSession: "keeps I (issueSession L E u d req a)"
  unfolding issueSession_def Let_def by (intro keeps_rules session_keeps)

lemma keeps_signup: "keeps I (signup L E dto req)"
  unfolding signup_def by (intro keeps_rules keeps_findByEmail keeps_createUser keeps_issueSession)

lemma keeps_login: "keeps I (login L E dto req)"
  unfolding login_def refuse_login_def
  by (intro keeps_rules session_keeps keeps_findByEmail keeps_issueSession)

lemma keeps_refresh: "keeps I (refresh L E tok d req)"
proof -
  have "keeps I (rotateRefreshToken E p)" for E p
    unfolding rotateRefreshToken_def by (intro keeps_rules session_keeps TrueI)
  moreover have "keeps I (refresh_failed req e)" for e
    unfolding refresh_failed_def
    by (cases e) (simp_all, (intro keeps_rules session_keeps)+)
  ultimately show ?thesis
    unfolding refresh_def Let_def by (intro keeps_rules session_keeps)
qed

lemma keeps_logout: "keeps I (logout E u i r req)"
  unfolding logout_def Let_def by (intro keeps_rules session_keeps)

lemma keeps_Auth_revokeSession: "keeps I (Auth_revokeSession E u i r req)"
  unfolding Auth_revokeSession_def Let_def by (intro keeps_rules session_keeps)

lemma keeps_me: "keeps I (me E u i)"
  unfolding me_def by (intro keeps_rules session_keeps)

lemma keeps_authenticate: "keeps I (authenticate L E b)"
  unfolding authenticate_def validate_def by (intro keeps_rules session_keeps)

end

interpretation auth_sessions: auth_law sessions_ok
  by unfold_locales (simp add: sessions_ok_def)

interpretation auth_closed: auth_law "closed_session i" for i
  by unfold_locales (simp add: closed_session_def sessions_ok_def)

text \<open>The requests the authentication service serves, by anyone at any time.\<close>

inductive auth_step :: "auth_lib \<Rightarrow> db \<Rightarrow> db \<Rightarrow> bool" for L where
  auth_signup: "signup (L\<lparr> refresh_bytes := b \<rparr>) E dto req s = (rs, s') \<Longrightarrow> auth_step L s s'"
| auth_login: "login (L\<lparr> refresh_bytes := b \<rparr>) E ldto req s = (rl, s') \<Longrightarrow> auth_step L s s'"
| auth_refresh: "refresh (L\<lparr> refresh_bytes := b \<rparr>) E tok d req s = (rr, s') \<Longrightarrow> auth_step L s s'"
| auth_logout: "logout E u i why req s = (ro, s') \<Longrightarrow> auth_step L s s'"
| auth_revoke: "Auth_revokeSession E u i why req s = (rv, s') \<Longrightarrow> auth_step L s s'"
| auth_me: "me E u i s = (rm, s') \<Longrightarrow> auth_step L s s'"
| auth_token: "authenticate L E bearer s = (ra, s') \<Longrightarrow> auth_step L s s'"
| auth_active: "setActive i b s = (ru, s') \<Longrightarrow> auth_step L s s'"

context auth_law begin

lemma auth_step_keeps:
  assumes "auth_step L s s'" and "I s"
  shows "I s'"
  using assms(1)
proof (cases rule: auth_step.cases)
qed (blast intro: keepsD [OF keeps_signup assms(2)] keepsD [OF keeps_login assms(2)] keepsD [OF keeps_refresh assms(2)]
      keepsD [OF keeps_logout assms(2)] keepsD [OF keeps_Auth_revokeSession assms(2)] keepsD [OF keeps_me assms(2)]
      keepsD [OF keeps_authenticate assms(2)] keepsD [OF keeps_setActive assms(2)])+

lemma auth_steps_keep: "(auth_step L)\<^sup>*\<^sup>* s s' \<Longrightarrow> I s \<Longrightarrow> I s'"
  by (induction rule: rtranclp_induct) (auto intro: auth_step_keeps)

end

section \<open>Runs of single requests\<close>

lemma revokeSession_closes:
  assumes "sessions_ok s" and "Sessions.revokeSession E u i why allowAny s = (Inr x, s')"
  shows "closed_session i s' \<and> ses_id x = i"
proof -
  from assms(2) obtain y v where f: "find (\<lambda>z. ses_id z = i) (sessions s) = Some y" and x: "x = y"
    and cases: "ses_status y = SessionStatus.REVOKED \<and> s' = s \<or>
      s' = sessions_update (upd_where (\<lambda>z. ses_id z = i) (closed_row SessionStatus.REVOKED (app_now E) why)) s"
    by (auto simp: Sessions.revokeSession_def getSessionById_def prog_inv with_owner_def bind_eq_Some_conv
        split: option.splits if_splits prod.splits)
  from find_Some_iff2 [OF f] have y: "y \<in> set (sessions s)" "ses_id y = i" by auto
  have "list_ex (\<lambda>z. ses_id z = i \<and> ses_status z \<noteq> SessionStatus.ACTIVE) (sessions s')"
    using cases
  proof
    assume "ses_status y = SessionStatus.REVOKED \<and> s' = s"
    with y show ?thesis by (auto simp: list_ex_iff)
  next
    assume "s' = sessions_update (upd_where (\<lambda>z. ses_id z = i) (closed_row SessionStatus.REVOKED (app_now E) why)) s"
    with y(2) upd_where_mem [OF y(1), of "\<lambda>z. ses_id z = i" "closed_row SessionStatus.REVOKED (app_now E) why"]
    show ?thesis
      by (auto simp: list_ex_iff intro!: bexI [of _ "closed_row SessionStatus.REVOKED (app_now E) why y"])
  qed
  moreover have "sessions_ok s'"
    using cases assms(1) any_session.law_close [OF assms(1), of SessionStatus.REVOKED "\<lambda>z. ses_id z = i"] by auto
  ultimately show ?thesis using x y(2) by (simp add: closed_session_def)
qed

lemma closed_session_unauthorized:
  assumes "closed_session i t" and "jwt_verify L token (app_now E) = Some p" and "jwt_sessionId p = i"
  shows "\<exists>m t'. authorized L E (Some token) t = (Inl (UnauthorizedException m), t')"
proof -
  from closed_session_unusable(1) [OF assms(1), of E] obtain e t' where
    u: "assertSessionUsable E i t = (Inl e, t')" by blast
  have "\<exists>e' t'. authenticate L E (Some token) t = (Inl e', t')"
    using assms(2,3) u by (simp add: authenticate_def validate_def bindp_def)
  then obtain e' t'' where a: "authenticate L E (Some token) t = (Inl e', t'')" by blast
  show ?thesis
    by (cases e') (simp_all add: authorized_def a JwtAuthGuard_canActivate_def)
qed

lemma session_of_id:
  assumes "\<not> list_ex (\<lambda>y. ses_id x = ses_id y) xs"
  shows "find (\<lambda>y. ses_id y = ses_id x) (xs @ [x]) = Some x"
proof -
  have "\<not> list_ex (\<lambda>y. ses_id y = ses_id x) xs" using assms by (auto simp: list_ex_iff)
  then have "find (\<lambda>y. ses_id y = ses_id x) xs = None" by (simp add: find_None_list_ex)
  then show ?thesis by (simp add: find_append)
qed

text \<open>The session a sign-up or a login opens.\<close>

definition opened_session :: "auth_lib \<Rightarrow> env \<Rightarrow> User \<Rightarrow> string \<Rightarrow> http_request \<Rightarrow> Session" where
  "opened_session L E user deviceId req =
     \<lparr> ses_id = uuid E 1, ses_userId = usr_id user, ses_refreshTokenHash = Some (sha256 E (refresh_bytes L)),
       ses_previousRefreshTokenHash = None, ses_status = SessionStatus.ACTIVE, ses_deviceId = deviceId,
       ses_userAgent = userAgent req, ses_ipAddress = ip req, ses_lastSeenAt = app_now E,
       ses_expiresAt = app_now E + REFRESH_TOKEN_TTL_SECONDS * 1000, ses_revokedAt = None,
       ses_revokedReason = None, ses_refreshTokenVersion = 0 \<rparr>"

lemma issueSession_run:
  "issueSession L E user d req a s =
     (if list_ex (\<lambda>y. uuid E 1 = ses_id y) (sessions s) then (Inl (PrismaClientKnownRequestError ''P2002''), s)
      else (Inr (authResponse user (uuid E 1) (issueAccessToken L E user (uuid E 1)) (issueRefreshToken L)),
        auth_audit_logs_update (\<lambda>rs. rs @ [(request_audit a True req)
            \<lparr> aal_userId := Some (usr_id user), aal_email := Some (usr_email user), aal_sessionId := Some (uuid E 1) \<rparr>])
          (sessions_update (\<lambda>xs. xs @ [opened_session L E user d req]) s)))"
  by (simp add: issueSession_def Let_def createSession_def prisma_create_def bindp_def seqp_def opened_session_def
      hashRefreshToken_def issueRefreshToken_def)

lemma refuse_login_run:
  "refuse_login req u email reason m s =
     (Inl (UnauthorizedException m), auth_audit_logs_update (\<lambda>rs. rs @ [(request_audit AUTH_FAILURE False req)
        \<lparr> aal_userId := u, aal_email := Some email, aal_reason := Some reason \<rparr>]) s)"
  by (simp add: refuse_login_def seqp_def bindp_def)

definition credentials_ok :: "auth_lib \<Rightarrow> LoginDto \<Rightarrow> User \<Rightarrow> bool" where
  "credentials_ok L dto u \<longleftrightarrow>
     usr_email u = normalizeEmail (lgn_email dto) \<and> bcrypt_compare L (lgn_password dto) (usr_passwordHash u) \<and>
     usr_isActive u"

lemma filter_only:
  assumes "distinct xs" and "u \<in> set xs" and "\<And>v. v \<in> set xs \<Longrightarrow> P v \<Longrightarrow> v = u"
  shows "filter P xs = (if P u then [u] else [])"
  using assms
proof (induction xs)
  case (Cons a xs)
  show ?case
  proof (cases "u = a")
    case True
    with Cons.prems have "filter P xs = []" by (fastforce simp: filter_empty_conv)
    with True show ?thesis by simp
  next
    case False
    with Cons.prems have "filter P xs = (if P u then [u] else [])" by (intro Cons.IH) auto
    moreover have "\<not> P a" using Cons.prems(3) [of a] False by auto
    ultimately show ?thesis by simp
  qed
qed simp

section \<open>Properties\<close>

text \<open>
  C35: A login opens a session for exactly the active account whose email and password it names. The
  new session belongs to that account, holds only the hash of the refresh token, and is the only
  change besides one audit row; a refused login opens none, leaves one audit row, and answers an
  unknown email and a wrong password alike.
\<close>

theorem login_decision:
  assumes "distinct (map usr_email (users s))" and "uuid E 1 \<notin> ses_id ` set (sessions s)"
  shows "\<exists>row. login L E dto req s =
    (case filter (credentials_ok L dto) (users s) of
       [] \<Rightarrow> (Inl (UnauthorizedException
                 (if \<exists>u\<in>set (users s). usr_email u = normalizeEmail (lgn_email dto) \<and>
                       bcrypt_compare L (lgn_password dto) (usr_passwordHash u)
                  then ''inactive user'' else ''invalid credentials'')),
              auth_audit_logs_update (\<lambda>rs. rs @ [row]) s)
     | u # us \<Rightarrow> (Inr (authResponse u (uuid E 1) (issueAccessToken L E u (uuid E 1)) (issueRefreshToken L)),
              auth_audit_logs_update (\<lambda>rs. rs @ [row])
                (sessions_update (\<lambda>xs. xs @ [opened_session L E u (lgn_deviceId dto) req]) s))) \<and>
    (aal_success row \<longleftrightarrow> filter (credentials_ok L dto) (users s) \<noteq> [])"
proof (cases "find (\<lambda>u. usr_email u = normalizeEmail (lgn_email dto)) (users s)")
  let ?refused = "\<lambda>i m r. (request_audit AUTH_FAILURE False req)\<lparr> aal_userId := i, aal_email := Some m, aal_reason := Some r \<rparr>"
  case None
  then have "u \<in> set (users s) \<Longrightarrow> usr_email u \<noteq> normalizeEmail (lgn_email dto)" for u
    by (simp add: find_None_iff)
  then have "filter (credentials_ok L dto) (users s) = []"
    and "\<not> (\<exists>u\<in>set (users s). usr_email u = normalizeEmail (lgn_email dto) \<and>
           bcrypt_compare L (lgn_password dto) (usr_passwordHash u))"
    by (auto simp: filter_empty_conv credentials_ok_def)
  with None show ?thesis
    by (intro exI [of _ "?refused None (normalizeEmail (lgn_email dto)) ''user_not_found''"])
       (simp add: login_def findByEmail_def bindp_def refuse_login_run request_audit_def normalizeEmail_def)
next
  let ?refused = "\<lambda>i m r. (request_audit AUTH_FAILURE False req)\<lparr> aal_userId := i, aal_email := Some m, aal_reason := Some r \<rparr>"
  case (Some u)
  from find_Some_iff2 [OF Some] have u: "u \<in> set (users s)" "usr_email u = normalizeEmail (lgn_email dto)" by auto
  have only: "v = u" if "v \<in> set (users s)" "usr_email v = normalizeEmail (lgn_email dto)" for v
    using that u assms(1) by (auto dest: distinct_key_unique)
  have "distinct (users s)" using assms(1) by (simp add: distinct_map)
  then have f: "filter (credentials_ok L dto) (users s) = (if credentials_ok L dto u then [u] else [])"
    using u(1) only by (intro filter_only) (auto simp: credentials_ok_def)
  have ex: "(\<exists>u\<in>set (users s). usr_email u = normalizeEmail (lgn_email dto) \<and>
      bcrypt_compare L (lgn_password dto) (usr_passwordHash u)) \<longleftrightarrow> bcrypt_compare L (lgn_password dto) (usr_passwordHash u)"
    by (metis u only)
  have fresh: "\<not> list_ex (\<lambda>y. uuid E 1 = ses_id y) (sessions s)" using assms(2) by (auto simp: list_ex_iff)
  consider (wrong) "\<not> bcrypt_compare L (lgn_password dto) (usr_passwordHash u)"
    | (inactive) "bcrypt_compare L (lgn_password dto) (usr_passwordHash u)" "\<not> usr_isActive u"
    | (granted) "bcrypt_compare L (lgn_password dto) (usr_passwordHash u)" "usr_isActive u" by blast
  then show ?thesis
  proof cases
    case wrong
    then have "\<not> credentials_ok L dto u" by (simp add: credentials_ok_def)
    with wrong Some show ?thesis
      unfolding f ex by (intro exI [of _ "?refused (Some (usr_id u)) (usr_email u) ''invalid_password''"])
        (simp add: login_def findByEmail_def bindp_def refuse_login_run request_audit_def)
  next
    case inactive
    then have "\<not> credentials_ok L dto u" by (simp add: credentials_ok_def)
    with inactive Some show ?thesis
      unfolding f ex by (intro exI [of _ "?refused (Some (usr_id u)) (usr_email u) ''inactive_user''"])
        (simp add: login_def findByEmail_def bindp_def refuse_login_run request_audit_def)
  next
    case granted
    then have "credentials_ok L dto u" using u(2) by (simp add: credentials_ok_def)
    with granted Some fresh show ?thesis
      unfolding f ex by (intro exI [of _ "(request_audit LOGIN True req)
          \<lparr> aal_userId := Some (usr_id u), aal_email := Some (usr_email u), aal_sessionId := Some (uuid E 1) \<rparr>"])
        (simp add: login_def findByEmail_def bindp_def issueSession_run request_audit_def)
  qed
qed

text \<open>What a login that succeeds did.\<close>

lemma login_Inr:
  assumes "login L E dto req s = (Inr r, s')"
  obtains u where "u \<in> set (users s)" "credentials_ok L dto u" "\<not> list_ex (\<lambda>y. uuid E 1 = ses_id y) (sessions s)"
    "r = authResponse u (uuid E 1) (issueAccessToken L E u (uuid E 1)) (issueRefreshToken L)"
    "users s' = users s" "sessions s' = sessions s @ [opened_session L E u (lgn_deviceId dto) req]"
proof -
  from assms obtain u where f: "find (\<lambda>u. usr_email u = normalizeEmail (lgn_email dto)) (users s) = Some u"
    by (auto simp: login_def findByEmail_def bindp_def refuse_login_run split: option.splits)
  from find_Some_iff2 [OF f] have u: "u \<in> set (users s)" "usr_email u = normalizeEmail (lgn_email dto)" by auto
  from assms f have "credentials_ok L dto u" and i: "issueSession L E u (lgn_deviceId dto) req LOGIN s = (Inr r, s')"
    using u(2) by (auto simp: login_def findByEmail_def bindp_def refuse_login_run credentials_ok_def split: if_splits)
  then show thesis using that u(1) by (auto simp: issueSession_run split: if_splits)
qed

lemma opened_session_fields [simp]:
  "ses_id (opened_session L E u d req) = uuid E 1" "ses_userId (opened_session L E u d req) = usr_id u"
  "ses_status (opened_session L E u d req) = SessionStatus.ACTIVE"
  "ses_refreshTokenHash (opened_session L E u d req) = Some (sha256 E (refresh_bytes L))"
  "ses_previousRefreshTokenHash (opened_session L E u d req) = None"
  "ses_deviceId (opened_session L E u d req) = d" "ses_revokedAt (opened_session L E u d req) = None"
  "ses_expiresAt (opened_session L E u d req) = app_now E + REFRESH_TOKEN_TTL_SECONDS * 1000"
  by (simp_all add: opened_session_def)

text \<open>The session just opened, found by its identifier.\<close>

lemma opened_session_found:
  assumes "sessions s' = sessions s @ [opened_session L E u d req]" and "\<not> list_ex (\<lambda>y. uuid E 1 = ses_id y) (sessions s)"
    and "users s' = users s" and "u \<in> set (users s)" and "distinct (map usr_id (users s))"
  shows "find (\<lambda>y. ses_id y = uuid E 1) (sessions s') = Some (opened_session L E u d req)"
    and "find (\<lambda>v. usr_id v = usr_id u) (users s') = Some u"
  using assms session_of_id [of "opened_session L E u d req" "sessions s"] find_distinct_key [of usr_id "users s" u] by simp_all

text \<open>
  The tokens a login hands out read back: while it lives the access token authenticates, through the
  strategy and the guard, as the account that logged in with the permissions of its role, and it
  changes nothing; afterwards it verifies to nothing.
\<close>

lemma token_expires:
  assumes "jwt_reads_back L" and "login L E dto req s = (Inr r, s')"
    and "0 \<le> app_now E" and "app_now E \<le> app_now E'"
    and "\<not> jwt_lives (app_now E) ACCESS_TOKEN_TTL_SECONDS (app_now E')"
  shows "jwt_verify L (are_accessToken r) (app_now E') = None"
proof -
  from assms(2) obtain u where r: "r = authResponse u (uuid E 1) (issueAccessToken L E u (uuid E 1)) (issueRefreshToken L)"
    by (rule login_Inr)
  show ?thesis using assms(1,3-5) by (simp add: r authResponse_def issueAccessToken_def jwt_reads_back_def
        ACCESS_TOKEN_TTL_SECONDS_def)
qed

lemma login_roundtrip:
  assumes "jwt_reads_back L" and "login L E dto req s = (Inr r, s')" and "distinct (map usr_id (users s))"
    and "0 \<le> app_now E" and "app_now E \<le> app_now E'"
    and "jwt_lives (app_now E) ACCESS_TOKEN_TTL_SECONDS (app_now E')"
  shows "\<exists>u\<in>set (users s). credentials_ok L dto u \<and>
    authorized L E' (Some (are_accessToken r)) s' =
      (Inr (Some \<lparr> atu_id = usr_id u, atu_email = usr_email u, atu_role = usr_role u, atu_sessionId = are_sessionId r,
         atu_permissions = ROLE_PERMISSIONS (usr_role u), atu_emailVerifiedAt = usr_emailVerifiedAt u,
         atu_isActive = True \<rparr>), s')"
proof -
  from assms(2) obtain u where u: "u \<in> set (users s)" "credentials_ok L dto u"
      "\<not> list_ex (\<lambda>y. uuid E 1 = ses_id y) (sessions s)"
    and r: "r = authResponse u (uuid E 1) (issueAccessToken L E u (uuid E 1)) (issueRefreshToken L)"
    and s': "users s' = users s" "sessions s' = sessions s @ [opened_session L E u (lgn_deviceId dto) req]"
    by (rule login_Inr)
  note found = opened_session_found [OF s'(2) u(3) s'(1) u(1) assms(3)]
  have "jwt_verify L (are_accessToken r) (app_now E') = Some \<lparr> jwt_sub = usr_id u, jwt_email = usr_email u,
      jwt_role = usr_role u, jwt_sessionId = uuid E 1, jwt_jti = uuid E 2, jwt_type = ''access'' \<rparr>"
    using assms(1,4-6)
    by (simp add: r authResponse_def issueAccessToken_def jwt_reads_back_def ACCESS_TOKEN_TTL_SECONDS_def)
  moreover have "usr_isActive u" using u(2) by (simp add: credentials_ok_def)
  moreover have "\<not> app_now E + REFRESH_TOKEN_TTL_SECONDS * 1000 < app_now E'"
    using assms(6) by (simp add: jwt_lives_def ACCESS_TOKEN_TTL_SECONDS_def REFRESH_TOKEN_TTL_SECONDS_def)
  ultimately show ?thesis
    using u(1,2) found
    by (intro bexI [of _ u]) (simp_all add: authorized_def authenticate_def validate_def assertSessionUsable_def getSessionById_def
        with_owner_def bindp_def JwtAuthGuard_canActivate_def r authResponse_def)
qed

text \<open>
  Logging out ends the session for good. Whatever requests the authentication service serves
  afterwards, for anyone, every access token of that session is refused, even one that has not
  expired.
\<close>

lemma logout_is_final:
  assumes "sessions_ok s" and "logout E user i why req s = (Inr (), s')" and "(auth_step L)\<^sup>*\<^sup>* s' t"
    and "jwt_verify L token (app_now E') = Some payload" and "jwt_sessionId payload = i"
  shows "\<exists>m t'. authorized L E' (Some token) t = (Inl (UnauthorizedException m), t')"
proof -
  from assms(2) obtain x s1 where
    "Sessions.revokeSession E (atu_id user) i (case why of None \<Rightarrow> ''logout'' | Some r \<Rightarrow> r) False s = (Inr x, s1)"
    and s': "sessions s' = sessions s1"
    by (auto simp: logout_def Let_def bindp_Inr)
  from revokeSession_closes [OF assms(1) this(1)] s' have "closed_session i s'"
    by (simp add: closed_session_def sessions_ok_def)
  with assms(3) have "closed_session i t" by (rule auth_closed.auth_steps_keep)
  then show ?thesis using assms(4,5) by (rule closed_session_unauthorized)
qed

text \<open>
  The role a request runs with is the one the token was signed with: a demotion of the account is not
  seen until the token expires.
\<close>

lemma token_role_is_kept:
  assumes "authorized L E (Some token) s = (Inr (Some user), s')" and "jwt_verify L token (app_now E) = Some payload"
  shows "atu_role user = jwt_role payload \<and> atu_permissions user = ROLE_PERMISSIONS (jwt_role payload)"
  using assms
  by (auto simp: authorized_def authenticate_def validate_def JwtAuthGuard_canActivate_def bindp_def
      split: prod.splits sum.splits if_splits app_error.splits)

section \<open>Examples\<close>

text \<open>
  A JWT library whose tokens are the payload itself, the role first, then the texts in quotes, then
  the second of expiry in unary.
\<close>

definition role_char :: "UserRole \<Rightarrow> char" where
  "role_char r = (case r of CUSTOMER \<Rightarrow> CHR ''c'' | ORGANIZER \<Rightarrow> CHR ''o'' | GATE_STAFF \<Rightarrow> CHR ''g'' | ADMIN \<Rightarrow> CHR ''a'')"

definition char_role :: "char \<Rightarrow> UserRole" where
  "char_role c = (if c = CHR ''c'' then CUSTOMER else if c = CHR ''o'' then ORGANIZER
     else if c = CHR ''g'' then GATE_STAFF else ADMIN)"

definition plain_sign :: "JwtPayload \<Rightarrow> int \<Rightarrow> int \<Rightarrow> string" where
  "plain_sign p t ttl = role_char (jwt_role p) # json_quote (jwt_sub p) @ json_quote (jwt_email p) @
     json_quote (jwt_sessionId p) @ json_quote (jwt_jti p) @ json_quote (jwt_type p) @
     replicate (nat (t div 1000 + ttl)) CHR ''x''"

definition read_text :: "string \<Rightarrow> (string \<times> string) option" where
  "read_text x = json_unescape (tl x)"

definition plain_verify :: "string \<Rightarrow> int \<Rightarrow> JwtPayload option" where
  "plain_verify token now =
     Option.bind (read_text (tl token)) (\<lambda>(sub, x1). Option.bind (read_text x1) (\<lambda>(email, x2).
     Option.bind (read_text x2) (\<lambda>(sid, x3). Option.bind (read_text x3) (\<lambda>(jti, x4).
     Option.bind (read_text x4) (\<lambda>(type, x5).
       if now div 1000 < int (length x5)
       then Some \<lparr> jwt_sub = sub, jwt_email = email, jwt_role = char_role (hd token),
         jwt_sessionId = sid, jwt_jti = jti, jwt_type = type \<rparr> else None)))))"

lemma read_text_quote: "read_text (json_quote x @ rest) = Some (x, rest)" "read_text (json_quote x) = Some (x, [])"
  using json_unescape_quote [of x rest] json_unescape_quote [of x "[]"] by (simp_all add: read_text_def json_quote_def)

definition ex_lib :: auth_lib where
  "ex_lib = \<lparr> bcrypt_hash = (\<lambda>x. CHR ''#'' # x), bcrypt_compare = (\<lambda>x h. h = CHR ''#'' # x),
     jwt_sign = plain_sign, jwt_verify = plain_verify, refresh_bytes = ''r1'' \<rparr>"

lemma ex_lib_reads_back: "jwt_reads_back ex_lib"
  by (auto simp: jwt_reads_back_def jwt_lives_def ex_lib_def plain_sign_def plain_verify_def read_text_quote
      role_char_def char_role_def split: UserRole.splits)

definition ex_auth_env :: env where
  "ex_auth_env = \<lparr> app_now = 5000, db_now = 5000, uuid = (\<lambda>n. replicate n CHR ''u''),
     sha256 = (\<lambda>x. ''h'' @ x), tx_usable_after_error = False \<rparr>"

definition ex_request :: http_request where
  "ex_request = \<lparr> req_forwardedFor = Some (HeaderText ''10.0.0.1, 10.0.0.2''), req_userAgent = None, req_ip = None \<rparr>"

definition ex_account :: User where
  "ex_account = \<lparr> usr_id = ''u1'', usr_email = ''a@b'', usr_passwordHash = ''#pw'', usr_role = ADMIN,
     usr_isActive = True, usr_emailVerifiedAt = None \<rparr>"

definition ex_accounts :: db where
  "ex_accounts = empty_db\<lparr> users := [ex_account] \<rparr>"

definition ex_credentials :: LoginDto where
  "ex_credentials = \<lparr> lgn_email = '' A@B '', lgn_password = ''pw'', lgn_deviceId = ''d'' \<rparr>"

lemma ex_credentials_ok: "credentials_ok ex_lib ex_credentials ex_account"
proof -
  have "normalizeEmail '' A@B '' = ''a@b''" by code_simp
  then show ?thesis by (simp add: credentials_ok_def ex_credentials_def ex_account_def ex_lib_def)
qed

lemma ex_accounts_rows [simp]: "users ex_accounts = [ex_account]" "sessions ex_accounts = []"
  by (simp_all add: ex_accounts_def empty_db_def)

lemma login_decision_witness:
  "\<exists>row. login ex_lib ex_auth_env ex_credentials ex_request ex_accounts =
     (Inr (authResponse ex_account ''u'' (issueAccessToken ex_lib ex_auth_env ex_account ''u'') (issueRefreshToken ex_lib)),
      auth_audit_logs_update (\<lambda>rs. rs @ [row])
        (sessions_update (\<lambda>xs. xs @ [opened_session ex_lib ex_auth_env ex_account ''d'' ex_request]) ex_accounts)) \<and>
     aal_success row"
proof -
  have u: "uuid ex_auth_env 1 = ''u''" "uuid ex_auth_env (Suc 0) = ''u''" by (simp_all add: ex_auth_env_def)
  have d: "lgn_deviceId ex_credentials = ''d''" by (simp add: ex_credentials_def)
  from login_decision [of ex_accounts ex_auth_env ex_lib ex_credentials ex_request]
  show ?thesis using ex_credentials_ok by (simp add: u d)
qed

lemma ex_login_run:
  "\<exists>r s'. login ex_lib ex_auth_env ex_credentials ex_request ex_accounts = (Inr r, s') \<and> are_sessionId r = ''u'' \<and>
     sessions s' = [opened_session ex_lib ex_auth_env ex_account ''d'' ex_request] \<and> users s' = [ex_account]"
proof -
  have "find (\<lambda>u. usr_email u = normalizeEmail (lgn_email ex_credentials)) [ex_account] = Some ex_account"
    and "bcrypt_compare ex_lib (lgn_password ex_credentials) (usr_passwordHash ex_account)" and "usr_isActive ex_account"
    using ex_credentials_ok by (simp_all add: credentials_ok_def)
  then show ?thesis
    by (simp add: login_def findByEmail_def bindp_def issueSession_run authResponse_def ex_auth_env_def ex_credentials_def)
qed

lemma login_roundtrip_witness:
  "\<exists>r s'. login ex_lib ex_auth_env ex_credentials ex_request ex_accounts = (Inr r, s') \<and>
     (\<exists>u. fst (authorized ex_lib (ex_auth_env\<lparr> app_now := 6000 \<rparr>) (Some (are_accessToken r)) s') = Inr (Some u) \<and>
       atu_permissions u = ROLE_PERMISSIONS ADMIN)"
proof -
  from ex_login_run obtain r s' where run: "login ex_lib ex_auth_env ex_credentials ex_request ex_accounts = (Inr r, s')"
    by blast
  from login_roundtrip [OF ex_lib_reads_back run, of "ex_auth_env\<lparr> app_now := 6000 \<rparr>"]
  have "\<exists>u. fst (authorized ex_lib (ex_auth_env\<lparr> app_now := 6000 \<rparr>) (Some (are_accessToken r)) s') = Inr (Some u) \<and>
      atu_permissions u = ROLE_PERMISSIONS ADMIN"
    by (auto simp: ex_auth_env_def jwt_lives_def ACCESS_TOKEN_TTL_SECONDS_def ex_account_def)
  with run show ?thesis by blast
qed

lemma logout_is_final_witness:
  "\<exists>token m s' t t'. (auth_step ex_lib)\<^sup>*\<^sup>* s' t \<and> jwt_verify ex_lib token 6000 \<noteq> None \<and>
     authorized ex_lib (ex_auth_env\<lparr> app_now := 6000 \<rparr>) (Some token) t = (Inl (UnauthorizedException m), t')"
proof -
  let ?E = "ex_auth_env\<lparr> app_now := 6000 \<rparr>"
  let ?p = "\<lparr> jwt_sub = ''u1'', jwt_email = ''a@b'', jwt_role = ADMIN, jwt_sessionId = ''u'', jwt_jti = ''j'', jwt_type = ''access'' \<rparr>"
  let ?me = "\<lparr> atu_id = ''u1'', atu_email = ''a@b'', atu_role = ADMIN, atu_sessionId = ''u'', atu_permissions = [],
     atu_emailVerifiedAt = None, atu_isActive = True \<rparr>"
  from ex_login_run obtain s :: db where s: "sessions s = [opened_session ex_lib ex_auth_env ex_account ''d'' ex_request]"
    "users s = [ex_account]" by blast
  have ok: "sessions_ok s" by (simp add: s sessions_ok_def session_ok_def)
  have "\<exists>s'. logout ?E ?me ''u'' None ex_request s = (Inr (), s')"
    by (simp add: logout_def Let_def Sessions.revokeSession_def getSessionById_def with_owner_def s bindp_def seqp_def
        prisma_update_def ex_auth_env_def ex_account_def)
  then obtain s' where out: "logout ?E ?me ''u'' None ex_request s = (Inr (), s')" by blast
  have v: "jwt_verify ex_lib (jwt_sign ex_lib ?p 5000 900) (app_now ?E) = Some ?p"
    using ex_lib_reads_back by (simp add: jwt_reads_back_def jwt_lives_def)
  have "\<exists>m t'. authorized ex_lib ?E (Some (jwt_sign ex_lib ?p 5000 900)) s' = (Inl (UnauthorizedException m), t')"
    by (rule logout_is_final [OF ok out rtranclp.rtrancl_refl v]) simp
  moreover have "jwt_verify ex_lib (jwt_sign ex_lib ?p 5000 900) 6000 \<noteq> None" using v by simp
  ultimately show ?thesis by blast
qed

end
