(* ===== verification/Config.thy ===== *)
theory Config
  imports Complex_Main Launch_Control Json_Text
begin

text \<open>
  The configuration (\<^verbatim>\<open>src/shared/config/validation.schema.ts\<close>): the environment of the process
  is checked once, at the start, and becomes the typed values every service reads.

  The environment is a map from names to texts. \<open>new URL(x).toString()\<close> is the parameter
  \<open>new_URL\<close>, \<open>None\<close> where the constructor throws. \<open>Number\<close> of a text is its exact value as a
  rational; JavaScript rounds it to a double, which changes no text of at most fifteen significant
  digits.
\<close>

section \<open>Numbers\<close>

definition is_digit :: "char \<Rightarrow> bool" where
  "is_digit c \<longleftrightarrow> (let n = (of_char c :: nat) in 48 \<le> n \<and> n < 58)"

text \<open>A non-empty sequence of digits of a base.\<close>

definition digits_in :: "nat \<Rightarrow> string \<Rightarrow> rat option" where
  "digits_in base x =
     (if x = [] then None
      else map_option rat_of_nat (foldl (\<lambda>v c. Option.bind v (\<lambda>n. map_option (\<lambda>d. base * n + d) (digit_in base c))) (Some 0) x))"

definition signed :: "(string \<Rightarrow> rat option) \<Rightarrow> string \<Rightarrow> rat option" where
  "signed parse x =
     (case x of
        [] \<Rightarrow> parse []
      | c # cs \<Rightarrow> if c = CHR ''-'' then map_option uminus (parse cs) else if c = CHR ''+'' then parse cs else parse x)"

text \<open>Digits with an optional point, at least one digit in all: \<open>12\<close>, \<open>12.\<close>, \<open>.5\<close>, \<open>12.5\<close>.\<close>

definition decimal_mantissa :: "string \<Rightarrow> rat option" where
  "decimal_mantissa x =
     (let whole = takeWhile is_digit x; rest = dropWhile is_digit x;
          frac = (case rest of [] \<Rightarrow> [] | c # cs \<Rightarrow> cs) in
      if (rest = [] \<or> hd rest = CHR ''.'') \<and> list_all is_digit frac \<and> whole @ frac \<noteq> []
      then Some (rat_of_nat (digits_value (whole @ frac)) / 10 ^ length frac)
      else None)"

definition is_exponent_mark :: "char \<Rightarrow> bool" where
  "is_exponent_mark c \<longleftrightarrow> c = CHR ''e'' \<or> c = CHR ''E''"

definition unsigned_decimal :: "string \<Rightarrow> rat option" where
  "unsigned_decimal x =
     (let mantissa = takeWhile (\<lambda>c. \<not> is_exponent_mark c) x; rest = dropWhile (\<lambda>c. \<not> is_exponent_mark c) x in
      case rest of
        [] \<Rightarrow> decimal_mantissa mantissa
      | mark # expo \<Rightarrow>
          Option.bind (decimal_mantissa mantissa) (\<lambda>m.
            map_option (\<lambda>e. if e < 0 then m / 10 ^ nat \<lfloor>- e\<rfloor> else m * 10 ^ nat \<lfloor>e\<rfloor>) (signed (digits_in 10) expo)))"

text \<open>The texts at or beyond this bound round to an infinity.\<close>

definition double_bound :: rat where
  "double_bound = 2 ^ 1024 - 2 ^ 970"

text \<open>\<open>Number(x)\<close>, \<open>None\<close> for NaN and the infinities: all that \<open>Number.isFinite\<close> rejects.\<close>

definition finite_Number :: "string \<Rightarrow> rat option" where
  "finite_Number text =
     (let x = js_trim text;
          v = (if x = [] then Some 0
               else if take 2 x \<in> {''0x'', ''0X''} then digits_in 16 (drop 2 x)
               else if take 2 x \<in> {''0o'', ''0O''} then digits_in 8 (drop 2 x)
               else if take 2 x \<in> {''0b'', ''0B''} then digits_in 2 (drop 2 x)
               else signed unsigned_decimal x)
      in Option.bind v (\<lambda>r. if \<bar>r\<bar> < double_bound then Some r else None))"

section \<open>Getters\<close>

type_synonym process_env = "string \<Rightarrow> string option"

definition config_error :: "string \<Rightarrow> app_error + 'a" where
  "config_error message = Inl (OtherError ''Error'' message)"

definition and_then :: "'e + 'a \<Rightarrow> ('a \<Rightarrow> 'e + 'b) \<Rightarrow> 'e + 'b" where
  "and_then m f = (case m of Inl e \<Rightarrow> Inl e | Inr x \<Rightarrow> f x)"

text \<open>\<open>env[key]?.trim()\<close> with \<open>!value\<close>: \<open>None\<close> for a missing and for a blank value.\<close>

definition trimmed :: "process_env \<Rightarrow> string \<Rightarrow> string option" where
  "trimmed env key = (case env key of None \<Rightarrow> None | Some v \<Rightarrow> if js_trim v = [] then None else Some (js_trim v))"

definition getRequiredValue :: "process_env \<Rightarrow> string \<Rightarrow> app_error + string" where
  "getRequiredValue env key =
     (case trimmed env key of
        None \<Rightarrow> config_error (''Missing required configuration value: '' @ key)
      | Some v \<Rightarrow> Inr v)"

definition not_a_number :: "string \<Rightarrow> string" where
  "not_a_number key = ''Configuration value '' @ key @ '' must be a number''"

definition getNumber :: "process_env \<Rightarrow> string \<Rightarrow> app_error + rat" where
  "getNumber env key =
     and_then (getRequiredValue env key) (\<lambda>v.
       case finite_Number v of None \<Rightarrow> config_error (not_a_number key) | Some n \<Rightarrow> Inr n)"

definition not_a_url :: "string \<Rightarrow> string" where
  "not_a_url key = ''Configuration value '' @ key @ '' must be a valid URL''"

definition getUrl :: "(string \<Rightarrow> string option) \<Rightarrow> process_env \<Rightarrow> string \<Rightarrow> app_error + string" where
  "getUrl new_URL env key =
     and_then (getRequiredValue env key) (\<lambda>v.
       case new_URL v of None \<Rightarrow> config_error (not_a_url key) | Some u \<Rightarrow> Inr u)"

definition getOptionalUrl :: "(string \<Rightarrow> string option) \<Rightarrow> process_env \<Rightarrow> string \<Rightarrow> app_error + string option" where
  "getOptionalUrl new_URL env key =
     (case trimmed env key of
        None \<Rightarrow> Inr None
      | Some v \<Rightarrow> (case new_URL v of None \<Rightarrow> config_error (not_a_url key) | Some u \<Rightarrow> Inr (Some u)))"

definition getOptionalNumber :: "process_env \<Rightarrow> string \<Rightarrow> app_error + rat option" where
  "getOptionalNumber env key =
     (case trimmed env key of
        None \<Rightarrow> Inr None
      | Some v \<Rightarrow> (case finite_Number v of None \<Rightarrow> config_error (not_a_number key) | Some n \<Rightarrow> Inr (Some n)))"

definition too_short :: "string \<Rightarrow> string" where
  "too_short key = ''Configuration value '' @ key @ '' must be at least 16 characters''"

definition getSecret :: "process_env \<Rightarrow> string \<Rightarrow> app_error + string" where
  "getSecret env key =
     and_then (getRequiredValue env key) (\<lambda>v.
       if length v < 16 then config_error (too_short key) else Inr v)"

definition getOptionalBoolean :: "process_env \<Rightarrow> string \<Rightarrow> app_error + bool option" where
  "getOptionalBoolean env key =
     (case map_option toLowerCase (trimmed env key) of
        None \<Rightarrow> Inr None
      | Some v \<Rightarrow>
          if v \<noteq> ''true'' \<and> v \<noteq> ''false'' then
            config_error (''Configuration value '' @ key @ '' must be true or false'')
          else Inr (Some (v = ''true'')))"

fun split_commas :: "string \<Rightarrow> string list" where
  "split_commas [] = [[]]"
| "split_commas (c # cs) =
     (if c = CHR '','' then [] # split_commas cs
      else (case split_commas cs of [] \<Rightarrow> [[c]] | x # xs \<Rightarrow> (c # x) # xs))"

definition getOptionalCsvList :: "process_env \<Rightarrow> string \<Rightarrow> app_error + string list option" where
  "getOptionalCsvList env key =
     (case trimmed env key of
        None \<Rightarrow> Inr None
      | Some v \<Rightarrow>
          let items = filter (\<lambda>x. x \<noteq> []) (map js_trim (split_commas v)) in
          if items = [] then config_error (''Configuration value '' @ key @ '' must contain at least one entry'')
          else Inr (Some items))"

fun joined :: "string list \<Rightarrow> string" where
  "joined [] = []"
| "joined [x] = x"
| "joined (x # xs) = x @ '', '' @ joined xs"

definition getOptionalEnumList :: "process_env \<Rightarrow> string \<Rightarrow> string list \<Rightarrow> app_error + string list option" where
  "getOptionalEnumList env key values =
     and_then (getOptionalCsvList env key) (\<lambda>found.
       case found of
         None \<Rightarrow> Inr None
       | Some items \<Rightarrow>
           if filter (\<lambda>x. x \<notin> set values) items \<noteq> [] then
             config_error (''Configuration value '' @ key @ '' must contain only: '' @ joined values)
           else Inr (Some items))"

definition getOptionalUuidList :: "process_env \<Rightarrow> string \<Rightarrow> app_error + string list option" where
  "getOptionalUuidList env key =
     and_then (getOptionalCsvList env key) (\<lambda>found.
       case found of
         None \<Rightarrow> Inr None
       | Some items \<Rightarrow>
           if filter (\<lambda>x. \<not> is_uuid x) items \<noteq> [] then
             config_error (''Configuration value '' @ key @ '' must contain only UUID values'')
           else Inr (Some items))"

definition getOptionalSecret :: "process_env \<Rightarrow> string \<Rightarrow> app_error + string option" where
  "getOptionalSecret env key =
     (case trimmed env key of
        None \<Rightarrow> Inr None
      | Some v \<Rightarrow> if length v < 16 then config_error (too_short key) else Inr (Some v))"

definition getOptionalString :: "process_env \<Rightarrow> string \<Rightarrow> string option" where
  "getOptionalString env key = trimmed env key"

definition getEnumValue :: "process_env \<Rightarrow> string \<Rightarrow> string list \<Rightarrow> app_error + string" where
  "getEnumValue env key values =
     and_then (getRequiredValue env key) (\<lambda>v.
       if v \<notin> set values then
         config_error (''Configuration value '' @ key @ '' must be one of: '' @ joined values)
       else Inr v)"

section \<open>The configuration\<close>

record AppConfigValues =
  APP_NAME :: string
  NODE_ENV :: string
  PORT :: rat
  DATABASE_URL :: string
  REDIS_URL :: string
  JWT_ACCESS_SECRET :: string
  JWT_REFRESH_SECRET :: string
  JWT_ACCESS_TTL :: rat
  JWT_REFRESH_TTL :: rat
  PAYSTACK_SECRET_KEY :: string
  PAYSTACK_BASE_URL :: "string option"
  PAYMENT_PROVIDER_TIMEOUT_MS :: "rat option"
  MTN_MOMO_API_KEY :: string
  MTN_MOMO_API_SECRET :: string
  MTN_MOMO_SUBSCRIPTION_KEY :: string
  MTN_MOMO_ENVIRONMENT :: string
  MTN_MOMO_BASE_URL :: "string option"
  MTN_MOMO_COLLECTION_SUBSCRIPTION_KEY :: "string option"
  MTN_MOMO_API_USER :: "string option"
  MTN_MOMO_TARGET_ENVIRONMENT :: "string option"
  MTN_MOMO_WEBHOOK_SECRET :: "string option"
  QR_HMAC_ACTIVE_KID :: string
  QR_HMAC_ACTIVE_SECRET :: string
  API_BASE_URL :: string
  SENTRY_DSN :: "string option"
  pilot :: launch_config

definition NODE_ENVIRONMENTS :: "string list" where
  "NODE_ENVIRONMENTS = [''development'', ''test'', ''production'']"

definition MOMO_ENVIRONMENTS :: "string list" where
  "MOMO_ENVIRONMENTS = [''sandbox'', ''production'']"

definition SUPPORTED_PAYMENT_PROVIDERS :: "string list" where
  "SUPPORTED_PAYMENT_PROVIDERS = [''paystack'', ''momo'']"

definition SUPPORTED_CURRENCIES :: "string list" where
  "SUPPORTED_CURRENCIES = [''GHS'', ''NGN'']"

text \<open>The properties of the object literal are evaluated in order; the first one that throws decides.\<close>

definition pilot_values :: "process_env \<Rightarrow> app_error + launch_config" where
  "pilot_values env =
     and_then (getOptionalBoolean env ''PILOT_CHECKOUT_ENABLED'') (\<lambda>checkout.
     and_then (getOptionalBoolean env ''PILOT_PAYMENTS_ENABLED'') (\<lambda>paymentsOn.
     and_then (getOptionalBoolean env ''PILOT_ADMISSIONS_ENABLED'') (\<lambda>admissions.
     and_then (getOptionalEnumList env ''PILOT_ALLOWED_PAYMENT_PROVIDERS'' SUPPORTED_PAYMENT_PROVIDERS) (\<lambda>providers.
     and_then (getOptionalEnumList env ''PILOT_ALLOWED_CURRENCIES'' SUPPORTED_CURRENCIES) (\<lambda>currencies.
     and_then (getOptionalUuidList env ''PILOT_ALLOWED_ORGANIZER_IDS'') (\<lambda>organizerIds.
     and_then (getOptionalUuidList env ''PILOT_ALLOWED_EVENT_IDS'') (\<lambda>eventIds.
     and_then (getOptionalUuidList env ''PILOT_ALLOWED_GATE_IDS'') (\<lambda>gateIds.
       Inr \<lparr> PILOT_CHECKOUT_ENABLED = checkout, PILOT_PAYMENTS_ENABLED = paymentsOn,
             PILOT_ADMISSIONS_ENABLED = admissions, PILOT_ALLOWED_PAYMENT_PROVIDERS = providers,
             PILOT_ALLOWED_CURRENCIES = currencies, PILOT_ALLOWED_ORGANIZER_IDS = organizerIds,
             PILOT_ALLOWED_EVENT_IDS = eventIds, PILOT_ALLOWED_GATE_IDS = gateIds \<rparr>))))))))"

definition config_values :: "(string \<Rightarrow> string option) \<Rightarrow> process_env \<Rightarrow> app_error + AppConfigValues" where
  "config_values new_URL env =
     and_then (getRequiredValue env ''APP_NAME'') (\<lambda>appName.
     and_then (getEnumValue env ''NODE_ENV'' NODE_ENVIRONMENTS) (\<lambda>nodeEnv.
     and_then (getNumber env ''PORT'') (\<lambda>port.
     and_then (getUrl new_URL env ''DATABASE_URL'') (\<lambda>databaseUrl.
     and_then (getUrl new_URL env ''REDIS_URL'') (\<lambda>redisUrl.
     and_then (getSecret env ''JWT_ACCESS_SECRET'') (\<lambda>accessSecret.
     and_then (getSecret env ''JWT_REFRESH_SECRET'') (\<lambda>refreshSecret.
     and_then (getNumber env ''JWT_ACCESS_TTL'') (\<lambda>accessTtl.
     and_then (getNumber env ''JWT_REFRESH_TTL'') (\<lambda>refreshTtl.
     and_then (getSecret env ''PAYSTACK_SECRET_KEY'') (\<lambda>paystackKey.
     and_then (getOptionalUrl new_URL env ''PAYSTACK_BASE_URL'') (\<lambda>paystackUrl.
     and_then (getOptionalNumber env ''PAYMENT_PROVIDER_TIMEOUT_MS'') (\<lambda>timeout.
     and_then (getSecret env ''MTN_MOMO_API_KEY'') (\<lambda>momoKey.
     and_then (getSecret env ''MTN_MOMO_API_SECRET'') (\<lambda>momoSecret.
     and_then (getSecret env ''MTN_MOMO_SUBSCRIPTION_KEY'') (\<lambda>momoSubscription.
     and_then (getEnumValue env ''MTN_MOMO_ENVIRONMENT'' MOMO_ENVIRONMENTS) (\<lambda>momoEnv.
     and_then (getOptionalUrl new_URL env ''MTN_MOMO_BASE_URL'') (\<lambda>momoUrl.
     and_then (getOptionalSecret env ''MTN_MOMO_COLLECTION_SUBSCRIPTION_KEY'') (\<lambda>momoCollection.
     and_then (getOptionalSecret env ''MTN_MOMO_WEBHOOK_SECRET'') (\<lambda>momoWebhook.
     and_then (getRequiredValue env ''QR_HMAC_ACTIVE_KID'') (\<lambda>qrKid.
     and_then (getSecret env ''QR_HMAC_ACTIVE_SECRET'') (\<lambda>qrSecret.
     and_then (getUrl new_URL env ''API_BASE_URL'') (\<lambda>apiUrl.
     and_then (getOptionalUrl new_URL env ''SENTRY_DSN'') (\<lambda>sentry.
     and_then (pilot_values env) (\<lambda>pilotValues.
       Inr \<lparr> APP_NAME = appName, NODE_ENV = nodeEnv, PORT = port, DATABASE_URL = databaseUrl,
             REDIS_URL = redisUrl, JWT_ACCESS_SECRET = accessSecret, JWT_REFRESH_SECRET = refreshSecret,
             JWT_ACCESS_TTL = accessTtl, JWT_REFRESH_TTL = refreshTtl, PAYSTACK_SECRET_KEY = paystackKey,
             PAYSTACK_BASE_URL = paystackUrl, PAYMENT_PROVIDER_TIMEOUT_MS = timeout,
             MTN_MOMO_API_KEY = momoKey, MTN_MOMO_API_SECRET = momoSecret,
             MTN_MOMO_SUBSCRIPTION_KEY = momoSubscription, MTN_MOMO_ENVIRONMENT = momoEnv,
             MTN_MOMO_BASE_URL = momoUrl, MTN_MOMO_COLLECTION_SUBSCRIPTION_KEY = momoCollection,
             MTN_MOMO_API_USER = getOptionalString env ''MTN_MOMO_API_USER'',
             MTN_MOMO_TARGET_ENVIRONMENT = getOptionalString env ''MTN_MOMO_TARGET_ENVIRONMENT'',
             MTN_MOMO_WEBHOOK_SECRET = momoWebhook, QR_HMAC_ACTIVE_KID = qrKid,
             QR_HMAC_ACTIVE_SECRET = qrSecret, API_BASE_URL = apiUrl, SENTRY_DSN = sentry,
             pilot = pilotValues \<rparr>))))))))))))))))))))))))"

definition validateConfig :: "(string \<Rightarrow> string option) \<Rightarrow> process_env \<Rightarrow> app_error + AppConfigValues" where
  "validateConfig new_URL env =
     and_then (config_values new_URL env) (\<lambda>config.
       if PORT config < 1 \<or> PORT config > 65535 then
         config_error ''Configuration value PORT must be between 1 and 65535''
       else if JWT_ACCESS_TTL config \<le> 0 \<or> JWT_REFRESH_TTL config \<le> 0 then
         config_error ''JWT TTL values must be positive numbers''
       else if (case PAYMENT_PROVIDER_TIMEOUT_MS config of None \<Rightarrow> False | Some t \<Rightarrow> t \<le> 0) then
         config_error ''PAYMENT_PROVIDER_TIMEOUT_MS must be a positive number''
       else Inr config)"

section \<open>What the getters return\<close>

named_theorems config_inv "a configuration value that was accepted"

lemma and_then_Inr [config_inv]: "and_then m f = Inr y \<longleftrightarrow> (\<exists>x. m = Inr x \<and> f x = Inr y)"
  by (cases m) (simp_all add: and_then_def)

lemma config_error_Inr [simp]: "config_error m \<noteq> Inr y"
  by (simp add: config_error_def)

text \<open>A trimmed text that is not blank; a secret; a finite number.\<close>

definition is_text :: "string \<Rightarrow> bool" where
  "is_text v \<longleftrightarrow> v \<noteq> [] \<and> js_trim v = v"

definition is_secret :: "string \<Rightarrow> bool" where
  "is_secret v \<longleftrightarrow> is_text v \<and> 16 \<le> length v"

definition opt_all :: "('a \<Rightarrow> bool) \<Rightarrow> 'a option \<Rightarrow> bool" where
  "opt_all P v \<longleftrightarrow> (case v of None \<Rightarrow> True | Some x \<Rightarrow> P x)"

definition is_list_of :: "(string \<Rightarrow> bool) \<Rightarrow> string list \<Rightarrow> bool" where
  "is_list_of P xs \<longleftrightarrow> xs \<noteq> [] \<and> list_all (\<lambda>x. is_text x \<and> CHR '','' \<notin> set x \<and> P x) xs"

lemma opt_all_simps [simp]: "opt_all P None" "opt_all P (Some x) \<longleftrightarrow> P x"
  by (simp_all add: opt_all_def)

lemma trimmed_Some: "trimmed env key = Some v \<Longrightarrow> is_text v"
  by (auto simp: trimmed_def is_text_def js_trim_idem split: option.splits if_splits)

lemma getRequiredValue_Inr: "getRequiredValue env key = Inr v \<longleftrightarrow> trimmed env key = Some v"
  by (auto simp: getRequiredValue_def split: option.splits)

lemma required_text: "getRequiredValue env key = Inr v \<Longrightarrow> is_text v"
  by (simp add: getRequiredValue_Inr trimmed_Some)

lemma enum_member: "getEnumValue env key values = Inr v \<Longrightarrow> v \<in> set values"
  by (auto simp: getEnumValue_def config_inv split: if_splits)

lemma secret_long: "getSecret env key = Inr v \<Longrightarrow> is_secret v"
  by (auto simp: getSecret_def is_secret_def config_inv required_text split: if_splits)

lemma optional_secret_long: "getOptionalSecret env key = Inr v \<Longrightarrow> opt_all is_secret v"
  by (cases "trimmed env key"; cases v) (auto simp: getOptionalSecret_def is_secret_def trimmed_Some split: if_splits)

lemma url_normal: "getUrl new_URL env key = Inr v \<Longrightarrow> v \<in> ran new_URL"
  by (auto simp: getUrl_def config_inv ran_def split: option.splits)

lemma optional_url_normal: "getOptionalUrl new_URL env key = Inr v \<Longrightarrow> opt_all (\<lambda>u. u \<in> ran new_URL) v"
  by (cases "trimmed env key"; cases "new_URL (the (trimmed env key))") (auto simp: getOptionalUrl_def ran_def)

lemma optional_text: "opt_all is_text (getOptionalString env key)"
  by (cases "getOptionalString env key") (auto simp: getOptionalString_def trimmed_Some)

lemma finite_Number_bound: "finite_Number x = Some r \<Longrightarrow> \<bar>r\<bar> < double_bound"
  by (auto simp: finite_Number_def Let_def bind_eq_Some_conv split: if_splits)

lemma number_finite: "getNumber env key = Inr n \<Longrightarrow> \<bar>n\<bar> < double_bound"
  by (auto simp: getNumber_def config_inv finite_Number_bound split: option.splits)

lemma optional_number_finite: "getOptionalNumber env key = Inr n \<Longrightarrow> opt_all (\<lambda>r. \<bar>r\<bar> < double_bound) n"
  by (cases "trimmed env key"; cases "finite_Number (the (trimmed env key))")
     (auto simp: getOptionalNumber_def finite_Number_bound)

lemma no_comma_split: "x \<in> set (split_commas v) \<Longrightarrow> CHR '','' \<notin> set x"
proof (induction v arbitrary: x)
  case (Cons c cs)
  then show ?case by (cases "split_commas cs") (auto split: if_splits)
qed simp

lemma set_js_trim: "set (js_trim x) \<subseteq> set x"
  by (auto simp: js_trim_def dest!: set_dropWhileD)

lemma csv_list: "getOptionalCsvList env key = Inr v \<Longrightarrow> opt_all (is_list_of (\<lambda>x. True)) v"
proof (cases "trimmed env key")
  case (Some w)
  assume "getOptionalCsvList env key = Inr v"
  then have v: "v = Some (filter (\<lambda>x. x \<noteq> []) (map js_trim (split_commas w)))"
    and "filter (\<lambda>x. x \<noteq> []) (map js_trim (split_commas w)) \<noteq> []"
    using Some by (auto simp: getOptionalCsvList_def Let_def split: if_splits)
  moreover have "is_text y \<and> CHR '','' \<notin> set y" if "y \<noteq> []" "y \<in> js_trim ` set (split_commas w)" for y
    using that no_comma_split set_js_trim by (fastforce simp: is_text_def js_trim_idem)
  ultimately show ?thesis by (auto simp: is_list_of_def list_all_iff)
qed (simp add: getOptionalCsvList_def)

lemma enum_list: "getOptionalEnumList env key values = Inr v \<Longrightarrow> opt_all (is_list_of (\<lambda>x. x \<in> set values)) v"
  using csv_list [of env key]
  by (auto simp: getOptionalEnumList_def config_inv is_list_of_def list_all_iff filter_empty_conv
      split: option.splits if_splits)

lemma uuid_list: "getOptionalUuidList env key = Inr v \<Longrightarrow> opt_all (is_list_of is_uuid) v"
  using csv_list [of env key]
  by (auto simp: getOptionalUuidList_def config_inv is_list_of_def list_all_iff filter_empty_conv
      split: option.splits if_splits)

lemmas accepted_types = required_text enum_member secret_long optional_secret_long url_normal optional_url_normal
  optional_text number_finite optional_number_finite enum_list uuid_list

section \<open>Properties\<close>

definition pilot_typed :: "launch_config \<Rightarrow> bool" where
  "pilot_typed p \<longleftrightarrow>
     opt_all (is_list_of (\<lambda>x. x \<in> set SUPPORTED_PAYMENT_PROVIDERS)) (PILOT_ALLOWED_PAYMENT_PROVIDERS p) \<and>
     opt_all (is_list_of (\<lambda>x. x \<in> set SUPPORTED_CURRENCIES)) (PILOT_ALLOWED_CURRENCIES p) \<and>
     opt_all (is_list_of is_uuid) (PILOT_ALLOWED_ORGANIZER_IDS p) \<and>
     opt_all (is_list_of is_uuid) (PILOT_ALLOWED_EVENT_IDS p) \<and>
     opt_all (is_list_of is_uuid) (PILOT_ALLOWED_GATE_IDS p)"

definition config_typed :: "(string \<Rightarrow> string option) \<Rightarrow> AppConfigValues \<Rightarrow> bool" where
  "config_typed new_URL c \<longleftrightarrow>
     is_text (APP_NAME c) \<and> NODE_ENV c \<in> set NODE_ENVIRONMENTS \<and> 1 \<le> PORT c \<and> PORT c \<le> 65535 \<and>
     DATABASE_URL c \<in> ran new_URL \<and> REDIS_URL c \<in> ran new_URL \<and> API_BASE_URL c \<in> ran new_URL \<and>
     list_all is_secret [JWT_ACCESS_SECRET c, JWT_REFRESH_SECRET c, PAYSTACK_SECRET_KEY c, MTN_MOMO_API_KEY c,
       MTN_MOMO_API_SECRET c, MTN_MOMO_SUBSCRIPTION_KEY c, QR_HMAC_ACTIVE_SECRET c] \<and>
     0 < JWT_ACCESS_TTL c \<and> JWT_ACCESS_TTL c < double_bound \<and>
     0 < JWT_REFRESH_TTL c \<and> JWT_REFRESH_TTL c < double_bound \<and>
     opt_all (\<lambda>t. 0 < t \<and> t < double_bound) (PAYMENT_PROVIDER_TIMEOUT_MS c) \<and>
     MTN_MOMO_ENVIRONMENT c \<in> set MOMO_ENVIRONMENTS \<and> is_text (QR_HMAC_ACTIVE_KID c) \<and>
     list_all (opt_all (\<lambda>u. u \<in> ran new_URL)) [PAYSTACK_BASE_URL c, MTN_MOMO_BASE_URL c, SENTRY_DSN c] \<and>
     list_all (opt_all is_secret) [MTN_MOMO_COLLECTION_SUBSCRIPTION_KEY c, MTN_MOMO_WEBHOOK_SECRET c] \<and>
     list_all (opt_all is_text) [MTN_MOMO_API_USER c, MTN_MOMO_TARGET_ENVIRONMENT c] \<and>
     pilot_typed (pilot c)"

lemma pilot_values_typed: "pilot_values env = Inr p \<Longrightarrow> pilot_typed p"
  unfolding pilot_values_def by (auto simp: config_inv pilot_typed_def accepted_types)

lemma accepted_values:
  assumes "config_values new_URL env = Inr c"
  shows "is_text (APP_NAME c) \<and> NODE_ENV c \<in> set NODE_ENVIRONMENTS \<and>
     DATABASE_URL c \<in> ran new_URL \<and> REDIS_URL c \<in> ran new_URL \<and> API_BASE_URL c \<in> ran new_URL \<and>
     list_all is_secret [JWT_ACCESS_SECRET c, JWT_REFRESH_SECRET c, PAYSTACK_SECRET_KEY c, MTN_MOMO_API_KEY c,
       MTN_MOMO_API_SECRET c, MTN_MOMO_SUBSCRIPTION_KEY c, QR_HMAC_ACTIVE_SECRET c] \<and>
     \<bar>JWT_ACCESS_TTL c\<bar> < double_bound \<and> \<bar>JWT_REFRESH_TTL c\<bar> < double_bound \<and>
     opt_all (\<lambda>r. \<bar>r\<bar> < double_bound) (PAYMENT_PROVIDER_TIMEOUT_MS c) \<and>
     MTN_MOMO_ENVIRONMENT c \<in> set MOMO_ENVIRONMENTS \<and> is_text (QR_HMAC_ACTIVE_KID c) \<and>
     list_all (opt_all (\<lambda>u. u \<in> ran new_URL)) [PAYSTACK_BASE_URL c, MTN_MOMO_BASE_URL c, SENTRY_DSN c] \<and>
     list_all (opt_all is_secret) [MTN_MOMO_COLLECTION_SUBSCRIPTION_KEY c, MTN_MOMO_WEBHOOK_SECRET c] \<and>
     list_all (opt_all is_text) [MTN_MOMO_API_USER c, MTN_MOMO_TARGET_ENVIRONMENT c] \<and>
     pilot_typed (pilot c)"
  using assms unfolding config_values_def
  by (auto simp: config_inv accepted_types pilot_values_typed)

text \<open>
  C36: A configuration that starts the process is well typed: every value the type declares is there
  and of its form (trimmed texts, secrets of at least sixteen characters, normalised URLs, finite
  positive numbers in range, members of the enumerations, non-empty lists of known providers,
  currencies and UUIDs). The one exception is MTN_MOMO_TARGET_ENVIRONMENT, which may be any text.
\<close>

theorem accepted_config_typed:
  assumes "validateConfig new_URL env = Inr c"
  shows "config_typed new_URL c"
proof -
  from assms have v: "config_values new_URL env = Inr c" and "1 \<le> PORT c" "PORT c \<le> 65535" "0 < JWT_ACCESS_TTL c"
    "0 < JWT_REFRESH_TTL c" "opt_all (\<lambda>t. 0 < t) (PAYMENT_PROVIDER_TIMEOUT_MS c)"
    by (auto simp: validateConfig_def config_inv split: if_splits option.splits)
  with accepted_values [OF v] show ?thesis
    by (cases "PAYMENT_PROVIDER_TIMEOUT_MS c") (auto simp: config_typed_def)
qed

section \<open>Writing a configuration down\<close>

text \<open>
  The environment that spells out a configuration: whole numbers in decimal, flags as words, lists
  with commas.
\<close>

fun comma_list :: "string list \<Rightarrow> string" where
  "comma_list [] = []"
| "comma_list [x] = x"
| "comma_list (x # xs) = x @ CHR '','' # comma_list xs"

definition whole_text :: "rat \<Rightarrow> string" where
  "whole_text r = int_to_string \<lfloor>r\<rfloor>"

definition flag_text :: "bool \<Rightarrow> string" where
  "flag_text b = (if b then ''true'' else ''false'')"

definition config_fields :: "AppConfigValues \<Rightarrow> (string \<times> string option) list" where
  "config_fields c =
     [(''APP_NAME'', Some (APP_NAME c)), (''NODE_ENV'', Some (NODE_ENV c)), (''PORT'', Some (whole_text (PORT c))),
      (''DATABASE_URL'', Some (DATABASE_URL c)), (''REDIS_URL'', Some (REDIS_URL c)),
      (''JWT_ACCESS_SECRET'', Some (JWT_ACCESS_SECRET c)), (''JWT_REFRESH_SECRET'', Some (JWT_REFRESH_SECRET c)),
      (''JWT_ACCESS_TTL'', Some (whole_text (JWT_ACCESS_TTL c))), (''JWT_REFRESH_TTL'', Some (whole_text (JWT_REFRESH_TTL c))),
      (''PAYSTACK_SECRET_KEY'', Some (PAYSTACK_SECRET_KEY c)), (''PAYSTACK_BASE_URL'', PAYSTACK_BASE_URL c),
      (''PAYMENT_PROVIDER_TIMEOUT_MS'', map_option whole_text (PAYMENT_PROVIDER_TIMEOUT_MS c)),
      (''MTN_MOMO_API_KEY'', Some (MTN_MOMO_API_KEY c)), (''MTN_MOMO_API_SECRET'', Some (MTN_MOMO_API_SECRET c)),
      (''MTN_MOMO_SUBSCRIPTION_KEY'', Some (MTN_MOMO_SUBSCRIPTION_KEY c)),
      (''MTN_MOMO_ENVIRONMENT'', Some (MTN_MOMO_ENVIRONMENT c)), (''MTN_MOMO_BASE_URL'', MTN_MOMO_BASE_URL c),
      (''MTN_MOMO_COLLECTION_SUBSCRIPTION_KEY'', MTN_MOMO_COLLECTION_SUBSCRIPTION_KEY c),
      (''MTN_MOMO_API_USER'', MTN_MOMO_API_USER c), (''MTN_MOMO_TARGET_ENVIRONMENT'', MTN_MOMO_TARGET_ENVIRONMENT c),
      (''MTN_MOMO_WEBHOOK_SECRET'', MTN_MOMO_WEBHOOK_SECRET c), (''QR_HMAC_ACTIVE_KID'', Some (QR_HMAC_ACTIVE_KID c)),
      (''QR_HMAC_ACTIVE_SECRET'', Some (QR_HMAC_ACTIVE_SECRET c)), (''API_BASE_URL'', Some (API_BASE_URL c)),
      (''SENTRY_DSN'', SENTRY_DSN c),
      (''PILOT_CHECKOUT_ENABLED'', map_option flag_text (PILOT_CHECKOUT_ENABLED (pilot c))),
      (''PILOT_PAYMENTS_ENABLED'', map_option flag_text (PILOT_PAYMENTS_ENABLED (pilot c))),
      (''PILOT_ADMISSIONS_ENABLED'', map_option flag_text (PILOT_ADMISSIONS_ENABLED (pilot c))),
      (''PILOT_ALLOWED_PAYMENT_PROVIDERS'', map_option comma_list (PILOT_ALLOWED_PAYMENT_PROVIDERS (pilot c))),
      (''PILOT_ALLOWED_CURRENCIES'', map_option comma_list (PILOT_ALLOWED_CURRENCIES (pilot c))),
      (''PILOT_ALLOWED_ORGANIZER_IDS'', map_option comma_list (PILOT_ALLOWED_ORGANIZER_IDS (pilot c))),
      (''PILOT_ALLOWED_EVENT_IDS'', map_option comma_list (PILOT_ALLOWED_EVENT_IDS (pilot c))),
      (''PILOT_ALLOWED_GATE_IDS'', map_option comma_list (PILOT_ALLOWED_GATE_IDS (pilot c)))]"

definition written :: "AppConfigValues \<Rightarrow> process_env" where
  "written c key = Option.bind (map_of (config_fields c) key) id"

lemma dropWhile_length: "length xs \<le> length (dropWhile P xs) \<Longrightarrow> dropWhile P xs = xs"
  by (cases xs) (use length_dropWhile_le [of P "tl xs"] in auto)

lemma is_text_iff: "is_text v \<longleftrightarrow> v \<noteq> [] \<and> \<not> is_js_space (hd v) \<and> \<not> is_js_space (last v)"
proof (cases "v = []")
  case False
  let ?d = "dropWhile is_js_space"
  have rev_self: "?d (rev v) = rev v \<longleftrightarrow> \<not> is_js_space (last v)"
    using False by (simp add: dropWhile_eq_self_iff hd_rev)
  have self: "?d v = v \<longleftrightarrow> \<not> is_js_space (hd v)" using False by (simp add: dropWhile_eq_self_iff)
  have "?d v = v" if t: "rev (?d (rev (?d v))) = v"
  proof (rule dropWhile_length)
    show "length v \<le> length (?d v)"
      using length_dropWhile_le [of is_js_space "rev (?d v)"] arg_cong [OF t, of length] by simp
  qed
  then show ?thesis
    using False self rev_self by (auto simp: is_text_def js_trim_def rev_swap)
qed (simp add: is_text_def)

lemma is_text_trim: "is_text v \<Longrightarrow> js_trim v = v"
  by (simp add: is_text_def)

lemma is_text_append: "is_text x \<Longrightarrow> is_text y \<Longrightarrow> is_text (x @ z @ y)"
  by (auto simp: is_text_iff)

lemma comma_list_text: "xs \<noteq> [] \<Longrightarrow> list_all is_text xs \<Longrightarrow> is_text (comma_list xs)"
proof (induction xs rule: comma_list.induct)
  case (3 x y xs)
  then show ?case using is_text_append [of x "comma_list (y # xs)" "[CHR '','']"] by simp
qed simp_all

lemma split_append: "CHR '','' \<notin> set x \<Longrightarrow> split_commas (x @ CHR '','' # y) = x # split_commas y"
  by (induction x) auto

lemma split_single: "CHR '','' \<notin> set x \<Longrightarrow> split_commas x = [x]"
  by (induction x) auto

lemma split_comma_list: "xs \<noteq> [] \<Longrightarrow> list_all (\<lambda>x. CHR '','' \<notin> set x) xs \<Longrightarrow> split_commas (comma_list xs) = xs"
  by (induction xs rule: comma_list.induct) (simp_all add: split_append split_single)

lemma digit_plain: "is_digit c \<Longrightarrow> \<not> is_js_space c \<and> \<not> is_exponent_mark c \<and> c \<notin> set ''-+.xXoObB''"
  by (auto simp: is_digit_def is_js_space_def is_exponent_mark_def Let_def)

lemma nat_digits_digit: "c \<in> set (nat_digits n) \<Longrightarrow> is_digit c"
  using digits_are_digits by (simp add: is_digit_def)

lemma unsigned_decimal_digits: "unsigned_decimal (nat_digits n) = Some (of_nat n)"
proof -
  have d: "\<forall>c\<in>set (nat_digits n). is_digit c" using nat_digits_digit by blast
  then have m: "\<forall>c\<in>set (nat_digits n). \<not> is_exponent_mark c" using digit_plain by blast
  have "decimal_mantissa (nat_digits n) = Some (of_nat n)"
    using d digits_nonempty [of n] by (simp add: decimal_mantissa_def Let_def takeWhile_eq_all_conv [THEN iffD2] dropWhile_eq_Nil_conv [THEN iffD2])
  then show ?thesis
    using m by (simp add: unsigned_decimal_def Let_def takeWhile_eq_all_conv [THEN iffD2] dropWhile_eq_Nil_conv [THEN iffD2])
qed

lemma int_text: "is_text (int_to_string i)" and int_prefix: "take 2 (int_to_string i) \<notin> {[CHR ''0'', c] | c. c \<in> set ''xXoObB''}"
  and int_signed: "signed unsigned_decimal (int_to_string i) = Some (of_int i)"
proof -
  obtain c cs where n: "nat_digits (nat \<bar>i\<bar>) = c # cs" using digits_nonempty [of "nat \<bar>i\<bar>"] by (cases "nat_digits (nat \<bar>i\<bar>)") auto
  have d: "x \<in> set (c # cs) \<Longrightarrow> is_digit x" for x using nat_digits_digit [of x "nat \<bar>i\<bar>"] n by simp
  have l: "is_digit (last (c # cs))" using d last_in_set [of "c # cs"] by blast
  have u: "unsigned_decimal (c # cs) = Some (of_nat (nat \<bar>i\<bar>))" using unsigned_decimal_digits [of "nat \<bar>i\<bar>"] n by simp
  show "is_text (int_to_string i)"
    using n l d digit_plain by (auto simp: is_text_iff int_to_string_def is_js_space_def)
  show "take 2 (int_to_string i) \<notin> {[CHR ''0'', c] | c. c \<in> set ''xXoObB''}"
    using n d [of "hd cs"] digit_plain [of "hd cs"] by (cases cs) (auto simp: int_to_string_def)
  show "signed unsigned_decimal (int_to_string i) = Some (of_int i)"
    using n u digit_plain [OF d [of c]] by (auto simp: int_to_string_def signed_def)
qed

lemma finite_Number_int: "\<bar>rat_of_int i\<bar> < double_bound \<Longrightarrow> finite_Number (int_to_string i) = Some (of_int i)"
  using int_prefix [of i] int_text [of i]
  by (auto simp: finite_Number_def Let_def is_text_trim int_signed is_text_def)

text \<open>What \<open>new URL(x).toString()\<close> promises: the text it writes parses to itself and has no space around it.\<close>

definition url_normalises :: "(string \<Rightarrow> string option) \<Rightarrow> bool" where
  "url_normalises new_URL \<longleftrightarrow> (\<forall>u\<in>ran new_URL. new_URL u = Some u \<and> is_text u)"

definition whole_numbers :: "AppConfigValues \<Rightarrow> bool" where
  "whole_numbers c \<longleftrightarrow> PORT c \<in> \<int> \<and> JWT_ACCESS_TTL c \<in> \<int> \<and> JWT_REFRESH_TTL c \<in> \<int> \<and>
     opt_all (\<lambda>t. t \<in> \<int>) (PAYMENT_PROVIDER_TIMEOUT_MS c)"

lemma trimmed_text: "opt_all is_text (env key) \<Longrightarrow> trimmed env key = env key"
  by (cases "env key") (auto simp: trimmed_def is_text_def)

lemma required_back: "env key = Some v \<Longrightarrow> is_text v \<Longrightarrow> getRequiredValue env key = Inr v"
  by (simp add: getRequiredValue_Inr trimmed_text)

lemma enum_back: "env key = Some v \<Longrightarrow> v \<in> set values \<Longrightarrow> list_all is_text values \<Longrightarrow> getEnumValue env key values = Inr v"
  by (simp add: getEnumValue_def and_then_def required_back list_all_iff)

lemma secret_back: "env key = Some v \<Longrightarrow> is_secret v \<Longrightarrow> getSecret env key = Inr v"
  by (simp add: getSecret_def and_then_def required_back is_secret_def)

lemma optional_secret_back: "env key = v \<Longrightarrow> opt_all is_secret v \<Longrightarrow> getOptionalSecret env key = Inr v"
  by (cases v) (simp_all add: getOptionalSecret_def trimmed_text is_secret_def)

lemma url_back: "env key = Some u \<Longrightarrow> u \<in> ran new_URL \<Longrightarrow> url_normalises new_URL \<Longrightarrow> getUrl new_URL env key = Inr u"
  by (simp add: getUrl_def and_then_def required_back url_normalises_def)

lemma optional_url_back:
  "env key = v \<Longrightarrow> opt_all (\<lambda>u. u \<in> ran new_URL) v \<Longrightarrow> url_normalises new_URL \<Longrightarrow> getOptionalUrl new_URL env key = Inr v"
  by (cases v) (simp_all add: getOptionalUrl_def trimmed_text url_normalises_def)

lemma string_back: "env key = v \<Longrightarrow> opt_all is_text v \<Longrightarrow> getOptionalString env key = v"
  by (simp add: getOptionalString_def trimmed_text)

lemma whole_text_back: "r \<in> \<int> \<Longrightarrow> \<bar>r\<bar> < double_bound \<Longrightarrow> finite_Number (whole_text r) = Some r \<and> is_text (whole_text r)"
  by (auto simp: whole_text_def finite_Number_int int_text elim!: Ints_cases)

lemma number_back: "env key = Some (whole_text r) \<Longrightarrow> r \<in> \<int> \<Longrightarrow> \<bar>r\<bar> < double_bound \<Longrightarrow> getNumber env key = Inr r"
  by (simp add: getNumber_def and_then_def required_back whole_text_back)

lemma optional_number_back:
  "env key = map_option whole_text v \<Longrightarrow> opt_all (\<lambda>t. t \<in> \<int>) v \<Longrightarrow> opt_all (\<lambda>t. \<bar>t\<bar> < double_bound) v \<Longrightarrow>
    getOptionalNumber env key = Inr v"
  by (cases v) (simp_all add: getOptionalNumber_def trimmed_text whole_text_back)

lemma flag_words: "is_text (flag_text b)" "toLowerCase (flag_text b) = flag_text b" "flag_text b = ''true'' \<longleftrightarrow> b"
    "flag_text b = ''false'' \<longleftrightarrow> \<not> b"
proof -
  have "is_text ''true''" "is_text ''false''" "toLowerCase ''true'' = ''true''" "toLowerCase ''false'' = ''false''"
    by code_simp+
  then show "is_text (flag_text b)" "toLowerCase (flag_text b) = flag_text b" "flag_text b = ''true'' \<longleftrightarrow> b"
    "flag_text b = ''false'' \<longleftrightarrow> \<not> b" by (simp_all add: flag_text_def)
qed

lemma flag_back: "env key = map_option flag_text v \<Longrightarrow> getOptionalBoolean env key = Inr v"
  by (cases v) (simp_all add: getOptionalBoolean_def trimmed_text flag_words)

lemma csv_back: "env key = map_option comma_list v \<Longrightarrow> opt_all (is_list_of P) v \<Longrightarrow> getOptionalCsvList env key = Inr v"
proof (cases v)
  case (Some xs)
  assume k: "env key = map_option comma_list v" and "opt_all (is_list_of P) v"
  then have xs: "xs \<noteq> []" "list_all is_text xs" "list_all (\<lambda>x. CHR '','' \<notin> set x) xs"
    using Some by (auto simp: is_list_of_def list_all_iff)
  then have "filter (\<lambda>x. x \<noteq> []) (map js_trim xs) = xs"
    by (induction xs) (auto simp: is_text_def filter_id_conv list_all_iff map_idI)
  then show ?thesis
    using k Some xs by (simp add: getOptionalCsvList_def trimmed_text comma_list_text split_comma_list)
qed (simp add: getOptionalCsvList_def trimmed_def)

lemma enum_list_back:
  "env key = map_option comma_list v \<Longrightarrow> opt_all (is_list_of (\<lambda>x. x \<in> set values)) v \<Longrightarrow>
    getOptionalEnumList env key values = Inr v"
  by (frule (1) csv_back, cases v) (auto simp: getOptionalEnumList_def and_then_def is_list_of_def list_all_iff filter_empty_conv)

lemma uuid_list_back:
  "env key = map_option comma_list v \<Longrightarrow> opt_all (is_list_of is_uuid) v \<Longrightarrow> getOptionalUuidList env key = Inr v"
  by (frule (1) csv_back, cases v) (auto simp: getOptionalUuidList_def and_then_def is_list_of_def list_all_iff filter_empty_conv)

lemma constant_texts: "list_all is_text NODE_ENVIRONMENTS" "list_all is_text MOMO_ENVIRONMENTS"
  by code_simp+

lemma pilot_written:
  "written c ''PILOT_CHECKOUT_ENABLED'' = map_option flag_text (PILOT_CHECKOUT_ENABLED (pilot c))"
  "written c ''PILOT_PAYMENTS_ENABLED'' = map_option flag_text (PILOT_PAYMENTS_ENABLED (pilot c))"
  "written c ''PILOT_ADMISSIONS_ENABLED'' = map_option flag_text (PILOT_ADMISSIONS_ENABLED (pilot c))"
  "written c ''PILOT_ALLOWED_PAYMENT_PROVIDERS'' = map_option comma_list (PILOT_ALLOWED_PAYMENT_PROVIDERS (pilot c))"
  "written c ''PILOT_ALLOWED_CURRENCIES'' = map_option comma_list (PILOT_ALLOWED_CURRENCIES (pilot c))"
  "written c ''PILOT_ALLOWED_ORGANIZER_IDS'' = map_option comma_list (PILOT_ALLOWED_ORGANIZER_IDS (pilot c))"
  "written c ''PILOT_ALLOWED_EVENT_IDS'' = map_option comma_list (PILOT_ALLOWED_EVENT_IDS (pilot c))"
  "written c ''PILOT_ALLOWED_GATE_IDS'' = map_option comma_list (PILOT_ALLOWED_GATE_IDS (pilot c))"
  by (simp_all add: written_def config_fields_def)

lemma pilot_back: "pilot_typed (pilot c) \<Longrightarrow> pilot_values (written c) = Inr (pilot c)"
  unfolding pilot_values_def pilot_typed_def
  by (simp add: and_then_def pilot_written(1-3) [THEN flag_back [where env = "written c"]]
      pilot_written(4,5) [THEN enum_list_back [where env = "written c"]]
      pilot_written(6-8) [THEN uuid_list_back [where env = "written c"]])

lemma config_written:
  "written c ''APP_NAME'' = Some (APP_NAME c)" "written c ''NODE_ENV'' = Some (NODE_ENV c)"
  "written c ''PORT'' = Some (whole_text (PORT c))" "written c ''DATABASE_URL'' = Some (DATABASE_URL c)"
  "written c ''REDIS_URL'' = Some (REDIS_URL c)" "written c ''JWT_ACCESS_SECRET'' = Some (JWT_ACCESS_SECRET c)"
  "written c ''JWT_REFRESH_SECRET'' = Some (JWT_REFRESH_SECRET c)"
  "written c ''JWT_ACCESS_TTL'' = Some (whole_text (JWT_ACCESS_TTL c))"
  "written c ''JWT_REFRESH_TTL'' = Some (whole_text (JWT_REFRESH_TTL c))"
  "written c ''PAYSTACK_SECRET_KEY'' = Some (PAYSTACK_SECRET_KEY c)"
  "written c ''PAYSTACK_BASE_URL'' = PAYSTACK_BASE_URL c"
  "written c ''PAYMENT_PROVIDER_TIMEOUT_MS'' = map_option whole_text (PAYMENT_PROVIDER_TIMEOUT_MS c)"
  "written c ''MTN_MOMO_API_KEY'' = Some (MTN_MOMO_API_KEY c)"
  "written c ''MTN_MOMO_API_SECRET'' = Some (MTN_MOMO_API_SECRET c)"
  "written c ''MTN_MOMO_SUBSCRIPTION_KEY'' = Some (MTN_MOMO_SUBSCRIPTION_KEY c)"
  "written c ''MTN_MOMO_ENVIRONMENT'' = Some (MTN_MOMO_ENVIRONMENT c)"
  "written c ''MTN_MOMO_BASE_URL'' = MTN_MOMO_BASE_URL c"
  "written c ''MTN_MOMO_COLLECTION_SUBSCRIPTION_KEY'' = MTN_MOMO_COLLECTION_SUBSCRIPTION_KEY c"
  "written c ''MTN_MOMO_API_USER'' = MTN_MOMO_API_USER c"
  "written c ''MTN_MOMO_TARGET_ENVIRONMENT'' = MTN_MOMO_TARGET_ENVIRONMENT c"
  "written c ''MTN_MOMO_WEBHOOK_SECRET'' = MTN_MOMO_WEBHOOK_SECRET c"
  "written c ''QR_HMAC_ACTIVE_KID'' = Some (QR_HMAC_ACTIVE_KID c)"
  "written c ''QR_HMAC_ACTIVE_SECRET'' = Some (QR_HMAC_ACTIVE_SECRET c)"
  "written c ''API_BASE_URL'' = Some (API_BASE_URL c)" "written c ''SENTRY_DSN'' = SENTRY_DSN c"
  by (simp_all add: written_def config_fields_def)

lemma config_values_back:
  assumes "url_normalises new_URL" and "config_typed new_URL c" and "whole_numbers c"
  shows "config_values new_URL (written c) = Inr c"
proof -
  have port: "\<bar>PORT c\<bar> < double_bound"
    using assms(2) by (simp add: config_typed_def double_bound_def)
  have timeout: "opt_all (\<lambda>t. \<bar>t\<bar> < double_bound) (PAYMENT_PROVIDER_TIMEOUT_MS c)"
    using assms(2) by (cases "PAYMENT_PROVIDER_TIMEOUT_MS c") (auto simp: config_typed_def)
  note reads = config_written(1,22) [THEN required_back [where env = "written c"]]
    config_written(2,16) [THEN enum_back [where env = "written c"]]
    config_written(3,8,9) [THEN number_back [where env = "written c"]]
    config_written(4,5,24) [THEN url_back [where env = "written c"]]
    config_written(6,7,10,13,14,15,23) [THEN secret_back [where env = "written c"]]
    config_written(11,17,25) [THEN optional_url_back [where env = "written c"]]
    config_written(12) [THEN optional_number_back [where env = "written c"]]
    config_written(18,21) [THEN optional_secret_back [where env = "written c"]]
    config_written(19,20) [THEN string_back [where env = "written c"]]
  show ?thesis
    using assms port timeout unfolding config_values_def config_typed_def whole_numbers_def
    by (simp add: and_then_def reads constant_texts pilot_back)
qed

text \<open>
  Exactly the well-typed configurations can be had. Written into an environment, such a
  configuration is accepted and read back value for value, provided its numbers are whole and
  \<open>new URL\<close> leaves the text it normalised alone.
\<close>

theorem config_roundtrip:
  assumes "url_normalises new_URL" and "config_typed new_URL c" and "whole_numbers c"
  shows "validateConfig new_URL (written c) = Inr c"
  using config_values_back [OF assms] assms(2)
  by (cases "PAYMENT_PROVIDER_TIMEOUT_MS c") (simp_all add: validateConfig_def and_then_def config_typed_def not_less not_le)

section \<open>Example\<close>

definition ex_config :: AppConfigValues where
  "ex_config = \<lparr> APP_NAME = ''govibe'', NODE_ENV = ''test'', PORT = 3000, DATABASE_URL = ''postgres://db/'',
     REDIS_URL = ''redis://cache/'', JWT_ACCESS_SECRET = ''0123456789abcdef'', JWT_REFRESH_SECRET = ''0123456789abcdef'',
     JWT_ACCESS_TTL = 900, JWT_REFRESH_TTL = 2592000, PAYSTACK_SECRET_KEY = ''0123456789abcdef'',
     PAYSTACK_BASE_URL = None, PAYMENT_PROVIDER_TIMEOUT_MS = Some 5000, MTN_MOMO_API_KEY = ''0123456789abcdef'',
     MTN_MOMO_API_SECRET = ''0123456789abcdef'', MTN_MOMO_SUBSCRIPTION_KEY = ''0123456789abcdef'',
     MTN_MOMO_ENVIRONMENT = ''sandbox'', MTN_MOMO_BASE_URL = None, MTN_MOMO_COLLECTION_SUBSCRIPTION_KEY = None,
     MTN_MOMO_API_USER = None, MTN_MOMO_TARGET_ENVIRONMENT = Some ''mtnghana'', MTN_MOMO_WEBHOOK_SECRET = None,
     QR_HMAC_ACTIVE_KID = ''k1'', QR_HMAC_ACTIVE_SECRET = ''0123456789abcdef'', API_BASE_URL = ''https://api/'',
     SENTRY_DSN = None,
     pilot = \<lparr> PILOT_CHECKOUT_ENABLED = Some False, PILOT_PAYMENTS_ENABLED = None, PILOT_ADMISSIONS_ENABLED = None,
       PILOT_ALLOWED_PAYMENT_PROVIDERS = Some [''paystack'', ''momo''], PILOT_ALLOWED_CURRENCIES = Some [''GHS''],
       PILOT_ALLOWED_ORGANIZER_IDS = None, PILOT_ALLOWED_EVENT_IDS = None, PILOT_ALLOWED_GATE_IDS = None \<rparr> \<rparr>"

text \<open>A URL parser that knows three addresses.\<close>

definition ex_URL :: "string \<Rightarrow> string option" where
  "ex_URL x = (if x \<in> {''postgres://db/'', ''redis://cache/'', ''https://api/''} then Some x else None)"

lemma ex_texts: "list_all is_text [''postgres://db/'', ''redis://cache/'', ''https://api/'', ''govibe'', ''k1'',
    ''mtnghana'', ''0123456789abcdef'', ''paystack'', ''momo'', ''GHS'']"
  by code_simp

lemma ex_URL_ran: "ran ex_URL = {''postgres://db/'', ''redis://cache/'', ''https://api/''}"
proof -
  have "ran (\<lambda>x. if x \<in> S then Some x else None) = S" for S :: "string set"
    by (auto simp: ran_def split: if_splits)
  then show ?thesis unfolding ex_URL_def [abs_def] .
qed

lemma ex_URL_normalises: "url_normalises ex_URL"
  using ex_texts by (simp add: url_normalises_def ex_URL_ran) (simp add: ex_URL_def)

lemma ex_config_typed: "config_typed ex_URL ex_config"
  using ex_texts
  by (simp add: config_typed_def ex_config_def ex_URL_ran is_secret_def double_bound_def pilot_typed_def
      is_list_of_def SUPPORTED_PAYMENT_PROVIDERS_def SUPPORTED_CURRENCIES_def NODE_ENVIRONMENTS_def MOMO_ENVIRONMENTS_def)

lemma ex_config_whole: "whole_numbers ex_config"
  by (simp add: whole_numbers_def ex_config_def)

lemma ex_config_accepted: "validateConfig ex_URL (written ex_config) = Inr ex_config"
  using config_values_back [OF ex_URL_normalises ex_config_typed ex_config_whole]
  by (simp add: validateConfig_def and_then_def) (simp add: ex_config_def)

lemma config_roundtrip_witness: "validateConfig ex_URL (written ex_config) = Inr ex_config \<and> PORT ex_config = 3000"
  using config_roundtrip [OF ex_URL_normalises ex_config_typed ex_config_whole] by (simp add: ex_config_def)

lemma accepted_config_typed_witness: "config_typed ex_URL ex_config \<and> pilot_typed (pilot ex_config)"
  using accepted_config_typed [OF ex_config_accepted] by (simp add: config_typed_def)

text \<open>The target environment of MoMo is not checked: this configuration has one its type does not allow.\<close>

lemma target_environment_unchecked:
  "validateConfig ex_URL (written ex_config) = Inr ex_config \<and>
    MTN_MOMO_TARGET_ENVIRONMENT ex_config = Some ''mtnghana'' \<and> ''mtnghana'' \<notin> set MOMO_ENVIRONMENTS"
  by (simp add: ex_config_accepted) (simp add: ex_config_def MOMO_ENVIRONMENTS_def)

end
