(* ===== verification/Redaction.thy ===== *)
theory Redaction
  imports Json_Text "HOL-Library.Sublist"
begin

text \<open>
  What the support team may see of a value
  (\<^verbatim>\<open>src/modules/admin-support/admin-support-redaction.service.ts\<close>): fields with a forbidden name
  are dropped at every depth, texts that look like a secret are replaced. The values of the secrets
  themselves, read from the environment when the service is built, are an argument.
\<close>

section \<open>Keys and texts\<close>

definition FORBIDDEN_EXACT_KEYS :: "string list" where
  "FORBIDDEN_EXACT_KEYS =
     [''password'', ''passwordHash'', ''accessToken'', ''refreshToken'', ''refreshTokenHash'',
      ''previousRefreshTokenHash'', ''sessionTokenHash'', ''admissionToken'', ''admissionTokenHash'',
      ''tokenHash'', ''scanNonceHash'', ''providerRawResponse'', ''providerVerificationRaw'',
      ''providerAccessCode'', ''providerCheckoutUrl'', ''authorizationUrl'', ''rawPayload'', ''rawHeaders'',
      ''verifiedPayload'', ''apiKey'', ''authorization'', ''cookie'', ''set-cookie'', ''x-paystack-signature'',
      ''x-reference-id'', ''DATABASE_URL'', ''REDIS_URL'', ''PAYSTACK_SECRET_KEY'', ''MTN_MOMO_API_KEY'',
      ''MTN_MOMO_API_SECRET'', ''MTN_MOMO_SUBSCRIPTION_KEY'', ''JWT_SECRET'', ''JWT_ACCESS_SECRET'',
      ''JWT_REFRESH_SECRET'']"

definition HIGH_RISK_KEY_FRAGMENTS :: "string list" where
  "HIGH_RISK_KEY_FRAGMENTS = [''password'', ''secret'', ''token'', ''apikey'', ''authorization'', ''cookie'']"

text \<open>\<open>key.replace(/[^a-z0-9]/gi, '').toLowerCase()\<close>\<close>

definition alnum :: "char \<Rightarrow> bool" where
  "alnum c \<longleftrightarrow> (let n = (of_char c :: nat) in 48 \<le> n \<and> n < 58 \<or> 65 \<le> n \<and> n \<le> 90 \<or> 97 \<le> n \<and> n \<le> 122)"

definition normalizeKey :: "string \<Rightarrow> string" where
  "normalizeKey key = toLowerCase (filter alnum key)"

definition includes_text :: "string \<Rightarrow> string \<Rightarrow> bool" where
  "includes_text text fragment = sublist fragment text"

definition shouldRedactKey :: "string \<Rightarrow> bool" where
  "shouldRedactKey key =
     (let normalizedKey = normalizeKey key in
      normalizedKey \<in> set (map normalizeKey FORBIDDEN_EXACT_KEYS) \<or>
      list_ex (includes_text normalizedKey) HIGH_RISK_KEY_FRAGMENTS)"

text \<open>The values of the variables that are set, in the order the service lists them.\<close>

definition sensitiveValueFragments :: "string option list \<Rightarrow> string list" where
  "sensitiveValueFragments env_values =
     filter (\<lambda>v. v \<noteq> []) (map (\<lambda>v. toLowerCase (js_trim v)) (List.map_filter id env_values))"

definition shouldRedactStringValue :: "string list \<Rightarrow> string \<Rightarrow> bool" where
  "shouldRedactStringValue fragments text =
     (let trimmed = js_trim text; lower = toLowerCase trimmed in
      trimmed \<noteq> [] \<and>
      (list_ex (includes_text lower) [''postgres://'', ''postgresql://'', ''redis://'', ''bearer ''] \<or>
       list_ex (includes_text lower) HIGH_RISK_KEY_FRAGMENTS \<or>
       list_ex (includes_text lower) fragments))"

text \<open>The forbidden names once normalised, so that a name can be looked up.\<close>

lemma forbidden_normal:
  "map normalizeKey FORBIDDEN_EXACT_KEYS =
    [''password'', ''passwordhash'', ''accesstoken'', ''refreshtoken'', ''refreshtokenhash'',
     ''previousrefreshtokenhash'', ''sessiontokenhash'', ''admissiontoken'', ''admissiontokenhash'',
     ''tokenhash'', ''scannoncehash'', ''providerrawresponse'', ''providerverificationraw'',
     ''provideraccesscode'', ''providercheckouturl'', ''authorizationurl'', ''rawpayload'',
     ''rawheaders'', ''verifiedpayload'', ''apikey'', ''authorization'', ''cookie'', ''setcookie'',
     ''xpaystacksignature'', ''xreferenceid'', ''databaseurl'', ''redisurl'', ''paystacksecretkey'',
     ''mtnmomoapikey'', ''mtnmomoapisecret'', ''mtnmomosubscriptionkey'', ''jwtsecret'',
     ''jwtaccesssecret'', ''jwtrefreshsecret'']"
  by code_simp

lemma key_hidden:
  "normalizeKey key = n \<Longrightarrow> shouldRedactKey key \<longleftrightarrow>
    n \<in> set (map normalizeKey FORBIDDEN_EXACT_KEYS) \<or> list_ex (includes_text n) HIGH_RISK_KEY_FRAGMENTS"
  by (simp add: shouldRedactKey_def)

section \<open>Values\<close>

definition REDACTED :: string where
  "REDACTED = ''[REDACTED]''"

fun redactUnknown :: "string list \<Rightarrow> json \<Rightarrow> json"
  and redact_entries :: "string list \<Rightarrow> json list \<Rightarrow> json list"
  and redact_fields :: "string list \<Rightarrow> (string \<times> json) list \<Rightarrow> (string \<times> json) list"
where
  "redactUnknown F (JArr entries) = JArr (redact_entries F entries)"
| "redactUnknown F (JObj props) = JObj (redact_fields F props)"
| "redactUnknown F (JStr text) = JStr (if shouldRedactStringValue F text then REDACTED else text)"
| "redactUnknown F value = value"
| "redact_entries F [] = []"
| "redact_entries F (x # xs) = redactUnknown F x # redact_entries F xs"
| "redact_fields F [] = []"
| "redact_fields F ((key, childValue) # rest) =
     (if shouldRedactKey key then redact_fields F rest
      else let redactedChild = redactUnknown F childValue in
           if redactedChild \<noteq> JUndefined then (key, redactedChild) # redact_fields F rest
           else redact_fields F rest)"

definition redactResponse :: "string list \<Rightarrow> json \<Rightarrow> json" where
  "redactResponse F value = redactUnknown F value"

section \<open>What may be shown\<close>

text \<open>No forbidden key, no undefined field and no risky text at any depth.\<close>

fun showable :: "string list \<Rightarrow> json \<Rightarrow> bool" where
  "showable F (JArr entries) = list_all (showable F) entries"
| "showable F (JObj props) =
     list_all (\<lambda>(key, value). \<not> shouldRedactKey key \<and> value \<noteq> JUndefined \<and> showable F value) props"
| "showable F (JStr text) = (text = REDACTED \<or> \<not> shouldRedactStringValue F text)"
| "showable F value = True"

text \<open>
  The data of a value: a path of keys and positions leads to a text, a number, a date, a truth value
  or null; \<open>undefined\<close> is no data.
\<close>

datatype json_step = Field string | Entry nat

fun leaf_at :: "json \<Rightarrow> json_step list \<Rightarrow> json option" where
  "leaf_at (JObj props) (Field key # path) = Option.bind (map_of props key) (\<lambda>v. leaf_at v path)"
| "leaf_at (JArr entries) (Entry i # path) = (if i < length entries then leaf_at (entries ! i) path else None)"
| "leaf_at (JObj props) path = None"
| "leaf_at (JArr entries) path = None"
| "leaf_at JUndefined path = None"
| "leaf_at value path = (if path = [] then Some value else None)"

definition open_path :: "json_step list \<Rightarrow> bool" where
  "open_path path \<longleftrightarrow> (\<forall>key. Field key \<in> set path \<longrightarrow> \<not> shouldRedactKey key)"

definition hide :: "string list \<Rightarrow> json \<Rightarrow> json" where
  "hide F leaf = (case leaf of JStr text \<Rightarrow> JStr (if shouldRedactStringValue F text then REDACTED else text) | _ \<Rightarrow> leaf)"

fun keys_distinct :: "json \<Rightarrow> bool" where
  "keys_distinct (JArr entries) = list_all keys_distinct entries"
| "keys_distinct (JObj props) = (distinct (map fst props) \<and> list_all (\<lambda>(key, value). keys_distinct value) props)"
| "keys_distinct value = True"

lemma redact_entries_map: "redact_entries F xs = map (redactUnknown F) xs"
  by (induction xs) simp_all

lemma redact_undefined [simp]: "redactUnknown F v = JUndefined \<longleftrightarrow> v = JUndefined"
  by (cases v) simp_all

lemma redact_fields_filter:
  "redact_fields F props = map (\<lambda>(key, v). (key, redactUnknown F v))
     (filter (\<lambda>(key, v). \<not> shouldRedactKey key \<and> v \<noteq> JUndefined) props)"
proof (induction props)
  case (Cons x xs)
  then show ?case by (cases x) simp
qed simp

lemma showable_redacted: "showable F (redactUnknown F v)"
proof (induction v)
  case (JArr xs)
  then show ?case by (auto simp: redact_entries_map list_all_iff)
next
  case (JObj props)
  then show ?case by (fastforce simp: redact_fields_filter list_all_iff)
qed (simp_all add: REDACTED_def)

lemma redact_map_of:
  assumes "distinct (map fst props)"
  shows "map_of (redact_fields F props) key =
    (if shouldRedactKey key \<or> map_of props key = Some JUndefined then None
     else map_option (redactUnknown F) (map_of props key))"
  using assms
proof (induction props)
  case (Cons x xs)
  have "key \<notin> fst ` set xs \<Longrightarrow> map_of (redact_fields F xs) key = None"
    by (force simp: redact_fields_filter map_of_eq_None_iff)
  then show ?case using Cons by (cases x) (auto simp: Let_def)
qed simp

lemma leaf_redacted:
  "keys_distinct v \<Longrightarrow>
    leaf_at (redactUnknown F v) path = (if open_path path then map_option (hide F) (leaf_at v path) else None)"
proof (induction v arbitrary: path)
  case (JArr xs)
  show ?case
  proof (cases path)
    case (Cons st rest)
    then show ?thesis
      using JArr by (cases st) (auto simp: redact_entries_map list_all_iff open_path_def)
  qed simp
next
  case (JObj props)
  show ?case
  proof (cases path)
    case (Cons st rest)
    show ?thesis
    proof (cases st)
      case (Field key)
      have "leaf_at (redactUnknown F w) rest = (if open_path rest then map_option (hide F) (leaf_at w rest) else None)"
        if "map_of props key = Some w" for w
        using that JObj.prems map_of_SomeD [OF that]
        by (intro JObj.IH [of "(key, w)"]) (auto simp: list_all_iff)
      then show ?thesis
        using Cons Field JObj.prems
        by (cases "map_of props key") (auto simp: redact_map_of open_path_def)
    qed (simp add: Cons)
  qed simp
qed (auto simp: hide_def open_path_def)

section \<open>Properties\<close>

text \<open>
  C37: Redaction hides what it must and nothing else. The result has no forbidden key, no undefined
  field and no risky text at any depth; and along every path whose keys are allowed it has the very
  data of the input, a risky text apart, which reads [REDACTED].
\<close>

theorem redaction_exact:
  assumes "keys_distinct v"
  shows "showable F (redactResponse F v) \<and>
    leaf_at (redactResponse F v) path =
      (if open_path path then map_option (hide F) (leaf_at v path) else None)"
  using assms by (simp add: redactResponse_def showable_redacted leaf_redacted)

section \<open>Example\<close>

definition ex_profile :: json where
  "ex_profile = JObj [(''email'', JStr ''a@b''), (''passwordHash'', JStr ''x''),
     (''notes'', JArr [JStr ''Bearer abc'', JNum 3]), (''Set-Cookie'', JNull), (''phone'', JUndefined)]"

lemma redaction_exact_witness:
  "leaf_at (redactResponse [] ex_profile) [Field ''email''] = Some (JStr ''a@b'') \<and>
   leaf_at (redactResponse [] ex_profile) [Field ''passwordHash''] = None \<and>
   leaf_at (redactResponse [] ex_profile) [Field ''notes'', Entry 0] = Some (JStr REDACTED)"
proof -
  have d: "keys_distinct ex_profile" by (simp add: ex_profile_def)
  have n: "normalizeKey ''email'' = ''email''" "normalizeKey ''notes'' = ''notes''" "normalizeKey ''passwordHash'' = ''passwordhash''"
    "\<not> list_ex (includes_text ''email'') HIGH_RISK_KEY_FRAGMENTS" "\<not> list_ex (includes_text ''notes'') HIGH_RISK_KEY_FRAGMENTS"
    by code_simp+
  have k: "\<not> shouldRedactKey ''email''" "shouldRedactKey ''passwordHash''" "\<not> shouldRedactKey ''notes''"
    using n by (simp_all add: key_hidden [OF n(1)] key_hidden [OF n(2)] key_hidden [OF n(3)] forbidden_normal)
  have v: "\<not> shouldRedactStringValue [] ''a@b''" "shouldRedactStringValue [] ''Bearer abc''" by code_simp+
  show ?thesis
    using redaction_exact [OF d, of "[]" "[Field ''email'']"] redaction_exact [OF d, of "[]" "[Field ''passwordHash'']"]
      redaction_exact [OF d, of "[]" "[Field ''notes'', Entry 0]"] k v
    by (simp add: open_path_def hide_def ex_profile_def)
qed

end
