(* ===== verification/Admin_Support.thy ===== *)
theory Admin_Support
  imports Redaction Access_Control
begin

text \<open>
  The read-only views of the support team (\<^verbatim>\<open>src/modules/admin-support\<close>): repository, audit of every
  read, service and the permission each route asks for.

  The rows of \<open>admission_scan_audits\<close> and \<open>admin_support_audit_logs\<close> have identifiers the database
  draws and no other code reads: \<open>scan_row_id n\<close> and \<open>log_row_id n\<close> are those of the \<open>n\<close>-th row. The
  order of a table stands for \<open>createdAt\<close>; the response fields \<open>createdAt\<close> and \<open>updatedAt\<close> are left
  out (redaction leaves dates alone). \<open>insensitive_contains\<close> is the database's case-insensitive
  substring test, \<open>log_refused\<close> says which audit rows it refuses, and \<open>secrets\<close> are the sensitive
  fragments of the redaction service.
\<close>

section \<open>Parameters and texts\<close>

record support_lib =
  insensitive_contains :: "string \<Rightarrow> string \<Rightarrow> bool"
  scan_row_id :: "nat \<Rightarrow> string"
  log_row_id :: "nat \<Rightarrow> string"
  log_refused :: "AdminSupportAuditLog \<Rightarrow> app_error option"
  secrets :: "string list"

fun action_status_text :: "AdminActionStatus \<Rightarrow> string" where
   "action_status_text AdminActionStatus.SUCCEEDED = ''SUCCEEDED''"
|  "action_status_text AdminActionStatus.REJECTED = ''REJECTED''"
|  "action_status_text AdminActionStatus.FAILED = ''FAILED''"

fun role_text :: "UserRole \<Rightarrow> string" where
   "role_text UserRole.CUSTOMER = ''CUSTOMER''"
|  "role_text UserRole.ORGANIZER = ''ORGANIZER''"
|  "role_text UserRole.GATE_STAFF = ''GATE_STAFF''"
|  "role_text UserRole.ADMIN = ''ADMIN''"

fun organizer_status_text :: "OrganizerStatus \<Rightarrow> string" where
   "organizer_status_text OrganizerStatus.DRAFT = ''DRAFT''"
|  "organizer_status_text OrganizerStatus.PENDING_REVIEW = ''PENDING_REVIEW''"
|  "organizer_status_text OrganizerStatus.APPROVED = ''APPROVED''"
|  "organizer_status_text OrganizerStatus.SUSPENDED = ''SUSPENDED''"
|  "organizer_status_text OrganizerStatus.REJECTED = ''REJECTED''"

fun event_status_text :: "EventStatus \<Rightarrow> string" where
   "event_status_text EventStatus.DRAFT = ''DRAFT''"
|  "event_status_text EventStatus.PUBLISHED = ''PUBLISHED''"
|  "event_status_text EventStatus.CANCELLED = ''CANCELLED''"
|  "event_status_text EventStatus.ARCHIVED = ''ARCHIVED''"

fun visibility_text :: "EventVisibility \<Rightarrow> string" where
   "visibility_text EventVisibility.PRIVATE = ''PRIVATE''"
|  "visibility_text EventVisibility.UNLISTED = ''UNLISTED''"
|  "visibility_text EventVisibility.PUBLIC = ''PUBLIC''"

fun category_text :: "EventCategory \<Rightarrow> string" where
   "category_text EventCategory.NIGHTLIFE = ''NIGHTLIFE''"
|  "category_text EventCategory.CONCERT = ''CONCERT''"
|  "category_text EventCategory.FESTIVAL = ''FESTIVAL''"
|  "category_text EventCategory.CAMPUS = ''CAMPUS''"
|  "category_text EventCategory.CORPORATE = ''CORPORATE''"
|  "category_text EventCategory.COMMUNITY = ''COMMUNITY''"
|  "category_text EventCategory.SPORTS = ''SPORTS''"
|  "category_text EventCategory.ARTS = ''ARTS''"
|  "category_text EventCategory.OTHER = ''OTHER''"

fun provider_text :: "PaymentProvider \<Rightarrow> string" where
   "provider_text PaymentProvider.PAYSTACK = ''PAYSTACK''"
|  "provider_text PaymentProvider.MTN_MOMO = ''MTN_MOMO''"

fun intent_status_text :: "PaymentIntentStatus \<Rightarrow> string" where
   "intent_status_text PaymentIntentStatus.INITIATION_PENDING = ''INITIATION_PENDING''"
|  "intent_status_text PaymentIntentStatus.INITIATED = ''INITIATED''"
|  "intent_status_text PaymentIntentStatus.INITIATION_FAILED = ''INITIATION_FAILED''"
|  "intent_status_text PaymentIntentStatus.VERIFIED = ''VERIFIED''"
|  "intent_status_text PaymentIntentStatus.FAILED = ''FAILED''"

fun ticket_status_text :: "TicketStatus \<Rightarrow> string" where
   "ticket_status_text TicketStatus.ISSUED = ''ISSUED''"
|  "ticket_status_text TicketStatus.ACTIVE = ''ACTIVE''"
|  "ticket_status_text TicketStatus.USED = ''USED''"
|  "ticket_status_text TicketStatus.EXITED = ''EXITED''"
|  "ticket_status_text TicketStatus.INVALIDATED = ''INVALIDATED''"
|  "ticket_status_text TicketStatus.REFUNDED = ''REFUNDED''"
|  "ticket_status_text TicketStatus.BLOCKED = ''BLOCKED''"
|  "ticket_status_text TicketStatus.VOIDED = ''VOIDED''"
|  "ticket_status_text TicketStatus.EXPIRED = ''EXPIRED''"

fun scan_status_text :: "AdmissionScanStatus \<Rightarrow> string" where
   "scan_status_text AdmissionScanStatus.ACCEPTED = ''ACCEPTED''"
|  "scan_status_text AdmissionScanStatus.REJECTED = ''REJECTED''"

fun rejection_text :: "AdmissionRejectionReason \<Rightarrow> string" where
   "rejection_text AdmissionRejectionReason.INVALID_TOKEN = ''INVALID_TOKEN''"
|  "rejection_text AdmissionRejectionReason.TICKET_NOT_FOUND = ''TICKET_NOT_FOUND''"
|  "rejection_text AdmissionRejectionReason.TICKET_NOT_ISSUED = ''TICKET_NOT_ISSUED''"
|  "rejection_text AdmissionRejectionReason.TICKET_VOIDED = ''TICKET_VOIDED''"
|  "rejection_text AdmissionRejectionReason.TICKET_EXPIRED = ''TICKET_EXPIRED''"
|  "rejection_text AdmissionRejectionReason.TICKET_ALREADY_USED = ''TICKET_ALREADY_USED''"
|  "rejection_text AdmissionRejectionReason.EVENT_NOT_ACTIVE = ''EVENT_NOT_ACTIVE''"
|  "rejection_text AdmissionRejectionReason.EVENT_MISMATCH = ''EVENT_MISMATCH''"
|  "rejection_text AdmissionRejectionReason.ORGANIZER_MISMATCH = ''ORGANIZER_MISMATCH''"
|  "rejection_text AdmissionRejectionReason.TOKEN_REPLAY_DETECTED = ''TOKEN_REPLAY_DETECTED''"
|  "rejection_text AdmissionRejectionReason.STAFF_NOT_AUTHORIZED = ''STAFF_NOT_AUTHORIZED''"

definition jopt_num :: "int option \<Rightarrow> json" where
  "jopt_num v = (case v of None \<Rightarrow> JNull | Some n \<Rightarrow> JNum n)"

definition jopt_date :: "int option \<Rightarrow> json" where
  "jopt_date v = (case v of None \<Rightarrow> JNull | Some t \<Rightarrow> JDate t)"

section \<open>Repository\<close>

record AdminLookupQueryDto =
  alq_limit :: nat
  alq_offset :: nat
  alq_search :: "string option"

definition trimOptionalString :: "string option \<Rightarrow> string option" where
  "trimOptionalString value =
     (case value of None \<Rightarrow> None | Some v \<Rightarrow> if js_trim v \<noteq> [] then Some (js_trim v) else None)"

record 'a AdminSupportListResult =
  alr_items :: "'a list"
  alr_limit :: nat
  alr_offset :: nat
  alr_resultCount :: nat

definition toListResult :: "'a list \<Rightarrow> AdminLookupQueryDto \<Rightarrow> 'a AdminSupportListResult" where
  "toListResult items query =
     \<lparr> alr_items = items, alr_limit = alq_limit query, alr_offset = alq_offset query, alr_resultCount = length items \<rparr>"

text \<open>\<open>where\<close>, \<open>orderBy\<close> newest first, \<open>skip\<close> and \<open>take\<close>: the rows come oldest first.\<close>

definition page :: "AdminLookupQueryDto \<Rightarrow> (string option \<Rightarrow> 'r \<Rightarrow> bool) \<Rightarrow> 'r list \<Rightarrow> 'r list" where
  "page query matches rows =
     take (alq_limit query) (drop (alq_offset query) (rev (filter (matches (alq_search query)) rows)))"

text \<open>No search, or an empty one, matches every row.\<close>

definition searching :: "string option \<Rightarrow> (string \<Rightarrow> bool) \<Rightarrow> bool" where
  "searching search test = (case search of None \<Rightarrow> True | Some x \<Rightarrow> x = [] \<or> test x)"

text \<open>Comparison of a \<open>uuid\<close> column with a text: PostgreSQL reads letters of either case.\<close>

definition same_uuid :: "string \<Rightarrow> string \<Rightarrow> bool" where
  "same_uuid i x \<longleftrightarrow> is_uuid x \<and> toLowerCase i = toLowerCase x"

definition opt_test :: "('a \<Rightarrow> bool) \<Rightarrow> 'a option \<Rightarrow> bool" where
  "opt_test P v = (case v of None \<Rightarrow> False | Some x \<Rightarrow> P x)"

definition buildUserWhere :: "support_lib \<Rightarrow> string option \<Rightarrow> User \<Rightarrow> bool" where
  "buildUserWhere R search u =
     searching search (\<lambda>x. insensitive_contains R (usr_email u) x \<or> same_uuid (usr_id u) x)"

definition buildOrganizerWhere :: "support_lib \<Rightarrow> string option \<Rightarrow> Organizer \<Rightarrow> bool" where
  "buildOrganizerWhere R search o' =
     searching search (\<lambda>x. insensitive_contains R (org_displayName o') x \<or> insensitive_contains R (org_slug o') x \<or>
       same_uuid (org_id o') x)"

definition buildEventWhere :: "support_lib \<Rightarrow> string option \<Rightarrow> Event \<Rightarrow> bool" where
  "buildEventWhere R search e =
     searching search (\<lambda>x. insensitive_contains R (evt_title e) x \<or> insensitive_contains R (evt_slug e) x \<or>
       opt_test (\<lambda>c. insensitive_contains R c x) (evt_city e) \<or> insensitive_contains R (evt_country e) x \<or>
       same_uuid (evt_id e) x)"

definition buildPaymentWhere :: "support_lib \<Rightarrow> string option \<Rightarrow> PaymentIntent \<Rightarrow> bool" where
  "buildPaymentWhere R search p =
     searching search (\<lambda>x. insensitive_contains R (pi_providerReference p) x \<or> same_uuid (pi_id p) x \<or>
       same_uuid (pi_buyerUserId p) x \<or> same_uuid (pi_eventId p) x)"

definition buildTicketWhere :: "support_lib \<Rightarrow> string option \<Rightarrow> Ticket \<Rightarrow> bool" where
  "buildTicketWhere R search t =
     searching search (\<lambda>x. opt_test (\<lambda>n. insensitive_contains R n x) (tkt_ticketNumber t) \<or> same_uuid (tkt_id t) x \<or>
       same_uuid (tkt_ownerUserId t) x \<or> same_uuid (tkt_eventId t) x)"

definition buildAdmissionScanWhere :: "string option \<Rightarrow> string \<times> AdmissionScanAudit \<Rightarrow> bool" where
  "buildAdmissionScanWhere search = (\<lambda>(i, a).
     searching search (\<lambda>x. same_uuid i x \<or> opt_test (\<lambda>j. same_uuid j x) (asa_ticketId a) \<or>
       opt_test (\<lambda>j. same_uuid j x) (asa_eventId a) \<or> opt_test (\<lambda>j. same_uuid j x) (asa_organizerId a)))"

definition upper_char :: "char \<Rightarrow> char" where
  "upper_char c = (let n = (of_char c :: nat) in
     if 97 \<le> n \<and> n \<le> 122 \<or> 224 \<le> n \<and> n \<le> 254 \<and> n \<noteq> 247 then char_of (n - 32) else c)"

definition toAdminActionStatus :: "string \<Rightarrow> AdminActionStatus option" where
  "toAdminActionStatus value =
     (let upper = map upper_char (js_trim value) in
      if upper = ''SUCCEEDED'' then Some AdminActionStatus.SUCCEEDED
      else if upper = ''REJECTED'' then Some AdminActionStatus.REJECTED
      else if upper = ''FAILED'' then Some AdminActionStatus.FAILED
      else None)"

definition buildAdminSupportAuditLogWhere ::
  "support_lib \<Rightarrow> string option \<Rightarrow> string \<times> AdminSupportAuditLog \<Rightarrow> bool" where
  "buildAdminSupportAuditLogWhere R search = (\<lambda>(i, l).
     searching search (\<lambda>x. insensitive_contains R (asl_action l) x \<or>
       opt_test (\<lambda>t. insensitive_contains R t x) (asl_targetType l) \<or> insensitive_contains R (asl_reasonCode l) x \<or>
       toAdminActionStatus x = Some (asl_status l) \<or> same_uuid (asl_actorUserId l) x \<or>
       opt_test (\<lambda>j. same_uuid j x) (asl_targetId l)))"

definition numbered :: "(nat \<Rightarrow> string) \<Rightarrow> 'r list \<Rightarrow> (string \<times> 'r) list" where
  "numbered row_id rows = zip (map row_id [0..<length rows]) rows"

definition Repository_listUsers :: "support_lib \<Rightarrow> AdminLookupQueryDto \<Rightarrow> (db, User AdminSupportListResult) prog" where
  "Repository_listUsers R query = (\<lambda>s. ret (toListResult (page query (buildUserWhere R) (users s)) query) s)"

definition getUserById :: "string \<Rightarrow> (db, User option) prog" where
  "getUserById i = prisma_find users (\<lambda>u. usr_id u = i)"

definition Repository_listOrganizers ::
  "support_lib \<Rightarrow> AdminLookupQueryDto \<Rightarrow> (db, Organizer AdminSupportListResult) prog" where
  "Repository_listOrganizers R query = (\<lambda>s. ret (toListResult (page query (buildOrganizerWhere R) (organizers s)) query) s)"

definition getOrganizerById :: "string \<Rightarrow> (db, Organizer option) prog" where
  "getOrganizerById i = prisma_find organizers (\<lambda>o'. org_id o' = i)"

definition Repository_listEvents :: "support_lib \<Rightarrow> AdminLookupQueryDto \<Rightarrow> (db, Event AdminSupportListResult) prog" where
  "Repository_listEvents R query = (\<lambda>s. ret (toListResult (page query (buildEventWhere R) (events s)) query) s)"

definition getEventById :: "string \<Rightarrow> (db, Event option) prog" where
  "getEventById i = prisma_find events (\<lambda>e. evt_id e = i)"

definition Repository_listPayments ::
  "support_lib \<Rightarrow> AdminLookupQueryDto \<Rightarrow> (db, PaymentIntent AdminSupportListResult) prog" where
  "Repository_listPayments R query = (\<lambda>s. ret (toListResult (page query (buildPaymentWhere R) (payment_intents s)) query) s)"

definition getPaymentById :: "string \<Rightarrow> (db, PaymentIntent option) prog" where
  "getPaymentById i = prisma_find payment_intents (\<lambda>p. pi_id p = i)"

definition Repository_listTickets :: "support_lib \<Rightarrow> AdminLookupQueryDto \<Rightarrow> (db, Ticket AdminSupportListResult) prog" where
  "Repository_listTickets R query = (\<lambda>s.
     ret (toListResult (page query (buildTicketWhere R) (sort_key tkt_issuedAt (tickets s))) query) s)"

definition getTicketById :: "string \<Rightarrow> (db, Ticket option) prog" where
  "getTicketById i = prisma_find tickets (\<lambda>t. tkt_id t = i)"

definition Repository_listAdmissionScans ::
  "support_lib \<Rightarrow> AdminLookupQueryDto \<Rightarrow> (db, (string \<times> AdmissionScanAudit) AdminSupportListResult) prog" where
  "Repository_listAdmissionScans R query = (\<lambda>s.
     ret (toListResult (page query buildAdmissionScanWhere
       (sort_key (\<lambda>(i, a). asa_scannedAt a) (numbered (scan_row_id R) (admission_scan_audits s)))) query) s)"

definition getAdmissionScanById :: "support_lib \<Rightarrow> string \<Rightarrow> (db, (string \<times> AdmissionScanAudit) option) prog" where
  "getAdmissionScanById R i = prisma_find (\<lambda>s. numbered (scan_row_id R) (admission_scan_audits s)) (\<lambda>(j, a). j = i)"

definition Repository_listAuditLogs ::
  "support_lib \<Rightarrow> AdminLookupQueryDto \<Rightarrow> (db, (string \<times> AdminSupportAuditLog) AdminSupportListResult) prog" where
  "Repository_listAuditLogs R query = (\<lambda>s.
     ret (toListResult (page query (buildAdminSupportAuditLogWhere R)
       (numbered (log_row_id R) (admin_support_audit_logs s))) query) s)"

definition createAuditLog :: "support_lib \<Rightarrow> AdminSupportAuditLog \<Rightarrow> (db, unit) prog" where
  "createAuditLog R row =
     (case log_refused R row of
        Some e \<Rightarrow> throw e
      | None \<Rightarrow> (\<lambda>s. ret () (admin_support_audit_logs_update (\<lambda>rs. rs @ [row]) s)))"

section \<open>Audit of reads\<close>

definition recordRead ::
  "support_lib \<Rightarrow> string \<Rightarrow> string \<Rightarrow> string \<Rightarrow> string option \<Rightarrow> json \<Rightarrow> (db, unit) prog" where
  "recordRead R actorUserId action targetType targetId metadata =
     catchp (createAuditLog R
               \<lparr> asl_actorUserId = actorUserId, asl_action = action, asl_status = AdminActionStatus.SUCCEEDED,
                 asl_targetType = Some targetType, asl_targetId = targetId, asl_reasonCode = ''SUPPORT_READ'',
                 asl_reasonNote = None, asl_metadata = Some (redactResponse (secrets R) metadata) \<rparr>)
       (\<lambda>e. throw (InternalServerErrorException ''Internal server error''))"

section \<open>Responses\<close>

definition toUserResponse :: "User \<Rightarrow> json" where
  "toUserResponse u = JObj
     [(''id'', JStr (usr_id u)), (''email'', JStr (usr_email u)), (''role'', JStr (role_text (usr_role u))),
      (''isActive'', JBool (usr_isActive u))]"

definition toOrganizerResponse :: "Organizer \<Rightarrow> json" where
  "toOrganizerResponse o' = JObj
     [(''id'', JStr (org_id o')), (''ownerUserId'', JStr (org_ownerUserId o')),
      (''displayName'', JStr (org_displayName o')), (''slug'', JStr (org_slug o')),
      (''status'', JStr (organizer_status_text (org_status o'))), (''contactEmail'', jopt (org_contactEmail o')),
      (''contactPhone'', jopt (org_contactPhone o'))]"

definition toEventResponse :: "Event \<Rightarrow> json" where
  "toEventResponse e = JObj
     [(''id'', JStr (evt_id e)), (''organizerId'', JStr (evt_organizerId e)), (''title'', JStr (evt_title e)),
      (''slug'', JStr (evt_slug e)), (''status'', JStr (event_status_text (evt_status e))),
      (''visibility'', JStr (visibility_text (evt_visibility e))),
      (''category'', JStr (category_text (evt_category e))), (''startsAt'', JDate (evt_startsAt e)),
      (''endsAt'', JDate (evt_endsAt e)), (''venueName'', jopt (evt_venueName e)), (''city'', jopt (evt_city e)),
      (''country'', JStr (evt_country e)), (''paymentEnabled'', JBool (evt_paymentEnabled e)),
      (''priceMinor'', jopt_num (evt_priceMinor e)), (''priceCurrency'', JStr (evt_priceCurrency e)),
      (''publishedAt'', jopt_date (evt_publishedAt e)), (''cancelledAt'', jopt_date (evt_cancelledAt e))]"

definition toPaymentResponse :: "PaymentIntent \<Rightarrow> json" where
  "toPaymentResponse p = JObj
     [(''id'', JStr (pi_id p)), (''buyerUserId'', JStr (pi_buyerUserId p)),
      (''organizerId'', JStr (pi_organizerId p)), (''eventId'', JStr (pi_eventId p)),
      (''provider'', JStr (provider_text (pi_provider p))), (''status'', JStr (intent_status_text (pi_status p))),
      (''amountMinor'', JNum (pi_amountMinor p)), (''currency'', JStr (pi_currency p)),
      (''providerReference'', JStr (pi_providerReference p)),
      (''providerVerifiedStatus'', jopt (pi_providerVerifiedStatus p)),
      (''providerVerifiedAmount'', jopt_num (pi_providerVerifiedAmount p)),
      (''providerVerifiedCurrency'', jopt (pi_providerVerifiedCurrency p)),
      (''verifiedAt'', jopt_date (pi_verifiedAt p)), (''failedAt'', jopt_date (pi_failedAt p))]"

definition toSupportTicketResponse :: "Ticket \<Rightarrow> json" where
  "toSupportTicketResponse k = JObj
     [(''id'', JStr (tkt_id k)), (''ticketNumber'', jopt (tkt_ticketNumber k)),
      (''ownerUserId'', JStr (tkt_ownerUserId k)), (''eventId'', JStr (tkt_eventId k)),
      (''organizerId'', jopt (tkt_organizerId k)), (''paymentIntentId'', jopt (tkt_paymentIntentId k)),
      (''status'', JStr (ticket_status_text (tkt_status k))), (''issuedAt'', JDate (tkt_issuedAt k)),
      (''usedAt'', jopt_date (tkt_usedAt k)), (''voidedAt'', jopt_date (tkt_voidedAt k)),
      (''expiresAt'', jopt_date (tkt_expiresAt k))]"

definition toAdmissionScanResponse :: "string \<times> AdmissionScanAudit \<Rightarrow> json" where
  "toAdmissionScanResponse = (\<lambda>(i, a). JObj
     [(''id'', JStr i), (''ticketId'', jopt (asa_ticketId a)), (''eventId'', jopt (asa_eventId a)),
      (''organizerId'', jopt (asa_organizerId a)), (''scannedByUserId'', jopt (asa_scannedByUserId a)),
      (''status'', JStr (scan_status_text (asa_status a))),
      (''rejectionReason'', jopt (map_option rejection_text (asa_rejectionReason a))),
      (''deviceId'', jopt (asa_deviceId a)), (''gateLabel'', jopt (asa_gateLabel a)),
      (''scannedAt'', JDate (asa_scannedAt a))])"

definition toAuditLogResponse :: "support_lib \<Rightarrow> string \<times> AdminSupportAuditLog \<Rightarrow> json" where
  "toAuditLogResponse R = (\<lambda>(i, l). JObj
     [(''id'', JStr i), (''actorUserId'', JStr (asl_actorUserId l)), (''action'', JStr (asl_action l)),
      (''status'', JStr (action_status_text (asl_status l))), (''targetType'', jopt (asl_targetType l)),
      (''targetId'', jopt (asl_targetId l)), (''reasonCode'', JStr (asl_reasonCode l)),
      (''reasonNote'', jopt (asl_reasonNote l)),
      (''metadata'', case asl_metadata l of
          Some (JObj xs) \<Rightarrow> redactResponse (secrets R) (JObj xs)
        | Some (JArr xs) \<Rightarrow> redactResponse (secrets R) (JArr xs)
        | _ \<Rightarrow> JNull)])"

section \<open>Service\<close>

definition list_metadata :: "string \<Rightarrow> string \<Rightarrow> string \<Rightarrow> AdminLookupQueryDto \<Rightarrow> nat \<Rightarrow> json" where
  "list_metadata action route targetType query resultCount = JObj
     [(''route'', JStr route), (''routeAction'', JStr action), (''limit'', JNum (int (alq_limit query))),
      (''offset'', JNum (int (alq_offset query))), (''resultCount'', JNum (int resultCount)),
      (''safeFilterNames'', JArr (if truthy (alq_search query) then [JStr ''search''] else [])),
      (''filters'', JObj (if truthy (alq_search query) then [(''search'', jopt (alq_search query))] else [])),
      (''targetType'', JStr targetType)]"

definition auditListAndReturn ::
  "support_lib \<Rightarrow> string \<Rightarrow> string \<Rightarrow> string \<Rightarrow> string \<Rightarrow> AdminLookupQueryDto \<Rightarrow> ('r \<Rightarrow> json) \<Rightarrow>
   'r AdminSupportListResult \<Rightarrow> (db, json) prog" where
  "auditListAndReturn R actorUserId action route targetType query mapItem result =
     (let payload = JObj
            [(''items'', JArr (map (\<lambda>item. redactResponse (secrets R) (mapItem item)) (alr_items result))),
             (''limit'', JNum (int (alr_limit result))), (''offset'', JNum (int (alr_offset result))),
             (''resultCount'', JNum (int (alr_resultCount result)))] in
      seqp (recordRead R actorUserId action targetType None
              (list_metadata action route targetType query (alr_resultCount result)))
        (ret payload))"

definition detail_metadata :: "string \<Rightarrow> string \<Rightarrow> string \<Rightarrow> string \<Rightarrow> json" where
  "detail_metadata action route targetType targetId = JObj
     [(''route'', JStr route), (''routeAction'', JStr action), (''limit'', JNum 1), (''offset'', JNum 0),
      (''resultCount'', JNum 1), (''targetType'', JStr targetType), (''targetId'', JStr targetId)]"

definition auditDetailAndReturn ::
  "support_lib \<Rightarrow> string \<Rightarrow> string \<Rightarrow> string \<Rightarrow> string \<Rightarrow> string \<Rightarrow> json \<Rightarrow> (db, json) prog" where
  "auditDetailAndReturn R actorUserId action route targetType targetId payload =
     seqp (recordRead R actorUserId action targetType (Some targetId) (detail_metadata action route targetType targetId))
       (ret (redactResponse (secrets R) payload))"

definition listUsers :: "support_lib \<Rightarrow> string \<Rightarrow> AdminLookupQueryDto \<Rightarrow> (db, json) prog" where
  "listUsers R actorUserId query =
     bindp (Repository_listUsers R query)
       (auditListAndReturn R actorUserId ''admin_support_read_user'' ''GET /admin/support/users'' ''user'' query toUserResponse)"

definition getUser :: "support_lib \<Rightarrow> string \<Rightarrow> string \<Rightarrow> (db, json) prog" where
  "getUser R actorUserId i =
     bindp (getUserById i) (\<lambda>found.
       case found of
         None \<Rightarrow> throw (NotFoundException ''User not found.'')
       | Some row \<Rightarrow>
           auditDetailAndReturn R actorUserId ''admin_support_read_user'' ''GET /admin/support/users/:userId''
             ''user'' i (toUserResponse row))"

definition listOrganizers :: "support_lib \<Rightarrow> string \<Rightarrow> AdminLookupQueryDto \<Rightarrow> (db, json) prog" where
  "listOrganizers R actorUserId query =
     bindp (Repository_listOrganizers R query)
       (auditListAndReturn R actorUserId ''admin_support_read_organizer'' ''GET /admin/support/organizers'' ''organizer'' query toOrganizerResponse)"

definition getOrganizer :: "support_lib \<Rightarrow> string \<Rightarrow> string \<Rightarrow> (db, json) prog" where
  "getOrganizer R actorUserId i =
     bindp (getOrganizerById i) (\<lambda>found.
       case found of
         None \<Rightarrow> throw (NotFoundException ''Organizer not found.'')
       | Some row \<Rightarrow>
           auditDetailAndReturn R actorUserId ''admin_support_read_organizer'' ''GET /admin/support/organizers/:organizerId''
             ''organizer'' i (toOrganizerResponse row))"

definition listEvents :: "support_lib \<Rightarrow> string \<Rightarrow> AdminLookupQueryDto \<Rightarrow> (db, json) prog" where
  "listEvents R actorUserId query =
     bindp (Repository_listEvents R query)
       (auditListAndReturn R actorUserId ''admin_support_read_event'' ''GET /admin/support/events'' ''event'' query toEventResponse)"

definition getEvent :: "support_lib \<Rightarrow> string \<Rightarrow> string \<Rightarrow> (db, json) prog" where
  "getEvent R actorUserId i =
     bindp (getEventById i) (\<lambda>found.
       case found of
         None \<Rightarrow> throw (NotFoundException ''Event not found.'')
       | Some row \<Rightarrow>
           auditDetailAndReturn R actorUserId ''admin_support_read_event'' ''GET /admin/support/events/:eventId''
             ''event'' i (toEventResponse row))"

definition listPayments :: "support_lib \<Rightarrow> string \<Rightarrow> AdminLookupQueryDto \<Rightarrow> (db, json) prog" where
  "listPayments R actorUserId query =
     bindp (Repository_listPayments R query)
       (auditListAndReturn R actorUserId ''admin_support_read_payment'' ''GET /admin/support/payments'' ''payment_intent'' query toPaymentResponse)"

definition getPayment :: "support_lib \<Rightarrow> string \<Rightarrow> string \<Rightarrow> (db, json) prog" where
  "getPayment R actorUserId i =
     bindp (getPaymentById i) (\<lambda>found.
       case found of
         None \<Rightarrow> throw (NotFoundException ''Payment intent not found.'')
       | Some row \<Rightarrow>
           auditDetailAndReturn R actorUserId ''admin_support_read_payment'' ''GET /admin/support/payments/:paymentIntentId''
             ''payment_intent'' i (toPaymentResponse row))"

definition listTickets :: "support_lib \<Rightarrow> string \<Rightarrow> AdminLookupQueryDto \<Rightarrow> (db, json) prog" where
  "listTickets R actorUserId query =
     bindp (Repository_listTickets R query)
       (auditListAndReturn R actorUserId ''admin_support_read_ticket'' ''GET /admin/support/tickets'' ''ticket'' query toSupportTicketResponse)"

definition getTicket :: "support_lib \<Rightarrow> string \<Rightarrow> string \<Rightarrow> (db, json) prog" where
  "getTicket R actorUserId i =
     bindp (getTicketById i) (\<lambda>found.
       case found of
         None \<Rightarrow> throw (NotFoundException ''Ticket not found.'')
       | Some row \<Rightarrow>
           auditDetailAndReturn R actorUserId ''admin_support_read_ticket'' ''GET /admin/support/tickets/:ticketId''
             ''ticket'' i (toSupportTicketResponse row))"

definition listAdmissionScans :: "support_lib \<Rightarrow> string \<Rightarrow> AdminLookupQueryDto \<Rightarrow> (db, json) prog" where
  "listAdmissionScans R actorUserId query =
     bindp (Repository_listAdmissionScans R query)
       (auditListAndReturn R actorUserId ''admin_support_read_admission_scan'' ''GET /admin/support/admission-scans'' ''admission_scan_audit'' query toAdmissionScanResponse)"

definition getAdmissionScan :: "support_lib \<Rightarrow> string \<Rightarrow> string \<Rightarrow> (db, json) prog" where
  "getAdmissionScan R actorUserId i =
     bindp (getAdmissionScanById R i) (\<lambda>found.
       case found of
         None \<Rightarrow> throw (NotFoundException ''Admission scan audit not found.'')
       | Some row \<Rightarrow>
           auditDetailAndReturn R actorUserId ''admin_support_read_admission_scan'' ''GET /admin/support/admission-scans/:scanAuditId''
             ''admission_scan_audit'' i (toAdmissionScanResponse row))"

definition listAuditLogs :: "support_lib \<Rightarrow> string \<Rightarrow> AdminLookupQueryDto \<Rightarrow> (db, json) prog" where
  "listAuditLogs R actorUserId query =
     bindp (Repository_listAuditLogs R query)
       (auditListAndReturn R actorUserId ''admin_support_read_audit_log'' ''GET /admin/support/audit-logs'' ''admin_support_audit_log'' query (toAuditLogResponse R))"

section \<open>Routes\<close>

datatype support_request =
    ListUsers AdminLookupQueryDto | GetUser string
  | ListOrganizers AdminLookupQueryDto | GetOrganizer string
  | ListEvents AdminLookupQueryDto | GetEvent string
  | ListPayments AdminLookupQueryDto | GetPayment string
  | ListTickets AdminLookupQueryDto | GetTicket string
  | ListAdmissionScans AdminLookupQueryDto | GetAdmissionScan string
  | ListAuditLogs AdminLookupQueryDto

fun required_permission :: "support_request \<Rightarrow> AppPermission" where
  "required_permission (ListUsers q) = ADMIN_SUPPORT_READ_USERS"
| "required_permission (GetUser i) = ADMIN_SUPPORT_READ_USERS"
| "required_permission (ListOrganizers q) = ADMIN_SUPPORT_READ_ORGANIZERS"
| "required_permission (GetOrganizer i) = ADMIN_SUPPORT_READ_ORGANIZERS"
| "required_permission (ListEvents q) = ADMIN_SUPPORT_READ_EVENTS"
| "required_permission (GetEvent i) = ADMIN_SUPPORT_READ_EVENTS"
| "required_permission (ListPayments q) = ADMIN_SUPPORT_READ_PAYMENTS"
| "required_permission (GetPayment i) = ADMIN_SUPPORT_READ_PAYMENTS"
| "required_permission (ListTickets q) = ADMIN_SUPPORT_READ_TICKETS"
| "required_permission (GetTicket i) = ADMIN_SUPPORT_READ_TICKETS"
| "required_permission (ListAdmissionScans q) = ADMIN_SUPPORT_READ_ADMISSIONS"
| "required_permission (GetAdmissionScan i) = ADMIN_SUPPORT_READ_ADMISSIONS"
| "required_permission (ListAuditLogs q) = ADMIN_SUPPORT_READ_AUDIT_LOGS"

fun handle_support :: "support_lib \<Rightarrow> string \<Rightarrow> support_request \<Rightarrow> (db, json) prog" where
  "handle_support R user (ListUsers q) = listUsers R user q"
| "handle_support R user (GetUser i) = getUser R user i"
| "handle_support R user (ListOrganizers q) = listOrganizers R user q"
| "handle_support R user (GetOrganizer i) = getOrganizer R user i"
| "handle_support R user (ListEvents q) = listEvents R user q"
| "handle_support R user (GetEvent i) = getEvent R user i"
| "handle_support R user (ListPayments q) = listPayments R user q"
| "handle_support R user (GetPayment i) = getPayment R user i"
| "handle_support R user (ListTickets q) = listTickets R user q"
| "handle_support R user (GetTicket i) = getTicket R user i"
| "handle_support R user (ListAdmissionScans q) = listAdmissionScans R user q"
| "handle_support R user (GetAdmissionScan i) = getAdmissionScan R user i"
| "handle_support R user (ListAuditLogs q) = listAuditLogs R user q"

text \<open>A route behind its guards: the user the token strategy answered, then the permission.\<close>

definition support_route ::
  "support_lib \<Rightarrow> app_error + AuthUser option \<Rightarrow> support_request \<Rightarrow> (db, json) prog" where
  "support_route R token_result request =
     (case guarded False None (Some [required_permission request]) token_result of
        Inl e \<Rightarrow> throw e
      | Inr None \<Rightarrow> throw (UnauthorizedException ''Unauthorized'')
      | Inr (Some user) \<Rightarrow> handle_support R (atu_id user) request)"

section \<open>What a read leaves\<close>

fun action_of :: "support_request \<Rightarrow> string" where
  "action_of (ListUsers q) = ''admin_support_read_user''"
| "action_of (GetUser i) = ''admin_support_read_user''"
| "action_of (ListOrganizers q) = ''admin_support_read_organizer''"
| "action_of (GetOrganizer i) = ''admin_support_read_organizer''"
| "action_of (ListEvents q) = ''admin_support_read_event''"
| "action_of (GetEvent i) = ''admin_support_read_event''"
| "action_of (ListPayments q) = ''admin_support_read_payment''"
| "action_of (GetPayment i) = ''admin_support_read_payment''"
| "action_of (ListTickets q) = ''admin_support_read_ticket''"
| "action_of (GetTicket i) = ''admin_support_read_ticket''"
| "action_of (ListAdmissionScans q) = ''admin_support_read_admission_scan''"
| "action_of (GetAdmissionScan i) = ''admin_support_read_admission_scan''"
| "action_of (ListAuditLogs q) = ''admin_support_read_audit_log''"

fun target_of :: "support_request \<Rightarrow> string option" where
  "target_of (GetUser i) = Some i"
| "target_of (GetOrganizer i) = Some i"
| "target_of (GetEvent i) = Some i"
| "target_of (GetPayment i) = Some i"
| "target_of (GetTicket i) = Some i"
| "target_of (GetAdmissionScan i) = Some i"
| "target_of request = None"

text \<open>One audit row of a read: who, what, which row, and no secret in it.\<close>

definition read_row :: "support_lib \<Rightarrow> string \<Rightarrow> string \<Rightarrow> string option \<Rightarrow> AdminSupportAuditLog \<Rightarrow> bool" where
  "read_row R actor action target row \<longleftrightarrow>
     asl_actorUserId row = actor \<and> asl_action row = action \<and> asl_targetId row = target \<and>
     asl_status row = AdminActionStatus.SUCCEEDED \<and> asl_reasonCode row = ''SUPPORT_READ'' \<and>
     opt_test (showable (secrets R)) (asl_metadata row) \<and> log_refused R row = None"

text \<open>A read answers a showable payload and leaves that row, or it fails and leaves nothing.\<close>

definition audited ::
  "support_lib \<Rightarrow> string \<Rightarrow> string \<Rightarrow> string option \<Rightarrow> db \<Rightarrow> (app_error + json) \<times> db \<Rightarrow> bool" where
  "audited R actor action target s outcome \<longleftrightarrow>
     (case outcome of
        (Inl e, s') \<Rightarrow> s' = s
      | (Inr payload, s') \<Rightarrow> showable (secrets R) payload \<and>
          (\<exists>row. read_row R actor action target row \<and> s' = admin_support_audit_logs_update (\<lambda>rs. rs @ [row]) s))"

lemma recordRead_run:
  "(\<exists>row. read_row R a act target row \<and>
     recordRead R a act tt target m s = (Inr (), admin_support_audit_logs_update (\<lambda>rs. rs @ [row]) s)) \<or>
   recordRead R a act tt target m s = (Inl (InternalServerErrorException ''Internal server error''), s)"
proof -
  let ?row = "\<lparr> asl_actorUserId = a, asl_action = act, asl_status = AdminActionStatus.SUCCEEDED,
      asl_targetType = Some tt, asl_targetId = target, asl_reasonCode = ''SUPPORT_READ'', asl_reasonNote = None,
      asl_metadata = Some (redactResponse (secrets R) m) \<rparr>"
  show ?thesis
  proof (cases "log_refused R ?row")
    case None
    then have "read_row R a act target ?row"
      by (simp add: read_row_def opt_test_def redactResponse_def showable_redacted)
    moreover from None have "recordRead R a act tt target m s = (Inr (), admin_support_audit_logs_update (\<lambda>rs. rs @ [?row]) s)"
      by (simp add: recordRead_def createAuditLog_def catchp_def)
    ultimately show ?thesis by blast
  qed (simp add: recordRead_def createAuditLog_def catchp_def)
qed

lemma page_keys: "\<not> shouldRedactKey ''items''" "\<not> shouldRedactKey ''limit''" "\<not> shouldRedactKey ''offset''"
  "\<not> shouldRedactKey ''resultCount''"
proof -
  have n: "normalizeKey ''items'' = ''items''" "normalizeKey ''limit'' = ''limit''" "normalizeKey ''offset'' = ''offset''"
    "normalizeKey ''resultCount'' = ''resultcount''" by code_simp+
  have f: "\<not> list_ex (includes_text ''items'') HIGH_RISK_KEY_FRAGMENTS" "\<not> list_ex (includes_text ''limit'') HIGH_RISK_KEY_FRAGMENTS"
    "\<not> list_ex (includes_text ''offset'') HIGH_RISK_KEY_FRAGMENTS" "\<not> list_ex (includes_text ''resultcount'') HIGH_RISK_KEY_FRAGMENTS"
    by code_simp+
  show "\<not> shouldRedactKey ''items''" "\<not> shouldRedactKey ''limit''" "\<not> shouldRedactKey ''offset''" "\<not> shouldRedactKey ''resultCount''"
    using f by (simp_all add: n [THEN key_hidden] forbidden_normal)
qed

lemma audited_after_row:
  assumes "showable (secrets R) payload"
  shows "audited R a act target s (seqp (recordRead R a act tt target m) (ret payload) s)"
  using recordRead_run [of R a act target tt m s]
proof (elim disjE exE conjE)
  fix row
  assume "read_row R a act target row"
    "recordRead R a act tt target m s = (Inr (), admin_support_audit_logs_update (\<lambda>rs. rs @ [row]) s)"
  with assms show ?thesis by (auto simp: audited_def seqp_def bindp_def intro: exI [of _ row])
qed (simp add: audited_def seqp_def bindp_def)

lemma list_audited: "audited R a act None s (auditListAndReturn R a act route tt q f result s)"
  unfolding auditListAndReturn_def Let_def
  by (rule audited_after_row) (simp add: page_keys list_all_iff redactResponse_def showable_redacted)

lemma detail_audited: "audited R a act (Some i) s (auditDetailAndReturn R a act route tt i payload s)"
  unfolding auditDetailAndReturn_def
  by (rule audited_after_row) (simp add: redactResponse_def showable_redacted)

lemma refused_audited: "audited R a act target s (Inl e, s)"
  by (simp add: audited_def)

lemmas list_ops = listUsers_def listOrganizers_def listEvents_def listPayments_def listTickets_def
  listAdmissionScans_def listAuditLogs_def Repository_listUsers_def Repository_listOrganizers_def
  Repository_listEvents_def Repository_listPayments_def Repository_listTickets_def
  Repository_listAdmissionScans_def Repository_listAuditLogs_def

lemmas get_ops = getUser_def getOrganizer_def getEvent_def getPayment_def getTicket_def getAdmissionScan_def
  getUserById_def getOrganizerById_def getEventById_def getPaymentById_def getTicketById_def getAdmissionScanById_def

lemma handle_audited: "audited R user (action_of request) (target_of request) s (handle_support R user request s)"
  by (cases request)
     (simp_all add: list_ops get_ops bindp_def list_audited detail_audited refused_audited split: option.split)

section \<open>Properties\<close>

text \<open>
  C38: No support read goes unrecorded. Whatever route is asked, by whatever caller, data comes back
  only to an administrator, free of forbidden keys and risky texts, and then exactly one audit row
  with that administrator, the action and the target has been written; if the row is refused, or the
  caller is, nothing is shown and nothing changes.
\<close>

theorem support_reads_are_audited:
  "case support_route R token_result request s of
     (Inl e, s') \<Rightarrow> s' = s
   | (Inr payload, s') \<Rightarrow> showable (secrets R) payload \<and>
       (\<exists>user row. token_result = Inr (Some user) \<and> atu_role user = ADMIN \<and>
          read_row R (atu_id user) (action_of request) (target_of request) row \<and>
          s' = admin_support_audit_logs_update (\<lambda>rs. rs @ [row]) s)"
proof (cases "guarded False None (Some [required_permission request]) token_result")
  case (Inl e)
  then show ?thesis by (simp add: support_route_def)
next
  case (Inr user)
  then obtain u where u: "token_result = Inr (Some u)" "user = Some u"
      "required_permission request \<in> set (ROLE_PERMISSIONS (atu_role u))"
    by (auto simp: guarded_def JwtAuthGuard_canActivate_def RolesGuard_canActivate_def PermissionsGuard_canActivate_def
        split: sum.splits option.splits app_error.splits if_splits)
  have "atu_role u = ADMIN"
    using u(3) by (cases "atu_role u"; cases request) (simp_all add: ROLE_PERMISSIONS_def)
  moreover have "support_route R token_result request s = handle_support R (atu_id u) request s"
    using Inr u(2) by (simp add: support_route_def)
  ultimately show ?thesis
    using handle_audited [of R "atu_id u" request s] u(1) by (auto simp: audited_def split: prod.splits sum.splits)
qed

text \<open>
  A scan that was rejected for its token is shown without the reason: the texts INVALID_TOKEN and
  TOKEN_REPLAY_DETECTED contain a forbidden fragment.
\<close>

lemma token_rejections_are_hidden:
  assumes "getAdmissionScan R user i s = (Inr payload, s')"
    and "\<forall>(j, a)\<in>set (numbered (scan_row_id R) (admission_scan_audits s)).
       asa_rejectionReason a \<in> {Some INVALID_TOKEN, Some TOKEN_REPLAY_DETECTED}"
  shows "leaf_at payload [Field ''rejectionReason''] = Some (JStr REDACTED)"
proof -
  have n: "normalizeKey ''rejectionReason'' = ''rejectionreason''" "\<not> list_ex (includes_text ''rejectionreason'') HIGH_RISK_KEY_FRAGMENTS"
    by code_simp+
  have k: "\<not> shouldRedactKey ''rejectionReason''" using n(2) by (simp add: key_hidden [OF n(1)] forbidden_normal)
  have "js_trim ''INVALID_TOKEN'' \<noteq> [] \<and> list_ex (includes_text (toLowerCase (js_trim ''INVALID_TOKEN''))) HIGH_RISK_KEY_FRAGMENTS"
    "js_trim ''TOKEN_REPLAY_DETECTED'' \<noteq> [] \<and> list_ex (includes_text (toLowerCase (js_trim ''TOKEN_REPLAY_DETECTED''))) HIGH_RISK_KEY_FRAGMENTS"
    by code_simp+
  then have v: "shouldRedactStringValue F ''INVALID_TOKEN''" "shouldRedactStringValue F ''TOKEN_REPLAY_DETECTED''" for F
    by (simp_all add: shouldRedactStringValue_def Let_def)
  from assms(1) obtain a where a: "find (\<lambda>(j, a). j = i) (numbered (scan_row_id R) (admission_scan_audits s)) = Some (i, a)"
    and p: "payload = redactResponse (secrets R) (toAdmissionScanResponse (i, a))"
    by (auto simp: getAdmissionScan_def getAdmissionScanById_def auditDetailAndReturn_def prog_inv
        dest: find_Some_iff2 split: option.splits)
  have "asa_rejectionReason a \<in> {Some INVALID_TOKEN, Some TOKEN_REPLAY_DETECTED}"
    using assms(2) find_Some_iff2 [OF a] by auto
  then obtain why where why: "asa_rejectionReason a = Some why" "shouldRedactStringValue (secrets R) (rejection_text why)"
    using v by auto
  have "keys_distinct (toAdmissionScanResponse (i, a))"
    by (simp add: toAdmissionScanResponse_def jopt_def split: option.split)
  moreover have "leaf_at (toAdmissionScanResponse (i, a)) [Field ''rejectionReason''] = Some (JStr (rejection_text why))"
    by (simp add: toAdmissionScanResponse_def jopt_def why(1))
  ultimately show ?thesis
    using k why(2) by (simp add: p redactResponse_def leaf_redacted open_path_def hide_def)
qed

end
