(* ===== verification/Text_Encoding.thy ===== *)
theory Text_Encoding
  imports Json_Text
begin

text \<open>
  How a text travels inside a request: \<open>encodeURIComponent\<close> in the path of a URL and
  \<open>Buffer.from(x).toString('base64')\<close> in a Basic authorization header. Both start from the UTF-8
  bytes, at most two for a character of this model. Each encoder comes with a reader that gives the
  text back, so different texts never look the same to the receiver.
\<close>

section \<open>UTF-8\<close>

definition utf8_char :: "char \<Rightarrow> nat list" where
  "utf8_char c = (let n = of_char c in if n < 128 then [n] else [192 + n div 64, 128 + n mod 64])"

definition utf8 :: "string \<Rightarrow> nat list" where
  "utf8 x = concat (map utf8_char x)"

fun utf8_read :: "nat list \<Rightarrow> string" where
  "utf8_read [] = []"
| "utf8_read (b # bs) =
     (if b < 128 then char_of b # utf8_read bs
      else case bs of [] \<Rightarrow> [] | c # cs \<Rightarrow> char_of ((b - 192) * 64 + (c - 128)) # utf8_read cs)"

lemma of_char_bound [simp]: "(of_char c :: nat) < 256"
  using of_char_mod_256 [of c, where 'a = nat] by (metis mod_less_divisor zero_less_numeral)

lemma utf8_char_bound: "b \<in> set (utf8_char c) \<Longrightarrow> b < 256"
proof -
  have "of_char c div 64 < (4 :: nat)" by (simp add: less_mult_imp_div_less)
  moreover have "of_char c mod 64 < (64 :: nat)" by simp
  ultimately show "b \<in> set (utf8_char c) \<Longrightarrow> b < 256"
    by (auto simp: utf8_char_def Let_def split: if_splits)
qed

lemma utf8_bound: "b \<in> set (utf8 x) \<Longrightarrow> b < 256"
  by (auto simp: utf8_def intro: utf8_char_bound)

lemma utf8_read_char: "utf8_read (utf8_char c @ r) = c # utf8_read r"
proof (cases "(of_char c :: nat) < 128")
  case False
  have "of_char c div 64 * 64 + of_char c mod 64 = (of_char c :: nat)" by simp
  then show ?thesis using False by (simp add: utf8_char_def Let_def)
qed (simp add: utf8_char_def Let_def)

lemma utf8_roundtrip: "utf8_read (utf8 x) = x"
  by (induction x) (simp_all add: utf8_def utf8_read_char)

text \<open>Reading bytes that may not be a text: \<open>None\<close> for malformed bytes and for characters outside of this model.\<close>

fun decode_utf8 :: "nat list \<Rightarrow> string option" where
  "decode_utf8 [] = Some []"
| "decode_utf8 (b # bs) =
     (if b < 128 then map_option (Cons (char_of b)) (decode_utf8 bs)
      else case bs of
        c # cs \<Rightarrow>
          if 194 \<le> b \<and> b \<le> 195 \<and> 128 \<le> c \<and> c < 192
          then map_option (Cons (char_of ((b - 192) * 64 + (c - 128)))) (decode_utf8 cs) else None
      | [] \<Rightarrow> None)"

lemma decode_utf8_char: "decode_utf8 (utf8_char c @ bs) = map_option (Cons c) (decode_utf8 bs)"
proof (cases "(of_char c :: nat) < 128")
  case False
  have "of_char c div 64 < (4 :: nat)" by (simp add: less_mult_imp_div_less)
  moreover have "2 \<le> of_char c div (64 :: nat)" using False by simp
  moreover have "of_char c div 64 * 64 + of_char c mod 64 = (of_char c :: nat)" by simp
  ultimately show ?thesis using False by (simp add: utf8_char_def Let_def)
qed (simp add: utf8_char_def Let_def)

lemma decode_utf8_utf8: "decode_utf8 (utf8 x) = Some x"
  by (induction x) (simp_all add: utf8_def decode_utf8_char)

section \<open>\<open>encodeURIComponent\<close>\<close>

definition is_unreserved :: "char \<Rightarrow> bool" where
  "is_unreserved c \<longleftrightarrow>
     (let n = (of_char c :: nat) in
      48 \<le> n \<and> n < 58 \<or> 65 \<le> n \<and> n < 91 \<or> 97 \<le> n \<and> n < 123) \<or> c \<in> set ''-_.!~*()'' \<or> c = CHR 0x27"

definition upper_hex :: "nat \<Rightarrow> char" where
  "upper_hex d = (if d < 10 then digit_char d else char_of (55 + d))"

definition percent_byte :: "nat \<Rightarrow> string" where
  "percent_byte b = [CHR ''%'', upper_hex (b div 16), upper_hex (b mod 16)]"

definition encode_char :: "char \<Rightarrow> string" where
  "encode_char c = (if is_unreserved c then [c] else concat (map percent_byte (utf8_char c)))"

definition encodeURIComponent :: "string \<Rightarrow> string" where
  "encodeURIComponent x = concat (map encode_char x)"

definition hex_digit :: "char \<Rightarrow> nat" where
  "hex_digit c = (let n = of_char c in if n < 58 then n - 48 else n - 55)"

fun percent_read :: "string \<Rightarrow> nat list" where
  "percent_read [] = []"
| "percent_read (c # r) =
     (if c = CHR ''%'' then (case r of h # l # r' \<Rightarrow> (hex_digit h * 16 + hex_digit l) # percent_read r' | _ \<Rightarrow> [])
      else of_char c # percent_read r)"

lemma hex_digit_upper: "d < 16 \<Longrightarrow> hex_digit (upper_hex d) = d"
  by (auto simp: hex_digit_def upper_hex_def digit_char_def Let_def)

lemma percent_read_byte: "b < 256 \<Longrightarrow> percent_read (percent_byte b @ r) = b # percent_read r"
  by (simp add: percent_byte_def hex_digit_upper less_mult_imp_div_less)

lemma percent_read_bytes:
  "(\<And>b. b \<in> set bs \<Longrightarrow> b < 256) \<Longrightarrow> percent_read (concat (map percent_byte bs) @ r) = bs @ percent_read r"
  by (induction bs) (simp_all add: percent_read_byte)

lemma unreserved_plain: "is_unreserved c \<Longrightarrow> c \<noteq> CHR ''%'' \<and> utf8_char c = [of_char c]"
  by (auto simp: is_unreserved_def utf8_char_def Let_def)

lemma percent_read_char: "percent_read (encode_char c @ r) = utf8_char c @ percent_read r"
  using percent_read_bytes [of "utf8_char c" r] unreserved_plain [of c]
  by (auto simp: encode_char_def utf8_char_bound)

lemma encodeURIComponent_roundtrip: "utf8_read (percent_read (encodeURIComponent x)) = x"
proof -
  have "percent_read (encodeURIComponent x) = utf8 x"
    by (induction x) (simp_all add: encodeURIComponent_def utf8_def percent_read_char)
  then show ?thesis by (simp add: utf8_roundtrip)
qed

lemma encodeURIComponent_inj: "encodeURIComponent x = encodeURIComponent y \<longleftrightarrow> x = y"
  using encodeURIComponent_roundtrip by metis

section \<open>Base64\<close>

definition base64_alphabet :: string where
  "base64_alphabet = ''ABCDEFGHIJKLMNOPQRSTUVWXYZabcdefghijklmnopqrstuvwxyz0123456789+/''"

fun base64 :: "nat list \<Rightarrow> string" where
  "base64 [] = []"
| "base64 [a] = [base64_alphabet ! (a div 4), base64_alphabet ! (a mod 4 * 16), CHR ''='', CHR ''='']"
| "base64 [a, b] =
     [base64_alphabet ! (a div 4), base64_alphabet ! (a mod 4 * 16 + b div 16),
      base64_alphabet ! (b mod 16 * 4), CHR ''='']"
| "base64 (a # b # c # r) =
     base64_alphabet ! (a div 4) # base64_alphabet ! (a mod 4 * 16 + b div 16) #
     base64_alphabet ! (b mod 16 * 4 + c div 64) # base64_alphabet ! (c mod 64) # base64 r"

definition toBase64 :: "string \<Rightarrow> string" where
  "toBase64 x = base64 (utf8 x)"

definition base64_index :: "char \<Rightarrow> nat" where
  "base64_index c = length (takeWhile (\<lambda>x. x \<noteq> c) base64_alphabet)"

fun base64_read :: "string \<Rightarrow> nat list" where
  "base64_read (p # q # r # t # rest) =
     (let i = base64_index p; j = base64_index q; k = base64_index r; l = base64_index t in
      (i * 4 + j div 16) # (if r = CHR ''='' then []
        else (j mod 16 * 16 + k div 4) # (if t = CHR ''='' then []
          else (k mod 4 * 64 + l) # base64_read rest)))"
| "base64_read _ = []"

lemma base64_chars: "distinct base64_alphabet" "length base64_alphabet = 64" "CHR ''='' \<notin> set base64_alphabet"
  by (simp_all add: base64_alphabet_def)

lemma base64_index_nth: "k < 64 \<Longrightarrow> base64_index (base64_alphabet ! k) = k"
proof -
  assume k: "k < 64"
  have "takeWhile (\<lambda>x. x \<noteq> base64_alphabet ! k) base64_alphabet = take k base64_alphabet"
    by (rule takeWhile_eq_take_P_nth)
       (use k base64_chars in \<open>auto simp: nth_eq_iff_index_eq\<close>)
  then show ?thesis using k by (simp add: base64_index_def base64_chars)
qed

lemma base64_no_pad: "k < 64 \<Longrightarrow> base64_alphabet ! k \<noteq> CHR ''=''"
  using base64_chars by (metis nth_mem)

lemma base64_roundtrip: "list_all (\<lambda>b. b < 256) bs \<Longrightarrow> base64_read (base64 bs) = bs"
proof (induction bs rule: base64.induct)
  case (2 a)
  then have "a div 4 < 64" "a mod 4 * 16 < 64" "a mod 4 * 16 div 16 = a mod 4" by auto
  then show ?case using 2 by (simp add: base64_index_nth)
next
  case (3 a b)
  then have *: "a div 4 < 64" "a mod 4 * 16 + b div 16 < 64" "b mod 16 * 4 < 64" by auto
  moreover have "(a mod 4 * 16 + b div 16) div 16 = a mod 4" "(a mod 4 * 16 + b div 16) mod 16 = b div 16"
    using 3 by auto
  ultimately show ?case using 3 by (simp add: base64_index_nth base64_no_pad)
next
  case (4 a b c r)
  then have *: "a div 4 < 64" "a mod 4 * 16 + b div 16 < 64" "b mod 16 * 4 + c div 64 < 64" "c mod 64 < 64" by auto
  moreover have "(a mod 4 * 16 + b div 16) div 16 = a mod 4" "(a mod 4 * 16 + b div 16) mod 16 = b div 16"
    "(b mod 16 * 4 + c div 64) div 4 = b mod 16" "(b mod 16 * 4 + c div 64) mod 4 = c div 64"
    using 4 by auto
  ultimately show ?case using 4 by (simp add: base64_index_nth base64_no_pad)
qed simp

lemma toBase64_roundtrip: "utf8_read (base64_read (toBase64 x)) = x"
proof -
  have "list_all (\<lambda>b. b < 256) (utf8 x)" by (simp add: list_all_iff utf8_bound)
  then show ?thesis by (simp add: toBase64_def base64_roundtrip utf8_roundtrip)
qed

end
