(* ===== verification/Provider_Adapters.thy ===== *)
theory Provider_Adapters
  imports Payments Payment_Initiation Config Text_Encoding
begin

text \<open>
  The clients of the payment providers: the two adapters of the payment flow
  (\<^verbatim>\<open>src/modules/payments/infrastructure/providers\<close>) and the two adapters and the registry of the
  verification flow (\<^verbatim>\<open>src/modules/payments/verification\<close>), with the fetch helper they share. They
  are what \<open>payment_adapter\<close>, \<open>provider_api\<close> and \<open>verifier\<close> stand for in the other theories.

  Parameters, in the record \<open>provider_lib\<close>: the network (\<open>fetch\<close>: an error, or a status and what
  reading the body as JSON gives; an expired timer is an error of the name \<open>AbortError\<close>), the two
  keyed hashes in hexadecimal, the rendering of a number that is not whole, and \<open>new Date\<close>. The body of a
  request is the value given to \<open>JSON.stringify\<close>. A URL or access code of Paystack that is not a text
  is read as missing.
\<close>

section \<open>Requests and answers\<close>

record http_call =
  hc_url :: string
  hc_method :: string
  hc_headers :: "(string \<times> string) list"
  hc_body :: "json option"
  hc_timeoutMs :: rat

record http_answer =
  ha_status :: int
  ha_json :: "app_error + json"

record provider_lib =
  fetch :: "http_call \<Rightarrow> app_error + http_answer"
  hmac_sha256 :: "string \<Rightarrow> string \<Rightarrow> string"
  hmac_sha512 :: "string \<Rightarrow> string \<Rightarrow> string"
  fraction_text :: "rat \<Rightarrow> string"
  new_Date :: "json \<Rightarrow> int option"

definition is_ok :: "http_answer \<Rightarrow> bool" where
  "is_ok a \<longleftrightarrow> 200 \<le> ha_status a \<and> ha_status a \<le> 299"

definition http_get :: "string \<Rightarrow> (string \<times> string) list \<Rightarrow> http_call" where
  "http_get url headers =
     \<lparr> hc_url = url, hc_method = ''GET'', hc_headers = headers, hc_body = None, hc_timeoutMs = 0 \<rparr>"

definition http_post :: "string \<Rightarrow> (string \<times> string) list \<Rightarrow> json option \<Rightarrow> http_call" where
  "http_post url headers body =
     \<lparr> hc_url = url, hc_method = ''POST'', hc_headers = headers, hc_body = body, hc_timeoutMs = 0 \<rparr>"

definition on_error :: "(app_error \<Rightarrow> app_error) \<Rightarrow> app_error + 'a \<Rightarrow> app_error + 'a" where
  "on_error h m = (case m of Inl e \<Rightarrow> Inl (h e) | Inr x \<Rightarrow> Inr x)"

section \<open>Values of a parsed body\<close>

text \<open>\<open>j.key\<close>, which fails on \<open>null\<close> and \<open>undefined\<close>, and \<open>j?.key\<close>, which does not.\<close>

definition prop_of :: "string \<Rightarrow> json \<Rightarrow> app_error + json" where
  "prop_of key j =
     (if j = JNull \<or> j = JUndefined
      then Inl (OtherError ''TypeError''
             (''Cannot read properties of '' @ (if j = JNull then ''null'' else ''undefined'') @
              '' (reading '' @ [CHR 0x27] @ key @ [CHR 0x27] @ '')''))
      else Inr (json_prop key j))"

definition opt_prop :: "string \<Rightarrow> json \<Rightarrow> json" where
  "opt_prop key j = (if j = JNull then JUndefined else json_prop key j)"

definition or_else :: "json \<Rightarrow> json \<Rightarrow> json" where
  "or_else j k = (if j = JNull \<or> j = JUndefined then k else j)"

fun join_commas :: "string list \<Rightarrow> string" where
  "join_commas [] = []"
| "join_commas [x] = x"
| "join_commas (x # y # r) = x @ '','' @ join_commas (y # r)"

text \<open>\<open>String(j)\<close> of a parsed value.\<close>

fun js_String :: "(rat \<Rightarrow> string) \<Rightarrow> json \<Rightarrow> string" where
  "js_String d (JStr x) = x"
| "js_String d (JNum n) = int_to_string n"
| "js_String d (JDec r) = d r"
| "js_String d (JBool b) = (if b then ''true'' else ''false'')"
| "js_String d JNull = ''null''"
| "js_String d JUndefined = ''undefined''"
| "js_String d (JObj props) = ''[object Object]''"
| "js_String d (JArr xs) = join_commas (map (\<lambda>x. if x = JNull \<or> x = JUndefined then [] else js_String d x) xs)"
| "js_String d (JDate t) = []"

text \<open>\<open>BigInt(j)\<close>.\<close>

definition integer_text :: "string \<Rightarrow> int option" where
  "integer_text text =
     (let x = js_trim text in
      map_option floor
        (if x = [] then Some 0
         else if take 2 x \<in> {''0x'', ''0X''} then digits_in 16 (drop 2 x)
         else if take 2 x \<in> {''0o'', ''0O''} then digits_in 8 (drop 2 x)
         else if take 2 x \<in> {''0b'', ''0B''} then digits_in 2 (drop 2 x)
         else signed (digits_in 10) x))"

definition BigInt :: "(rat \<Rightarrow> string) \<Rightarrow> json \<Rightarrow> app_error + int" where
  "BigInt d j =
     (case j of
        JNum n \<Rightarrow> Inr n
      | JBool b \<Rightarrow> Inr (if b then 1 else 0)
      | JDec r \<Rightarrow> Inl (OtherError ''RangeError'' (''The number '' @ d r @
                    '' cannot be converted to a BigInt because it is not an integer''))
      | JNull \<Rightarrow> Inl (OtherError ''TypeError'' ''Cannot convert null to a BigInt'')
      | JUndefined \<Rightarrow> Inl (OtherError ''TypeError'' ''Cannot convert undefined to a BigInt'')
      | _ \<Rightarrow> (case integer_text (js_String d j) of
               Some n \<Rightarrow> Inr n
             | None \<Rightarrow> Inl (OtherError ''SyntaxError'' (''Cannot convert '' @ js_String d j @ '' to a BigInt''))))"

section \<open>Configuration\<close>

definition getOrThrow :: "string \<Rightarrow> string option \<Rightarrow> app_error + string" where
  "getOrThrow key v =
     (case v of
        None \<Rightarrow> Inl (OtherError ''Error'' (''Missing configuration value for '' @ key))
      | Some x \<Rightarrow> if x = [] then Inl (OtherError ''Error'' (''Missing configuration value for '' @ key)) else Inr x)"

definition getTimeoutMs :: "AppConfigValues \<Rightarrow> rat" where
  "getTimeoutMs c = (case PAYMENT_PROVIDER_TIMEOUT_MS c of None \<Rightarrow> 10000 | Some t \<Rightarrow> t)"

definition optional_or_throw :: "string option \<Rightarrow> string \<Rightarrow> string \<Rightarrow> app_error + string" where
  "optional_or_throw first key second = (case first of Some x \<Rightarrow> Inr x | None \<Rightarrow> getOrThrow key (Some second))"

definition getTargetEnvironment :: "AppConfigValues \<Rightarrow> app_error + string" where
  "getTargetEnvironment c =
     optional_or_throw (MTN_MOMO_TARGET_ENVIRONMENT c) ''MTN_MOMO_ENVIRONMENT'' (MTN_MOMO_ENVIRONMENT c)"

definition getSubscriptionKey :: "AppConfigValues \<Rightarrow> app_error + string" where
  "getSubscriptionKey c =
     optional_or_throw (MTN_MOMO_COLLECTION_SUBSCRIPTION_KEY c) ''MTN_MOMO_SUBSCRIPTION_KEY'' (MTN_MOMO_SUBSCRIPTION_KEY c)"

definition momo_getBaseUrl :: "AppConfigValues \<Rightarrow> app_error + string" where
  "momo_getBaseUrl c =
     (if truthy (MTN_MOMO_BASE_URL c) then Inr (the (MTN_MOMO_BASE_URL c))
      else and_then (getTargetEnvironment c) (\<lambda>env.
        Inr (if env = ''sandbox'' then ''https://sandbox.momodeveloper.mtn.com''
             else ''https://momodeveloper.mtn.com'')))"

definition paystack_getBaseUrl :: "AppConfigValues \<Rightarrow> string" where
  "paystack_getBaseUrl c = (case PAYSTACK_BASE_URL c of None \<Rightarrow> ''https://api.paystack.co'' | Some u \<Rightarrow> u)"

definition momo_buildBasicAuth :: "AppConfigValues \<Rightarrow> app_error + string" where
  "momo_buildBasicAuth c =
     and_then (optional_or_throw (MTN_MOMO_API_USER c) ''MTN_MOMO_API_KEY'' (MTN_MOMO_API_KEY c)) (\<lambda>apiUser.
     and_then (getOrThrow ''MTN_MOMO_API_SECRET'' (Some (MTN_MOMO_API_SECRET c))) (\<lambda>apiKey.
       Inr (toBase64 (apiUser @ '':'' @ apiKey))))"

section \<open>Calling a provider\<close>

text \<open>The text of both payment adapters is the same but for the name of the provider.\<close>

definition auth_failed :: "string \<Rightarrow> string \<Rightarrow> http_answer \<Rightarrow> app_error" where
  "auth_failed provider label response =
     ProviderAuthError provider (label @ '' authentication failed with status '' @ int_to_string (ha_status response))"

definition request_failed :: "string \<Rightarrow> string \<Rightarrow> string \<Rightarrow> string \<Rightarrow> http_answer \<Rightarrow> app_error" where
  "request_failed provider label what errorCode response =
     ProviderResponseError provider errorCode (ha_status response)
       (label @ '' '' @ what @ '' failed with status '' @ int_to_string (ha_status response)) None"

definition is_auth_status :: "http_answer \<Rightarrow> bool" where
  "is_auth_status a \<longleftrightarrow> ha_status a = 401 \<or> ha_status a = 403"

definition fetch_error :: "string \<Rightarrow> string \<Rightarrow> app_error \<Rightarrow> app_error" where
  "fetch_error provider label error =
     (if error_name error = ''AbortError'' then ProviderTimeoutError provider (label @ '' request timed out.'')
      else case error of
        ProviderResponseError p c n m d \<Rightarrow> error
      | ProviderAuthError p m \<Rightarrow> error
      | _ \<Rightarrow> ProviderNetworkError provider (label @ '' network/request failure: '' @ error_message error))"

definition momo_fetchJson :: "provider_lib \<Rightarrow> AppConfigValues \<Rightarrow> http_call \<Rightarrow> string \<Rightarrow> app_error + json" where
  "momo_fetchJson L c call errorCode =
     on_error (fetch_error ''momo'' ''MoMo'')
       (and_then (fetch L (call\<lparr> hc_timeoutMs := getTimeoutMs c \<rparr>)) (\<lambda>response.
          if is_auth_status response then Inl (auth_failed ''momo'' ''MoMo'' response)
          else if \<not> is_ok response then Inl (request_failed ''momo'' ''MoMo'' ''request'' errorCode response)
          else ha_json response))"

definition momo_fetchVoid ::
  "provider_lib \<Rightarrow> AppConfigValues \<Rightarrow> http_call \<Rightarrow> string \<Rightarrow> int list \<Rightarrow> app_error + unit" where
  "momo_fetchVoid L c call errorCode acceptedStatusCodes =
     on_error (fetch_error ''momo'' ''MoMo'')
       (and_then (fetch L (call\<lparr> hc_timeoutMs := getTimeoutMs c \<rparr>)) (\<lambda>response.
          if is_auth_status response then Inl (auth_failed ''momo'' ''MoMo'' response)
          else if ha_status response \<notin> set acceptedStatusCodes
          then Inl (request_failed ''momo'' ''MoMo'' ''request'' errorCode response)
          else Inr ()))"

definition paystack_fetchJson :: "provider_lib \<Rightarrow> AppConfigValues \<Rightarrow> http_call \<Rightarrow> string \<Rightarrow> app_error + json" where
  "paystack_fetchJson L c call errorCode =
     on_error (fetch_error ''paystack'' ''Paystack'')
       (and_then (fetch L (call\<lparr> hc_timeoutMs := getTimeoutMs c \<rparr>)) (\<lambda>response.
          if is_auth_status response then Inl (auth_failed ''paystack'' ''Paystack'' response)
          else if \<not> is_ok response then Inl (request_failed ''paystack'' ''Paystack'' ''request'' errorCode response)
          else ha_json response))"

section \<open>MoMo: the payment flow\<close>

definition momo_token_call :: "string \<Rightarrow> string \<Rightarrow> string \<Rightarrow> http_call" where
  "momo_token_call baseUrl basicAuth subscriptionKey =
     http_post (baseUrl @ ''/collection/token/'')
       [(''Authorization'', ''Basic '' @ basicAuth), (''Ocp-Apim-Subscription-Key'', subscriptionKey)] None"

text \<open>A token that is not a text is rendered as the template literal renders it, a missing one too.\<close>

definition momo_getAccessToken :: "provider_lib \<Rightarrow> AppConfigValues \<Rightarrow> app_error + string" where
  "momo_getAccessToken L c =
     and_then (momo_getBaseUrl c) (\<lambda>baseUrl.
     and_then (momo_buildBasicAuth c) (\<lambda>basicAuth.
     and_then (getSubscriptionKey c) (\<lambda>key.
     and_then (momo_fetchJson L c (momo_token_call baseUrl basicAuth key) ''MOMO_TOKEN_FAILED'') (\<lambda>body.
     and_then (prop_of ''access_token'' body) (\<lambda>token.
       Inr (js_String (fraction_text L) token))))))"

definition momo_request_call :: "string \<Rightarrow> string \<Rightarrow> string \<Rightarrow> string \<Rightarrow> InitiateRequest \<Rightarrow> http_call" where
  "momo_request_call baseUrl token targetEnvironment subscriptionKey input =
     http_post (baseUrl @ ''/collection/v1_0/requesttopay'')
       [(''Authorization'', ''Bearer '' @ token), (''X-Reference-Id'', irq_providerReference input),
        (''X-Target-Environment'', targetEnvironment), (''Ocp-Apim-Subscription-Key'', subscriptionKey),
        (''Content-Type'', ''application/json'')]
       (Some (JObj
          [(''amount'', JStr (int_to_string (irq_amountMinor input))), (''currency'', JStr (irq_currency input)),
           (''externalId'', JStr (irq_paymentIntentId input)),
           (''payer'', JObj [(''partyIdType'', JStr ''MSISDN''),
              (''partyId'', jopt (irq_customerPhone input))]),
           (''payerMessage'', JStr (''GoVibe payment '' @ irq_paymentIntentId input)),
           (''payeeNote'', JStr ''GoVibe ticket payment'')]))"

definition momo_initiatePayment :: "provider_lib \<Rightarrow> AppConfigValues \<Rightarrow> InitiateRequest \<Rightarrow> app_error + InitiateResult" where
  "momo_initiatePayment L c input =
     (if \<not> truthy (irq_customerPhone input) then
        Inl (ProviderResponseError ''momo'' ''MOMO_INVALID_INITIATE_INPUT'' 0 ''MoMo initiation requires customerPhone.'' None)
      else
        and_then (momo_getBaseUrl c) (\<lambda>baseUrl.
        and_then (momo_getAccessToken L c) (\<lambda>token.
        and_then (getTargetEnvironment c) (\<lambda>target.
        and_then (getSubscriptionKey c) (\<lambda>key.
        and_then (momo_fetchVoid L c (momo_request_call baseUrl token target key input) ''MOMO_INIT_FAILED'' [202]) (\<lambda>_.
          Inr \<lparr> irs_providerReference = Some (irq_providerReference input), irs_checkoutUrl = None,
                irs_accessCode = None, irs_rawResponse = JObj [(''status'', JNum 202)] \<rparr>))))))"

record VerifyAnswer = ProviderVerification +
  va_providerRef :: json
  va_raw :: json

definition momo_mapStatus :: "json \<Rightarrow> provider_status" where
  "momo_mapStatus status =
     (if status = JStr ''SUCCESSFUL'' then provider_status.SUCCESS
      else if status = JStr ''FAILED'' \<or> status = JStr ''REJECTED'' then provider_status.FAILED
      else if status = JStr ''REVERSED'' then provider_status.REVERSED
      else provider_status.PENDING)"

text \<open>The last lines of \<open>verifyPayment\<close> and of \<open>parseWebhook\<close>: the facts in a body.\<close>

definition momo_facts :: "provider_lib \<Rightarrow> json \<Rightarrow> json \<Rightarrow> app_error + VerifyAnswer" where
  "momo_facts L providerRef body =
     and_then (prop_of ''status'' body) (\<lambda>status.
     and_then (BigInt (fraction_text L) (json_prop ''amount'' body)) (\<lambda>amount.
       Inr \<lparr> pv_status = momo_mapStatus status, pv_amountMinor = amount,
             pv_currency = json_string (json_prop ''currency'' body), va_providerRef = providerRef, va_raw = body \<rparr>))"

definition momo_status_call :: "string \<Rightarrow> string \<Rightarrow> string \<Rightarrow> string \<Rightarrow> string \<Rightarrow> http_call" where
  "momo_status_call baseUrl token targetEnvironment subscriptionKey reference =
     http_get (baseUrl @ ''/collection/v1_0/requesttopay/'' @ reference)
       [(''Authorization'', ''Bearer '' @ token), (''X-Target-Environment'', targetEnvironment),
        (''Ocp-Apim-Subscription-Key'', subscriptionKey)]"

definition momo_verifyPayment :: "provider_lib \<Rightarrow> AppConfigValues \<Rightarrow> string \<Rightarrow> app_error + VerifyAnswer" where
  "momo_verifyPayment L c providerRef =
     and_then (momo_getBaseUrl c) (\<lambda>baseUrl.
     and_then (momo_getAccessToken L c) (\<lambda>token.
     and_then (getTargetEnvironment c) (\<lambda>target.
     and_then (getSubscriptionKey c) (\<lambda>key.
     and_then (momo_fetchJson L c (momo_status_call baseUrl token target key providerRef) ''MOMO_VERIFY_FAILED'') (\<lambda>body.
       momo_facts L (JStr providerRef) body)))))"

definition momo_verifyWebhookAuthenticity ::
  "provider_lib \<Rightarrow> AppConfigValues \<Rightarrow> string \<Rightarrow> WebhookHeaders \<Rightarrow> app_error + unit" where
  "momo_verifyWebhookAuthenticity L c rawBody headers =
     (if \<not> truthy (MTN_MOMO_WEBHOOK_SECRET c) then
        Inl (WebhookSignatureError ''momo'' ''MoMo webhook secret not configured.'')
      else
        (let signature = getHeaderValue headers ''x-momo-signature'';
             expected = hmac_sha256 L (the (MTN_MOMO_WEBHOOK_SECRET c)) rawBody
         in if \<not> truthy signature then Inl (WebhookSignatureError ''momo'' ''Missing MoMo webhook signature.'')
            else if signature \<noteq> Some expected
            then Inl (WebhookSignatureError ''momo'' ''Invalid MoMo webhook signature.'')
            else Inr ()))"

definition momo_parseWebhook ::
  "provider_lib \<Rightarrow> AppConfigValues \<Rightarrow> string \<Rightarrow> json \<Rightarrow> WebhookHeaders \<Rightarrow> app_error + VerifyAnswer" where
  "momo_parseWebhook L c rawBody parsedBody headers =
     and_then (momo_verifyWebhookAuthenticity L c rawBody headers) (\<lambda>_.
     and_then (prop_of ''referenceId'' parsedBody) (\<lambda>reference.
       if json_falsy reference then Inl (WebhookSignatureError ''momo'' ''MoMo webhook missing referenceId.'')
       else momo_facts L reference parsedBody))"

section \<open>Paystack: the payment flow\<close>

definition paystack_headers :: "AppConfigValues \<Rightarrow> (string \<times> string) list \<Rightarrow> app_error + (string \<times> string) list" where
  "paystack_headers c rest =
     and_then (getOrThrow ''PAYSTACK_SECRET_KEY'' (Some (PAYSTACK_SECRET_KEY c))) (\<lambda>key.
       Inr ((''Authorization'', ''Bearer '' @ key) # rest))"

definition paystack_initialize_body :: "InitiateRequest \<Rightarrow> json" where
  "paystack_initialize_body input =
     JObj [(''email'', JStr (irq_customerEmail input)), (''amount'', JNum (irq_amountMinor input)),
           (''currency'', JStr (irq_currency input)), (''reference'', JStr (irq_providerReference input)),
           (''metadata'', JObj (map (\<lambda>(k, v). (k, JStr v)) (irq_metadata input) @
              (if truthy (irq_customerPhone input) then [(''customerPhone'', jopt (irq_customerPhone input))] else [])))]"

text \<open>The payment service gives no callback URL, so the field is never sent.\<close>

definition paystack_initiatePayment ::
  "provider_lib \<Rightarrow> AppConfigValues \<Rightarrow> InitiateRequest \<Rightarrow> app_error + InitiateResult" where
  "paystack_initiatePayment L c input =
     and_then (paystack_headers c [(''Content-Type'', ''application/json'')]) (\<lambda>headers.
     and_then (paystack_fetchJson L c
                 (http_post (paystack_getBaseUrl c @ ''/transaction/initialize'') headers
                    (Some (paystack_initialize_body input))) ''PAYSTACK_INIT_FAILED'') (\<lambda>body.
     and_then (prop_of ''data'' body) (\<lambda>data.
     and_then (prop_of ''reference'' data) (\<lambda>reference.
       Inr \<lparr> irs_providerReference = json_string (or_else reference (JStr (irq_providerReference input))),
             irs_checkoutUrl = json_string (json_prop ''authorization_url'' data),
             irs_accessCode = json_string (json_prop ''access_code'' data), irs_rawResponse = body \<rparr>))))"

definition paystack_mapStatus :: "json \<Rightarrow> provider_status" where
  "paystack_mapStatus status =
     (if status = JStr ''success'' then provider_status.SUCCESS
      else if status = JStr ''failed'' \<or> status = JStr ''abandoned'' then provider_status.FAILED
      else if status = JStr ''reversed'' then provider_status.REVERSED
      else if status = JStr ''refunded'' then provider_status.REFUNDED
      else provider_status.PENDING)"

definition paystack_facts :: "provider_lib \<Rightarrow> json \<Rightarrow> app_error + VerifyAnswer" where
  "paystack_facts L body =
     and_then (prop_of ''data'' body) (\<lambda>data.
     and_then (prop_of ''reference'' data) (\<lambda>reference.
     and_then (BigInt (fraction_text L) (json_prop ''amount'' data)) (\<lambda>amount.
       Inr \<lparr> pv_status = paystack_mapStatus (json_prop ''status'' data), pv_amountMinor = amount,
             pv_currency = json_string (json_prop ''currency'' data), va_providerRef = reference, va_raw = body \<rparr>)))"

definition paystack_status_url :: "AppConfigValues \<Rightarrow> string \<Rightarrow> string" where
  "paystack_status_url c reference = paystack_getBaseUrl c @ ''/transaction/verify/'' @ encodeURIComponent reference"

definition paystack_verifyPayment :: "provider_lib \<Rightarrow> AppConfigValues \<Rightarrow> string \<Rightarrow> app_error + VerifyAnswer" where
  "paystack_verifyPayment L c providerRef =
     and_then (paystack_headers c []) (\<lambda>headers.
     and_then (paystack_fetchJson L c (http_get (paystack_status_url c providerRef) headers) ''PAYSTACK_VERIFY_FAILED'')
       (paystack_facts L))"

text \<open>The key of the hash is looked up only when a signature is there.\<close>

definition paystack_verifyWebhookSignature ::
  "provider_lib \<Rightarrow> AppConfigValues \<Rightarrow> string \<Rightarrow> WebhookHeaders \<Rightarrow> app_error + unit" where
  "paystack_verifyWebhookSignature L c rawBody headers =
     (let signature = getHeaderValue headers ''x-paystack-signature'' in
      if \<not> truthy signature then Inl (WebhookSignatureError ''paystack'' ''Missing Paystack webhook signature.'')
      else and_then (getOrThrow ''PAYSTACK_SECRET_KEY'' (Some (PAYSTACK_SECRET_KEY c))) (\<lambda>key.
        if signature \<noteq> Some (hmac_sha512 L key rawBody)
        then Inl (WebhookSignatureError ''paystack'' ''Invalid Paystack webhook signature.'') else Inr ()))"

definition paystack_parseWebhook ::
  "provider_lib \<Rightarrow> AppConfigValues \<Rightarrow> string \<Rightarrow> json \<Rightarrow> WebhookHeaders \<Rightarrow> app_error + VerifyAnswer" where
  "paystack_parseWebhook L c rawBody parsedBody headers =
     and_then (paystack_verifyWebhookSignature L c rawBody headers) (\<lambda>_. paystack_facts L parsedBody)"

text \<open>The two adapters as the services see them.\<close>

definition payment_adapters :: "provider_lib \<Rightarrow> AppConfigValues \<Rightarrow> payment_adapter" where
  "payment_adapters L c provider =
     (case provider of PAYSTACK \<Rightarrow> paystack_initiatePayment L c | MTN_MOMO \<Rightarrow> momo_initiatePayment L c)"

definition provider_api_of :: "(string \<Rightarrow> app_error + VerifyAnswer) \<Rightarrow> provider_api" where
  "provider_api_of verifyPayment ref = map_sum id ProviderVerification.truncate (verifyPayment ref)"

section \<open>The verification flow\<close>

definition fetchWithTimeout :: "provider_lib \<Rightarrow> http_call \<Rightarrow> rat \<Rightarrow> app_error + http_answer" where
  "fetchWithTimeout L call timeoutMs =
     on_error (\<lambda>error. if error_name error = ''AbortError''
         then OtherError ''FetchTimeoutError''
                (''Request timed out after '' @ js_String (fraction_text L) (json_number timeoutMs) @ ''ms.'')
         else error)
       (fetch L (call\<lparr> hc_timeoutMs := timeoutMs \<rparr>))"

definition verification_error :: "string \<Rightarrow> string \<Rightarrow> app_error \<Rightarrow> app_error" where
  "verification_error provider label error =
     (if error_name error = ''FetchTimeoutError''
      then ProviderTimeoutError provider (label @ '' verification timed out.'')
      else case error of
        ProviderAuthError p m \<Rightarrow> error
      | ProviderResponseError p c n m d \<Rightarrow> error
      | ProviderTimeoutError p m \<Rightarrow> error
      | _ \<Rightarrow> ProviderNetworkError provider (label @ '' verification request failed: '' @ error_message error))"

text \<open>A request of a verification and the checks of its status.\<close>

definition verification_fetch ::
  "provider_lib \<Rightarrow> AppConfigValues \<Rightarrow> string \<Rightarrow> string \<Rightarrow> string \<Rightarrow> string \<Rightarrow> http_call \<Rightarrow> app_error + json" where
  "verification_fetch L c provider label what errorCode call =
     and_then (fetchWithTimeout L call (getTimeoutMs c)) (\<lambda>response.
       if is_auth_status response then Inl (auth_failed provider label response)
       else if \<not> is_ok response then Inl (request_failed provider label what errorCode response)
       else ha_json response)"

definition momo_verification_basicAuth :: "AppConfigValues \<Rightarrow> app_error + string" where
  "momo_verification_basicAuth c =
     and_then (optional_or_throw (MTN_MOMO_API_USER c) ''MTN_MOMO_API_KEY'' (MTN_MOMO_API_KEY c)) (\<lambda>apiUser.
       Inr (toBase64 (apiUser @ '':'' @ MTN_MOMO_API_SECRET c)))"

definition momo_verification_token :: "provider_lib \<Rightarrow> AppConfigValues \<Rightarrow> app_error + string" where
  "momo_verification_token L c =
     and_then (momo_getBaseUrl c) (\<lambda>baseUrl.
     and_then (momo_verification_basicAuth c) (\<lambda>basicAuth.
     and_then (getSubscriptionKey c) (\<lambda>key.
     and_then (verification_fetch L c ''momo'' ''MoMo'' ''token request'' ''MOMO_TOKEN_FAILED''
                 (momo_token_call baseUrl basicAuth key)) (\<lambda>body.
     and_then (prop_of ''access_token'' body) (\<lambda>token.
       if json_falsy token
       then Inl (ProviderResponseError ''momo'' ''MOMO_TOKEN_FAILED'' 502
                   ''MoMo token response did not include an access token.'' None)
       else Inr (js_String (fraction_text L) token))))))"

definition momo_amount :: "json \<Rightarrow> rat option" where
  "momo_amount j = (case j of JStr x \<Rightarrow> if js_trim x = [] then None else finite_Number x | _ \<Rightarrow> None)"

definition momo_verified :: "provider_lib \<Rightarrow> string \<Rightarrow> json \<Rightarrow> app_error + ProviderVerificationResult" where
  "momo_verified L providerReference body =
     and_then (prop_of ''amount'' body) (\<lambda>amount.
       let status = json_prop ''status'' body in
       Inr \<lparr> pvr_provider = MTN_MOMO, pvr_providerReference = providerReference,
             pvr_status = mapMomoStatus (json_string status), pvr_amountMinor = momo_amount amount,
             pvr_currency = json_string (json_prop ''currency'' body),
             pvr_providerStatus = js_String (fraction_text L) (or_else status (JStr ''UNKNOWN'')),
             pvr_paidAt = None, pvr_rawResponse = body \<rparr>)"

definition momo_verification_call :: "provider_lib \<Rightarrow> AppConfigValues \<Rightarrow> string \<Rightarrow> app_error + http_call" where
  "momo_verification_call L c providerReference =
     and_then (momo_verification_token L c) (\<lambda>token.
     and_then (momo_getBaseUrl c) (\<lambda>baseUrl.
     and_then (getTargetEnvironment c) (\<lambda>target.
     and_then (getSubscriptionKey c) (\<lambda>key.
       Inr (momo_status_call baseUrl token target key (encodeURIComponent providerReference))))))"

definition momo_verifyByReference ::
  "provider_lib \<Rightarrow> AppConfigValues \<Rightarrow> string \<Rightarrow> app_error + ProviderVerificationResult" where
  "momo_verifyByReference L c providerReference =
     on_error (verification_error ''momo'' ''MoMo'')
       (and_then (momo_verification_call L c providerReference) (\<lambda>call.
        and_then (verification_fetch L c ''momo'' ''MoMo'' ''verification'' ''MOMO_VERIFY_FAILED'' call)
          (momo_verified L providerReference)))"

definition paystack_amount :: "json \<Rightarrow> rat option" where
  "paystack_amount j = (case j of JNum n \<Rightarrow> Some (of_int n) | JDec r \<Rightarrow> Some r | _ \<Rightarrow> None)"

definition paystack_verified :: "provider_lib \<Rightarrow> string \<Rightarrow> json \<Rightarrow> app_error + ProviderVerificationResult" where
  "paystack_verified L providerReference body =
     and_then (prop_of ''data'' body) (\<lambda>data.
       let status = opt_prop ''status'' data; paid = opt_prop ''paid_at'' data in
       Inr \<lparr> pvr_provider = PAYSTACK,
             pvr_providerReference =
               js_String (fraction_text L) (or_else (opt_prop ''reference'' data) (JStr providerReference)),
             pvr_status = mapPaystackStatus (json_string status),
             pvr_amountMinor = paystack_amount (opt_prop ''amount'' data),
             pvr_currency = json_string (opt_prop ''currency'' data),
             pvr_providerStatus = js_String (fraction_text L) (or_else status (JStr ''unknown'')),
             pvr_paidAt = (if json_falsy paid then None else new_Date L paid), pvr_rawResponse = body \<rparr>)"

definition paystack_verifyByReference ::
  "provider_lib \<Rightarrow> AppConfigValues \<Rightarrow> string \<Rightarrow> app_error + ProviderVerificationResult" where
  "paystack_verifyByReference L c providerReference =
     on_error (verification_error ''paystack'' ''Paystack'')
       (and_then (paystack_headers c []) (\<lambda>headers.
        and_then (verification_fetch L c ''paystack'' ''Paystack'' ''verification'' ''PAYSTACK_VERIFY_FAILED''
                    (http_get (paystack_status_url c providerReference) headers))
          (paystack_verified L providerReference)))"

definition verification_adapters ::
  "provider_lib \<Rightarrow> AppConfigValues \<Rightarrow> (PaymentProvider \<times> (string \<Rightarrow> app_error + ProviderVerificationResult)) list" where
  "verification_adapters L c = [(PAYSTACK, paystack_verifyByReference L c), (MTN_MOMO, momo_verifyByReference L c)]"

definition registry_get ::
  "(PaymentProvider \<times> (string \<Rightarrow> app_error + ProviderVerificationResult)) list \<Rightarrow> PaymentProvider \<Rightarrow>
   app_error + (string \<Rightarrow> app_error + ProviderVerificationResult)" where
  "registry_get adapters provider =
     (case map_of adapters provider of
        None \<Rightarrow> Inl (NotFoundError (''No payment verification adapter registered for '' @ provider_text provider @ ''.''))
      | Some a \<Rightarrow> Inr a)"

text \<open>\<open>registry.get(provider).verifyByReference(reference)\<close>, the verifier of the webhook service.\<close>

definition registry_verifier :: "provider_lib \<Rightarrow> AppConfigValues \<Rightarrow> verifier" where
  "registry_verifier L c provider reference =
     and_then (registry_get (verification_adapters L c) provider) (\<lambda>verifyByReference. verifyByReference reference)"

section \<open>What the adapters guarantee\<close>

declare and_then_Inr [prog_inv]

lemma and_then_Inl [prog_inv]: "and_then m f = Inl e \<longleftrightarrow> m = Inl e \<or> (\<exists>x. m = Inr x \<and> f x = Inl e)"
  by (simp add: and_then_def split: sum.splits)

lemma on_error_Inr [prog_inv]: "on_error h m = Inr x \<longleftrightarrow> m = Inr x"
  by (simp add: on_error_def split: sum.splits)

lemma on_error_Inl [prog_inv]: "on_error h m = Inl e \<longleftrightarrow> (\<exists>e'. m = Inl e' \<and> e = h e')"
  by (auto simp: on_error_def split: sum.splits)

lemma registry_verifier_simps [simp]:
  "registry_verifier L c PAYSTACK = paystack_verifyByReference L c"
  "registry_verifier L c MTN_MOMO = momo_verifyByReference L c"
  by (simp_all add: registry_verifier_def registry_get_def verification_adapters_def and_then_def fun_eq_iff)

text \<open>The errors the payment services tell apart.\<close>

fun provider_error :: "app_error \<Rightarrow> bool" where
  "provider_error (ProviderAuthError p m) = True"
| "provider_error (ProviderTimeoutError p m) = True"
| "provider_error (ProviderNetworkError p m) = True"
| "provider_error (ProviderResponseError p c n m d) = True"
| "provider_error e = False"

lemma verification_error_kind: "provider_error (verification_error p l e)"
  by (cases e) (simp_all add: verification_error_def)

lemma fetch_error_kind: "provider_error (fetch_error p l e)"
  by (cases e) (simp_all add: fetch_error_def)

lemma verify_errors:
  assumes "registry_verifier L c provider reference = Inl e"
  shows "provider_error e"
  using assms by (cases provider)
    (auto simp: paystack_verifyByReference_def momo_verifyByReference_def on_error_Inl verification_error_kind)

text \<open>A body the network gave, with a status of success.\<close>

definition answered :: "provider_lib \<Rightarrow> AppConfigValues \<Rightarrow> http_call \<Rightarrow> json \<Rightarrow> bool" where
  "answered L c call body \<longleftrightarrow>
     (\<exists>a. fetch L (call\<lparr> hc_timeoutMs := getTimeoutMs c \<rparr>) = Inr a \<and> is_ok a \<and> ha_json a = Inr body)"

lemma verification_fetch_Inr: "verification_fetch L c p l w code call = Inr body \<Longrightarrow> answered L c call body"
  by (auto simp: verification_fetch_def answered_def fetchWithTimeout_def prog_inv split: if_splits)

text \<open>
  What a provider has to say about an intent before it may be settled as paid: success, its amount and
  its currency, in a body that came back from the status address of its own reference.
\<close>

definition says_paid :: "PaymentIntent \<Rightarrow> json \<Rightarrow> bool" where
  "says_paid p body =
     (case pi_provider p of
        PAYSTACK \<Rightarrow>
          (let data = json_prop ''data'' body in
           json_prop ''status'' data = JStr ''success'' \<and>
           paystack_amount (json_prop ''amount'' data) = Some (of_int (pi_amountMinor p)) \<and>
           json_prop ''currency'' data = JStr (pi_currency p))
      | MTN_MOMO \<Rightarrow>
          json_prop ''status'' body = JStr ''SUCCESSFUL'' \<and>
          momo_amount (json_prop ''amount'' body) = Some (of_int (pi_amountMinor p)) \<and>
          json_prop ''currency'' body = JStr (pi_currency p))"

definition status_address :: "AppConfigValues \<Rightarrow> PaymentIntent \<Rightarrow> string \<Rightarrow> bool" where
  "status_address c p url =
     (case pi_provider p of
        PAYSTACK \<Rightarrow> url = paystack_status_url c (pi_providerReference p)
      | MTN_MOMO \<Rightarrow> \<exists>base. momo_getBaseUrl c = Inr base \<and>
          url = base @ ''/collection/v1_0/requesttopay/'' @ encodeURIComponent (pi_providerReference p))"

lemma json_string_Some [simp]: "json_string j = Some x \<longleftrightarrow> j = JStr x"
  by (cases j) (simp_all add: json_string_def)

lemma success_status [simp]:
  "mapPaystackStatus st = ProviderVerificationStatus.SUCCESS \<longleftrightarrow> st = Some ''success''"
  "mapMomoStatus st = ProviderVerificationStatus.SUCCESS \<longleftrightarrow> st = Some ''SUCCESSFUL''"
  by (auto simp: mapPaystackStatus_def mapMomoStatus_def)

lemma opt_prop_text: "opt_prop key j = JStr x \<longleftrightarrow> json_prop key j = JStr x"
  by (auto simp: opt_prop_def json_prop_def)

lemma opt_prop_amount:
  "paystack_amount (opt_prop key j) = Some r \<longleftrightarrow> paystack_amount (json_prop key j) = Some r"
  by (auto simp: opt_prop_def json_prop_def)

lemma verified_says_paid:
  assumes "registry_verifier L c (pi_provider p) (pi_providerReference p) = Inr v"
    and "verification_matches p v" and "pvr_status v = ProviderVerificationStatus.SUCCESS"
  shows "\<exists>call body. answered L c call body \<and> status_address c p (hc_url call) \<and> says_paid p body"
proof (cases "pi_provider p")
  case PAYSTACK
  with assms show ?thesis
    by (fastforce simp: paystack_verifyByReference_def prog_inv paystack_verified_def prop_of_def Let_def
        verification_matches_def says_paid_def status_address_def http_get_def opt_prop_text opt_prop_amount
        dest: verification_fetch_Inr split: if_splits)
next
  case MTN_MOMO
  with assms show ?thesis
    by (fastforce simp: momo_verifyByReference_def momo_verification_call_def prog_inv momo_verified_def
        prop_of_def Let_def verification_matches_def says_paid_def status_address_def momo_status_call_def
        http_get_def dest: verification_fetch_Inr split: if_splits)
qed

lemma settled_status:
  assumes "unique_intents s" and "p \<in> set (payment_intents s)" and "q \<in> set (settled_intents E verify envelope s)"
    and "pi_id q = pi_id p" and "pi_status p \<noteq> PaymentIntentStatus.VERIFIED" "pi_status q = PaymentIntentStatus.VERIFIED"
  obtains v where "verify (pi_provider p) (pi_providerReference p) = Inr v" "verification_matches p v"
    "pvr_status v = ProviderVerificationStatus.SUCCESS" "pi_provider p = env_provider envelope"
proof -
  have same: "x = p" if "x \<in> set (payment_intents s)" "pi_id x = pi_id p" for x
    using that assms(1,2) by (auto simp: unique_intents_def distinct_map dest: inj_onD)
  show thesis
  proof (cases "settles verify envelope s")
    case None
    with assms same show thesis by (auto simp: settled_intents_def)
  next
    case (Some w)
    obtain p0 v t where w: "w = (p0, v, t)" by (cases w)
    from Some w have p0: "p0 \<in> set (payment_intents s)" "pi_provider p0 = env_provider envelope"
      "verify (pi_provider p0) (pi_providerReference p0) = Inr v" "verification_matches p0 v"
      "target_of (pvr_status v) = Some t"
      by (auto simp: settles_def delivered_intent_def find_Some_iff split: option.splits sum.splits if_splits)
    from Some w assms(3) obtain x where x: "x \<in> set (payment_intents s)"
      "q = (if pi_id x = pi_id p0 \<and> can_transition x then settle_row (app_now E) t v x else x)"
      by (auto simp: settled_intents_def set_upd_where)
    have "pi_id x = pi_id p" using x(2) assms(4) by (simp add: settle_row_simps split: if_splits)
    then have "x = p" by (rule same [OF x(1)])
    with x(2) assms(5,6) have upd: "pi_id p = pi_id p0" "q = settle_row (app_now E) t v p"
      by (auto split: if_splits)
    then have "p0 = p" using same [OF p0(1)] by simp
    moreover have "t = VERIFIED"
      using assms(6) upd(2) by (cases t) (simp_all add: settle_row_def set_failed_def)
    then have "pvr_status v = ProviderVerificationStatus.SUCCESS"
      using p0(5) by (cases "pvr_status v") (simp_all add: target_of_def)
    ultimately show thesis using p0 by (intro that) auto
  qed
qed

lemma handleWebhook_settles:
  assumes "handleWebhook E hmac key verify input s = (r, s')" and "payment_intents s' \<noteq> payment_intents s"
  obtains envelope where "processEnvelope E verify envelope s = (r, s')"
    "env_provider envelope = PAYSTACK \<longrightarrow> validatePaystackSignature hmac (wi_rawBody input) (wi_headers input) key = None"
proof (cases "resolveWebhookProvider (wi_provider input)")
  case PAYSTACK
  show thesis
  proof (cases "validatePaystackSignature hmac (wi_rawBody input) (wi_headers input) key")
    case None
    with PAYSTACK assms that show thesis
      by (auto simp: handleWebhook_def Let_def bindp_def lift_result_def split: sum.splits)
  next
    case (Some m)
    obtain s2 where "persistRejectedSignatureEvent E PAYSTACK (computePayloadHash E (wi_rawBody input)) (wi_rawBody input)
        (toJsonHeaders (wi_headers input)) m s = (Inr (), s2)" "payment_intents s2 = payment_intents s"
      using persist_run by blast
    with PAYSTACK Some assms show thesis by (simp add: handleWebhook_def Let_def seqp_def bindp_def)
  qed
next
  case MTN_MOMO
  with assms that show thesis
    by (auto simp: handleWebhook_def Let_def bindp_def lift_result_def dest: parse_keys(2) split: sum.splits)
qed

section \<open>Properties\<close>

text \<open>
  C14: A payment counts as paid only on the word of its provider. With the adapters the module
  registers, a webhook turns an intent that was not VERIFIED into a VERIFIED one only when a request
  to the status address of the intent's own reference came back with a status of success and a body
  that says success, the amount and the currency of the intent; a Paystack delivery also bears the
  right signature. Nothing in the delivery itself is believed.
\<close>

theorem verified_on_the_providers_word:
  assumes "handleWebhook E (hmac_sha512 L) (PAYSTACK_SECRET_KEY c) (registry_verifier L c) input s = (r, s')"
    and "unique_intents s" and "fresh_event_id E s"
    and "p \<in> set (payment_intents s)" and "q \<in> set (payment_intents s')" and "pi_id q = pi_id p"
    and "pi_status p \<noteq> PaymentIntentStatus.VERIFIED" and "pi_status q = PaymentIntentStatus.VERIFIED"
  shows "(\<exists>call body. answered L c call body \<and> status_address c p (hc_url call) \<and> says_paid p body) \<and>
    (pi_provider p = PAYSTACK \<longrightarrow>
      getHeaderValue (wi_headers input) ''x-paystack-signature'' =
        Some (hmac_sha512 L (PAYSTACK_SECRET_KEY c) (wi_rawBody input)))"
proof -
  have "payment_intents s' \<noteq> payment_intents s"
    using assms(2,4-8) by (auto simp: unique_intents_def distinct_map dest: inj_onD)
  from handleWebhook_settles [OF assms(1) this] obtain envelope where
    run: "processEnvelope E (registry_verifier L c) envelope s = (r, s')" and
    signed: "env_provider envelope = PAYSTACK \<longrightarrow>
      validatePaystackSignature (hmac_sha512 L) (wi_rawBody input) (wi_headers input) (PAYSTACK_SECRET_KEY c) = None" .
  from webhook_decision_run [OF assms(2,3), of "registry_verifier L c" envelope] run
    \<open>payment_intents s' \<noteq> payment_intents s\<close>
  have "payment_intents s' = settled_intents E (registry_verifier L c) envelope s" by (auto split: if_splits)
  with assms(5) have "q \<in> set (settled_intents E (registry_verifier L c) envelope s)" by simp
  from settled_status [OF assms(2,4) this assms(6-8)] obtain v where
    v: "registry_verifier L c (pi_provider p) (pi_providerReference p) = Inr v" "verification_matches p v"
      "pvr_status v = ProviderVerificationStatus.SUCCESS" "pi_provider p = env_provider envelope" .
  from verified_says_paid [OF v(1-3)] signed v(4) show ?thesis
    by (auto simp: validatePaystackSignature_def Let_def split: option.splits if_splits)
qed

text \<open>What the request that starts a payment asks the provider for, and when it was accepted.\<close>

definition asks_for :: "PaymentProvider \<Rightarrow> PaymentIntent \<Rightarrow> http_call \<Rightarrow> bool" where
  "asks_for provider p call =
     (case (provider, hc_body call) of
        (PAYSTACK, Some body) \<Rightarrow>
          json_prop ''amount'' body = JNum (pi_amountMinor p) \<and> json_prop ''currency'' body = JStr (pi_currency p) \<and>
          json_prop ''reference'' body = JStr (pi_providerReference p)
      | (MTN_MOMO, Some body) \<Rightarrow>
          json_prop ''amount'' body = JStr (int_to_string (pi_amountMinor p)) \<and>
          json_prop ''currency'' body = JStr (pi_currency p) \<and>
          map_of (hc_headers call) ''X-Reference-Id'' = Some (pi_providerReference p)
      | _ \<Rightarrow> False)"

definition accepted_answer :: "PaymentProvider \<Rightarrow> http_answer \<Rightarrow> bool" where
  "accepted_answer provider a = (case provider of PAYSTACK \<Rightarrow> is_ok a | MTN_MOMO \<Rightarrow> ha_status a = 202)"

lemma adapters_ask:
  assumes "payment_adapters L c provider (initiate_request p buyer input) = Inr res"
  shows "\<exists>call a. fetch L call = Inr a \<and> accepted_answer provider a \<and> asks_for provider p call"
proof (cases provider)
  case PAYSTACK
  with assms obtain headers body where "paystack_fetchJson L c
      (http_post (paystack_getBaseUrl c @ ''/transaction/initialize'') headers
        (Some (paystack_initialize_body (initiate_request p buyer input)))) ''PAYSTACK_INIT_FAILED'' = Inr body"
    by (auto simp: payment_adapters_def paystack_initiatePayment_def prog_inv)
  then obtain a where "fetch L ((http_post (paystack_getBaseUrl c @ ''/transaction/initialize'') headers
        (Some (paystack_initialize_body (initiate_request p buyer input))))\<lparr> hc_timeoutMs := getTimeoutMs c \<rparr>) = Inr a"
      "is_ok a"
    by (auto simp: paystack_fetchJson_def prog_inv split: if_splits)
  then show ?thesis using PAYSTACK
    by (intro exI conjI) (auto simp: accepted_answer_def asks_for_def http_post_def paystack_initialize_body_def
        initiate_request_def json_prop_def)
next
  case MTN_MOMO
  with assms obtain base token target key where "momo_fetchVoid L c
      (momo_request_call base token target key (initiate_request p buyer input)) ''MOMO_INIT_FAILED'' [202] = Inr ()"
    by (auto simp: payment_adapters_def momo_initiatePayment_def prog_inv split: if_splits)
  then obtain a where "fetch L ((momo_request_call base token target key
      (initiate_request p buyer input))\<lparr> hc_timeoutMs := getTimeoutMs c \<rparr>) = Inr a" "ha_status a = 202"
    by (auto simp: momo_fetchVoid_def prog_inv split: if_splits)
  then show ?thesis using MTN_MOMO
    by (intro exI conjI) (auto simp: accepted_answer_def asks_for_def http_post_def momo_request_call_def
        initiate_request_def json_prop_def)
qed

lemma finish_initiation_Inr:
  assumes "finish_initiation E adapter lost buyer p input s = (Inr view, s')"
  obtains res q where "adapter (ipi_provider input) (initiate_request p buyer input) = Inr res"
    "irs_providerReference res = Some (pi_providerReference p)"
    "find (\<lambda>q. pi_id q = pi_id p) (payment_intents s) = Some q" "view = toView (initiated_row (app_now E) res q)"
proof -
  from assms obtain res q s1 where res: "adapter (ipi_provider input) (initiate_request p buyer input) = Inr res"
      "irs_providerReference res = Some (pi_providerReference p)"
    and q: "persist_initiated E lost p (usr_id buyer) res s = (Inr q, s1)" "view = toView q"
    by (auto simp: finish_initiation_def lift_result_def prog_inv split: sum.splits if_splits)
  from q(1) obtain x where x: "find (\<lambda>q. pi_id q = pi_id p) (payment_intents s) = Some x"
    by (auto simp: persist_initiated_def prog_inv markInitiated_def Intent_update_def)
  show ?thesis
  proof (cases lost)
    case None
    from persist_initiated_run(1) [OF x, of E "usr_id buyer" res] q None have "view = toView (initiated_row (app_now E) res x)"
      by auto
    with res x show ?thesis by (rule that)
  next
    case (Some e)
    with q(1) persist_initiated_run(2) [OF x, of E e "usr_id buyer" res] show ?thesis by simp
  qed
qed

text \<open>
  C25: A buyer is sent to pay exactly the intent. An initiation that answers with a view either replays
  the intent its buyer already has for the same key and the same request, in whatever status short of a
  failed initiation it is, and leaves every intent alone; or the provider accepted a request with the
  amount, the currency and the reference of an intent, the adapter gave that reference back, and the view
  shows that intent, as INITIATED, with this amount, currency and reference.
\<close>

theorem initiation_asks_for_the_intent:
  assumes "initiatePayment E K ctx (payment_adapters L c) lost input s = (Inr view, s')"
  shows "(\<exists>p\<in>set (payment_intents s). view = toView p \<and> payment_intents s' = payment_intents s \<and>
      pi_status p \<noteq> PaymentIntentStatus.INITIATION_FAILED \<and>
      pi_idempotencyKeyHash p = hashValue E (ipi_idempotencyKey input) \<and>
      pi_requestFingerprintHash p = hashValue E (fingerprint_text input)) \<or>
    (\<exists>p buyer call a res. fetch L call = Inr a \<and> accepted_answer (ipi_provider input) a \<and>
      asks_for (ipi_provider input) p call \<and>
      payment_adapters L c (ipi_provider input) (initiate_request p buyer input) = Inr res \<and>
      irs_providerReference res = Some (pi_providerReference p) \<and>
      piv_paymentIntentId view = pi_id p \<and> piv_status view = PaymentIntentStatus.INITIATED \<and>
      piv_amountMinor view = pi_amountMinor p \<and> piv_currency view = pi_currency p \<and>
      piv_providerReference view = pi_providerReference p)"
proof -
  from assms obtain buyer action s1 where first: "begin_initiation E K ctx input s = (Inr (buyer, action), s1)"
    and rest: "(case action of ReturnExisting p \<Rightarrow> ret (toView p)
      | CallProvider p \<Rightarrow> finish_initiation E (payment_adapters L c) lost buyer p input) s1 = (Inr view, s')"
    by (auto simp: initiatePayment_def bindp_Inr)
  from begin_initiation_Inr [OF first] obtain event where
    tx: "runInTransaction (initiation_tx E (usr_id buyer) event input) s = (Inr action, s1)" .
  show ?thesis
  proof (cases action)
    case (ReturnExisting p)
    with rest have "view = toView p" "s' = s1" by (auto simp: ret_def)
    with initiation_tx_existing [OF tx [unfolded ReturnExisting]] show ?thesis
      by (intro disjI1 bexI [of _ p]) (simp_all add: intent_key_def)
  next
    case (CallProvider p)
    from rest CallProvider have "finish_initiation E (payment_adapters L c) lost buyer p input s1 = (Inr view, s')" by simp
    then obtain res q where res: "payment_adapters L c (ipi_provider input) (initiate_request p buyer input) = Inr res"
        "irs_providerReference res = Some (pi_providerReference p)"
      and q: "find (\<lambda>q. pi_id q = pi_id p) (payment_intents s1) = Some q" "view = toView (initiated_row (app_now E) res q)"
      by (rule finish_initiation_Inr)
    from q(1) initiation_tx_calls [OF tx [unfolded CallProvider]] have "q = p" by simp
    with q(2) have "piv_paymentIntentId view = pi_id p" "piv_status view = PaymentIntentStatus.INITIATED"
      "piv_amountMinor view = pi_amountMinor p" "piv_currency view = pi_currency p"
      "piv_providerReference view = pi_providerReference p"
      by (simp_all add: toView_def initiated_row_def)
    with adapters_ask [OF res(1)] res show ?thesis by blast
  qed
qed

section \<open>Examples\<close>

definition ex_paid_body :: json where
  "ex_paid_body = JObj [(''data'', JObj [(''reference'', JStr ''pi_ref''), (''status'', JStr ''success''),
     (''amount'', JNum 5000), (''currency'', JStr ''GHS'')])]"

definition ex_started_body :: json where
  "ex_started_body = JObj [(''data'', JObj [(''reference'', JStr ''pi_ref''), (''authorization_url'', JStr ''url'')])]"

text \<open>A network where Paystack answers with these bodies.\<close>

definition ex_provider_lib :: provider_lib where
  "ex_provider_lib =
     \<lparr> fetch = (\<lambda>call. Inr \<lparr> ha_status = 200,
         ha_json = Inr (if hc_method call = ''GET'' then ex_paid_body else ex_started_body) \<rparr>),
       hmac_sha256 = ex_hmac, hmac_sha512 = ex_hmac, fraction_text = (\<lambda>r. []), new_Date = (\<lambda>j. None) \<rparr>"

lemmas ex_provider_defs = ex_provider_lib_def ex_paid_body_def ex_started_body_def ex_config_def

lemma ex_registry_run:
  "registry_verifier ex_provider_lib ex_config PAYSTACK ''pi_ref'' =
     Inr (ex_confirmed\<lparr> pvr_rawResponse := ex_paid_body \<rparr>)"
  by (simp add: paystack_verifyByReference_def paystack_headers_def getOrThrow_def verification_fetch_def
      fetchWithTimeout_def paystack_verified_def and_then_def on_error_def is_auth_status_def is_ok_def
      prop_of_def opt_prop_def or_else_def json_prop_def json_string_def paystack_amount_def http_get_def
      mapPaystackStatus_def json_falsy_def ex_confirmed_def ex_provider_defs)

definition ex_paid_run :: "(app_error + PaymentWebhookResult) \<times> db" where
  "ex_paid_run = handleWebhook (ex_event_env ''w1'') (hmac_sha512 ex_provider_lib) (PAYSTACK_SECRET_KEY ex_config)
     (registry_verifier ex_provider_lib ex_config) (ex_delivery ''0123456789abcdefb'') ex_intent_db"

lemma ex_paid_settles:
  "map (\<lambda>q. (pi_id q, pi_status q)) (payment_intents (snd ex_paid_run)) = [(''pi1'', PaymentIntentStatus.VERIFIED)]"
proof -
  let ?v = "registry_verifier ex_provider_lib ex_config" and ?E = "ex_event_env ''w1''"
  obtain envelope where parsed: "parsePaystackEnvelope (wi_parsedBody (ex_delivery ''0123456789abcdefb''))
      (computePayloadHash ?E ''b'') ''b'' (toJsonHeaders [(''x-paystack-signature'', One ''0123456789abcdefb'')]) = Inr envelope"
    and env: "env_provider envelope = PAYSTACK" "env_providerReference envelope = Some ''pi_ref''" "env_supported envelope"
    by (simp add: parsePaystackEnvelope_def assertRecord_def assertOptionalRecord_def json_prop_def json_string_def
        json_falsy_def int_to_string_def Let_def ex_delivery_def)
  have run: "ex_paid_run = processEnvelope ?E ?v envelope ex_intent_db"
    using parsed
    by (simp add: ex_paid_run_def handleWebhook_def resolveWebhookProvider_def validatePaystackSignature_def
        getHeaderValue_def lift_result_def Let_def ex_delivery_def ex_hmac_def ex_provider_lib_def ex_config_def)
  have u: "unique_intents ex_intent_db" "fresh_event_id ?E ex_intent_db" "\<not> known_delivery envelope ex_intent_db"
    by (simp_all add: unique_intents_def fresh_event_id_def known_delivery_def ex_webhook_defs)
  have "settles ?v envelope ex_intent_db = Some (ex_intent, ex_confirmed\<lparr> pvr_rawResponse := ex_paid_body \<rparr>, VERIFIED)"
    using env ex_registry_run
    by (simp add: settles_def delivered_intent_def verification_matches_def target_of_def can_transition_def
        ex_intent_db_def ex_intent_def ex_confirmed_def)
  then have "map (\<lambda>q. (pi_id q, pi_status q)) (settled_intents ?E ?v envelope ex_intent_db) =
      [(''pi1'', PaymentIntentStatus.VERIFIED)]"
    by (simp add: settled_intents_def settle_row_def set_verified_def can_transition_def ex_intent_db_def ex_intent_def)
  with webhook_decision_run [OF u(1,2), of ?v envelope] u(3) show ?thesis by (auto simp: run)
qed

lemma verified_on_the_providers_word_witness:
  "(\<exists>call body. answered ex_provider_lib ex_config call body \<and> status_address ex_config ex_intent (hc_url call) \<and>
      says_paid ex_intent body) \<and>
   getHeaderValue [(''x-paystack-signature'', One ''0123456789abcdefb'')] ''x-paystack-signature'' =
     Some (hmac_sha512 ex_provider_lib (PAYSTACK_SECRET_KEY ex_config) ''b'')"
proof -
  obtain r s' where run: "ex_paid_run = (r, s')" by (cases ex_paid_run)
  from ex_paid_settles [unfolded run] obtain q where q: "q \<in> set (payment_intents s')" "pi_id q = ''pi1''"
    "pi_status q = PaymentIntentStatus.VERIFIED" by auto
  have "unique_intents ex_intent_db" "fresh_event_id (ex_event_env ''w1'') ex_intent_db"
    "ex_intent \<in> set (payment_intents ex_intent_db)" "pi_id ex_intent = ''pi1''"
    "pi_status ex_intent \<noteq> PaymentIntentStatus.VERIFIED" "pi_provider ex_intent = PAYSTACK"
    by (simp_all add: unique_intents_def fresh_event_id_def ex_webhook_defs)
  with verified_on_the_providers_word [OF run [unfolded ex_paid_run_def], of ex_intent q] q show ?thesis
    by (simp add: ex_delivery_def)
qed

text \<open>The first call for a key asks the provider; a second one with the same request replays the intent.\<close>

definition ex_sale_lib :: provider_lib where
  "ex_sale_lib = ex_provider_lib\<lparr> fetch := (\<lambda>call. Inr \<lparr> ha_status = 200,
     ha_json = Inr (JObj [(''data'', JObj [(''reference'', JStr ''pi_hk''), (''authorization_url'', JStr ''url'')])]) \<rparr>) \<rparr>"

definition ex_initiation :: "db \<Rightarrow> (app_error + PaymentIntentView) \<times> db" where
  "ex_initiation = initiatePayment ex_env ex_launch (Some (ex_ctx\<lparr> ctx_userId := Some ''u1'' \<rparr>))
     (payment_adapters ex_sale_lib ex_config) None ex_initiate"

definition view_status :: "app_error + PaymentIntentView \<Rightarrow> PaymentIntentStatus option" where
  "view_status r = (case r of Inl e \<Rightarrow> None | Inr v \<Rightarrow> Some (piv_status v))"

lemma initiation_asks_for_the_intent_witness:
  "\<exists>view s'. ex_initiation ex_sale = (Inr view, s') \<and> piv_status view = PaymentIntentStatus.INITIATED \<and>
     view_status (fst (ex_initiation s')) = Some PaymentIntentStatus.INITIATED \<and>
     (\<exists>p call a. fetch ex_sale_lib call = Inr a \<and> accepted_answer PAYSTACK a \<and> asks_for PAYSTACK p call \<and>
        piv_paymentIntentId view = pi_id p)"
proof -
  have st: "view_status (fst (ex_initiation ex_sale)) = Some PaymentIntentStatus.INITIATED"
    "view_status (fst (ex_initiation (snd (ex_initiation ex_sale)))) = Some PaymentIntentStatus.INITIATED"
    by code_simp+
  obtain r s' where run: "ex_initiation ex_sale = (r, s')" by (cases "ex_initiation ex_sale")
  with st(1) obtain view where view: "r = Inr view" "piv_status view = PaymentIntentStatus.INITIATED"
    by (cases r) (simp_all add: view_status_def)
  have "payment_intents ex_sale = []" by (simp add: ex_sale_def)
  with initiation_asks_for_the_intent [OF run [unfolded view(1) ex_initiation_def]]
  have "\<exists>p call a. fetch ex_sale_lib call = Inr a \<and> accepted_answer PAYSTACK a \<and> asks_for PAYSTACK p call \<and>
      piv_paymentIntentId view = pi_id p"
    by (auto simp: ex_initiate_def)
  with run view st(2) show ?thesis by auto
qed

end
