(* ===== verification/Http_Errors.thy ===== *)
theory Http_Errors
  imports Govibe_Prelude
begin

text \<open>
  How an error becomes a response (\<^verbatim>\<open>src/shared/errors/http-error-mapper.ts\<close>,
  \<^verbatim>\<open>src/shared/errors/global-exception.filter.ts\<close>). An exception of the framework keeps its status, an
  error of the domain or of a provider is given one, everything else is an internal server error.
\<close>

section \<open>Exceptions of the framework\<close>

record http_exception =
  hx_status :: int
  hx_message :: string
  hx_error :: string

definition nest :: "int \<Rightarrow> string \<Rightarrow> string \<Rightarrow> http_exception" where
  "nest status description message = \<lparr> hx_status = status, hx_message = message, hx_error = description \<rparr>"

abbreviation "badRequest \<equiv> nest 400 ''Bad Request''"
abbreviation "unauthorized \<equiv> nest 401 ''Unauthorized''"
abbreviation "forbidden \<equiv> nest 403 ''Forbidden''"
abbreviation "notFound \<equiv> nest 404 ''Not Found''"
abbreviation "conflict \<equiv> nest 409 ''Conflict''"
abbreviation "internalServerError \<equiv> nest 500 ''Internal Server Error''"
abbreviation "serviceUnavailable \<equiv> nest 503 ''Service Unavailable''"
abbreviation "gatewayTimeout \<equiv> nest 504 ''Gateway Timeout''"

text \<open>\<open>exception instanceof HttpException\<close>\<close>

definition as_http_exception :: "app_error \<Rightarrow> http_exception option" where
  "as_http_exception e =
     (case e of
        BadRequestException m \<Rightarrow> Some (badRequest m)
      | UnauthorizedException m \<Rightarrow> Some (unauthorized m)
      | ForbiddenException m \<Rightarrow> Some (forbidden m)
      | NotFoundException m \<Rightarrow> Some (notFound m)
      | ConflictException m \<Rightarrow> Some (conflict m)
      | InternalServerErrorException m \<Rightarrow> Some (internalServerError m)
      | _ \<Rightarrow> None)"

section \<open>The mapper\<close>

definition nonce_unavailable :: string where
  "nonce_unavailable = ''Nonce replay protection unavailable:''"

definition mapErrorToHttp :: "app_error \<Rightarrow> http_exception" where
  "mapErrorToHttp error =
     (case error of
        NotFoundError m \<Rightarrow> notFound m
      | InventoryUnavailableError m \<Rightarrow> conflict m
      | DomainConflictError m \<Rightarrow> conflict m
      | IdempotencyConflictError m \<Rightarrow> conflict m
      | PaymentAlreadyProcessedError m \<Rightarrow> conflict m
      | ReplayDetectedError m \<Rightarrow> conflict m
      | LaunchControlViolationError m \<Rightarrow> forbidden m
      | LaunchControlDisabledError m \<Rightarrow> serviceUnavailable m
      | InvalidStateTransitionError m \<Rightarrow> badRequest m
      | WebhookSignatureError p m \<Rightarrow> unauthorized m
      | ProviderTimeoutError p m \<Rightarrow> gatewayTimeout m
      | ProviderAuthError p m \<Rightarrow> serviceUnavailable m
      | ProviderNetworkError p m \<Rightarrow> serviceUnavailable m
      | ProviderResponseError p c statusCode m d \<Rightarrow>
          if statusCode \<ge> 500 \<or> statusCode = 0 then serviceUnavailable m
          else if statusCode \<ge> 400 \<and> statusCode < 500 then badRequest m
          else serviceUnavailable m
      | _ \<Rightarrow>
          if take (length nonce_unavailable) (error_message error) = nonce_unavailable
          then serviceUnavailable (error_message error)
          else internalServerError (error_message error))"

section \<open>The filter\<close>

definition mapped_exception :: "app_error \<Rightarrow> http_exception" where
  "mapped_exception e = (case as_http_exception e of Some x \<Rightarrow> x | None \<Rightarrow> mapErrorToHttp e)"

definition exception_body :: "http_exception \<Rightarrow> json" where
  "exception_body x = JObj [(''message'', JStr (hx_message x)), (''error'', JStr (hx_error x)),
     (''statusCode'', JNum (hx_status x))]"

definition GlobalExceptionFilter_catch ::
  "string \<Rightarrow> string \<Rightarrow> request_ctx option \<Rightarrow> app_error \<Rightarrow> int \<times> json" where
  "GlobalExceptionFilter_catch url verb ctx e =
     (let x = mapped_exception e in
      (hx_status x, JObj
         [(''path'', JStr url), (''method'', JStr verb),
          (''requestId'', case ctx of None \<Rightarrow> JUndefined | Some c \<Rightarrow> JStr (ctx_requestId c)),
          (''correlationId'', case ctx of None \<Rightarrow> JUndefined | Some c \<Rightarrow> JStr (ctx_correlationId c)),
          (''error'', exception_body x)]))"

lemma filter_status [simp]:
  "fst (GlobalExceptionFilter_catch url verb ctx e) = hx_status (mapped_exception e)"
  by (simp add: GlobalExceptionFilter_catch_def Let_def)

text \<open>Which errors the client is to blame for, the rest being the server's or a provider's.\<close>

definition client_error :: "app_error \<Rightarrow> bool" where
  "client_error e \<longleftrightarrow>
     (case e of
        ProviderResponseError p c n m d \<Rightarrow> 400 \<le> n \<and> n < 500
      | LaunchControlDisabledError m \<Rightarrow> False
      | ProviderTimeoutError p m \<Rightarrow> False
      | ProviderAuthError p m \<Rightarrow> False
      | ProviderNetworkError p m \<Rightarrow> False
      | InternalServerErrorException m \<Rightarrow> False
      | PrismaClientKnownRequestError c \<Rightarrow> False
      | TransactionAborted \<Rightarrow> False
      | HoldRejectionError n a b c d e f g \<Rightarrow> False
      | RefreshReplayError a b \<Rightarrow> False
      | OtherError n m \<Rightarrow> False
      | _ \<Rightarrow> True)"

lemma error_status:
  "hx_status (mapped_exception e) \<in> {400, 401, 403, 404, 409, 500, 503, 504}"
  "hx_status (mapped_exception e) < 500 \<longleftrightarrow> client_error e"
  by (cases e; simp add: mapped_exception_def as_http_exception_def mapErrorToHttp_def client_error_def nest_def)+

text \<open>The text of an unexpected error goes to the client as it is.\<close>

lemma internal_messages_are_disclosed:
  "take (length nonce_unavailable) m \<noteq> nonce_unavailable \<Longrightarrow> mapped_exception (OtherError n m) = internalServerError m"
  by (simp add: mapped_exception_def as_http_exception_def mapErrorToHttp_def)

end
