(* ===== verification/Request_Context.thy ===== *)
theory Request_Context
  imports Auth Http_Errors
begin

text \<open>
  What every request gets before its guards run and every log line shows
  (\<^verbatim>\<open>src/shared/context/request-context.middleware.ts\<close>, \<^verbatim>\<open>src/shared/interceptors/correlation.interceptor.ts\<close>,
  \<^verbatim>\<open>src/shared/logging\<close>). The middleware draws identifier 0 for the request and 1 for the correlation
  when the client sent none that it accepts. A log line is the text given to the logger of the framework.
\<close>

section \<open>The middleware\<close>

text \<open>\<open>/^[A-Za-z0-9._:-]{8,128}$/\<close>\<close>

definition correlation_char :: "char \<Rightarrow> bool" where
  "correlation_char c \<longleftrightarrow>
     (let n = (of_char c :: nat) in
      65 \<le> n \<and> n \<le> 90 \<or> 97 \<le> n \<and> n \<le> 122 \<or> 48 \<le> n \<and> n \<le> 57 \<or> c \<in> set ''._:-'')"

definition CORRELATION_ID_PATTERN :: "string \<Rightarrow> bool" where
  "CORRELATION_ID_PATTERN x \<longleftrightarrow> 8 \<le> length x \<and> length x \<le> 128 \<and> list_all correlation_char x"

definition first_header :: "header_value option \<Rightarrow> string option" where
  "first_header h =
     (case h of
        None \<Rightarrow> None
      | Some (HeaderText x) \<Rightarrow> Some x
      | Some (HeaderList xs) \<Rightarrow> (case xs of [] \<Rightarrow> None | x # _ \<Rightarrow> Some x))"

definition isValidCorrelationId :: "string option \<Rightarrow> bool" where
  "isValidCorrelationId v = (case v of None \<Rightarrow> False | Some x \<Rightarrow> CORRELATION_ID_PATTERN x)"

text \<open>What an earlier middleware may have put on the request, and the request itself.\<close>

record request_user =
  rus_id :: "string option"
  rus_userId :: "string option"
  rus_deviceId :: "string option"
  rus_organizerId :: "string option"

record raw_request =
  rrq_headers :: "string \<Rightarrow> header_value option"
  rrq_user :: "request_user option"
  rrq_ip :: "string option"
  rrq_remoteAddress :: "string option"

text \<open>\<open>a ?? b\<close>\<close>

definition nullish :: "'a option \<Rightarrow> 'a option \<Rightarrow> 'a option" where
  "nullish a b = (case a of None \<Rightarrow> b | Some x \<Rightarrow> Some x)"

definition RequestContextMiddleware_use :: "env \<Rightarrow> raw_request \<Rightarrow> request_ctx \<times> (string \<times> string) list" where
  "RequestContextMiddleware_use E req =
     (let inboundCorrelationId = first_header (rrq_headers req ''x-correlation-id'');
          user = rrq_user req;
          requestId = uuid E 0;
          correlationId = (if isValidCorrelationId inboundCorrelationId then the inboundCorrelationId else uuid E 1)
      in (\<lparr> ctx_correlationId = correlationId,
            ctx_requestId = requestId,
            ctx_userId = nullish (Option.bind user rus_id) (Option.bind user rus_userId),
            ctx_deviceId = nullish (Option.bind user rus_deviceId) (first_header (rrq_headers req ''x-device-id'')),
            ctx_organizerId = nullish (Option.bind user rus_organizerId) (first_header (rrq_headers req ''x-organizer-id'')),
            ctx_ipAddress = nullish (rrq_ip req) (rrq_remoteAddress req),
            ctx_userAgent = first_header (rrq_headers req ''user-agent'') \<rparr>,
          [(''x-correlation-id'', correlationId), (''x-request-id'', requestId)]))"

section \<open>The interceptors and the logger\<close>

text \<open>The headers the correlation interceptor sets, on the response of an HTTP call.\<close>

definition CorrelationInterceptor_headers :: "string \<Rightarrow> request_ctx option \<Rightarrow> (string \<times> string) list" where
  "CorrelationInterceptor_headers kind ctx =
     (if kind \<noteq> ''http'' then []
      else case ctx of
        None \<Rightarrow> []
      | Some c \<Rightarrow>
          if ctx_correlationId c = [] \<or> ctx_requestId c = [] then []
          else [(''x-correlation-id'', ctx_correlationId c), (''x-request-id'', ctx_requestId c)])"

definition log_format :: "request_ctx option \<Rightarrow> string \<Rightarrow> string" where
  "log_format ctx message =
     (case ctx of
        None \<Rightarrow> message
      | Some c \<Rightarrow> if ctx_correlationId c = [] then message else ''[corr:'' @ ctx_correlationId c @ ''] '' @ message)"

definition or_text :: "string option \<Rightarrow> string \<Rightarrow> string" where
  "or_text v d = (case v of None \<Rightarrow> d | Some x \<Rightarrow> x)"

definition request_start_line :: "request_ctx option \<Rightarrow> string option \<Rightarrow> string option \<Rightarrow> string option \<Rightarrow> string" where
  "request_start_line ctx verb routePath url =
     ''request_start method='' @ or_text verb ''UNKNOWN'' @
     '' route='' @ or_text (nullish routePath url) ''/'' @
     '' request_id='' @ or_text (map_option ctx_requestId ctx) ''n/a'' @
     '' user_id='' @ or_text (Option.bind ctx ctx_userId) ''anonymous'' @
     '' device_id='' @ or_text (Option.bind ctx ctx_deviceId) ''n/a''"

definition request_end_line ::
  "request_ctx option \<Rightarrow> string option \<Rightarrow> string option \<Rightarrow> string option \<Rightarrow> int \<Rightarrow> int \<Rightarrow> string" where
  "request_end_line ctx verb routePath url statusCode durationMs =
     ''request_end method='' @ or_text verb ''UNKNOWN'' @
     '' route='' @ or_text (nullish routePath url) ''/'' @
     '' status='' @ int_to_string statusCode @
     '' latency_ms='' @ int_to_string durationMs @
     '' request_id='' @ or_text (map_option ctx_requestId ctx) ''n/a'' @
     '' correlation_id='' @ or_text (map_option ctx_correlationId ctx) ''n/a'' @
     '' user_id='' @ or_text (Option.bind ctx ctx_userId) ''anonymous'' @
     '' device_id='' @ or_text (Option.bind ctx ctx_deviceId) ''n/a''"

section \<open>What is shown is well formed\<close>

lemma hex_correlation: "is_hex c \<Longrightarrow> correlation_char c"
  unfolding is_hex_def
  by (auto simp: correlation_char_def digit_in_def lower_char_def Let_def split: if_splits)

lemma uuid_correlation:
  assumes "is_uuid x"
  shows "CORRELATION_ID_PATTERN x"
proof -
  have "correlation_char (x ! i)" if "i < 36" for i
  proof (cases "i \<in> {8, 13, 18, 23}")
    case True
    with assms that have "x ! i = CHR ''-''" by (auto simp: is_uuid_def)
    then show ?thesis by (simp add: correlation_char_def)
  next
    case False
    with assms that have "is_hex (x ! i)" by (auto simp: is_uuid_def)
    then show ?thesis by (rule hex_correlation)
  qed
  with assms show ?thesis by (auto simp: CORRELATION_ID_PATTERN_def is_uuid_def list_all_length)
qed

text \<open>
  Nothing a client sends as a correlation identifier reaches the response headers, the log prefix or
  the database unless it matches the pattern: the context always carries one that does.
\<close>

lemma correlation_is_well_formed:
  assumes "is_uuid (uuid E 1)" and "RequestContextMiddleware_use E req = (ctx, headers)"
  shows "CORRELATION_ID_PATTERN (ctx_correlationId ctx)"
    and "CorrelationInterceptor_headers ''http'' (Some ctx) = (if ctx_requestId ctx = [] then [] else headers)"
proof -
  show p: "CORRELATION_ID_PATTERN (ctx_correlationId ctx)"
    using assms uuid_correlation [OF assms(1)]
    by (auto simp: RequestContextMiddleware_use_def Let_def isValidCorrelationId_def split: option.splits)
  then have "ctx_correlationId ctx \<noteq> []" by (auto simp: CORRELATION_ID_PATTERN_def)
  with assms(2) show "CorrelationInterceptor_headers ''http'' (Some ctx) = (if ctx_requestId ctx = [] then [] else headers)"
    by (auto simp: CorrelationInterceptor_headers_def RequestContextMiddleware_use_def Let_def)
qed

text \<open>The prefix of a log line can be read back: the identifier holds no bracket.\<close>

lemma log_prefix_reads_back:
  assumes "CORRELATION_ID_PATTERN (ctx_correlationId ctx)"
  shows "takeWhile (\<lambda>c. c \<noteq> CHR '']'') (drop 6 (log_format (Some ctx) message)) = ctx_correlationId ctx"
    and "drop (8 + length (ctx_correlationId ctx)) (log_format (Some ctx) message) = message"
proof -
  have ne: "ctx_correlationId ctx \<noteq> []" using assms by (auto simp: CORRELATION_ID_PATTERN_def)
  have "c \<noteq> CHR '']''" if "c \<in> set (ctx_correlationId ctx)" for c
    using assms that by (auto simp: CORRELATION_ID_PATTERN_def list_all_iff correlation_char_def)
  then show "takeWhile (\<lambda>c. c \<noteq> CHR '']'') (drop 6 (log_format (Some ctx) message)) = ctx_correlationId ctx"
    using ne by (simp add: log_format_def takeWhile_append2)
  let ?prefix = "''[corr:'' @ ctx_correlationId ctx @ ''] ''"
  have "log_format (Some ctx) message = ?prefix @ message" "length ?prefix = 8 + length (ctx_correlationId ctx)"
    using ne by (simp_all add: log_format_def)
  then show "drop (8 + length (ctx_correlationId ctx)) (log_format (Some ctx) message) = message"
    by (metis append_eq_conv_conj)
qed

end
