(* ===== verification/Api.thy ===== *)
theory Api
  imports Admin_Support Event_Catalog Tables Orders Tickets Admissions Provider_Adapters Request_Context
begin

text \<open>
  The HTTP interface: the controllers (\<^verbatim>\<open>src/modules/*/controllers\<close>, \<^verbatim>\<open>src/auth/auth.controller.ts\<close>)
  and the way a request takes to them: the token strategy, the guards of the class, the pipes of the
  arguments, the handler, the error mapper.

  A call is a constructor that names the route and carries its arguments: path and query texts,
  headers and bodies. The framework is a parameter where it decides: \<open>isUuid\<close> is its UUID pipe and
  \<open>bodyError\<close> its validation pipe, the first complaint about the body of a call. A request passes three
  points of time: the middleware is run at \<open>T 0\<close>, the strategy at \<open>T 1\<close>, the handler at \<open>T 2\<close>.
\<close>

section \<open>Parameters\<close>

record api_services =
  api_auth :: auth_lib
  api_support :: support_lib
  api_launch :: LaunchControlService
  api_provider :: provider_lib
  api_config :: AppConfigValues
  api_holdDuration :: "js_number option"
  api_persistenceFailure :: "app_error option"

section \<open>Calls\<close>

datatype auth_call =
    PostLogout "string option"
  | PostRevokeSession string "string option"
  | GetMe | GetCustomerOnly | GetOrganizerOnly | GetGateOnly | GetAdminOnly

datatype organizers_call =
    PostOrganizer CreateOrganizerDto
  | GetMyOrganizers
  | GetOwnOrganizer string
  | PatchOrganizer string UpdateOrganizerDto
  | PostSubmitOrganizer string

datatype events_call =
    PostEvent string CreateEventDto
  | GetOrganizerEvents string
  | GetOwnEvent string
  | PatchEvent string UpdateEventDto
  | PostPublishEvent string
  | PostCancelEvent string

datatype tables_call =
    PostFloorSection CreateFloorSectionDto
  | GetFloorSections string
  | PostVenueTable CreateVenueTableDto
  | GetVenueTables string
  | GetVenueTable string
  | PostEventTable CreateEventTableDto
  | GetEventTables string
  | PatchEventTableStatus string EventTableStatus
  | GetAvailability string
  | PostHold string string string
  | GetReservation string

datatype payments_call =
    PostInitiate "string option" PaymentProvider string "string option"
  | GetPaymentIntent string

datatype tickets_call = GetMyTickets | GetOwnTicket string

datatype admissions_call = PostScan string string "string option" "string option" "string option"

datatype checkout_call = PostOrder "string option" string string string

datatype api_call =
    AuthCall auth_call
  | OrganizersCall organizers_call
  | EventsCall events_call
  | TablesCall tables_call
  | PaymentsCall payments_call
  | TicketsCall tickets_call
  | AdmissionsCall admissions_call
  | CheckoutCall checkout_call
  | SupportCall support_request

datatype api_body =
    SuccessBody
  | RevokedBody string
  | MeBody MeResponse
  | AreaBody string
  | OrganizerBody Organizer
  | OrganizersBody "Organizer list"
  | EventBody Event
  | OwnedEventBody "Event \<times> Organizer"
  | EventsBody "Event list"
  | FloorSectionBody VenueFloorSection
  | FloorSectionsBody "VenueFloorSection list"
  | TableBody TableResponseDto
  | TablesBody "TableResponseDto list"
  | EventTableBody EventTableResponseDto
  | EventTablesBody "EventTableResponseDto list"
  | AvailabilityBody "AvailabilityRow list"
  | ReservationBody TableReservationResponseDto
  | PaymentIntentBody PaymentIntentView
  | TicketBody TicketResponseDto
  | TicketsBody "TicketResponseDto list"
  | ScanBody AdmissionScanResponseDto
  | OrderBody json
  | SupportBody json

definition answer :: "('a \<Rightarrow> api_body) \<Rightarrow> (db, 'a) prog \<Rightarrow> (db, api_body) prog" where
  "answer f m = bindp m (\<lambda>x. ret (f x))"

section \<open>Controllers\<close>

fun AuthController ::
  "api_services \<Rightarrow> env \<Rightarrow> http_request \<Rightarrow> AuthUser \<Rightarrow> auth_call \<Rightarrow> (db, api_body) prog" where
  "AuthController A E req user (PostLogout reason) =
     answer (\<lambda>_. SuccessBody) (logout E user (atu_sessionId user) reason req)"
| "AuthController A E req user (PostRevokeSession sessionId reason) =
     answer RevokedBody (Auth_revokeSession E user sessionId reason req)"
| "AuthController A E req user GetMe = answer MeBody (me E user (atu_sessionId user))"
| "AuthController A E req user GetCustomerOnly = ret (AreaBody ''customer'')"
| "AuthController A E req user GetOrganizerOnly = ret (AreaBody ''organizer'')"
| "AuthController A E req user GetGateOnly = ret (AreaBody ''gate'')"
| "AuthController A E req user GetAdminOnly = ret (AreaBody ''admin'')"

fun OrganizersController :: "env \<Rightarrow> AuthUser \<Rightarrow> organizers_call \<Rightarrow> (db, api_body) prog" where
  "OrganizersController E user (PostOrganizer dto) = answer OrganizerBody (Organizers_create E (atu_id user) dto)"
| "OrganizersController E user GetMyOrganizers = answer OrganizersBody (listForOwner (atu_id user))"
| "OrganizersController E user (GetOwnOrganizer organizerId) =
     answer OrganizerBody (Organizers_getOwned organizerId (atu_id user))"
| "OrganizersController E user (PatchOrganizer organizerId dto) =
     answer OrganizerBody (Organizers_updateOwned organizerId (atu_id user) dto)"
| "OrganizersController E user (PostSubmitOrganizer organizerId) =
     answer OrganizerBody (submitForReview organizerId (atu_id user))"

fun EventsController :: "env \<Rightarrow> AuthUser \<Rightarrow> events_call \<Rightarrow> (db, api_body) prog" where
  "EventsController E user (PostEvent organizerId dto) =
     answer EventBody (createForOrganizer E organizerId (atu_id user) dto)"
| "EventsController E user (GetOrganizerEvents organizerId) =
     answer EventsBody (listForOwnedOrganizer organizerId (atu_id user))"
| "EventsController E user (GetOwnEvent eventId) = answer OwnedEventBody (Events_getOwned eventId (atu_id user))"
| "EventsController E user (PatchEvent eventId dto) = answer EventBody (updateOwned eventId (atu_id user) dto)"
| "EventsController E user (PostPublishEvent eventId) = answer EventBody (publishOwned E eventId (atu_id user))"
| "EventsController E user (PostCancelEvent eventId) = answer EventBody (cancelOwned E eventId (atu_id user))"

fun TablesController :: "api_services \<Rightarrow> env \<Rightarrow> AuthUser \<Rightarrow> tables_call \<Rightarrow> (db, api_body) prog" where
  "TablesController A E user (PostFloorSection dto) =
     answer FloorSectionBody (createFloorSection E (atu_id user) dto)"
| "TablesController A E user (GetFloorSections organizerId) =
     answer FloorSectionsBody (listFloorSections organizerId (atu_id user))"
| "TablesController A E user (PostVenueTable dto) = answer TableBody (createVenueTable E (atu_id user) dto)"
| "TablesController A E user (GetVenueTables organizerId) =
     answer TablesBody (listVenueTables organizerId (atu_id user))"
| "TablesController A E user (GetVenueTable venueTableId) = answer TableBody (getVenueTable venueTableId (atu_id user))"
| "TablesController A E user (PostEventTable dto) = answer EventTableBody (createEventTable E (atu_id user) dto)"
| "TablesController A E user (GetEventTables eventId) =
     answer EventTablesBody (listEventTablesForOwnedEvent eventId (atu_id user))"
| "TablesController A E user (PatchEventTableStatus eventTableId status) =
     answer EventTableBody (updateEventTableStatus E eventTableId status (atu_id user))"
| "TablesController A E user (GetAvailability eventId) = answer AvailabilityBody (getAvailability E eventId)"
| "TablesController A E user (PostHold eventId eventTableId idempotencyKey) =
     answer ReservationBody (createHold E (api_holdDuration A)
       \<lparr> hti_actorUserId = atu_id user, hti_eventId = eventId, hti_eventTableId = eventTableId,
         hti_idempotencyKey = idempotencyKey \<rparr>)"
| "TablesController A E user (GetReservation reservationId) =
     answer ReservationBody (getOwnedReservation E reservationId (atu_id user))"

fun PaymentsController ::
  "api_services \<Rightarrow> env \<Rightarrow> request_ctx \<Rightarrow> AuthUser \<Rightarrow> payments_call \<Rightarrow> (db, api_body) prog" where
  "PaymentsController A E ctx user (PostInitiate idempotencyKey provider eventId customerPhone) =
     (case requireIdempotencyKey idempotencyKey of
        Inl e \<Rightarrow> throw e
      | Inr key \<Rightarrow>
          answer PaymentIntentBody
            (initiatePayment E (api_launch A) (Some ctx) (payment_adapters (api_provider A) (api_config A))
               (api_persistenceFailure A)
               \<lparr> ipi_idempotencyKey = key, ipi_eventId = eventId, ipi_provider = provider,
                 ipi_customerPhone = customerPhone \<rparr>))"
| "PaymentsController A E ctx user (GetPaymentIntent paymentIntentId) =
     answer PaymentIntentBody (getPaymentIntentForBuyer paymentIntentId (atu_id user))"

fun TicketsController :: "AuthUser \<Rightarrow> tickets_call \<Rightarrow> (db, api_body) prog" where
  "TicketsController user GetMyTickets = answer TicketsBody (listMine (atu_id user))"
| "TicketsController user (GetOwnTicket ticketId) = answer TicketBody (getOwned ticketId (atu_id user))"

fun AdmissionsController :: "env \<Rightarrow> AuthUser \<Rightarrow> admissions_call \<Rightarrow> (db, api_body) prog" where
  "AdmissionsController E user (PostScan ticketId token eventId deviceId gateLabel) =
     answer ScanBody (scanTicket E
       \<lparr> sti_ticketId = ticketId, sti_token = token, sti_eventId = eventId, sti_scannedByUserId = atu_id user,
         sti_deviceId = deviceId, sti_gateLabel = gateLabel \<rparr>)"

fun CheckoutController :: "api_services \<Rightarrow> env \<Rightarrow> request_ctx \<Rightarrow> checkout_call \<Rightarrow> (db, api_body) prog" where
  "CheckoutController A E ctx (PostOrder idempotencyKey reservationId totalAmountMinor currency) =
     answer OrderBody (CheckoutController_createOrder E (api_launch A) (Some ctx) idempotencyKey reservationId
       totalAmountMinor currency)"

fun dispatch ::
  "api_services \<Rightarrow> env \<Rightarrow> http_request \<Rightarrow> request_ctx \<Rightarrow> AuthUser \<Rightarrow> api_call \<Rightarrow> (db, api_body) prog" where
  "dispatch A E req ctx user (AuthCall c) = AuthController A E req user c"
| "dispatch A E req ctx user (OrganizersCall c) = OrganizersController E user c"
| "dispatch A E req ctx user (EventsCall c) = EventsController E user c"
| "dispatch A E req ctx user (TablesCall c) = TablesController A E user c"
| "dispatch A E req ctx user (PaymentsCall c) = PaymentsController A E ctx user c"
| "dispatch A E req ctx user (TicketsCall c) = TicketsController user c"
| "dispatch A E req ctx user (AdmissionsCall c) = AdmissionsController E user c"
| "dispatch A E req ctx user (CheckoutCall c) = CheckoutController A E ctx c"
| "dispatch A E req ctx user (SupportCall c) = answer SupportBody (handle_support (api_support A) (atu_id user) c)"

section \<open>Decorators\<close>

fun auth_roles :: "auth_call \<Rightarrow> UserRole list option" where
  "auth_roles GetCustomerOnly = Some [CUSTOMER]"
| "auth_roles GetOrganizerOnly = Some [ORGANIZER]"
| "auth_roles GetGateOnly = Some [GATE_STAFF]"
| "auth_roles GetAdminOnly = Some [ADMIN]"
| "auth_roles c = None"

fun auth_permission :: "auth_call \<Rightarrow> AppPermission" where
  "auth_permission (PostLogout reason) = SESSION_REVOKE_OWN"
| "auth_permission (PostRevokeSession sessionId reason) = SESSION_REVOKE_OWN"
| "auth_permission GetMe = AUTHENTICATED"
| "auth_permission GetCustomerOnly = CUSTOMER_ACCESS"
| "auth_permission GetOrganizerOnly = ORGANIZER_ACCESS"
| "auth_permission GetGateOnly = GATE_STAFF_ACCESS"
| "auth_permission GetAdminOnly = ADMIN_ACCESS"

fun organizers_permission :: "organizers_call \<Rightarrow> AppPermission" where
  "organizers_permission (PostOrganizer dto) = ORGANIZER_CREATE"
| "organizers_permission GetMyOrganizers = ORGANIZER_READ_OWN"
| "organizers_permission (GetOwnOrganizer i) = ORGANIZER_READ_OWN"
| "organizers_permission (PatchOrganizer i dto) = ORGANIZER_UPDATE_OWN"
| "organizers_permission (PostSubmitOrganizer i) = ORGANIZER_SUBMIT_OWN"

fun events_permission :: "events_call \<Rightarrow> AppPermission" where
  "events_permission (PostEvent i dto) = EVENT_CREATE_OWN"
| "events_permission (GetOrganizerEvents i) = EVENT_READ_OWN"
| "events_permission (GetOwnEvent i) = EVENT_READ_OWN"
| "events_permission (PatchEvent i dto) = EVENT_UPDATE_OWN"
| "events_permission (PostPublishEvent i) = EVENT_PUBLISH_OWN"
| "events_permission (PostCancelEvent i) = EVENT_CANCEL_OWN"

fun tables_permission :: "tables_call \<Rightarrow> AppPermission" where
  "tables_permission (PostFloorSection dto) = TABLE_MANAGE_ORGANIZER"
| "tables_permission (GetFloorSections i) = TABLE_READ_ORGANIZER"
| "tables_permission (PostVenueTable dto) = TABLE_MANAGE_ORGANIZER"
| "tables_permission (GetVenueTables i) = TABLE_READ_ORGANIZER"
| "tables_permission (GetVenueTable i) = TABLE_READ_ORGANIZER"
| "tables_permission (PostEventTable dto) = TABLE_MANAGE_ORGANIZER"
| "tables_permission (GetEventTables i) = TABLE_READ_ORGANIZER"
| "tables_permission (PatchEventTableStatus i st) = TABLE_MANAGE_ORGANIZER"
| "tables_permission (GetAvailability i) = TABLE_READ_PUBLIC"
| "tables_permission (PostHold i j k) = TABLE_HOLD_OWN"
| "tables_permission (GetReservation i) = TABLE_READ_OWN_RESERVATION"

fun payments_permission :: "payments_call \<Rightarrow> AppPermission" where
  "payments_permission (PostInitiate k p i phone) = PAYMENT_INITIATE_OWN"
| "payments_permission (GetPaymentIntent i) = PAYMENT_READ_OWN"

fun roles_of :: "api_call \<Rightarrow> UserRole list option" where
  "roles_of (AuthCall c) = auth_roles c"
| "roles_of c = None"

text \<open>The checkout controller names no permission.\<close>

fun permissions_of :: "api_call \<Rightarrow> AppPermission list option" where
  "permissions_of (AuthCall c) = Some [auth_permission c]"
| "permissions_of (OrganizersCall c) = Some [organizers_permission c]"
| "permissions_of (EventsCall c) = Some [events_permission c]"
| "permissions_of (TablesCall c) = Some [tables_permission c]"
| "permissions_of (PaymentsCall c) = Some [payments_permission c]"
| "permissions_of (TicketsCall c) = Some [TICKET_READ_OWN]"
| "permissions_of (AdmissionsCall c) = Some [ADMISSION_SCAN_EVENT]"
| "permissions_of (CheckoutCall c) = None"
| "permissions_of (SupportCall c) = Some [required_permission c]"

text \<open>The arguments with a UUID pipe.\<close>

fun tables_uuids :: "tables_call \<Rightarrow> string list" where
  "tables_uuids (GetFloorSections i) = [i]"
| "tables_uuids (GetVenueTables i) = [i]"
| "tables_uuids (GetVenueTable i) = [i]"
| "tables_uuids (GetEventTables i) = [i]"
| "tables_uuids (PatchEventTableStatus i st) = [i]"
| "tables_uuids (GetAvailability i) = [i]"
| "tables_uuids (PostHold i j k) = [i]"
| "tables_uuids (GetReservation i) = [i]"
| "tables_uuids c = []"

fun events_uuids :: "events_call \<Rightarrow> string list" where
  "events_uuids (PostEvent i dto) = [i]"
| "events_uuids (GetOrganizerEvents i) = [i]"
| "events_uuids (GetOwnEvent i) = [i]"
| "events_uuids (PatchEvent i dto) = [i]"
| "events_uuids (PostPublishEvent i) = [i]"
| "events_uuids (PostCancelEvent i) = [i]"

fun organizers_uuids :: "organizers_call \<Rightarrow> string list" where
  "organizers_uuids (GetOwnOrganizer i) = [i]"
| "organizers_uuids (PatchOrganizer i dto) = [i]"
| "organizers_uuids (PostSubmitOrganizer i) = [i]"
| "organizers_uuids c = []"

fun uuids_of :: "api_call \<Rightarrow> string list" where
  "uuids_of (OrganizersCall c) = organizers_uuids c"
| "uuids_of (EventsCall c) = events_uuids c"
| "uuids_of (TablesCall c) = tables_uuids c"
| "uuids_of (PaymentsCall (GetPaymentIntent i)) = [i]"
| "uuids_of (TicketsCall (GetOwnTicket i)) = [i]"
| "uuids_of (SupportCall c) = (case Admin_Support.target_of c of None \<Rightarrow> [] | Some i \<Rightarrow> [i])"
| "uuids_of c = []"

text \<open>The status of a success: 201 for a POST that does not say otherwise, 200 for the rest.\<close>

fun success_status :: "api_call \<Rightarrow> int" where
  "success_status (AuthCall (PostLogout reason)) = 201"
| "success_status (AuthCall (PostRevokeSession i reason)) = 201"
| "success_status (OrganizersCall (PostOrganizer dto)) = 201"
| "success_status (OrganizersCall (PostSubmitOrganizer i)) = 201"
| "success_status (EventsCall (PostEvent i dto)) = 201"
| "success_status (EventsCall (PostPublishEvent i)) = 201"
| "success_status (EventsCall (PostCancelEvent i)) = 201"
| "success_status (TablesCall (PostFloorSection dto)) = 201"
| "success_status (TablesCall (PostVenueTable dto)) = 201"
| "success_status (TablesCall (PostEventTable dto)) = 201"
| "success_status (TablesCall (PostHold i j k)) = 201"
| "success_status (PaymentsCall (PostInitiate k p i phone)) = 201"
| "success_status (CheckoutCall c) = 201"
| "success_status c = 200"

section \<open>The way of a request\<close>

record framework =
  isUuid :: "string \<Rightarrow> bool"
  bodyError :: "api_call \<Rightarrow> string option"

definition pipes :: "framework \<Rightarrow> api_call \<Rightarrow> app_error + unit" where
  "pipes F call =
     (if \<not> list_all (isUuid F) (uuids_of call) then Inl (BadRequestException ''Validation failed (uuid is expected)'')
      else case bodyError F call of None \<Rightarrow> Inr () | Some m \<Rightarrow> Inl (BadRequestException m))"

text \<open>What the server receives: the headers are seen by the middleware, the services and the strategy.\<close>

record incoming =
  inc_url :: string
  inc_method :: string
  inc_bearer :: "string option"
  inc_http :: http_request
  inc_raw :: raw_request

record outgoing =
  out_status :: int
  out_headers :: "(string \<times> string) list"
  out_body :: "json + api_body"

text \<open>The guards leave the user in the context of a protected call.\<close>

definition run_call ::
  "api_services \<Rightarrow> framework \<Rightarrow> (nat \<Rightarrow> env) \<Rightarrow> request_ctx \<Rightarrow> http_request \<Rightarrow> string option \<Rightarrow> api_call \<Rightarrow>
   (db, api_body) prog" where
  "run_call A F T ctx req bearer call = (\<lambda>s.
     case authenticate (api_auth A) (T 1) bearer s of
       (token_result, s1) \<Rightarrow>
         (case guarded False (roles_of call) (permissions_of call) token_result of
            Inl e \<Rightarrow> (Inl e, s1)
          | Inr None \<Rightarrow> (Inl (UnauthorizedException ''Unauthorized''), s1)
          | Inr (Some user) \<Rightarrow>
              (case pipes F call of
                 Inl e \<Rightarrow> (Inl e, s1)
               | Inr _ \<Rightarrow> dispatch A (T 2) req (with_user user ctx) user call s1)))"

definition respond :: "incoming \<Rightarrow> request_ctx \<Rightarrow> (string \<times> string) list \<Rightarrow> api_call \<Rightarrow> app_error + api_body \<Rightarrow> outgoing" where
  "respond inc ctx headers call r =
     (case r of
        Inl e \<Rightarrow>
          (case GlobalExceptionFilter_catch (inc_url inc) (inc_method inc) (Some ctx) e of
             (status, body) \<Rightarrow> \<lparr> out_status = status, out_headers = headers, out_body = Inl body \<rparr>)
      | Inr x \<Rightarrow> \<lparr> out_status = success_status call, out_headers = headers, out_body = Inr x \<rparr>)"

definition serve ::
  "api_services \<Rightarrow> framework \<Rightarrow> (nat \<Rightarrow> env) \<Rightarrow> incoming \<Rightarrow> api_call \<Rightarrow> db \<Rightarrow> outgoing \<times> db" where
  "serve A F T inc call s =
     (case RequestContextMiddleware_use (T 0) (inc_raw inc) of
        (ctx, headers) \<Rightarrow>
          (case run_call A F T ctx (inc_http inc) (inc_bearer inc) call s of
             (r, s') \<Rightarrow> (respond inc ctx headers call r, s')))"

section \<open>Who gets in\<close>

text \<open>The user a token stands for in a state of the database, if any.\<close>

definition session_user :: "int \<Rightarrow> JwtPayload \<Rightarrow> db \<Rightarrow> AuthUser option" where
  "session_user now p s =
     Option.bind (find (\<lambda>x. ses_id x = jwt_sessionId p) (sessions s)) (\<lambda>x.
     Option.bind (find (\<lambda>u. usr_id u = ses_userId x) (users s)) (\<lambda>u.
       if jwt_type p = ''access'' \<and> ses_status x = SessionStatus.ACTIVE \<and> now \<le> ses_expiresAt x \<and> usr_isActive u
       then Some \<lparr> atu_id = usr_id u, atu_email = usr_email u, atu_role = jwt_role p, atu_sessionId = ses_id x,
              atu_permissions = ROLE_PERMISSIONS (jwt_role p), atu_emailVerifiedAt = usr_emailVerifiedAt u,
              atu_isActive = True \<rparr>
       else None))"

definition bearer_user :: "auth_lib \<Rightarrow> env \<Rightarrow> string option \<Rightarrow> db \<Rightarrow> AuthUser option" where
  "bearer_user L E bearer s =
     Option.bind (Option.bind bearer (\<lambda>token. jwt_verify L token (app_now E))) (\<lambda>p. session_user (app_now E) p s)"

definition may_call :: "AuthUser \<Rightarrow> api_call \<Rightarrow> bool" where
  "may_call u call \<longleftrightarrow>
     (case roles_of call of None \<Rightarrow> True | Some rs \<Rightarrow> atu_role u \<in> set rs) \<and>
     (case permissions_of call of None \<Rightarrow> True | Some ps \<Rightarrow> set ps \<subseteq> set (ROLE_PERMISSIONS (atu_role u)))"

text \<open>The one thing a refused request may change: a session past its time is closed, and that is recorded.\<close>

definition expiry_only :: "int \<Rightarrow> db \<Rightarrow> db \<Rightarrow> bool" where
  "expiry_only now s s' \<longleftrightarrow> s' = s \<or>
     (\<exists>i f. s' = auth_audit_logs_update f (sessions_update (upd_where
        (\<lambda>x. ses_id x = i \<and> ses_status x = SessionStatus.ACTIVE)
        (closed_row SessionStatus.EXPIRED now ''expired_session_detected'')) s) \<and>
      list_ex (\<lambda>x. ses_id x = i \<and> ses_expiresAt x < now) (sessions s))"

lemma expiry_only_refl [simp]: "expiry_only now s s"
  by (simp add: expiry_only_def)

lemma authenticate_user:
  "bearer_user L E bearer s = Some u \<Longrightarrow> authenticate L E bearer s = (Inr (Some u), s)"
  by (auto simp: bearer_user_def session_user_def authenticate_def validate_def assertSessionUsable_def
      getSessionById_def with_owner_def bind_eq_Some_conv bindp_def split: if_splits)

lemma markExpired_run:
  assumes "find (\<lambda>x. ses_id x = i) (sessions s) = Some x" and "with_owner s x = Some (x, u)"
  shows "\<exists>f. markExpired E i s = (Inr (), auth_audit_logs_update f (sessions_update (upd_where
    (\<lambda>x. ses_id x = i \<and> ses_status x = SessionStatus.ACTIVE)
    (closed_row SessionStatus.EXPIRED (app_now E) ''expired_session_detected'')) s))"
proof -
  let ?p = "\<lambda>x. ses_id x = i \<and> ses_status x = SessionStatus.ACTIVE"
  let ?s = "sessions_update (upd_where ?p (closed_row SessionStatus.EXPIRED (app_now E) ''expired_session_detected'')) s"
  have id: "auth_audit_logs_update (\<lambda>rs. rs) ?s = ?s" by (cases s) simp
  show ?thesis
  proof (cases "filter ?p (sessions s) = []")
    case True
    with assms id show ?thesis by (auto simp: markExpired_def getSessionById_def bindp_def intro: exI [of _ "\<lambda>rs. rs"])
  next
    case False
    with assms show ?thesis by (auto simp: markExpired_def getSessionById_def bindp_def)
  qed
qed

lemma usable_or_refused:
  "(\<exists>x u. assertSessionUsable E i s = (Inr (x, u), s) \<and> find (\<lambda>x. ses_id x = i) (sessions s) = Some x \<and>
      find (\<lambda>u. usr_id u = ses_userId x) (users s) = Some u \<and> ses_status x = SessionStatus.ACTIVE \<and>
      app_now E \<le> ses_expiresAt x \<and> usr_isActive u) \<or>
   (\<exists>m s'. assertSessionUsable E i s = (Inl (UnauthorizedException m), s') \<and> expiry_only (app_now E) s s')"
proof (cases "Option.bind (find (\<lambda>x. ses_id x = i) (sessions s)) (with_owner s)")
  case None
  then show ?thesis by (simp add: assertSessionUsable_def getSessionById_def bindp_def expiry_only_def)
next
  case (Some xu)
  then obtain x u where x: "find (\<lambda>x. ses_id x = i) (sessions s) = Some x"
    "find (\<lambda>u. usr_id u = ses_userId x) (users s) = Some u" "xu = (x, u)" "with_owner s x = Some (x, u)"
    by (auto simp: with_owner_def bind_eq_Some_conv)
  have xi: "ses_id x = i" "x \<in> set (sessions s)" using find_Some_iff2 [OF x(1)] by auto
  have read: "getSessionById i s = (Inr (Some (x, u)), s)" using Some x(3) by (simp add: getSessionById_def)
  obtain s1 where late: "markExpired E i s = (Inr (), s1)" and only: "ses_expiresAt x < app_now E \<Longrightarrow> expiry_only (app_now E) s s1"
    using markExpired_run [OF x(1,4), of E] xi by (auto simp: expiry_only_def list_ex_iff)
  show ?thesis
    using x(1,2) xi(1) read late only
    by (cases "ses_status x"; cases "ses_expiresAt x < app_now E"; cases "usr_isActive u")
      (simp_all add: assertSessionUsable_def bindp_def seqp_def expiry_only_def)
qed

lemma authenticate_refused:
  assumes "bearer_user L E bearer s = None"
  shows "authenticate L E bearer s = (Inr None, s) \<or>
    (\<exists>m s'. authenticate L E bearer s = (Inl (UnauthorizedException m), s') \<and> expiry_only (app_now E) s s')"
proof (cases "Option.bind bearer (\<lambda>token. jwt_verify L token (app_now E))")
  case None
  then show ?thesis by (simp add: authenticate_def)
next
  case (Some p)
  with assms have no: "session_user (app_now E) p s = None" by (simp add: bearer_user_def)
  show ?thesis
    using usable_or_refused [of E "jwt_sessionId p" s]
  proof (elim disjE exE conjE)
    fix x u
    assume "find (\<lambda>x. ses_id x = jwt_sessionId p) (sessions s) = Some x"
      "find (\<lambda>u. usr_id u = ses_userId x) (users s) = Some u" "ses_status x = SessionStatus.ACTIVE"
      "app_now E \<le> ses_expiresAt x" "usr_isActive u"
    with no Some show ?thesis
      by (simp add: authenticate_def validate_def session_user_def bindp_def split: if_splits)
  next
    fix m s'
    assume "assertSessionUsable E (jwt_sessionId p) s = (Inl (UnauthorizedException m), s')" "expiry_only (app_now E) s s'"
    with Some show ?thesis by (simp add: authenticate_def validate_def bindp_def)
  qed
qed

lemma guarded_user:
  "guarded False (roles_of call) (permissions_of call) (Inr (Some u)) =
     (if may_call u call then Inr (Some u)
      else Inl (ForbiddenException
        (if (case roles_of call of None \<Rightarrow> True | Some rs \<Rightarrow> atu_role u \<in> set rs)
         then ''insufficient permissions'' else ''insufficient role'')))"
proof -
  have r: "roles_of call \<noteq> Some []"
    by (cases call rule: roles_of.cases; simp) (rename_tac c, case_tac c; simp)
  have p: "permissions_of call \<noteq> Some []" by (cases call rule: permissions_of.cases) auto
  show ?thesis using r p
    by (auto simp: guarded_def JwtAuthGuard_canActivate_def RolesGuard_canActivate_def PermissionsGuard_canActivate_def
        may_call_def list_all_iff subset_iff split: option.splits)
qed

lemma run_call_cases:
  assumes "run_call A F T ctx req bearer call s = (r, s')"
  shows "case bearer_user (api_auth A) (T 1) bearer s of
     None \<Rightarrow> (\<exists>m. r = Inl (UnauthorizedException m)) \<and> expiry_only (app_now (T 1)) s s'
   | Some u \<Rightarrow>
       if \<not> may_call u call then (\<exists>m. r = Inl (ForbiddenException m)) \<and> s' = s
       else if pipes F call \<noteq> Inr () then (\<exists>m. r = Inl (BadRequestException m)) \<and> s' = s
       else dispatch A (T 2) req (with_user u ctx) u call s = (r, s')"
proof (cases "bearer_user (api_auth A) (T 1) bearer s")
  case None
  from authenticate_refused [OF None] assms show ?thesis
    by (auto simp: None run_call_def guarded_def JwtAuthGuard_canActivate_def simp del: One_nat_def)
next
  case (Some u)
  have p: "\<exists>m. pipes F call = Inl (BadRequestException m)" if "pipes F call \<noteq> Inr ()"
    using that by (auto simp: pipes_def split: option.splits)
  show ?thesis
    using p assms by (auto simp: Some run_call_def authenticate_user [OF Some] guarded_user simp del: One_nat_def
        split: sum.splits if_splits)
qed

lemma serve_run:
  assumes "serve A F T inc call s = (out, s')"
  shows "\<exists>ctx headers r. RequestContextMiddleware_use (T 0) (inc_raw inc) = (ctx, headers) \<and>
    run_call A F T ctx (inc_http inc) (inc_bearer inc) call s = (r, s') \<and> out = respond inc ctx headers call r"
  using assms by (auto simp: serve_def split: prod.splits)

lemma respond_status:
  "out_status (respond inc ctx headers call (Inl e)) = hx_status (mapped_exception e)"
  using filter_status [of "inc_url inc" "inc_method inc" "Some ctx" e]
  by (cases "GlobalExceptionFilter_catch (inc_url inc) (inc_method inc) (Some ctx) e") (simp add: respond_def)

lemmas refusal_codes = respond_status mapped_exception_def as_http_exception_def nest_def

section \<open>Properties\<close>

text \<open>
  C30: The door of the interface. A protected call reaches its handler exactly when its token stands
  for an active user with an open session and the role it was signed with has the route's permission
  and is among its roles, and its arguments pass the pipes; the answer is then the handler's. Else it
  is 401, 403 or 400 and the database is as before, but for the closing of an expired session.
\<close>

theorem protected_calls_are_decided:
  "case serve A F T inc call s of (out, s') \<Rightarrow>
     (case bearer_user (api_auth A) (T 1) (inc_bearer inc) s of
        None \<Rightarrow> out_status out = 401 \<and> expiry_only (app_now (T 1)) s s'
      | Some u \<Rightarrow>
          if \<not> may_call u call then out_status out = 403 \<and> s' = s
          else if pipes F call \<noteq> Inr () then out_status out = 400 \<and> s' = s
          else
            (let (ctx, headers) = RequestContextMiddleware_use (T 0) (inc_raw inc);
                 (r, t) = dispatch A (T 2) (inc_http inc) (with_user u ctx) u call s
             in out = respond inc ctx headers call r \<and> s' = t))"
proof -
  obtain out s' where out: "serve A F T inc call s = (out, s')" by fastforce
  from serve_run [OF this] obtain ctx headers r where m: "RequestContextMiddleware_use (T 0) (inc_raw inc) = (ctx, headers)"
    and run: "run_call A F T ctx (inc_http inc) (inc_bearer inc) call s = (r, s')" "out = respond inc ctx headers call r"
    by blast
  from run_call_cases [OF run(1)] show ?thesis
    by (cases "bearer_user (api_auth A) (T 1) (inc_bearer inc) s")
      (auto simp: out m run(2) refusal_codes simp del: One_nat_def split: if_splits)
qed

text \<open>
  C31: A session that was closed opens no door. Whatever the authentication service serves afterwards,
  every protected call of the interface with an access token of that session is answered 401, and no
  row is changed but session rows and their audit.
\<close>

theorem closed_session_gets_401:
  assumes "closed_session i s" and "(auth_step (api_auth A))\<^sup>*\<^sup>* s t"
    and "jwt_verify (api_auth A) token (app_now (T 1)) = Some payload" and "jwt_sessionId payload = i"
    and "inc_bearer inc = Some token" and "serve A F T inc call t = (out, t')"
  shows "out_status out = 401 \<and> expiry_only (app_now (T 1)) t t'"
proof -
  have c: "closed_session i t" using assms(2,1) by (rule auth_closed.auth_steps_keep)
  have none: "bearer_user (api_auth A) (T 1) (inc_bearer inc) t = None"
  proof (rule ccontr)
    assume "bearer_user (api_auth A) (T 1) (inc_bearer inc) t \<noteq> None"
    then obtain u where "bearer_user (api_auth A) (T 1) (Some token) t = Some u" using assms(5) by auto
    then have "authorized (api_auth A) (T 1) (Some token) t = (Inr (Some u), t)"
      using authenticate_user by (auto simp: authorized_def JwtAuthGuard_canActivate_def)
    with closed_session_unauthorized [OF c assms(3,4)] show False by auto
  qed
  from serve_run [OF assms(6)] obtain ctx headers r where
    run: "run_call A F T ctx (inc_http inc) (inc_bearer inc) call t = (r, t')" "out = respond inc ctx headers call r" by blast
  from run_call_cases [OF run(1)] show ?thesis by (auto simp: none run(2) refusal_codes simp del: One_nat_def)
qed

section \<open>Examples\<close>

definition ex_services :: api_services where
  "ex_services =
     \<lparr> api_auth = ex_lib,
       api_support = \<lparr> insensitive_contains = includes_text, scan_row_id = (\<lambda>n. []), log_row_id = (\<lambda>n. []),
         log_refused = (\<lambda>row. None), secrets = [] \<rparr>,
       api_launch = ex_launch, api_provider = ex_provider_lib, api_config = ex_config, api_holdDuration = None,
       api_persistenceFailure = None \<rparr>"

definition ex_framework :: framework where
  "ex_framework = \<lparr> isUuid = is_uuid, bodyError = (\<lambda>call. None) \<rparr>"

definition ex_payload :: JwtPayload where
  "ex_payload = \<lparr> jwt_sub = ''u1'', jwt_email = ''a@b'', jwt_role = ADMIN, jwt_sessionId = ''u'', jwt_jti = ''j'',
     jwt_type = ''access'' \<rparr>"

definition ex_incoming :: incoming where
  "ex_incoming = \<lparr> inc_url = ''/api/organizers'', inc_method = ''POST'',
     inc_bearer = Some (jwt_sign ex_lib ex_payload 5000 900), inc_http = ex_request,
     inc_raw = \<lparr> rrq_headers = (\<lambda>h. None), rrq_user = None, rrq_ip = None, rrq_remoteAddress = None \<rparr> \<rparr>"

definition ex_session :: Session where
  "ex_session = opened_session ex_lib ex_auth_env ex_account ''d'' ex_request"

lemma ex_payload_verifies: "jwt_verify ex_lib (jwt_sign ex_lib ex_payload 5000 900) 5000 = Some ex_payload"
  using ex_lib_reads_back by (simp add: jwt_reads_back_def jwt_lives_def)

lemma closed_session_gets_401_witness:
  "out_status (fst (serve ex_services ex_framework (\<lambda>n. ex_auth_env) ex_incoming (AuthCall GetMe)
     (empty_db\<lparr> users := [ex_account], sessions := [closed_row SessionStatus.REVOKED 4000 ''logout'' ex_session] \<rparr>))) = 401"
proof -
  let ?s = "empty_db\<lparr> users := [ex_account], sessions := [closed_row SessionStatus.REVOKED 4000 ''logout'' ex_session] \<rparr>"
  obtain out t' where out: "serve ex_services ex_framework (\<lambda>n. ex_auth_env) ex_incoming (AuthCall GetMe) ?s = (out, t')"
    by fastforce
  have "closed_session ''u'' ?s"
    by (simp add: closed_session_def sessions_ok_def session_ok_closed ex_session_def opened_session_def ex_auth_env_def)
  moreover have "jwt_verify (api_auth ex_services) (jwt_sign ex_lib ex_payload 5000 900) (app_now ex_auth_env) = Some ex_payload"
    using ex_payload_verifies by (simp add: ex_services_def ex_auth_env_def)
  moreover have "jwt_sessionId ex_payload = ''u''" "inc_bearer ex_incoming = Some (jwt_sign ex_lib ex_payload 5000 900)"
    by (simp_all add: ex_payload_def ex_incoming_def)
  ultimately have "out_status out = 401"
    using closed_session_gets_401 [OF _ rtranclp.rtrancl_refl _ _ _ out] by blast
  then show ?thesis by (simp add: out)
qed

end
