(* ===== verification/Tenancy.thy ===== *)
theory Tenancy
  imports Api
begin

text \<open>
  What the interface as a whole guarantees between its users: a call touches no organizer profile and
  no event of an organizer the caller does not own. The controllers that have nothing to do with the
  catalogue are shown to leave it alone, statement by statement.
\<close>

section \<open>The catalogue as a frame\<close>

definition catalogue_is :: "Event list \<Rightarrow> Organizer list \<Rightarrow> db \<Rightarrow> bool" where
  "catalogue_is es os s \<longleftrightarrow> events s = es \<and> organizers s = os"

named_theorems frame

lemma frame_statements [frame]:
  assumes "\<And>f s. events (upd f s) = events s" and "\<And>f s. organizers (upd f s) = organizers s"
  shows "keeps (catalogue_is es os) (prisma_create get upd clash row)"
    and "keeps (catalogue_is es os) (prisma_update get upd p g)"
    and "keeps (catalogue_is es os) (prisma_updateMany get upd p g)"
  using assms
  by (rule_tac [!] keepsI) (auto simp: catalogue_is_def prisma_create_def prisma_update_def prisma_updateMany_def
      split: if_splits option.splits)

lemma keeps_answer [frame]: "keeps I m \<Longrightarrow> keeps I (answer f m)"
  unfolding answer_def by (intro keeps_rules)

lemma keeps_reader [frame]: "keeps I (\<lambda>s. ret (g s) s)"
  by (simp add: keeps_def)

lemma keeps_pure: "keeps I (\<lambda>s. (g s, s))"
  by (simp add: keeps_def)

interpretation catalogue_auth: auth_law "catalogue_is es os" for es os
  by unfold_locales (simp_all add: catalogue_is_def)

lemmas catalogue_reads = keeps_table_reads getOwned_reads keeps_assert keeps_rejectHold keeps_eligible keeps_owned

lemma frame_auth: "keeps (catalogue_is es os) (AuthController A E req user c)"
  by (cases c) (auto intro!: keeps_answer catalogue_auth.keeps_logout catalogue_auth.keeps_Auth_revokeSession
      catalogue_auth.keeps_me keeps_ret)

section \<open>Tables\<close>

lemma frame_table_audit [frame]: "keeps (catalogue_is es os) (TableAudit_append row)"
  by (rule keepsI) (auto simp: catalogue_is_def)

lemmas frame_logs = logVenueTableCreated_def logEventTableCreated_def logEventTableUpdated_def logHoldCreated_def
  logHoldExpired_def logReservationRejected_def

lemma frame_reconcile [frame]: "keeps (catalogue_is es os) (reconcileEventTableStateWithinTx i now st)"
  unfolding reconcileEventTableStateWithinTx_def updateEventTableState_def findEventTableState_def
    findLatestActiveHeldReservationForEventTable_def Let_def
  by (intro keeps_rules frame) simp_all

lemma frame_expire [frame]: "keeps (catalogue_is es os) (expireStaleHoldForEventTableWithinTx i now)"
  unfolding expireStaleHoldForEventTableWithinTx_def findEventTableState_def findExpiredHeldByEventTable_def
    Table_Store.markExpired_def frame_logs
  by (intro keeps_rules frame) simp_all

lemma frame_hold_tx: "keeps (catalogue_is es os) (hold_tx E d input)"
proof -
  have clash: "keeps (catalogue_is es os) (hold_clash E input et error)" for et error
    unfolding hold_clash_def Let_def by (intro keeps_rules frame catalogue_reads)
  have created: "keeps (catalogue_is es os) (hold_created E et r)" for et r
    unfolding hold_created_def updateEventTableState_def frame_logs
    by (intro keeps_rules frame catalogue_reads) simp_all
  have new: "keeps (catalogue_is es os) (TableReservation_create r)" for r
    unfolding TableReservation_create_def by (intro frame) simp_all
  have "keeps (catalogue_is es os) (\<lambda>s.
      case TableReservation_create r s of (Inl error, s') \<Rightarrow> hold_clash E input et error s'
      | (Inr x, s') \<Rightarrow> hold_created E et x s')" for r et
    by (rule keepsI) (auto split: prod.splits sum.splits dest: keepsD [OF new] keepsD [OF clash] keepsD [OF created])
  then have fresh: "keeps (catalogue_is es os) (hold_fresh E d input et)" for et
    unfolding hold_fresh_def by (intro keeps_rules frame catalogue_reads)
  have replay: "keeps (catalogue_is es os) (hold_replay E input et r)" for et r
    unfolding hold_replay_def by (intro keeps_rules frame catalogue_reads)
  show ?thesis
    unfolding hold_tx_def by (intro keeps_rules frame catalogue_reads fresh replay)
qed

lemma frame_createHold [frame]: "keeps (catalogue_is es os) (createHold E raw input)"
proof -
  have "keeps (catalogue_is es os) (hold_failed error)" for error
    unfolding hold_failed_def frame_logs by (cases error) (simp_all, (intro keeps_rules frame)+)
  then show ?thesis unfolding createHold_def by (intro keeps_rules frame_hold_tx)
qed

lemma frame_getOwnedReservation [frame]: "keeps (catalogue_is es os) (getOwnedReservation E i a)"
  unfolding getOwnedReservation_def Let_def by (intro keeps_rules frame catalogue_reads)

lemma frame_tables: "keeps (catalogue_is es os) (TablesController A E user c)"
proof (cases c)
  case (PostFloorSection dto)
  show ?thesis unfolding PostFloorSection AuthController.simps TablesController.simps createFloorSection_def FloorSection_create_def
    by (intro keeps_rules frame catalogue_reads keeps_conflict_as) simp_all
next
  case (GetFloorSections i)
  show ?thesis unfolding GetFloorSections TablesController.simps listFloorSections_def listFloorSectionsByOrganizer_def
    by (intro keeps_rules frame catalogue_reads)
next
  case (PostVenueTable dto)
  show ?thesis unfolding PostVenueTable TablesController.simps createVenueTable_def VenueTable_create_def frame_logs
    by (intro keeps_rules frame catalogue_reads keeps_conflict_as) simp_all
next
  case (GetVenueTables i)
  show ?thesis unfolding GetVenueTables TablesController.simps listVenueTables_def listVenueTablesByOrganizer_def
    by (intro keeps_rules frame catalogue_reads)
next
  case (GetVenueTable i)
  show ?thesis unfolding GetVenueTable TablesController.simps getVenueTable_def
    by (intro keeps_rules frame catalogue_reads)
next
  case (PostEventTable dto)
  show ?thesis unfolding PostEventTable TablesController.simps createEventTable_def createEventTable_tx_def
      EventTable_create_def frame_logs
    by (intro keeps_rules frame catalogue_reads keeps_conflict_as) simp_all
next
  case (GetEventTables i)
  show ?thesis unfolding GetEventTables TablesController.simps listEventTablesForOwnedEvent_def listEventTablesByEvent_def
    by (intro keeps_rules frame catalogue_reads)
next
  case (PatchEventTableStatus i st)
  show ?thesis unfolding PatchEventTableStatus TablesController.simps updateEventTableStatus_def
      updateEventTableStatus_tx_def updateEventTableState_def frame_logs
    by (intro keeps_rules frame catalogue_reads) simp_all
next
  case (GetAvailability i)
  show ?thesis unfolding GetAvailability TablesController.simps getAvailability_def
    by (intro keeps_rules frame catalogue_reads)
qed (auto intro: frame)

section \<open>Payments, tickets, the gate and the checkout\<close>

lemma frame_intents [frame]:
  "keeps (catalogue_is es os) (IntentAudit_append p e d)" "keeps (catalogue_is es os) (Intent_update i g)"
  "keeps (catalogue_is es os) (Intent_create p)"
  unfolding IntentAudit_append_def Intent_update_def Intent_create_def by (intro keeps_rules frame, simp_all)+

lemma frame_failure [frame]:
  "keeps (catalogue_is es os) (recordInitiationFailure E p b pr err)"
  "keeps (catalogue_is es os) (recordProviderSuccessPersistenceFailure E p b raw err)"
  "keeps (catalogue_is es os) (persist_initiated E lost p b res)"
  unfolding recordInitiationFailure_def recordProviderSuccessPersistenceFailure_def persist_initiated_def
    markFailed_def markInitiated_def tryAppendAuditLog_def Let_def
  by (intro keeps_rules frame)+

lemma frame_initiation [frame]: "keeps (catalogue_is es os) (initiatePayment E L ctx adapter lost input)"
proof -
  have reads: "keeps I (assertEventEligible v i)" "keeps I (findByIdForPaymentInitiation i)"
      "keeps I (assertPaymentInitiationAllowed L p i c)" "keeps I (User_findById i)"
      "keeps I (Payment_Intents.findByBuyerAndIdempotency b u k)" for I v i p c b u k
    by (auto simp: assertEventEligible_def findByIdForPaymentInitiation_def User_findById_def
        Payment_Intents.findByBuyerAndIdempotency_def split: option.splits
        intro: keeps_rules keeps_readonly keeps_pure)
  have tx: "keeps (catalogue_is es os) (initiation_tx E b ev input)" for b ev
    unfolding initiation_tx_def markRetryPending_def Let_def by (intro keeps_rules frame reads)
  have "keeps (catalogue_is es os) (finish_initiation E adapter lost b p input)" for b p
    unfolding finish_initiation_def by (intro keeps_rules frame keeps_lift_result)
  moreover have "keeps (catalogue_is es os) (begin_initiation E L ctx input)"
    unfolding begin_initiation_def by (intro keeps_rules frame reads tx)
  ultimately show ?thesis
    unfolding initiatePayment_def
    by (intro keeps_rules) (auto split: InitiationAction.split intro: keeps_ret)
qed

lemma frame_payments: "keeps (catalogue_is es os) (PaymentsController A E ctx user c)"
  by (cases c) (auto simp: getPaymentIntentForBuyer_def findOwnedByBuyer_def intro!: keeps_rules frame split: sum.split)

lemma frame_tickets: "keeps (catalogue_is es os) (TicketsController user c)"
  by (cases c) (auto simp: listMine_def getOwned_def findOwnedByUser_def findOwnedById_def answer_def keeps_def bindp_def
      split: option.splits)

lemma frame_admissions: "keeps (catalogue_is es os) (AdmissionsController E user c)"
proof (cases c)
  case (PostScan i tok ev dev gate)
  have audit: "keeps (catalogue_is es os) (appendScanAudit a)" for a
    unfolding appendScanAudit_def by (intro keeps_rules frame) simp_all
  have reads: "keeps I (findForAdmissionScan j)" for I j by (rule keepsI) (auto simp: findForAdmissionScan_def)
  have used: "keeps (catalogue_is es os) (markUsedIfIssuable j h n)" for j h n
    unfolding markUsedIfIssuable_def by (intro frame) simp_all
  show ?thesis
    unfolding PostScan AdmissionsController.simps scanTicket_def scan_commit_def recordRejectedDecision_def Let_def
    by (intro keeps_rules frame audit reads used)
qed

lemma frame_checkout: "keeps (catalogue_is es os) (CheckoutController A E ctx c)"
proof (cases c)
  case (PostOrder k r n cur)
  have reads: "keeps I (Reservation_findById i)" "keeps I (assertCheckoutAllowed L j q)" for I i L j q
    by (auto simp: Reservation_findById_def intro: keeps_find keeps_readonly)
  have place: "keeps (catalogue_is es os) (place_order E x a inp res)" for E x a inp res
    unfolding place_order_def Order_create_def Idempotency_complete_def AuditLogRepository_append_def OutboxRepository_append_def
    by (intro keeps_rules frame) simp_all
  have claim: "keeps (catalogue_is es os) (tryCreatePending E sc h)" for E sc h
    unfolding tryCreatePending_def by (intro keeps_rules frame) simp_all
  have load: "keeps I (load_existing E sc h)" for I E sc h
    unfolding load_existing_def Idempotency_findByKey_def by (intro keeps_rules)
  have "keeps (catalogue_is es os) (CreateOrder_execute E L x inp)" for E L x inp
    unfolding CreateOrder_execute_def CreateOrder_tx_def checkout_reservation_def Let_def
    by (intro keeps_rules reads place claim load)
  then show ?thesis
    unfolding PostOrder CheckoutController.simps CheckoutController_createOrder_def by (intro keeps_rules frame)
qed

lemma frame_support: "keeps (catalogue_is es os) (handle_support R user c)"
proof (rule keepsI)
  fix s r s'
  assume c: "catalogue_is es os s" and "handle_support R user c s = (r, s')"
  with handle_audited [of R user c s] show "catalogue_is es os s'"
    by (cases r) (auto simp: audited_def catalogue_is_def)
qed

section \<open>The catalogue itself\<close>

text \<open>An organizer profile of somebody else survives every organizer call as it is.\<close>

lemma other_rows_stay:
  assumes "x \<in> set xs" and "distinct (map k xs)" and "y \<in> set xs" and "k y = i" and "x \<noteq> y"
  shows "x \<in> set (upd_where (\<lambda>z. k z = i) f xs)"
proof -
  from assms have "k x \<noteq> i" using distinct_key_unique [of k xs x y] by auto
  then show ?thesis using upd_where_mem [OF assms(1), of "\<lambda>z. k z = i" f] by simp
qed

lemma own_organizer_edit:
  assumes "Organizers_updateOwned j u dto s = (r, s') \<or> submitForReview j u s = (r, s')"
  shows "s' = s \<or> (\<exists>y f. find (\<lambda>x. org_id x = j \<and> org_ownerUserId x = u) (organizers s) = Some y \<and>
    s' = organizers_update (upd_where (\<lambda>x. org_id x = j) f) s)"
proof (cases r)
  case (Inl e)
  with assms show ?thesis
    by (auto simp: Organizers_updateOwned_def Organizer_update_def submitForReview_def Organizer_setStatus_def prog_inv
        dest!: conflict_as_Inl Organizers_getOwned_Inl prisma_update_unique_Inl split: if_splits)
next
  case (Inr x)
  from assms obtain y f where y: "find (\<lambda>x. org_id x = j \<and> org_ownerUserId x = u) (organizers s) = Some y"
    and "s' = organizers_update (upd_where (\<lambda>x. org_id x = org_id y) f) s"
    unfolding Inr by (auto simp: Organizers_updateOwned_def Organizer_update_def submitForReview_def
        Organizer_setStatus_def prog_inv split: if_splits)
  with find_Some_iff2 [OF y] show ?thesis by auto
qed

lemma organizers_of_others:
  assumes run: "OrganizersController E user c s = (r, s')" and dist: "distinct (map org_id (organizers s))"
    and x: "x \<in> set (organizers s)" "org_ownerUserId x \<noteq> atu_id user"
  shows "x \<in> set (organizers s') \<and> events s' = events s"
proof -
  have edit: "x \<in> set (organizers t) \<and> events t = events s"
    if "Organizers_updateOwned j (atu_id user) dto s = (q, t) \<or> submitForReview j (atu_id user) s = (q, t)" for j dto q t
    using own_organizer_edit [OF that]
  proof (elim disjE exE conjE)
    fix y f
    assume y: "find (\<lambda>x. org_id x = j \<and> org_ownerUserId x = atu_id user) (organizers s) = Some y"
      and t: "t = organizers_update (upd_where (\<lambda>x. org_id x = j) f) s"
    from find_Some_iff2 [OF y] x(2) have "y \<in> set (organizers s)" "org_id y = j" "x \<noteq> y" by auto
    from other_rows_stay [of x "organizers s" org_id y j f, OF x(1) dist this] t show ?thesis by simp
  qed (use x(1) in simp)
  show ?thesis
  proof (cases c)
    case (PostOrganizer dto)
    with run obtain q where "Organizers_create E (atu_id user) dto s = (q, s')"
      by (cases "Organizers_create E (atu_id user) dto s"; cases "fst (Organizers_create E (atu_id user) dto s)")
        (auto simp: answer_def bindp_def)
    then show ?thesis using x(1)
      by (cases q) (auto simp: Organizers_create_def Organizer_create_def prog_inv dest!: conflict_as_Inl)
  next
    case (PatchOrganizer j dto)
    with run obtain q where "Organizers_updateOwned j (atu_id user) dto s = (q, s')"
      by (cases "Organizers_updateOwned j (atu_id user) dto s"; cases "fst (Organizers_updateOwned j (atu_id user) dto s)")
        (auto simp: answer_def bindp_def)
    with edit show ?thesis by blast
  next
    case (PostSubmitOrganizer j)
    with run obtain q where "submitForReview j (atu_id user) s = (q, s')"
      by (cases "submitForReview j (atu_id user) s"; cases "fst (submitForReview j (atu_id user) s)")
        (auto simp: answer_def bindp_def)
    with edit show ?thesis by blast
  qed (use run x(1) in \<open>auto simp: answer_def bindp_def listForOwner_def Organizers_getOwned_def Organizer_findOwnedByUser_def
      split: option.splits\<close>)
qed

lemma answer_run: "answer f m s = (r, s') \<Longrightarrow> \<exists>q. m s = (q, s')"
  by (auto simp: answer_def bindp_def split: prod.splits sum.splits)

definition others_kept :: "string \<Rightarrow> db \<Rightarrow> db \<Rightarrow> bool" where
  "others_kept u s s' \<longleftrightarrow> organizers s' = organizers s \<and>
     (\<forall>e\<in>set (events s). \<not> owned_by s u e \<longrightarrow> e \<in> set (events s'))"

lemma events_of_others:
  assumes run: "EventsController E user c s = (r, s')" and u: "unique_events s"
  shows "others_kept (atu_id user) s s'"
proof -
  have edit: "others_kept (atu_id user) s s'" if "owner_call (atu_id user) i s s'" for i
    using owner_call_edit [OF that u, unfolded event_edit_def event_change_def]
  proof (elim disjE exE conjE)
    fix y f
    assume y: "evt_id y = i" "owned_by s (atu_id user) y" "y \<in> set (events s)"
      and s': "s' = events_update (upd_where (\<lambda>x. evt_id x = evt_id y) f) s"
    have "e \<in> set (events s')" if e: "e \<in> set (events s)" "\<not> owned_by s (atu_id user) e" for e
    proof -
      from y(2) e(2) have "e \<noteq> y" by auto
      from other_rows_stay [of e "events s" evt_id y i f, OF e(1) _ y(3,1) this] u s' y(1) show ?thesis
        by (simp add: unique_events_def)
    qed
    with s' show ?thesis by (simp add: others_kept_def)
  qed (simp add: others_kept_def)
  have same: "others_kept (atu_id user) s s'"
    if "m s = (q, s')" "keeps (catalogue_is (events s) (organizers s)) m" for m :: "(db, 'z) prog" and q
    using keepsD [OF that(2) _ that(1)] by (simp add: catalogue_is_def others_kept_def)
  show ?thesis
  proof (cases c)
    case (PostEvent i dto)
    with run obtain q where "createForOrganizer E i (atu_id user) dto s = (q, s')" by (auto dest: answer_run)
    then show ?thesis
      by (cases q) (auto simp: others_kept_def createForOrganizer_def createForOrganizer_write_def Event_create_def prog_inv
          dest!: createForOrganizer_read_Inr createForOrganizer_read_Inl conflict_as_Inl split: prod.splits)
  next
    case (PatchEvent i dto)
    with run edit show ?thesis by (auto dest!: answer_run intro: call_update)
  next
    case (PostPublishEvent i)
    with run edit show ?thesis by (auto dest!: answer_run intro: call_publish)
  next
    case (PostCancelEvent i)
    with run edit show ?thesis by (auto dest!: answer_run intro: call_cancel)
  next
    case (GetOrganizerEvents i)
    with run obtain q where "listForOwnedOrganizer i (atu_id user) s = (q, s')" by (auto dest: answer_run)
    then show ?thesis
      by (rule same) (simp add: listForOwnedOrganizer_def listForOrganizer_def keeps_seqp getOwned_reads keeps_pure)
  next
    case (GetOwnEvent i)
    with run obtain q where "Events_getOwned i (atu_id user) s = (q, s')" by (auto dest: answer_run)
    then show ?thesis by (rule same) (rule getOwned_reads)
  qed
qed

text \<open>An event of an organizer that is not the caller's is not the caller's.\<close>

lemma not_the_callers:
  assumes "distinct (map org_id (organizers s))" and "x \<in> set (organizers s)" and "org_ownerUserId x \<noteq> u"
    and "evt_organizerId e = org_id x"
  shows "\<not> owned_by s u e"
proof
  assume "owned_by s u e"
  then obtain y where "find (\<lambda>o'. org_id o' = evt_organizerId e) (organizers s) = Some y" "org_ownerUserId y = u"
    by (auto simp: owned_by_def with_organizer_def split: option.splits)
  with find_Some_iff2 [OF this(1)] have "y \<in> set (organizers s)" "org_id y = org_id x" "org_ownerUserId y = u"
    using assms(4) by simp_all
  with distinct_key_unique [OF assms(1) _ assms(2)] assms(3) show False by blast
qed

lemma dispatch_isolates:
  assumes d: "dispatch A E req ctx user call s = (r, s')" and ev: "unique_events s"
    and dist: "distinct (map org_id (organizers s))"
    and x: "x \<in> set (organizers s)" and other: "org_ownerUserId x \<noteq> atu_id user"
  shows "x \<in> set (organizers s') \<and> (\<forall>e\<in>set (events s). evt_organizerId e = org_id x \<longrightarrow> e \<in> set (events s'))"
proof -
  have framed: ?thesis if "keeps (catalogue_is (events s) (organizers s)) m" "m s = (r, s')" for m :: "(db, api_body) prog"
    using keepsD [OF that(1) _ that(2)] x by (auto simp: catalogue_is_def)
  note frames = frame_auth frame_tables frame_payments frame_tickets frame_admissions frame_checkout
    keeps_answer [OF frame_support]
  show ?thesis
  proof (cases call)
    case (OrganizersCall c)
    with d organizers_of_others [OF _ dist x other] show ?thesis by fastforce
  next
    case (EventsCall c)
    with d have "others_kept (atu_id user) s s'" by (auto intro: events_of_others [OF _ ev])
    with not_the_callers [OF dist x other] x show ?thesis by (auto simp: others_kept_def)
  qed (use d framed [OF frames(1)] framed [OF frames(2)] framed [OF frames(3)] framed [OF frames(4)]
      framed [OF frames(5)] framed [OF frames(6)] framed [OF frames(7)] in simp_all)
qed

section \<open>Properties\<close>

text \<open>
  C22: Tenants are isolated. Whatever protected call is served, with whatever token and arguments, an
  organizer profile that the caller does not own and every event that is not the caller's are still
  there exactly as they were.
\<close>

theorem tenants_are_isolated:
  assumes "serve A F T inc call s = (out, s')" and "unique_events s" and "distinct (map org_id (organizers s))"
    and "\<forall>u. bearer_user (api_auth A) (T 1) (inc_bearer inc) s = Some u \<longrightarrow> atu_id u \<noteq> stranger"
    and "x \<in> set (organizers s)" and "org_ownerUserId x = stranger"
  shows "x \<in> set (organizers s') \<and>
    (\<forall>e\<in>set (events s). evt_organizerId e = org_id x \<longrightarrow> e \<in> set (events s'))"
proof -
  have kept: ?thesis if "catalogue_is (events s) (organizers s) s'"
    using that assms(5) by (simp add: catalogue_is_def)
  from serve_run [OF assms(1)] obtain ctx headers r where
    run: "run_call A F T ctx (inc_http inc) (inc_bearer inc) call s = (r, s')" by blast
  note door = run_call_cases [OF run]
  show ?thesis
  proof (cases "bearer_user (api_auth A) (T 1) (inc_bearer inc) s")
    case None
    with door show ?thesis by (intro kept) (auto simp: expiry_only_def catalogue_is_def simp del: One_nat_def)
  next
    case (Some u)
    then have u: "org_ownerUserId x \<noteq> atu_id u" using assms(4,6) by auto
    show ?thesis
    proof (cases "may_call u call \<and> pipes F call = Inr ()")
      case False
      with door Some have "s' = s" by (auto split: if_splits)
      then show ?thesis by (intro kept) (simp add: catalogue_is_def)
    next
      case True
      with door Some have d: "dispatch A (T 2) (inc_http inc) (with_user u ctx) u call s = (r, s')" by simp
      show ?thesis by (rule dispatch_isolates [OF d assms(2,3,5) u])
    qed
  qed
qed

section \<open>Example\<close>

definition ex_tenants :: db where
  "ex_tenants = ex_catalog\<lparr> users := [ex_account], sessions := [ex_session] \<rparr>"

text \<open>An administrator, who may call every event route, tries to change an event of bob.\<close>

lemma tenants_are_isolated_witness:
  "\<exists>u. bearer_user ex_lib ex_auth_env (inc_bearer ex_incoming) ex_tenants = Some u \<and>
     may_call u (EventsCall (PatchEvent ''e'' blank_venue)) \<and>
     ex_event \<in> set (events (snd (serve ex_services ex_framework (\<lambda>n. ex_auth_env) ex_incoming
       (EventsCall (PatchEvent ''e'' blank_venue)) ex_tenants)))"
proof -
  let ?call = "EventsCall (PatchEvent ''e'' blank_venue)"
  obtain out s' where run: "serve ex_services ex_framework (\<lambda>n. ex_auth_env) ex_incoming ?call ex_tenants = (out, s')"
    by fastforce
  obtain u where u: "bearer_user ex_lib ex_auth_env (inc_bearer ex_incoming) ex_tenants = Some u" "atu_id u = ''u1''"
      "atu_role u = ADMIN"
    using ex_payload_verifies
    by (simp add: bearer_user_def session_user_def ex_incoming_def ex_auth_env_def ex_tenants_def ex_session_def
        opened_session_def ex_payload_def ex_account_def REFRESH_TOKEN_TTL_SECONDS_def)
  have "may_call u ?call" by (simp add: may_call_def u(3) ROLE_PERMISSIONS_def)
  moreover have "ex_event \<in> set (events s')"
  proof -
    have "unique_events ex_tenants" "distinct (map org_id (organizers ex_tenants))" "ex_host \<in> set (organizers ex_tenants)"
      "ex_event \<in> set (events ex_tenants)" "org_ownerUserId ex_host = ''bob''" "evt_organizerId ex_event = org_id ex_host"
      by (simp_all add: ex_tenants_def unique_events_def ex_catalog_defs)
    with tenants_are_isolated [OF run, of "''bob''" ex_host] u show ?thesis by (auto simp: ex_services_def)
  qed
  ultimately show ?thesis using u(1) run by auto
qed

end
