(* ===== verification/Schema_Rehearsal.thy ===== *)
theory Schema_Rehearsal
  imports Config Text_Encoding
begin

text \<open>
  The rehearsal of a schema deployment (\<^verbatim>\<open>scripts/schema-rehearsal.ts\<close>): it takes a snapshot of the
  database, deploys the migrations, recreates a restore database, restores the snapshot into it and
  writes a manifest of the steps.

  Parameters, in the record \<open>platform\<close>: the URL class (\<open>new_URL\<close> is its parser, \<open>None\<close> when it throws,
  \<open>relative_URL\<close> the one with a base, \<open>href\<close> its serializer; the setters of the script write a
  component), \<open>node:path\<close>, the command lookup, the processes, the network, and the Prisma command line.
  The two readings of the clock that the manifest records are parameters too. A command run is what \<open>spawnSync\<close> gives back: the status, \<open>None\<close> for a process that did not exit, and
  the two outputs.
\<close>

section \<open>Parameters\<close>

record url =
  url_protocol :: string
  url_username :: string
  url_password :: string
  url_hostname :: string
  url_port :: string
  url_pathname :: string
  url_search :: string
  url_hash :: string

datatype CommandSpec =
    ExecSpec string "string list" string "process_env option"
  | ShellSpec string string "process_env option"

fun display :: "CommandSpec \<Rightarrow> string" where
  "display (ExecSpec c args d e) = d"
| "display (ShellSpec c d e) = d"

record platform =
  new_URL :: "string \<Rightarrow> url option"
  relative_URL :: "string \<Rightarrow> string \<Rightarrow> string option"
  href :: "url \<Rightarrow> string"
  path_join :: "string \<Rightarrow> string \<Rightarrow> string"
  path_resolve :: "string \<Rightarrow> string \<Rightarrow> string"
  on_path :: "string \<Rightarrow> bool"
  spawn :: "CommandSpec \<Rightarrow> int option \<times> string \<times> string"
  get_page :: "string \<Rightarrow> app_error + int \<times> string"
  prisma_cli :: string
  exec_path :: string
  is_win32 :: bool
  process_environment :: process_env
  started_iso :: string
  completed_iso :: string

definition fail :: "string \<Rightarrow> app_error + 'a" where
  "fail message = Inl (OtherError ''Error'' message)"

section \<open>The environment\<close>

definition wrapped_in :: "char \<Rightarrow> string \<Rightarrow> bool" where
  "wrapped_in q v \<longleftrightarrow> v \<noteq> [] \<and> hd v = q \<and> last v = q"

text \<open>\<open>slice(1, -1)\<close> of a single quote is the empty text.\<close>

definition stripWrappingQuotes :: "string \<Rightarrow> string" where
  "stripWrappingQuotes v =
     (if wrapped_in (CHR 0x22) v \<or> wrapped_in (CHR 0x27) v then butlast (tl v) else v)"

definition newline :: char where "newline = char_of (10 :: nat)"
definition carriage_return :: char where "carriage_return = char_of (13 :: nat)"

text \<open>\<open>split(/\r?\n/)\<close>\<close>

fun split_lines :: "string \<Rightarrow> string list" where
  "split_lines [] = [[]]"
| "split_lines (c # r) =
     (if c = newline then [] # split_lines r
      else if c = carriage_return \<and> r \<noteq> [] \<and> hd r = newline then [] # split_lines (tl r)
      else (case split_lines r of [] \<Rightarrow> [[c]] | x # xs \<Rightarrow> (c # x) # xs))"

definition env_entry :: "string \<Rightarrow> (string \<times> string) option" where
  "env_entry rawLine =
     (let line = js_trim rawLine; key = takeWhile (\<lambda>c. c \<noteq> CHR ''='') line; rest = dropWhile (\<lambda>c. c \<noteq> CHR ''='') line in
      if line = [] \<or> hd line = CHR ''#'' then None
      else if rest = [] \<or> key = [] then None
      else Some (js_trim key, stripWrappingQuotes (js_trim (tl rest))))"

definition add_entry :: "process_env \<Rightarrow> string \<Rightarrow> process_env" where
  "add_entry env rawLine =
     (case env_entry rawLine of
        None \<Rightarrow> env
      | Some (key, v) \<Rightarrow> if env key = None then env(key \<mapsto> v) else env)"

definition loadLocalEnvFiles :: "(string \<Rightarrow> string option) \<Rightarrow> process_env \<Rightarrow> process_env" where
  "loadLocalEnvFiles file env =
     foldl (\<lambda>e fileName. case file fileName of None \<Rightarrow> e | Some contents \<Rightarrow> foldl add_entry e (split_lines contents))
       env [''.env.local'', ''.env'']"

definition getRequiredEnv :: "string \<Rightarrow> process_env \<Rightarrow> app_error + string" where
  "getRequiredEnv key env =
     (case trimmed env key of None \<Rightarrow> fail (''Missing required environment variable: '' @ key) | Some v \<Rightarrow> Inr v)"

definition getOptionalEnv :: "string \<Rightarrow> process_env \<Rightarrow> string option" where
  "getOptionalEnv key env = trimmed env key"

datatype SchemaRehearsalMode = Plan | Rehearse

definition parseMode :: "string list \<Rightarrow> app_error + SchemaRehearsalMode" where
  "parseMode argv =
     (let requested = (case argv of [] \<Rightarrow> [] | a # _ \<Rightarrow> toLowerCase (js_trim a)) in
      if requested = [] \<or> requested = ''plan'' then Inr Plan
      else if requested = ''rehearse'' then Inr Rehearse
      else fail (''Unsupported schema rehearsal mode: '' @ requested))"

section \<open>Database addresses\<close>

definition parseDatabaseUrl :: "platform \<Rightarrow> string \<Rightarrow> string \<Rightarrow> app_error + url" where
  "parseDatabaseUrl P v label =
     (case new_URL P v of None \<Rightarrow> fail (''Invalid '' @ label @ '': '' @ v) | Some u \<Rightarrow> Inr u)"

text \<open>
  \<open>decodeURIComponent\<close>: \<open>None\<close> when it throws. A character of this model has a code below 256; a text
  with another one counts as malformed.
\<close>

fun decode_bytes :: "string \<Rightarrow> nat list option" where
  "decode_bytes [] = Some []"
| "decode_bytes (c # r) =
     (if c = CHR ''%'' then
        (case r of
           h # l # r' \<Rightarrow>
             (case (digit_in 16 h, digit_in 16 l) of
                (Some a, Some b) \<Rightarrow> map_option (Cons (a * 16 + b)) (decode_bytes r')
              | _ \<Rightarrow> None)
         | _ \<Rightarrow> None)
      else map_option (append (utf8_char c)) (decode_bytes r))"

definition decodeURIComponent :: "string \<Rightarrow> string option" where
  "decodeURIComponent x = Option.bind (decode_bytes x) decode_utf8"

definition getDatabaseName :: "url \<Rightarrow> string \<Rightarrow> app_error + string" where
  "getDatabaseName u label =
     (let pathname = dropWhile (\<lambda>c. c = CHR ''/'') (url_pathname u) in
      if pathname = [] then fail (label @ '' must include a database name.'')
      else case decodeURIComponent pathname of
        None \<Rightarrow> Inl (OtherError ''URIError'' ''URI malformed'')
      | Some databaseName \<Rightarrow>
          if CHR ''/'' \<in> set databaseName then fail (label @ '' must include a single database name.'')
          else Inr databaseName)"

definition DEFAULT_RESTORE_DATABASE_SUFFIX :: string where "DEFAULT_RESTORE_DATABASE_SUFFIX = ''_restore''"
definition DEFAULT_ADMIN_DATABASE :: string where "DEFAULT_ADMIN_DATABASE = ''postgres''"

definition deriveRestoreDatabaseUrl :: "platform \<Rightarrow> string \<Rightarrow> string \<Rightarrow> app_error + string" where
  "deriveRestoreDatabaseUrl P databaseUrl suffix =
     and_then (parseDatabaseUrl P databaseUrl ''DATABASE_URL'') (\<lambda>u.
     and_then (getDatabaseName u ''DATABASE_URL'') (\<lambda>databaseName.
       Inr (href P (u\<lparr> url_pathname := CHR ''/'' # encodeURIComponent (databaseName @ suffix) \<rparr>))))"

definition deriveAdminDatabaseUrl :: "platform \<Rightarrow> string \<Rightarrow> app_error + string" where
  "deriveAdminDatabaseUrl P databaseUrl =
     and_then (parseDatabaseUrl P databaseUrl ''restore database URL'') (\<lambda>u.
       Inr (href P (u\<lparr> url_pathname := CHR ''/'' # DEFAULT_ADMIN_DATABASE \<rparr>)))"

definition deriveUrl :: "platform \<Rightarrow> string option \<Rightarrow> string \<Rightarrow> app_error + string option" where
  "deriveUrl P baseUrl path =
     (if \<not> truthy baseUrl then Inr None
      else case relative_URL P path (the baseUrl) of
        None \<Rightarrow> Inl (OtherError ''TypeError'' ''Invalid URL'') | Some u \<Rightarrow> Inr (Some u))"

definition redactDatabaseUrl :: "platform \<Rightarrow> string option \<Rightarrow> string" where
  "redactDatabaseUrl P v =
     (if \<not> truthy v then []
      else case new_URL P (the v) of
        None \<Rightarrow> the v
      | Some u \<Rightarrow> href P (if url_password u \<noteq> [] then u\<lparr> url_password := ''***'' \<rparr> else u))"

definition double_quotes :: "char \<Rightarrow> string \<Rightarrow> string" where
  "double_quotes q v = concat (map (\<lambda>c. if c = q then [q, q] else [c]) v)"

definition quotePostgresIdentifier :: "string \<Rightarrow> string" where
  "quotePostgresIdentifier v = [CHR 0x22] @ double_quotes (CHR 0x22) v @ [CHR 0x22]"

definition quotePostgresStringLiteral :: "string \<Rightarrow> string" where
  "quotePostgresStringLiteral v = [CHR 0x27] @ double_quotes (CHR 0x27) v @ [CHR 0x27]"

definition normalizePostgresPort :: "url \<Rightarrow> string" where
  "normalizePostgresPort u = (if url_port u = [] then ''5432'' else url_port u)"

text \<open>The operands of \<open>&&\<close> are evaluated from the left until one is false.\<close>

definition targetsSameDatabase :: "platform \<Rightarrow> string \<Rightarrow> string \<Rightarrow> app_error + bool" where
  "targetsSameDatabase P left right =
     and_then (parseDatabaseUrl P left ''database URL'') (\<lambda>leftUrl.
     and_then (parseDatabaseUrl P right ''database URL'') (\<lambda>rightUrl.
       if url_hostname leftUrl = url_hostname rightUrl \<and> normalizePostgresPort leftUrl = normalizePostgresPort rightUrl
       then and_then (getDatabaseName leftUrl ''database URL'') (\<lambda>l.
            and_then (getDatabaseName rightUrl ''database URL'') (\<lambda>r. Inr (l = r)))
       else Inr False))"

section \<open>The configuration\<close>

record SchemaRehearsalConfig =
  src_cwd :: string
  src_databaseUrl :: string
  src_restoreDatabaseUrl :: "string option"
  src_restoreAdminDatabaseUrl :: "string option"
  src_artifactRootDir :: string
  src_runPaymentSmoke :: bool
  src_skipHttpChecks :: bool
  src_liveUrl :: "string option"
  src_readyUrl :: "string option"
  src_metricsUrl :: "string option"
  src_snapshotCommandTemplate :: "string option"
  src_restoreCommandTemplate :: "string option"

definition configured_url ::
  "platform \<Rightarrow> process_env \<Rightarrow> bool \<Rightarrow> string \<Rightarrow> string option \<Rightarrow> string \<Rightarrow> app_error + string option" where
  "configured_url P env skip key base path =
     (if skip then Inr None
      else case getOptionalEnv key env of Some v \<Rightarrow> Inr (Some v) | None \<Rightarrow> deriveUrl P base path)"

definition configured_restore ::
  "platform \<Rightarrow> process_env \<Rightarrow> string \<Rightarrow> string option \<Rightarrow> app_error + string option" where
  "configured_restore P env databaseUrl restoreCommandTemplate =
     (case getOptionalEnv ''SCHEMA_REHEARSAL_RESTORE_DATABASE_URL'' env of
        Some v \<Rightarrow> Inr (Some v)
      | None \<Rightarrow>
          if restoreCommandTemplate = None then
            and_then (deriveRestoreDatabaseUrl P databaseUrl
              (case getOptionalEnv ''SCHEMA_REHEARSAL_RESTORE_DATABASE_SUFFIX'' env of
                 None \<Rightarrow> DEFAULT_RESTORE_DATABASE_SUFFIX | Some x \<Rightarrow> x)) (\<lambda>u. Inr (Some u))
          else Inr None)"

definition configured_admin ::
  "platform \<Rightarrow> process_env \<Rightarrow> string option \<Rightarrow> string option \<Rightarrow> app_error + string option" where
  "configured_admin P env restoreCommandTemplate restoreDatabaseUrl =
     (if restoreCommandTemplate = None \<and> truthy restoreDatabaseUrl then
        (case getOptionalEnv ''SCHEMA_REHEARSAL_ADMIN_DATABASE_URL'' env of
           Some v \<Rightarrow> Inr (Some v)
         | None \<Rightarrow> and_then (deriveAdminDatabaseUrl P (the restoreDatabaseUrl)) (\<lambda>u. Inr (Some u)))
      else Inr None)"

definition buildSchemaRehearsalConfig :: "platform \<Rightarrow> process_env \<Rightarrow> string \<Rightarrow> app_error + SchemaRehearsalConfig" where
  "buildSchemaRehearsalConfig P env cwd =
     and_then (getRequiredEnv ''DATABASE_URL'' env) (\<lambda>databaseUrl.
     let restoreCommandTemplate = getOptionalEnv ''SCHEMA_REHEARSAL_RESTORE_COMMAND'' env in
     and_then (configured_restore P env databaseUrl restoreCommandTemplate) (\<lambda>restoreDatabaseUrl.
     let skipHttpChecks = (getOptionalEnv ''SCHEMA_REHEARSAL_SKIP_HTTP_CHECKS'' env = Some ''true'');
         artifactRootDir = path_resolve P cwd (case getOptionalEnv ''SCHEMA_REHEARSAL_ARTIFACT_DIR'' env of
            None \<Rightarrow> ''artifacts/schema-rehearsal'' | Some d \<Rightarrow> d);
         apiBaseUrl = getOptionalEnv ''API_BASE_URL'' env in
     and_then (configured_admin P env restoreCommandTemplate restoreDatabaseUrl) (\<lambda>restoreAdminDatabaseUrl.
     and_then (configured_url P env skipHttpChecks ''SCHEMA_REHEARSAL_LIVE_URL'' apiBaseUrl ''/api/health/live'') (\<lambda>liveUrl.
     and_then (configured_url P env skipHttpChecks ''SCHEMA_REHEARSAL_READY_URL'' apiBaseUrl ''/api/health/ready'') (\<lambda>readyUrl.
     and_then (configured_url P env skipHttpChecks ''SCHEMA_REHEARSAL_METRICS_URL'' apiBaseUrl ''/api/metrics'') (\<lambda>metricsUrl.
       Inr \<lparr> src_cwd = cwd, src_databaseUrl = databaseUrl, src_restoreDatabaseUrl = restoreDatabaseUrl,
             src_restoreAdminDatabaseUrl = restoreAdminDatabaseUrl, src_artifactRootDir = artifactRootDir,
             src_runPaymentSmoke = (getOptionalEnv ''SCHEMA_REHEARSAL_RUN_PAYMENT_SMOKE'' env = Some ''true''),
             src_skipHttpChecks = skipHttpChecks, src_liveUrl = liveUrl, src_readyUrl = readyUrl,
             src_metricsUrl = metricsUrl,
             src_snapshotCommandTemplate = getOptionalEnv ''SCHEMA_REHEARSAL_SNAPSHOT_COMMAND'' env,
             src_restoreCommandTemplate = restoreCommandTemplate \<rparr>))))))"

record SchemaRehearsalContext =
  srx_rehearsalId :: string
  srx_artifactDir :: string
  srx_backupPath :: string
  srx_manifestPath :: string
  srx_logsDir :: string

definition createSchemaRehearsalContext :: "platform \<Rightarrow> SchemaRehearsalConfig \<Rightarrow> string \<Rightarrow> SchemaRehearsalContext" where
  "createSchemaRehearsalContext P c nowIso =
     (let rehearsalId = map (\<lambda>x. if x = CHR '':'' \<or> x = CHR ''.'' then CHR ''-'' else x) nowIso;
          artifactDir = path_join P (src_artifactRootDir c) rehearsalId
      in \<lparr> srx_rehearsalId = rehearsalId, srx_artifactDir = artifactDir,
           srx_backupPath = path_join P artifactDir ''pre-deploy.dump'',
           srx_manifestPath = path_join P artifactDir ''manifest.json'',
           srx_logsDir = path_join P artifactDir ''logs'' \<rparr>)"

section \<open>Commands\<close>

text \<open>
  \<open>template.replace(/\$\{(\w+)\}/g, ...)\<close>: what a name stands for is not scanned again. A name
  without a value is dropped.
\<close>

definition word_char :: "char \<Rightarrow> bool" where
  "word_char c \<longleftrightarrow>
     (let n = (of_char c :: nat) in
      48 \<le> n \<and> n < 58 \<or> 65 \<le> n \<and> n < 91 \<or> 97 \<le> n \<and> n < 123 \<or> c = CHR ''_'')"

definition placeholder :: "string \<Rightarrow> (string \<times> string) option" where
  "placeholder r =
     (case r of
        [] \<Rightarrow> None
      | b # name \<Rightarrow>
          (let key = takeWhile word_char name; rest = dropWhile word_char name in
           if b = CHR ''{'' \<and> key \<noteq> [] \<and> rest \<noteq> [] \<and> hd rest = CHR ''}'' then Some (key, tl rest) else None))"

lemma placeholder_shorter: "placeholder r = Some (k, rest) \<Longrightarrow> length rest < length r"
proof -
  assume "placeholder r = Some (k, rest)"
  then obtain b name where "r = b # name" "rest = tl (dropWhile word_char name)"
    by (auto simp: placeholder_def Let_def split: list.splits if_splits)
  then show ?thesis using length_dropWhile_le [of word_char name] by simp
qed

function applyTemplate :: "(string \<rightharpoonup> string) \<Rightarrow> string \<Rightarrow> string" where
  "applyTemplate values [] = []"
| "applyTemplate values (c # r) =
     (case (if c = CHR ''$'' then placeholder r else None) of
        Some (key, rest) \<Rightarrow> (case values key of None \<Rightarrow> [] | Some v \<Rightarrow> v) @ applyTemplate values rest
      | None \<Rightarrow> c # applyTemplate values r)"
  by pat_completeness auto
termination
  by (relation "measure (\<lambda>(v, x). length x)") (auto dest: placeholder_shorter split: if_splits)

definition template_values :: "SchemaRehearsalContext \<Rightarrow> string \<Rightarrow> string \<Rightarrow> (string \<rightharpoonup> string)" where
  "template_values x databaseUrl restoreDatabaseUrl =
     [''rehearsalId'' \<mapsto> srx_rehearsalId x, ''artifactDir'' \<mapsto> srx_artifactDir x,
      ''backupPath'' \<mapsto> srx_backupPath x, ''databaseUrl'' \<mapsto> databaseUrl,
      ''restoreDatabaseUrl'' \<mapsto> restoreDatabaseUrl]"

definition or_empty :: "string option \<Rightarrow> string" where
  "or_empty v = (case v of None \<Rightarrow> [] | Some x \<Rightarrow> x)"

definition template_command ::
  "platform \<Rightarrow> SchemaRehearsalConfig \<Rightarrow> SchemaRehearsalContext \<Rightarrow> string \<Rightarrow> CommandSpec" where
  "template_command P c x template =
     ShellSpec
       (applyTemplate (template_values x (src_databaseUrl c) (or_empty (src_restoreDatabaseUrl c))) template)
       (applyTemplate (template_values x (redactDatabaseUrl P (Some (src_databaseUrl c)))
          (redactDatabaseUrl P (src_restoreDatabaseUrl c))) template)
       None"

definition resolveSnapshotCommand ::
  "platform \<Rightarrow> SchemaRehearsalConfig \<Rightarrow> SchemaRehearsalContext \<Rightarrow> CommandSpec" where
  "resolveSnapshotCommand P c x =
     (if truthy (src_snapshotCommandTemplate c) then template_command P c x (the (src_snapshotCommandTemplate c))
      else ExecSpec ''pg_dump'' [''--format=custom'', ''--file'', srx_backupPath x, src_databaseUrl c]
             (''pg_dump --format=custom --file '' @ srx_backupPath x @ '' '' @
              redactDatabaseUrl P (Some (src_databaseUrl c))) None)"

definition resolveRestoreCommand ::
  "platform \<Rightarrow> SchemaRehearsalConfig \<Rightarrow> SchemaRehearsalContext \<Rightarrow> app_error + CommandSpec" where
  "resolveRestoreCommand P c x =
     (if truthy (src_restoreCommandTemplate c) then Inr (template_command P c x (the (src_restoreCommandTemplate c)))
      else if \<not> truthy (src_restoreDatabaseUrl c) then
        fail ''SCHEMA_REHEARSAL_RESTORE_DATABASE_URL is required unless SCHEMA_REHEARSAL_RESTORE_COMMAND is set.''
      else Inr (ExecSpec ''pg_restore''
             [''--clean'', ''--if-exists'', ''--no-owner'', ''--no-privileges'',
              ''--dbname='' @ the (src_restoreDatabaseUrl c), srx_backupPath x]
             (''pg_restore --clean --if-exists --no-owner --no-privileges '' @
              ''--dbname='' @ redactDatabaseUrl P (src_restoreDatabaseUrl c) @ '' '' @ srx_backupPath x) None))"

definition terminateConnectionsSql :: "string \<Rightarrow> string" where
  "terminateConnectionsSql name =
     ''SELECT pg_terminate_backend(pid) FROM pg_stat_activity '' @
     ''WHERE datname = '' @ quotePostgresStringLiteral name @ '' AND pid <> pg_backend_pid();''"

definition dropDatabaseSql :: "string \<Rightarrow> string" where
  "dropDatabaseSql name = ''DROP DATABASE IF EXISTS '' @ quotePostgresIdentifier name @ '';''"

definition createDatabaseSql :: "string \<Rightarrow> string" where
  "createDatabaseSql name = ''CREATE DATABASE '' @ quotePostgresIdentifier name @ '';''"

definition prepare_command :: "platform \<Rightarrow> string \<Rightarrow> string \<Rightarrow> CommandSpec" where
  "prepare_command P adminDatabaseUrl name =
     ExecSpec ''psql''
       [''--dbname'', adminDatabaseUrl, ''-v'', ''ON_ERROR_STOP=1'', ''-c'', terminateConnectionsSql name,
        ''-c'', dropDatabaseSql name, ''-c'', createDatabaseSql name]
       (''psql --dbname '' @ redactDatabaseUrl P (Some adminDatabaseUrl) @
        '' -v ON_ERROR_STOP=1 -c '' @ terminateConnectionsSql name @
        '' -c '' @ dropDatabaseSql name @ '' -c '' @ createDatabaseSql name) None"

definition resolvePrepareRestoreCommand :: "platform \<Rightarrow> SchemaRehearsalConfig \<Rightarrow> app_error + CommandSpec" where
  "resolvePrepareRestoreCommand P c =
     (if truthy (src_restoreCommandTemplate c) \<or> \<not> truthy (src_restoreDatabaseUrl c) then
        fail ''Built-in restore database preparation requires SCHEMA_REHEARSAL_RESTORE_DATABASE_URL and no custom restore command.''
      else
        let restoreDatabaseUrl = the (src_restoreDatabaseUrl c) in
        and_then (case src_restoreAdminDatabaseUrl c of Some v \<Rightarrow> Inr v | None \<Rightarrow> deriveAdminDatabaseUrl P restoreDatabaseUrl)
          (\<lambda>adminDatabaseUrl.
        and_then (targetsSameDatabase P adminDatabaseUrl restoreDatabaseUrl) (\<lambda>same.
          if same then
            fail ''SCHEMA_REHEARSAL_ADMIN_DATABASE_URL must point to a maintenance database, not the restore target.''
          else
            and_then (parseDatabaseUrl P restoreDatabaseUrl ''SCHEMA_REHEARSAL_RESTORE_DATABASE_URL'') (\<lambda>u.
            and_then (getDatabaseName u ''SCHEMA_REHEARSAL_RESTORE_DATABASE_URL'') (\<lambda>name.
              Inr (prepare_command P adminDatabaseUrl name))))))"

fun join_words :: "string list \<Rightarrow> string" where
  "join_words [] = []"
| "join_words [x] = x"
| "join_words (x # xs) = x @ '' '' @ join_words xs"

definition resolvePrismaCommand :: "platform \<Rightarrow> string list \<Rightarrow> string option \<Rightarrow> CommandSpec" where
  "resolvePrismaCommand P args databaseUrl =
     ExecSpec (exec_path P) (prisma_cli P # args) (''node '' @ prisma_cli P @ '' '' @ join_words args)
       (if truthy databaseUrl then Some ((process_environment P)(''DATABASE_URL'' \<mapsto> the databaseUrl)) else None)"

definition resolvePaymentSmokeCommand :: "platform \<Rightarrow> CommandSpec" where
  "resolvePaymentSmokeCommand P =
     ExecSpec (if is_win32 P then ''npm.cmd'' else ''npm'') [''run'', ''payments:smoke''] ''npm run payments:smoke'' None"

section \<open>Preconditions\<close>

definition usesBuiltInRestore :: "SchemaRehearsalConfig \<Rightarrow> bool" where
  "usesBuiltInRestore c \<longleftrightarrow> \<not> truthy (src_restoreCommandTemplate c)"

definition ensureCommandAvailable :: "platform \<Rightarrow> string \<Rightarrow> app_error + unit" where
  "ensureCommandAvailable P command =
     (if on_path P command then Inr ()
      else fail (''Required command not found on PATH: '' @ command @
        ''. Configure a custom schema rehearsal command if your environment uses platform-specific backup tooling.''))"

definition valid_url :: "platform \<Rightarrow> string option \<Rightarrow> app_error + unit" where
  "valid_url P v =
     (if truthy v \<and> new_URL P (the v) = None then Inl (OtherError ''TypeError'' ''Invalid URL'') else Inr ())"

definition assertRehearsalPreconditions :: "platform \<Rightarrow> SchemaRehearsalConfig \<Rightarrow> app_error + unit" where
  "assertRehearsalPreconditions P c =
     and_then (if truthy (src_snapshotCommandTemplate c) then Inr () else ensureCommandAvailable P ''pg_dump'') (\<lambda>_.
     and_then (if truthy (src_restoreDatabaseUrl c)
               then targetsSameDatabase P (src_databaseUrl c) (the (src_restoreDatabaseUrl c)) else Inr False) (\<lambda>same.
       if same then fail ''SCHEMA_REHEARSAL_RESTORE_DATABASE_URL must point to a different database than DATABASE_URL.''
       else
         and_then (if usesBuiltInRestore c
                   then and_then (ensureCommandAvailable P ''pg_restore'') (\<lambda>_.
                        and_then (ensureCommandAvailable P ''psql'') (\<lambda>_.
                        and_then (resolvePrepareRestoreCommand P c) (\<lambda>_. Inr ())))
                   else Inr ()) (\<lambda>_.
           if src_skipHttpChecks c then Inr ()
           else and_then (valid_url P (src_liveUrl c)) (\<lambda>_.
                and_then (valid_url P (src_readyUrl c)) (\<lambda>_. valid_url P (src_metricsUrl c))))))"

section \<open>The run\<close>

datatype StepStatus = passed | failed | skipped

record StepResult =
  step_name :: string
  step_status :: StepStatus
  step_logFile :: string

record Manifest =
  mf_rehearsalId :: string
  mf_startedAt :: string
  mf_completedAt :: "string option"
  mf_artifactDir :: string
  mf_backupPath :: string
  mf_databaseUrl :: string
  mf_restoreDatabaseUrl :: string
  mf_restoreAdminDatabaseUrl :: string
  mf_runPaymentSmoke :: bool
  mf_skipHttpChecks :: bool
  mf_liveUrl :: "string option"
  mf_readyUrl :: "string option"
  mf_metricsUrl :: "string option"
  mf_steps :: "StepResult list"
  mf_manualFollowUps :: "string list"

datatype written_file = TextFile string string | ManifestFile string Manifest

text \<open>What a run does to the outside: the commands it starts, the files it writes, its manifest.\<close>

record run_state =
  run_commands :: "CommandSpec list"
  run_files :: "written_file list"
  run_manifest :: Manifest

type_synonym 'a script = "(run_state, 'a) prog"

definition effect :: "(run_state \<Rightarrow> run_state) \<Rightarrow> unit script" where
  "effect f = (\<lambda>s. (Inr (), f s))"

definition attempt :: "app_error + 'a \<Rightarrow> 'a script" where
  "attempt r = (case r of Inl e \<Rightarrow> throw e | Inr x \<Rightarrow> ret x)"

definition writeFile :: "written_file \<Rightarrow> unit script" where
  "writeFile f = effect (run_files_update (\<lambda>fs. fs @ [f]))"

fun join_lines :: "string list \<Rightarrow> string" where
  "join_lines [] = []"
| "join_lines [x] = x"
| "join_lines (x # xs) = x @ newline # join_lines xs"

definition executeCommand :: "platform \<Rightarrow> CommandSpec \<Rightarrow> string \<Rightarrow> unit script" where
  "executeCommand P spec logFile =
     seqp (effect (run_commands_update (\<lambda>cs. cs @ [spec])))
       (case spawn P spec of
          (status, out, err) \<Rightarrow>
            seqp (writeFile (TextFile logFile
                    (join_lines (filter (\<lambda>x. x \<noteq> []) [''$ '' @ display spec, out, err]))))
              (if status \<noteq> Some 0 then
                 attempt (fail (''Command failed: '' @ display spec @ ''. See '' @ logFile @ ''.''))
               else ret ()))"

definition executeHttpCheck :: "platform \<Rightarrow> string \<Rightarrow> string \<Rightarrow> string \<Rightarrow> unit script" where
  "executeHttpCheck P name u logFile =
     bindp (attempt (get_page P u)) (\<lambda>(status, body).
       seqp (writeFile (TextFile logFile (join_lines [''GET '' @ u, ''status='' @ int_to_string status, body])))
         (if status < 200 \<or> status > 299 then
            attempt (fail (''Health check failed for '' @ name @ '': '' @ int_to_string status @ ''. See '' @ logFile @ ''.''))
          else ret ()))"

definition push_step :: "StepResult \<Rightarrow> unit script" where
  "push_step r = effect (run_manifest_update (mf_steps_update (\<lambda>ss. ss @ [r])))"

definition log_of :: "platform \<Rightarrow> SchemaRehearsalContext \<Rightarrow> string \<Rightarrow> string" where
  "log_of P x name = path_join P (srx_logsDir x) (name @ ''.log'')"

definition runStep :: "platform \<Rightarrow> SchemaRehearsalContext \<Rightarrow> string \<times> (string \<Rightarrow> unit script) \<Rightarrow> unit script" where
  "runStep P x = (\<lambda>(name, action).
     let logFile = log_of P x name;
         result = (\<lambda>status. \<lparr> step_name = name, step_status = status, step_logFile = logFile \<rparr>)
     in catchp (seqp (action logFile) (push_step (result passed)))
          (\<lambda>error. seqp (push_step (result failed)) (throw error)))"

text \<open>The steps a configuration asks for, in the order of the code.\<close>

definition http_step :: "platform \<Rightarrow> string \<Rightarrow> string \<Rightarrow> string option \<Rightarrow> (string \<times> (string \<Rightarrow> unit script)) list" where
  "http_step P name label u = (if truthy u then [(name, executeHttpCheck P label (the u))] else [])"

definition rehearsal_steps ::
  "platform \<Rightarrow> SchemaRehearsalConfig \<Rightarrow> SchemaRehearsalContext \<Rightarrow> (string \<times> (string \<Rightarrow> unit script)) list" where
  "rehearsal_steps P c x =
     [(''snapshot'', executeCommand P (resolveSnapshotCommand P c x)),
      (''prisma-migrate-status'', executeCommand P (resolvePrismaCommand P [''migrate'', ''status''] None)),
      (''prisma-migrate-deploy'', executeCommand P (resolvePrismaCommand P [''migrate'', ''deploy''] None))] @
     (if usesBuiltInRestore c then
        [(''prepare-restore-database'', \<lambda>logFile.
            bindp (attempt (resolvePrepareRestoreCommand P c)) (\<lambda>spec. executeCommand P spec logFile))] else []) @
     http_step P ''health-live'' ''live'' (src_liveUrl c) @
     http_step P ''health-ready'' ''ready'' (src_readyUrl c) @
     http_step P ''metrics'' ''metrics'' (src_metricsUrl c) @
     (if src_runPaymentSmoke c then [(''payment-smoke'', executeCommand P (resolvePaymentSmokeCommand P))] else []) @
     [(''restore'', \<lambda>logFile.
         bindp (attempt (resolveRestoreCommand P c x)) (\<lambda>spec. executeCommand P spec logFile))] @
     (if truthy (src_restoreDatabaseUrl c) then
        [(''restore-prisma-status'',
          executeCommand P (resolvePrismaCommand P [''migrate'', ''status''] (src_restoreDatabaseUrl c)))] else [])"

definition skip_restore_status :: "platform \<Rightarrow> SchemaRehearsalConfig \<Rightarrow> SchemaRehearsalContext \<Rightarrow> unit script" where
  "skip_restore_status P c x =
     (if truthy (src_restoreDatabaseUrl c) then ret ()
      else
        let logFile = log_of P x ''restore-prisma-status'' in
        seqp (push_step \<lparr> step_name = ''restore-prisma-status'', step_status = skipped, step_logFile = logFile \<rparr>)
          (writeFile (TextFile logFile
             ''Skipped built-in restore verification because no restore database URL was configured.'')))"

definition manual_follow_ups :: "string list" where
  "manual_follow_ups =
     [''Redeploy the previous application artifact using the environment deployment tooling after validating the restore target.'',
      ''Re-run application health checks and pilot smoke checks against the previous artifact deployment before clearing the rehearsal.'']"

definition new_manifest :: "platform \<Rightarrow> SchemaRehearsalConfig \<Rightarrow> SchemaRehearsalContext \<Rightarrow> Manifest" where
  "new_manifest P c x =
     \<lparr> mf_rehearsalId = srx_rehearsalId x, mf_startedAt = started_iso P, mf_completedAt = None, mf_artifactDir = srx_artifactDir x, mf_backupPath = srx_backupPath x,
       mf_databaseUrl = redactDatabaseUrl P (Some (src_databaseUrl c)),
       mf_restoreDatabaseUrl = redactDatabaseUrl P (src_restoreDatabaseUrl c),
       mf_restoreAdminDatabaseUrl = redactDatabaseUrl P (src_restoreAdminDatabaseUrl c),
       mf_runPaymentSmoke = src_runPaymentSmoke c, mf_skipHttpChecks = src_skipHttpChecks c,
       mf_liveUrl = src_liveUrl c, mf_readyUrl = src_readyUrl c, mf_metricsUrl = src_metricsUrl c,
       mf_steps = [], mf_manualFollowUps = manual_follow_ups \<rparr>"

definition write_manifest :: "SchemaRehearsalContext \<Rightarrow> unit script" where
  "write_manifest x = (\<lambda>s. writeFile (ManifestFile (srx_manifestPath x) (run_manifest s)) s)"

definition complete_manifest :: "platform \<Rightarrow> SchemaRehearsalContext \<Rightarrow> unit script" where
  "complete_manifest P x = seqp (effect (run_manifest_update (mf_completedAt_update (\<lambda>_. Some (completed_iso P))))) (write_manifest x)"

definition runRehearsal :: "platform \<Rightarrow> SchemaRehearsalConfig \<Rightarrow> string \<Rightarrow> unit script" where
  "runRehearsal P c nowIso =
     bindp (attempt (assertRehearsalPreconditions P c)) (\<lambda>_.
       let x = createSchemaRehearsalContext P c nowIso in
       seqp (effect (run_manifest_update (\<lambda>_. new_manifest P c x)))
      (seqp (write_manifest x)
       (catchp
          (seqp (for_each (runStep P x) (rehearsal_steps P c x))
          (seqp (skip_restore_status P c x) (complete_manifest P x)))
          (\<lambda>error. seqp (complete_manifest P x) (throw error)))))"

section \<open>The plan\<close>

definition error_or_display :: "app_error + CommandSpec \<Rightarrow> string" where
  "error_or_display r = (case r of Inl e \<Rightarrow> error_message e | Inr spec \<Rightarrow> display spec)"

definition describeRestoreStep :: "platform \<Rightarrow> SchemaRehearsalConfig \<Rightarrow> SchemaRehearsalContext \<Rightarrow> string" where
  "describeRestoreStep P c x = error_or_display (resolveRestoreCommand P c x)"

definition describePrepareRestoreStep :: "platform \<Rightarrow> SchemaRehearsalConfig \<Rightarrow> string" where
  "describePrepareRestoreStep P c =
     (if \<not> usesBuiltInRestore c then ''skipped because a custom restore command is configured''
      else error_or_display (resolvePrepareRestoreCommand P c))"

definition or_not_configured :: "string \<Rightarrow> string" where
  "or_not_configured v = (if v = [] then ''not configured'' else v)"

definition bool_text :: "bool \<Rightarrow> string" where
  "bool_text b = (if b then ''true'' else ''false'')"

definition url_line :: "string option \<Rightarrow> string" where
  "url_line v = (case v of None \<Rightarrow> ''not configured'' | Some u \<Rightarrow> u)"

definition plan_lines :: "platform \<Rightarrow> SchemaRehearsalConfig \<Rightarrow> string \<Rightarrow> string list" where
  "plan_lines P c nowIso =
     (let x = createSchemaRehearsalContext P c nowIso in
      [''Schema rehearsal plan'',
       ''rehearsal_id: '' @ srx_rehearsalId x,
       ''artifact_dir: '' @ srx_artifactDir x,
       ''backup_path: '' @ srx_backupPath x,
       ''database_url: '' @ redactDatabaseUrl P (Some (src_databaseUrl c)),
       ''restore_database_url: '' @ or_not_configured (redactDatabaseUrl P (src_restoreDatabaseUrl c)),
       ''restore_admin_database_url: '' @ or_not_configured (redactDatabaseUrl P (src_restoreAdminDatabaseUrl c)),
       ''run_payment_smoke: '' @ bool_text (src_runPaymentSmoke c),
       ''skip_http_checks: '' @ bool_text (src_skipHttpChecks c),
       ''live_url: '' @ url_line (src_liveUrl c),
       ''ready_url: '' @ url_line (src_readyUrl c),
       ''metrics_url: '' @ url_line (src_metricsUrl c),
       ''snapshot_step: '' @ display (resolveSnapshotCommand P c x),
       ''prepare_restore_step: '' @ describePrepareRestoreStep P c,
       ''restore_step: '' @ describeRestoreStep P c x,
       ''manual_follow_up: redeploy the previous application artifact with platform tooling after restore verification''])"

text \<open>\<open>main\<close>: the printed text, or the run.\<close>

definition rehearsal_main ::
  "platform \<Rightarrow> (string \<Rightarrow> string option) \<Rightarrow> string list \<Rightarrow> string \<Rightarrow> string \<Rightarrow> (run_state, string option) prog" where
  "rehearsal_main P file argv cwd nowIso =
     (let env = loadLocalEnvFiles file (process_environment P);
          Q = P\<lparr> process_environment := env \<rparr>
      in bindp (attempt (parseMode argv)) (\<lambda>mode.
         bindp (attempt (buildSchemaRehearsalConfig Q env cwd)) (\<lambda>c.
           case mode of
             Plan \<Rightarrow> ret (Some (join_lines (plan_lines Q c nowIso)))
           | Rehearse \<Rightarrow> seqp (runRehearsal Q c nowIso) (ret None))))"

section \<open>Quoting\<close>

text \<open>How the server reads a quoted text after its opening quote: up to a quote that is not doubled.\<close>

fun sql_read :: "char \<Rightarrow> string \<Rightarrow> (string \<times> string) option" where
  "sql_read q [] = None"
| "sql_read q (c # r) =
     (if c = q then
        (case r of
           [] \<Rightarrow> Some ([], [])
         | d # r' \<Rightarrow> if d = q then map_option (apfst (Cons q)) (sql_read q r') else Some ([], r))
      else map_option (apfst (Cons c)) (sql_read q r))"

lemma sql_read_quoted:
  assumes "rest = [] \<or> hd rest \<noteq> q"
  shows "sql_read q (double_quotes q v @ q # rest) = Some (v, rest)"
proof (induction v)
  case Nil
  then show ?case using assms by (auto simp: double_quotes_def split: list.split)
next
  case (Cons c v)
  then show ?case by (simp add: double_quotes_def)
qed

section \<open>Reading back a name\<close>

lemma digit_in_upper_hex: "d < 16 \<Longrightarrow> digit_in 16 (upper_hex d) = Some d"
proof -
  assume "d < 16"
  then have "d = 0 \<or> d = 1 \<or> d = 2 \<or> d = 3 \<or> d = 4 \<or> d = 5 \<or> d = 6 \<or> d = 7 \<or> d = 8 \<or> d = 9 \<or>
    d = 10 \<or> d = 11 \<or> d = 12 \<or> d = 13 \<or> d = 14 \<or> d = 15" by presburger
  then show ?thesis
    by (elim disjE) (simp_all add: upper_hex_def digit_char_def digit_in_def lower_char_def Let_def)
qed

lemma decode_percent_byte: "b < 256 \<Longrightarrow> decode_bytes (percent_byte b @ r) = map_option (Cons b) (decode_bytes r)"
  by (cases "decode_bytes r") (simp_all add: percent_byte_def digit_in_upper_hex less_mult_imp_div_less)

lemma decode_percent_bytes:
  "(\<And>b. b \<in> set bs \<Longrightarrow> b < 256) \<Longrightarrow> decode_bytes (concat (map percent_byte bs) @ r) = map_option (append bs) (decode_bytes r)"
proof (induction bs)
  case (Cons b bs)
  then show ?case by (cases "decode_bytes r") (simp_all add: decode_percent_byte)
qed (cases "decode_bytes r"; simp)

lemma decode_encoded_char: "decode_bytes (encode_char c @ r) = map_option (append (utf8_char c)) (decode_bytes r)"
  using decode_percent_bytes [of "utf8_char c" r] unreserved_plain [of c]
  by (auto simp: encode_char_def utf8_char_bound)

lemma decode_encoded: "decodeURIComponent (encodeURIComponent x) = Some x"
proof -
  have "decode_bytes (encodeURIComponent x) = Some (utf8 x)"
    by (induction x) (simp_all add: encodeURIComponent_def utf8_def decode_encoded_char)
  then show ?thesis by (simp add: decodeURIComponent_def decode_utf8_utf8)
qed

lemma database_name_label: "getDatabaseName u l = Inr n \<Longrightarrow> getDatabaseName u l' = Inr n"
  by (auto simp: getDatabaseName_def Let_def fail_def split: option.splits if_splits)

text \<open>A name that is one path segment survives the trip through the address it is put in.\<close>

lemma encoded_name:
  assumes "x \<noteq> []" and "CHR ''/'' \<notin> set x"
  shows "getDatabaseName (u\<lparr> url_pathname := CHR ''/'' # encodeURIComponent x \<rparr>) l = Inr x"
proof -
  obtain c r where x: "x = c # r" using assms(1) by (cases x) auto
  have "hd (encode_char c) \<noteq> CHR ''/'' \<and> encode_char c \<noteq> []"
    by (auto simp: encode_char_def is_unreserved_def percent_byte_def utf8_char_def Let_def)
  then have "dropWhile (\<lambda>c. c = CHR ''/'') (encodeURIComponent x) = encodeURIComponent x" "encodeURIComponent x \<noteq> []"
    by (auto simp: x encodeURIComponent_def dropWhile_eq_self_iff hd_append)
  then show ?thesis using assms(2) by (simp add: getDatabaseName_def Let_def decode_encoded)
qed

section \<open>Runs\<close>

definition same_server :: "url \<Rightarrow> url \<Rightarrow> bool" where
  "same_server u v \<longleftrightarrow> url_hostname u = url_hostname v \<and> normalizePostgresPort u = normalizePostgresPort v"

lemma targets_Inr:
  "targetsSameDatabase P a b = Inr same \<longleftrightarrow>
     (\<exists>u v. new_URL P a = Some u \<and> new_URL P b = Some v \<and>
       (if same_server u v
        then \<exists>m n. getDatabaseName u ''database URL'' = Inr m \<and> getDatabaseName v ''database URL'' = Inr n \<and> same = (m = n)
        else \<not> same))"
  by (auto simp: targetsSameDatabase_def and_then_Inr parseDatabaseUrl_def same_server_def fail_def split: option.splits if_splits)

lemma prepare_Inr:
  assumes "resolvePrepareRestoreCommand P c = Inr spec"
  obtains admin u name where "spec = prepare_command P admin name"
    and "new_URL P (the (src_restoreDatabaseUrl c)) = Some u" and "getDatabaseName u ''database URL'' = Inr name"
    and "(case src_restoreAdminDatabaseUrl c of Some v \<Rightarrow> Inr v
          | None \<Rightarrow> deriveAdminDatabaseUrl P (the (src_restoreDatabaseUrl c))) = Inr admin"
    and "truthy (src_restoreDatabaseUrl c)"
proof -
  from assms obtain admin u name where *: "spec = prepare_command P admin name"
    "parseDatabaseUrl P (the (src_restoreDatabaseUrl c)) ''SCHEMA_REHEARSAL_RESTORE_DATABASE_URL'' = Inr u"
    "getDatabaseName u ''SCHEMA_REHEARSAL_RESTORE_DATABASE_URL'' = Inr name"
    "(case src_restoreAdminDatabaseUrl c of Some v \<Rightarrow> Inr v
      | None \<Rightarrow> deriveAdminDatabaseUrl P (the (src_restoreDatabaseUrl c))) = Inr admin"
    "truthy (src_restoreDatabaseUrl c)"
    by (auto simp: resolvePrepareRestoreCommand_def fail_def and_then_Inr Let_def split: if_splits)
  then have "new_URL P (the (src_restoreDatabaseUrl c)) = Some u"
    by (auto simp: parseDatabaseUrl_def fail_def split: option.splits)
  with * database_name_label [OF *(3)] show ?thesis by (auto intro: that)
qed

lemma preconditions_Inr:
  assumes "assertRehearsalPreconditions P c = Inr ()" and "usesBuiltInRestore c"
  shows "\<exists>spec. resolvePrepareRestoreCommand P c = Inr spec"
    and "truthy (src_restoreDatabaseUrl c) \<Longrightarrow>
      targetsSameDatabase P (src_databaseUrl c) (the (src_restoreDatabaseUrl c)) = Inr False"
  using assms by (auto simp: assertRehearsalPreconditions_def and_then_Inr fail_def split: if_splits)

text \<open>
  What the URL class promises of the address that the script writes: a one-segment path that is put in
  place of the path of a parsed address with a host is read back, and nothing else has changed.
\<close>

definition url_reads_back :: "platform \<Rightarrow> bool" where
  "url_reads_back P \<longleftrightarrow>
     (\<forall>v u x. new_URL P v = Some u \<and> url_hostname u \<noteq> [] \<and> x \<noteq> [] \<and> x \<noteq> ''.'' \<and> x \<noteq> ''..'' \<longrightarrow>
        (let w = u\<lparr> url_pathname := CHR ''/'' # encodeURIComponent x \<rparr> in new_URL P (href P w) = Some w))"

lemma derived_admin:
  assumes "url_reads_back P" and "deriveAdminDatabaseUrl P r = Inr admin" and "new_URL P r = Some u" and "url_hostname u \<noteq> []"
  shows "\<exists>w. new_URL P admin = Some w \<and> same_server w u"
proof -
  have e: "encodeURIComponent ''postgres'' = ''postgres''" by code_simp
  from assms(1) have "new_URL P r = Some u \<and> url_hostname u \<noteq> [] \<and> ''postgres'' \<noteq> [] \<and> ''postgres'' \<noteq> ''.'' \<and> ''postgres'' \<noteq> ''..'' \<longrightarrow>
      (let w = u\<lparr> url_pathname := CHR ''/'' # encodeURIComponent ''postgres'' \<rparr> in new_URL P (href P w) = Some w)"
    unfolding url_reads_back_def by blast
  moreover from assms(2,3) have "admin = href P (u\<lparr> url_pathname := ''/postgres'' \<rparr>)"
    by (simp add: deriveAdminDatabaseUrl_def parseDatabaseUrl_def and_then_def DEFAULT_ADMIN_DATABASE_def)
  ultimately have "new_URL P admin = Some (u\<lparr> url_pathname := ''/postgres'' \<rparr>)" using assms(3,4) by (simp add: e Let_def)
  then show ?thesis by (simp add: same_server_def normalizePostgresPort_def)
qed

section \<open>The manifest follows the steps\<close>

definition quiet :: "unit script \<Rightarrow> bool" where
  "quiet m \<longleftrightarrow> (\<forall>s. run_manifest (snd (m s)) = run_manifest s)"

lemma quiet_execute: "quiet (executeCommand P spec logFile)"
  by (auto simp: quiet_def executeCommand_def seqp_def bindp_def effect_def writeFile_def attempt_def fail_def
      split: prod.split)

lemma quiet_http: "quiet (executeHttpCheck P name u logFile)"
  by (auto simp: quiet_def executeHttpCheck_def seqp_def bindp_def effect_def writeFile_def attempt_def fail_def
      split: prod.split sum.split)

lemma quiet_attempt: "(\<And>x. quiet (f x)) \<Longrightarrow> quiet (bindp (attempt r) f)"
  by (cases r) (simp_all add: attempt_def quiet_def)

lemma quiet_steps: "(name, action) \<in> set (rehearsal_steps P c x) \<Longrightarrow> quiet (action logFile)"
  by (auto simp: rehearsal_steps_def http_step_def quiet_execute quiet_http intro!: quiet_attempt split: if_splits)

definition step_result :: "platform \<Rightarrow> SchemaRehearsalContext \<Rightarrow> StepStatus \<Rightarrow> string \<Rightarrow> StepResult" where
  "step_result P x status name = \<lparr> step_name = name, step_status = status, step_logFile = log_of P x name \<rparr>"

lemma runStep_run:
  assumes "runStep P x (name, action) s = (r, s')" and "quiet (action (log_of P x name))"
  shows "run_manifest s' = (run_manifest s)
    \<lparr> mf_steps := mf_steps (run_manifest s) @ [step_result P x (if r = Inr () then passed else failed) name] \<rparr>"
proof -
  obtain q s1 where a: "action (log_of P x name) s = (q, s1)" by fastforce
  with assms(2) have "run_manifest s1 = run_manifest s" by (auto simp: quiet_def dest: spec [of _ s])
  with a assms(1) show ?thesis
    by (cases q) (auto simp: runStep_def Let_def catchp_def seqp_def bindp_def push_step_def effect_def step_result_def)
qed

lemma for_each_steps:
  assumes "for_each (runStep P x) xs s = (r, s')" and "\<forall>y \<in> set xs. quiet (snd y (log_of P x (fst y)))"
  shows "\<exists>good bad rest. map fst xs = good @ bad @ rest \<and> length bad \<le> 1 \<and> (bad = [] \<longleftrightarrow> r = Inr ()) \<and>
    (bad = [] \<longrightarrow> rest = []) \<and>
    run_manifest s' = (run_manifest s)\<lparr> mf_steps := mf_steps (run_manifest s) @
      map (step_result P x passed) good @ map (step_result P x failed) bad \<rparr>"
  using assms
proof (induction xs arbitrary: s)
  case Nil
  then show ?case by (intro exI [of _ "[]"]) simp
next
  case (Cons y ys)
  obtain name action where y: "y = (name, action)" by (cases y)
  obtain q s1 where one: "runStep P x (name, action) s = (q, s1)" by fastforce
  have "quiet (action (log_of P x name))" using Cons.prems(2) by (simp add: y)
  from runStep_run [OF one this] have m: "run_manifest s1 = (run_manifest s)
    \<lparr> mf_steps := mf_steps (run_manifest s) @ [step_result P x (if q = Inr () then passed else failed) name] \<rparr>" .
  show ?case
  proof (cases q)
    case (Inl e)
    with Cons.prems(1) one y have "r = Inl e" "s' = s1" by (simp_all add: seqp_def bindp_def)
    with m Inl y show ?thesis by (intro exI [of _ "[]"] exI [of _ "[name]"] exI [of _ "map fst ys"]) simp
  next
    case (Inr u)
    with Cons.prems(1) one y have run: "for_each (runStep P x) ys s1 = (r, s')" by (simp add: seqp_def bindp_def)
    have "\<exists>good bad rest. map fst ys = good @ bad @ rest \<and> length bad \<le> 1 \<and> (bad = [] \<longleftrightarrow> r = Inr ()) \<and>
      (bad = [] \<longrightarrow> rest = []) \<and>
      run_manifest s' = (run_manifest s1)\<lparr> mf_steps := mf_steps (run_manifest s1) @
        map (step_result P x passed) good @ map (step_result P x failed) bad \<rparr>"
      by (rule Cons.IH [OF run]) (simp add: Cons.prems(2))
    then obtain good bad rest where
      ih: "map fst ys = good @ bad @ rest" "length bad \<le> 1" "bad = [] \<longleftrightarrow> r = Inr ()" "bad = [] \<longrightarrow> rest = []"
      "run_manifest s' = (run_manifest s1)\<lparr> mf_steps := mf_steps (run_manifest s1) @
        map (step_result P x passed) good @ map (step_result P x failed) bad \<rparr>" by blast
    have "map fst (y # ys) = (name # good) @ bad @ rest" by (simp add: y ih(1))
    moreover have "run_manifest s' = (run_manifest s)\<lparr> mf_steps := mf_steps (run_manifest s) @
        map (step_result P x passed) (name # good) @ map (step_result P x failed) bad \<rparr>"
      using ih(5) by (simp add: m Inr)
    ultimately show ?thesis using ih(2-4) by blast
  qed
qed

section \<open>A platform\<close>

text \<open>
  Addresses of the shape \<^verbatim>\<open>postgresql://host:port/path\<close>, every command on the path, every process
  successful, every page answered: what the platform is instantiated with in the witnesses.
\<close>

definition host_char :: "char \<Rightarrow> bool" where
  "host_char c \<longleftrightarrow> c \<noteq> CHR '':'' \<and> c \<noteq> CHR ''/''"

definition postgres_url :: "string \<Rightarrow> string \<Rightarrow> string \<Rightarrow> url" where
  "postgres_url h p path = \<lparr> url_protocol = ''postgresql:'', url_username = [], url_password = [], url_hostname = h,
     url_port = p, url_pathname = path, url_search = [], url_hash = [] \<rparr>"

definition read_postgres :: "string \<Rightarrow> url option" where
  "read_postgres v =
     (if take 13 v = ''postgresql://'' then
        let r = drop 13 v; t = dropWhile host_char r in
        Some (case t of
            [] \<Rightarrow> postgres_url (takeWhile host_char r) [] []
          | c # t' \<Rightarrow>
              if c = CHR '':'' then postgres_url (takeWhile host_char r) (takeWhile (\<lambda>c. c \<noteq> CHR ''/'') t') (dropWhile (\<lambda>c. c \<noteq> CHR ''/'') t')
              else postgres_url (takeWhile host_char r) [] t)
      else None)"

definition write_postgres :: "url \<Rightarrow> string" where
  "write_postgres u = ''postgresql://'' @ url_hostname u @
     (if url_port u = [] then [] else CHR '':'' # url_port u) @ url_pathname u"

definition quiet_platform :: platform where
  "quiet_platform = \<lparr> new_URL = read_postgres, relative_URL = (\<lambda>path base. Some (base @ path)), href = write_postgres,
     path_join = (\<lambda>a b. a @ ''/'' @ b), path_resolve = (\<lambda>a b. a @ ''/'' @ b), on_path = (\<lambda>_. True),
     spawn = (\<lambda>_. (Some 0, [], [])), get_page = (\<lambda>_. Inr (200, [])), prisma_cli = ''prisma'',
     exec_path = ''node'', is_win32 = False, process_environment = (\<lambda>_. None),
     started_iso = ''2026-01-02T03:04:05.679Z'', completed_iso = ''2026-01-02T03:05:06.789Z'' \<rparr>"

lemma read_write_postgres:
  assumes "\<forall>c \<in> set h. host_char c" and "\<forall>c \<in> set p. c \<noteq> CHR ''/''"
  shows "read_postgres (write_postgres (postgres_url h p (CHR ''/'' # r))) = Some (postgres_url h p (CHR ''/'' # r))"
proof -
  have *: "takeWhile host_char (h @ c # t) = h" "dropWhile host_char (h @ c # t) = c # t" if "\<not> host_char c" for c t
    using assms(1) that by (simp_all add: takeWhile_tail takeWhile_append2 dropWhile_append2)
  have "takeWhile (\<lambda>c. c \<noteq> CHR ''/'') (p @ CHR ''/'' # r) = p" "dropWhile (\<lambda>c. c \<noteq> CHR ''/'') (p @ CHR ''/'' # r) = CHR ''/'' # r"
    using assms(2) by (simp_all add: takeWhile_append2 dropWhile_append2)
  then show ?thesis
    by (cases "p = []") (simp_all add: read_postgres_def write_postgres_def postgres_url_def Let_def * host_char_def)
qed

lemma read_postgres_shape:
  assumes "read_postgres v = Some u"
  obtains h p path where "u = postgres_url h p path" "\<forall>c \<in> set h. host_char c" "\<forall>c \<in> set p. c \<noteq> CHR ''/''"
proof -
  define h where "h = takeWhile host_char (drop 13 v)"
  have h: "\<forall>c \<in> set h. host_char c" by (auto simp: h_def dest: set_takeWhileD)
  have "\<forall>c \<in> set (takeWhile (\<lambda>c. c \<noteq> CHR ''/'') t). c \<noteq> CHR ''/''" for t by (auto dest: set_takeWhileD)
  with assms that [OF _ h] show ?thesis
    by (fastforce simp: read_postgres_def Let_def h_def [symmetric] split: if_splits list.splits)
qed

lemma quiet_platform_reads_back: "url_reads_back quiet_platform"
  unfolding url_reads_back_def
proof (intro allI impI)
  fix v u x
  assume "new_URL quiet_platform v = Some u \<and> url_hostname u \<noteq> [] \<and> x \<noteq> [] \<and> x \<noteq> ''.'' \<and> x \<noteq> ''..''"
  then have "read_postgres v = Some u" by (simp add: quiet_platform_def)
  from read_postgres_shape [OF this] obtain h p path where
    u: "u = postgres_url h p path" "\<forall>c \<in> set h. host_char c" "\<forall>c \<in> set p. c \<noteq> CHR ''/''" .
  show "let w = u\<lparr>url_pathname := CHR ''/'' # encodeURIComponent x\<rparr> in
          new_URL quiet_platform (href quiet_platform w) = Some w"
    using read_write_postgres [OF u(2,3), of "encodeURIComponent x"]
    by (simp add: u(1) quiet_platform_def postgres_url_def)
qed

section \<open>Properties\<close>

text \<open>
  The server reads back, from the quoted part of each of the three statements, the very
  name of the restore database, whatever characters it has, and the rest of the statement after it: a
  name cannot end its own quoting.
\<close>

theorem restore_sql_names_one_database:
  "sql_read (CHR 0x22) (drop (length ''DROP DATABASE IF EXISTS .'') (dropDatabaseSql name)) = Some (name, '';'') \<and>
   sql_read (CHR 0x22) (drop (length ''CREATE DATABASE .'') (createDatabaseSql name)) = Some (name, '';'') \<and>
   sql_read (CHR 0x27)
     (drop (length ''SELECT pg_terminate_backend(pid) FROM pg_stat_activity WHERE datname = .'') (terminateConnectionsSql name)) =
     Some (name, '' AND pid <> pg_backend_pid();'')"
proof -
  have "sql_read q (double_quotes q v @ q # CHR '';'' # r) = Some (v, CHR '';'' # r)" if "q \<noteq> CHR '';''" for q v r
    by (rule sql_read_quoted) (use that in simp)
  moreover have "sql_read q (double_quotes q v @ q # CHR '' '' # r) = Some (v, CHR '' '' # r)" if "q \<noteq> CHR '' ''" for q v r
    by (rule sql_read_quoted) (use that in simp)
  ultimately show ?thesis
    by (simp add: dropDatabaseSql_def createDatabaseSql_def terminateConnectionsSql_def
        quotePostgresIdentifier_def quotePostgresStringLiteral_def)
qed

lemma build_admin:
  assumes "buildSchemaRehearsalConfig P env cwd = Inr c"
    and "getOptionalEnv ''SCHEMA_REHEARSAL_ADMIN_DATABASE_URL'' env = None"
    and "src_restoreAdminDatabaseUrl c = Some v"
  shows "deriveAdminDatabaseUrl P (the (src_restoreDatabaseUrl c)) = Inr v"
  using assms
  by (auto simp: buildSchemaRehearsalConfig_def Let_def and_then_Inr configured_admin_def split: if_splits option.splits)

text \<open>
  When no other administration address is configured and the preconditions pass, the
  commands that drop and create the restore database are sent to a server on which the source database,
  if it is there at all, has another name.
\<close>

theorem drop_spares_the_source:
  assumes "url_reads_back P"
    and "buildSchemaRehearsalConfig P env cwd = Inr c"
    and "getOptionalEnv ''SCHEMA_REHEARSAL_ADMIN_DATABASE_URL'' env = None"
    and "assertRehearsalPreconditions P c = Inr ()" and "usesBuiltInRestore c"
    and "new_URL P (the (src_restoreDatabaseUrl c)) = Some u" and "url_hostname u \<noteq> []"
  shows "\<exists>admin name source target. resolvePrepareRestoreCommand P c = Inr (prepare_command P admin name) \<and>
    new_URL P (src_databaseUrl c) = Some source \<and> new_URL P admin = Some target \<and>
    (same_server target source \<longrightarrow> getDatabaseName source ''DATABASE_URL'' \<noteq> Inr name)"
proof -
  from preconditions_Inr(1) [OF assms(4,5)] obtain spec where spec: "resolvePrepareRestoreCommand P c = Inr spec" by blast
  from prepare_Inr [OF spec] obtain admin name where p: "spec = prepare_command P admin name"
      "getDatabaseName u ''database URL'' = Inr name" "truthy (src_restoreDatabaseUrl c)"
      "(case src_restoreAdminDatabaseUrl c of Some v \<Rightarrow> Inr v
        | None \<Rightarrow> deriveAdminDatabaseUrl P (the (src_restoreDatabaseUrl c))) = Inr admin"
    using assms(6) by (metis option.inject)
  from p(4) have "deriveAdminDatabaseUrl P (the (src_restoreDatabaseUrl c)) = Inr admin"
    using build_admin [OF assms(2,3)] by (auto split: option.splits)
  from derived_admin [OF assms(1) this assms(6,7)] obtain w where w: "new_URL P admin = Some w" "same_server w u" by blast
  from preconditions_Inr(2) [OF assms(4,5) p(3)] assms(6) obtain v where v: "new_URL P (src_databaseUrl c) = Some v"
      and other: "same_server v u \<Longrightarrow> getDatabaseName v ''database URL'' \<noteq> Inr name"
    using p(2) by (auto simp: targets_Inr split: if_splits)
  have "same_server w v \<longrightarrow> getDatabaseName v ''DATABASE_URL'' \<noteq> Inr name"
  proof (intro impI notI)
    assume "same_server w v" and "getDatabaseName v ''DATABASE_URL'' = Inr name"
    with w(2) have "same_server v u" "getDatabaseName v ''database URL'' = Inr name"
      by (auto simp: same_server_def intro: database_name_label)
    with other show False by blast
  qed
  with spec p(1) v w(1) show ?thesis by blast
qed

definition sample_env :: process_env where
  "sample_env = [''DATABASE_URL'' \<mapsto> ''postgresql://db:5433/govibe'', ''SCHEMA_REHEARSAL_SKIP_HTTP_CHECKS'' \<mapsto> ''true'']"

definition sample_config :: SchemaRehearsalConfig where
  "sample_config = (case buildSchemaRehearsalConfig quiet_platform sample_env ''/app'' of Inr c \<Rightarrow> c)"

theorem drop_spares_the_source_witness:
  "resolvePrepareRestoreCommand quiet_platform sample_config =
     Inr (prepare_command quiet_platform ''postgresql://db:5433/postgres'' ''govibe_restore'') \<and>
   (\<exists>admin name source target. resolvePrepareRestoreCommand quiet_platform sample_config = Inr (prepare_command quiet_platform admin name) \<and>
    new_URL quiet_platform (src_databaseUrl sample_config) = Some source \<and> new_URL quiet_platform admin = Some target \<and>
    (same_server target source \<longrightarrow> getDatabaseName source ''DATABASE_URL'' \<noteq> Inr name))"
proof -
  have c: "buildSchemaRehearsalConfig quiet_platform sample_env ''/app'' = Inr sample_config" by code_simp
  have u: "new_URL quiet_platform (the (src_restoreDatabaseUrl sample_config)) = Some (postgres_url ''db'' ''5433'' ''/govibe_restore'')"
    by code_simp
  have f: "\<not> truthy (src_restoreCommandTemplate sample_config)" "truthy (src_restoreDatabaseUrl sample_config)" by code_simp+
  have a: "src_restoreAdminDatabaseUrl sample_config = Some ''postgresql://db:5433/postgres''" by code_simp
  have t: "targetsSameDatabase quiet_platform ''postgresql://db:5433/postgres'' (the (src_restoreDatabaseUrl sample_config)) = Inr False"
    by code_simp
  have n: "getDatabaseName (postgres_url ''db'' ''5433'' ''/govibe_restore'') ''SCHEMA_REHEARSAL_RESTORE_DATABASE_URL'' = Inr ''govibe_restore''"
    by code_simp
  have "resolvePrepareRestoreCommand quiet_platform sample_config =
      Inr (prepare_command quiet_platform ''postgresql://db:5433/postgres'' ''govibe_restore'')"
    by (simp add: resolvePrepareRestoreCommand_def f a t n u parseDatabaseUrl_def and_then_def Let_def)
  moreover have "getOptionalEnv ''SCHEMA_REHEARSAL_ADMIN_DATABASE_URL'' sample_env = None" by code_simp
  moreover have "assertRehearsalPreconditions quiet_platform sample_config = Inr ()" by code_simp
  moreover have "usesBuiltInRestore sample_config" by code_simp
  moreover have "url_hostname (postgres_url ''db'' ''5433'' ''/govibe_restore'') \<noteq> []" by (simp add: postgres_url_def)
  ultimately show ?thesis using drop_spares_the_source [OF quiet_platform_reads_back c _ _ _ u] by blast
qed

text \<open>
  The administration address is compared with the restore address only, so one that is configured may
  lead to the server of the source database, where the name of the restore database (taken from another
  server) is the name of the source.
\<close>

definition override_env :: process_env where
  "override_env = sample_env(''SCHEMA_REHEARSAL_RESTORE_DATABASE_URL'' \<mapsto> ''postgresql://copy:5433/govibe'',
     ''SCHEMA_REHEARSAL_ADMIN_DATABASE_URL'' \<mapsto> ''postgresql://db:5433/postgres'')"

definition override_config :: SchemaRehearsalConfig where
  "override_config = (case buildSchemaRehearsalConfig quiet_platform override_env ''/app'' of Inr c \<Rightarrow> c)"

lemma override_can_drop_the_source:
  "buildSchemaRehearsalConfig quiet_platform override_env ''/app'' = Inr override_config"
  "src_databaseUrl override_config = ''postgresql://db:5433/govibe''"
  "assertRehearsalPreconditions quiet_platform override_config = Inr ()"
  "resolvePrepareRestoreCommand quiet_platform override_config =
     Inr (prepare_command quiet_platform ''postgresql://db:5433/postgres'' ''govibe'')"
proof -
  show "buildSchemaRehearsalConfig quiet_platform override_env ''/app'' = Inr override_config"
    "src_databaseUrl override_config = ''postgresql://db:5433/govibe''"
    "assertRehearsalPreconditions quiet_platform override_config = Inr ()" by code_simp+
  have f: "\<not> truthy (src_restoreCommandTemplate override_config)" "truthy (src_restoreDatabaseUrl override_config)" by code_simp+
  have a: "src_restoreAdminDatabaseUrl override_config = Some ''postgresql://db:5433/postgres''" by code_simp
  have t: "targetsSameDatabase quiet_platform ''postgresql://db:5433/postgres'' (the (src_restoreDatabaseUrl override_config)) = Inr False"
    by code_simp
  have u: "new_URL quiet_platform (the (src_restoreDatabaseUrl override_config)) = Some (postgres_url ''copy'' ''5433'' ''/govibe'')"
    by code_simp
  have n: "getDatabaseName (postgres_url ''copy'' ''5433'' ''/govibe'') ''SCHEMA_REHEARSAL_RESTORE_DATABASE_URL'' = Inr ''govibe''"
    by code_simp
  show "resolvePrepareRestoreCommand quiet_platform override_config =
      Inr (prepare_command quiet_platform ''postgresql://db:5433/postgres'' ''govibe'')"
    by (simp add: resolvePrepareRestoreCommand_def f a t n u parseDatabaseUrl_def and_then_def Let_def)
qed

text \<open>The run, past its preconditions.\<close>

definition rehearsal_record :: "platform \<Rightarrow> SchemaRehearsalConfig \<Rightarrow> SchemaRehearsalContext \<Rightarrow> string list \<Rightarrow> string list \<Rightarrow> Manifest" where
  "rehearsal_record P c x good bad = (new_manifest P c x)
     \<lparr> mf_steps := map (step_result P x passed) good @ map (step_result P x failed) bad @
         (if bad = [] \<and> \<not> truthy (src_restoreDatabaseUrl c) then [step_result P x skipped ''restore-prisma-status''] else []),
       mf_completedAt := Some (completed_iso P) \<rparr>"

definition begun :: "platform \<Rightarrow> SchemaRehearsalConfig \<Rightarrow> SchemaRehearsalContext \<Rightarrow> run_state \<Rightarrow> run_state" where
  "begun P c x s = s\<lparr> run_manifest := new_manifest P c x,
     run_files := run_files s @ [ManifestFile (srx_manifestPath x) (new_manifest P c x)] \<rparr>"

lemma runRehearsal_run:
  assumes "assertRehearsalPreconditions P c = Inr ()" and "x = createSchemaRehearsalContext P c nowIso"
  shows "runRehearsal P c nowIso s =
    catchp (seqp (for_each (runStep P x) (rehearsal_steps P c x)) (seqp (skip_restore_status P c x) (complete_manifest P x)))
      (\<lambda>error. seqp (complete_manifest P x) (throw error)) (begun P c x s)"
proof -
  have "run_files_update (\<lambda>fs. fs @ [ManifestFile (srx_manifestPath x) (new_manifest P c x)])
      (s\<lparr> run_manifest := new_manifest P c x \<rparr>) = begun P c x s" by (simp add: begun_def)
  then show ?thesis
    by (simp add: runRehearsal_def assms attempt_def Let_def seqp_def bindp_def effect_def write_manifest_def
        writeFile_def ret_def)
qed

lemma complete_manifest_run:
  "complete_manifest P x s = (Inr (), s\<lparr> run_manifest := (run_manifest s)\<lparr> mf_completedAt := Some (completed_iso P) \<rparr>,
     run_files := run_files s @ [ManifestFile (srx_manifestPath x) ((run_manifest s)\<lparr> mf_completedAt := Some (completed_iso P) \<rparr>)] \<rparr>)"
  by (simp add: complete_manifest_def seqp_def bindp_def effect_def write_manifest_def writeFile_def)

lemma skip_restore_status_run:
  "fst (skip_restore_status P c x s) = Inr ()"
  "run_manifest (snd (skip_restore_status P c x s)) = (run_manifest s)\<lparr> mf_steps := mf_steps (run_manifest s) @
     (if truthy (src_restoreDatabaseUrl c) then [] else [step_result P x skipped ''restore-prisma-status'']) \<rparr>"
  by (simp_all add: skip_restore_status_def seqp_def bindp_def effect_def push_step_def writeFile_def ret_def Let_def step_result_def)

lemma runRehearsal_tail:
  assumes "assertRehearsalPreconditions P c = Inr ()" and "x = createSchemaRehearsalContext P c nowIso"
    and "for_each (runStep P x) (rehearsal_steps P c x) (begun P c x s) = (q, s1)"
  shows "fst (runRehearsal P c nowIso s) = q"
    and "q = Inl e \<Longrightarrow> snd (runRehearsal P c nowIso s) = snd (complete_manifest P x s1)"
    and "q = Inr () \<Longrightarrow> snd (runRehearsal P c nowIso s) = snd (complete_manifest P x (snd (skip_restore_status P c x s1)))"
  using skip_restore_status_run(1) [of P c x s1]
  by (cases q; cases "skip_restore_status P c x s1";
      simp add: runRehearsal_run [OF assms(1,2)] catchp_def seqp_def bindp_def assms(3) complete_manifest_run throw_def)+

text \<open>
  Once the preconditions hold, the manifest that is written last tells how the run went:
  the steps that the configuration asks for, in their order, all passed, or passed up to one failed step,
  after which nothing is attempted; the run fails exactly when a step did.
\<close>

theorem rehearsal_is_recorded:
  assumes "assertRehearsalPreconditions P c = Inr ()" and "runRehearsal P c nowIso s = (r, s')"
    and "x = createSchemaRehearsalContext P c nowIso"
  shows "\<exists>good bad rest. map fst (rehearsal_steps P c x) = good @ bad @ rest \<and> length bad \<le> 1 \<and>
    (bad = [] \<longleftrightarrow> r = Inr ()) \<and> (bad = [] \<longrightarrow> rest = []) \<and>
    last (run_files s') = ManifestFile (srx_manifestPath x) (rehearsal_record P c x good bad)"
proof -
  obtain q s1 where steps: "for_each (runStep P x) (rehearsal_steps P c x) (begun P c x s) = (q, s1)" by fastforce
  have quiet: "\<forall>y \<in> set (rehearsal_steps P c x). quiet (snd y (log_of P x (fst y)))"
    using quiet_steps by (metis prod.collapse)
  from for_each_steps [OF steps quiet] obtain good bad rest where
    g: "map fst (rehearsal_steps P c x) = good @ bad @ rest" "length bad \<le> 1" "bad = [] \<longleftrightarrow> q = Inr ()"
      "bad = [] \<longrightarrow> rest = []"
      "run_manifest s1 = (run_manifest (begun P c x s))\<lparr> mf_steps := mf_steps (run_manifest (begun P c x s)) @
        map (step_result P x passed) good @ map (step_result P x failed) bad \<rparr>" by blast
  have m: "run_manifest s1 = (new_manifest P c x)\<lparr> mf_steps :=
        map (step_result P x passed) good @ map (step_result P x failed) bad \<rparr>"
    using g(5) by (simp add: begun_def new_manifest_def)
  note tail = runRehearsal_tail [OF assms(1,3) steps]
  have "r = q" using tail(1) assms(2) by simp
  moreover have "last (run_files s') = ManifestFile (srx_manifestPath x) (rehearsal_record P c x good bad)"
  proof (cases q)
    case (Inl e)
    with tail(2) assms(2) g(3) show ?thesis by (simp add: complete_manifest_run m rehearsal_record_def)
  next
    case (Inr u)
    with tail(3) assms(2) g(3) show ?thesis
      by (simp add: complete_manifest_run skip_restore_status_run(2) m rehearsal_record_def)
  qed
  ultimately show ?thesis using g(1-4) by blast
qed

theorem rehearsal_is_recorded_witness:
  "\<exists>good bad rest. let x = createSchemaRehearsalContext quiet_platform sample_config ''2026-01-02T03:04:05.678Z'' in
    map fst (rehearsal_steps quiet_platform sample_config x) = good @ bad @ rest \<and>
    last (run_files (snd (runRehearsal quiet_platform sample_config ''2026-01-02T03:04:05.678Z''
      \<lparr> run_commands = [], run_files = [], run_manifest = new_manifest quiet_platform sample_config x \<rparr>))) =
    ManifestFile (srx_manifestPath x) (rehearsal_record quiet_platform sample_config x good bad)"
proof -
  let ?now = "''2026-01-02T03:04:05.678Z''"
  let ?x = "createSchemaRehearsalContext quiet_platform sample_config ?now"
  let ?s = "\<lparr> run_commands = [], run_files = [], run_manifest = new_manifest quiet_platform sample_config ?x \<rparr>"
  have p: "assertRehearsalPreconditions quiet_platform sample_config = Inr ()" by code_simp
  obtain r s' where run: "runRehearsal quiet_platform sample_config ?now ?s = (r, s')" by fastforce
  from rehearsal_is_recorded [OF p run refl] run show ?thesis unfolding Let_def by auto
qed

text \<open>
  When the snapshot command does not exit with 0, the run fails and no other command has been
  started: no migration is deployed and no database is dropped without a snapshot.
\<close>

theorem failed_snapshot_stops:
  assumes "fst (spawn P (resolveSnapshotCommand P c (createSchemaRehearsalContext P c nowIso))) \<noteq> Some 0"
    and "assertRehearsalPreconditions P c = Inr ()"
    and "runRehearsal P c nowIso s = (r, s')"
  shows "(\<exists>message. r = Inl (OtherError ''Error'' message)) \<and>
    run_commands s' = run_commands s @ [resolveSnapshotCommand P c (createSchemaRehearsalContext P c nowIso)]"
proof -
  define x where "x = createSchemaRehearsalContext P c nowIso"
  obtain status out err where sp: "spawn P (resolveSnapshotCommand P c x) = (status, out, err)" by (metis prod_cases3)
  with assms(1) have "status \<noteq> Some 0" by (simp add: x_def)
  then have "\<exists>message s1. for_each (runStep P x) (rehearsal_steps P c x) (begun P c x s) = (Inl (OtherError ''Error'' message), s1) \<and>
      run_commands s1 = run_commands s @ [resolveSnapshotCommand P c x]"
    by (auto simp: rehearsal_steps_def runStep_def executeCommand_def sp catchp_def seqp_def bindp_def effect_def
        writeFile_def push_step_def attempt_def fail_def throw_def Let_def begun_def)
  then obtain message s1 where steps: "for_each (runStep P x) (rehearsal_steps P c x) (begun P c x s) =
      (Inl (OtherError ''Error'' message), s1)" and s1: "run_commands s1 = run_commands s @ [resolveSnapshotCommand P c x]" by blast
  from runRehearsal_tail(1,2) [OF assms(2) x_def steps] assms(3) s1 show ?thesis
    by (simp add: complete_manifest_run x_def)
qed

definition broken_platform :: platform where
  "broken_platform = quiet_platform\<lparr> spawn := (\<lambda>_. (Some 1, [], ''no space left'')) \<rparr>"

theorem failed_snapshot_stops_witness:
  "let s = \<lparr> run_commands = [], run_files = [],
       run_manifest = new_manifest broken_platform sample_config (createSchemaRehearsalContext broken_platform sample_config ''now'') \<rparr>
   in run_commands (snd (runRehearsal broken_platform sample_config ''now'' s)) =
     [resolveSnapshotCommand broken_platform sample_config (createSchemaRehearsalContext broken_platform sample_config ''now'')]"
proof -
  have p: "assertRehearsalPreconditions broken_platform sample_config = Inr ()" by code_simp
  have f: "fst (spawn broken_platform z) \<noteq> Some 0" for z by (simp add: broken_platform_def)
  from failed_snapshot_stops [OF f p, of "''now''"] show ?thesis unfolding Let_def by (metis append_Nil prod.collapse run_state.select_convs(1))
qed

end
