(* ===== verification/Redis_Cache.thy ===== *)
theory Redis_Cache
  imports Http_Errors Json_Text
begin

text \<open>
  The cache (\<^verbatim>\<open>src/shared/redis\<close>): the replay protection of QR nonces, the admission cache and the plain
  service. The state is what the server keeps: texts with an optional time of expiry, in milliseconds, at
  keys; \<open>rds_fault\<close> is the message of the error that every command raises while the server cannot be
  reached. A command is given the time at which the server runs it. The key prefix of the client is the
  same for all and left out.
\<close>

section \<open>The server\<close>

record redis =
  rds_rows :: "string \<rightharpoonup> string \<times> int option"
  rds_fault :: "string option"
  rds_status :: string

definition redis_error :: "string \<Rightarrow> app_error" where
  "redis_error m = OtherError ''Error'' m"

definition reply :: "(redis, 'a) prog \<Rightarrow> (redis, 'a) prog" where
  "reply c = (\<lambda>s. case rds_fault s of Some m \<Rightarrow> (Inl (redis_error m), s) | None \<Rightarrow> c s)"

definition alive :: "int \<Rightarrow> int option \<Rightarrow> bool" where
  "alive now e \<longleftrightarrow> (case e of None \<Rightarrow> True | Some t \<Rightarrow> now < t)"

definition row_at :: "int \<Rightarrow> string \<Rightarrow> redis \<Rightarrow> (string \<times> int option) option" where
  "row_at now key s = (case rds_rows s key of None \<Rightarrow> None | Some (v, e) \<Rightarrow> if alive now e then Some (v, e) else None)"

definition redis_get :: "int \<Rightarrow> string \<Rightarrow> (redis, string option) prog" where
  "redis_get now key = reply (\<lambda>s. (Inr (map_option fst (row_at now key s)), s))"

definition redis_exists :: "int \<Rightarrow> string \<Rightarrow> (redis, bool) prog" where
  "redis_exists now key = reply (\<lambda>s. (Inr (row_at now key s \<noteq> None), s))"

text \<open>\<open>SET key value [EX seconds] [NX]\<close>: whether the answer is \<open>OK\<close>.\<close>

definition redis_set :: "int \<Rightarrow> string \<Rightarrow> string \<Rightarrow> int option \<Rightarrow> bool \<Rightarrow> (redis, bool) prog" where
  "redis_set now key v ex nx = reply (\<lambda>s.
     if (case ex of Some ttl \<Rightarrow> ttl \<le> 0 | None \<Rightarrow> False) then
       (Inl (redis_error ''ERR invalid expire time in set command''), s)
     else if nx \<and> row_at now key s \<noteq> None then (Inr False, s)
     else (Inr True, s\<lparr> rds_rows := (rds_rows s)(key \<mapsto> (v, map_option (\<lambda>ttl. now + 1000 * ttl) ex)) \<rparr>))"

definition redis_del :: "string \<Rightarrow> (redis, unit) prog" where
  "redis_del key = reply (\<lambda>s. (Inr (), s\<lparr> rds_rows := (rds_rows s)(key := None) \<rparr>))"

text \<open>\<open>INCR\<close> keeps the expiry of a counter and starts a missing one at 0.\<close>

definition integer_text :: "string \<Rightarrow> int option" where
  "integer_text v =
     (let number = (\<lambda>x. x \<noteq> [] \<and> list_all (\<lambda>c. digit_in 10 c \<noteq> None) x) in
      if number v then Some (int (digits_value v))
      else if v \<noteq> [] \<and> hd v = CHR ''-'' \<and> number (tl v) then Some (- int (digits_value (tl v)))
      else None)"

definition redis_incr :: "int \<Rightarrow> string \<Rightarrow> (redis, int) prog" where
  "redis_incr now key = reply (\<lambda>s.
     case (case row_at now key s of None \<Rightarrow> Some (0, None) | Some (v, e) \<Rightarrow> map_option (\<lambda>i. (i, e)) (integer_text v)) of
       None \<Rightarrow> (Inl (redis_error ''ERR value is not an integer or out of range''), s)
     | Some (i, e) \<Rightarrow>
         if i + 1 > 2 ^ 63 - 1 then (Inl (redis_error ''ERR increment or decrement would overflow''), s)
         else (Inr (i + 1), s\<lparr> rds_rows := (rds_rows s)(key \<mapsto> (int_to_string (i + 1), e)) \<rparr>))"

section \<open>Keys\<close>

definition qrNonce :: "string \<Rightarrow> string \<Rightarrow> string \<Rightarrow> string" where
  "qrNonce eventId ticketId nonce = ''qr_nonce:'' @ eventId @ '':'' @ ticketId @ '':'' @ nonce"

definition admissionState :: "string \<Rightarrow> string" where
  "admissionState ticketId = ''admission_state:'' @ ticketId"

definition revokedTicket :: "string \<Rightarrow> string" where
  "revokedTicket ticketId = ''revoked_ticket:'' @ ticketId"

section \<open>Nonces\<close>

definition isNonceUsed :: "int \<Rightarrow> string \<Rightarrow> string \<Rightarrow> string \<Rightarrow> (redis, bool) prog" where
  "isNonceUsed now eventId ticketId nonce = redis_exists now (qrNonce eventId ticketId nonce)"

definition markNonceUsed :: "int \<Rightarrow> string \<Rightarrow> string \<Rightarrow> string \<Rightarrow> int \<Rightarrow> (redis, unit) prog" where
  "markNonceUsed now eventId ticketId nonce ttlSeconds =
     seqp (redis_set now (qrNonce eventId ticketId nonce) ''1'' (Some ttlSeconds) False) (ret ())"

definition consumeNonceAtomically :: "int \<Rightarrow> string \<Rightarrow> string \<Rightarrow> string \<Rightarrow> int \<Rightarrow> (redis, bool) prog" where
  "consumeNonceAtomically now eventId ticketId nonce ttlSeconds =
     catchp (redis_set now (qrNonce eventId ticketId nonce) ''1'' (Some ttlSeconds) True)
       (\<lambda>error. throw (OtherError ''Error'' (''Nonce replay protection unavailable: '' @ error_message error)))"

section \<open>The admission cache\<close>

definition DEFAULT_TTL_SECONDS :: int where "DEFAULT_TTL_SECONDS = 300"

definition getTicketState :: "int \<Rightarrow> string \<Rightarrow> (redis, string option) prog" where
  "getTicketState now ticketId = catchp (redis_get now (admissionState ticketId)) (\<lambda>_. ret None)"

definition setTicketState :: "int \<Rightarrow> string \<Rightarrow> string \<Rightarrow> int \<Rightarrow> (redis, unit) prog" where
  "setTicketState now ticketId state ttlSeconds =
     catchp (seqp (redis_set now (admissionState ticketId) state (Some ttlSeconds) False) (ret ())) (\<lambda>_. ret ())"

definition isTicketRevoked :: "int \<Rightarrow> string \<Rightarrow> (redis, bool) prog" where
  "isTicketRevoked now ticketId = catchp (redis_exists now (revokedTicket ticketId)) (\<lambda>_. ret False)"

definition markTicketRevoked :: "int \<Rightarrow> string \<Rightarrow> int \<Rightarrow> (redis, unit) prog" where
  "markTicketRevoked now ticketId ttlSeconds =
     catchp (seqp (redis_set now (revokedTicket ticketId) ''1'' (Some ttlSeconds) False) (ret ())) (\<lambda>_. ret ())"

definition primeAdmissionState :: "int \<Rightarrow> string \<Rightarrow> string \<Rightarrow> (redis, unit) prog" where
  "primeAdmissionState now ticketId state = setTicketState now ticketId state DEFAULT_TTL_SECONDS"

definition clearTicketState :: "string \<Rightarrow> (redis, unit) prog" where
  "clearTicketState ticketId = catchp (redis_del (admissionState ticketId)) (\<lambda>_. ret ())"

section \<open>The service\<close>

text \<open>A time to live of 0 counts as none.\<close>

definition given_ttl :: "int option \<Rightarrow> int option" where
  "given_ttl ttlSeconds = (if ttlSeconds = Some 0 then None else ttlSeconds)"

definition RedisService_get :: "int \<Rightarrow> string \<Rightarrow> (redis, string option) prog" where
  "RedisService_get now key = redis_get now key"

definition RedisService_set :: "int \<Rightarrow> string \<Rightarrow> string \<Rightarrow> int option \<Rightarrow> (redis, unit) prog" where
  "RedisService_set now key v ttlSeconds = seqp (redis_set now key v (given_ttl ttlSeconds) False) (ret ())"

definition setIfNotExists :: "int \<Rightarrow> string \<Rightarrow> string \<Rightarrow> int option \<Rightarrow> (redis, bool) prog" where
  "setIfNotExists now key v ttlSeconds = redis_set now key v (given_ttl ttlSeconds) True"

definition RedisService_delete :: "string \<Rightarrow> (redis, unit) prog" where
  "RedisService_delete key = redis_del key"

definition RedisService_increment :: "int \<Rightarrow> string \<Rightarrow> (redis, int) prog" where
  "RedisService_increment now key = redis_incr now key"

text \<open>The server answers a \<open>PING\<close> with \<open>PONG\<close>.\<close>

definition RedisService_ping :: "(redis, unit) prog" where
  "RedisService_ping = reply (ret ())"

definition RedisService_checkHealth :: "(redis, unit) prog" where
  "RedisService_checkHealth = reply (ret ())"

definition RedisService_connect :: "(redis, unit) prog" where
  "RedisService_connect = (\<lambda>s.
     if rds_status s = ''wait'' then reply (\<lambda>s. (Inr (), s\<lparr> rds_status := ''ready'' \<rparr>)) s else ret () s)"

definition RedisService_disconnect :: "(redis, unit) prog" where
  "RedisService_disconnect = (\<lambda>s.
     if rds_status s = ''end'' then ret () s else reply (\<lambda>s. (Inr (), s\<lparr> rds_status := ''end'' \<rparr>)) s)"

section \<open>What others do to a nonce\<close>

datatype cache_op =
    Consume string string string int
  | IsUsed string string string
  | GetState string
  | SetState string string int
  | IsRevoked string
  | MarkRevoked string int
  | ClearState string
  | Outage "string option"

definition discard :: "(redis, 'a) prog \<Rightarrow> (redis, unit) prog" where
  "discard m = (\<lambda>s. (Inr (), snd (m s)))"

fun run_op :: "int \<Rightarrow> cache_op \<Rightarrow> (redis, unit) prog" where
  "run_op now (Consume e t n ttl) = discard (consumeNonceAtomically now e t n ttl)"
| "run_op now (IsUsed e t n) = discard (isNonceUsed now e t n)"
| "run_op now (GetState t) = discard (getTicketState now t)"
| "run_op now (SetState t st ttl) = setTicketState now t st ttl"
| "run_op now (IsRevoked t) = discard (isTicketRevoked now t)"
| "run_op now (MarkRevoked t ttl) = markTicketRevoked now t ttl"
| "run_op now (ClearState t) = clearTicketState t"
| "run_op now (Outage m) = (\<lambda>s. (Inr (), s\<lparr> rds_fault := m \<rparr>))"

definition run_ops :: "(int \<times> cache_op) list \<Rightarrow> (redis, unit) prog" where
  "run_ops ops = for_each (\<lambda>(now, op). run_op now op) ops"

lemma nonce_key_apart: "qrNonce e t n \<noteq> admissionState i" "qrNonce e t n \<noteq> revokedTicket i"
  by (simp_all add: qrNonce_def admissionState_def revokedTicket_def)

text \<open>Neither id of a nonce has a colon in it, so that the key determines the three parts.\<close>

lemma nonce_key_inj:
  assumes "CHR '':'' \<notin> set e \<union> set t" and "CHR '':'' \<notin> set e' \<union> set t'"
    and "qrNonce e t n = qrNonce e' t' n'"
  shows "e = e' \<and> t = t' \<and> n = n'"
proof -
  have split: "x = y \<and> r = r'" if "x @ CHR '':'' # r = y @ CHR '':'' # r'" "CHR '':'' \<notin> set x" "CHR '':'' \<notin> set y" for x y r r'
    using that by (induction x arbitrary: y) (auto simp: Cons_eq_append_conv)
  from assms(3) have "e @ CHR '':'' # (t @ CHR '':'' # n) = e' @ CHR '':'' # (t' @ CHR '':'' # n')" by (simp add: qrNonce_def)
  with split [OF this] assms(1,2) split [of t n t' n'] show ?thesis by auto
qed

lemma row_kept:
  assumes "rds_rows s key = Some (v, Some d)" and "now < d"
    and "\<And>i. key \<noteq> admissionState i" "\<And>i. key \<noteq> revokedTicket i"
  shows "rds_rows (snd (run_op now op s)) key = Some (v, Some d)"
proof (cases op)
  case (Consume e t n ttl)
  then show ?thesis using assms(1,2)
    by (auto simp: discard_def consumeNonceAtomically_def catchp_def throw_def redis_set_def reply_def row_at_def
        alive_def split: option.splits)
qed (use assms in \<open>auto simp: discard_def isNonceUsed_def getTicketState_def setTicketState_def isTicketRevoked_def
      markTicketRevoked_def clearTicketState_def catchp_def seqp_def bindp_def ret_def redis_set_def redis_get_def
      redis_exists_def redis_del_def reply_def split: option.splits\<close>)

lemma rows_kept:
  assumes "rds_rows s key = Some (v, Some d)" and "\<forall>x \<in> set ops. fst x < d"
    and "\<And>i. key \<noteq> admissionState i" "\<And>i. key \<noteq> revokedTicket i" and "run_ops ops s = (r, s')"
  shows "rds_rows s' key = Some (v, Some d)"
  using assms(1,2,5)
proof (induction ops arbitrary: s)
  case (Cons x ops)
  obtain now op where x: "x = (now, op)" by (cases x)
  obtain q s1 where one: "run_op now op s = (q, s1)" by fastforce
  have "rds_rows s1 key = Some (v, Some d)" using row_kept [OF Cons.prems(1) _ assms(3,4), of now op] Cons.prems(2) one x by simp
  moreover have "q = Inr ()" using one by (cases op) (auto simp: discard_def setTicketState_def markTicketRevoked_def
      clearTicketState_def catchp_def ret_def split: prod.splits sum.splits)
  ultimately show ?case using Cons one x by (simp add: run_ops_def seqp_def bindp_def)
qed (simp add: run_ops_def ret_def)

section \<open>Properties\<close>

definition replay_unavailable :: "string \<Rightarrow> app_error" where
  "replay_unavailable m = OtherError ''Error'' (''Nonce replay protection unavailable: '' @ m)"

lemma consume_run:
  "consumeNonceAtomically now e t n ttl s =
     (case rds_fault s of
        Some m \<Rightarrow> (Inl (replay_unavailable m), s)
      | None \<Rightarrow>
          if ttl \<le> 0 then (Inl (replay_unavailable ''ERR invalid expire time in set command''), s)
          else if row_at now (qrNonce e t n) s \<noteq> None then (Inr False, s)
          else (Inr True, s\<lparr> rds_rows := (rds_rows s)(qrNonce e t n \<mapsto> (''1'', Some (now + 1000 * ttl))) \<rparr>))"
  by (auto simp: consumeNonceAtomically_def catchp_def throw_def redis_set_def reply_def redis_error_def
      replay_unavailable_def split: option.splits)

text \<open>
  A nonce is spent once. After it was consumed with a time to live, and whatever the gates do to the
  cache in the meantime (outages included), nobody consumes it again within that time: a second attempt is
  refused, or fails with the error that the interface answers with 503 and changes nothing.
\<close>

theorem nonce_consumed_once:
  assumes "consumeNonceAtomically now e t n ttl s = (Inr True, s1)"
    and "run_ops ops s1 = (u, s2)" and "\<forall>x \<in> set ops. fst x < now + 1000 * ttl" and "later < now + 1000 * ttl"
    and "consumeNonceAtomically later e t n ttl' s2 = (r, s3)"
  shows "s3 = s2 \<and> (r = Inr False \<or> (\<exists>m. r = Inl (replay_unavailable m) \<and> hx_status (mapErrorToHttp (replay_unavailable m)) = 503))"
proof -
  have "rds_rows s1 (qrNonce e t n) = Some (''1'', Some (now + 1000 * ttl))"
    using assms(1) by (auto simp: consume_run split: option.splits if_splits)
  from rows_kept [OF this assms(3) nonce_key_apart assms(2)]
  have "row_at later (qrNonce e t n) s2 \<noteq> None" using assms(4) by (simp add: row_at_def alive_def)
  moreover have "hx_status (mapErrorToHttp (replay_unavailable m)) = 503" for m
    by (simp add: mapErrorToHttp_def replay_unavailable_def nonce_unavailable_def nest_def)
  ultimately show ?thesis using assms(5) by (auto simp: consume_run split: option.splits if_splits)
qed

definition quiet_redis :: redis where
  "quiet_redis = \<lparr> rds_rows = (\<lambda>_. None), rds_fault = None, rds_status = ''ready'' \<rparr>"

theorem nonce_consumed_once_witness:
  "let (first, s1) = consumeNonceAtomically 1000 ''e1'' ''t1'' ''n1'' 60 quiet_redis;
       (u, s2) = run_ops [(2000, Outage (Some ''timeout'')), (3000, Consume ''e1'' ''t1'' ''n1'' 60), (4000, Outage None),
         (5000, MarkRevoked ''t1'' 300)] s1
   in first = Inr True \<and> fst (consumeNonceAtomically 60999 ''e1'' ''t1'' ''n1'' 60 s2) \<noteq> Inr True"
proof -
  let ?ops = "[(2000, Outage (Some ''timeout'')), (3000, Consume ''e1'' ''t1'' ''n1'' 60), (4000, Outage None),
      (5000, MarkRevoked ''t1'' 300)]"
  obtain s1 where one: "consumeNonceAtomically 1000 ''e1'' ''t1'' ''n1'' 60 quiet_redis = (Inr True, s1)"
    by (simp add: consume_run quiet_redis_def row_at_def)
  obtain u s2 where ops: "run_ops ?ops s1 = (u, s2)" by fastforce
  obtain r s3 where later: "consumeNonceAtomically 60999 ''e1'' ''t1'' ''n1'' 60 s2 = (r, s3)" by fastforce
  have "r \<noteq> Inr True" using nonce_consumed_once [OF one ops _ _ later] by auto
  then show ?thesis unfolding Let_def by (simp add: one ops later)
qed

text \<open>
  The cache of revocations answers that nothing is revoked while the server cannot be reached, and it
  forgets a revocation after five minutes.
\<close>

lemma revocation_fails_open: "rds_fault s = Some m \<Longrightarrow> isTicketRevoked now ticketId s = (Inr False, s)"
  by (simp add: isTicketRevoked_def catchp_def redis_exists_def reply_def ret_def)

lemma revocation_is_forgotten:
  assumes "markTicketRevoked now ticketId DEFAULT_TTL_SECONDS s = (u, s')" and "rds_fault s = None" and "now + 300000 \<le> later"
  shows "fst (isTicketRevoked later ticketId s') = Inr False"
  using assms
  by (auto simp: markTicketRevoked_def DEFAULT_TTL_SECONDS_def catchp_def seqp_def bindp_def ret_def redis_set_def reply_def
      isTicketRevoked_def redis_exists_def row_at_def alive_def)

end
