(* ===== verification/Qr_Tokens.thy ===== *)
theory Qr_Tokens
  imports Config Text_Encoding
begin

text \<open>
  The QR tokens of the admission gates: the signed tokens (\<^verbatim>\<open>src/shared/security\<close>) and the plain ones
  (\<^verbatim>\<open>src/modules/admissions/infrastructure/services/json-qr-token-verifier.service.ts\<close>).

  Parameters, in the record \<open>qr_lib\<close>: \<open>JSON.parse\<close> of a text and of
  bytes that \<open>toString('utf8')\<close> has decoded, the keyed hash, the check of an Ed25519 signature,
  the checks and the messages of the schema library, \<open>new Date\<close> of a text (\<open>None\<close> for an invalid date),
  what \<open>Buffer.from\<close> and \<open>String\<close> make of values that are not texts, and the configuration. An object
  that \<open>JSON.parse\<close> returns has each key once (of a repeated key it keeps the last value). No code of
  the repository writes signed tokens, so that there is no issuer here either.
\<close>

section \<open>Parameters\<close>

record qr_lib =
  qr_json_parse :: "string \<Rightarrow> json option"
  qr_parse_bytes :: "nat list \<Rightarrow> json option"
  qr_hmac :: "string \<Rightarrow> nat list \<Rightarrow> nat list"
  qr_ed_verify :: "string \<Rightarrow> nat list \<Rightarrow> nat list \<Rightarrow> app_error + bool"
  qr_uuid :: "string \<Rightarrow> bool"
  qr_datetime :: "string \<Rightarrow> bool"
  qr_message :: "json \<Rightarrow> string"
  qr_date_ms :: "string \<Rightarrow> int option"
  qr_other_buffer :: "json \<Rightarrow> nat list option"
  qr_to_string :: "json \<Rightarrow> string"
  qr_environment :: process_env
  qr_active_kid :: string
  qr_active_secret :: string

definition bad_state :: "string \<Rightarrow> app_error + 'a" where
  "bad_state message = Inl (InvalidStateTransitionError message)"

text \<open>A property of a parsed value: reading one of \<open>null\<close> throws, a value without it has \<open>undefined\<close>.\<close>

definition property_of :: "json \<Rightarrow> string \<Rightarrow> app_error + json" where
  "property_of j key =
     (case j of
        JNull \<Rightarrow> Inl (OtherError ''TypeError'' (''Cannot read properties of null (reading '' @ [CHR 0x27] @ key @ [CHR 0x27] @ '')''))
      | JObj props \<Rightarrow> Inr (case map_of props key of None \<Rightarrow> JUndefined | Some v \<Rightarrow> v)
      | _ \<Rightarrow> Inr JUndefined)"

definition json_falsy :: "json \<Rightarrow> bool" where
  "json_falsy j \<longleftrightarrow> j \<in> {JNull, JUndefined, JBool False, JNum 0, JDec 0, JStr []}"

section \<open>Base64 for addresses\<close>

text \<open>
  \<open>Buffer.from(x, 'base64url')\<close>: both alphabets are read, other characters are passed over, the padding
  ends the text.
\<close>

definition sextet :: "char \<Rightarrow> nat option" where
  "sextet c =
     (if c \<in> set base64_alphabet then Some (base64_index c)
      else if c = CHR ''-'' then Some 62 else if c = CHR ''_'' then Some 63 else None)"

fun sextets_bytes :: "nat list \<Rightarrow> nat list" where
  "sextets_bytes (a # b # c # d # r) =
     (a * 4 + b div 16) # (b mod 16 * 16 + c div 4) # (c mod 4 * 64 + d) # sextets_bytes r"
| "sextets_bytes [a, b, c] = [a * 4 + b div 16, b mod 16 * 16 + c div 4]"
| "sextets_bytes [a, b] = [a * 4 + b div 16]"
| "sextets_bytes _ = []"

definition base64url_bytes :: "string \<Rightarrow> nat list" where
  "base64url_bytes x = sextets_bytes (List.map_filter sextet (takeWhile (\<lambda>c. c \<noteq> CHR ''='') x))"

definition buffer_from :: "qr_lib \<Rightarrow> json \<Rightarrow> app_error + nat list" where
  "buffer_from L j =
     (case j of
        JStr x \<Rightarrow> Inr (base64url_bytes x)
      | _ \<Rightarrow> (case qr_other_buffer L j of
                Some bs \<Rightarrow> Inr bs
              | None \<Rightarrow> Inl (OtherError ''TypeError'' ''The first argument must be of type string'')))"

section \<open>Keys\<close>

definition key_text :: "qr_lib \<Rightarrow> json \<Rightarrow> string" where
  "key_text L kid = (case kid of JStr x \<Rightarrow> x | _ \<Rightarrow> qr_to_string L kid)"

text \<open>A key that is not one of the validated values is looked up in the environment and trimmed.\<close>

definition environment_key :: "qr_lib \<Rightarrow> string \<Rightarrow> string option" where
  "environment_key L key = map_option js_trim (qr_environment L key)"

definition getHmacSecret :: "qr_lib \<Rightarrow> json \<Rightarrow> app_error + string" where
  "getHmacSecret L kid =
     (if kid = JStr (qr_active_kid L) then Inr (qr_active_secret L)
      else
        let rotated = environment_key L (''QR_HMAC_SECRET_'' @ key_text L kid) in
        if \<not> truthy rotated then Inl (OtherError ''Error'' (''Unknown HMAC key id: '' @ key_text L kid))
        else Inr (the rotated))"

definition getEd25519PublicKey :: "qr_lib \<Rightarrow> json \<Rightarrow> app_error + string" where
  "getEd25519PublicKey L kid =
     (let key = environment_key L (''QR_ED25519_PUBLIC_KEY_'' @ key_text L kid) in
      if \<not> truthy key then Inl (OtherError ''Error'' (''Unknown Ed25519 public key id: '' @ key_text L kid))
      else Inr (the key))"

section \<open>The schema of a payload\<close>

datatype qr_direction = ENTRY | EXIT

record QrPayload =
  qrp_ticketId :: string
  qrp_eventId :: string
  qrp_nonce :: string
  qrp_direction :: qr_direction
  qrp_sessionId :: string
  qrp_deviceBindingId :: "string option"
  qrp_issuedAt :: string
  qrp_expiresAt :: string
  qrp_signatureVersion :: string

definition text_between :: "nat \<Rightarrow> nat \<Rightarrow> json \<Rightarrow> string option" where
  "text_between lo hi j = (case j of JStr x \<Rightarrow> if lo \<le> length x \<and> length x \<le> hi then Some x else None | _ \<Rightarrow> None)"

definition text_with :: "(string \<Rightarrow> bool) \<Rightarrow> json \<Rightarrow> string option" where
  "text_with p j = (case j of JStr x \<Rightarrow> if p x then Some x else None | _ \<Rightarrow> None)"

definition read_direction :: "json \<Rightarrow> qr_direction option" where
  "read_direction j = (if j = JStr ''ENTRY'' then Some ENTRY else if j = JStr ''EXIT'' then Some EXIT else None)"

definition optional_device :: "json \<Rightarrow> string option option" where
  "optional_device j =
     (if j = JNull \<or> j = JUndefined then Some None else map_option Some (text_between 1 256 j))"

definition qr_fields :: "qr_lib \<Rightarrow> json \<Rightarrow> QrPayload option" where
  "qr_fields L j =
     (case j of
        JObj props \<Rightarrow>
          let at' = (\<lambda>key. case map_of props key of None \<Rightarrow> JUndefined | Some v \<Rightarrow> v) in
          Option.bind (text_with (qr_uuid L) (at' ''ticketId'')) (\<lambda>ticketId.
          Option.bind (text_with (qr_uuid L) (at' ''eventId'')) (\<lambda>eventId.
          Option.bind (text_between 8 256 (at' ''nonce'')) (\<lambda>nonce.
          Option.bind (read_direction (at' ''direction'')) (\<lambda>direction.
          Option.bind (text_between 8 256 (at' ''sessionId'')) (\<lambda>sessionId.
          Option.bind (optional_device (at' ''deviceBindingId'')) (\<lambda>device.
          Option.bind (text_with (qr_datetime L) (at' ''issuedAt'')) (\<lambda>issuedAt.
          Option.bind (text_with (qr_datetime L) (at' ''expiresAt'')) (\<lambda>expiresAt.
          Option.bind (text_between 1 64 (at' ''signatureVersion'')) (\<lambda>version.
            Some \<lparr> qrp_ticketId = ticketId, qrp_eventId = eventId, qrp_nonce = nonce, qrp_direction = direction,
              qrp_sessionId = sessionId, qrp_deviceBindingId = device, qrp_issuedAt = issuedAt,
              qrp_expiresAt = expiresAt, qrp_signatureVersion = version \<rparr>)))))))))
      | _ \<Rightarrow> None)"

text \<open>The refinement: a comparison with an invalid date is false. The first issue is the one reported.\<close>

definition window_issue :: "qr_lib \<Rightarrow> QrPayload \<Rightarrow> string option" where
  "window_issue L p =
     (case (qr_date_ms L (qrp_issuedAt p), qr_date_ms L (qrp_expiresAt p)) of
        (Some issuedAt, Some expiresAt) \<Rightarrow>
          if issuedAt > expiresAt then Some ''issuedAt must be <= expiresAt''
          else if expiresAt - issuedAt > 60000 then Some ''QR token lifetime exceeds maximum allowed window''
          else None
      | _ \<Rightarrow> None)"

definition qrPayloadSchema :: "qr_lib \<Rightarrow> json \<Rightarrow> string + QrPayload" where
  "qrPayloadSchema L j =
     (case qr_fields L j of
        None \<Rightarrow> Inl (qr_message L j)
      | Some p \<Rightarrow> (case window_issue L p of None \<Rightarrow> Inr p | Some issue \<Rightarrow> Inl issue))"

section \<open>Signed tokens\<close>

record VerifiedQrPayload =
  vqp_ticketId :: string
  vqp_eventId :: string
  vqp_nonce :: string
  vqp_direction :: qr_direction
  vqp_sessionId :: string
  vqp_deviceBindingId :: "string option"
  vqp_issuedAt :: int
  vqp_expiresAt :: int
  vqp_signatureVersion :: string

record QrTokenEnvelope =
  env_alg :: json
  env_kid :: json
  env_payload :: json
  env_signature :: json

definition decodeEnvelope :: "qr_lib \<Rightarrow> string \<Rightarrow> app_error + QrTokenEnvelope" where
  "decodeEnvelope L rawToken =
     (case qr_parse_bytes L (base64url_bytes rawToken) of
        None \<Rightarrow> bad_state ''Malformed QR token envelope.''
      | Some parsed \<Rightarrow>
          and_then (property_of parsed ''alg'') (\<lambda>alg.
          and_then (property_of parsed ''kid'') (\<lambda>kid.
          and_then (property_of parsed ''payload'') (\<lambda>payload.
          and_then (property_of parsed ''signature'') (\<lambda>signature.
            if json_falsy alg \<or> json_falsy kid \<or> json_falsy payload \<or> json_falsy signature
            then bad_state ''Malformed QR token envelope.''
            else Inr \<lparr> env_alg = alg, env_kid = kid, env_payload = payload, env_signature = signature \<rparr>)))))"

definition check_signature :: "qr_lib \<Rightarrow> QrTokenEnvelope \<Rightarrow> nat list \<Rightarrow> nat list \<Rightarrow> app_error + unit" where
  "check_signature L e payload signature =
     (if env_alg e = JStr ''HMAC_SHA256'' then
        and_then (getHmacSecret L (env_kid e)) (\<lambda>secret.
          if qr_hmac L secret payload \<noteq> signature then bad_state ''Invalid HMAC QR signature.'' else Inr ())
      else if env_alg e = JStr ''ED25519'' then
        and_then (getEd25519PublicKey L (env_kid e)) (\<lambda>pem.
        and_then (qr_ed_verify L pem payload signature) (\<lambda>ok.
          if \<not> ok then bad_state ''Invalid Ed25519 QR signature.'' else Inr ()))
      else bad_state ''Unsupported QR algorithm.'')"

definition verified_payload :: "qr_lib \<Rightarrow> QrPayload \<Rightarrow> app_error + VerifiedQrPayload" where
  "verified_payload L p =
     (case qr_date_ms L (qrp_issuedAt p) of
        None \<Rightarrow> bad_state ''Invalid QR issued timestamp.''
      | Some issuedAt \<Rightarrow>
          (case qr_date_ms L (qrp_expiresAt p) of
             None \<Rightarrow> bad_state ''Invalid QR expiry timestamp.''
           | Some expiresAt \<Rightarrow>
               Inr \<lparr> vqp_ticketId = qrp_ticketId p, vqp_eventId = qrp_eventId p, vqp_nonce = qrp_nonce p,
                 vqp_direction = qrp_direction p, vqp_sessionId = qrp_sessionId p,
                 vqp_deviceBindingId = qrp_deviceBindingId p, vqp_issuedAt = issuedAt, vqp_expiresAt = expiresAt,
                 vqp_signatureVersion = qrp_signatureVersion p \<rparr>))"

definition QrTokenVerifier_verify :: "qr_lib \<Rightarrow> string \<Rightarrow> app_error + VerifiedQrPayload" where
  "QrTokenVerifier_verify L rawToken =
     and_then (decodeEnvelope L rawToken) (\<lambda>e.
     and_then (buffer_from L (env_payload e)) (\<lambda>payload.
     and_then (buffer_from L (env_signature e)) (\<lambda>signature.
     and_then (check_signature L e payload signature) (\<lambda>_.
       case qr_parse_bytes L payload of
         None \<Rightarrow> bad_state ''Malformed QR payload JSON.''
       | Some parsedJson \<Rightarrow>
           (case qrPayloadSchema L parsedJson of
              Inl issue \<Rightarrow> bad_state issue
            | Inr p \<Rightarrow> verified_payload L p)))))"

section \<open>Plain tokens\<close>

record PlainQrPayload =
  pqp_ticketId :: string
  pqp_eventId :: string
  pqp_nonce :: string
  pqp_direction :: qr_direction
  pqp_sessionId :: string
  pqp_deviceBindingId :: "string option"
  pqp_expiresAt :: int

text \<open>An empty candidate is passed over.\<close>

definition parsePayload :: "qr_lib \<Rightarrow> string \<Rightarrow> app_error + json" where
  "parsePayload L rawToken =
     (let bytes = base64url_bytes rawToken in
      case if rawToken = [] then None else qr_json_parse L rawToken of
        Some j \<Rightarrow> Inr j
      | None \<Rightarrow>
          (case if bytes = [] then None else qr_parse_bytes L bytes of
             Some j \<Rightarrow> Inr j
           | None \<Rightarrow> bad_state ''Invalid QR token payload.''))"

definition getString :: "json \<Rightarrow> string \<Rightarrow> app_error + string" where
  "getString v field =
     (case v of
        JStr x \<Rightarrow> if x \<noteq> [] then Inr x else bad_state (''Invalid QR '' @ field @ ''.'')
      | _ \<Rightarrow> bad_state (''Invalid QR '' @ field @ ''.''))"

definition getOptionalString :: "json \<Rightarrow> string \<Rightarrow> app_error + string option" where
  "getOptionalString v field =
     (if v = JUndefined \<or> v = JNull then Inr None else and_then (getString v field) (\<lambda>x. Inr (Some x)))"

definition getDirection :: "json \<Rightarrow> app_error + qr_direction" where
  "getDirection v = (case read_direction v of Some d \<Rightarrow> Inr d | None \<Rightarrow> bad_state ''Invalid QR direction.'')"

definition getDate :: "qr_lib \<Rightarrow> json \<Rightarrow> string \<Rightarrow> app_error + int" where
  "getDate L v field =
     and_then (getString v field) (\<lambda>x.
       case qr_date_ms L x of None \<Rightarrow> bad_state (''Invalid QR '' @ field @ ''.'') | Some d \<Rightarrow> Inr d)"

definition JsonQrTokenVerifier_verify :: "qr_lib \<Rightarrow> string \<Rightarrow> app_error + PlainQrPayload" where
  "JsonQrTokenVerifier_verify L rawToken =
     and_then (parsePayload L rawToken) (\<lambda>payload.
     and_then (and_then (property_of payload ''direction'') getDirection) (\<lambda>direction.
     and_then (and_then (property_of payload ''expiresAt'') (\<lambda>v. getDate L v ''expiresAt'')) (\<lambda>expiresAt.
     and_then (and_then (property_of payload ''ticketId'') (\<lambda>v. getString v ''ticketId'')) (\<lambda>ticketId.
     and_then (and_then (property_of payload ''eventId'') (\<lambda>v. getString v ''eventId'')) (\<lambda>eventId.
     and_then (and_then (property_of payload ''nonce'') (\<lambda>v. getString v ''nonce'')) (\<lambda>nonce.
     and_then (and_then (property_of payload ''sessionId'') (\<lambda>v. getString v ''sessionId'')) (\<lambda>sessionId.
     and_then (and_then (property_of payload ''deviceBindingId'') (\<lambda>v. getOptionalString v ''deviceBindingId'')) (\<lambda>device.
       Inr \<lparr> pqp_ticketId = ticketId, pqp_eventId = eventId, pqp_nonce = nonce, pqp_direction = direction,
         pqp_sessionId = sessionId, pqp_deviceBindingId = device, pqp_expiresAt = expiresAt \<rparr>))))))))"

section \<open>What the schema promises\<close>

definition payload_ok :: "qr_lib \<Rightarrow> QrPayload \<Rightarrow> bool" where
  "payload_ok L p \<longleftrightarrow> qr_uuid L (qrp_ticketId p) \<and> qr_uuid L (qrp_eventId p) \<and>
     8 \<le> length (qrp_nonce p) \<and> length (qrp_nonce p) \<le> 256 \<and>
     8 \<le> length (qrp_sessionId p) \<and> length (qrp_sessionId p) \<le> 256 \<and>
     (case qrp_deviceBindingId p of None \<Rightarrow> True | Some d \<Rightarrow> 1 \<le> length d \<and> length d \<le> 256) \<and>
     qr_datetime L (qrp_issuedAt p) \<and> qr_datetime L (qrp_expiresAt p) \<and>
     1 \<le> length (qrp_signatureVersion p) \<and> length (qrp_signatureVersion p) \<le> 64"

lemma text_reads:
  "text_with f j = Some x \<longleftrightarrow> j = JStr x \<and> f x"
  "text_between lo hi j = Some x \<longleftrightarrow> j = JStr x \<and> lo \<le> length x \<and> length x \<le> hi"
  by (auto simp: text_with_def text_between_def split: json.splits if_splits)

lemma optional_device_Some: "optional_device j = Some d \<Longrightarrow> (case d of None \<Rightarrow> True | Some x \<Rightarrow> 1 \<le> length x \<and> length x \<le> 256)"
  by (auto simp: optional_device_def text_reads split: if_splits)

lemma fields_ok: "qr_fields L j = Some p \<Longrightarrow> payload_ok L p"
  by (cases j) (auto simp: qr_fields_def payload_ok_def Let_def Option.bind_eq_Some_conv text_reads simp del: One_nat_def
      dest: optional_device_Some)

section \<open>Acceptance\<close>

definition in_window :: "int \<Rightarrow> int \<Rightarrow> bool" where
  "in_window issuedAt expiresAt \<longleftrightarrow> issuedAt \<le> expiresAt \<and> expiresAt \<le> issuedAt + 60000"

lemma schema_Inr:
  "qrPayloadSchema L j = Inr p \<longleftrightarrow> qr_fields L j = Some p \<and> window_issue L p = None"
  by (auto simp: qrPayloadSchema_def split: option.splits)

lemma verified_Inr:
  "verified_payload L p = Inr v \<longleftrightarrow>
     (\<exists>a b. qr_date_ms L (qrp_issuedAt p) = Some a \<and> qr_date_ms L (qrp_expiresAt p) = Some b \<and>
       v = \<lparr> vqp_ticketId = qrp_ticketId p, vqp_eventId = qrp_eventId p, vqp_nonce = qrp_nonce p,
                 vqp_direction = qrp_direction p, vqp_sessionId = qrp_sessionId p,
                 vqp_deviceBindingId = qrp_deviceBindingId p, vqp_issuedAt = a, vqp_expiresAt = b,
                 vqp_signatureVersion = qrp_signatureVersion p \<rparr>)"
  by (auto simp: verified_payload_def bad_state_def split: option.splits)

lemma window_None:
  assumes "qr_date_ms L (qrp_issuedAt p) = Some a" and "qr_date_ms L (qrp_expiresAt p) = Some b"
  shows "window_issue L p = None \<longleftrightarrow> in_window a b"
  using assms by (auto simp: window_issue_def in_window_def)

lemma window_verified:
  "verified_payload L p = Inr v \<Longrightarrow> window_issue L p = None \<longleftrightarrow> in_window (vqp_issuedAt v) (vqp_expiresAt v)"
  by (auto simp: verified_Inr window_None)

definition signed_by :: "qr_lib \<Rightarrow> QrTokenEnvelope \<Rightarrow> nat list \<Rightarrow> nat list \<Rightarrow> bool" where
  "signed_by L e payload signature \<longleftrightarrow>
     (env_alg e = JStr ''HMAC_SHA256'' \<and>
        (\<exists>secret. getHmacSecret L (env_kid e) = Inr secret \<and> signature = qr_hmac L secret payload)) \<or>
     (env_alg e = JStr ''ED25519'' \<and>
        (\<exists>pem. getEd25519PublicKey L (env_kid e) = Inr pem \<and> qr_ed_verify L pem payload signature = Inr True))"

lemma check_signature_Inr: "check_signature L e payload signature = Inr u \<longleftrightarrow> signed_by L e payload signature"
  by (auto simp: check_signature_def signed_by_def and_then_Inr bad_state_def)

text \<open>
  A signed token is accepted exactly when its envelope names a known key, its payload bytes carry the
  signature of that key, and the payload passes the schema (so that its fields have the lengths and forms
  of \<open>payload_ok\<close>) with a window of at most a minute.
\<close>

lemma qr_token_accepted:
  "QrTokenVerifier_verify L rawToken = Inr v \<longleftrightarrow>
     (\<exists>e payload signature j p. decodeEnvelope L rawToken = Inr e \<and>
        buffer_from L (env_payload e) = Inr payload \<and> buffer_from L (env_signature e) = Inr signature \<and>
        signed_by L e payload signature \<and>
        qr_parse_bytes L payload = Some j \<and> qr_fields L j = Some p \<and> payload_ok L p \<and>
        verified_payload L p = Inr v \<and> in_window (vqp_issuedAt v) (vqp_expiresAt v))"
proof -
  have "(case qr_parse_bytes L payload of
         None \<Rightarrow> bad_state ''Malformed QR payload JSON.''
       | Some parsedJson \<Rightarrow>
           (case qrPayloadSchema L parsedJson of Inl issue \<Rightarrow> bad_state issue | Inr p \<Rightarrow> verified_payload L p)) = Inr v \<longleftrightarrow>
      (\<exists>j p. qr_parse_bytes L payload = Some j \<and> qrPayloadSchema L j = Inr p \<and>
        verified_payload L p = Inr v)" for payload
    by (auto simp: bad_state_def split: option.split sum.split)
  then have *: "QrTokenVerifier_verify L rawToken = Inr v \<longleftrightarrow>
      (\<exists>e payload signature. decodeEnvelope L rawToken = Inr e \<and> buffer_from L (env_payload e) = Inr payload \<and>
        buffer_from L (env_signature e) = Inr signature \<and> signed_by L e payload signature \<and>
        (\<exists>j p. qr_parse_bytes L payload = Some j \<and> qrPayloadSchema L j = Inr p \<and>
          verified_payload L p = Inr v))"
    by (simp add: QrTokenVerifier_verify_def and_then_Inr check_signature_Inr)
  show ?thesis unfolding * schema_Inr using window_verified fields_ok by blast
qed

text \<open>A library that knows two texts, an envelope and its payload, and a token it accepts.\<close>

definition sample_payload :: json where
  "sample_payload = JObj [(''ticketId'', JStr ''11111111-1111-4111-8111-111111111111''),
     (''eventId'', JStr ''22222222-2222-4222-8222-222222222222''), (''nonce'', JStr ''nonce-0001''),
     (''direction'', JStr ''ENTRY''), (''sessionId'', JStr ''session-0001''), (''issuedAt'', JStr ''2026-01-02T03:04:05.000Z''),
     (''expiresAt'', JStr ''2026-01-02T03:04:35.000Z''), (''signatureVersion'', JStr ''v1'')]"

definition sample_lib :: qr_lib where
  "sample_lib = \<lparr> qr_json_parse = (\<lambda>x. None),
     qr_parse_bytes = (\<lambda>bs. if bs = base64url_bytes ''e30_'' then Some (JObj [(''alg'', JStr ''HMAC_SHA256''), (''kid'', JStr ''k1''),
         (''payload'', JStr ''e30-''), (''signature'', JStr ''AAA'')])
       else if bs = base64url_bytes ''e30-'' then Some sample_payload else None),
     qr_hmac = (\<lambda>secret bs. [0, 0]), qr_ed_verify = (\<lambda>pem bs sig. Inr False), qr_uuid = is_uuid,
     qr_datetime = (\<lambda>x. length x = 24), qr_message = (\<lambda>j. ''Required''),
     qr_date_ms = (\<lambda>x. if x = ''2026-01-02T03:04:05.000Z'' then Some 1000 else Some 31000),
     qr_other_buffer = (\<lambda>j. None), qr_to_string = (\<lambda>j. ''[object Object]''), qr_environment = (\<lambda>k. None),
     qr_active_kid = ''k1'', qr_active_secret = ''secret'' \<rparr>"

lemma sample_token_accepted:
  "map_option vqp_expiresAt (case QrTokenVerifier_verify sample_lib ''e30_'' of Inl e \<Rightarrow> None | Inr v \<Rightarrow> Some v) = Some 31000"
  by code_simp

text \<open>
  The envelope \<^verbatim>\<open>null\<close> makes the verifier throw a type error instead of reporting a malformed token.
\<close>

lemma null_envelope_throws:
  assumes "qr_parse_bytes L (base64url_bytes rawToken) = Some JNull"
  shows "QrTokenVerifier_verify L rawToken =
    Inl (OtherError ''TypeError'' (''Cannot read properties of null (reading '' @ [CHR 0x27] @ ''alg'' @ [CHR 0x27] @ '')''))"
  using assms by (simp add: QrTokenVerifier_verify_def decodeEnvelope_def and_then_def property_of_def)

text \<open>The plain verifier accepts what anyone can write: there is no signature to check.\<close>

lemma plain_token_is_not_authenticated:
  assumes "qr_json_parse L raw = Some (JObj [(''ticketId'', JStr t), (''eventId'', JStr e), (''nonce'', JStr n),
      (''direction'', JStr ''ENTRY''), (''sessionId'', JStr s), (''expiresAt'', JStr x)])"
    and "qr_date_ms L x = Some d" and "[] \<notin> {raw, t, e, n, s, x}"
  shows "JsonQrTokenVerifier_verify L raw = Inr \<lparr> pqp_ticketId = t, pqp_eventId = e, pqp_nonce = n, pqp_direction = ENTRY,
    pqp_sessionId = s, pqp_deviceBindingId = None, pqp_expiresAt = d \<rparr>"
  using assms
  by (auto simp: JsonQrTokenVerifier_verify_def parsePayload_def and_then_def property_of_def getDirection_def
      read_direction_def getDate_def getString_def getOptionalString_def Let_def)

end
