(* ===== verification/Telemetry.thy ===== *)
theory Telemetry
  imports Request_Context
begin

text \<open>
  The metrics (\<^verbatim>\<open>src/shared/telemetry\<close>): labels, counters, gauges and durations, and the interceptor that
  times the requests. The state is the registry: the value of each counter and gauge and the observed
  durations, under the name of the metric and its labels. The registry refuses to decrease a counter. A
  number is a fraction, or \<open>None\<close> when it is not finite. \<open>to_text\<close> is \<open>String\<close> of a value that is neither
  a text nor an integer.
\<close>

section \<open>Labels\<close>

definition DEFAULT_LABEL_VALUE :: string where "DEFAULT_LABEL_VALUE = ''n/a''"

definition toLabelValue :: "(json \<Rightarrow> string) \<Rightarrow> json \<Rightarrow> string" where
  "toLabelValue to_text v =
     (case v of
        JUndefined \<Rightarrow> DEFAULT_LABEL_VALUE
      | JNull \<Rightarrow> DEFAULT_LABEL_VALUE
      | JBool b \<Rightarrow> if b then ''true'' else ''false''
      | _ \<Rightarrow>
          let rendered = js_trim (case v of JStr x \<Rightarrow> x | JNum n \<Rightarrow> int_to_string n | _ \<Rightarrow> to_text v) in
          if rendered = [] then DEFAULT_LABEL_VALUE else take 120 rendered)"

text \<open>
  The replacements of a route. A pattern \<^verbatim>\<open>/\/p(?=\/|$)/g\<close> in which \<open>p\<close> matches no slash finds the slashes
  that are followed by a whole segment of the pattern.
\<close>

function replace_segments :: "(string \<Rightarrow> bool) \<Rightarrow> string \<Rightarrow> string" where
  "replace_segments p [] = []"
| "replace_segments p (c # r) =
     (if c = CHR ''/'' \<and> p (takeWhile (\<lambda>c. c \<noteq> CHR ''/'') r)
      then ''/:id'' @ replace_segments p (dropWhile (\<lambda>c. c \<noteq> CHR ''/'') r)
      else c # replace_segments p r)"
  by pat_completeness auto
termination
  by (relation "measure (\<lambda>(p, x). length x)") (auto simp: length_dropWhile_le le_imp_less_Suc)

definition in_range :: "string \<Rightarrow> char \<Rightarrow> bool" where
  "in_range cs c \<longleftrightarrow> lower_char c \<in> set cs"

definition hex_run :: "nat \<Rightarrow> string \<Rightarrow> bool" where
  "hex_run n x \<longleftrightarrow> length x = n \<and> list_all (in_range ''0123456789abcdef'') x"

text \<open>\<^verbatim>\<open>[0-9a-f]{8}-[0-9a-f]{4}-[1-5][0-9a-f]{3}-[89ab][0-9a-f]{3}-[0-9a-f]{12}\<close>, in both cases\<close>

definition uuid_segment :: "string \<Rightarrow> bool" where
  "uuid_segment x \<longleftrightarrow> length x = 36 \<and>
     hex_run 8 (take 8 x) \<and> x ! 8 = CHR ''-'' \<and>
     hex_run 4 (take 4 (drop 9 x)) \<and> x ! 13 = CHR ''-'' \<and>
     in_range ''12345'' (x ! 14) \<and> hex_run 3 (take 3 (drop 15 x)) \<and> x ! 18 = CHR ''-'' \<and>
     in_range ''89ab'' (x ! 19) \<and> hex_run 3 (take 3 (drop 20 x)) \<and> x ! 23 = CHR ''-'' \<and>
     hex_run 12 (drop 24 x)"

definition number_segment :: "string \<Rightarrow> bool" where
  "number_segment x \<longleftrightarrow> x \<noteq> [] \<and> list_all (\<lambda>c. c \<in> set ''0123456789'') x"

text \<open>\<open>replace(/\/+/g, '/')\<close>\<close>

fun collapse_slashes :: "string \<Rightarrow> string" where
  "collapse_slashes (c # d # r) =
     (if c = CHR ''/'' \<and> d = CHR ''/'' then collapse_slashes (d # r) else c # collapse_slashes (d # r))"
| "collapse_slashes x = x"

definition without_query :: "string \<Rightarrow> string" where
  "without_query x = takeWhile (\<lambda>c. c \<noteq> CHR ''?'') x"

definition leading_slash :: "string \<Rightarrow> string" where
  "leading_slash x = (if x \<noteq> [] \<and> hd x = CHR ''/'' then x else CHR ''/'' # x)"

definition Telemetry_normalizeRoute :: "(json \<Rightarrow> string) \<Rightarrow> json \<Rightarrow> string" where
  "Telemetry_normalizeRoute to_text v =
     (let rendered = toLabelValue to_text v in
      if rendered = DEFAULT_LABEL_VALUE then rendered
      else collapse_slashes (replace_segments number_segment (replace_segments uuid_segment
             (leading_slash (without_query rendered)))))"

definition attribute :: "(string \<times> json) list \<Rightarrow> string \<Rightarrow> json" where
  "attribute attributes key = (case map_of attributes key of None \<Rightarrow> JUndefined | Some v \<Rightarrow> v)"

definition buildCommonLabels :: "(json \<Rightarrow> string) \<Rightarrow> (string \<times> json) list \<Rightarrow> (string \<times> string) list" where
  "buildCommonLabels to_text attributes =
     (let label = (\<lambda>key. toLabelValue to_text (attribute attributes key)) in
      [(''method'', label ''method''), (''route'', Telemetry_normalizeRoute to_text (attribute attributes ''route'')),
       (''status_code'', label ''statusCode''), (''provider'', label ''provider''), (''event_type'', label ''eventType''),
       (''error_code'', label ''errorCode''), (''retryable'', label ''retryable''), (''dead_letter'', label ''deadLetter''),
       (''result'', label ''result''), (''currency'', label ''currency''), (''dependency'', label ''dependency'')])"

section \<open>The registry\<close>

type_synonym series = "string \<times> (string \<times> string) list"

record registry =
  mtr_events :: "series \<Rightarrow> rat"
  mtr_counters :: "series \<Rightarrow> rat"
  mtr_gauges :: "series \<Rightarrow> rat option"
  mtr_durations :: "(series \<times> rat) list"

definition finite_or_zero :: "rat option \<Rightarrow> rat" where
  "finite_or_zero v = (case v of None \<Rightarrow> 0 | Some x \<Rightarrow> x)"

text \<open>\<open>Counter.inc\<close>\<close>

definition counted :: "series \<Rightarrow> rat \<Rightarrow> (series \<Rightarrow> rat) \<Rightarrow> app_error + (series \<Rightarrow> rat)" where
  "counted key x f =
     (if x < 0 then Inl (OtherError ''Error'' ''It is not possible to decrease a counter'') else Inr (f(key := f key + x)))"

definition incrementCounter ::
  "(json \<Rightarrow> string) \<Rightarrow> string \<Rightarrow> rat option \<Rightarrow> (string \<times> json) list \<Rightarrow> (registry, unit) prog" where
  "incrementCounter to_text metricName v attributes = (\<lambda>s.
     case counted (metricName, buildCommonLabels to_text attributes) (finite_or_zero v) (mtr_counters s) of
       Inl e \<Rightarrow> (Inl e, s)
     | Inr f \<Rightarrow> (Inr (), s\<lparr> mtr_counters := f \<rparr>))"

definition setGauge ::
  "(json \<Rightarrow> string) \<Rightarrow> string \<Rightarrow> rat option \<Rightarrow> (string \<times> json) list \<Rightarrow> (registry, unit) prog" where
  "setGauge to_text metricName v attributes = (\<lambda>s.
     (Inr (), s\<lparr> mtr_gauges := (mtr_gauges s)((metricName, buildCommonLabels to_text attributes) \<mapsto> finite_or_zero v) \<rparr>))"

definition json_number :: "json \<Rightarrow> rat option" where
  "json_number v = (case v of JNum n \<Rightarrow> Some (of_int n) | JDec q \<Rightarrow> Some q | _ \<Rightarrow> None)"

definition Telemetry_record :: "(json \<Rightarrow> string) \<Rightarrow> string \<Rightarrow> (string \<times> json) list \<Rightarrow> (registry, unit) prog" where
  "Telemetry_record to_text eventName payload =
     seqp (\<lambda>s. case counted (eventName, buildCommonLabels to_text payload) 1 (mtr_events s) of
                 Inl e \<Rightarrow> (Inl e, s) | Inr f \<Rightarrow> (Inr (), s\<lparr> mtr_events := f \<rparr>))
       (for_each (\<lambda>(field, rawValue).
          case json_number rawValue of
            None \<Rightarrow> ret ()
          | Some x \<Rightarrow> incrementCounter to_text (''event.'' @ eventName @ ''.'' @ field) (Some x) payload) payload)"

definition recordTiming ::
  "(json \<Rightarrow> string) \<Rightarrow> string \<Rightarrow> rat option \<Rightarrow> (string \<times> json) list \<Rightarrow> (registry, unit) prog" where
  "recordTiming to_text metricName durationMs attributes = (\<lambda>s.
     (Inr (), s\<lparr> mtr_durations := mtr_durations s @
        [((metricName, buildCommonLabels to_text attributes), finite_or_zero durationMs)] \<rparr>))"

text \<open>The clock of a span counts nanoseconds.\<close>

definition endSpan ::
  "(json \<Rightarrow> string) \<Rightarrow> string \<Rightarrow> (string \<times> json) list \<Rightarrow> int \<Rightarrow> int \<Rightarrow> (registry, unit) prog" where
  "endSpan to_text spanName attributes startedAt finishedAt =
     recordTiming to_text (spanName @ ''.duration'') (Some (of_int (finishedAt - startedAt) / 1000000)) attributes"

section \<open>The interceptor\<close>

record timed_request =
  trq_method :: "string option"
  trq_url :: "string option"
  trq_originalUrl :: "string option"
  trq_baseUrl :: "string option"
  trq_routePath :: "string option"

definition Timing_normalizeRoute :: "string \<Rightarrow> string" where
  "Timing_normalizeRoute raw =
     replace_segments number_segment (replace_segments uuid_segment (collapse_slashes (leading_slash (without_query raw))))"

definition resolveRouteLabel :: "timed_request option \<Rightarrow> string" where
  "resolveRouteLabel request =
     (case request of
        None \<Rightarrow> Timing_normalizeRoute ''/''
      | Some r \<Rightarrow>
          if truthy (trq_routePath r) then
            Timing_normalizeRoute (or_text (trq_baseUrl r) [] @ ''/'' @ the (trq_routePath r))
          else Timing_normalizeRoute (or_text (nullish (trq_originalUrl r) (trq_url r)) ''/''))"

definition SLOW_PATH_THRESHOLD_MS :: int where "SLOW_PATH_THRESHOLD_MS = 750"

text \<open>The attributes that become labels; the ids of the request and its duration are passed too and do not.\<close>

definition timing_attributes :: "timed_request option \<Rightarrow> int option \<Rightarrow> (string \<times> json) list" where
  "timing_attributes request statusCode =
     [(''method'', JStr (or_text (Option.bind request trq_method) ''UNKNOWN'')), (''route'', JStr (resolveRouteLabel request)),
      (''statusCode'', case statusCode of None \<Rightarrow> JUndefined | Some c \<Rightarrow> JNum c)]"

text \<open>What the interceptor does when a request of the http kind has ended.\<close>

definition TimingInterceptor_finalize ::
  "(json \<Rightarrow> string) \<Rightarrow> timed_request option \<Rightarrow> int option \<Rightarrow> int \<Rightarrow> int \<Rightarrow> (registry, unit) prog" where
  "TimingInterceptor_finalize to_text request statusCode startedAt now =
     (let durationMs = now - startedAt in
      seqp (recordTiming to_text ''http.request.duration'' (Some (of_int durationMs)) (timing_attributes request statusCode))
        (if durationMs \<ge> SLOW_PATH_THRESHOLD_MS
         then incrementCounter to_text ''http.request.slow'' (Some 1) (timing_attributes request statusCode)
         else ret ()))"

section \<open>Segments of a route\<close>

fun segments :: "string \<Rightarrow> string list" where
  "segments [] = [[]]"
| "segments (c # r) =
     (if c = CHR ''/'' then [] # segments r
      else case segments r of [] \<Rightarrow> [[c]] | x # xs \<Rightarrow> (c # x) # xs)"

definition route_of :: "string list \<Rightarrow> string" where
  "route_of xs = concat (map (\<lambda>x. CHR ''/'' # x) xs)"

definition anonymous :: "string \<Rightarrow> string" where
  "anonymous x = (if uuid_segment x \<or> number_segment x then '':id'' else x)"

text \<open>
  The reference: the segments after the leading slash, the empty ones dropped except for a last one that
  stands for a slash at the end, every identifier replaced.
\<close>

definition kept_segments :: "string list \<Rightarrow> string list" where
  "kept_segments xs = filter (\<lambda>x. x \<noteq> []) (butlast xs) @ (if xs = [] then [] else [last xs])"

definition route_reference :: "string \<Rightarrow> string" where
  "route_reference x = route_of (map anonymous (kept_segments (tl (segments (leading_slash (without_query x))))))"

lemma segments_nonempty [simp]: "segments x \<noteq> []"
  by (cases x) (auto split: list.splits)

definition slash_free :: "string \<Rightarrow> bool" where
  "slash_free x \<longleftrightarrow> CHR ''/'' \<notin> set x"

lemma segments_join: "hd (segments y) @ route_of (tl (segments y)) = y"
  by (induction y) (auto simp: route_of_def split: list.splits)

lemma segments_slash_free: "x \<in> set (segments y) \<Longrightarrow> slash_free x"
  by (induction y arbitrary: x) (auto simp: slash_free_def split: list.splits if_splits)

text \<open>A path is the route of the segments after its leading slash.\<close>

lemma path_route: "route_of (tl (segments (leading_slash x))) = leading_slash x"
proof -
  have "leading_slash x \<noteq> [] \<and> hd (leading_slash x) = CHR ''/''" by (simp add: leading_slash_def)
  then obtain r where "leading_slash x = CHR ''/'' # r" by (cases "leading_slash x") auto
  then show ?thesis using segments_join [of "leading_slash x"] by simp
qed

lemma path_segments: "\<forall>y \<in> set (tl (segments x)). slash_free y"
  using segments_slash_free [of _ x] by (cases "segments x") auto

lemma route_of_simps [simp]: "route_of [] = []" "route_of (x # xs) = CHR ''/'' # x @ route_of xs"
  by (simp_all add: route_of_def)

lemma route_head: "route_of xs = [] \<or> hd (route_of xs) = CHR ''/''"
  by (cases xs) simp_all

lemma cut_segment:
  assumes "slash_free x"
  shows "takeWhile (\<lambda>c. c \<noteq> CHR ''/'') (x @ route_of xs) = x"
    and "dropWhile (\<lambda>c. c \<noteq> CHR ''/'') (x @ route_of xs) = route_of xs"
proof -
  have *: "\<And>c. c \<in> set x \<Longrightarrow> c \<noteq> CHR ''/''" using assms by (auto simp: slash_free_def)
  show "takeWhile (\<lambda>c. c \<noteq> CHR ''/'') (x @ route_of xs) = x"
    using * by (cases xs) (simp_all add: takeWhile_append2)
  show "dropWhile (\<lambda>c. c \<noteq> CHR ''/'') (x @ route_of xs) = route_of xs"
    using * by (cases xs) (simp_all add: dropWhile_append2)
qed

lemma replace_prefix: "slash_free x \<Longrightarrow> replace_segments p (x @ r) = x @ replace_segments p r"
  by (induction x) (auto simp: slash_free_def)

lemma replace_route:
  "\<forall>x \<in> set xs. slash_free x \<Longrightarrow> replace_segments p (route_of xs) = route_of (map (\<lambda>x. if p x then '':id'' else x) xs)"
  by (induction xs) (simp_all add: cut_segment replace_prefix)

lemma collapse_prefix: "slash_free x \<Longrightarrow> x \<noteq> [] \<Longrightarrow> collapse_slashes (c # x @ r) = c # x @ collapse_slashes r"
proof (induction x arbitrary: c)
  case (Cons d x)
  then show ?case by (cases "x = []"; cases r) (auto simp: slash_free_def)
qed simp

lemma kept_simps [simp]:
  "kept_segments [] = []" "kept_segments [x] = [x]"
  "kept_segments (x # y # ys) = (if x = [] then [] else [x]) @ kept_segments (y # ys)"
  by (simp_all add: kept_segments_def)

lemma collapse_route: "\<forall>x \<in> set xs. slash_free x \<Longrightarrow> collapse_slashes (route_of xs) = route_of (kept_segments xs)"
proof (induction xs rule: induct_list012)
  case (2 x)
  then show ?case using collapse_prefix [of x "CHR ''/''" "[]"] by (cases "x = []") simp_all
next
  case (3 x y ys)
  then have "collapse_slashes (route_of (y # ys)) = route_of (kept_segments (y # ys))" by simp
  then show ?case
    using 3(3) collapse_prefix [of x "CHR ''/''" "route_of (y # ys)"] by (cases "x = []") simp_all
qed simp

lemma kept_map: "(\<And>x. f x = [] \<longleftrightarrow> x = []) \<Longrightarrow> kept_segments (map f xs) = map f (kept_segments xs)"
  by (induction xs rule: induct_list012) auto

lemma kept_subset: "set (kept_segments xs) \<subseteq> set xs"
  by (induction xs rule: induct_list012) auto

lemma nothing_replaced [simp]: "\<not> uuid_segment []" "\<not> number_segment []" "\<not> number_segment '':id''" "\<not> uuid_segment '':id''"
  by (simp_all add: uuid_segment_def number_segment_def)

lemma anonymous_steps:
  "(\<lambda>x. if number_segment x then '':id'' else x) \<circ> (\<lambda>x. if uuid_segment x then '':id'' else x) = anonymous"
  by (auto simp: anonymous_def fun_eq_iff)

lemma anonymous_nil: "anonymous x = [] \<longleftrightarrow> x = []"
  by (auto simp: anonymous_def)

lemma anonymous_slash_free: "slash_free x \<Longrightarrow> slash_free (anonymous x)"
  by (auto simp: anonymous_def slash_free_def)

text \<open>Both orders of the three replacements are the reference.\<close>

lemma replacements:
  assumes "\<forall>x \<in> set xs. slash_free x"
  shows "collapse_slashes (replace_segments number_segment (replace_segments uuid_segment (route_of xs))) =
      route_of (map anonymous (kept_segments xs))"
    and "replace_segments number_segment (replace_segments uuid_segment (collapse_slashes (route_of xs))) =
      route_of (map anonymous (kept_segments xs))"
proof -
  have two: "replace_segments number_segment (replace_segments uuid_segment (route_of ys)) = route_of (map anonymous ys)"
    if "\<forall>y \<in> set ys. slash_free y" for ys
  proof -
    have "\<forall>y \<in> set (map (\<lambda>x. if uuid_segment x then '':id'' else x) ys). slash_free y"
      using that by (auto simp: slash_free_def)
    then show ?thesis using that by (simp add: replace_route flip: anonymous_steps)
  qed
  have "\<forall>x \<in> set (map anonymous xs). slash_free x" using assms anonymous_slash_free by auto
  then show "collapse_slashes (replace_segments number_segment (replace_segments uuid_segment (route_of xs))) =
      route_of (map anonymous (kept_segments xs))"
    by (simp add: two assms collapse_route kept_map anonymous_nil)
  show "replace_segments number_segment (replace_segments uuid_segment (collapse_slashes (route_of xs))) =
      route_of (map anonymous (kept_segments xs))"
    using kept_subset [of xs] assms by (simp add: collapse_route two subset_eq)
qed

lemma telemetry_route:
  "Telemetry_normalizeRoute to_text v =
     (if toLabelValue to_text v = DEFAULT_LABEL_VALUE then DEFAULT_LABEL_VALUE else route_reference (toLabelValue to_text v))"
  using replacements(1) [OF path_segments [of "leading_slash (without_query (toLabelValue to_text v))"]]
  by (simp add: Telemetry_normalizeRoute_def Let_def route_reference_def path_route)

lemma timing_route: "Timing_normalizeRoute raw = route_reference raw"
  using replacements(2) [OF path_segments [of "leading_slash (without_query raw)"]]
  by (simp add: Timing_normalizeRoute_def route_reference_def path_route)

lemma segments_route: "\<forall>x \<in> set xs. slash_free x \<Longrightarrow> xs \<noteq> [] \<Longrightarrow> segments (route_of xs) = [] # xs"
proof (induction xs)
  case (Cons x xs)
  have "segments (x @ r) = (x @ hd (segments r)) # tl (segments r)" for r
    using Cons.prems(1) by (induction x) (auto simp: slash_free_def split: list.split)
  from this [of "[]"] this [of "route_of xs"] show ?case using Cons by (cases "xs = []") simp_all
qed simp

section \<open>Properties\<close>

definition identifying :: "string \<Rightarrow> bool" where
  "identifying x \<longleftrightarrow> uuid_segment x \<or> number_segment x"

text \<open>
  The two normalisations of a route, of the interceptor and of the labels, are the same function of
  its segments although they run their replacements in different orders: identifiers become a
  placeholder, repeated slashes one. So no route label has a segment that is an identifier.
\<close>

theorem route_labels_agree:
  "Timing_normalizeRoute raw = route_reference raw \<and>
   Telemetry_normalizeRoute to_text v =
     (if toLabelValue to_text v = DEFAULT_LABEL_VALUE then DEFAULT_LABEL_VALUE else route_reference (toLabelValue to_text v)) \<and>
   (\<forall>x \<in> set (segments (route_reference raw)). \<not> identifying x)"
proof -
  define xs where "xs = kept_segments (tl (segments (leading_slash (without_query raw))))"
  have slash: "\<forall>x \<in> set xs. slash_free x"
    using kept_subset path_segments unfolding xs_def by blast
  then have "\<forall>x \<in> set (map anonymous xs). slash_free x" using anonymous_slash_free by auto
  then have "set (segments (route_of (map anonymous xs))) \<subseteq> insert [] (anonymous ` set xs)"
    by (cases "xs = []") (simp_all add: segments_route)
  moreover have "\<not> identifying (anonymous x)" "\<not> identifying []" for x by (auto simp: identifying_def anonymous_def)
  ultimately have "\<forall>x \<in> set (segments (route_reference raw)). \<not> identifying x"
    unfolding route_reference_def xs_def [symmetric] by blast
  then show ?thesis by (simp add: timing_route telemetry_route)
qed

theorem route_labels_agree_witness:
  "list_all (\<lambda>x. \<not> identifying x) (segments (Timing_normalizeRoute ''/api//events/11111111-1111-4111-8111-111111111111/tables/7?x=1''))"
  using route_labels_agree [of "''/api//events/11111111-1111-4111-8111-111111111111/tables/7?x=1''"] by (simp add: list_all_iff)

lemma length_replace:
  assumes "\<And>x. p x \<Longrightarrow> 4 \<le> k * Suc (length x)" and "1 \<le> k"
  shows "length (replace_segments p x) \<le> k * length x"
  using assms
proof (induction p x rule: replace_segments.induct)
  case (2 p c r)
  let ?t = "takeWhile (\<lambda>c. c \<noteq> CHR ''/'') r" and ?d = "dropWhile (\<lambda>c. c \<noteq> CHR ''/'') r"
  show ?case
  proof (cases "c = CHR ''/'' \<and> p ?t")
    case True
    have "length r = length ?t + length ?d" by (metis length_append takeWhile_dropWhile_id)
    then have "k * length (c # r) = k * Suc (length ?t) + k * length ?d" by (simp add: algebra_simps)
    then show ?thesis using 2(1) [OF True 2(3,4)] 2(3) [of ?t] True by simp
  next
    case False
    then show ?thesis using 2(2) [OF False 2(3,4)] 2(4) by auto
  qed
qed simp

lemma length_collapse: "length (collapse_slashes x) \<le> length x"
  by (induction x rule: collapse_slashes.induct) auto

lemma replaced_nonempty: "collapse_slashes x = [] \<longleftrightarrow> x = []" "replace_segments p x = [] \<longleftrightarrow> x = []"
  by (induction x rule: collapse_slashes.induct; simp) (cases x; simp)

lemma label_bounds: "toLabelValue to_text v \<noteq> [] \<and> length (toLabelValue to_text v) \<le> 120"
  by (auto simp: toLabelValue_def DEFAULT_LABEL_VALUE_def Let_def split: json.split)

lemma route_bounds: "Telemetry_normalizeRoute to_text v \<noteq> [] \<and> length (Telemetry_normalizeRoute to_text v) \<le> 242"
proof (cases "toLabelValue to_text v = DEFAULT_LABEL_VALUE")
  case True
  then show ?thesis by (simp add: Telemetry_normalizeRoute_def DEFAULT_LABEL_VALUE_def)
next
  case False
  let ?y = "leading_slash (without_query (toLabelValue to_text v))"
  have "length (without_query (toLabelValue to_text v)) \<le> 120"
    using label_bounds [of to_text v] length_takeWhile_le order_trans unfolding without_query_def by blast
  then have "length ?y \<le> 121" by (simp add: leading_slash_def)
  moreover have "length (replace_segments number_segment (replace_segments uuid_segment ?y)) \<le>
      2 * length (replace_segments uuid_segment ?y)"
    by (rule length_replace) (auto simp: number_segment_def Suc_le_eq)
  moreover have "length (replace_segments uuid_segment ?y) \<le> 1 * length ?y"
    by (rule length_replace) (simp_all add: uuid_segment_def)
  moreover note length_collapse [of "replace_segments number_segment (replace_segments uuid_segment ?y)"]
  ultimately have "length (collapse_slashes (replace_segments number_segment (replace_segments uuid_segment ?y))) \<le> 242"
    by linarith
  moreover have "?y \<noteq> []" by (simp add: leading_slash_def)
  ultimately show ?thesis using False by (simp add: Telemetry_normalizeRoute_def replaced_nonempty Let_def)
qed

text \<open>
  Every label of a metric is a nonempty text of at most 120 characters, the route of at most 242,
  whatever value it is made of.
\<close>

theorem labels_are_bounded:
  "map fst (buildCommonLabels to_text attributes) =
     [''method'', ''route'', ''status_code'', ''provider'', ''event_type'', ''error_code'', ''retryable'', ''dead_letter'',
      ''result'', ''currency'', ''dependency''] \<and>
   list_all (\<lambda>(key, label). label \<noteq> [] \<and> length label \<le> (if key = ''route'' then 242 else 120))
     (buildCommonLabels to_text attributes)"
  by (simp add: buildCommonLabels_def Let_def label_bounds route_bounds)

text \<open>Counters never go down, whatever is recorded.\<close>

definition grown :: "registry \<Rightarrow> registry \<Rightarrow> bool" where
  "grown s s' \<longleftrightarrow> (\<forall>key. mtr_events s key \<le> mtr_events s' key \<and> mtr_counters s key \<le> mtr_counters s' key)"

lemma grown_trans: "grown s t \<Longrightarrow> grown t u \<Longrightarrow> grown s u"
  unfolding grown_def using order_trans by blast

lemma grown_increment: "grown s (snd (incrementCounter to_text m v attributes s))"
  by (auto simp: incrementCounter_def counted_def grown_def split: sum.splits if_splits)

lemma grown_fields:
  "grown s (snd (for_each (\<lambda>(field, rawValue).
     case json_number rawValue of None \<Rightarrow> ret () | Some x \<Rightarrow> incrementCounter to_text (f field) (Some x) payload) ps s))"
proof (induction ps arbitrary: s)
  case Nil
  then show ?case by (simp add: grown_def ret_def)
next
  case (Cons y ps)
  obtain field v where y: "y = (field, v)" by (cases y)
  show ?case
  proof (cases "json_number v")
    case None
    with Cons show ?thesis by (simp add: y seqp_def bindp_def ret_def)
  next
    case (Some x)
    obtain q t where one: "incrementCounter to_text (f field) (Some x) payload s = (q, t)" by fastforce
    with grown_increment [of s to_text "f field" "Some x" payload] have "grown s t" by simp
    with Some one Cons [of t] show ?thesis
      by (cases q) (auto simp: y seqp_def bindp_def intro: grown_trans)
  qed
qed

lemma grown_record: "grown s (snd (Telemetry_record to_text e payload s))"
proof -
  let ?s = "s\<lparr> mtr_events := (mtr_events s)((e, buildCommonLabels to_text payload) :=
      mtr_events s (e, buildCommonLabels to_text payload) + 1) \<rparr>"
  have "grown s ?s" by (simp add: grown_def)
  then have "grown s (snd (for_each (\<lambda>(field, rawValue). case json_number rawValue of None \<Rightarrow> ret ()
      | Some x \<Rightarrow> incrementCounter to_text (''event.'' @ e @ ''.'' @ field) (Some x) payload) payload ?s))"
    using grown_fields [of ?s to_text "\<lambda>field. ''event.'' @ e @ ''.'' @ field" payload payload] grown_trans by blast
  then show ?thesis by (simp add: Telemetry_record_def counted_def seqp_def bindp_def)
qed

text \<open>
  A negative number in the payload of an event is an error of the registry, which the caller gets: an
  outbox run with a negative limit fails for this reason before a row is claimed.
\<close>

lemma negative_field_throws:
  "fst (Telemetry_record to_text e [(''requestedLimit'', JNum (- 1))] s) = Inl (OtherError ''Error'' ''It is not possible to decrease a counter'')"
  by (simp add: Telemetry_record_def counted_def seqp_def bindp_def json_number_def incrementCounter_def finite_or_zero_def ret_def)

text \<open>
  The interceptor never fails a request: when a request has ended one duration is observed under its
  normalised route, a slow request is counted, and no counter has gone down.
\<close>

theorem timing_is_recorded:
  "case TimingInterceptor_finalize to_text request statusCode startedAt now s of (r, s') \<Rightarrow>
     r = Inr () \<and> grown s s' \<and> mtr_gauges s' = mtr_gauges s \<and>
     mtr_durations s' = mtr_durations s @
       [((''http.request.duration'', buildCommonLabels to_text (timing_attributes request statusCode)), of_int (now - startedAt))] \<and>
     (let key = (''http.request.slow'', buildCommonLabels to_text (timing_attributes request statusCode)) in
      mtr_counters s' key = mtr_counters s key + (if now - startedAt \<ge> 750 then 1 else 0))"
  by (simp add: TimingInterceptor_finalize_def recordTiming_def incrementCounter_def counted_def finite_or_zero_def
      seqp_def bindp_def ret_def SLOW_PATH_THRESHOLD_MS_def grown_def Let_def)

end
