(* ===== verification/Health.thy ===== *)
theory Health
  imports Redis_Cache Config
begin

text \<open>
  The health routes (\<^verbatim>\<open>src/modules/health\<close>). Parameters, in the record \<open>probe\<close>: whether the query of the
  database check succeeds, the cache service where there is one, the readings of the clocks and the
  environment.
\<close>

section \<open>Checks\<close>

record probe =
  prb_database :: bool
  prb_redis :: "redis option"
  prb_databaseTimes :: "int \<times> int"
  prb_redisTimes :: "int \<times> int"
  prb_timestamp :: string
  prb_uptime :: rat
  prb_environment :: process_env

datatype dependency_status = dep_ok | dep_fail | dep_skipped

record HealthDependencyResult =
  hdr_status :: dependency_status
  hdr_required :: bool
  hdr_latencyMs :: int

definition DatabaseHealthCheck_check :: "probe \<Rightarrow> HealthDependencyResult" where
  "DatabaseHealthCheck_check E =
     \<lparr> hdr_status = (if prb_database E then dep_ok else dep_fail), hdr_required = True,
       hdr_latencyMs = snd (prb_databaseTimes E) - fst (prb_databaseTimes E) \<rparr>"

definition RedisHealthCheck_checkIfAvailable :: "probe \<Rightarrow> HealthDependencyResult" where
  "RedisHealthCheck_checkIfAvailable E =
     (case prb_redis E of
        None \<Rightarrow> \<lparr> hdr_status = dep_skipped, hdr_required = False, hdr_latencyMs = 0 \<rparr>
      | Some redis \<Rightarrow>
          \<lparr> hdr_status = (case fst (RedisService_ping redis) of Inr _ \<Rightarrow> dep_ok | Inl _ \<Rightarrow> dep_fail), hdr_required = False,
            hdr_latencyMs = snd (prb_redisTimes E) - fst (prb_redisTimes E) \<rparr>)"

definition RollbackHealthCheck_check :: dependency_status where
  "RollbackHealthCheck_check = dep_ok"

definition safeValue :: "string option \<Rightarrow> nat \<Rightarrow> string" where
  "safeValue v maxLength =
     (let trimmed_value = map_option js_trim v in
      if \<not> truthy trimmed_value then ''unknown'' else take maxLength (the trimmed_value))"

record HealthBuildMetadata =
  hbm_version :: string
  hbm_commit :: string
  hbm_environment :: string

definition getBuildMetadata :: "process_env \<Rightarrow> HealthBuildMetadata" where
  "getBuildMetadata env =
     \<lparr> hbm_version = safeValue (env ''APP_VERSION'') 80, hbm_commit = safeValue (env ''APP_COMMIT'') 80,
       hbm_environment = safeValue (env ''NODE_ENV'') 40 \<rparr>"

section \<open>The service\<close>

definition HEALTH_SERVICE_NAME :: string where "HEALTH_SERVICE_NAME = ''govibe-api''"

record LivenessHealthResponse =
  lhr_status :: string
  lhr_service :: string
  lhr_check :: string
  lhr_timestamp :: string
  lhr_uptimeSeconds :: int

definition getLiveness :: "probe \<Rightarrow> LivenessHealthResponse" where
  "getLiveness E = \<lparr> lhr_status = ''ok'', lhr_service = HEALTH_SERVICE_NAME, lhr_check = ''liveness'',
     lhr_timestamp = prb_timestamp E, lhr_uptimeSeconds = \<lfloor>prb_uptime E\<rfloor> \<rparr>"

datatype readiness = ready | degraded | not_ready

record ReadinessHealthResponse =
  rhr_status :: readiness
  rhr_service :: string
  rhr_check :: string
  rhr_timestamp :: string
  rhr_database :: HealthDependencyResult
  rhr_redis :: "HealthDependencyResult option"
  rhr_rollback :: dependency_status
  rhr_build :: HealthBuildMetadata

definition getReadiness :: "probe \<Rightarrow> ReadinessHealthResponse" where
  "getReadiness E =
     (let database = DatabaseHealthCheck_check E; redis = RedisHealthCheck_checkIfAvailable E in
      \<lparr> rhr_status =
          (if hdr_status database = dep_fail then not_ready
           else if hdr_status redis = dep_fail then degraded else ready),
        rhr_service = HEALTH_SERVICE_NAME, rhr_check = ''readiness'', rhr_timestamp = prb_timestamp E,
        rhr_database = database, rhr_redis = (if hdr_status redis \<noteq> dep_skipped then Some redis else None),
        rhr_rollback = RollbackHealthCheck_check, rhr_build = getBuildMetadata (prb_environment E) \<rparr>)"

record SummaryHealthResponse =
  shr_status :: string
  shr_service :: string
  shr_check :: string
  shr_timestamp :: string
  shr_uptimeSeconds :: int
  shr_build :: HealthBuildMetadata

definition getSummary :: "probe \<Rightarrow> SummaryHealthResponse" where
  "getSummary E = \<lparr> shr_status = ''ok'', shr_service = HEALTH_SERVICE_NAME, shr_check = ''summary'',
     shr_timestamp = prb_timestamp E, shr_uptimeSeconds = \<lfloor>prb_uptime E\<rfloor>,
     shr_build = getBuildMetadata (prb_environment E) \<rparr>"

section \<open>The controller\<close>

datatype health_call = GetLive | GetReady | GetHealth

datatype health_body =
    LivenessBody LivenessHealthResponse
  | ReadinessBody ReadinessHealthResponse
  | SummaryBody SummaryHealthResponse

fun HealthController :: "probe \<Rightarrow> health_call \<Rightarrow> int \<times> health_body" where
  "HealthController E GetLive = (200, LivenessBody (getLiveness E))"
| "HealthController E GetReady =
     (let result = getReadiness E in (if rhr_status result = not_ready then 503 else 200, ReadinessBody result))"
| "HealthController E GetHealth = (200, SummaryBody (getSummary E))"

section \<open>Properties\<close>

text \<open>
  The readiness route answers 503 exactly when the database does not answer. A cache that cannot be
  reached only degrades the service, one that is not configured is not reported, and the other two
  routes answer 200 whatever fails. What is told of the build are texts of bounded length.
\<close>

theorem readiness_follows_the_database:
  "(fst (HealthController E GetReady) = 503 \<longleftrightarrow> \<not> prb_database E) \<and>
   fst (HealthController E GetLive) = 200 \<and> fst (HealthController E GetHealth) = 200 \<and>
   (rhr_status (getReadiness E) = degraded \<longleftrightarrow>
      prb_database E \<and> (\<exists>redis m. prb_redis E = Some redis \<and> rds_fault redis = Some m)) \<and>
   (rhr_redis (getReadiness E) = None \<longleftrightarrow> prb_redis E = None) \<and>
   (let build = rhr_build (getReadiness E) in
      hbm_version build \<noteq> [] \<and> length (hbm_version build) \<le> 80 \<and>
      hbm_commit build \<noteq> [] \<and> length (hbm_commit build) \<le> 80 \<and>
      hbm_environment build \<noteq> [] \<and> length (hbm_environment build) \<le> 40)"
proof -
  have "safeValue v n \<noteq> []" "length (safeValue v n) \<le> n" if "7 \<le> n" for v n
    using that by (auto simp: safeValue_def truthy_iff Let_def)
  then show ?thesis
    by (auto simp: getReadiness_def Let_def DatabaseHealthCheck_check_def RedisHealthCheck_checkIfAvailable_def
        RedisService_ping_def reply_def ret_def getBuildMetadata_def split: option.splits)
qed

end
