(* ===== verification/Public_Api.thy ===== *)
theory Public_Api
  imports Api Health
begin

text \<open>
  The public routes: sign-up, login and refresh (\<^verbatim>\<open>src/auth/auth.controller.ts\<close>), the payment webhooks
  (\<^verbatim>\<open>src/modules/payments/controllers/payment-webhooks.controller.ts\<close> with the middleware that keeps the raw
  body), health and metrics. They share the middleware, the pipes and the error mapper with the protected
  routes; their guards let every request pass. A webhook carries the raw text, its parsed value and
  whether the middleware of the raw body finds nothing to read: a parser has read the body before it, or
  the body is not JSON.
\<close>

section \<open>Calls\<close>

record webhook_request =
  whr_raw :: string
  whr_parsed :: json
  whr_headers :: WebhookHeaders
  whr_alreadyRead :: bool

datatype public_call =
    PostSignup SignupDto
  | PostLogin LoginDto
  | PostRefresh string string
  | PostPaystackWebhook webhook_request
  | PostMtnMomoWebhook webhook_request
  | HealthRoute health_call
  | GetMetrics

datatype public_body =
    AuthBody AuthResponse
  | WebhookBody PaymentWebhookResult
  | HealthBody health_body
  | MetricsBody string

record public_services =
  pub_api :: api_services
  pub_probe :: probe
  pub_metrics :: string
  pub_bodyError :: "public_call \<Rightarrow> string option"

section \<open>Controllers\<close>

text \<open>A body that was read before is not read again, and its raw text is not kept.\<close>

definition RawBodyMiddleware_use :: "webhook_request \<Rightarrow> string option" where
  "RawBodyMiddleware_use w = (if whr_alreadyRead w then None else Some (whr_raw w))"

definition HandlePaymentWebhook_execute ::
  "env \<Rightarrow> provider_lib \<Rightarrow> AppConfigValues \<Rightarrow> PaymentWebhookInput \<Rightarrow> (db, PaymentWebhookResult) prog" where
  "HandlePaymentWebhook_execute E L c input =
     handleWebhook E (hmac_sha512 L) (PAYSTACK_SECRET_KEY c) (registry_verifier L c) input"

definition PaymentWebhooksController ::
  "env \<Rightarrow> provider_lib \<Rightarrow> AppConfigValues \<Rightarrow> string \<Rightarrow> webhook_request \<Rightarrow> (db, PaymentWebhookResult) prog" where
  "PaymentWebhooksController E L c provider w =
     (case RawBodyMiddleware_use w of
        None \<Rightarrow> throw (BadRequestException ''Raw request body is required for webhook verification.'')
      | Some rawBody \<Rightarrow>
          HandlePaymentWebhook_execute E L c \<lparr> wi_provider = provider, wi_rawBody = rawBody,
            wi_parsedBody = whr_parsed w, wi_headers = whr_headers w \<rparr>)"

fun public_dispatch :: "public_services \<Rightarrow> env \<Rightarrow> http_request \<Rightarrow> public_call \<Rightarrow> (db, public_body) prog" where
  "public_dispatch P E req (PostSignup dto) = bindp (signup (api_auth (pub_api P)) E dto req) (\<lambda>r. ret (AuthBody r))"
| "public_dispatch P E req (PostLogin dto) = bindp (login (api_auth (pub_api P)) E dto req) (\<lambda>r. ret (AuthBody r))"
| "public_dispatch P E req (PostRefresh refreshToken deviceId) =
     bindp (refresh (api_auth (pub_api P)) E refreshToken deviceId req) (\<lambda>r. ret (AuthBody r))"
| "public_dispatch P E req (PostPaystackWebhook w) =
     bindp (PaymentWebhooksController E (api_provider (pub_api P)) (api_config (pub_api P)) ''paystack'' w)
       (\<lambda>r. ret (WebhookBody r))"
| "public_dispatch P E req (PostMtnMomoWebhook w) =
     bindp (PaymentWebhooksController E (api_provider (pub_api P)) (api_config (pub_api P)) ''momo'' w)
       (\<lambda>r. ret (WebhookBody r))"
| "public_dispatch P E req (HealthRoute c) = ret (HealthBody (snd (HealthController (pub_probe P) c)))"
| "public_dispatch P E req GetMetrics = ret (MetricsBody (pub_metrics P))"

fun public_success :: "public_services \<Rightarrow> public_call \<Rightarrow> int" where
  "public_success P (PostSignup dto) = 201"
| "public_success P (PostLogin dto) = 201"
| "public_success P (PostRefresh refreshToken deviceId) = 201"
| "public_success P (HealthRoute c) = fst (HealthController (pub_probe P) c)"
| "public_success P call = 200"

section \<open>The way of a request\<close>

record public_outgoing =
  pou_status :: int
  pou_headers :: "(string \<times> string) list"
  pou_body :: "json + public_body"

definition run_public :: "public_services \<Rightarrow> env \<Rightarrow> http_request \<Rightarrow> public_call \<Rightarrow> (db, public_body) prog" where
  "run_public P E req call =
     (case guarded True None None (Inr None) of
        Inl e \<Rightarrow> throw e
      | Inr _ \<Rightarrow>
          (case pub_bodyError P call of
             Some m \<Rightarrow> throw (BadRequestException m)
           | None \<Rightarrow> public_dispatch P E req call))"

definition serve_public ::
  "public_services \<Rightarrow> (nat \<Rightarrow> env) \<Rightarrow> incoming \<Rightarrow> public_call \<Rightarrow> db \<Rightarrow> public_outgoing \<times> db" where
  "serve_public P T inc call s =
     (case RequestContextMiddleware_use (T 0) (inc_raw inc) of
        (ctx, headers) \<Rightarrow>
          (case run_public P (T 2) (inc_http inc) call s of
             (Inl e, s') \<Rightarrow>
               (case GlobalExceptionFilter_catch (inc_url inc) (inc_method inc) (Some ctx) e of
                  (status, body) \<Rightarrow> (\<lparr> pou_status = status, pou_headers = headers, pou_body = Inl body \<rparr>, s'))
           | (Inr x, s') \<Rightarrow>
               (\<lparr> pou_status = public_success P call, pou_headers = headers, pou_body = Inr x \<rparr>, s')))"

section \<open>Runs\<close>

lemma public_guards: "guarded True None None (Inr None) = Inr None"
  by (simp add: guarded_def JwtAuthGuard_canActivate_def RolesGuard_canActivate_def PermissionsGuard_canActivate_def)

lemma run_public_dispatch: "pub_bodyError P call = None \<Longrightarrow> run_public P E req call = public_dispatch P E req call"
  by (simp add: run_public_def public_guards)

lemma serve_public_run:
  assumes "serve_public P T inc call s = (out, s')"
  obtains r where "run_public P (T 2) (inc_http inc) call s = (r, s')"
    and "pou_status out = (case r of Inl e \<Rightarrow> hx_status (mapped_exception e) | Inr x \<Rightarrow> public_success P call)"
    and "\<And>x. pou_body out = Inr x \<longleftrightarrow> r = Inr x"
proof -
  obtain ctx headers where m: "RequestContextMiddleware_use (T 0) (inc_raw inc) = (ctx, headers)" by fastforce
  obtain r t where run: "run_public P (T 2) (inc_http inc) call s = (r, t)" by fastforce
  show thesis
  proof (cases r)
    case (Inl e)
    obtain status body where f: "GlobalExceptionFilter_catch (inc_url inc) (inc_method inc) (Some ctx) e = (status, body)" by fastforce
    with filter_status [of "inc_url inc" "inc_method inc" "Some ctx" e] have "status = hx_status (mapped_exception e)" by simp
    with assms that [of r] show thesis by (auto simp: serve_public_def m run Inl f)
  next
    case (Inr x)
    with assms that [of r] show thesis by (auto simp: serve_public_def m run)
  qed
qed

text \<open>A refused signature adds one row to the webhook events, or none.\<close>

lemma persist_only: "\<exists>rows. persistRejectedSignatureEvent E p h raw hs m s = (Inr (), s\<lparr> provider_webhook_events := rows \<rparr>)"
proof (cases "list_ex (webhook_clash (rejected_event E p h raw hs m)) (provider_webhook_events s)")
  case True
  then have "persistRejectedSignatureEvent E p h raw hs m s = (Inr (), s)"
    by (simp add: persistRejectedSignatureEvent_def WebhookEvent_create_def prisma_create_run catchp_def seqp_def
        bindp_def isDuplicateError_def)
  then show ?thesis by (intro exI [of _ "provider_webhook_events s"]) simp
next
  case False
  then have "persistRejectedSignatureEvent E p h raw hs m s =
      (Inr (), s\<lparr> provider_webhook_events := provider_webhook_events s @ [rejected_event E p h raw hs m] \<rparr>)"
    by (simp add: persistRejectedSignatureEvent_def WebhookEvent_create_def prisma_create_run catchp_def seqp_def bindp_def)
  then show ?thesis by blast
qed

section \<open>Properties\<close>

text \<open>
  C17: A Paystack delivery that is not signed with the secret key is answered 401, and one whose raw text
  is not at hand 400; in both cases no row of the database has changed but the record of the refused
  delivery, whatever the body says.
\<close>

theorem unsigned_delivery_changes_nothing:
  assumes "serve_public P T inc (PostPaystackWebhook w) s = (out, s')" and "pub_bodyError P (PostPaystackWebhook w) = None"
    and "whr_alreadyRead w \<or>
      getHeaderValue (whr_headers w) ''x-paystack-signature'' \<noteq>
        Some (hmac_sha512 (api_provider (pub_api P)) (PAYSTACK_SECRET_KEY (api_config (pub_api P))) (whr_raw w))"
  shows "pou_status out = (if whr_alreadyRead w then 400 else 401) \<and> (\<exists>rows. s' = s\<lparr> provider_webhook_events := rows \<rparr>)"
proof -
  let ?L = "api_provider (pub_api P)" and ?c = "api_config (pub_api P)"
  from serve_public_run [OF assms(1)] obtain r where
    run: "public_dispatch P (T 2) (inc_http inc) (PostPaystackWebhook w) s = (r, s')" and
    status: "pou_status out = (case r of Inl e \<Rightarrow> hx_status (mapped_exception e) | Inr x \<Rightarrow> 200)"
    unfolding run_public_dispatch [OF assms(2)] public_success.simps by blast
  show ?thesis
  proof (cases "whr_alreadyRead w")
    case True
    with run have r: "r = Inl (BadRequestException ''Raw request body is required for webhook verification.'')" "s' = s"
      by (simp_all add: PaymentWebhooksController_def RawBodyMiddleware_use_def bindp_def throw_def)
    then have "pou_status out = 400" by (simp add: status mapped_exception_def as_http_exception_def nest_def)
    with True r(2) show ?thesis by (simp add: exI [of _ "provider_webhook_events s"])
  next
    case False
    with assms(3) have "\<exists>m. validatePaystackSignature (hmac_sha512 ?L) (whr_raw w) (whr_headers w) (PAYSTACK_SECRET_KEY ?c) = Some m"
      by (auto simp: validatePaystackSignature_def Let_def split: option.splits)
    then obtain m where bad: "validatePaystackSignature (hmac_sha512 ?L) (whr_raw w) (whr_headers w) (PAYSTACK_SECRET_KEY ?c) = Some m" ..
    obtain rows where "persistRejectedSignatureEvent (T 2) PAYSTACK (computePayloadHash (T 2) (whr_raw w)) (whr_raw w)
        (toJsonHeaders (whr_headers w)) m s = (Inr (), s\<lparr> provider_webhook_events := rows \<rparr>)" using persist_only by blast
    with run status bad False show ?thesis
      by (auto simp: PaymentWebhooksController_def RawBodyMiddleware_use_def HandlePaymentWebhook_execute_def handleWebhook_def
          resolveWebhookProvider_def Let_def bindp_def seqp_def throw_def mapped_exception_def as_http_exception_def
          mapErrorToHttp_def nest_def)
  qed
qed

text \<open>
  The server of \<^verbatim>\<open>src/main.ts\<close> runs the parser of the framework first, so that every delivery is refused.
\<close>

lemma framework_parser_refuses_webhooks:
  "whr_alreadyRead w \<Longrightarrow> PaymentWebhooksController E L c provider w =
     throw (BadRequestException ''Raw request body is required for webhook verification.'')"
  by (simp add: PaymentWebhooksController_def RawBodyMiddleware_use_def)

text \<open>A call whose token does not verify.\<close>

lemma no_user_refused:
  assumes "authenticate (api_auth A) (T 1) bearer s = (Inr None, s)" and "run_call A F T ctx req bearer call s = (r, s')"
  shows "(\<exists>m. r = Inl (UnauthorizedException m)) \<and> s' = s"
  using assms by (auto simp: run_call_def guarded_def JwtAuthGuard_canActivate_def simp del: One_nat_def)

text \<open>
  C32: From the login to the handler. A call with the access token in the answer of a login, against the
  state the login left. While the token lives (fifteen minutes, both instants counted in whole seconds) the
  call is decided as one of the active account whose email and password the login named: 403 without the
  permissions of the role of that account, 400 for a malformed request, and otherwise it reaches its handler.
  Once they are over it is answered 401 and changes nothing.
\<close>

theorem login_opens_the_routes:
  assumes "jwt_reads_back (api_auth A)" and "A = pub_api P" and "distinct (map usr_id (users s))"
    and "serve_public P T inc (PostLogin dto) s = (out, s1)" and "pou_body out = Inr (AuthBody r)"
    and "0 \<le> app_now (T 2)" and "app_now (T 2) \<le> app_now (T' 1)"
    and "inc_bearer inc' = Some (are_accessToken r)" and "serve A F T' inc' call s1 = (out', s2)"
  shows "\<exists>u\<in>set (users s). credentials_ok (api_auth A) dto u \<and>
    (let v = \<lparr> atu_id = usr_id u, atu_email = usr_email u, atu_role = usr_role u, atu_sessionId = are_sessionId r,
         atu_permissions = ROLE_PERMISSIONS (usr_role u), atu_emailVerifiedAt = usr_emailVerifiedAt u, atu_isActive = True \<rparr>
     in if \<not> jwt_lives (app_now (T 2)) ACCESS_TOKEN_TTL_SECONDS (app_now (T' 1)) then out_status out' = 401 \<and> s2 = s1
        else if \<not> may_call v call then out_status out' = 403 \<and> s2 = s1
        else if pipes F call \<noteq> Inr () then out_status out' = 400 \<and> s2 = s1
        else (\<exists>ctx headers q. dispatch A (T' 2) (inc_http inc') (with_user v ctx) v call s1 = (q, s2) \<and>
               out' = respond inc' ctx headers call q))"
proof -
  from serve_public_run [OF assms(4)] obtain q where
    q: "run_public P (T 2) (inc_http inc) (PostLogin dto) s = (q, s1)" "\<And>x. pou_body out = Inr x \<longleftrightarrow> q = Inr x" by metis
  then have "run_public P (T 2) (inc_http inc) (PostLogin dto) s = (Inr (AuthBody r), s1)" using q(2) [of "AuthBody r"] assms(5) by simp
  then have "login (api_auth A) (T 2) dto (inc_http inc) s = (Inr r, s1)"
    by (auto simp: run_public_def public_guards assms(2) bindp_def ret_def throw_def split: option.splits prod.splits sum.splits)
  note lg = this
  from serve_run [OF assms(9)] obtain ctx headers k where
    run: "run_call A F T' ctx (inc_http inc') (inc_bearer inc') call s1 = (k, s2)" "out' = respond inc' ctx headers call k" by blast
  show ?thesis
  proof (cases "jwt_lives (app_now (T 2)) ACCESS_TOKEN_TTL_SECONDS (app_now (T' 1))")
    case False
    from lg obtain u where u: "u \<in> set (users s)" "credentials_ok (api_auth A) dto u" by (rule login_Inr)
    have "authenticate (api_auth A) (T' 1) (inc_bearer inc') s1 = (Inr None, s1)"
      using token_expires [OF assms(1) lg assms(6,7) False] by (simp add: assms(8) authenticate_def ret_def)
    from no_user_refused [OF this run(1)] False u show ?thesis
      by (intro bexI [of _ u]) (auto simp: Let_def run(2) refusal_codes simp del: One_nat_def split: if_splits)
  next
    case True
    from login_roundtrip [OF assms(1) lg assms(3,6,7) True] obtain u where u: "u \<in> set (users s)" "credentials_ok (api_auth A) dto u"
      and auth: "authorized (api_auth A) (T' 1) (Some (are_accessToken r)) s1 =
        (Inr (Some \<lparr> atu_id = usr_id u, atu_email = usr_email u, atu_role = usr_role u, atu_sessionId = are_sessionId r,
           atu_permissions = ROLE_PERMISSIONS (usr_role u), atu_emailVerifiedAt = usr_emailVerifiedAt u,
           atu_isActive = True \<rparr>), s1)" by blast
    let ?v = "\<lparr> atu_id = usr_id u, atu_email = usr_email u, atu_role = usr_role u, atu_sessionId = are_sessionId r,
        atu_permissions = ROLE_PERMISSIONS (usr_role u), atu_emailVerifiedAt = usr_emailVerifiedAt u, atu_isActive = True \<rparr>"
    have b: "bearer_user (api_auth A) (T' 1) (inc_bearer inc') s1 = Some ?v"
    proof (cases "bearer_user (api_auth A) (T' 1) (inc_bearer inc') s1")
      case None
      from authenticate_refused [OF None] auth assms(8) show ?thesis
        by (auto simp: authorized_def JwtAuthGuard_canActivate_def)
    next
      case (Some w)
      with authenticate_user [OF Some] auth assms(8) show ?thesis
        by (auto simp: authorized_def JwtAuthGuard_canActivate_def)
    qed
    from run_call_cases [OF run(1)] b u True show ?thesis
      by (intro bexI [of _ u]) (auto simp: Let_def run(2) refusal_codes simp del: One_nat_def split: if_splits)
  qed
qed

section \<open>Witnesses\<close>

definition ex_public :: public_services where
  "ex_public =
     \<lparr> pub_api = ex_services,
       pub_probe = \<lparr> prb_database = True, prb_redis = None, prb_databaseTimes = (0, 1), prb_redisTimes = (0, 0),
         prb_timestamp = [], prb_uptime = 1, prb_environment = (\<lambda>_. None) \<rparr>,
       pub_metrics = [], pub_bodyError = (\<lambda>call. None) \<rparr>"

text \<open>A delivery that claims a payment, with a signature made without the key.\<close>

definition ex_forged_delivery :: webhook_request where
  "ex_forged_delivery =
     \<lparr> whr_raw = ''b'', whr_parsed = JObj [(''event'', JStr ''charge.success''), (''data'', JObj [])],
       whr_headers = [(''x-paystack-signature'', One ''xx'')], whr_alreadyRead = False \<rparr>"

lemma unsigned_delivery_changes_nothing_witness:
  "\<exists>out s' rows. serve_public ex_public (\<lambda>n. ex_event_env ''w1'') ex_incoming (PostPaystackWebhook ex_forged_delivery) ex_intent_db =
       (out, s') \<and> pou_status out = 401 \<and> s' = ex_intent_db\<lparr> provider_webhook_events := rows \<rparr>"
proof -
  obtain out s' where run: "serve_public ex_public (\<lambda>n. ex_event_env ''w1'') ex_incoming
      (PostPaystackWebhook ex_forged_delivery) ex_intent_db = (out, s')" by fastforce
  have "whr_alreadyRead ex_forged_delivery \<or>
      getHeaderValue (whr_headers ex_forged_delivery) ''x-paystack-signature'' \<noteq>
        Some (hmac_sha512 (api_provider (pub_api ex_public)) (PAYSTACK_SECRET_KEY (api_config (pub_api ex_public)))
          (whr_raw ex_forged_delivery))"
    by (simp add: ex_forged_delivery_def getHeaderValue_def ex_public_def ex_services_def ex_provider_lib_def ex_hmac_def
        ex_config_def)
  from unsigned_delivery_changes_nothing [OF run _ this]
  have "pou_status out = 401" "\<exists>rows. s' = ex_intent_db\<lparr> provider_webhook_events := rows \<rparr>"
    by (simp_all add: ex_public_def ex_forged_delivery_def)
  with run show ?thesis by blast
qed

text \<open>The administrator logs in and opens the route of the administrators with the answer.\<close>

lemma ex_public_login:
  "\<exists>out s1 r. serve_public ex_public (\<lambda>n. ex_auth_env) ex_incoming (PostLogin ex_credentials) ex_accounts = (out, s1) \<and>
     pou_body out = Inr (AuthBody r)"
proof -
  from ex_login_run obtain r s1 where "login ex_lib ex_auth_env ex_credentials ex_request ex_accounts = (Inr r, s1)" by blast
  then have "run_public ex_public ex_auth_env (inc_http ex_incoming) (PostLogin ex_credentials) ex_accounts = (Inr (AuthBody r), s1)"
    by (simp add: run_public_dispatch ex_public_def ex_services_def ex_incoming_def bindp_def ret_def)
  moreover obtain out s2 where run: "serve_public ex_public (\<lambda>n. ex_auth_env) ex_incoming (PostLogin ex_credentials) ex_accounts = (out, s2)"
    by fastforce
  ultimately show ?thesis using serve_public_run [OF run] by (metis Pair_inject)
qed

lemma login_opens_the_routes_witness:
  "\<exists>r s1. let inc = ex_incoming\<lparr> inc_bearer := Some (are_accessToken r) \<rparr> in
     pou_body (fst (serve_public ex_public (\<lambda>n. ex_auth_env) ex_incoming (PostLogin ex_credentials) ex_accounts)) =
       Inr (AuthBody r) \<and>
     out_status (fst (serve ex_services ex_framework (\<lambda>n. ex_auth_env\<lparr> app_now := 6000 \<rparr>) inc (AuthCall GetAdminOnly) s1)) = 200"
proof -
  let ?T = "\<lambda>n. ex_auth_env\<lparr> app_now := 6000 \<rparr>"
  from ex_public_login obtain out s1 r where
    run: "serve_public ex_public (\<lambda>n. ex_auth_env) ex_incoming (PostLogin ex_credentials) ex_accounts = (out, s1)" and
    body: "pou_body out = Inr (AuthBody r)" by blast
  let ?inc = "ex_incoming\<lparr> inc_bearer := Some (are_accessToken r) \<rparr>"
  obtain out' s2 where open_route: "serve ex_services ex_framework ?T ?inc (AuthCall GetAdminOnly) s1 = (out', s2)" by fastforce
  have "jwt_reads_back (api_auth ex_services)" using ex_lib_reads_back by (simp add: ex_services_def)
  from login_opens_the_routes [OF this _ _ run body _ _ _ open_route]
  have "out_status out' = 200"
    by (auto simp: ex_public_def ex_auth_env_def jwt_lives_def ACCESS_TOKEN_TTL_SECONDS_def ex_account_def may_call_def pipes_def
        ex_framework_def ret_def respond_def Let_def ROLE_PERMISSIONS_def split: prod.splits)
  with run body open_route show ?thesis by (auto simp: Let_def intro!: exI [of _ r] exI [of _ s1])
qed

end
