(* ===== verification/Payments_Smoke.thy ===== *)
theory Payments_Smoke
  imports Schema_Rehearsal Request_Context
begin

text \<open>
  The smoke test of the payment providers (\<^verbatim>\<open>scripts/payments-smoke.ts\<close>). It reads the environment with its
  own copies of \<open>loadLocalEnvFiles\<close>, \<open>stripWrappingQuotes\<close>, \<open>getRequiredEnv\<close> and \<open>getOptionalEnv\<close>, whose text
  is that of the rehearsal script, decides for which providers it may run and asks each of them for a
  payment. What a provider answers is the parameter \<open>adapter\<close>; the state of a run is the list of the
  requests that were handed to an adapter.
\<close>

section \<open>Providers\<close>

datatype smoke_provider = smoke_paystack | smoke_momo

definition provider_name :: "smoke_provider \<Rightarrow> string" where
  "provider_name p = (case p of smoke_paystack \<Rightarrow> ''paystack'' | smoke_momo \<Rightarrow> ''momo'')"

definition requiredEnvKeys :: "smoke_provider \<Rightarrow> string list" where
  "requiredEnvKeys p =
     (case p of
        smoke_paystack \<Rightarrow> [''PAYSTACK_SECRET_KEY'', ''PAYMENT_SMOKE_PAYSTACK_EMAIL'']
      | smoke_momo \<Rightarrow> [''MTN_MOMO_API_KEY'', ''MTN_MOMO_API_SECRET'', ''MTN_MOMO_SUBSCRIPTION_KEY'', ''MTN_MOMO_ENVIRONMENT'',
          ''PAYMENT_SMOKE_MOMO_PHONE'', ''PAYMENT_SMOKE_MOMO_CURRENCY''])"

definition requiredCredentialKeys :: "smoke_provider \<Rightarrow> string list" where
  "requiredCredentialKeys p =
     (case p of
        smoke_paystack \<Rightarrow> [''PAYSTACK_SECRET_KEY'']
      | smoke_momo \<Rightarrow> [''MTN_MOMO_API_KEY'', ''MTN_MOMO_API_SECRET'', ''MTN_MOMO_SUBSCRIPTION_KEY''])"

fun join_with :: "string \<Rightarrow> string list \<Rightarrow> string" where
  "join_with d [] = []"
| "join_with d [x] = x"
| "join_with d (x # xs) = x @ d @ join_with d xs"

text \<open>\<open>new Set\<close> keeps the first of equal entries.\<close>

definition first_of_each :: "'a list \<Rightarrow> 'a list" where
  "first_of_each xs = rev (remdups (rev xs))"

definition read_provider :: "string \<Rightarrow> smoke_provider option" where
  "read_provider x = (if x = ''paystack'' then Some smoke_paystack else if x = ''momo'' then Some smoke_momo else None)"

definition resolveSmokeProviders :: "process_env \<Rightarrow> app_error + smoke_provider list" where
  "resolveSmokeProviders env =
     (case nullish (getOptionalEnv ''PAYMENT_SMOKE_PROVIDERS'' env) (getOptionalEnv ''PILOT_ALLOWED_PAYMENT_PROVIDERS'' env) of
        None \<Rightarrow> Inr [smoke_paystack, smoke_momo]
      | Some raw \<Rightarrow>
          let providers = filter (\<lambda>x. x \<noteq> []) (map (\<lambda>x. toLowerCase (js_trim x)) (split_commas raw));
              invalid = filter (\<lambda>x. read_provider x = None) providers in
          if providers = [] then fail ''PAYMENT_SMOKE_PROVIDERS must contain at least one provider when set.''
          else if invalid \<noteq> [] then
            fail (''Unsupported payment smoke provider(s): '' @ join_with '', '' invalid @ ''. Supported values: '' @
              join_with '', '' SUPPORTED_PAYMENT_PROVIDERS @ ''.'')
          else Inr (first_of_each (List.map_filter read_provider providers)))"

section \<open>Guards\<close>

definition assertRequiredEnvSet :: "bool \<Rightarrow> smoke_provider list \<Rightarrow> process_env \<Rightarrow> app_error + unit" where
  "assertRequiredEnvSet envFilePresent providers env =
     (let missing = concat (map (\<lambda>p. filter (\<lambda>key. getOptionalEnv key env = None) (requiredEnvKeys p)) providers) in
      if missing \<noteq> [] then
        fail (''Missing required environment variables: '' @ join_with '', '' missing @
          (if envFilePresent then [] else ''. No .env or .env.local file was found in the workspace root.''))
      else Inr ())"

fun occurs_in :: "string \<Rightarrow> string \<Rightarrow> bool" where
  "occurs_in x [] \<longleftrightarrow> x = []"
| "occurs_in x (c # r) \<longleftrightarrow> take (length x) (c # r) = x \<or> occurs_in x r"

definition placeholder_value :: "string option \<Rightarrow> bool" where
  "placeholder_value v =
     (case v of None \<Rightarrow> True | Some x \<Rightarrow> occurs_in ''replace-with-'' x \<or> x = ''sk_test_replace_with_real_key'')"

definition assertNonPlaceholderCredentials :: "smoke_provider list \<Rightarrow> process_env \<Rightarrow> app_error + unit" where
  "assertNonPlaceholderCredentials providers env =
     (let placeholderKeys = concat (map (\<lambda>p. filter (\<lambda>key. placeholder_value (getOptionalEnv key env)) (requiredCredentialKeys p)) providers) in
      if placeholderKeys \<noteq> [] then
        fail (''Replace placeholder provider credentials before running smoke validation: '' @
          join_with '', '' (first_of_each placeholderKeys))
      else Inr ())"

definition live_paystack :: "process_env \<Rightarrow> bool" where
  "live_paystack env \<longleftrightarrow>
     (case getOptionalEnv ''PAYSTACK_SECRET_KEY'' env of None \<Rightarrow> False | Some k \<Rightarrow> take 8 k = ''sk_live_'')"

definition assertSafeLiveUsage :: "smoke_provider list \<Rightarrow> process_env \<Rightarrow> app_error + unit" where
  "assertSafeLiveUsage providers env =
     (let allowLive = (getOptionalEnv ''PAYMENT_SMOKE_ALLOW_LIVE'' env = Some ''true'') in
      if smoke_paystack \<in> set providers \<and> live_paystack env \<and> \<not> allowLive then
        fail ''Refusing to run Paystack smoke against a live secret key without PAYMENT_SMOKE_ALLOW_LIVE=true.''
      else if smoke_momo \<in> set providers \<and> getOptionalEnv ''MTN_MOMO_ENVIRONMENT'' env = Some ''production'' \<and> \<not> allowLive then
        fail ''Refusing to run MoMo smoke against production without PAYMENT_SMOKE_ALLOW_LIVE=true.''
      else Inr ())"

section \<open>Runs\<close>

record smoke_input =
  smi_provider :: smoke_provider
  smi_amountMinor :: int
  smi_currency :: string
  smi_customerEmail :: "string option"
  smi_customerPhone :: "string option"
  smi_callbackUrl :: "string option"

record SmokeResult =
  smr_provider :: smoke_provider
  smr_initiated :: string
  smr_verified :: string

text \<open>\<open>BigInt\<close> of a trimmed text.\<close>

definition based_number :: "nat \<Rightarrow> string \<Rightarrow> int option" where
  "based_number b x =
     (if x \<noteq> [] \<and> list_all (\<lambda>c. digit_in b c \<noteq> None) x
      then Some (foldl (\<lambda>n c. n * int b + (case digit_in b c of Some d \<Rightarrow> int d | None \<Rightarrow> 0)) 0 x) else None)"

definition BigInt_text :: "string \<Rightarrow> int option" where
  "BigInt_text x =
     (if take 2 x \<in> {''0x'', ''0X''} then based_number 16 (drop 2 x)
      else if take 2 x \<in> {''0o'', ''0O''} then based_number 8 (drop 2 x)
      else if take 2 x \<in> {''0b'', ''0B''} then based_number 2 (drop 2 x)
      else if take 1 x = ''-'' then map_option uminus (based_number 10 (drop 1 x))
      else if take 1 x = ''+'' then based_number 10 (drop 1 x)
      else based_number 10 x)"

definition read_amount :: "process_env \<Rightarrow> string \<Rightarrow> string \<Rightarrow> app_error + int" where
  "read_amount env key fallback =
     (let x = (case getOptionalEnv key env of None \<Rightarrow> fallback | Some v \<Rightarrow> v) in
      case BigInt_text x of
        None \<Rightarrow> Inl (OtherError ''SyntaxError'' (''Cannot convert '' @ x @ '' to a BigInt''))
      | Some n \<Rightarrow> Inr n)"

text \<open>
  The configuration handed to the adapters. They read optional values before they send anything; of the
  service they expect, the shim has \<open>getOrThrow\<close> only.
\<close>

record config_shim =
  shim_getOrThrow :: "string \<Rightarrow> app_error + string"
  shim_getOptional :: "(string \<Rightarrow> string option) option"

definition createConfigShim :: "process_env \<Rightarrow> config_shim" where
  "createConfigShim env = \<lparr> shim_getOrThrow = (\<lambda>key. getRequiredEnv key env), shim_getOptional = None \<rparr>"

type_synonym smoke_adapter = "smoke_input \<Rightarrow> app_error + string \<times> string"
type_synonym 'a smoke = "(smoke_input list, 'a) prog"

definition ask_provider :: "config_shim \<Rightarrow> smoke_adapter \<Rightarrow> smoke_input \<Rightarrow> SmokeResult smoke" where
  "ask_provider config adapter input = (\<lambda>sent.
     case shim_getOptional config of
       None \<Rightarrow> (Inl (OtherError ''TypeError'' ''this.configService.getOptional is not a function''), sent)
     | Some get \<Rightarrow>
         (map_sum id (\<lambda>(initiated, verified). \<lparr> smr_provider = smi_provider input, smr_initiated = initiated, smr_verified = verified \<rparr>)
            (adapter input), sent @ [input]))"

definition pure_step :: "app_error + 'a \<Rightarrow> ('s, 'a) prog" where
  "pure_step r = (\<lambda>s. (r, s))"

definition runPaystack :: "config_shim \<Rightarrow> smoke_adapter \<Rightarrow> process_env \<Rightarrow> SmokeResult smoke" where
  "runPaystack config adapter env =
     bindp (pure_step (getRequiredEnv ''PAYMENT_SMOKE_PAYSTACK_EMAIL'' env)) (\<lambda>email.
     bindp (pure_step (read_amount env ''PAYMENT_SMOKE_PAYSTACK_AMOUNT_MINOR'' ''5000'')) (\<lambda>amountMinor.
       ask_provider config adapter
         \<lparr> smi_provider = smoke_paystack, smi_amountMinor = amountMinor,
           smi_currency = (case getOptionalEnv ''PAYMENT_SMOKE_PAYSTACK_CURRENCY'' env of None \<Rightarrow> ''NGN'' | Some c \<Rightarrow> c),
           smi_customerEmail = Some email, smi_customerPhone = None,
           smi_callbackUrl = getOptionalEnv ''PAYMENT_SMOKE_PAYSTACK_CALLBACK_URL'' env \<rparr>))"

definition runMomo :: "config_shim \<Rightarrow> smoke_adapter \<Rightarrow> process_env \<Rightarrow> SmokeResult smoke" where
  "runMomo config adapter env =
     bindp (pure_step (getRequiredEnv ''PAYMENT_SMOKE_MOMO_PHONE'' env)) (\<lambda>phone.
     bindp (pure_step (read_amount env ''PAYMENT_SMOKE_MOMO_AMOUNT_MINOR'' ''500'')) (\<lambda>amountMinor.
     bindp (pure_step (getRequiredEnv ''PAYMENT_SMOKE_MOMO_CURRENCY'' env)) (\<lambda>currency.
       ask_provider config adapter
         \<lparr> smi_provider = smoke_momo, smi_amountMinor = amountMinor, smi_currency = currency,
           smi_customerEmail = None, smi_customerPhone = Some phone, smi_callbackUrl = None \<rparr>)))"

fun run_providers :: "config_shim \<Rightarrow> smoke_adapter \<Rightarrow> process_env \<Rightarrow> smoke_provider list \<Rightarrow> SmokeResult list smoke" where
  "run_providers config adapter env [] = ret []"
| "run_providers config adapter env (p # ps) =
     bindp (case p of smoke_paystack \<Rightarrow> runPaystack config adapter env | smoke_momo \<Rightarrow> runMomo config adapter env) (\<lambda>result.
     bindp (run_providers config adapter env ps) (\<lambda>results. ret (result # results)))"

definition upper_name :: "smoke_provider \<Rightarrow> string" where
  "upper_name p = (case p of smoke_paystack \<Rightarrow> ''PAYSTACK'' | smoke_momo \<Rightarrow> ''MOMO'')"

definition printed :: "SmokeResult \<Rightarrow> string list" where
  "printed r =
     [[newline] @ ''['' @ upper_name (smr_provider r) @ ''] initiated'', smr_initiated r,
      ''['' @ upper_name (smr_provider r) @ ''] verified'', smr_verified r]"

definition smoke_guards :: "bool \<Rightarrow> smoke_provider list \<Rightarrow> process_env \<Rightarrow> app_error + unit" where
  "smoke_guards envFilePresent providers env =
     and_then (assertRequiredEnvSet envFilePresent providers env) (\<lambda>_.
     and_then (assertNonPlaceholderCredentials providers env) (\<lambda>_. assertSafeLiveUsage providers env))"

text \<open>\<open>main\<close>, for a configuration object: the lines it prints.\<close>

definition smoke_main :: "config_shim \<Rightarrow> smoke_adapter \<Rightarrow> bool \<Rightarrow> process_env \<Rightarrow> string list smoke" where
  "smoke_main config adapter envFilePresent env =
     bindp (pure_step (resolveSmokeProviders env)) (\<lambda>providers.
     bindp (pure_step (smoke_guards envFilePresent providers env)) (\<lambda>_.
     bindp (run_providers config adapter env providers) (\<lambda>results.
       ret ((''Starting payment provider smoke validation for: '' @ join_with '', '' (map provider_name providers)) #
         concat (map printed results)))))"

definition smoke_script :: "smoke_adapter \<Rightarrow> (string \<Rightarrow> string option) \<Rightarrow> process_env \<Rightarrow> string list smoke" where
  "smoke_script adapter file start_env =
     (let env = loadLocalEnvFiles file start_env in
      smoke_main (createConfigShim env) adapter (file ''.env.local'' \<noteq> None \<or> file ''.env'' \<noteq> None) env)"

section \<open>What the guards check\<close>

lemma set_first_of_each [simp]: "set (first_of_each xs) = set xs" "distinct (first_of_each xs)"
  by (simp_all add: first_of_each_def)

lemma required_env_Inr:
  "assertRequiredEnvSet f providers env = Inr u \<longleftrightarrow>
     (\<forall>p \<in> set providers. \<forall>key \<in> set (requiredEnvKeys p). getOptionalEnv key env \<noteq> None)"
  by (auto simp: assertRequiredEnvSet_def fail_def Let_def filter_empty_conv)

lemma credentials_Inr:
  "assertNonPlaceholderCredentials providers env = Inr u \<longleftrightarrow>
     (\<forall>p \<in> set providers. \<forall>key \<in> set (requiredCredentialKeys p). \<not> placeholder_value (getOptionalEnv key env))"
  by (auto simp: assertNonPlaceholderCredentials_def fail_def Let_def filter_empty_conv)

lemma safe_live_Inr:
  "assertSafeLiveUsage providers env = Inr u \<longleftrightarrow>
     getOptionalEnv ''PAYMENT_SMOKE_ALLOW_LIVE'' env = Some ''true'' \<or>
     (smoke_paystack \<in> set providers \<longrightarrow> \<not> live_paystack env) \<and>
     (smoke_momo \<in> set providers \<longrightarrow> getOptionalEnv ''MTN_MOMO_ENVIRONMENT'' env \<noteq> Some ''production'')"
  by (auto simp: assertSafeLiveUsage_def fail_def Let_def)

lemma guards_Inr:
  "smoke_guards f providers env = Inr u \<longleftrightarrow>
     assertRequiredEnvSet f providers env = Inr () \<and> assertNonPlaceholderCredentials providers env = Inr () \<and>
     assertSafeLiveUsage providers env = Inr ()"
  by (auto simp: smoke_guards_def and_then_Inr)

lemma sent_by_provider:
  assumes "(case p of smoke_paystack \<Rightarrow> runPaystack config adapter env | smoke_momo \<Rightarrow> runMomo config adapter env) sent = (r, sent')"
  shows "\<exists>new. sent' = sent @ new \<and> (\<forall>x \<in> set new. smi_provider x = p) \<and> (shim_getOptional config = None \<longrightarrow> new = [] \<and> r \<notin> range Inr)"
  using assms
  by (cases p; cases "shim_getOptional config")
     (auto simp: runPaystack_def runMomo_def ask_provider_def pure_step_def bindp_def split: sum.splits prod.splits)

lemma sent_by_providers:
  assumes "run_providers config adapter env ps sent = (r, sent')"
  shows "\<exists>new. sent' = sent @ new \<and> smi_provider ` set new \<subseteq> set ps \<and>
    (shim_getOptional config = None \<and> ps \<noteq> [] \<longrightarrow> new = [] \<and> r \<notin> range Inr)"
  using assms
proof (induction ps arbitrary: sent r sent')
  case (Cons p ps)
  let ?run = "case p of smoke_paystack \<Rightarrow> runPaystack config adapter env | smoke_momo \<Rightarrow> runMomo config adapter env"
  obtain q s1 where one: "?run sent = (q, s1)" by fastforce
  from sent_by_provider [OF one] obtain new where
    "s1 = sent @ new \<and> (\<forall>x \<in> set new. smi_provider x = p) \<and> (shim_getOptional config = None \<longrightarrow> new = [] \<and> q \<notin> range Inr)" ..
  then have new: "s1 = sent @ new" "\<forall>x \<in> set new. smi_provider x = p" "shim_getOptional config = None \<longrightarrow> new = [] \<and> q \<notin> range Inr"
    by simp_all
  show ?case
  proof (cases q)
    case (Inl e)
    with Cons.prems one have "r = Inl e" "sent' = s1" unfolding run_providers.simps by (simp_all add: bindp_def)
    then show ?thesis using new by (intro exI [of _ new]) (simp add: image_subset_iff image_iff)
  next
    case (Inr result)
    have shim: "shim_getOptional config \<noteq> None" using new(3) Inr by blast
    obtain q2 s2 where two: "run_providers config adapter env ps s1 = (q2, s2)" by fastforce
    from Cons.IH [OF two] obtain more where more: "s2 = s1 @ more" "smi_provider ` set more \<subseteq> set ps" by blast
    have "sent' = s2" using Cons.prems one two Inr unfolding run_providers.simps by (cases q2) (simp_all add: bindp_def ret_def)
    then have 1: "sent' = sent @ (new @ more)" by (simp add: more(1) new(1))
    have 2: "smi_provider ` set (new @ more) \<subseteq> set (p # ps)" using more(2) new(2) by auto
    show ?thesis
      by (rule exI [of _ "new @ more"], rule conjI [OF 1], rule conjI [OF 2]) (simp add: shim)
  qed
qed (simp add: ret_def)

lemma resolved_providers:
  assumes "resolveSmokeProviders env = Inr providers"
  shows "distinct providers \<and> providers \<noteq> []"
proof -
  have keep: "List.map_filter read_provider xs \<noteq> []" if "xs \<noteq> []" "filter (\<lambda>x. read_provider x = None) xs = []" for xs
    using that by (cases xs) (auto simp: List.map_filter_simps split: if_splits option.splits)
  have "first_of_each ys \<noteq> []" if "ys \<noteq> []" for ys :: "smoke_provider list"
    using that set_first_of_each(1) [of ys] by (metis set_empty)
  note nonempty = this
  note r = assms
  show ?thesis
  proof (cases "nullish (getOptionalEnv ''PAYMENT_SMOKE_PROVIDERS'' env) (getOptionalEnv ''PILOT_ALLOWED_PAYMENT_PROVIDERS'' env)")
    case None
    with r show ?thesis unfolding resolveSmokeProviders_def by auto
  next
    case (Some raw)
    define names where "names = filter (\<lambda>x. x \<noteq> []) (map (\<lambda>x. toLowerCase (js_trim x)) (split_commas raw))"
    from r Some have "names \<noteq> []" "filter (\<lambda>x. read_provider x = None) names = []"
      "providers = first_of_each (List.map_filter read_provider names)"
      unfolding resolveSmokeProviders_def Let_def fail_def by (simp_all add: names_def split: if_splits)
    with keep nonempty show ?thesis by simp
  qed
qed

section \<open>Properties\<close>

text \<open>
  A request is handed to a provider only when the environment allows it: every value the provider
  needs is set, none of its credentials is a placeholder, and a live key or the production environment
  is used only when that is asked for.
\<close>

theorem smoke_sends_only_when_allowed:
  assumes "smoke_main config adapter f env sent = (r, sent')"
  shows "\<exists>new. sent' = sent @ new \<and> (\<forall>x \<in> set new.
    (\<forall>key \<in> set (requiredEnvKeys (smi_provider x)). getOptionalEnv key env \<noteq> None) \<and>
    (\<forall>key \<in> set (requiredCredentialKeys (smi_provider x)). \<not> placeholder_value (getOptionalEnv key env)) \<and>
    (getOptionalEnv ''PAYMENT_SMOKE_ALLOW_LIVE'' env \<noteq> Some ''true'' \<longrightarrow>
       (smi_provider x = smoke_paystack \<longrightarrow> \<not> live_paystack env) \<and>
       (smi_provider x = smoke_momo \<longrightarrow> getOptionalEnv ''MTN_MOMO_ENVIRONMENT'' env \<noteq> Some ''production'')))"
proof (cases "\<exists>providers. resolveSmokeProviders env = Inr providers \<and> smoke_guards f providers env = Inr ()")
  case True
  then obtain providers where p: "resolveSmokeProviders env = Inr providers" "smoke_guards f providers env = Inr ()" by blast
  obtain q s1 where run: "run_providers config adapter env providers sent = (q, s1)" by fastforce
  with assms p have "sent' = s1" by (auto simp: smoke_main_def pure_step_def bindp_def ret_def split: sum.splits)
  moreover from sent_by_providers [OF run] obtain new where "s1 = sent @ new" "smi_provider ` set new \<subseteq> set providers" by blast
  ultimately have new: "sent' = sent @ new" "\<forall>x \<in> set new. smi_provider x \<in> set providers" by auto
  from p(2) have req: "\<forall>q \<in> set providers. \<forall>key \<in> set (requiredEnvKeys q). getOptionalEnv key env \<noteq> None"
    and cred: "\<forall>q \<in> set providers. \<forall>key \<in> set (requiredCredentialKeys q). \<not> placeholder_value (getOptionalEnv key env)"
    and live: "getOptionalEnv ''PAYMENT_SMOKE_ALLOW_LIVE'' env \<noteq> Some ''true'' \<Longrightarrow>
      (smoke_paystack \<in> set providers \<longrightarrow> \<not> live_paystack env) \<and>
      (smoke_momo \<in> set providers \<longrightarrow> getOptionalEnv ''MTN_MOMO_ENVIRONMENT'' env \<noteq> Some ''production'')"
    unfolding guards_Inr required_env_Inr credentials_Inr safe_live_Inr by blast+
  show ?thesis
  proof (intro exI [of _ new] conjI ballI impI)
    show "sent' = sent @ new" by (rule new)
  next
    fix x key assume "x \<in> set new" "key \<in> set (requiredEnvKeys (smi_provider x))"
    then show "getOptionalEnv key env \<noteq> None" using new(2) req by blast
  next
    fix x key assume "x \<in> set new" "key \<in> set (requiredCredentialKeys (smi_provider x))"
    then show "\<not> placeholder_value (getOptionalEnv key env)" using new(2) cred by blast
  next
    fix x assume "x \<in> set new" "smi_provider x = smoke_paystack"
      "getOptionalEnv ''PAYMENT_SMOKE_ALLOW_LIVE'' env \<noteq> Some ''true''"
    then show "\<not> live_paystack env" using new(2) live by metis
  next
    fix x assume "x \<in> set new" "smi_provider x = smoke_momo"
      "getOptionalEnv ''PAYMENT_SMOKE_ALLOW_LIVE'' env \<noteq> Some ''true''"
    then show "getOptionalEnv ''MTN_MOMO_ENVIRONMENT'' env \<noteq> Some ''production''" using new(2) live by metis
  qed
next
  case False
  with assms have "sent' = sent"
    by (auto simp: smoke_main_def pure_step_def bindp_def split: sum.splits)
  then show ?thesis by simp
qed

definition paystack_env :: process_env where
  "paystack_env = [''PAYMENT_SMOKE_PROVIDERS'' \<mapsto> ''Paystack'', ''PAYSTACK_SECRET_KEY'' \<mapsto> ''sk_test_1'',
     ''PAYMENT_SMOKE_PAYSTACK_EMAIL'' \<mapsto> ''a@b'']"

definition full_config :: config_shim where
  "full_config = \<lparr> shim_getOrThrow = (\<lambda>key. getRequiredEnv key paystack_env), shim_getOptional = Some paystack_env \<rparr>"

theorem smoke_sends_only_when_allowed_witness:
  "let sent = snd (smoke_main full_config (\<lambda>x. Inr (''ok'', ''ok'')) True paystack_env []) in
   map smi_provider sent = [smoke_paystack] \<and> \<not> live_paystack paystack_env"
proof -
  let ?adapter = "\<lambda>x. Inr (''ok'', ''ok'')"
  obtain r sent where run: "smoke_main full_config ?adapter True paystack_env [] = (r, sent)" by fastforce
  have "resolveSmokeProviders paystack_env = Inr [smoke_paystack]" by code_simp
  moreover have "smoke_guards True [smoke_paystack] paystack_env = Inr ()" by code_simp
  moreover have "getRequiredEnv ''PAYMENT_SMOKE_PAYSTACK_EMAIL'' paystack_env = Inr ''a@b''" by code_simp
  moreover have "getOptionalEnv ''PAYMENT_SMOKE_PAYSTACK_AMOUNT_MINOR'' paystack_env = None" by code_simp
  then have "read_amount paystack_env ''PAYMENT_SMOKE_PAYSTACK_AMOUNT_MINOR'' ''5000'' = Inr 5000"
    by (simp add: read_amount_def BigInt_text_def based_number_def digit_in_def lower_char_def Let_def)
  ultimately have p: "map smi_provider sent = [smoke_paystack]"
    using run by (auto simp: smoke_main_def runPaystack_def ask_provider_def pure_step_def bindp_def ret_def full_config_def
        simp del: One_nat_def)
  then obtain x where x: "x \<in> set sent" "smi_provider x = smoke_paystack" by (cases sent) auto
  have a: "getOptionalEnv ''PAYMENT_SMOKE_ALLOW_LIVE'' paystack_env \<noteq> Some ''true''" by code_simp
  from smoke_sends_only_when_allowed [OF run] x(1) have "\<not> live_paystack paystack_env"
    by - (elim exE conjE, simp only: append_Nil, drule (1) bspec, elim conjE, drule mp [OF _ a], elim conjE, drule mp [OF _ x(2)])
  then show ?thesis by (simp add: run p)
qed

text \<open>
  With the configuration the script itself makes no request is ever sent and no run succeeds: the
  adapters ask it for an operation it does not have.
\<close>

lemma smoke_never_runs:
  assumes "smoke_main (createConfigShim env) adapter f env sent = (r, sent')"
  shows "sent' = sent \<and> (\<exists>e. r = Inl e)"
proof (cases "resolveSmokeProviders env")
  case (Inr providers)
  obtain q s1 where run: "run_providers (createConfigShim env) adapter env providers sent = (q, s1)" by fastforce
  from sent_by_providers [OF run] resolved_providers [OF Inr] have "s1 = sent" "\<exists>e. q = Inl e"
    by (auto simp: createConfigShim_def image_iff) (metis sumE)
  with assms Inr run show ?thesis by (auto simp: smoke_main_def pure_step_def bindp_def split: sum.splits)
qed (use assms in \<open>auto simp: smoke_main_def pure_step_def bindp_def\<close>)

end
