(* ===== verification/Request_Bodies.thy ===== *)
theory Request_Bodies
  imports Public_Api
begin

text \<open>
  The classes of the request bodies (\<^verbatim>\<open>src/auth/dto\<close>, \<^verbatim>\<open>src/modules/*/contracts/requests\<close>,
  \<^verbatim>\<open>src/modules/admin-support/dto/admin-lookup-query.dto.ts\<close>) and the validation pipe that \<^verbatim>\<open>src/main.ts\<close> puts
  in front of every handler. A class is the list of its properties: name, whether it is declared with a
  question mark, declared type and decorators. A body is the list of the properties of a parsed object.

  Parameters, in the record \<open>checks_lib\<close>: what the validation library accepts as UUID, address of mail,
  phone number and date, and which numbers and texts it takes for a latitude and a longitude. Its other
  checks are written out.
\<close>

section \<open>Decorators\<close>

datatype pattern = SlugPattern | PasswordPattern | DigitsPattern | CurrencyPattern

datatype decorator =
    IsOptional | Allow
  | IsString | IsNotEmpty | MinLength nat | MaxLength nat | Matches pattern
  | IsUUID | IsEmail | IsPhoneNumber | IsDateString
  | IsInt | Min_value int | Max_value int
  | IsEnum "string list" | IsIn "string list"
  | IsLatitude | IsLongitude

datatype ts_type = TString | TNumber | TOneOf "string list" | TUnknown

record dto_property =
  prop_name :: string
  prop_optional :: bool
  prop_type :: ts_type
  prop_decorators :: "decorator list"

type_synonym dto_class = "dto_property list"

definition required_prop :: "string \<Rightarrow> ts_type \<Rightarrow> decorator list \<Rightarrow> dto_property" where
  "required_prop name t ds = \<lparr> prop_name = name, prop_optional = False, prop_type = t, prop_decorators = ds \<rparr>"

definition optional_prop :: "string \<Rightarrow> ts_type \<Rightarrow> decorator list \<Rightarrow> dto_property" where
  "optional_prop name t ds = \<lparr> prop_name = name, prop_optional = True, prop_type = t, prop_decorators = ds \<rparr>"

section \<open>The classes\<close>

definition EventVisibility_values :: "string list" where
  "EventVisibility_values = [''PRIVATE'', ''UNLISTED'', ''PUBLIC'']"

definition EventCategory_values :: "string list" where
  "EventCategory_values = [''NIGHTLIFE'', ''CONCERT'', ''FESTIVAL'', ''CAMPUS'', ''CORPORATE'', ''COMMUNITY'', ''SPORTS'',
     ''ARTS'', ''OTHER'']"

definition VenueTableStatus_values :: "string list" where
  "VenueTableStatus_values = [''ACTIVE'', ''INACTIVE'', ''MAINTENANCE'']"

definition EventTableStatus_values :: "string list" where
  "EventTableStatus_values = [''AVAILABLE'', ''HELD'', ''UNAVAILABLE'']"

definition PaymentProvider_values :: "string list" where
  "PaymentProvider_values = [''PAYSTACK'', ''MTN_MOMO'']"

definition SUPPORTED_CURRENCIES_values :: "string list" where
  "SUPPORTED_CURRENCIES_values = [''GHS'', ''NGN'']"

definition LoginDto_class :: dto_class where
  "LoginDto_class =
     [required_prop ''email'' TString [IsEmail],
      required_prop ''password'' TString [IsString, MaxLength 256],
      required_prop ''deviceId'' TString [IsString, IsNotEmpty, MaxLength 255]]"

definition SignupDto_class :: dto_class where
  "SignupDto_class =
     [required_prop ''email'' TString [IsEmail],
      required_prop ''password'' TString [IsString, MinLength 8, Matches PasswordPattern],
      required_prop ''deviceId'' TString [IsString, IsNotEmpty, MaxLength 255],
      optional_prop ''role'' TUnknown [IsOptional, Allow]]"

definition LogoutDto_class :: dto_class where
  "LogoutDto_class = [optional_prop ''reason'' TString [IsOptional, IsString, MaxLength 255]]"

definition RefreshTokenDto_class :: dto_class where
  "RefreshTokenDto_class =
     [required_prop ''refreshToken'' TString [IsString, IsNotEmpty],
      required_prop ''deviceId'' TString [IsString, MaxLength 255]]"

definition RevokeSessionDto_class :: dto_class where
  "RevokeSessionDto_class =
     [required_prop ''sessionId'' TString [IsUUID],
      optional_prop ''reason'' TString [IsOptional, IsString, MaxLength 255]]"

definition ScanTicketDto_class :: dto_class where
  "ScanTicketDto_class =
     [required_prop ''ticketId'' TString [IsUUID],
      required_prop ''token'' TString [IsString, MinLength 32, MaxLength 512],
      optional_prop ''eventId'' TString [IsOptional, IsUUID],
      optional_prop ''deviceId'' TString [IsOptional, IsString, MaxLength 120],
      optional_prop ''gateLabel'' TString [IsOptional, IsString, MaxLength 120]]"

definition CreateEventDto_class :: dto_class where
  "CreateEventDto_class =
     [required_prop ''title'' TString [IsString, MinLength 2, MaxLength 160],
      required_prop ''slug'' TString [IsString, MinLength 3, MaxLength 100, Matches SlugPattern],
      optional_prop ''description'' TString [IsOptional, IsString, MaxLength 5000],
      optional_prop ''visibility'' (TOneOf EventVisibility_values) [IsOptional, IsEnum EventVisibility_values],
      optional_prop ''category'' (TOneOf EventCategory_values) [IsOptional, IsEnum EventCategory_values],
      required_prop ''startsAt'' TString [IsDateString],
      required_prop ''endsAt'' TString [IsDateString],
      optional_prop ''timezone'' TString [IsOptional, IsString, MaxLength 80],
      optional_prop ''venueName'' TString [IsOptional, IsString, MaxLength 160],
      optional_prop ''addressLine1'' TString [IsOptional, IsString, MaxLength 255],
      optional_prop ''addressLine2'' TString [IsOptional, IsString, MaxLength 255],
      optional_prop ''city'' TString [IsOptional, IsString, MaxLength 120],
      optional_prop ''region'' TString [IsOptional, IsString, MaxLength 120],
      optional_prop ''country'' TString [IsOptional, IsString, MaxLength 120],
      optional_prop ''latitude'' TNumber [IsOptional, IsLatitude],
      optional_prop ''longitude'' TNumber [IsOptional, IsLongitude],
      optional_prop ''capacityTotal'' TNumber [IsOptional, IsInt, Min_value 1, Max_value 1000000]]"

definition UpdateEventDto_class :: dto_class where
  "UpdateEventDto_class =
     [optional_prop ''title'' TString [IsOptional, IsString, MinLength 2, MaxLength 160],
      optional_prop ''slug'' TString [IsOptional, IsString, MinLength 3, MaxLength 100, Matches SlugPattern],
      optional_prop ''description'' TString [IsOptional, IsString, MaxLength 5000],
      optional_prop ''visibility'' (TOneOf EventVisibility_values) [IsOptional, IsEnum EventVisibility_values],
      optional_prop ''category'' (TOneOf EventCategory_values) [IsOptional, IsEnum EventCategory_values],
      optional_prop ''startsAt'' TString [IsOptional, IsDateString],
      optional_prop ''endsAt'' TString [IsOptional, IsDateString],
      optional_prop ''timezone'' TString [IsOptional, IsString, MaxLength 80],
      optional_prop ''venueName'' TString [IsOptional, IsString, MaxLength 160],
      optional_prop ''addressLine1'' TString [IsOptional, IsString, MaxLength 255],
      optional_prop ''addressLine2'' TString [IsOptional, IsString, MaxLength 255],
      optional_prop ''city'' TString [IsOptional, IsString, MaxLength 120],
      optional_prop ''region'' TString [IsOptional, IsString, MaxLength 120],
      optional_prop ''country'' TString [IsOptional, IsString, MaxLength 120],
      optional_prop ''latitude'' TNumber [IsOptional, IsLatitude],
      optional_prop ''longitude'' TNumber [IsOptional, IsLongitude],
      optional_prop ''capacityTotal'' TNumber [IsOptional, IsInt, Min_value 1, Max_value 1000000]]"

definition PublishEventDto_class :: dto_class where
  "PublishEventDto_class = [optional_prop ''note'' TString [IsOptional, IsString, MaxLength 1000]]"

definition CancelEventDto_class :: dto_class where
  "CancelEventDto_class = [optional_prop ''reason'' TString [IsOptional, IsString, MaxLength 1000]]"

definition CreateOrganizerDto_class :: dto_class where
  "CreateOrganizerDto_class =
     [required_prop ''displayName'' TString [IsString, MinLength 2, MaxLength 120],
      required_prop ''slug'' TString [IsString, MinLength 3, MaxLength 80, Matches SlugPattern],
      optional_prop ''description'' TString [IsOptional, IsString, MaxLength 2000],
      optional_prop ''contactEmail'' TString [IsOptional, IsEmail, MaxLength 255],
      optional_prop ''contactPhone'' TString [IsOptional, IsPhoneNumber, MaxLength 32]]"

definition UpdateOrganizerDto_class :: dto_class where
  "UpdateOrganizerDto_class =
     [optional_prop ''displayName'' TString [IsOptional, IsString, MinLength 2, MaxLength 120],
      optional_prop ''slug'' TString [IsOptional, IsString, MinLength 3, MaxLength 80, Matches SlugPattern],
      optional_prop ''description'' TString [IsOptional, IsString, MaxLength 2000],
      optional_prop ''contactEmail'' TString [IsOptional, IsEmail, MaxLength 255],
      optional_prop ''contactPhone'' TString [IsOptional, IsPhoneNumber, MaxLength 32]]"

definition SubmitOrganizerDto_class :: dto_class where
  "SubmitOrganizerDto_class = [optional_prop ''note'' TString [IsOptional, IsString, MaxLength 1000]]"

definition CreateOrderDto_class :: dto_class where
  "CreateOrderDto_class =
     [required_prop ''reservationId'' TString [IsUUID],
      required_prop ''totalAmountMinor'' TString [IsString, Matches DigitsPattern],
      required_prop ''currency'' (TOneOf SUPPORTED_CURRENCIES_values) [IsIn SUPPORTED_CURRENCIES_values]]"

definition InitiatePaymentDto_class :: dto_class where
  "InitiatePaymentDto_class =
     [required_prop ''provider'' (TOneOf PaymentProvider_values) [IsEnum PaymentProvider_values],
      required_prop ''eventId'' TString [IsUUID],
      optional_prop ''customerPhone'' TString [IsOptional, IsString]]"

definition CreateFloorSectionDto_class :: dto_class where
  "CreateFloorSectionDto_class =
     [required_prop ''organizerId'' TString [IsUUID],
      required_prop ''name'' TString [IsString, MinLength 1, MaxLength 120],
      optional_prop ''description'' TString [IsOptional, IsString, MaxLength 500]]"

definition CreateVenueTableDto_class :: dto_class where
  "CreateVenueTableDto_class =
     [required_prop ''organizerId'' TString [IsUUID],
      optional_prop ''floorSectionId'' TString [IsOptional, IsUUID],
      required_prop ''label'' TString [IsString, MinLength 1, MaxLength 80],
      required_prop ''seatCount'' TNumber [IsInt, Min_value 1, Max_value 100],
      optional_prop ''status'' (TOneOf VenueTableStatus_values) [IsOptional, IsEnum VenueTableStatus_values]]"

definition CreateEventTableDto_class :: dto_class where
  "CreateEventTableDto_class =
     [required_prop ''organizerId'' TString [IsUUID],
      required_prop ''eventId'' TString [IsUUID],
      required_prop ''venueTableId'' TString [IsUUID],
      required_prop ''priceMinor'' TNumber [IsInt, Min_value 0, Max_value 1000000000],
      required_prop ''currency'' TString [IsString, Matches CurrencyPattern],
      optional_prop ''status'' (TOneOf EventTableStatus_values) [IsOptional, IsEnum EventTableStatus_values]]"

definition HoldTableDto_class :: dto_class where
  "HoldTableDto_class =
     [required_prop ''eventTableId'' TString [IsUUID],
      required_prop ''idempotencyKey'' TString [IsString, MinLength 1, MaxLength 128],
      optional_prop ''holdDurationSeconds'' TNumber [IsOptional, IsInt, Min_value 1, Max_value 86400]]"

section \<open>The pipe\<close>

record checks_lib =
  chk_uuid :: "string \<Rightarrow> bool"
  chk_email :: "string \<Rightarrow> bool"
  chk_phone :: "string \<Rightarrow> bool"
  chk_date :: "string \<Rightarrow> bool"
  chk_latitude :: "json \<Rightarrow> bool"
  chk_longitude :: "json \<Rightarrow> bool"

definition slug_char :: "char \<Rightarrow> bool" where
  "slug_char c \<longleftrightarrow> (let n = (of_char c :: nat) in 97 \<le> n \<and> n \<le> 122 \<or> 48 \<le> n \<and> n \<le> 57)"

text \<open>\<^verbatim>\<open>/^[a-z0-9]+(?:-[a-z0-9]+)*$/\<close>, read from the left: whether a letter or a digit was the last.\<close>

fun slug_from :: "bool \<Rightarrow> string \<Rightarrow> bool" where
  "slug_from b [] \<longleftrightarrow> b"
| "slug_from b (c # r) \<longleftrightarrow> (if slug_char c then slug_from True r else b \<and> c = CHR ''-'' \<and> slug_from False r)"

definition digit_char_at :: "char \<Rightarrow> bool" where
  "digit_char_at c \<longleftrightarrow> 48 \<le> (of_char c :: nat) \<and> (of_char c :: nat) \<le> 57"

definition lower_letter :: "char \<Rightarrow> bool" where
  "lower_letter c \<longleftrightarrow> 97 \<le> (of_char c :: nat) \<and> (of_char c :: nat) \<le> 122"

text \<open>
  \<^verbatim>\<open>/^(?=.*[A-Z])(?=.*[a-z])(?=.*\d).+$/\<close>: the dot matches everything but the ends of lines.
\<close>

definition password_text :: "string \<Rightarrow> bool" where
  "password_text x \<longleftrightarrow> list_ex upper_letter x \<and> list_ex lower_letter x \<and> list_ex digit_char_at x \<and>
     list_all (\<lambda>c. (of_char c :: nat) \<notin> {10, 13}) x"

definition matches_pattern :: "pattern \<Rightarrow> string \<Rightarrow> bool" where
  "matches_pattern p x \<longleftrightarrow>
     (case p of
        SlugPattern \<Rightarrow> slug_from False x
      | PasswordPattern \<Rightarrow> password_text x
      | DigitsPattern \<Rightarrow> x \<noteq> [] \<and> list_all digit_char_at x
      | CurrencyPattern \<Rightarrow> length x = 3 \<and> list_all upper_letter x)"

definition text_that :: "(string \<Rightarrow> bool) \<Rightarrow> json \<Rightarrow> bool" where
  "text_that p v \<longleftrightarrow> (case v of JStr x \<Rightarrow> p x | _ \<Rightarrow> False)"

definition number_that :: "(rat \<Rightarrow> bool) \<Rightarrow> json \<Rightarrow> bool" where
  "number_that p v \<longleftrightarrow> (case v of JNum n \<Rightarrow> p (of_int n) | JDec q \<Rightarrow> p q | _ \<Rightarrow> False)"

definition is_number_or_text :: "json \<Rightarrow> bool" where
  "is_number_or_text v \<longleftrightarrow> number_that (\<lambda>_. True) v \<or> text_that (\<lambda>_. True) v"

fun passes :: "checks_lib \<Rightarrow> decorator \<Rightarrow> json \<Rightarrow> bool" where
  "passes L IsOptional v \<longleftrightarrow> True"
| "passes L Allow v \<longleftrightarrow> True"
| "passes L IsString v \<longleftrightarrow> text_that (\<lambda>_. True) v"
| "passes L IsNotEmpty v \<longleftrightarrow> v \<noteq> JStr [] \<and> v \<noteq> JNull \<and> v \<noteq> JUndefined"
| "passes L (MinLength n) v \<longleftrightarrow> text_that (\<lambda>x. n \<le> length x) v"
| "passes L (MaxLength n) v \<longleftrightarrow> text_that (\<lambda>x. length x \<le> n) v"
| "passes L (Matches p) v \<longleftrightarrow> text_that (matches_pattern p) v"
| "passes L IsUUID v \<longleftrightarrow> text_that (chk_uuid L) v"
| "passes L IsEmail v \<longleftrightarrow> text_that (chk_email L) v"
| "passes L IsPhoneNumber v \<longleftrightarrow> text_that (chk_phone L) v"
| "passes L IsDateString v \<longleftrightarrow> text_that (chk_date L) v"
| "passes L IsInt v \<longleftrightarrow> (case v of JNum n \<Rightarrow> True | _ \<Rightarrow> False)"
| "passes L (Min_value n) v \<longleftrightarrow> number_that (\<lambda>q. of_int n \<le> q) v"
| "passes L (Max_value n) v \<longleftrightarrow> number_that (\<lambda>q. q \<le> of_int n) v"
| "passes L (IsEnum xs) v \<longleftrightarrow> text_that (\<lambda>x. x \<in> set xs) v"
| "passes L (IsIn xs) v \<longleftrightarrow> text_that (\<lambda>x. x \<in> set xs) v"
| "passes L IsLatitude v \<longleftrightarrow> is_number_or_text v \<and> chk_latitude L v"
| "passes L IsLongitude v \<longleftrightarrow> is_number_or_text v \<and> chk_longitude L v"

definition body_field :: "(string \<times> json) list \<Rightarrow> string \<Rightarrow> json" where
  "body_field body key = (case map_of body key of None \<Rightarrow> JUndefined | Some v \<Rightarrow> v)"

definition nothing_given :: "json \<Rightarrow> bool" where
  "nothing_given v \<longleftrightarrow> v = JNull \<or> v = JUndefined"

definition property_accepted :: "checks_lib \<Rightarrow> (string \<times> json) list \<Rightarrow> dto_property \<Rightarrow> bool" where
  "property_accepted L body p \<longleftrightarrow>
     (let v = body_field body (prop_name p) in
      IsOptional \<in> set (prop_decorators p) \<and> nothing_given v \<or> list_all (\<lambda>d. passes L d v) (prop_decorators p))"

text \<open>
  \<open>ValidationPipe\<close> with \<open>whitelist\<close> and \<open>forbidNonWhitelisted\<close>: a property the class does not have is an error.
\<close>

definition accepts :: "checks_lib \<Rightarrow> dto_class \<Rightarrow> (string \<times> json) list \<Rightarrow> bool" where
  "accepts L cls body \<longleftrightarrow>
     list_all (\<lambda>(key, _). key \<in> prop_name ` set cls) body \<and> list_all (property_accepted L body) cls"


section \<open>Queries of the support routes\<close>

text \<open>
  A query value is a text, or a list when its name is repeated. The conversion makes a number of each text,
  a missing one keeps the default of the class; the search is trimmed and dropped when it is empty or
  not a text.
\<close>

definition integer_param :: "int \<Rightarrow> (int \<Rightarrow> bool) \<Rightarrow> json \<Rightarrow> int option" where
  "integer_param dflt ok v =
     (if nothing_given v then Some dflt
      else case v of
        JStr x \<Rightarrow>
          (case finite_Number x of
             None \<Rightarrow> None
           | Some q \<Rightarrow> if q = of_int \<lfloor>q\<rfloor> \<and> ok \<lfloor>q\<rfloor> then Some \<lfloor>q\<rfloor> else None)
      | _ \<Rightarrow> None)"

definition search_param :: "json \<Rightarrow> string option option" where
  "search_param v =
     (case trimOptionalString (case v of JStr x \<Rightarrow> Some x | _ \<Rightarrow> None) of
        None \<Rightarrow> Some None
      | Some x \<Rightarrow> if length x \<le> 120 then Some (Some x) else None)"

definition read_lookup_query :: "(string \<times> json) list \<Rightarrow> AdminLookupQueryDto option" where
  "read_lookup_query query =
     (if list_all (\<lambda>(key, _). key \<in> {''limit'', ''offset'', ''search''}) query then
        Option.bind (integer_param 25 (\<lambda>n. 1 \<le> n \<and> n \<le> 100) (body_field query ''limit'')) (\<lambda>limit.
        Option.bind (integer_param 0 (\<lambda>n. 0 \<le> n) (body_field query ''offset'')) (\<lambda>offset.
        Option.bind (search_param (body_field query ''search'')) (\<lambda>search.
          Some \<lparr> alq_limit = nat limit, alq_offset = nat offset, alq_search = search \<rparr>)))
      else None)"

section \<open>Bodies as the services see them\<close>

definition text_of :: "json \<Rightarrow> string" where
  "text_of v = (case v of JStr x \<Rightarrow> x | _ \<Rightarrow> [])"

definition opt_text :: "json \<Rightarrow> string option" where
  "opt_text v = (case v of JStr x \<Rightarrow> Some x | _ \<Rightarrow> None)"

definition number_of :: "json \<Rightarrow> js_number" where
  "number_of v = (case v of JNum n \<Rightarrow> IntegerNum n | _ \<Rightarrow> NonIntegerNum)"

definition read_venue_status :: "json \<Rightarrow> VenueTableStatus option" where
  "read_venue_status v =
     (if v = JStr ''ACTIVE'' then Some VenueTableStatus.ACTIVE else if v = JStr ''INACTIVE'' then Some VenueTableStatus.INACTIVE
      else if v = JStr ''MAINTENANCE'' then Some VenueTableStatus.MAINTENANCE else None)"

definition read_table_status :: "json \<Rightarrow> EventTableStatus option" where
  "read_table_status v =
     (if v = JStr ''AVAILABLE'' then Some AVAILABLE else if v = JStr ''HELD'' then Some EventTableStatus.HELD
      else if v = JStr ''UNAVAILABLE'' then Some UNAVAILABLE else None)"

definition read_CreateVenueTableDto :: "(string \<times> json) list \<Rightarrow> CreateVenueTableDto" where
  "read_CreateVenueTableDto body =
     \<lparr> cvd_organizerId = text_of (body_field body ''organizerId''),
       cvd_floorSectionId = opt_text (body_field body ''floorSectionId''), cvd_label = text_of (body_field body ''label''),
       cvd_seatCount = number_of (body_field body ''seatCount''),
       cvd_status = read_venue_status (body_field body ''status'') \<rparr>"

definition read_CreateEventTableDto :: "(string \<times> json) list \<Rightarrow> CreateEventTableDto" where
  "read_CreateEventTableDto body =
     \<lparr> ctd_organizerId = text_of (body_field body ''organizerId''), ctd_eventId = text_of (body_field body ''eventId''),
       ctd_venueTableId = text_of (body_field body ''venueTableId''), ctd_priceMinor = number_of (body_field body ''priceMinor''),
       ctd_currency = text_of (body_field body ''currency''), ctd_status = read_table_status (body_field body ''status'') \<rparr>"

definition read_CreateOrganizerDto :: "(string \<times> json) list \<Rightarrow> CreateOrganizerDto" where
  "read_CreateOrganizerDto body =
     \<lparr> cod_displayName = text_of (body_field body ''displayName''), cod_slug = text_of (body_field body ''slug''),
       cod_description = opt_text (body_field body ''description''), cod_contactEmail = opt_text (body_field body ''contactEmail''),
       cod_contactPhone = opt_text (body_field body ''contactPhone'') \<rparr>"

definition read_LoginDto :: "(string \<times> json) list \<Rightarrow> LoginDto" where
  "read_LoginDto body =
     \<lparr> lgn_email = text_of (body_field body ''email''), lgn_password = text_of (body_field body ''password''),
       lgn_deviceId = text_of (body_field body ''deviceId'') \<rparr>"

definition read_SignupDto :: "(string \<times> json) list \<Rightarrow> SignupDto" where
  "read_SignupDto body =
     \<lparr> sgn_email = text_of (body_field body ''email''), sgn_password = text_of (body_field body ''password''),
       sgn_deviceId = text_of (body_field body ''deviceId'') \<rparr>"

section \<open>Declared types\<close>

definition body_classes :: "dto_class list" where
  "body_classes =
     [LoginDto_class, SignupDto_class, LogoutDto_class, RefreshTokenDto_class, RevokeSessionDto_class, ScanTicketDto_class,
      CreateEventDto_class, UpdateEventDto_class, PublishEventDto_class, CancelEventDto_class, CreateOrganizerDto_class,
      UpdateOrganizerDto_class, SubmitOrganizerDto_class, CreateOrderDto_class, InitiatePaymentDto_class,
      CreateFloorSectionDto_class, CreateVenueTableDto_class, CreateEventTableDto_class, HoldTableDto_class]"

lemmas body_class_defs = body_classes_def LoginDto_class_def SignupDto_class_def LogoutDto_class_def
  RefreshTokenDto_class_def RevokeSessionDto_class_def ScanTicketDto_class_def CreateEventDto_class_def
  UpdateEventDto_class_def PublishEventDto_class_def CancelEventDto_class_def CreateOrganizerDto_class_def
  UpdateOrganizerDto_class_def SubmitOrganizerDto_class_def CreateOrderDto_class_def InitiatePaymentDto_class_def
  CreateFloorSectionDto_class_def CreateVenueTableDto_class_def CreateEventTableDto_class_def HoldTableDto_class_def

definition has_ts_type :: "ts_type \<Rightarrow> json \<Rightarrow> bool" where
  "has_ts_type t v \<longleftrightarrow>
     (case t of
        TString \<Rightarrow> text_that (\<lambda>_. True) v
      | TNumber \<Rightarrow> number_that (\<lambda>_. True) v
      | TOneOf xs \<Rightarrow> text_that (\<lambda>x. x \<in> set xs) v
      | TUnknown \<Rightarrow> True)"

text \<open>What a decorator that lets a value pass tells of its type.\<close>

fun gives_type :: "ts_type \<Rightarrow> decorator \<Rightarrow> bool" where
  "gives_type TUnknown d \<longleftrightarrow> True"
| "gives_type (TOneOf xs) d \<longleftrightarrow> (case d of IsEnum ys \<Rightarrow> set ys \<subseteq> set xs | IsIn ys \<Rightarrow> set ys \<subseteq> set xs | _ \<Rightarrow> False)"
| "gives_type TNumber d \<longleftrightarrow> (case d of IsInt \<Rightarrow> True | Min_value n \<Rightarrow> True | Max_value n \<Rightarrow> True | _ \<Rightarrow> False)"
| "gives_type TString d \<longleftrightarrow>
     (case d of
        IsString \<Rightarrow> True | MinLength n \<Rightarrow> True | MaxLength n \<Rightarrow> True | Matches p \<Rightarrow> True | IsUUID \<Rightarrow> True | IsEmail \<Rightarrow> True
      | IsPhoneNumber \<Rightarrow> True | IsDateString \<Rightarrow> True | IsEnum xs \<Rightarrow> True | IsIn xs \<Rightarrow> True | _ \<Rightarrow> False)"

definition coordinate :: "dto_property \<Rightarrow> bool" where
  "coordinate p \<longleftrightarrow> IsLatitude \<in> set (prop_decorators p) \<or> IsLongitude \<in> set (prop_decorators p)"

text \<open>A property whose decorators are as strict as its declaration, up to coordinates.\<close>

definition well_decorated :: "dto_property \<Rightarrow> bool" where
  "well_decorated p \<longleftrightarrow>
     (coordinate p \<or> list_ex (gives_type (prop_type p)) (prop_decorators p)) \<and>
     (IsOptional \<in> set (prop_decorators p) \<longrightarrow> prop_optional p)"

lemma text_that_mono: "text_that p v \<Longrightarrow> (\<And>x. p x \<Longrightarrow> q x) \<Longrightarrow> text_that q v"
  by (auto simp: text_that_def split: json.splits)

lemma number_that_mono: "number_that p v \<Longrightarrow> (\<And>x. p x \<Longrightarrow> q x) \<Longrightarrow> number_that q v"
  by (auto simp: number_that_def split: json.splits)

lemma gives_type_sound: "gives_type t d \<Longrightarrow> passes L d v \<Longrightarrow> has_ts_type t v"
  by (cases t; cases d)
     (auto simp: has_ts_type_def number_that_def split: json.splits elim!: text_that_mono number_that_mono)

lemma classes_well_decorated: "list_all (list_all well_decorated) body_classes"
  unfolding body_class_defs
  by (simp add: well_decorated_def coordinate_def required_prop_def optional_prop_def)

text \<open>A value of the declared type, or nothing where the property is optional; coordinates may be texts.\<close>

definition conforms :: "(string \<times> json) list \<Rightarrow> dto_property \<Rightarrow> bool" where
  "conforms body p \<longleftrightarrow>
     (let v = body_field body (prop_name p) in
      (if coordinate p then is_number_or_text v else has_ts_type (prop_type p) v) \<or> prop_optional p \<and> nothing_given v)"

lemma accepted_property:
  assumes "property_accepted L body p" and "well_decorated p"
  shows "conforms body p"
proof (cases "IsOptional \<in> set (prop_decorators p) \<and> nothing_given (body_field body (prop_name p))")
  case True
  with assms(2) show ?thesis by (simp add: well_decorated_def conforms_def Let_def)
next
  case False
  with assms(1) have pass: "\<forall>d \<in> set (prop_decorators p). passes L d (body_field body (prop_name p))"
    by (auto simp: property_accepted_def Let_def list_all_iff)
  show ?thesis
  proof (cases "coordinate p")
    case True
    with pass have "is_number_or_text (body_field body (prop_name p))" by (auto simp: coordinate_def)
    with True show ?thesis by (simp add: conforms_def)
  next
    case plain: False
    with assms(2) obtain d where "d \<in> set (prop_decorators p)" "gives_type (prop_type p) d"
      by (auto simp: well_decorated_def list_ex_iff)
    with pass gives_type_sound have "has_ts_type (prop_type p) (body_field body (prop_name p))" by blast
    with plain show ?thesis by (simp add: conforms_def)
  qed
qed

section \<open>Properties\<close>

text \<open>
  C40: What the validation pipe lets through has the types the classes declare: a body it accepts has no
  property the class does not have, and each property of the class holds a value of its declared type, or
  nothing (\<open>null\<close> included) where it is optional. A coordinate, declared as a number, may be a text.
\<close>

theorem accepted_bodies_are_typed:
  assumes "cls \<in> set body_classes" and "accepts L cls body"
  shows "fst ` set body \<subseteq> prop_name ` set cls \<and> list_all (conforms body) cls"
proof
  show "fst ` set body \<subseteq> prop_name ` set cls"
    using assms(2) by (auto simp: accepts_def list_all_iff)
  have "\<forall>p \<in> set cls. well_decorated p" using classes_well_decorated assms(1) by (simp add: list_all_iff)
  moreover have "\<forall>p \<in> set cls. property_accepted L body p" using assms(2) by (simp add: accepts_def list_all_iff)
  ultimately show "list_all (conforms body) cls" unfolding list_all_iff using accepted_property by blast
qed

text \<open>A library that takes every text.\<close>

definition lenient_checks :: checks_lib where
  "lenient_checks = \<lparr> chk_uuid = (\<lambda>_. True), chk_email = (\<lambda>_. True), chk_phone = (\<lambda>_. True), chk_date = (\<lambda>_. True),
     chk_latitude = (\<lambda>_. True), chk_longitude = (\<lambda>_. True) \<rparr>"

definition hold_body :: "(string \<times> json) list" where
  "hold_body = [(''eventTableId'', JStr ''t1''), (''idempotencyKey'', JStr ''k1'')]"

theorem accepted_bodies_are_typed_witness:
  "fst ` set hold_body \<subseteq> prop_name ` set HoldTableDto_class \<and> list_all (conforms hold_body) HoldTableDto_class"
proof (rule accepted_bodies_are_typed)
  show "HoldTableDto_class \<in> set body_classes" by (simp add: body_classes_def)
  show "accepts lenient_checks HoldTableDto_class hold_body" by code_simp
qed

section \<open>What the services can rely on\<close>

lemma accepted_decorators:
  assumes "accepts L cls body" and "p \<in> set cls" and "IsOptional \<notin> set (prop_decorators p)" and "d \<in> set (prop_decorators p)"
  shows "passes L d (body_field body (prop_name p))"
  using assms by (auto simp: accepts_def property_accepted_def Let_def list_all_iff)

text \<open>The three checks of the tables service never refuse a body that was accepted.\<close>

lemma accepted_venue_table:
  assumes "accepts L CreateVenueTableDto_class body"
  shows "\<exists>n. assertSeatCount (cvd_seatCount (read_CreateVenueTableDto body)) = ret n \<and> 1 \<le> n \<and> n \<le> 100"
proof -
  let ?p = "required_prop ''seatCount'' TNumber [IsInt, Min_value 1, Max_value 100]"
  have "?p \<in> set CreateVenueTableDto_class" by (simp add: CreateVenueTableDto_class_def)
  then have "passes L d (body_field body ''seatCount'')" if "d \<in> {IsInt, Min_value 1, Max_value 100}" for d
    using accepted_decorators [OF assms, of ?p d] that by (auto simp: required_prop_def)
  from this [of IsInt] this [of "Min_value 1"] this [of "Max_value 100"] show ?thesis
    by (auto simp: read_CreateVenueTableDto_def number_of_def number_that_def assertSeatCount_def split: json.splits)
qed

lemma upper_not_space: "upper_letter c \<Longrightarrow> \<not> is_js_space c"
  by (auto simp: upper_letter_def is_js_space_def Let_def)

lemma trim_spaceless: "list_all (\<lambda>c. \<not> is_js_space c) x \<Longrightarrow> js_trim x = x"
proof -
  have *: "list_all (\<lambda>c. \<not> is_js_space c) y \<Longrightarrow> dropWhile is_js_space y = y" for y by (cases y) simp_all
  assume "list_all (\<lambda>c. \<not> is_js_space c) x"
  then have "list_all (\<lambda>c. \<not> is_js_space c) (rev x)" by (simp add: list_all_iff)
  with * [of x] * [of "rev x"] \<open>list_all (\<lambda>c. \<not> is_js_space c) x\<close> show ?thesis by (simp add: js_trim_def)
qed

lemma accepted_event_table:
  assumes "accepts L CreateEventTableDto_class body"
  shows "\<exists>n. assertPriceMinor (ctd_priceMinor (read_CreateEventTableDto body)) = ret n \<and> 0 \<le> n \<and> n \<le> 1000000000"
    and "assertCurrency (ctd_currency (read_CreateEventTableDto body)) = ret ()"
proof -
  let ?p = "required_prop ''priceMinor'' TNumber [IsInt, Min_value 0, Max_value 1000000000]"
  let ?q = "required_prop ''currency'' TString [IsString, Matches CurrencyPattern]"
  have pq: "?p \<in> set CreateEventTableDto_class" "?q \<in> set CreateEventTableDto_class"
    by (simp_all add: CreateEventTableDto_class_def)
  have price: "passes L d (body_field body ''priceMinor'')" if "d \<in> {IsInt, Min_value 0, Max_value 1000000000}" for d
    using accepted_decorators [OF assms pq(1), of d] that by (auto simp: required_prop_def)
  have currency: "passes L (Matches CurrencyPattern) (body_field body ''currency'')"
    using accepted_decorators [OF assms pq(2), of "Matches CurrencyPattern"] by (simp add: required_prop_def)
  from price [of IsInt] price [of "Min_value 0"] price [of "Max_value 1000000000"]
  show "\<exists>n. assertPriceMinor (ctd_priceMinor (read_CreateEventTableDto body)) = ret n \<and> 0 \<le> n \<and> n \<le> 1000000000"
    by (auto simp: read_CreateEventTableDto_def number_of_def number_that_def assertPriceMinor_def split: json.splits)
  from currency have "text_that (\<lambda>x. length x = 3 \<and> list_all upper_letter x) (body_field body ''currency'')"
    by (auto simp: matches_pattern_def text_that_def split: json.splits)
  then obtain x where x: "body_field body ''currency'' = JStr x" "length x = 3" "list_all upper_letter x"
    by (auto simp: text_that_def split: json.splits)
  then have "js_trim x = x" using upper_not_space by (intro trim_spaceless) (auto simp: list_all_iff)
  with x show "assertCurrency (ctd_currency (read_CreateEventTableDto body)) = ret ()"
    by (simp add: read_CreateEventTableDto_def text_of_def assertCurrency_def)
qed

text \<open>A slug that was accepted is the slug that is stored: the services lower and trim it.\<close>

lemma slug_char_kept: "slug_char c \<or> c = CHR ''-'' \<Longrightarrow> lower_char c = c \<and> \<not> is_js_space c"
  by (auto simp: slug_char_def lower_char_def is_js_space_def Let_def)

lemma slug_chars: "slug_from b x \<Longrightarrow> list_all (\<lambda>c. lower_char c = c \<and> \<not> is_js_space c) x"
  by (induction b x rule: slug_from.induct) (auto simp: slug_char_kept split: if_splits)

lemma slug_kept: "slug_from b x \<Longrightarrow> js_trim (toLowerCase x) = x"
proof -
  assume "slug_from b x"
  from slug_chars [OF this] have "toLowerCase x = x" "list_all (\<lambda>c. \<not> is_js_space c) x"
    by (auto simp: toLowerCase_def list_all_iff intro: map_idI)
  then show ?thesis by (simp add: trim_spaceless)
qed

lemma accepted_organizer_slug:
  assumes "accepts L CreateOrganizerDto_class body"
    and "Organizers_create E ownerUserId (read_CreateOrganizerDto body) s = (Inr row, s')"
  shows "JStr (org_slug row) = body_field body ''slug''"
proof -
  let ?p = "required_prop ''slug'' TString [IsString, MinLength 3, MaxLength 80, Matches SlugPattern]"
  have "?p \<in> set CreateOrganizerDto_class" by (simp add: CreateOrganizerDto_class_def)
  from accepted_decorators [OF assms(1) this, of "Matches SlugPattern"]
  obtain x where x: "body_field body ''slug'' = JStr x" "slug_from False x"
    by (auto simp: required_prop_def text_that_def matches_pattern_def split: json.splits)
  have "org_slug row = js_trim (toLowerCase (cod_slug (read_CreateOrganizerDto body)))"
    using assms(2) by (auto simp: Organizers_create_def conflict_as_def Organizer_create_def prog_inv split: if_splits)
  with x slug_kept [OF x(2)] show ?thesis by (simp add: read_CreateOrganizerDto_def text_of_def)
qed

text \<open>A query that is read asks for one to a hundred rows.\<close>

lemma lookup_query_bounds:
  assumes "read_lookup_query query = Some q"
  shows "1 \<le> alq_limit q \<and> alq_limit q \<le> 100 \<and>
    (case alq_search q of None \<Rightarrow> True | Some x \<Rightarrow> x \<noteq> [] \<and> length x \<le> 120 \<and> js_trim x = x)"
  using assms
  by (auto simp: read_lookup_query_def integer_param_def search_param_def trimOptionalString_def Option.bind_eq_Some_conv
      js_trim_idem split: if_splits json.splits option.splits)

section \<open>What is let through\<close>

text \<open>
  A password that is longer than 256 characters can be signed up with, but a login with it is refused:
  the account cannot be entered again.
\<close>

definition long_password :: string where
  "long_password = ''Aa1'' @ replicate 254 CHR ''a''"

lemma long_password_locks_out:
  assumes "chk_email L e" and "body = [(''email'', JStr e), (''password'', JStr long_password), (''deviceId'', JStr ''d'')]"
  shows "accepts L SignupDto_class body" and "\<not> accepts L LoginDto_class body"
proof -
  have "upper_letter CHR ''A''" "lower_letter CHR ''a''" "digit_char_at CHR ''1''"
    by (simp_all add: upper_letter_def lower_letter_def digit_char_at_def)
  then have "password_text long_password"
    by (simp add: password_text_def long_password_def list_all_iff)
  then show "accepts L SignupDto_class body"
    using assms
    by (simp add: accepts_def SignupDto_class_def required_prop_def optional_prop_def property_accepted_def body_field_def
        nothing_given_def text_that_def matches_pattern_def long_password_def)
  show "\<not> accepts L LoginDto_class body"
    using assms
    by (simp add: accepts_def LoginDto_class_def required_prop_def property_accepted_def body_field_def text_that_def
        long_password_def)
qed

text \<open>
  \<open>null\<close> passes wherever a property is optional: the visibility of an event, whose column is not nullable,
  and a latitude, of which the service makes a decimal.
\<close>

lemma null_passes:
  assumes "key \<in> {''visibility'', ''category'', ''latitude'', ''longitude''}"
  shows "accepts L UpdateEventDto_class [(key, JNull)]"
  using assms
  by (auto simp: accepts_def UpdateEventDto_class_def optional_prop_def property_accepted_def body_field_def
      nothing_given_def)

text \<open>An amount may have any number of digits, more than its column can hold.\<close>

lemma order_amount_exceeds_column:
  assumes "chk_uuid L i"
  shows "accepts L CreateOrderDto_class
      [(''reservationId'', JStr i), (''totalAmountMinor'', JStr ''9223372036854775808''), (''currency'', JStr ''GHS'')]"
    and "2 ^ 63 \<le> digits_value ''9223372036854775808''"
  using assms
  by (simp_all add: accepts_def CreateOrderDto_class_def required_prop_def property_accepted_def body_field_def
      text_that_def matches_pattern_def digit_char_at_def SUPPORTED_CURRENCIES_values_def digits_value_def)

end
