(* ===== verification/Ticket_Journey.thy ===== *)
theory Ticket_Journey
  imports Ticket_Issuance Payment_Webhooks
begin

text \<open>
  From the payment to the gate: the answer of \<open>issueTicketFromVerifiedPayment\<close> carries the id of the ticket
  and its token, the client shows both as a QR code, and \<open>scanTicket\<close> decides on them. Between the two
  anything may happen that leaves the ticket, the events and the organizers alone.
\<close>

section \<open>What an issued code stands for\<close>

lemma new_ticket_run:
  assumes "issueTicketFromVerifiedPayment E r10 r32 i s = (Inr resp, s1)" and "itr_qrPayload resp = Some (ticketId, token)"
  obtains p e where "find (\<lambda>p. pi_id p = i) (payment_intents s) = Some p" and "pi_status p = PaymentIntentStatus.VERIFIED"
    and "issuing_event p s = Some e" and "issued_row E r10 r32 p e \<in> set (tickets s1)"
    and "ticketId = tkt_id (issued_row E r10 r32 p e)" and "token = base64url r32"
proof (cases "find (\<lambda>p. pi_id p = i) (payment_intents s)")
  case None
  with assms(1) show thesis by (simp add: issue_run issuance_tx_run runInTransaction_def)
next
  case (Some p)
  show thesis
  proof (cases "pi_status p = PaymentIntentStatus.VERIFIED \<and> issuing_event p s \<noteq> None")
    case False
    with Some have "\<exists>out s2. issuance_tx E r10 r32 i s = (Inr out, s2) \<and> (\<exists>m. out = Rejected m \<or> out = Failed m)"
      by (cases "pi_status p = PaymentIntentStatus.VERIFIED") (simp_all add: issuance_tx_run)
    with assms(1) show thesis by (auto simp: issue_run runInTransaction_def)
  next
    case True
    then obtain e where e: "pi_status p = PaymentIntentStatus.VERIFIED" "issuing_event p s = Some e" by auto
    with Some have run: "issuance_tx E r10 r32 i s = issue_verified E r10 r32 p e s" by (simp add: issuance_tx_run)
    have "payment_ticket p s = None \<and> \<not> list_ex (ticket_clash (issued_row E r10 r32 p e)) (tickets s)"
    proof (rule ccontr)
      assume "\<not> ?thesis"
      then consider t where "payment_ticket p s = Some t"
        | "payment_ticket p s = None" "list_ex (ticket_clash (issued_row E r10 r32 p e)) (tickets s)" by fastforce
      then show False
      proof cases
        case 1
        with assms run show False by (auto simp: issue_run issue_verified_run Let_def runInTransaction_def)
      next
        case 2
        obtain err s2 where "after_failed_statement E (recover_ticket p (PrismaClientKnownRequestError ''P2002''))
            (add_til [issuance_row p None ''ticket_issuance_requested'' None] s) = (Inl err, s2)"
          using recover_none [OF 2(1)] by (metis prod.collapse)
        with 2 assms(1) run show False by (simp add: issue_run issue_verified_run Let_def runInTransaction_def)
      qed
    qed
    with assms run have "issued_row E r10 r32 p e \<in> set (tickets s1)" "ticketId = tkt_id (issued_row E r10 r32 p e)"
      "token = base64url r32"
      by (auto simp: issue_run issue_verified_run Let_def runInTransaction_def)
    with Some e that show thesis by blast
  qed
qed

lemma issuing_event_Some:
  assumes "issuing_event p s = Some e"
  obtains host where "find (\<lambda>e. evt_id e = pi_eventId p) (events s) = Some e" and "evt_organizerId e = pi_organizerId p"
    and "find (\<lambda>h. org_id h = evt_organizerId e) (organizers s) = Some host"
  using assms that by (auto simp: issuing_event_def with_organizer_def split: if_splits option.splits)

text \<open>Who may admit with the code of a ticket, and when.\<close>

definition opens_gate :: "env \<Rightarrow> ScanTicketInput \<Rightarrow> Event \<Rightarrow> Organizer \<Rightarrow> bool" where
  "opens_gate E input e host \<longleftrightarrow>
     sti_scannedByUserId input = org_ownerUserId host \<and> sti_eventId input \<in> {None, Some [], Some (evt_id e)} \<and>
     evt_status e = EventStatus.PUBLISHED \<and> app_now E \<le> evt_endsAt e"

lemma issued_admissible:
  assumes "issuing_event p s = Some e" and "sha256 E' = sha256 E" and "sha256 E (base64url r32) \<noteq> []"
    and "sti_token input = base64url r32"
    and "find (\<lambda>h. org_id h = evt_organizerId e) (organizers s) = Some host"
  shows "admissible E' input \<lparr> sv_ticket = issued_row E r10 r32 p e, sv_event = e, sv_ownerUserId = org_ownerUserId host \<rparr> \<longleftrightarrow>
    opens_gate E' input e host"
proof -
  from issuing_event_Some [OF assms(1)] have "evt_organizerId e = pi_organizerId p" "evt_id e = pi_eventId p"
    by (auto dest: find_Some_iff2)
  with assms(2-5) show ?thesis
    by (auto simp: admissible_def issued_row_def Admissions.hashToken_def opens_gate_def Let_def)
qed

lemma find_unique:
  "distinct (map k xs) \<Longrightarrow> x \<in> set xs \<Longrightarrow> find (\<lambda>y. k y = k x) xs = Some x"
  by (induction xs) (auto simp: image_iff)

lemma used_after:
  assumes "t \<in> set (upd_where (\<lambda>t. tkt_id t = i) (\<lambda>t. t\<lparr>tkt_status := TicketStatus.USED, tkt_usedAt := u\<rparr>) ts)"
    and "tkt_id t = i"
  shows "tkt_status t = TicketStatus.USED"
proof -
  from assms(1) have "t \<in> (\<lambda>y. if tkt_id y = i then y\<lparr>tkt_status := TicketStatus.USED, tkt_usedAt := u\<rparr> else y) ` set ts"
    by (simp add: upd_where_def)
  then obtain y where "t = (if tkt_id y = i then y\<lparr>tkt_status := TicketStatus.USED, tkt_usedAt := u\<rparr> else y)" by (rule imageE)
  with assms(2) show ?thesis by (cases "tkt_id y = i") simp_all
qed

lemma issued_code_decided:
  assumes "issueTicketFromVerifiedPayment E r10 r32 i s = (Inr resp, s1)" and "itr_qrPayload resp = Some (ticketId, token)"
    and "unique_tickets s2" and "set (filter (\<lambda>t. tkt_id t = ticketId) (tickets s1)) \<subseteq> set (tickets s2)"
    and "events s2 = events s" and "organizers s2 = organizers s"
    and "sha256 E' = sha256 E" and "sha256 E token \<noteq> []"
    and "sti_ticketId input = ticketId" and "sti_token input = token"
  shows "\<exists>p e host r s3.
    find (\<lambda>p. pi_id p = i) (payment_intents s) = Some p \<and> pi_status p = PaymentIntentStatus.VERIFIED \<and>
    find (\<lambda>e. evt_id e = pi_eventId p) (events s) = Some e \<and>
    find (\<lambda>h. org_id h = evt_organizerId e) (organizers s) = Some host \<and>
    scanTicket E' input s2 = (Inr r, s3) \<and> (asr_accepted r \<longleftrightarrow> opens_gate E' input e host) \<and>
    (asr_accepted r \<longrightarrow> (\<forall>E'' again. sti_ticketId again = ticketId \<longrightarrow>
       (\<exists>r' s4. scanTicket E'' again s3 = (Inr r', s4) \<and> \<not> asr_accepted r')))"
proof -
  from assms(1,2) obtain p e where p: "find (\<lambda>p. pi_id p = i) (payment_intents s) = Some p"
      "pi_status p = PaymentIntentStatus.VERIFIED" "issuing_event p s = Some e"
    and t: "issued_row E r10 r32 p e \<in> set (tickets s1)" "ticketId = tkt_id (issued_row E r10 r32 p e)"
      "token = base64url r32" by (rule new_ticket_run)
  let ?t = "issued_row E r10 r32 p e"
  from p(3) obtain host where e: "find (\<lambda>e. evt_id e = pi_eventId p) (events s) = Some e"
      "find (\<lambda>h. org_id h = evt_organizerId e) (organizers s) = Some host" by (rule issuing_event_Some)
  have "?t \<in> set (tickets s2)" using assms(4) t(1,2) by auto
  from find_unique [OF _ this, of tkt_id] assms(3) have "find (\<lambda>y. tkt_id y = ticketId) (tickets s2) = Some ?t"
    by (simp add: unique_tickets_def t(2))
  moreover have "tkt_eventId ?t = pi_eventId p" by (simp add: issued_row_def)
  ultimately have look: "scan_lookup s2 ticketId = Some \<lparr> sv_ticket = ?t, sv_event = e, sv_ownerUserId = org_ownerUserId host \<rparr>"
    using e assms(5,6) by (simp add: scan_lookup_def)
  from scan_decided [OF assms(3), of E' input] obtain r s3 where scan: "scanTicket E' input s2 = (Inr r, s3)" and
    acc: "asr_accepted r \<longleftrightarrow> (\<exists>v. scan_lookup s2 (sti_ticketId input) = Some v \<and> admissible E' input v)" and
    ts: "tickets s3 = (if asr_accepted r then upd_where (\<lambda>t. tkt_id t = sti_ticketId input)
      (\<lambda>t. t\<lparr>tkt_status := TicketStatus.USED, tkt_usedAt := Some (app_now E')\<rparr>) (tickets s2) else tickets s2)" by blast
  have "asr_accepted r \<longleftrightarrow> opens_gate E' input e host"
    using acc look assms(9,10) issued_admissible [OF p(3) assms(7) _ _ e(2), of r32 input r10] assms(8) t(3) by simp
  moreover have "\<exists>r' s4. scanTicket E'' again s3 = (Inr r', s4) \<and> \<not> asr_accepted r'"
    if "asr_accepted r" "sti_ticketId again = ticketId" for E'' again
  proof -
    have ts': "tickets s3 = upd_where (\<lambda>t. tkt_id t = ticketId)
        (\<lambda>t. t\<lparr>tkt_status := TicketStatus.USED, tkt_usedAt := Some (app_now E')\<rparr>) (tickets s2)"
      using ts that(1) assms(9) by simp
    have "map tkt_id (tickets s3) = map tkt_id (tickets s2)" unfolding ts' by (rule map_key_upd_where) simp
    with assms(3) have "unique_tickets s3" by (simp add: unique_tickets_def)
    moreover have "\<not> admissible E'' again v" if "scan_lookup s3 ticketId = Some v" for v
    proof -
      from scan_lookup_Some [OF that] have "sv_ticket v \<in> set (tickets s3)" "tkt_id (sv_ticket v) = ticketId" by simp_all
      then have "tkt_status (sv_ticket v) = TicketStatus.USED" unfolding ts' by (rule used_after)
      then show ?thesis by (auto simp only: admissible_def Let_def TicketStatus.distinct)
    qed
    ultimately show ?thesis using scan_decided [of s3 E'' again] that(2) by blast
  qed
  ultimately show ?thesis
    by (intro exI [of _ p] exI [of _ e] exI [of _ host] exI [of _ r] exI [of _ s3] conjI p(1,2) e scan) blast+
qed

section \<open>From the delivery to the code\<close>

text \<open>A delivery that confirms a payment leaves the intent VERIFIED, and otherwise as it was.\<close>

lemma confirmed_intent:
  assumes "unique_intents s" and "fresh_event_id E s" and "\<not> known_delivery envelope s" and "env_supported envelope"
    and "delivered_intent envelope s = Some p" and "pi_provider p = env_provider envelope" and "can_transition p"
    and "verify (pi_provider p) (pi_providerReference p) = Inr v" and "verification_matches p v" and "pvr_status v = SUCCESS"
    and "processEnvelope E verify envelope s = (Inr r, s1)"
  shows "find (\<lambda>q. pi_id q = pi_id p) (payment_intents s1) = Some (set_verified (app_now E) (facts_of v) p)"
proof -
  have "settles verify envelope s = Some (p, v, VERIFIED)"
    using assms(4-10) by (simp add: settles_def target_of_def)
  with webhook_decision_run [OF assms(1,2), of verify envelope] assms(3,11)
  have rows: "payment_intents s1 = upd_where (\<lambda>q. pi_id q = pi_id p \<and> can_transition q)
      (set_verified (app_now E) (facts_of v)) (payment_intents s)"
    by (auto simp: settled_intents_def settle_row_def)
  have p: "p \<in> set (payment_intents s)"
    using assms(5) by (auto simp: delivered_intent_def split: option.splits if_splits dest: find_Some_iff2)
  let ?f = "set_verified (app_now E) (facts_of v)"
  have "?f p \<in> set (payment_intents s1)" using p assms(7) unfolding rows upd_where_def by (auto intro!: image_eqI [of _ _ p])
  moreover have "pi_id (?f q) = pi_id q" for q by (simp add: set_verified_def)
  then have "map pi_id (payment_intents s1) = map pi_id (payment_intents s)" unfolding rows by (rule map_key_upd_where)
  with assms(1) have "distinct (map pi_id (payment_intents s1))" by (simp add: unique_intents_def)
  ultimately show ?thesis using find_unique [of pi_id "payment_intents s1" "?f p"] by (simp add: set_verified_def)
qed

lemma verified_keeps:
  "pi_id (set_verified t f p) = pi_id p" "pi_buyerUserId (set_verified t f p) = pi_buyerUserId p"
  "pi_organizerId (set_verified t f p) = pi_organizerId p" "pi_eventId (set_verified t f p) = pi_eventId p"
  "pi_status (set_verified t f p) = PaymentIntentStatus.VERIFIED"
  by (simp_all add: set_verified_def)

lemma same_issuance:
  "issuing_event (set_verified t f p) s = issuing_event p s" "payment_ticket (set_verified t f p) s = payment_ticket p s"
  "issued_row E r10 r32 (set_verified t f p) e = issued_row E r10 r32 p e"
  by (simp_all only: issuing_event_def payment_ticket_def issued_row_def verified_keeps)

lemma confirmed_issues:
  assumes "find (\<lambda>q. pi_id q = i) (payment_intents s) = Some p" and "pi_status p = PaymentIntentStatus.VERIFIED"
    and "issuing_event p s = Some e" and "payment_ticket p s = None"
    and "\<not> list_ex (ticket_clash (issued_row E r10 r32 p e)) (tickets s)"
  shows "\<exists>resp rows. issueTicketFromVerifiedPayment E r10 r32 i s =
      (Inr resp, add_til rows (tickets_update (\<lambda>ts. ts @ [issued_row E r10 r32 p e]) s)) \<and>
    itr_qrPayload resp = Some (uuid E 0, base64url r32)"
proof -
  have "issuance_tx E r10 r32 i s = issue_verified E r10 r32 p e s" using assms(1-3) by (simp add: issuance_tx_run)
  with assms(4,5) show ?thesis
    by (simp add: issue_run issue_verified_run Let_def runInTransaction_def issued_row_def comp_def)
       (rule exI [of _ "[issuance_row p None ''ticket_issuance_requested'' None,
          issuance_row p (Some (uuid E 0)) ''ticket_issued'' None]"], simp add: comp_def)
qed

section \<open>Properties\<close>

text \<open>
  C19: The code handed out with a new ticket opens the gate once. As long as nobody touches the ticket, its
  event and the organizer, a scan of that code is accepted exactly when the owner of the organizer makes it,
  for that event or for none named, while the event is published and not over; after an accepted scan every
  further scan of the ticket is refused.
\<close>

theorem issued_code_admits_once:
  assumes "issueTicketFromVerifiedPayment E r10 r32 i s = (Inr resp, s1)" and "itr_qrPayload resp = Some (ticketId, token)"
    and "unique_tickets s2" and "set (filter (\<lambda>t. tkt_id t = ticketId) (tickets s1)) \<subseteq> set (tickets s2)"
    and "events s2 = events s" and "organizers s2 = organizers s"
    and "sha256 E' = sha256 E" and "sha256 E token \<noteq> []"
    and "sti_ticketId input = ticketId" and "sti_token input = token"
  shows "\<exists>p e host r s3.
    find (\<lambda>p. pi_id p = i) (payment_intents s) = Some p \<and> pi_status p = PaymentIntentStatus.VERIFIED \<and>
    find (\<lambda>e. evt_id e = pi_eventId p) (events s) = Some e \<and>
    find (\<lambda>h. org_id h = evt_organizerId e) (organizers s) = Some host \<and>
    scanTicket E' input s2 = (Inr r, s3) \<and> (asr_accepted r \<longleftrightarrow> opens_gate E' input e host) \<and>
    (asr_accepted r \<longrightarrow> (\<forall>E'' again. sti_ticketId again = ticketId \<longrightarrow>
       (\<exists>r' s4. scanTicket E'' again s3 = (Inr r', s4) \<and> \<not> asr_accepted r')))"
  by (rule issued_code_decided [OF assms])

text \<open>The owner of the organizer scans the code of the example of \<^verbatim>\<open>Ticket_Issuance\<close> at the gate.\<close>

definition ex_code_scan :: ScanTicketInput where
  "ex_code_scan = \<lparr> sti_ticketId = uuid ex_env 0, sti_token = base64url [2], sti_eventId = None,
     sti_scannedByUserId = org_ownerUserId ex_host, sti_deviceId = None, sti_gateLabel = None \<rparr>"

theorem issued_code_admits_once_witness:
  "\<exists>r s3. scanTicket ex_env ex_code_scan (snd (issueTicketFromVerifiedPayment ex_env [1] [2] ''pi1'' (ex_issue_db []))) =
     (Inr r, s3) \<and> asr_accepted r"
proof -
  let ?s1 = "snd (issueTicketFromVerifiedPayment ex_env [1] [2] ''pi1'' (ex_issue_db []))"
  obtain resp where run: "issueTicketFromVerifiedPayment ex_env [1] [2] ''pi1'' (ex_issue_db []) = (Inr resp, ?s1)"
    and code: "itr_qrPayload resp = Some (uuid ex_env 0, base64url [2])"
    unfolding ex_issuance_run by simp
  have rows: "tickets ?s1 = [issued_row ex_env [1] [2] ex_paid_intent ex_event]"
      "events ?s1 = events (ex_issue_db [])" "organizers ?s1 = organizers (ex_issue_db [])"
    unfolding ex_issuance_run by (simp_all add: ex_issue_db_def)
  have "unique_tickets ?s1" by (simp add: unique_tickets_def rows)
  moreover have "set (filter (\<lambda>t. tkt_id t = uuid ex_env 0) (tickets ?s1)) \<subseteq> set (tickets ?s1)" by simp
  moreover have "sha256 ex_env (base64url [2]) \<noteq> []" by (simp add: ex_env_def)
  moreover have "sti_ticketId ex_code_scan = uuid ex_env 0" "sti_token ex_code_scan = base64url [2]"
    by (simp_all add: ex_code_scan_def)
  ultimately obtain e host r s3 where
    e: "find (\<lambda>e. evt_id e = ''e'') (events (ex_issue_db [])) = Some e"
      "find (\<lambda>h. org_id h = evt_organizerId e) (organizers (ex_issue_db [])) = Some host"
    and scan: "scanTicket ex_env ex_code_scan ?s1 = (Inr r, s3)" "asr_accepted r \<longleftrightarrow> opens_gate ex_env ex_code_scan e host"
    using issued_code_admits_once [OF run code _ _ rows(2,3) refl] ex_issue_ready(1)
    by (fastforce simp: ex_paid_intent_def)
  from e have "e = ex_event" "host = ex_host" by (auto simp: ex_issue_defs split: if_splits)
  then have "opens_gate ex_env ex_code_scan e host" by (simp add: opens_gate_def ex_code_scan_def ex_issue_defs)
  with scan show ?thesis by blast
qed

text \<open>
  C18: From the delivery to the gate. When a new delivery names a waiting intent and the provider confirms
  reference, amount and currency, the intent is settled; with the rows of buyer, event and organizer at
  hand and no ticket of that intent or with a number of the new one, issuing answers with a code; and the
  owner of the organizer who scans that code, while the event is published and not over, admits its holder.
\<close>

theorem paid_delivery_reaches_the_gate:
  assumes "unique_intents s" and "fresh_event_id E s" and "\<not> known_delivery envelope s" and "env_supported envelope"
    and "delivered_intent envelope s = Some p" and "pi_provider p = env_provider envelope" and "can_transition p"
    and "verify (pi_provider p) (pi_providerReference p) = Inr v" and "verification_matches p v" and "pvr_status v = SUCCESS"
    and "processEnvelope E verify envelope s = (Inr r, s1)" and "payment_intents s2 = payment_intents s1"
    and "issuing_event p s2 = Some e" and "payment_ticket p s2 = None" and "unique_tickets s2"
    and "\<not> list_ex (ticket_clash (issued_row E2 r10 r32 p e)) (tickets s2)"
    and "sha256 E3 = sha256 E2" and "sha256 E2 (base64url r32) \<noteq> []"
    and "find (\<lambda>h. org_id h = evt_organizerId e) (organizers s2) = Some host"
    and "opens_gate E3 input e host" and "sti_ticketId input = uuid E2 0" and "sti_token input = base64url r32"
  shows "\<exists>resp s3 a s4. issueTicketFromVerifiedPayment E2 r10 r32 (pi_id p) s2 = (Inr resp, s3) \<and>
    itr_qrPayload resp = Some (uuid E2 0, base64url r32) \<and>
    scanTicket E3 input s3 = (Inr a, s4) \<and> asr_accepted a"
proof -
  let ?q = "set_verified (app_now E) (facts_of v) p"
  have q: "find (\<lambda>q. pi_id q = pi_id p) (payment_intents s2) = Some ?q"
    using confirmed_intent [OF assms(1-11)] assms(12) by simp
  have "issuing_event ?q s2 = Some e" "payment_ticket ?q s2 = None"
    "\<not> list_ex (ticket_clash (issued_row E2 r10 r32 ?q e)) (tickets s2)"
    unfolding same_issuance by (fact assms(13), fact assms(14), fact assms(16))
  from confirmed_issues [OF q verified_keeps(5) this] obtain resp rows where
    run: "issueTicketFromVerifiedPayment E2 r10 r32 (pi_id p) s2 =
      (Inr resp, add_til rows (tickets_update (\<lambda>ts. ts @ [issued_row E2 r10 r32 p e]) s2))" and
    code: "itr_qrPayload resp = Some (uuid E2 0, base64url r32)" by (auto simp only: same_issuance)
  let ?s3 = "add_til rows (tickets_update (\<lambda>ts. ts @ [issued_row E2 r10 r32 p e]) s2)"
  have "uuid E2 0 \<notin> tkt_id ` set (tickets s2)"
    using assms(16) by (auto simp: list_ex_iff ticket_clash_def issued_row_def)
  then have uniq: "unique_tickets ?s3" using assms(15) by (simp add: unique_tickets_def issued_row_def)
  have "events ?s3 = events s2" "organizers ?s3 = organizers s2" by simp_all
  from issued_code_decided [OF run code uniq filter_is_subset this assms(17,18,21,22)] obtain p' e' host' a s4 where
    gate: "find (\<lambda>p'. pi_id p' = pi_id p) (payment_intents s2) = Some p'"
      "find (\<lambda>e. evt_id e = pi_eventId p') (events s2) = Some e'"
      "find (\<lambda>h. org_id h = evt_organizerId e') (organizers s2) = Some host'"
      "scanTicket E3 input ?s3 = (Inr a, s4)" "asr_accepted a \<longleftrightarrow> opens_gate E3 input e' host'"
    by (elim exE conjE) (rule that)
  have "p' = ?q" using gate(1) q by simp
  then have "e' = e" using gate(2) issuing_event_Some [OF assms(13)] by (metis option.inject verified_keeps(4))
  moreover from this have "host' = host" using gate(3) assms(19) by simp
  ultimately show ?thesis using run code gate(4,5) assms(20) by blast
qed

text \<open>A delivery of Paystack for the intent of the example, the ticket and the gate.\<close>

definition ex_waiting_intent :: PaymentIntent where
  "ex_waiting_intent = ex_intent\<lparr> pi_organizerId := ''org'', pi_eventId := ''e'' \<rparr>"

definition ex_journey_db :: db where
  "ex_journey_db = (ex_issue_db [])\<lparr> payment_intents := [ex_waiting_intent] \<rparr>"

theorem paid_delivery_reaches_the_gate_witness:
  "\<exists>r s1 resp s3 a s4. processEnvelope (ex_event_env ''w1'') ex_verifier ex_envelope ex_journey_db = (Inr r, s1) \<and>
     issueTicketFromVerifiedPayment ex_env [1] [2] ''pi1'' (ex_journey_db\<lparr> payment_intents := payment_intents s1 \<rparr>) = (Inr resp, s3) \<and>
     scanTicket ex_env ex_code_scan s3 = (Inr a, s4) \<and> asr_accepted a"
proof -
  have u: "unique_intents ex_journey_db" and f: "fresh_event_id (ex_event_env ''w1'') ex_journey_db"
    by (simp_all add: unique_intents_def fresh_event_id_def ex_journey_db_def ex_issue_db_def empty_db_def)
  from webhook_decision_run [OF u f, of ex_verifier ex_envelope] obtain r s1 where
    run: "processEnvelope (ex_event_env ''w1'') ex_verifier ex_envelope ex_journey_db = (Inr r, s1)" by blast
  let ?s2 = "ex_journey_db\<lparr> payment_intents := payment_intents s1 \<rparr>"
  have 1: "\<not> known_delivery ex_envelope ex_journey_db" "env_supported ex_envelope"
    "delivered_intent ex_envelope ex_journey_db = Some ex_waiting_intent"
    "pi_provider ex_waiting_intent = env_provider ex_envelope" "can_transition ex_waiting_intent"
    by (simp_all add: known_delivery_def delivered_intent_def can_transition_def ex_journey_db_def ex_issue_db_def
        ex_waiting_intent_def ex_intent_def ex_envelope_def empty_db_def)
  have 2: "ex_verifier (pi_provider ex_waiting_intent) (pi_providerReference ex_waiting_intent) = Inr ex_confirmed"
    "verification_matches ex_waiting_intent ex_confirmed" "pvr_status ex_confirmed = SUCCESS"
    by (simp_all add: ex_verifier_def verification_matches_def ex_waiting_intent_def ex_intent_def ex_confirmed_def)
  have 3: "issuing_event ex_waiting_intent ?s2 = Some ex_event" "payment_ticket ex_waiting_intent ?s2 = None"
    "unique_tickets ?s2" "\<not> list_ex (ticket_clash (issued_row ex_env [1] [2] ex_waiting_intent ex_event)) (tickets ?s2)"
    by (simp_all add: issuing_event_def with_organizer_def payment_ticket_def unique_tickets_def ex_journey_db_def
        ex_waiting_intent_def ex_issue_defs)
  have 4: "sha256 ex_env (base64url [2]) \<noteq> []"
    "find (\<lambda>h. org_id h = evt_organizerId ex_event) (organizers ?s2) = Some ex_host"
    "opens_gate ex_env ex_code_scan ex_event ex_host" "sti_ticketId ex_code_scan = uuid ex_env 0"
    "sti_token ex_code_scan = base64url [2]" "pi_id ex_waiting_intent = ''pi1''"
    by (simp_all add: opens_gate_def ex_code_scan_def ex_journey_db_def ex_waiting_intent_def ex_issue_defs)
  have "payment_intents ?s2 = payment_intents s1" by simp
  from paid_delivery_reaches_the_gate [OF u f 1 2 run this 3 refl 4(1-5)] run show ?thesis
    unfolding 4(6) by blast
qed

end
