(* ===== verification/Spec2Isabelle.thy ===== *)
theory Spec2Isabelle
  imports Inventory Launch_Control Idempotency Orders Ticket_References Tickets Admissions Payments
    Payment_Intents Payment_Webhooks Event_Catalog Ticket_Issuance
    Payment_Initiation Outbox Tables Access_Control Auth Config Admin_Support
    Text_Encoding Provider_Adapters Http_Errors Request_Context Api Tenancy Schema_Rehearsal
    Redis_Cache Qr_Tokens Telemetry Health Public_Api Payments_Smoke
    Request_Bodies Ticket_Journey
begin

text \<open>
  Verification development of govibe-core, the backend of an event platform: organizers publish events,
  customers reserve places and tables, pay through Paystack or MTN MoMo and get tickets, gates admit them,
  the support team looks things up.

  \<^bold>\<open>The program and how its parts meet.\<close>
  A request passes the middleware of the request context, the guards of its controller, the pipes of its
  arguments, a service that runs repository calls inside transactions of one PostgreSQL database, and
  the error mapper. Services write audit rows and outbox rows in the transaction of the change they
  report; the outbox worker dispatches them later. Payments wait for the word of a provider, which comes
  in by a webhook that the service confirms with a call of its own. Two scripts rehearse a deployment.

  \<^bold>\<open>The model.\<close>
  The database is the record \<open>db\<close> of \<^verbatim>\<open>Schema\<close>: one list of rows per model of \<^verbatim>\<open>prisma/schema.prisma\<close>, in
  the order of insertion, with the columns the code uses. An operation is a \<open>prog\<close> of \<^verbatim>\<open>Govibe_Prelude\<close>: from
  a state to an error or a value and a new state. \<open>bindp\<close>, \<open>seqp\<close>, \<open>catchp\<close>, \<open>throw\<close> and \<open>for_each\<close> are
  \<open>await\<close>, \<open>;\<close>, \<open>try/catch\<close>, \<open>throw\<close> and \<open>for\<close>; \<open>runInTransaction\<close> rolls the state back when its body raises.
  Errors are the constructors of \<open>app_error\<close>, the domain errors and the exceptions of the framework. An
  \<open>env\<close> holds what an operation draws from outside: the two clocks, the generated ids, SHA-256, and whether
  a transaction can be used after a failed statement (\<open>tx_usable_after_error\<close>; PostgreSQL answers no).
  Instants are milliseconds, amounts are integers, texts are lists of 8-bit characters, parsed JSON is the
  datatype \<open>json\<close> of \<^verbatim>\<open>Govibe_Prelude\<close>. Interleavings are sequences of committed operations: an operation
  with several transactions is split where its transactions end, and step relations or lists of steps
  range over what others do in between. The handlers of the events open no transaction: \<^verbatim>\<open>Event_Catalog\<close> splits
  each into what it reads and checks and what it writes, and interleaves the halves of all requests in
  flight. A call of \<^verbatim>\<open>Api\<close> or \<^verbatim>\<open>Public_Api\<close> runs by itself.

  \<^bold>\<open>Theories, by part.\<close>
  \<^item> Foundations: \<^verbatim>\<open>Govibe_Prelude\<close> (programs, errors, \<open>json\<close>, list updates and the locales \<open>db_table\<close>,
    \<open>append_log\<close>, \<open>guarded_update\<close>, \<open>transition_system\<close>), \<^verbatim>\<open>Schema\<close> (rows, unique keys, the transaction
    runner, the audit and outbox appends), \<^verbatim>\<open>Json_Text\<close> and \<^verbatim>\<open>Text_Encoding\<close> (\<open>JSON.stringify\<close> of flat objects,
    \<open>trim\<close>, \<open>toLowerCase\<close>, UUIDs, UTF-8, base64, \<open>encodeURIComponent\<close>).
  \<^item> Places and orders: \<^verbatim>\<open>Inventory\<close> (\<^verbatim>\<open>src/modules/inventory\<close>), \<^verbatim>\<open>Launch_Control\<close>
    (\<^verbatim>\<open>src/shared/launch-control\<close>), \<^verbatim>\<open>Idempotency\<close> (\<^verbatim>\<open>src/modules/idempotency\<close>), \<^verbatim>\<open>Orders\<close>
    (\<^verbatim>\<open>src/modules/orders\<close>), \<^verbatim>\<open>Payments\<close> (\<open>VerifyPaymentUseCase\<close> and the ledger), \<^verbatim>\<open>Ticket_References\<close> and \<^verbatim>\<open>Tickets\<close>
    (\<^verbatim>\<open>src/shared/tickets\<close>, \<open>IssueTicketsUseCase\<close>).
  \<^item> Payment intents: \<^verbatim>\<open>Payment_Initiation\<close> (\<open>PaymentsService\<close>), \<^verbatim>\<open>Payment_Intents\<close> (the repositories),
    \<^verbatim>\<open>Payment_Webhooks\<close> (\<open>PaymentVerificationService\<close>, \<open>WebhookSignatureService\<close>), \<^verbatim>\<open>Provider_Adapters\<close> (the clients of both
    providers), \<^verbatim>\<open>Ticket_Issuance\<close> (\<open>TicketIssuanceService\<close>, \<open>TicketTokenService\<close>).
  \<^item> Gates: \<^verbatim>\<open>Admissions\<close> (\<open>AdmissionsService\<close> and its repositories), \<^verbatim>\<open>Qr_Tokens\<close> (\<^verbatim>\<open>src/shared/security\<close>), \<^verbatim>\<open>Redis_Cache\<close>
    (\<^verbatim>\<open>src/shared/redis\<close>).
  \<^item> Catalogue and tables: \<^verbatim>\<open>Event_Catalog\<close> (\<^verbatim>\<open>src/modules/organizers\<close>, \<^verbatim>\<open>src/modules/events\<close>), \<^verbatim>\<open>Table_Store\<close>,
    \<^verbatim>\<open>Table_Holds\<close>, \<^verbatim>\<open>Tables\<close> (\<^verbatim>\<open>src/modules/tables\<close>).
  \<^item> Users: \<^verbatim>\<open>Access_Control\<close> (permissions and guards), \<^verbatim>\<open>Sessions\<close> (\<open>SessionService\<close>), \<^verbatim>\<open>Auth\<close> (\<open>AuthService\<close>, the token
    service and the strategy, \<^verbatim>\<open>src/users\<close>).
  \<^item> Support: \<^verbatim>\<open>Redaction\<close>, \<^verbatim>\<open>Admin_Support\<close> (\<^verbatim>\<open>src/modules/admin-support\<close>).
  \<^item> Around the services: \<^verbatim>\<open>Config\<close> (\<open>validateConfig\<close>), \<^verbatim>\<open>Request_Context\<close> (middleware, correlation headers, log lines),
    \<^verbatim>\<open>Http_Errors\<close> (mapper and filter), \<^verbatim>\<open>Outbox\<close> (\<^verbatim>\<open>src/shared/outbox\<close>), \<^verbatim>\<open>Telemetry\<close>, \<^verbatim>\<open>Health\<close>.
  \<^item> Whole requests: \<^verbatim>\<open>Api\<close> (every protected route, \<open>serve\<close>), \<^verbatim>\<open>Public_Api\<close> (the routes without authentication,
    \<open>serve_public\<close>), \<^verbatim>\<open>Tenancy\<close> (what holds of all routes), \<^verbatim>\<open>Request_Bodies\<close> (the classes of the bodies
    with their decorators, and the pipe that checks them).
  \<^item> Across services: \<^verbatim>\<open>Ticket_Journey\<close> follows a payment from the delivery of the provider over the issued code
    to the gate.
  \<^item> Scripts: \<^verbatim>\<open>Schema_Rehearsal\<close> (\<^verbatim>\<open>scripts/schema-rehearsal.ts\<close>), \<^verbatim>\<open>Payments_Smoke\<close> (\<^verbatim>\<open>scripts/payments-smoke.ts\<close>).

  Operations keep the names of the code. Where two classes share a method name the class comes first
  (\<open>Order_create\<close>, \<open>Ticket_create\<close>); a long method is cut at its awaits (\<open>hold_tx\<close>, \<open>hold_fresh\<close>). Fields carry a
  prefix of their record (\<open>tkt_status\<close>).

  \<^bold>\<open>What the lemmas show.\<close>
  \<^item> Each service has a theorem that decides every call: the answer and the new rows, on every branch with
    its error (\<open>reserve_decision\<close>, \<open>hold_decision\<close>, \<open>scan_decision\<close>, \<open>login_decision\<close>, \<open>webhook_decision\<close>,
    \<open>protected_calls_are_decided\<close>, \<open>redaction_exact\<close>, \<open>outbox_row_outcome\<close>).
  \<^item> Conditional updates are safe under interleaving: one order per key, one admission per ticket, one
    credit per payment, one settlement per intent, one use per refresh token and per nonce. The locale
    \<open>guarded_update\<close> states the contract once, every race is an interpretation of it.
  \<^item> Reachable states are well formed (\<open>transition_system\<close>): catalogue, sessions, intents, ledger, tables. Of the
    catalogue less holds when requests race (\<open>catalog_reachable\<close>) than when they follow one another
    (\<open>serial_catalog\<close>): the order of the dates can break, a cancelled event can be published again. Nothing
    breaks in a write that finds its event unchanged (\<open>undisturbed_write_keeps_catalog\<close>).
  \<^item> \<open>reserve_refines_spec\<close> relates the cached counters of the inventory to the abstract quantity that is sold
    or held and live. The reference routines (RFC 4648 base32, route labels) are equal to the code's.
  \<^item> Every handler and transaction is a total function, so that returning is no hypothesis. The loops
    whose end is not structural (the bit buffer of the base32 encoder, the segments of a route) have a
    termination proof. The only bounds are those of the code: five attempts of the reference allocator,
    ten deliveries of an outbox row, the batch limits; no fuel is spent elsewhere. \<open>outbox_drains\<close>
    gives the number of batches of one worker that finish a backlog of any length, when nothing is added.
  \<^item> \<open>paid_delivery_reaches_the_gate\<close> composes the webhook, the issuance and the scan; \<open>issued_code_admits_once\<close>
    says exactly when the code of a ticket is accepted. Nothing in the program calls the issuance service.
  \<^item> Round trips: texts in addresses, quoted SQL names, configuration, from a login to a protected route. The life
    of an access token is counted in whole seconds, as the JWT library does (\<open>jwt_lives\<close>).
  \<^item> A signed QR token is accepted exactly when \<open>qr_token_accepted\<close> says; no code writes such tokens.

  \<^bold>\<open>Parameters.\<close>
  Code outside of \<^verbatim>\<open>src\<close> is an argument with its documented behaviour as a named hypothesis: bcrypt and JWT
  (\<open>auth_lib\<close>, \<open>jwt_reads_back\<close>), keyed hashes and the network (\<open>provider_lib\<close>), schema checks and \<open>JSON.parse\<close>
  (\<open>qr_lib\<close>), the URL parser and the processes of the scripts, random bytes, the substring test of the
  database, the formats of the validation library (\<open>checks_lib\<close>, \<open>framework\<close>). Witnesses instantiate each of them.

  \<^bold>\<open>Not modelled.\<close>
  \<^item> Module files, interfaces of repositories, response types and the bootstrap: wiring and types. What a
    route requires by its decorators is in \<^verbatim>\<open>Api\<close>. There a call carries a body that was read already, and a
    refused one is the parameter \<open>bodyError\<close>; which bodies are refused is in \<^verbatim>\<open>Request_Bodies\<close>.
  \<^item> \<open>AsyncLocalStorage\<close>, the console, the Prisma client and its connection, the text format of the metrics:
    libraries. Isolation below a transaction is not modelled: a lock is the read it stands for, and a transaction
    at the default isolation (\<open>getOwnedReservation\<close>) runs alone as well.
  \<^item> Gateways, notifications, fraud checks, offline sync, the identity module, the strategy and the guards under
    \<^verbatim>\<open>src/shared/auth\<close> and the refund and gate-record use cases: empty classes or classes no route uses.
  \<^item> \<open>createdAt\<close> and \<open>updatedAt\<close>, except where the code compares them.
\<close>

end
